(* ===== verification/Prelude.thy ===== *)
theory Prelude
  imports Main "HOL-Library.Word"
begin

text \<open>
  Shared vocabulary of the development: Go's error values and outcomes, the collections of
  facts the component proofs draw on, generic facts on lists and maps, and the counting loop
  \<open>for i := lo; i <= hi; i++\<close> over unsigned 64-bit integers with the conditions under which it
  ends.
\<close>

named_theorems redis_simps "how the documented Redis commands act on a key space"
named_theorems go_simps "evaluation of the modelled Go operations"

type_synonym u64 = "64 word"

section \<open>Errors and outcomes\<close>

text \<open>
  An error value is the text given to \<open>errors.New\<close> or \<open>fmt.Errorf\<close>, or an error wrapped by
  \<open>fmt.Errorf("...: %w", err)\<close>. A call returns a value, returns an error, or panics.
\<close>

datatype goerr = EMsg string | EWrap string goerr

datatype 'a res = Ok 'a | Err goerr | Panic string

fun root_cause :: "goerr \<Rightarrow> string" where
  "root_cause (EMsg m) = m"
| "root_cause (EWrap _ e) = root_cause e"

text \<open>\<open>err.Error()\<close>: the wrapping texts, outermost first, then the message.\<close>

fun err_text :: "goerr \<Rightarrow> string" where
  "err_text (EMsg m) = m"
| "err_text (EWrap m e) = m @ err_text e"

lemma err_text_cause: "\<exists>p. err_text e = p @ root_cause e"
proof (induction e)
  case (EWrap m e)
  then obtain p where "err_text e = p @ root_cause e" ..
  then show ?case by (intro exI [of _ "m @ p"]) simp
qed simp

text \<open>
  The clock, in milliseconds, and what waiting does to the world. Reading the clock takes time, so
  two readings in a row may differ; Go's clock for deadlines is monotonic (\<open>clock_mono\<close>).
\<close>

record 'w clock =
  now_ms :: "'w \<Rightarrow> int \<times> 'w"
  sleep_ms :: "int \<Rightarrow> 'w \<Rightarrow> 'w"

definition clock_mono :: "'w clock \<Rightarrow> bool" where
  "clock_mono c \<longleftrightarrow> (\<forall>w. fst (now_ms c w) \<le> fst (now_ms c (snd (now_ms c w))))"

definition is_ok :: "'a res \<Rightarrow> bool" where
  "is_ok r = (case r of Ok _ \<Rightarrow> True | _ \<Rightarrow> False)"

lemma is_ok_simps [simp]: "is_ok (Ok x)" "\<not> is_ok (Err e)" "\<not> is_ok (Panic p)"
  by (simp_all add: is_ok_def)

lemma is_okE: "is_ok r \<Longrightarrow> (\<And>x. r = Ok x \<Longrightarrow> P) \<Longrightarrow> P"
  by (cases r) auto

section \<open>Lists and maps\<close>

definition del_key :: "'k \<Rightarrow> ('k \<rightharpoonup> 'v) \<Rightarrow> ('k \<rightharpoonup> 'v)" where
  "del_key k m = m(k := None)"

lemma del_key_apply [simp]: "del_key k m x = (if x = k then None else m x)"
  by (simp add: del_key_def)

lemma dom_del_key [simp]: "dom (del_key k m) = dom m - {k}"
  by (auto simp: del_key_def)

lemma remove1_notin: "distinct xs \<Longrightarrow> x \<notin> set (remove1 x xs)"
  by simp

lemma set_remove1_distinct: "distinct xs \<Longrightarrow> set (remove1 x xs) = set xs - {x}"
  by simp

lemma fold_append_log:
  "fold (\<lambda>x acc. acc @ f x) xs acc = acc @ concat (map f xs)"
  by (induction xs arbitrary: acc) auto

section \<open>Range loops with early exit\<close>

text \<open>
  \<open>for x := range xs \{ body \}\<close>: the body either goes on with a new state (\<open>Inr\<close>; a
  \<open>continue\<close> is the state unchanged) or leaves the loop with a result (\<open>Inl\<close>; a \<open>return\<close>, a
  \<open>break\<close> or a panic).
\<close>

fun each :: "('a \<Rightarrow> 's \<Rightarrow> 'r + 's) \<Rightarrow> 'a list \<Rightarrow> 's \<Rightarrow> 'r + 's" where
  "each body [] s = Inr s"
| "each body (x # xs) s = (case body x s of Inl r \<Rightarrow> Inl r | Inr s' \<Rightarrow> each body xs s')"

lemma each_append:
  "each body (xs @ ys) s
     = (case each body xs s of Inl r \<Rightarrow> Inl r | Inr s' \<Rightarrow> each body ys s')"
  by (induction xs arbitrary: s) (auto split: sum.splits)

lemma each_no_exit:
  "(\<And>x s. x \<in> set xs \<Longrightarrow> body x s = Inr (f x s)) \<Longrightarrow> each body xs s = Inr (fold f xs s)"
  by (induction xs arbitrary: s) auto

lemma each_invariant:
  assumes "P s" and "\<And>x s s'. x \<in> set xs \<Longrightarrow> P s \<Longrightarrow> body x s = Inr s' \<Longrightarrow> P s'"
    and "each body xs s = Inr s'"
  shows "P s'"
  using assms by (induction xs arbitrary: s) (auto split: sum.splits)

section \<open>The counting loop over uint64\<close>

text \<open>
  \<open>for h := lo; h <= hi; h++ \{ body \}\<close> with \<open>h\<close> an unsigned 64-bit variable. The increment
  wraps around, so for \<open>hi = 2\<^sup>6\<^sup>4 - 1\<close> the condition never fails and, unless the body leaves the
  loop, it does not end: its value is then \<open>None\<close>.
\<close>

partial_function (option) loop_u64 ::
  "(u64 \<Rightarrow> 's \<Rightarrow> 'r + 's) \<Rightarrow> u64 \<Rightarrow> u64 \<Rightarrow> 's \<Rightarrow> ('r + 's) option" where
  "loop_u64 body lo hi s =
     (if lo \<le> hi then
        (case body lo s of Inl r \<Rightarrow> Some (Inl r) | Inr s' \<Rightarrow> loop_u64 body (lo + 1) hi s')
      else Some (Inr s))"

text \<open>Facts on 64-bit words the loop needs.\<close>

lemma unat_lt64: "unat (x :: u64) < 18446744073709551616"
  using unsigned_less [of x, where ?'a = nat] by simp

lemma unat_of_nat64: "n < 18446744073709551616 \<Longrightarrow> unat (of_nat n :: u64) = n"
  by (simp add: unat_of_nat)

lemma unat_suc64: "(x :: u64) \<noteq> - 1 \<Longrightarrow> unat (x + 1) = Suc (unat x)"
  using unatSuc [of x] by (metis add.commute add_eq_0_iff)

lemma small_not_max:
  assumes "unat (h :: u64) \<le> 2 ^ 53" shows "h \<noteq> - 1"
proof
  assume "h = - 1"
  then have "unat h = 2 ^ 64 - 1" by (simp add: unsigned_minus_1_eq_mask mask_eq_exp_minus_1)
  with assms show False by simp
qed

lemma le_max_u64: "(lo :: u64) \<le> hi \<Longrightarrow> hi \<noteq> - 1 \<Longrightarrow> lo \<noteq> - 1"
  by (metis word_order.extremum_uniqueI)

declare upt_Suc [simp del]

text \<open>The heights the loop visits, in order.\<close>

definition upto_u64 :: "u64 \<Rightarrow> u64 \<Rightarrow> u64 list" where
  "upto_u64 lo hi = map of_nat [unat lo..<Suc (unat hi)]"

lemma upto_u64_empty [simp]: "hi < lo \<Longrightarrow> upto_u64 lo hi = []"
  by (simp add: upto_u64_def word_less_nat_alt)

lemma upto_u64_Cons:
  assumes "lo \<le> hi" and "hi \<noteq> - 1"
  shows "upto_u64 lo hi = lo # upto_u64 (lo + 1) hi"
  using assms unat_suc64 [OF le_max_u64 [OF assms]]
  by (simp add: upto_u64_def word_le_nat_alt upt_conv_Cons)

lemma set_upto_u64: "h \<in> set (upto_u64 lo hi) \<longleftrightarrow> lo \<le> h \<and> h \<le> hi"
proof
  assume "h \<in> set (upto_u64 lo hi)"
  then obtain n where n: "unat lo \<le> n" "n \<le> unat hi" "h = of_nat n"
    unfolding upto_u64_def by fastforce
  moreover have "n < 18446744073709551616" using n(2) unat_lt64 [of hi] by linarith
  then have "unat h = n" using n(3) by (simp add: unat_of_nat64)
  ultimately show "lo \<le> h \<and> h \<le> hi" by (simp add: word_le_nat_alt)
next
  assume "lo \<le> h \<and> h \<le> hi"
  then have "unat h \<in> set [unat lo..<Suc (unat hi)]"
    by (simp add: word_le_nat_alt less_Suc_eq_le)
  then have "of_nat (unat h) \<in> set (upto_u64 lo hi)"
    unfolding upto_u64_def set_map by (rule imageI)
  then show "h \<in> set (upto_u64 lo hi)" by simp
qed

lemma distinct_upto_u64: "distinct (upto_u64 lo hi)"
proof -
  have "inj_on (of_nat :: nat \<Rightarrow> u64) {unat lo..<Suc (unat hi)}"
  proof (rule inj_onI)
    fix a b assume a: "a \<in> {unat lo..<Suc (unat hi)}" and b: "b \<in> {unat lo..<Suc (unat hi)}"
      and eq: "(of_nat a :: u64) = of_nat b"
    have "a < 18446744073709551616" and "b < 18446744073709551616"
      using a b unat_lt64 [of hi] by simp_all
    then show "a = b" using eq unat_of_nat64 by metis
  qed
  then show ?thesis by (simp add: upto_u64_def distinct_map)
qed

lemma length_upto_u64: "length (upto_u64 lo hi) = Suc (unat hi) - unat lo"
  by (simp add: upto_u64_def)

lemma upto_u64_append:
  assumes "a \<le> b" and "b \<le> c" and "b \<noteq> - 1"
  shows "upto_u64 a b @ upto_u64 (b + 1) c = upto_u64 a c"
proof -
  have "[unat a..<Suc (unat b)] @ [Suc (unat b)..<Suc (unat c)] = [unat a..<Suc (unat c)]"
    using assms upt_add_eq_append [of "unat a" "Suc (unat b)" "unat c - unat b"]
    by (simp add: word_le_nat_alt)
  then show ?thesis
    unfolding upto_u64_def by (simp add: unat_suc64 [OF assms(3)] flip: map_append)
qed

text \<open>Below the maximum the loop ends, and it runs its body on each height in order, once.\<close>

lemma loop_u64_each:
  "hi \<noteq> - 1 \<Longrightarrow> loop_u64 body lo hi s = Some (each body (upto_u64 lo hi) s)"
proof (induction "unat hi + 1 - unat lo" arbitrary: lo s)
  case 0
  then have "\<not> lo \<le> hi" and "hi < lo" by (simp_all add: word_le_nat_alt word_less_nat_alt)
  then show ?case by (subst loop_u64.simps) simp
next
  case (Suc n)
  then have le: "lo \<le> hi" by (simp add: word_le_nat_alt)
  with Suc.hyps(2) have "n = unat hi + 1 - unat (lo + 1)"
    by (simp add: unat_suc64 le_max_u64 [OF le Suc.prems])
  with Suc.hyps(1) Suc.prems
  have "loop_u64 body (lo + 1) hi t = Some (each body (upto_u64 (lo + 1) hi) t)" for t by blast
  with le Suc.prems show ?case
    by (subst loop_u64.simps) (simp add: upto_u64_Cons split: sum.splits)
qed

text \<open>At the maximum it does not run to its end.\<close>

lemma loop_u64_max:
  assumes "loop_u64 body lo (- 1) s = Some t" shows "\<exists>r. t = Inl r"
proof -
  have "(- 1 :: u64) = - 1 \<longrightarrow> (\<exists>r. t = Inl r)"
  proof (rule loop_u64.raw_induct [where P = "\<lambda>_ _ hi _ t. hi = - 1 \<longrightarrow> (\<exists>r. t = Inl r)", OF _ assms])
    fix f b u t' and l h :: u64
    assume IH: "\<And>b l h s t. f b l h s = Some t \<Longrightarrow> h = - 1 \<longrightarrow> (\<exists>r. t = Inl r)"
      and eq: "(if l \<le> h then (case b l u of Inl r \<Rightarrow> Some (Inl r) | Inr v \<Rightarrow> f b (l + 1) h v)
                else Some (Inr u)) = Some t'"
    show "h = - 1 \<longrightarrow> (\<exists>r. t' = Inl r)"
    proof
      assume h: "h = - 1"
      have "(case b l u of Inl r \<Rightarrow> Some (Inl r) | Inr v \<Rightarrow> f b (l + 1) h v) = Some t'"
        using eq by (simp add: h word_n1_ge)
      then show "\<exists>r. t' = Inl r" using IH h by (cases "b l u") auto
    qed
  qed
  then show ?thesis by simp
qed

lemma loop_u64_no_exit:
  assumes "loop_u64 body lo hi s = Some t" and "\<And>h u r. body h u \<noteq> Inl r"
  shows "\<exists>u. t = Inr u"
proof -
  have "(\<forall>h u r. body h u \<noteq> Inl r) \<longrightarrow> (\<exists>u. t = Inr u)"
    by (rule loop_u64.raw_induct [where P = "\<lambda>b _ _ _ t. (\<forall>h u r. b h u \<noteq> Inl r) \<longrightarrow> (\<exists>u. t = Inr u)",
          OF _ assms(1)])
      (auto split: if_splits sum.splits, metis)
  with assms(2) show ?thesis by blast
qed

corollary loop_u64_max_None:
  "(\<And>h u r. body h u \<noteq> Inl r) \<Longrightarrow> loop_u64 body lo (- 1) s = None"
  using loop_u64_max [of body lo s] loop_u64_no_exit [of body lo "- 1" s]
  by (cases "loop_u64 body lo (- 1) s") blast+

lemma loop_u64_returns: "hi \<noteq> - 1 \<Longrightarrow> loop_u64 body lo hi s \<noteq> None"
  by (simp add: loop_u64_each)

lemma upto_u64_next: "lo < hi \<Longrightarrow> upto_u64 (lo + 1) hi \<noteq> []"
proof -
  assume less: "lo < hi"
  then have "lo \<noteq> - 1" using word_order.extremum_strict by blast
  with less have "unat (lo + 1) \<le> unat hi" by (simp add: unat_suc64 word_less_nat_alt)
  then show ?thesis by (simp add: upto_u64_def)
qed

text \<open>The heights above \<open>prev\<close> up to \<open>cur\<close>.\<close>

definition heights_after :: "u64 \<Rightarrow> u64 \<Rightarrow> u64 list" where
  "heights_after prev cur = (if prev < cur then upto_u64 (prev + 1) cur else [])"

lemma heights_after_empty [simp]: "cur \<le> prev \<Longrightarrow> heights_after prev cur = []"
  by (simp add: heights_after_def)

lemma less_not_max: "a < b \<Longrightarrow> a \<noteq> - 1" for a b :: u64
  by (metis word_order.extremum_strict)

lemma Suc_le_u64: "a < b \<Longrightarrow> a + 1 \<le> b" for a b :: u64
  using unat_suc64 [OF less_not_max] by (simp add: word_le_nat_alt word_less_nat_alt Suc_le_eq)

lemma heights_after_append:
  assumes "a \<le> b" "b \<le> c"
  shows "heights_after a b @ heights_after b c = heights_after a c"
proof -
  consider "a = b" | "b = c" | "a < b" "b < c" using assms by (metis order_le_less)
  then show ?thesis
  proof cases
    case 3
    from upto_u64_append [OF Suc_le_u64 [OF 3(1)] less_imp_le [OF 3(2)] less_not_max [OF 3(2)]]
      less_trans [OF 3] 3 show ?thesis
      by (simp only: heights_after_def if_True)
  qed simp_all
qed

lemma plus1_le_u64: "a < b \<Longrightarrow> a + 1 \<le> h \<longleftrightarrow> a < h" for a b h :: u64
  using unat_suc64 [OF less_not_max [of a b]]
  by (simp add: word_le_nat_alt word_less_nat_alt Suc_le_eq)

lemma set_heights_after: "set (heights_after a b) = {h. a < h \<and> h \<le> b}"
proof (cases "a < b")
  case True
  have "set (heights_after a b) = {h. a + 1 \<le> h \<and> h \<le> b}"
    by (rule set_eqI) (simp only: heights_after_def True if_True set_upto_u64 mem_Collect_eq)
  then show ?thesis by (simp only: plus1_le_u64 [OF True])
next
  case False
  then have "\<not> (a < h \<and> h \<le> b)" for h by (meson less_le_trans)
  with False show ?thesis by (simp add: heights_after_def)
qed

lemma distinct_heights_after: "distinct (heights_after a b)"
  by (simp add: heights_after_def distinct_upto_u64)

section \<open>Systems of operations with an invariant\<close>

text \<open>
  The states reached by operations whose conditions hold where they are applied. \<open>step\<close> is the
  whole operation; \<open>pre\<close> is what its callers guarantee.
\<close>

inductive reach :: "('op \<Rightarrow> 's \<Rightarrow> 's) \<Rightarrow> ('op \<Rightarrow> 's \<Rightarrow> bool) \<Rightarrow> 's \<Rightarrow> 's \<Rightarrow> bool"
  for step pre s0 where
    reach_init: "reach step pre s0 s0"
  | reach_step: "reach step pre s0 s \<Longrightarrow> pre op s \<Longrightarrow> reach step pre s0 (step op s)"

inductive_cases reachE: "reach step pre s0 s"

locale inv_system =
  fixes step :: "'op \<Rightarrow> 's \<Rightarrow> 's" and pre :: "'op \<Rightarrow> 's \<Rightarrow> bool" and inv :: "'s \<Rightarrow> bool"
  assumes keep: "inv s \<Longrightarrow> pre op s \<Longrightarrow> inv (step op s)"
begin

lemma reachable_inv: "reach step pre s0 s \<Longrightarrow> inv s0 \<Longrightarrow> inv s"
  by (induction rule: reach.induct) (auto intro: keep)

text \<open>A quantity no operation lowers is at least its initial value.\<close>

lemma reachable_mono:
  fixes f :: "'s \<Rightarrow> 'a :: preorder"
  assumes "reach step pre s0 s" "inv s0" "\<And>s op. inv s \<Longrightarrow> pre op s \<Longrightarrow> f s \<le> f (step op s)"
  shows "f s0 \<le> f s"
  using assms(1)
proof (induction rule: reach.induct)
  case (reach_step s op)
  with reachable_inv [OF reach_step(1) assms(2)] assms(3) show ?case by (meson order_trans)
qed simp

end

end
