(* ===== verification/GoStrings.thy ===== *)
theory GoStrings
  imports Prelude
begin

text \<open>
  The part of Go's \<open>strings\<close>, \<open>strconv\<close>, \<open>fmt\<close> and \<open>math/big\<close> packages that the program
  uses on strings: prefixes, substrings, splitting and joining at one character, lower-casing,
  and the decimal and hexadecimal forms of integers. A string is its list of bytes;
  \<open>to_lower\<close> is Go's \<open>strings.ToLower\<close> on ASCII text, which is what addresses, chain symbols
  and hexadecimal numbers are.
\<close>

section \<open>Prefixes and substrings\<close>

definition has_prefix :: "string \<Rightarrow> string \<Rightarrow> bool" where
  "has_prefix s p \<longleftrightarrow> take (length p) s = p"

definition has_suffix :: "string \<Rightarrow> string \<Rightarrow> bool" where
  "has_suffix s p \<longleftrightarrow> length p \<le> length s \<and> drop (length s - length p) s = p"

fun contains :: "string \<Rightarrow> string \<Rightarrow> bool" where
  "contains [] p \<longleftrightarrow> p = []"
| "contains (c # s) p \<longleftrightarrow> has_prefix (c # s) p \<or> contains s p"

lemma has_prefix_append [simp]: "has_prefix (p @ s) p"
  by (simp add: has_prefix_def)

lemma has_prefix_iff: "has_prefix s p \<longleftrightarrow> (\<exists>t. s = p @ t)"
  by (auto simp: has_prefix_def) (metis append_take_drop_id)

lemma has_suffix_append [simp]: "has_suffix (s @ p) p"
  by (simp add: has_suffix_def)

lemma contains_iff: "contains s p \<longleftrightarrow> (\<exists>a b. s = a @ p @ b)"
proof (induction s)
  case (Cons c s)
  show ?case
  proof
    assume "contains (c # s) p"
    then consider "has_prefix (c # s) p" | "contains s p" by auto
    then show "\<exists>a b. c # s = a @ p @ b"
    proof cases
      case 1
      then show ?thesis by (metis append_Nil has_prefix_iff)
    next
      case 2
      then show ?thesis using Cons.IH by (metis append_Cons)
    qed
  next
    assume "\<exists>a b. c # s = a @ p @ b"
    then obtain a b where eq: "c # s = a @ p @ b" by blast
    show "contains (c # s) p"
    proof (cases a)
      case Nil
      with eq have "has_prefix (c # s) p" by (simp add: has_prefix_iff)
      then show ?thesis by simp
    next
      case (Cons x a')
      with eq have "s = a' @ p @ b" by simp
      with Cons.IH show ?thesis by auto
    qed
  qed
qed auto

lemma contains_self_append: "contains (a @ p @ b) p"
  by (auto simp: contains_iff)

lemma contains_mono: "contains s p \<Longrightarrow> contains (a @ s @ b) p"
  unfolding contains_iff by (metis append.assoc)

section \<open>Splitting and joining at a character\<close>

fun split_on :: "char \<Rightarrow> string \<Rightarrow> string list" where
  "split_on c [] = [[]]"
| "split_on c (x # xs) =
     (if x = c then [] # split_on c xs
      else case split_on c xs of [] \<Rightarrow> [[x]] | y # ys \<Rightarrow> (x # y) # ys)"

fun join_with :: "char \<Rightarrow> string list \<Rightarrow> string" where
  "join_with c [] = []"
| "join_with c [x] = x"
| "join_with c (x # y # zs) = x @ c # join_with c (y # zs)"

lemma split_on_not_Nil [simp]: "split_on c s \<noteq> []"
  by (cases s) (auto split: list.splits)

lemma join_split [simp]: "join_with c (split_on c s) = s"
proof (induction s)
  case (Cons x s)
  obtain y ys where yy: "split_on c s = y # ys" by (meson split_on_not_Nil list.exhaust)
  with Cons.IH show ?case by (cases ys) auto
qed simp

lemma split_on_noc: "c \<notin> set s \<Longrightarrow> split_on c s = [s]"
  by (induction s) auto

lemma split_on_append:
  "c \<notin> set x \<Longrightarrow> split_on c (x @ c # s) = x # split_on c s"
  by (induction x) auto

lemma split_join:
  "xs \<noteq> [] \<Longrightarrow> \<forall>x \<in> set xs. c \<notin> set x \<Longrightarrow> split_on c (join_with c xs) = xs"
  by (induction c xs rule: join_with.induct) (auto simp: split_on_noc split_on_append)

lemma join_with_snoc:
  "xs \<noteq> [] \<Longrightarrow> join_with c (xs @ [y]) = join_with c xs @ c # y"
  by (induction c xs rule: join_with.induct) auto

lemma split_on_snoc:
  "c \<notin> set y \<Longrightarrow> split_on c (s @ c # y) = split_on c s @ [y]"
proof (induction s)
  case Nil
  then show ?case by (simp add: split_on_noc)
next
  case (Cons x s)
  obtain z zs where "split_on c s = z # zs" by (meson split_on_not_Nil list.exhaust)
  with Cons show ?case by auto
qed

lemma split_on_parts: "p \<in> set (split_on c s) \<Longrightarrow> c \<notin> set p"
  by (induction s arbitrary: p) (auto split: if_splits list.splits)

text \<open>\<open>strings.Count(s, c)\<close> for one character: one less than the parts it splits into.\<close>

definition count_char :: "char \<Rightarrow> string \<Rightarrow> nat" where
  "count_char c s = count_list s c"

lemma length_split_on: "length (split_on c s) = Suc (count_char c s)"
  by (induction s) (auto simp: count_char_def split: list.splits)

section \<open>Lower case\<close>

definition lower_char :: "char \<Rightarrow> char" where
  "lower_char c = (let n = of_char c :: nat in if 65 \<le> n \<and> n \<le> 90 then char_of (n + 32) else c)"

definition to_lower :: "string \<Rightarrow> string" where
  "to_lower = map lower_char"

lemma lower_char_idem [simp]: "lower_char (lower_char c) = lower_char c"
  by (simp add: lower_char_def Let_def of_char_mod_256)

lemma to_lower_idem [simp]: "to_lower (to_lower s) = to_lower s"
  by (simp add: to_lower_def)

lemma to_lower_Nil [simp]: "to_lower s = [] \<longleftrightarrow> s = []"
  by (simp add: to_lower_def)

section \<open>Integers as text\<close>

fun digits :: "nat \<Rightarrow> nat \<Rightarrow> nat list" where
  "digits b n = (if b < 2 \<or> n < b then [n] else digits b (n div b) @ [n mod b])"

declare digits.simps [simp del]

definition digit_char :: "nat \<Rightarrow> char" where
  "digit_char d = (if d < 10 then char_of (48 + d) else char_of (87 + d))"

definition char_digit :: "char \<Rightarrow> nat option" where
  "char_digit c =
     (let n = of_char c :: nat in
      if 48 \<le> n \<and> n \<le> 57 then Some (n - 48)
      else if 97 \<le> n \<and> n \<le> 122 then Some (n - 87)
      else if 65 \<le> n \<and> n \<le> 90 then Some (n - 55)
      else None)"

definition show_nat :: "nat \<Rightarrow> nat \<Rightarrow> string" where
  "show_nat b n = map digit_char (digits b n)"

text \<open>\<open>%d\<close> and \<open>%x\<close> of a signed integer: a minus sign, then the magnitude.\<close>

definition show_int :: "nat \<Rightarrow> int \<Rightarrow> string" where
  "show_int b i = (if i < 0 then CHR ''-'' # show_nat b (nat (- i)) else show_nat b (nat i))"

fun parse_digits :: "nat \<Rightarrow> nat \<Rightarrow> string \<Rightarrow> nat option" where
  "parse_digits b acc [] = Some acc"
| "parse_digits b acc (c # cs) =
     (case char_digit c of
        Some d \<Rightarrow> if d < b then parse_digits b (acc * b + d) cs else None
      | None \<Rightarrow> None)"

definition parse_nat :: "nat \<Rightarrow> string \<Rightarrow> nat option" where
  "parse_nat b s = (if s = [] then None else parse_digits b 0 s)"

text \<open>\<open>(*big.Int).SetString(s, b)\<close>: an optional sign, then at least one digit.\<close>

definition big_set_string :: "string \<Rightarrow> nat \<Rightarrow> int option" where
  "big_set_string s b =
     (case s of
        [] \<Rightarrow> None
      | c # cs \<Rightarrow>
          if c = CHR ''-'' then map_option (\<lambda>n. - int n) (parse_nat b cs)
          else if c = CHR ''+'' then map_option int (parse_nat b cs)
          else map_option int (parse_nat b s))"

lemma char_digit_digit_char: "d < 36 \<Longrightarrow> char_digit (digit_char d) = Some d"
  by (auto simp: char_digit_def digit_char_def Let_def)

lemma digits_not_Nil [simp]: "digits b n \<noteq> []"
  by (subst digits.simps) simp

lemma digits_less: "2 \<le> b \<Longrightarrow> d \<in> set (digits b n) \<Longrightarrow> d < b"
proof (induction b n rule: digits.induct)
  case (1 b n)
  from 1 show ?case by (subst (asm) digits.simps) (auto split: if_splits)
qed

lemma parse_digits_append:
  "parse_digits b acc (s @ t) = Option.bind (parse_digits b acc s) (\<lambda>a. parse_digits b a t)"
  by (induction s arbitrary: acc) (auto split: option.splits)

lemma parse_digits_show:
  "2 \<le> b \<Longrightarrow> b \<le> 36 \<Longrightarrow> parse_digits b 0 (map digit_char (digits b n)) = Some n"
proof (induction b n rule: digits.induct)
  case (1 b n)
  show ?case
  proof (cases "n < b")
    case True
    with 1 show ?thesis by (subst digits.simps) (simp add: char_digit_digit_char)
  next
    case False
    from 1 have lt: "n mod b < b" by simp
    with 1 have "n mod b < 36" by linarith
    then have "char_digit (digit_char (n mod b)) = Some (n mod b)" by (rule char_digit_digit_char)
    with 1 False lt show ?thesis
      by (subst digits.simps) (simp add: parse_digits_append)
  qed
qed

lemma show_nat_not_Nil [simp]: "show_nat b n \<noteq> []"
  by (simp add: show_nat_def)

theorem parse_show_nat: "2 \<le> b \<Longrightarrow> b \<le> 36 \<Longrightarrow> parse_nat b (show_nat b n) = Some n"
  by (simp add: parse_nat_def parse_digits_show) (simp add: show_nat_def parse_digits_show)

lemma show_nat_inj: "2 \<le> b \<Longrightarrow> b \<le> 36 \<Longrightarrow> show_nat b m = show_nat b n \<Longrightarrow> m = n"
  by (metis option.inject parse_show_nat)

text \<open>The characters of a shown number are digits: none of them is a separator or a sign.\<close>

lemma show_nat_chars:
  assumes "2 \<le> b" "b \<le> 36" "c \<in> set (show_nat b n)"
  shows "char_digit c \<noteq> None"
proof -
  from assms(3) obtain d where "d \<in> set (digits b n)" "c = digit_char d"
    by (auto simp: show_nat_def)
  with assms digits_less [of b d n] show ?thesis by (simp add: char_digit_digit_char)
qed

lemma char_digit_seps [simp]:
  "char_digit (CHR '':'') = None" "char_digit (CHR ''/'') = None"
  "char_digit (CHR ''-'') = None" "char_digit (CHR ''+'') = None"
  by (simp_all add: char_digit_def)

lemma show_nat_no_sep:
  assumes "2 \<le> b" "b \<le> 36" "char_digit c = None"
  shows "c \<notin> set (show_nat b n)"
  using show_nat_chars [OF assms(1,2)] assms(3) by blast

lemma show_int_no_sep:
  assumes "2 \<le> b" "b \<le> 36" "char_digit c = None" "c \<noteq> CHR ''-''"
  shows "c \<notin> set (show_int b i)"
  using show_nat_no_sep [OF assms(1-3)] assms(4) by (simp add: show_int_def)

theorem big_set_string_show_int:
  assumes "2 \<le> b" "b \<le> 36"
  shows "big_set_string (show_int b i) b = Some i"
proof -
  obtain c cs where c: "show_nat b (nat i) = c # cs" by (meson show_nat_not_Nil list.exhaust)
  then have "c \<noteq> CHR ''-''" "c \<noteq> CHR ''+''"
    using show_nat_no_sep [OF assms] char_digit_seps by (metis list.set_intros(1))+
  with c assms parse_show_nat [OF assms, of "nat i"] parse_show_nat [OF assms, of "nat (- i)"]
  show ?thesis by (auto simp: big_set_string_def show_int_def)
qed

end
