(* ===== verification/Floats.thy ===== *)
theory Floats
  imports Complex_Main GoStrings
begin

text \<open>
  Go's \<open>float64\<close>: the finite values are rationals, and each operation is the exact rational
  operation followed by rounding to 53 significant bits, ties to even, with the subnormal
  range and overflow to the infinities. The sign of zero is not represented: where a
  zero is divided by, its sign is an argument. Conversions to integers truncate; Go leaves the result of an out-of-range
  conversion to the implementation, so it is a parameter \<open>oor\<close> here.
\<close>

section \<open>Rounding\<close>

fun nlog2 :: "nat \<Rightarrow> nat" where
  "nlog2 n = (if n < 2 then 0 else Suc (nlog2 (n div 2)))"

declare nlog2.simps [simp del]

definition ilog2 :: "rat \<Rightarrow> int" where
  "ilog2 x = (let (n, d) = quotient_of x; k = int (nlog2 (nat n)) - int (nlog2 (nat d))
              in if 2 powi k \<le> x then k else k - 1)"

definition rne :: "rat \<Rightarrow> int" where
  "rne x = (let f = \<lfloor>x\<rfloor>; d = x - of_int f
            in if d < 1 / 2 then f else if d > 1 / 2 then f + 1
               else if even f then f else f + 1)"

definition round_prec :: "nat \<Rightarrow> int \<Rightarrow> rat \<Rightarrow> rat" where
  "round_prec p emin x =
     (if x = 0 then 0
      else let u = 2 powi (max (ilog2 \<bar>x\<bar> - int p + 1) emin) in of_int (rne (x / u)) * u)"

lemma nlog2_bounds: "0 < n \<Longrightarrow> 2 ^ nlog2 n \<le> n \<and> n < 2 ^ Suc (nlog2 n)"
proof (induction n rule: nlog2.induct)
  case (1 n)
  show ?case
  proof (cases "n < 2")
    case True
    with 1 show ?thesis by (subst (1 2) nlog2.simps) auto
  next
    case False
    with 1 have "2 ^ nlog2 (n div 2) \<le> n div 2" "n div 2 < 2 ^ Suc (nlog2 (n div 2))" by auto
    with False show ?thesis by (subst (1 2) nlog2.simps) auto
  qed
qed

lemma ilog2_bounds:
  assumes "0 < x"
  shows "2 powi ilog2 x \<le> x \<and> x < 2 powi (ilog2 x + 1)"
proof -
  obtain n d where q: "quotient_of x = (n, d)" by (metis surj_pair)
  then have d: "0 < d" by (rule quotient_of_denom_pos)
  have x: "x = of_int n / of_int d" by (rule quotient_of_div [OF q])
  with assms d have n: "0 < n" by (simp add: zero_less_divide_iff)
  define a b where "a = nlog2 (nat n)" and "b = nlog2 (nat d)"
  have ra: "(2 :: rat) ^ a \<le> of_int n" "of_int n < (2 :: rat) ^ Suc a"
  proof -
    from nlog2_bounds [of "nat n"] n have "2 ^ a \<le> nat n" "nat n < 2 ^ Suc a"
      by (auto simp: a_def)
    then have "2 ^ a \<le> n" "n < 2 ^ Suc a"
      using n by (metis int_nat_eq of_nat_le_iff of_nat_numeral of_nat_power order_less_imp_le,
          metis int_nat_eq of_nat_less_iff of_nat_numeral of_nat_power order_less_imp_le)
    then show "(2 :: rat) ^ a \<le> of_int n" "of_int n < (2 :: rat) ^ Suc a"
      by (metis of_int_le_iff of_int_numeral of_int_power,
          metis of_int_less_iff of_int_numeral of_int_power)
  qed
  have rb: "(2 :: rat) ^ b \<le> of_int d" "of_int d < (2 :: rat) ^ Suc b"
  proof -
    from nlog2_bounds [of "nat d"] d have "2 ^ b \<le> nat d" "nat d < 2 ^ Suc b"
      by (auto simp: b_def)
    then have "2 ^ b \<le> d" "d < 2 ^ Suc b"
      using d by (metis int_nat_eq of_nat_le_iff of_nat_numeral of_nat_power order_less_imp_le,
          metis int_nat_eq of_nat_less_iff of_nat_numeral of_nat_power order_less_imp_le)
    then show "(2 :: rat) ^ b \<le> of_int d" "of_int d < (2 :: rat) ^ Suc b"
      by (metis of_int_le_iff of_int_numeral of_int_power,
          metis of_int_less_iff of_int_numeral of_int_power)
  qed
  have lo: "2 powi (int a - int b - 1) \<le> x"
  proof -
    have "2 powi (int a - int b - 1) * of_int d \<le> 2 powi (int a - int b - 1) * (2 :: rat) ^ Suc b"
      using rb(2) by (intro mult_left_mono) auto
    also have "\<dots> = 2 ^ a" by (simp add: power_int_diff)
    also have "\<dots> \<le> of_int n" by (rule ra(1))
    finally show ?thesis using d by (simp add: x pos_le_divide_eq)
  qed
  have hi: "x < 2 powi (int a - int b + 1)"
  proof -
    have "of_int n < (2 :: rat) ^ Suc a" by (rule ra(2))
    also have "\<dots> = 2 powi (int a - int b + 1) * 2 ^ b"
      by (simp add: power_int_add power_int_diff)
    also have "\<dots> \<le> 2 powi (int a - int b + 1) * of_int d"
      using rb(1) by (intro mult_left_mono) auto
    finally show ?thesis using d by (simp add: x pos_divide_less_eq)
  qed
  show ?thesis using lo hi by (auto simp: ilog2_def q a_def b_def Let_def)
qed

lemma div_mult_cancel_rat: "(u :: rat) \<noteq> 0 \<Longrightarrow> x / u * u = x"
  by simp

lemma powi2_less_imp: "(2 :: rat) powi m < 2 powi n \<Longrightarrow> m < n"
  using power_int_increasing [of n m "2 :: rat"] by force

lemma rne_of_int [simp]: "rne (of_int i) = i"
  by (simp add: rne_def)

text \<open>An integer of magnitude at most \<open>2\<^sup>5\<^sup>3\<close> is not changed by rounding to 53 bits.\<close>

lemma round_prec_int:
  assumes "\<bar>i\<bar> \<le> 2 ^ 53"
  shows "round_prec 53 (- 1074) (of_int i) = of_int i"
proof (cases "i = 0")
  case False
  define e where "e = ilog2 \<bar>of_int i :: rat\<bar>"
  from False have pos: "0 < \<bar>of_int i :: rat\<bar>" by simp
  have b: "2 powi e \<le> \<bar>of_int i :: rat\<bar>" "\<bar>of_int i :: rat\<bar> < 2 powi (e + 1)"
    using ilog2_bounds [OF pos] by (simp_all add: e_def)
  have "1 \<le> \<bar>i\<bar>" using False by linarith
  then have "(of_int 1 :: rat) \<le> of_int \<bar>i\<bar>" by (simp only: of_int_le_iff)
  with b(2) have "(2 :: rat) powi 0 < 2 powi (e + 1)" by simp
  then have e0: "0 \<le> e" using powi2_less_imp [of 0 "e + 1"] by linarith
  have le: "\<bar>of_int i :: rat\<bar> \<le> 2 powi 53"
    using assms by (metis of_int_abs of_int_le_iff of_int_numeral of_int_power power_int_numeral)
  with b(1) have "(2 :: rat) powi e \<le> 2 powi 53" by linarith
  then have e53: "e \<le> 53" using power_int_strict_increasing [of 53 e "2 :: rat"] by force
  have "\<exists>k. of_int i / 2 powi (e - 52) = (of_int k :: rat)"
  proof (cases "e = 53")
    case True
    with b(1) le have "\<bar>of_int i :: rat\<bar> = 2 ^ 53" by simp
    then have "of_int i / (2 :: rat) = of_int (sgn i * 2 ^ 52)"
      by (cases "0 \<le> i") (auto simp: abs_if sgn_if split: if_splits)
    with True have "of_int i / 2 powi (e - 52) = (of_int (sgn i * 2 ^ 52) :: rat)" by simp
    then show ?thesis by blast
  next
    case False
    with e53 have "(2 :: rat) powi (52 - e) = 2 ^ nat (52 - e)" by (simp add: power_int_def)
    moreover have "(2 :: rat) powi (e - 52) = inverse (2 powi (52 - e))"
      by (metis minus_diff_eq power_int_minus)
    ultimately have "of_int i / 2 powi (e - 52) = (of_int (i * 2 ^ nat (52 - e)) :: rat)"
      by (simp only: divide_inverse inverse_inverse_eq of_int_mult of_int_power of_int_numeral)
    then show ?thesis by blast
  qed
  then obtain k where k: "of_int i / 2 powi (e - 52) = (of_int k :: rat)" ..
  have m: "max (e - int 53 + 1) (- 1074) = e - 52" using e0 by linarith
  have nz: "(of_int i :: rat) \<noteq> 0" using False by simp
  have u: "(2 :: rat) powi (e - 52) \<noteq> 0" by simp
  have "round_prec 53 (- 1074) (of_int i)
          = of_int (rne (of_int i / 2 powi (e - 52))) * 2 powi (e - 52)"
    unfolding round_prec_def e_def [symmetric] Let_def m by (simp only: nz if_False)
  also have "\<dots> = of_int i / 2 powi (e - 52) * 2 powi (e - 52)"
    by (simp only: k rne_of_int)
  also have "\<dots> = of_int i" by (rule div_mult_cancel_rat [OF u])
  finally show ?thesis .
qed (simp add: round_prec_def)

text \<open>Nor is an integer of at most \<open>p\<close> bits by rounding to \<open>p\<close> bits.\<close>

lemma round_prec_int_bits:
  assumes "\<bar>i\<bar> < 2 ^ p" "emin \<le> 0"
  shows "round_prec p emin (of_int i) = of_int i"
proof (cases "i = 0")
  case False
  define e where "e = ilog2 \<bar>of_int i :: rat\<bar>"
  define m where "m = max (e - int p + 1) emin"
  have "2 powi e \<le> \<bar>of_int i :: rat\<bar>" using ilog2_bounds [of "\<bar>of_int i :: rat\<bar>"] False
    by (simp add: e_def)
  also have "\<dots> < of_int (2 ^ p)" using assms(1) by (simp only: of_int_abs [symmetric] of_int_less_iff)
  also have "(of_int (2 ^ p) :: rat) = 2 powi int p" by simp
  finally have "e < int p" by (rule powi2_less_imp)
  with assms(2) have "m \<le> 0" by (simp add: m_def)
  then have "(2 :: rat) powi (- m) = 2 ^ nat (- m)" by (simp add: power_int_def)
  then have u: "(2 :: rat) powi m = inverse (2 ^ nat (- m))" by (metis minus_minus power_int_minus)
  have k: "of_int i / 2 powi m = (of_int (i * 2 ^ nat (- m)) :: rat)"
    unfolding u by (simp only: divide_inverse inverse_inverse_eq of_int_mult of_int_power of_int_numeral)
  have "round_prec p emin (of_int i) = of_int (rne (of_int i / 2 powi m)) * 2 powi m"
    unfolding round_prec_def e_def [symmetric] m_def [symmetric] Let_def using False by simp
  also have "\<dots> = of_int i / 2 powi m * 2 powi m" unfolding k by (simp only: rne_of_int)
  finally show ?thesis by simp
qed (simp add: round_prec_def)

section \<open>Values and operations\<close>

datatype f64 = Fin rat | PInf | NInf | NaN

definition f64_of_rat :: "rat \<Rightarrow> f64" where
  "f64_of_rat r = (let y = round_prec 53 (- 1074) r
                   in if 2 ^ 1024 \<le> y then PInf else if y \<le> - (2 ^ 1024) then NInf else Fin y)"

definition f64_of_int :: "int \<Rightarrow> f64" where
  "f64_of_int i = f64_of_rat (of_int i)"

lemma f64_of_int_exact:
  assumes "\<bar>i\<bar> \<le> 2 ^ 53"
  shows "f64_of_int i = Fin (of_int i)"
proof -
  have "\<bar>of_int i :: rat\<bar> \<le> of_int (2 ^ 53)"
    using assms by (simp only: of_int_abs [symmetric] of_int_le_iff)
  also have "\<dots> < 2 ^ 1024" by simp
  finally have "\<bar>of_int i :: rat\<bar> < 2 ^ 1024" .
  then have "\<not> 2 ^ 1024 \<le> (of_int i :: rat)" and "\<not> (of_int i :: rat) \<le> - (2 ^ 1024)"
    by (simp_all only: abs_less_iff not_le minus_less_iff)
  then show ?thesis
    unfolding f64_of_int_def f64_of_rat_def round_prec_int [OF assms] Let_def
    by (simp only: if_False)
qed

definition trunc_rat :: "rat \<Rightarrow> int" where
  "trunc_rat r = (if 0 \<le> r then \<lfloor>r\<rfloor> else - \<lfloor>- r\<rfloor>)"

definition u64_of_f64 :: "(f64 \<Rightarrow> u64) \<Rightarrow> f64 \<Rightarrow> u64" where
  "u64_of_f64 oor x =
     (case x of
        Fin r \<Rightarrow> if 0 \<le> trunc_rat r \<and> trunc_rat r < 2 ^ 64 then of_int (trunc_rat r) else oor x
      | _ \<Rightarrow> oor x)"

definition i64_of_f64 :: "(f64 \<Rightarrow> int) \<Rightarrow> f64 \<Rightarrow> int" where
  "i64_of_f64 oor x =
     (case x of
        Fin r \<Rightarrow> if - (2 ^ 63) \<le> trunc_rat r \<and> trunc_rat r < 2 ^ 63 then trunc_rat r else oor x
      | _ \<Rightarrow> oor x)"

lemma trunc_rat_of_int [simp]: "trunc_rat (of_int i) = i"
  by (simp add: trunc_rat_def)

text \<open>A height up to \<open>2\<^sup>5\<^sup>3\<close> survives the conversion to \<open>float64\<close> and back.\<close>

lemma u64_f64_roundtrip:
  assumes "unat h \<le> 2 ^ 53"
  shows "u64_of_f64 oor (f64_of_int (uint h)) = h"
proof -
  have "uint h = int (unat h)" by simp
  also have "\<dots> \<le> 2 ^ 53" using assms by (metis of_nat_le_iff of_nat_numeral of_nat_power)
  finally have le: "uint h \<le> 2 ^ 53" .
  then have "f64_of_int (uint h) = Fin (of_int (uint h))"
    by (intro f64_of_int_exact) simp
  moreover have "uint h < 2 ^ 64"
    using le by (rule order_le_less_trans) simp
  ultimately show ?thesis
    by (simp only: u64_of_f64_def f64.case trunc_rat_of_int uint_ge_0 simp_thms if_True
        word_of_int_uint)
qed

fun f64_add :: "f64 \<Rightarrow> f64 \<Rightarrow> f64" where
  "f64_add (Fin a) (Fin b) = f64_of_rat (a + b)"
| "f64_add NaN _ = NaN"
| "f64_add _ NaN = NaN"
| "f64_add PInf NInf = NaN"
| "f64_add NInf PInf = NaN"
| "f64_add PInf _ = PInf"
| "f64_add NInf _ = NInf"
| "f64_add _ PInf = PInf"
| "f64_add _ NInf = NInf"

definition f64_inf :: "bool \<Rightarrow> f64" where
  "f64_inf neg = (if neg then NInf else PInf)"

fun f64_neg_sign :: "f64 \<Rightarrow> bool" where
  "f64_neg_sign (Fin a) = (a < 0)"
| "f64_neg_sign NInf = True"
| "f64_neg_sign _ = False"

fun f64_mul :: "f64 \<Rightarrow> f64 \<Rightarrow> f64" where
  "f64_mul (Fin a) (Fin b) = f64_of_rat (a * b)"
| "f64_mul NaN _ = NaN"
| "f64_mul _ NaN = NaN"
| "f64_mul x y =
     (if x = Fin 0 \<or> y = Fin 0 then NaN else f64_inf (f64_neg_sign x \<noteq> f64_neg_sign y))"

definition f64_sub :: "f64 \<Rightarrow> f64 \<Rightarrow> f64" where
  "f64_sub x y = f64_add x (case y of Fin b \<Rightarrow> Fin (- b) | PInf \<Rightarrow> NInf | NInf \<Rightarrow> PInf | NaN \<Rightarrow> NaN)"

text \<open>Division; \<open>neg0\<close> is the sign of a divisor that is zero.\<close>

fun f64_div :: "bool \<Rightarrow> f64 \<Rightarrow> f64 \<Rightarrow> f64" where
  "f64_div neg0 (Fin a) (Fin b) =
     (if b \<noteq> 0 then f64_of_rat (a / b) else if a = 0 then NaN else f64_inf ((a < 0) \<noteq> neg0))"
| "f64_div neg0 NaN _ = NaN"
| "f64_div neg0 _ NaN = NaN"
| "f64_div neg0 (Fin a) _ = Fin 0"
| "f64_div neg0 x (Fin b) = f64_inf ((x = NInf) \<noteq> (if b = 0 then neg0 else b < 0))"
| "f64_div neg0 _ _ = NaN"

fun f64_lt :: "f64 \<Rightarrow> f64 \<Rightarrow> bool" where
  "f64_lt (Fin a) (Fin b) = (a < b)"
| "f64_lt NaN _ = False"
| "f64_lt _ NaN = False"
| "f64_lt NInf y = (y \<noteq> NInf)"
| "f64_lt x PInf = (x \<noteq> PInf)"
| "f64_lt _ _ = False"

definition f64_eq :: "f64 \<Rightarrow> f64 \<Rightarrow> bool" where
  "f64_eq x y \<longleftrightarrow> x = y \<and> x \<noteq> NaN"

lemma f64_eq_zero [simp]: "f64_eq x (Fin 0) \<longleftrightarrow> x = Fin 0"
  by (auto simp: f64_eq_def)

section \<open>Rounding twice\<close>

text \<open>The result of a rounding is a multiple \<open>k\<close> of a power of two, \<open>k\<close> of at most 53 bits; rounding it again
  changes nothing.\<close>

lemma rne_between: "of_int a \<le> x \<Longrightarrow> x \<le> of_int b \<Longrightarrow> a \<le> rne x \<and> rne x \<le> b"
proof -
  assume "of_int a \<le> x" "x \<le> of_int b"
  then have "a \<le> \<lfloor>x\<rfloor>" "\<lfloor>x\<rfloor> \<le> b" by (simp_all add: le_floor_iff floor_le_iff)
  moreover have "\<lfloor>x\<rfloor> < b" if "x \<noteq> of_int \<lfloor>x\<rfloor>"
  proof -
    have "of_int \<lfloor>x\<rfloor> < x" using that of_int_floor_le [of x] by linarith
    with \<open>x \<le> of_int b\<close> have "(of_int \<lfloor>x\<rfloor> :: rat) < of_int b" by linarith
    then show ?thesis by simp
  qed
  ultimately show ?thesis
    by (cases "x = of_int \<lfloor>x\<rfloor>") (auto simp: rne_def Let_def)
qed

lemma round_prec_form:
  assumes "x \<noteq> 0"
  obtains k m where "round_prec 53 (- 1074) x = of_int k * 2 powi m" "\<bar>k\<bar> \<le> 2 ^ 53" "- 1074 \<le> m"
proof -
  define m where "m = max (ilog2 \<bar>x\<bar> - 53 + 1) (- 1074)"
  have "\<bar>x\<bar> < 2 powi (ilog2 \<bar>x\<bar> + 1)" using ilog2_bounds [of "\<bar>x\<bar>"] assms by simp
  also have "\<dots> \<le> 2 powi (m + 53)" by (intro power_int_increasing) (simp_all add: m_def)
  also have "\<dots> = 2 powi m * 2 ^ 53" by (simp add: power_int_add)
  finally have "\<bar>x\<bar> / 2 powi m < 2 ^ 53" by (simp add: pos_divide_less_eq mult.commute)
  then have "- (2 ^ 53) \<le> x / 2 powi m" "x / 2 powi m \<le> 2 ^ 53"
    by (simp_all add: abs_if field_split_simps split: if_splits)
  with rne_between [of "- (2 ^ 53)" "x / 2 powi m" "2 ^ 53"] have "\<bar>rne (x / 2 powi m)\<bar> \<le> 2 ^ 53"
    by (simp add: abs_le_iff)
  moreover have "round_prec 53 (- 1074) x = of_int (rne (x / 2 powi m)) * 2 powi m"
    using assms by (simp add: round_prec_def m_def Let_def)
  moreover have "- 1074 \<le> m" by (simp add: m_def)
  ultimately show ?thesis using that by blast
qed

lemma round_prec_fixed:
  assumes "\<bar>k\<bar> \<le> 2 ^ 53" "- 1074 \<le> m"
  shows "round_prec 53 (- 1074) (of_int k * 2 powi m) = of_int k * 2 powi m"
proof (cases "k = 0")
  case False
  define q :: rat where "q = of_int k * 2 powi m"
  from False have q: "q \<noteq> 0" "0 < \<bar>q\<bar>" by (simp_all add: q_def)
  define e where "e = ilog2 \<bar>q\<bar>"
  define n where "n = max (e - 53 + 1) (- 1074)"
  have lo: "2 powi e \<le> \<bar>q\<bar>" using ilog2_bounds [OF q(2)] by (simp add: e_def)
  have aq: "\<bar>q\<bar> = of_int \<bar>k\<bar> * 2 powi m" by (simp add: q_def abs_mult)
  have "\<exists>i. q / 2 powi n = of_int i"
  proof (cases "\<bar>k\<bar> = 2 ^ 53")
    case True
    then have "\<bar>q\<bar> = 2 powi (m + 53)" by (simp add: aq power_int_add)
    also have "\<dots> < 2 powi (m + 54)" by (simp add: power_int_add)
    finally have "e \<le> m + 53" using lo powi2_less_imp [of e "m + 54"] by force
    with assms(2) have nm: "n \<le> m + 1" by (simp add: n_def)
    from True have "k = 2 ^ 53 \<or> k = - (2 ^ 53)" by linarith
    then have "k = 2 * (k div 2)" by auto
    then have "(of_int k :: rat) = 2 * of_int (k div 2)" by (metis of_int_mult of_int_numeral)
    then have "q / 2 powi n = of_int (k div 2) * 2 powi (m + 1 - n)"
      by (simp add: q_def power_int_diff power_int_add)
    moreover have "(2 :: rat) powi (m + 1 - n) = of_int (2 ^ nat (m + 1 - n))"
      using nm by (simp add: power_int_def)
    ultimately show ?thesis by (metis of_int_mult)
  next
    case False
    with assms(1) have "\<bar>k\<bar> < 2 ^ 53" by simp
    then have "(of_int \<bar>k\<bar> :: rat) < of_int (2 ^ 53)" by (simp only: of_int_less_iff)
    then have "\<bar>q\<bar> < 2 powi (m + 53)" by (simp add: aq power_int_add)
    with lo have "e < m + 53" using powi2_less_imp [of e "m + 53"] by force
    with assms(2) have "n \<le> m" by (simp add: n_def)
    then have "q / 2 powi n = of_int k * 2 powi (m - n)" by (simp add: q_def power_int_diff)
    moreover have "(2 :: rat) powi (m - n) = of_int (2 ^ nat (m - n))"
      using \<open>n \<le> m\<close> by (simp add: power_int_def)
    ultimately show ?thesis by (metis of_int_mult)
  qed
  then obtain i where i: "q / 2 powi n = of_int i" ..
  have "round_prec 53 (- 1074) q = of_int (rne (q / 2 powi n)) * 2 powi n"
    using q by (simp add: round_prec_def n_def e_def Let_def)
  also have "\<dots> = q / 2 powi n * 2 powi n" by (simp only: i rne_of_int)
  finally show ?thesis by (simp add: q_def)
qed (simp add: round_prec_def)

lemma f64_of_rat_idem:
  assumes "f64_of_rat r = Fin q"
  shows "f64_of_rat q = Fin q"
proof (cases "r = 0")
  case False
  from assms have q: "q = round_prec 53 (- 1074) r" "\<not> 2 ^ 1024 \<le> q" "\<not> q \<le> - (2 ^ 1024)"
    unfolding f64_of_rat_def Let_def by (metis f64.distinct f64.inject)+
  obtain k m where "q = of_int k * 2 powi m" "\<bar>k\<bar> \<le> 2 ^ 53" "- 1074 \<le> m"
    using round_prec_form [OF False] q(1) by metis
  then have "round_prec 53 (- 1074) q = q" using round_prec_fixed by blast
  with q(2,3) show ?thesis by (simp add: f64_of_rat_def)
next
  case True
  with assms show ?thesis by (auto simp: f64_of_rat_def round_prec_def split: if_splits)
qed

end
