(* ===== verification/GoValue.thy ===== *)
theory GoValue
  imports Floats "HOL-Library.AList"
begin

text \<open>
  The dynamic values the program passes as \<open>interface\{\}\<close>, and \<open>encoding/json\<close> at the level of
  JSON trees: a byte string that is a JSON text is represented by the tree it encodes
  (\<open>Enc\<close>), any other byte string by itself (\<open>Raw\<close>). Marshalling fails on the values JSON has
  no text for; unmarshalling into \<open>interface\{\}\<close> turns every number into a \<open>float64\<close>.
\<close>

datatype gval =
    VNil
  | VBool bool
  | VInt int
  | VInt64 int
  | VUint64 u64
  | VFloat f64
  | VStr string
  | VNumber string
  | VList "gval list"
  | VMap "(string \<times> gval) list"

datatype json =
    JNull
  | JBool bool
  | JNum rat
  | JStr string
  | JArr "json list"
  | JObj "(string \<times> json) list"

datatype blob = Enc json | Raw string

section \<open>Numbers as text\<close>

text \<open>\<open>strconv.ParseInt(s, 10, 64)\<close>, which is also \<open>json.Number.Int64\<close>.\<close>

definition parse_int64 :: "string \<Rightarrow> int option" where
  "parse_int64 s =
     (case big_set_string s 10 of
        Some i \<Rightarrow> if - (2 ^ 63) \<le> i \<and> i < 2 ^ 63 then Some i else None
      | None \<Rightarrow> None)"

text \<open>The value of a JSON number literal: sign, integer part, fraction, exponent.\<close>

definition is_digit :: "char \<Rightarrow> bool" where
  "is_digit c = (case char_digit c of Some d \<Rightarrow> d < 10 | None \<Rightarrow> False)"

definition json_number :: "string \<Rightarrow> rat option" where
  "json_number s =
     (let (neg, s1) = (case s of CHR ''-'' # t \<Rightarrow> (True, t) | _ \<Rightarrow> (False, s));
          ip = takeWhile is_digit s1; s2 = dropWhile is_digit s1;
          (fp, s3) = (case s2 of
             CHR ''.'' # t \<Rightarrow> (takeWhile is_digit t, dropWhile is_digit t) | _ \<Rightarrow> ([], s2));
          ex = (case s3 of [] \<Rightarrow> Some 0
             | c # t \<Rightarrow> if c = CHR ''e'' \<or> c = CHR ''E'' then big_set_string t 10 else None)
      in case (parse_nat 10 (ip @ fp), ex) of
           (Some n, Some e) \<Rightarrow>
             if ip = [] then None
             else Some ((if neg then - of_nat n else of_nat n) * 10 powi (e - int (length fp)))
         | _ \<Rightarrow> None)"

section \<open>Marshalling\<close>

fun to_json :: "gval \<Rightarrow> json option" where
  "to_json VNil = Some JNull"
| "to_json (VBool b) = Some (JBool b)"
| "to_json (VInt i) = Some (JNum (of_int i))"
| "to_json (VInt64 i) = Some (JNum (of_int i))"
| "to_json (VUint64 u) = Some (JNum (of_int (uint u)))"
| "to_json (VFloat x) = (case x of Fin r \<Rightarrow> Some (JNum r) | _ \<Rightarrow> None)"
| "to_json (VStr s) = Some (JStr s)"
| "to_json (VNumber s) = map_option JNum (json_number s)"
| "to_json (VList vs) = map_option JArr (those (map to_json vs))"
| "to_json (VMap kvs) =
     map_option JObj (those (map (\<lambda>(k, v). map_option (Pair k) (to_json v)) kvs))"

fun from_json :: "json \<Rightarrow> gval option" where
  "from_json JNull = Some VNil"
| "from_json (JBool b) = Some (VBool b)"
| "from_json (JNum r) = (case f64_of_rat r of Fin q \<Rightarrow> Some (VFloat (Fin q)) | _ \<Rightarrow> None)"
| "from_json (JStr s) = Some (VStr s)"
| "from_json (JArr js) = map_option VList (those (map from_json js))"
| "from_json (JObj kjs) =
     map_option (\<lambda>kvs. VMap (fold (\<lambda>(k, v). AList.update k v) kvs []))
       (those (map (\<lambda>(k, j). map_option (Pair k) (from_json j)) kjs))"

text \<open>What a value has become once it has been marshalled and unmarshalled again.\<close>

definition json_norm :: "gval \<Rightarrow> gval option" where
  "json_norm v = Option.bind (to_json v) from_json"

definition json_lookup :: "(string \<times> json) list \<Rightarrow> string \<Rightarrow> json option" where
  "json_lookup kjs k = map_of (rev kjs) k"

definition vlookup :: "gval \<Rightarrow> string \<Rightarrow> gval option" where
  "vlookup v k = (case v of VMap kvs \<Rightarrow> map_of kvs k | _ \<Rightarrow> None)"

lemma json_norm_uint64:
  assumes "unat h \<le> 2 ^ 53"
  shows "json_norm (VUint64 h) = Some (VFloat (f64_of_int (uint h)))"
proof -
  have "uint h = int (unat h)" by simp
  also have "\<dots> \<le> 2 ^ 53" using assms by (metis of_nat_le_iff of_nat_numeral of_nat_power)
  finally have "\<bar>uint h\<bar> \<le> 2 ^ 53" by simp
  from f64_of_int_exact [OF this] show ?thesis
    by (simp add: json_norm_def f64_of_int_def)
qed

lemma f64_of_rat_numeral [simp]:
  "numeral n \<le> (2 ^ 53 :: int) \<Longrightarrow> f64_of_rat (numeral n) = Fin (numeral n)"
  using f64_of_int_exact [of "numeral n"] by (simp add: f64_of_int_def)

lemma json_norm_simps [simp]:
  "json_norm VNil = Some VNil"
  "json_norm (VBool b) = Some (VBool b)"
  "json_norm (VStr s) = Some (VStr s)"
  by (simp_all add: json_norm_def)

section \<open>Decoding into structs\<close>

text \<open>
  \<open>json.Unmarshal\<close> into a struct field: an absent or null member leaves the zero value, a member
  of another kind is an error (\<open>None\<close>). An integer field takes a number that is an integer of its
  range.
\<close>

definition jmember :: "json \<Rightarrow> string \<Rightarrow> json option" where
  "jmember j k =
     (case j of
        JObj kjs \<Rightarrow> (case json_lookup kjs k of Some JNull \<Rightarrow> None | r \<Rightarrow> r)
      | _ \<Rightarrow> None)"

definition jstruct :: "json \<Rightarrow> bool" where
  "jstruct j = (case j of JObj _ \<Rightarrow> True | JNull \<Rightarrow> True | _ \<Rightarrow> False)"

definition int_of_rat :: "rat \<Rightarrow> int option" where
  "int_of_rat r = (let i = \<lfloor>r\<rfloor> in if of_int i = r then Some i else None)"

lemma int_of_rat_simps [simp]:
  "int_of_rat (of_int i) = Some i"
  "int_of_rat (unsigned (u :: u64)) = Some (uint u)"
proof -
  show 1: "int_of_rat (of_int i) = Some i" for i by (simp add: int_of_rat_def)
  show "int_of_rat (unsigned u) = Some (uint u)" using 1 [of "uint u"] by simp
qed

definition jstr :: "json \<Rightarrow> string \<Rightarrow> string option" where
  "jstr j k = (case jmember j k of None \<Rightarrow> Some [] | Some (JStr s) \<Rightarrow> Some s | _ \<Rightarrow> None)"

definition jbool :: "json \<Rightarrow> string \<Rightarrow> bool option" where
  "jbool j k = (case jmember j k of None \<Rightarrow> Some False | Some (JBool b) \<Rightarrow> Some b | _ \<Rightarrow> None)"

definition jint :: "int \<Rightarrow> int \<Rightarrow> json \<Rightarrow> string \<Rightarrow> int option" where
  "jint lo hi j k =
     (case jmember j k of
        None \<Rightarrow> Some 0
      | Some (JNum r) \<Rightarrow>
          (case int_of_rat r of Some i \<Rightarrow> if lo \<le> i \<and> i < hi then Some i else None | None \<Rightarrow> None)
      | _ \<Rightarrow> None)"

definition ju64 :: "json \<Rightarrow> string \<Rightarrow> u64 option" where
  "ju64 j k = map_option of_int (jint 0 (2 ^ 64) j k)"

definition ji64 :: "json \<Rightarrow> string \<Rightarrow> int option" where
  "ji64 = jint (- (2 ^ 63)) (2 ^ 63)"

definition jf64 :: "json \<Rightarrow> string \<Rightarrow> f64 option" where
  "jf64 j k =
     (case jmember j k of
        None \<Rightarrow> Some (Fin 0)
      | Some (JNum r) \<Rightarrow> (case f64_of_rat r of Fin q \<Rightarrow> Some (Fin q) | _ \<Rightarrow> None)
      | _ \<Rightarrow> None)"

definition jlist :: "(json \<Rightarrow> 'a option) \<Rightarrow> json \<Rightarrow> string \<Rightarrow> 'a list option" where
  "jlist dec j k =
     (case jmember j k of
        None \<Rightarrow> Some [] | Some (JArr js) \<Rightarrow> those (map dec js) | _ \<Rightarrow> None)"

definition jmember_struct :: "json \<Rightarrow> string \<Rightarrow> json option" where
  "jmember_struct j k =
     (case jmember j k of
        None \<Rightarrow> Some JNull | Some (JObj m) \<Rightarrow> Some (JObj m) | _ \<Rightarrow> None)"

text \<open>\<open>json.Unmarshal\<close> into a string: \<open>null\<close> leaves it empty.\<close>

definition dec_json_str :: "json \<Rightarrow> string option" where
  "dec_json_str j = (case j of JStr s \<Rightarrow> Some s | JNull \<Rightarrow> Some [] | _ \<Rightarrow> None)"

section \<open>Heights\<close>

text \<open>
  The type switch every block monitor applies to a cached height: absent data and values of an
  unexpected type leave the height at zero.
\<close>

definition cached_height :: "(f64 \<Rightarrow> u64) \<Rightarrow> gval \<Rightarrow> u64" where
  "cached_height oor v =
     (case v of
        VFloat x \<Rightarrow> u64_of_f64 oor x
      | VInt i \<Rightarrow> of_int i
      | VUint64 u \<Rightarrow> u
      | VNumber s \<Rightarrow> (case parse_int64 s of Some i \<Rightarrow> of_int i | None \<Rightarrow> 0)
      | _ \<Rightarrow> 0)"

lemma cached_height_Nil [simp]: "cached_height oor VNil = 0"
  by (simp add: cached_height_def)

lemma cached_height_roundtrip:
  assumes "unat h \<le> 2 ^ 53" and "json_norm (VUint64 h) = Some v"
  shows "cached_height oor v = h"
  using assms(2) u64_f64_roundtrip [OF assms(1), of oor]
  by (auto simp: json_norm_uint64 [OF assms(1)] cached_height_def)

end
