(* ===== verification/Mongo.thy ===== *)
theory Mongo
  imports GoValue "HOL-Library.Char_ord" "HOL-Library.List_Lexorder"
begin

text \<open>
  MongoDB is an external service: the program sees it through the driver, which is a parameter of
  the model (\<open>mdo\<close>, acting on an arbitrary world). What MongoDB documents of the commands the program
  uses is \<open>mongo_spec\<close>, on a store that maps a collection to its documents in natural order; the
  hypothesis \<open>mongo_ok\<close> says that the driver behaves as documented and that no command fails in
  transport. How a regular expression matches is a parameter \<open>re\<close> of that. Where MongoDB leaves an
  order open (documents that sort alike, the groups of an aggregation) the store's order is taken.
\<close>

datatype bval =
    BNull
  | BBool bool
  | BInt int
  | BDbl f64
  | BStr string
  | BId string
  | BTime int
  | BArr "bval list"
  | BDoc "(string \<times> bval) list"

type_synonym bdoc = "(string \<times> bval) list"

type_synonym mstore = "string \<Rightarrow> bdoc list"

datatype mfilter =
    FEq string bval
  | FIn string "bval list"
  | FRegex string string
  | FExists string bool
  | FAll "mfilter list"
  | FAny "mfilter list"
  | FNot mfilter
  | FPathEq "string list" bval
  | FPathGe "string list" bval

datatype mstage =
    SMatch mfilter
  | SLookup string string string string
  | SUnwind string
  | SGroupCount "string list"
  | SDrop string

datatype mcmd =
    MFind string mfilter
  | MFindSorted string mfilter string bool
  | MAggregate string "mstage list"
  | MFindOne string mfilter
  | MCount string mfilter
  | MUpdateOne string mfilter bdoc
  | MInsert string bdoc

datatype mreply = MErr goerr | MDocs "bdoc list" | MNum nat

record 'w mongo =
  mdo :: "mcmd \<Rightarrow> 'w \<Rightarrow> mreply \<times> 'w"

section \<open>Order of values\<close>

text \<open>Values are ordered by kind first; within the kinds the program sorts by, in the usual way.\<close>

datatype bkind = KNull | KNum | KStr | KDoc | KArr | KId | KBool | KTime

fun kind_rank :: "bkind \<Rightarrow> nat" where
  "kind_rank KNull = 0"
| "kind_rank KNum = 1"
| "kind_rank KStr = 2"
| "kind_rank KDoc = 3"
| "kind_rank KArr = 4"
| "kind_rank KId = 5"
| "kind_rank KBool = 6"
| "kind_rank KTime = 7"

lemma kind_rank_inject: "kind_rank a = kind_rank b \<Longrightarrow> a = b"
  by (cases a; cases b) simp_all

instantiation bkind :: linorder
begin

definition less_eq_bkind :: "bkind \<Rightarrow> bkind \<Rightarrow> bool" where
  "a \<le> b \<longleftrightarrow> kind_rank a \<le> kind_rank b"

definition less_bkind :: "bkind \<Rightarrow> bkind \<Rightarrow> bool" where
  "a < b \<longleftrightarrow> kind_rank a < kind_rank b"

instance
  by intro_classes (auto simp: less_eq_bkind_def less_bkind_def intro: kind_rank_inject)

end

fun kind_of :: "bval \<Rightarrow> bkind" where
  "kind_of BNull = KNull"
| "kind_of (BBool _) = KBool"
| "kind_of (BInt _) = KNum"
| "kind_of (BDbl _) = KNum"
| "kind_of (BStr _) = KStr"
| "kind_of (BId _) = KId"
| "kind_of (BTime _) = KTime"
| "kind_of (BArr _) = KArr"
| "kind_of (BDoc _) = KDoc"

definition bval_le :: "bval \<Rightarrow> bval \<Rightarrow> bool" where
  "bval_le a b =
     (if kind_of a \<noteq> kind_of b then kind_of a < kind_of b
      else case (a, b) of
        (BStr s, BStr t) \<Rightarrow> s \<le> t
      | (BId s, BId t) \<Rightarrow> s \<le> t
      | (BTime s, BTime t) \<Rightarrow> s \<le> t
      | (BInt s, BInt t) \<Rightarrow> s \<le> t
      | (BBool s, BBool t) \<Rightarrow> s \<le> t
      | _ \<Rightarrow> True)"

fun insert_doc :: "(bdoc \<Rightarrow> bdoc \<Rightarrow> bool) \<Rightarrow> bdoc \<Rightarrow> bdoc list \<Rightarrow> bdoc list" where
  "insert_doc le d [] = [d]"
| "insert_doc le d (x # xs) = (if le d x then d # x # xs else x # insert_doc le d xs)"

definition sort_docs :: "string \<Rightarrow> bool \<Rightarrow> bdoc list \<Rightarrow> bdoc list" where
  "sort_docs k asc ds =
     (let key = (\<lambda>d. case map_of d k of Some v \<Rightarrow> v | None \<Rightarrow> BNull)
      in foldr (insert_doc (\<lambda>d e. if asc then bval_le (key d) (key e) else bval_le (key e) (key d))) ds [])"

lemma set_insert_doc [simp]: "set (insert_doc le d xs) = insert d (set xs)"
  by (induction xs) auto

lemma length_insert_doc [simp]: "length (insert_doc le d xs) = Suc (length xs)"
  by (induction xs) auto

lemma set_sort_docs [simp]: "set (sort_docs k asc ds) = set ds"
  by (induction ds) (simp_all add: sort_docs_def)

lemma length_sort_docs [simp]: "length (sort_docs k asc ds) = length ds"
  by (induction ds) (simp_all add: sort_docs_def)

section \<open>Conditions\<close>

text \<open>A condition on a field holds of its value or, for an array, of one of its elements.\<close>

definition field_vals :: "(string \<rightharpoonup> bval) \<Rightarrow> string \<Rightarrow> bval list" where
  "field_vals d k = (case d k of None \<Rightarrow> [] | Some (BArr vs) \<Rightarrow> BArr vs # vs | Some v \<Rightarrow> [v])"

text \<open>
  The values a dotted path leads to; at an array it goes on in each element.
\<close>

fun path_in :: "string list \<Rightarrow> bval \<Rightarrow> bval list" where
  "path_in [] v = (case v of BArr vs \<Rightarrow> v # vs | _ \<Rightarrow> [v])"
| "path_in (k # ks) v =
     (case v of
        BDoc d \<Rightarrow> (case map_of d k of None \<Rightarrow> [] | Some u \<Rightarrow> path_in ks u)
      | BArr vs \<Rightarrow> concat (map (\<lambda>e. case e of
            BDoc d \<Rightarrow> (case map_of d k of None \<Rightarrow> [] | Some u \<Rightarrow> path_in ks u)
          | _ \<Rightarrow> []) vs)
      | _ \<Rightarrow> [])"

definition path_vals :: "(string \<rightharpoonup> bval) \<Rightarrow> string list \<Rightarrow> bval list" where
  "path_vals d p = (case p of [] \<Rightarrow> [] | k # ks \<Rightarrow> (case d k of None \<Rightarrow> [] | Some v \<Rightarrow> path_in ks v))"

fun matches :: "(string \<Rightarrow> string \<Rightarrow> bool) \<Rightarrow> mfilter \<Rightarrow> (string \<rightharpoonup> bval) \<Rightarrow> bool" where
  "matches re (FEq k v) d \<longleftrightarrow> v \<in> set (field_vals d k) \<or> (v = BNull \<and> d k = None)"
| "matches re (FIn k vs) d \<longleftrightarrow> list_ex (\<lambda>v. v \<in> set (field_vals d k)) vs"
| "matches re (FRegex k p) d \<longleftrightarrow> list_ex (\<lambda>v. case v of BStr s \<Rightarrow> re p s | _ \<Rightarrow> False) (field_vals d k)"
| "matches re (FExists k b) d \<longleftrightarrow> (d k \<noteq> None) = b"
| "matches re (FAll fs) d \<longleftrightarrow> list_all (\<lambda>f. matches re f d) fs"
| "matches re (FAny fs) d \<longleftrightarrow> list_ex (\<lambda>f. matches re f d) fs"
| "matches re (FNot f) d \<longleftrightarrow> \<not> matches re f d"
| "matches re (FPathEq p v) d \<longleftrightarrow> v \<in> set (path_vals d p)"
| "matches re (FPathGe p v) d \<longleftrightarrow> list_ex (\<lambda>u. kind_of u = kind_of v \<and> bval_le v u) (path_vals d p)"

text \<open>The stages of an aggregation: filter, join with another collection, one document per joined
  element, count by a key, remove a field.\<close>

definition joined :: "string \<Rightarrow> string \<Rightarrow> bdoc \<Rightarrow> bdoc \<Rightarrow> bool" where
  "joined lf ff d e =
     list_ex (\<lambda>v. v \<in> set (field_vals (map_of e) ff) \<or> (v = BNull \<and> map_of e ff = None))
       (case map_of d lf of None \<Rightarrow> [BNull] | Some (BArr vs) \<Rightarrow> vs | Some v \<Rightarrow> [v])"

definition group_key :: "string list \<Rightarrow> bdoc \<Rightarrow> bval" where
  "group_key p d = (case path_vals (map_of d) p of [] \<Rightarrow> BNull | v # _ \<Rightarrow> v)"

fun run_stage :: "(string \<Rightarrow> string \<Rightarrow> bool) \<Rightarrow> mstore \<Rightarrow> mstage \<Rightarrow> bdoc list \<Rightarrow> bdoc list" where
  "run_stage re m (SMatch f) ds = filter (\<lambda>d. matches re f (map_of d)) ds"
| "run_stage re m (SLookup from lf ff as) ds =
     map (\<lambda>d. AList.update as (BArr (map BDoc (filter (joined lf ff d) (m from)))) d) ds"
| "run_stage re m (SUnwind k) ds = concat (map (\<lambda>d.
     case map_of d k of
       None \<Rightarrow> []
     | Some BNull \<Rightarrow> []
     | Some (BArr vs) \<Rightarrow> map (\<lambda>v. AList.update k v d) vs
     | Some _ \<Rightarrow> [d]) ds)"
| "run_stage re m (SGroupCount p) ds =
     map (\<lambda>v. [(''_id'', v), (''count'', BInt (int (length (filter (\<lambda>d. group_key p d = v) ds))))])
       (remdups (map (group_key p) ds))"
| "run_stage re m (SDrop k) ds = map (AList.delete k) ds"

definition dup_key :: goerr where
  "dup_key = EMsg ''E11000 duplicate key error''"

definition set_fields :: "bdoc \<Rightarrow> bdoc \<Rightarrow> bdoc" where
  "set_fields us d = fold (\<lambda>(k, v). AList.update k v) us d"

text \<open>Change the first element that satisfies a condition.\<close>

fun update_first :: "('a \<Rightarrow> bool) \<Rightarrow> ('a \<Rightarrow> 'a) \<Rightarrow> 'a list \<Rightarrow> 'a list" where
  "update_first P f [] = []"
| "update_first P f (x # xs) = (if P x then f x # xs else x # update_first P f xs)"

fun mongo_spec :: "(string \<Rightarrow> string \<Rightarrow> bool) \<Rightarrow> mcmd \<Rightarrow> mstore \<Rightarrow> mreply \<times> mstore" where
  "mongo_spec re (MFind c f) m = (MDocs (filter (\<lambda>d. matches re f (map_of d)) (m c)), m)"
| "mongo_spec re (MFindOne c f) m = (MDocs (take 1 (filter (\<lambda>d. matches re f (map_of d)) (m c))), m)"
| "mongo_spec re (MCount c f) m = (MNum (length (filter (\<lambda>d. matches re f (map_of d)) (m c))), m)"
| "mongo_spec re (MUpdateOne c f us) m =
     (MNum (min 1 (length (filter (\<lambda>d. matches re f (map_of d)) (m c)))),
      m(c := update_first (\<lambda>d. matches re f (map_of d)) (set_fields us) (m c)))"
| "mongo_spec re (MFindSorted c f k asc) m =
     (MDocs (sort_docs k asc (filter (\<lambda>d. matches re f (map_of d)) (m c))), m)"
| "mongo_spec re (MAggregate c ss) m = (MDocs (fold (run_stage re m) ss (m c)), m)"
| "mongo_spec re (MInsert c d) m =
     (if \<exists>e \<in> set (m c). map_of e ''_id'' = map_of d ''_id'' then (MErr dup_key, m)
      else (MNum 1, m(c := m c @ [d])))"

definition mongo_ok :: "(string \<Rightarrow> string \<Rightarrow> bool) \<Rightarrow> 'w mongo \<Rightarrow> ('w \<Rightarrow> mstore) \<Rightarrow> bool" where
  "mongo_ok re mg view \<longleftrightarrow> (\<forall>c w. fst (mdo mg c w) = fst (mongo_spec re c (view w))
     \<and> view (snd (mdo mg c w)) = snd (mongo_spec re c (view w)))"

definition mem_mongo :: "(string \<Rightarrow> string \<Rightarrow> bool) \<Rightarrow> mstore mongo" where
  "mem_mongo re = \<lparr>mdo = mongo_spec re\<rparr>"

lemma mem_mongo_ok: "mongo_ok re (mem_mongo re) id"
  by (simp add: mongo_ok_def mem_mongo_def)

lemma mongo_okD:
  assumes "mongo_ok re mg view" "mdo mg c w = (r, w')"
  shows "mongo_spec re c (view w) = (r, view w')"
  using assms unfolding mongo_ok_def by (metis fst_conv snd_conv prod.collapse)

text \<open>A point in time is stored to the millisecond; times are in nanoseconds.\<close>

definition bson_time :: "int \<Rightarrow> bval" where
  "bson_time t = BTime (t div 10 ^ 6)"

section \<open>Queries\<close>

text \<open>\<open>Find\<close> with \<open>cursor.All\<close>, \<open>FindOne\<close>, and \<open>mongo.ErrNoDocuments\<close>.\<close>

definition no_docs :: goerr where
  "no_docs = EMsg ''mongo: no documents in result''"

definition mongo_find :: "'w mongo \<Rightarrow> string \<Rightarrow> mfilter \<Rightarrow> 'w \<Rightarrow> bdoc list res \<times> 'w" where
  "mongo_find mg c f w =
     (case mdo mg (MFind c f) w of
        (MDocs ds, w') \<Rightarrow> (Ok ds, w')
      | (MErr e, w') \<Rightarrow> (Err e, w')
      | (_, w') \<Rightarrow> (Err (EMsg ''unexpected reply''), w'))"

definition mongo_find_one :: "'w mongo \<Rightarrow> string \<Rightarrow> mfilter \<Rightarrow> 'w \<Rightarrow> bdoc res \<times> 'w" where
  "mongo_find_one mg c f w =
     (case mdo mg (MFindOne c f) w of
        (MDocs (d # _), w') \<Rightarrow> (Ok d, w')
      | (MDocs [], w') \<Rightarrow> (Err no_docs, w')
      | (MErr e, w') \<Rightarrow> (Err e, w')
      | (_, w') \<Rightarrow> (Err (EMsg ''unexpected reply''), w'))"

section \<open>Lemmas\<close>

lemma map_of_set_fields:
  "map_of (set_fields us d) = fold (\<lambda>(k, v) m. m(k \<mapsto> v)) us (map_of d)"
  by (induction us arbitrary: d) (auto simp: set_fields_def update_conv')

lemma length_update_first [simp]: "length (update_first P f xs) = length xs"
  by (induction xs) auto

lemma update_first_none: "\<not> (\<exists>x \<in> set xs. P x) \<Longrightarrow> update_first P f xs = xs"
  by (induction xs) auto

lemma update_first_cong:
  "(\<And>x. x \<in> set xs \<Longrightarrow> P x = Q x) \<Longrightarrow> update_first P f xs = update_first Q f xs"
  by (induction xs) auto

lemma map_update_first:
  assumes "\<And>x. x \<in> set xs \<Longrightarrow> P x = Q (g x)" "\<And>x. x \<in> set xs \<Longrightarrow> P x \<Longrightarrow> g (f x) = h (g x)"
  shows "map g (update_first P f xs) = update_first Q h (map g xs)"
  using assms by (induction xs) auto

lemma filter_update_first:
  assumes "filter P xs = x # ys" "P (f x)"
  shows "filter P (update_first P f xs) = f x # ys"
  using assms by (induction xs) (auto split: if_splits)

lemma update_first_nth:
  "update_first P f xs = xs \<or> (\<exists>i < length xs. P (xs ! i) \<and> (\<forall>j < i. \<not> P (xs ! j))
     \<and> update_first P f xs = xs[i := f (xs ! i)])"
proof (induction xs)
  case (Cons x xs)
  show ?case
  proof (cases "P x")
    case True
    then show ?thesis by (intro disjI2 exI [of _ 0]) simp
  next
    case False
    from Cons.IH show ?thesis
    proof
      assume "\<exists>i < length xs. P (xs ! i) \<and> (\<forall>j < i. \<not> P (xs ! j)) \<and> update_first P f xs = xs[i := f (xs ! i)]"
      then obtain i where "i < length xs" "P (xs ! i)" "\<forall>j < i. \<not> P (xs ! j)"
        "update_first P f xs = xs[i := f (xs ! i)]" by blast
      with False show ?thesis by (intro disjI2 exI [of _ "Suc i"]) (auto simp: nth_Cons split: nat.split)
    qed (use False in simp)
  qed
qed simp

text \<open>With unique identifiers, updating by the identifier of the first match updates that match.\<close>

lemma update_first_by_key:
  assumes "distinct (map key xs)" "filter P xs = x # ys"
  shows "update_first (\<lambda>y. key y = key x) f xs = update_first P f xs"
  using assms
proof (induction xs)
  case (Cons z xs)
  show ?case
  proof (cases "P z")
    case False
    with Cons.prems have "x \<in> set xs" by (auto simp: filter_eq_Cons_iff)
    with Cons.prems(1) have "key z \<noteq> key x" by auto
    with False Cons show ?thesis by simp
  qed (use Cons.prems in simp)
qed simp

end
