(* ===== verification/Documents.thy ===== *)
theory Documents
  imports Mongo GoStrings
begin

text \<open>
  Documents and the structs they are read into (\<open>models/models.go\<close>): how the BSON codec of the driver
  writes a struct (fields tagged \<open>omitempty\<close> are left out when they are zero) and reads it (a missing
  or null field is zero, a value of another kind is an error), and the wallets, accounts, currencies
  and chains of the database. Object identifiers are their 24 hexadecimal digits.
\<close>

section \<open>Reading and writing fields\<close>

definition nil_id :: string where
  "nil_id = ''000000000000000000000000''"

text \<open>\<open>time.Time\{\}\<close>: the first instant of year 1, in nanoseconds since 1970.\<close>

definition zero_time :: int where
  "zero_time = - 62135596800000000000"

definition ms_trunc :: "int \<Rightarrow> int" where
  "ms_trunc t = t div 10 ^ 6 * 10 ^ 6"

text \<open>\<open>primitive.ObjectIDFromHex\<close>.\<close>

definition ObjectIDFromHex :: "string \<Rightarrow> string option" where
  "ObjectIDFromHex s =
     (if length s = 24 \<and> list_all (\<lambda>c. case char_digit c of Some n \<Rightarrow> n < 16 | None \<Rightarrow> False) s
      then Some (to_lower s) else None)"

definition id_of :: "bval option \<Rightarrow> string option" where
  "id_of v =
     (case v of
        None \<Rightarrow> Some nil_id | Some BNull \<Rightarrow> Some nil_id | Some (BId i) \<Rightarrow> Some i
      | Some (BStr s) \<Rightarrow> ObjectIDFromHex s | _ \<Rightarrow> None)"

definition str_of :: "bval option \<Rightarrow> string option" where
  "str_of v =
     (case v of
        None \<Rightarrow> Some [] | Some BNull \<Rightarrow> Some [] | Some (BStr s) \<Rightarrow> Some s
      | Some (BId i) \<Rightarrow> Some i | _ \<Rightarrow> None)"

definition bool_of :: "bval option \<Rightarrow> bool option" where
  "bool_of v =
     (case v of
        None \<Rightarrow> Some False | Some BNull \<Rightarrow> Some False | Some (BBool b) \<Rightarrow> Some b
      | Some (BInt i) \<Rightarrow> Some (i \<noteq> 0) | Some (BDbl x) \<Rightarrow> Some (x \<noteq> Fin 0) | _ \<Rightarrow> None)"

definition int_val_of :: "bval option \<Rightarrow> int option" where
  "int_val_of v =
     (case v of
        None \<Rightarrow> Some 0 | Some BNull \<Rightarrow> Some 0 | Some (BInt i) \<Rightarrow> Some i
      | Some (BBool b) \<Rightarrow> Some (if b then 1 else 0)
      | Some (BDbl (Fin r)) \<Rightarrow> int_of_rat r | _ \<Rightarrow> None)"

definition dbl_of :: "bval option \<Rightarrow> f64 option" where
  "dbl_of v =
     (case v of
        None \<Rightarrow> Some (Fin 0) | Some BNull \<Rightarrow> Some (Fin 0) | Some (BDbl x) \<Rightarrow> Some x
      | Some (BInt i) \<Rightarrow> Some (f64_of_int i) | Some (BBool b) \<Rightarrow> Some (Fin (if b then 1 else 0))
      | _ \<Rightarrow> None)"

definition time_val_of :: "bval option \<Rightarrow> int option" where
  "time_val_of v =
     (case v of
        None \<Rightarrow> Some zero_time | Some BNull \<Rightarrow> Some zero_time
      | Some (BTime t) \<Rightarrow> Some (t * 10 ^ 6) | Some (BInt t) \<Rightarrow> Some (t * 10 ^ 6) | _ \<Rightarrow> None)"

definition time_ptr_of :: "bval option \<Rightarrow> int option option" where
  "time_ptr_of v =
     (case v of
        None \<Rightarrow> Some None | Some BNull \<Rightarrow> Some None
      | Some (BTime t) \<Rightarrow> Some (Some (t * 10 ^ 6)) | Some (BInt t) \<Rightarrow> Some (Some (t * 10 ^ 6)) | _ \<Rightarrow> None)"

definition get_id :: "bdoc \<Rightarrow> string \<Rightarrow> string option" where "get_id d k = id_of (map_of d k)"
definition get_str :: "bdoc \<Rightarrow> string \<Rightarrow> string option" where "get_str d k = str_of (map_of d k)"
definition get_bool :: "bdoc \<Rightarrow> string \<Rightarrow> bool option" where "get_bool d k = bool_of (map_of d k)"
definition get_int :: "bdoc \<Rightarrow> string \<Rightarrow> int option" where "get_int d k = int_val_of (map_of d k)"
definition get_dbl :: "bdoc \<Rightarrow> string \<Rightarrow> f64 option" where "get_dbl d k = dbl_of (map_of d k)"
definition get_time :: "bdoc \<Rightarrow> string \<Rightarrow> int option" where "get_time d k = time_val_of (map_of d k)"
definition get_time_ptr :: "bdoc \<Rightarrow> string \<Rightarrow> int option option" where
  "get_time_ptr d k = time_ptr_of (map_of d k)"

lemmas get_defs = get_id_def get_str_def get_bool_def get_int_def get_dbl_def get_time_def get_time_ptr_def

definition put :: "string \<Rightarrow> bval \<Rightarrow> bdoc" where
  "put k v = [(k, v)]"

definition put_id :: "string \<Rightarrow> string \<Rightarrow> bdoc" where
  "put_id k i = (if i = nil_id then [] else [(k, BId i)])"

definition put_str :: "string \<Rightarrow> string \<Rightarrow> bdoc" where
  "put_str k s = (if s = [] then [] else [(k, BStr s)])"

definition put_time :: "string \<Rightarrow> int option \<Rightarrow> bdoc" where
  "put_time k t = (case t of None \<Rightarrow> [] | Some t \<Rightarrow> [(k, bson_time t)])"

named_theorems doc_simps "looking up the fields of a written struct"

lemma map_of_put [doc_simps]:
  "map_of (put k v @ d) j = (if j = k then Some v else map_of d j)"
  "map_of (put k v) j = (if j = k then Some v else None)"
  by (simp_all add: put_def)

lemma map_of_put_id [doc_simps]:
  "map_of (put_id k i @ d) j = (if j \<noteq> k \<or> i = nil_id then map_of d j else Some (BId i))"
  by (simp add: put_id_def)

lemma map_of_put_str [doc_simps]:
  "map_of (put_str k s @ d) j = (if j \<noteq> k \<or> s = [] then map_of d j else Some (BStr s))"
  by (simp add: put_str_def)

lemma map_of_put_time [doc_simps]:
  "map_of (put_time k t @ d) j = (if j \<noteq> k \<or> t = None then map_of d j else map_option bson_time t)"
  by (cases t) (simp_all add: put_time_def)

text \<open>What is written is read back.\<close>

lemma read_written [doc_simps]:
  "id_of (Some (BId i)) = Some i"
  "id_of (if i = nil_id then None else Some (BId i)) = Some i"
  "str_of (Some (BStr s)) = Some s"
  "str_of (if s = [] then None else Some (BStr s)) = Some s"
  "bool_of (Some (BBool b)) = Some b"
  "int_val_of (Some (BInt n)) = Some n"
  "dbl_of (Some (BDbl x)) = Some x"
  "time_val_of (Some (bson_time t)) = Some (ms_trunc t)"
  "time_ptr_of (Some (bson_time t)) = Some (Some (ms_trunc t))"
  "time_ptr_of (if p = None then None else map_option bson_time p) = Some (map_option ms_trunc p)"
  by (auto simp: id_of_def str_of_def bool_of_def int_val_of_def dbl_of_def time_val_of_def
      time_ptr_of_def bson_time_def ms_trunc_def split: option.splits)

lemma ms_trunc_read:
  "time_val_of v = Some t \<Longrightarrow> ms_trunc t = t"
  by (auto simp: time_val_of_def ms_trunc_def zero_time_def split: option.splits bval.splits)

lemma ms_trunc_idem [simp]: "ms_trunc (ms_trunc t) = ms_trunc t"
  by (simp add: ms_trunc_def)

end
