(* ===== verification/Models.thy ===== *)
theory Models
  imports Documents "HOL-Library.Monad_Syntax"
begin

text \<open>
  The structs stored in the database (\<open>models/models.go\<close>: \<open>Wallet\<close>, \<open>Account\<close>, \<open>Currency\<close>, \<open>Chain\<close>,
  \<open>SupportedCurrency\<close>) with the documents they are written to and read from, the domain structs
  (\<open>src/types/wallet.go\<close>, \<open>src/types/account.go\<close>) with their operations, and the conversions between the
  two (\<open>src/adapters\<close>).
\<close>

section \<open>Stored structs\<close>

record wallet_model =
  wm_ID :: string
  wm_UserID :: string
  wm_Name :: string
  wm_WalletGroup :: string
  wm_HashedSeedPhrase :: string
  wm_AccountDepth :: int
  wm_PrimaryWallet :: bool
  wm_IsLinked :: bool
  wm_ZapExchangeID :: string
  wm_IsDeleted :: bool
  wm_DeletedAt :: "int option"
  wm_CreatedAt :: int
  wm_UpdatedAt :: int

definition enc_wallet_model :: "wallet_model \<Rightarrow> bdoc" where
  "enc_wallet_model x =
     put_id ''_id'' (wm_ID x)
     @ put ''userId'' (BId (wm_UserID x))
     @ put ''name'' (BStr (wm_Name x))
     @ put ''walletGroup'' (BStr (wm_WalletGroup x))
     @ put_str ''hashedSeedPhrase'' (wm_HashedSeedPhrase x)
     @ put ''accountDepth'' (BInt (wm_AccountDepth x))
     @ put ''primaryWallet'' (BBool (wm_PrimaryWallet x))
     @ put ''isLinked'' (BBool (wm_IsLinked x))
     @ put_id ''zapExchangeId'' (wm_ZapExchangeID x)
     @ put ''isDeleted'' (BBool (wm_IsDeleted x))
     @ put_time ''deletedAt'' (wm_DeletedAt x)
     @ put ''createdAt'' (bson_time (wm_CreatedAt x))
     @ put ''updatedAt'' (bson_time (wm_UpdatedAt x))"

definition dec_wallet_model :: "bdoc \<Rightarrow> wallet_model option" where
  "dec_wallet_model d = do {
     v0 \<leftarrow> get_id d ''_id'';
     v1 \<leftarrow> get_id d ''userId'';
     v2 \<leftarrow> get_str d ''name'';
     v3 \<leftarrow> get_str d ''walletGroup'';
     v4 \<leftarrow> get_str d ''hashedSeedPhrase'';
     v5 \<leftarrow> get_int d ''accountDepth'';
     v6 \<leftarrow> get_bool d ''primaryWallet'';
     v7 \<leftarrow> get_bool d ''isLinked'';
     v8 \<leftarrow> get_id d ''zapExchangeId'';
     v9 \<leftarrow> get_bool d ''isDeleted'';
     v10 \<leftarrow> get_time_ptr d ''deletedAt'';
     v11 \<leftarrow> get_time d ''createdAt'';
     v12 \<leftarrow> get_time d ''updatedAt'';
     Some \<lparr>wm_ID = v0, wm_UserID = v1, wm_Name = v2, wm_WalletGroup = v3, wm_HashedSeedPhrase = v4,
       wm_AccountDepth = v5, wm_PrimaryWallet = v6, wm_IsLinked = v7, wm_ZapExchangeID = v8,
       wm_IsDeleted = v9, wm_DeletedAt = v10, wm_CreatedAt = v11, wm_UpdatedAt = v12\<rparr>
   }"

record account_model =
  am_ID :: string
  am_CurrencyID :: string
  am_CountryID :: string
  am_BankID :: string
  am_WalletID :: string
  am_ChainID :: string
  am_UserID :: string
  am_PhysicalAddressID :: string
  am_SupportedCurrencyID :: string
  am_ZapID :: string
  am_Name :: string
  am_HolderName :: string
  am_Number :: string
  am_WalletAddress :: string
  am_IsPlayer :: bool
  am_InflowSingleLimit :: f64
  am_InflowDailyLimit :: f64
  am_OutflowSingleLimit :: f64
  am_OutflowDailyLimit :: f64
  am_Balance :: f64
  am_Type :: string
  am_Position :: string
  am_BenchStatus :: bool
  am_Notes :: string
  am_DeletedAt :: "int option"
  am_EncryptedPrivateKey :: string
  am_CreatedAt :: int
  am_UpdatedAt :: int

definition enc_account_model :: "account_model \<Rightarrow> bdoc" where
  "enc_account_model x =
     put_id ''_id'' (am_ID x)
     @ put_id ''currencyId'' (am_CurrencyID x)
     @ put_id ''countryId'' (am_CountryID x)
     @ put_id ''bankId'' (am_BankID x)
     @ put_id ''walletId'' (am_WalletID x)
     @ put_id ''chainId'' (am_ChainID x)
     @ put_id ''userId'' (am_UserID x)
     @ put_id ''physicalAddressId'' (am_PhysicalAddressID x)
     @ put_id ''supportedCurrencyId'' (am_SupportedCurrencyID x)
     @ put_str ''zapId'' (am_ZapID x)
     @ put_str ''name'' (am_Name x)
     @ put_str ''holderName'' (am_HolderName x)
     @ put_str ''number'' (am_Number x)
     @ put_str ''walletAddress'' (am_WalletAddress x)
     @ put ''isPlayer'' (BBool (am_IsPlayer x))
     @ put ''inflowSingleLimit'' (BDbl (am_InflowSingleLimit x))
     @ put ''inflowDailyLimit'' (BDbl (am_InflowDailyLimit x))
     @ put ''outflowSingleLimit'' (BDbl (am_OutflowSingleLimit x))
     @ put ''outflowDailyLimit'' (BDbl (am_OutflowDailyLimit x))
     @ put ''balance'' (BDbl (am_Balance x))
     @ put_str ''type'' (am_Type x)
     @ put_str ''position'' (am_Position x)
     @ put ''benchStatus'' (BBool (am_BenchStatus x))
     @ put_str ''notes'' (am_Notes x)
     @ put_time ''deletedAt'' (am_DeletedAt x)
     @ put_str ''encryptedPrivateKey'' (am_EncryptedPrivateKey x)
     @ put ''createdAt'' (bson_time (am_CreatedAt x))
     @ put ''updatedAt'' (bson_time (am_UpdatedAt x))"

definition dec_account_model :: "bdoc \<Rightarrow> account_model option" where
  "dec_account_model d = do {
     v0 \<leftarrow> get_id d ''_id'';
     v1 \<leftarrow> get_id d ''currencyId'';
     v2 \<leftarrow> get_id d ''countryId'';
     v3 \<leftarrow> get_id d ''bankId'';
     v4 \<leftarrow> get_id d ''walletId'';
     v5 \<leftarrow> get_id d ''chainId'';
     v6 \<leftarrow> get_id d ''userId'';
     v7 \<leftarrow> get_id d ''physicalAddressId'';
     v8 \<leftarrow> get_id d ''supportedCurrencyId'';
     v9 \<leftarrow> get_str d ''zapId'';
     v10 \<leftarrow> get_str d ''name'';
     v11 \<leftarrow> get_str d ''holderName'';
     v12 \<leftarrow> get_str d ''number'';
     v13 \<leftarrow> get_str d ''walletAddress'';
     v14 \<leftarrow> get_bool d ''isPlayer'';
     v15 \<leftarrow> get_dbl d ''inflowSingleLimit'';
     v16 \<leftarrow> get_dbl d ''inflowDailyLimit'';
     v17 \<leftarrow> get_dbl d ''outflowSingleLimit'';
     v18 \<leftarrow> get_dbl d ''outflowDailyLimit'';
     v19 \<leftarrow> get_dbl d ''balance'';
     v20 \<leftarrow> get_str d ''type'';
     v21 \<leftarrow> get_str d ''position'';
     v22 \<leftarrow> get_bool d ''benchStatus'';
     v23 \<leftarrow> get_str d ''notes'';
     v24 \<leftarrow> get_time_ptr d ''deletedAt'';
     v25 \<leftarrow> get_str d ''encryptedPrivateKey'';
     v26 \<leftarrow> get_time d ''createdAt'';
     v27 \<leftarrow> get_time d ''updatedAt'';
     Some \<lparr>am_ID = v0, am_CurrencyID = v1, am_CountryID = v2, am_BankID = v3, am_WalletID = v4,
       am_ChainID = v5, am_UserID = v6, am_PhysicalAddressID = v7, am_SupportedCurrencyID = v8,
       am_ZapID = v9, am_Name = v10, am_HolderName = v11, am_Number = v12, am_WalletAddress =
       v13, am_IsPlayer = v14, am_InflowSingleLimit = v15, am_InflowDailyLimit = v16,
       am_OutflowSingleLimit = v17, am_OutflowDailyLimit = v18, am_Balance = v19, am_Type =
       v20, am_Position = v21, am_BenchStatus = v22, am_Notes = v23, am_DeletedAt = v24,
       am_EncryptedPrivateKey = v25, am_CreatedAt = v26, am_UpdatedAt = v27\<rparr>
   }"

record currency_model =
  cu_ID :: string
  cu_Name :: string
  cu_Symbol :: string
  cu_IsCrypto :: bool
  cu_Logo :: string
  cu_Website :: string
  cu_Explorer :: string
  cu_Description :: string
  cu_CreatedAt :: int
  cu_UpdatedAt :: int

definition dec_currency_model :: "bdoc \<Rightarrow> currency_model option" where
  "dec_currency_model d = do {
     v0 \<leftarrow> get_id d ''_id'';
     v1 \<leftarrow> get_str d ''name'';
     v2 \<leftarrow> get_str d ''symbol'';
     v3 \<leftarrow> get_bool d ''isCrypto'';
     v4 \<leftarrow> get_str d ''logo'';
     v5 \<leftarrow> get_str d ''website'';
     v6 \<leftarrow> get_str d ''explorer'';
     v7 \<leftarrow> get_str d ''description'';
     v8 \<leftarrow> get_time d ''createdAt'';
     v9 \<leftarrow> get_time d ''updatedAt'';
     Some \<lparr>cu_ID = v0, cu_Name = v1, cu_Symbol = v2, cu_IsCrypto = v3, cu_Logo = v4, cu_Website =
       v5, cu_Explorer = v6, cu_Description = v7, cu_CreatedAt = v8, cu_UpdatedAt = v9\<rparr>
   }"

text \<open>\<open>ChainID\<close> is an \<open>interface\{\}\<close>: it takes any value, and is nil when absent.\<close>

definition get_any :: "bdoc \<Rightarrow> string \<Rightarrow> bval option option" where
  "get_any d k = Some (case map_of d k of Some BNull \<Rightarrow> None | v \<Rightarrow> v)"

record chain_model =
  ch_ID :: string
  ch_Name :: string
  ch_Symbol :: string
  ch_ChainID :: "bval option"
  ch_NetworkType :: string
  ch_RpcURL :: string
  ch_ExplorerURL :: string
  ch_IconURL :: string
  ch_Status :: string
  ch_CreatedAt :: int
  ch_UpdatedAt :: int

definition dec_chain_model :: "bdoc \<Rightarrow> chain_model option" where
  "dec_chain_model d = do {
     v0 \<leftarrow> get_id d ''_id'';
     v1 \<leftarrow> get_str d ''name'';
     v2 \<leftarrow> get_str d ''symbol'';
     v3 \<leftarrow> get_any d ''chainId'';
     v4 \<leftarrow> get_str d ''networkType'';
     v5 \<leftarrow> get_str d ''rpcUrl'';
     v6 \<leftarrow> get_str d ''explorerUrl'';
     v7 \<leftarrow> get_str d ''iconUrl'';
     v8 \<leftarrow> get_str d ''status'';
     v9 \<leftarrow> get_time d ''createdAt'';
     v10 \<leftarrow> get_time d ''updatedAt'';
     Some \<lparr>ch_ID = v0, ch_Name = v1, ch_Symbol = v2, ch_ChainID = v3, ch_NetworkType = v4,
       ch_RpcURL = v5, ch_ExplorerURL = v6, ch_IconURL = v7, ch_Status = v8, ch_CreatedAt = v9,
       ch_UpdatedAt = v10\<rparr>
   }"

record supported_currency =
  sc_ID :: string
  sc_ChainID :: string
  sc_CurrencyID :: string
  sc_TokenAddress :: string
  sc_Decimals :: int
  sc_Status :: string
  sc_CreatedAt :: int
  sc_UpdatedAt :: int

definition dec_supported_currency :: "bdoc \<Rightarrow> supported_currency option" where
  "dec_supported_currency d = do {
     v0 \<leftarrow> get_id d ''_id'';
     v1 \<leftarrow> get_id d ''chainId'';
     v2 \<leftarrow> get_id d ''currencyId'';
     v3 \<leftarrow> get_str d ''tokenAddress'';
     v4 \<leftarrow> get_int d ''decimals'';
     v5 \<leftarrow> get_str d ''status'';
     v6 \<leftarrow> get_time d ''createdAt'';
     v7 \<leftarrow> get_time d ''updatedAt'';
     Some \<lparr>sc_ID = v0, sc_ChainID = v1, sc_CurrencyID = v2, sc_TokenAddress = v3, sc_Decimals = v4,
       sc_Status = v5, sc_CreatedAt = v6, sc_UpdatedAt = v7\<rparr>
   }"

text \<open>Reading what was written, up to the precision of times.\<close>

definition stored_wallet :: "wallet_model \<Rightarrow> wallet_model" where
  "stored_wallet x = x\<lparr>wm_DeletedAt := map_option ms_trunc (wm_DeletedAt x),
     wm_CreatedAt := ms_trunc (wm_CreatedAt x), wm_UpdatedAt := ms_trunc (wm_UpdatedAt x)\<rparr>"

lemma dec_enc_wallet: "dec_wallet_model (enc_wallet_model x) = Some (stored_wallet x)"
  unfolding dec_wallet_model_def get_defs enc_wallet_model_def
  by (simp add: doc_simps stored_wallet_def del: map_of_append split del: if_split cong del: if_weak_cong)

definition stored_account :: "account_model \<Rightarrow> account_model" where
  "stored_account x = x\<lparr>am_DeletedAt := map_option ms_trunc (am_DeletedAt x),
     am_CreatedAt := ms_trunc (am_CreatedAt x), am_UpdatedAt := ms_trunc (am_UpdatedAt x)\<rparr>"

lemma dec_enc_account: "dec_account_model (enc_account_model x) = Some (stored_account x)"
  unfolding dec_account_model_def get_defs enc_account_model_def
  by (simp add: doc_simps stored_account_def del: map_of_append split del: if_split cong del: if_weak_cong)

section \<open>Domain structs\<close>

record wallet =
  wl_ID :: string
  wl_UserID :: string
  wl_Name :: string
  wl_WalletGroup :: string
  wl_HashedSeedPhrase :: string
  wl_AccountDepth :: int
  wl_PrimaryWallet :: bool
  wl_IsLinked :: bool
  wl_ZapExchangeID :: string
  wl_IsDeleted :: bool
  wl_DeletedAt :: "int option"
  wl_CreatedAt :: int
  wl_UpdatedAt :: int

record account =
  ac_ID :: string
  ac_CurrencyID :: string
  ac_WalletID :: string
  ac_ChainID :: string
  ac_UserID :: string
  ac_SupportedCurrencyID :: string
  ac_WalletAddress :: string
  ac_Balance :: f64
  ac_Type :: string
  ac_DeletedAt :: "int option"
  ac_EncryptedPrivateKey :: string
  ac_CreatedAt :: int
  ac_UpdatedAt :: int

text \<open>The conversions of the adapters: what a target field is not given is zero.\<close>

definition convertWalletModelToDomain :: "wallet_model \<Rightarrow> wallet" where
  "convertWalletModelToDomain x =
     \<lparr>wl_ID = wm_ID x, wl_UserID = wm_UserID x, wl_Name = wm_Name x, wl_WalletGroup = [],
      wl_HashedSeedPhrase = [], wl_AccountDepth = 0, wl_PrimaryWallet = False, wl_IsLinked =
      False, wl_ZapExchangeID = nil_id, wl_IsDeleted = False, wl_DeletedAt = None,
      wl_CreatedAt = wm_CreatedAt x, wl_UpdatedAt = wm_UpdatedAt x\<rparr>"

definition convertWalletDomainToModel :: "wallet \<Rightarrow> wallet_model" where
  "convertWalletDomainToModel x =
     \<lparr>wm_ID = wl_ID x, wm_UserID = wl_UserID x, wm_Name = wl_Name x, wm_WalletGroup = [],
      wm_HashedSeedPhrase = [], wm_AccountDepth = 0, wm_PrimaryWallet = False, wm_IsLinked =
      False, wm_ZapExchangeID = nil_id, wm_IsDeleted = False, wm_DeletedAt = None,
      wm_CreatedAt = wl_CreatedAt x, wm_UpdatedAt = wl_UpdatedAt x\<rparr>"

definition convertAccountModelToDomain :: "account_model \<Rightarrow> account" where
  "convertAccountModelToDomain x =
     \<lparr>ac_ID = am_ID x, ac_CurrencyID = am_CurrencyID x, ac_WalletID = am_WalletID x,
      ac_ChainID = am_ChainID x, ac_UserID = am_UserID x, ac_SupportedCurrencyID =
      am_SupportedCurrencyID x, ac_WalletAddress = am_WalletAddress x, ac_Balance = am_Balance
      x, ac_Type = am_Type x, ac_DeletedAt = am_DeletedAt x, ac_EncryptedPrivateKey =
      am_EncryptedPrivateKey x, ac_CreatedAt = am_CreatedAt x, ac_UpdatedAt = am_UpdatedAt x\<rparr>"

definition convertAccountDomainToModel :: "account \<Rightarrow> account_model" where
  "convertAccountDomainToModel x =
     \<lparr>am_ID = ac_ID x, am_CurrencyID = ac_CurrencyID x, am_CountryID = nil_id, am_BankID =
      nil_id, am_WalletID = ac_WalletID x, am_ChainID = ac_ChainID x, am_UserID = ac_UserID x,
      am_PhysicalAddressID = nil_id, am_SupportedCurrencyID = ac_SupportedCurrencyID x,
      am_ZapID = [], am_Name = [], am_HolderName = [], am_Number = [], am_WalletAddress =
      ac_WalletAddress x, am_IsPlayer = False, am_InflowSingleLimit = Fin 0,
      am_InflowDailyLimit = Fin 0, am_OutflowSingleLimit = Fin 0, am_OutflowDailyLimit = Fin
      0, am_Balance = ac_Balance x, am_Type = ac_Type x, am_Position = [], am_BenchStatus =
      False, am_Notes = [], am_DeletedAt = ac_DeletedAt x, am_EncryptedPrivateKey =
      ac_EncryptedPrivateKey x, am_CreatedAt = ac_CreatedAt x, am_UpdatedAt = ac_UpdatedAt x\<rparr>"

section \<open>Operations of the domain structs\<close>

text \<open>
  What the code takes from its environment: the database, the clock (nanoseconds) and
  \<open>primitive.NewObjectID\<close>.
\<close>

record 'w db =
  db_mongo :: "'w mongo"
  db_now :: "'w \<Rightarrow> int \<times> 'w"
  db_new_id :: "'w \<Rightarrow> string \<times> 'w"

text \<open>\<open>string(rune(i))\<close>: the UTF-8 encoding of a code point; the replacement character if there is none.\<close>

definition utf8 :: "int \<Rightarrow> string" where
  "utf8 c =
     (if 0 \<le> c \<and> c < 128 then [char_of c]
      else if 128 \<le> c \<and> c < 2048 then [char_of (192 + c div 64), char_of (128 + c mod 64)]
      else if 2048 \<le> c \<and> c < 65536 \<and> \<not> (55296 \<le> c \<and> c < 57344)
        then [char_of (224 + c div 4096), char_of (128 + c div 64 mod 64), char_of (128 + c mod 64)]
      else if 65536 \<le> c \<and> c < 1114112
        then [char_of (240 + c div 262144), char_of (128 + c div 4096 mod 64),
              char_of (128 + c div 64 mod 64), char_of (128 + c mod 64)]
      else [char_of (239 :: int), char_of (191 :: int), char_of (189 :: int)])"

definition rune_string :: "int \<Rightarrow> string" where
  "rune_string i = utf8 (sint (of_int i :: 32 word))"

definition NewWallet :: "'w db \<Rightarrow> string \<Rightarrow> string \<Rightarrow> string \<Rightarrow> int \<Rightarrow> 'w \<Rightarrow> wallet \<times> 'w" where
  "NewWallet db userID name hashedSeedPhrase accountDepth w =
     (case db_now db w of (now, w1) \<Rightarrow> case db_new_id db w1 of (i, w2) \<Rightarrow>
        (\<lparr>wl_ID = i, wl_UserID = userID, wl_Name = name,
          wl_WalletGroup = ''Group '' @ rune_string accountDepth,
          wl_HashedSeedPhrase = hashedSeedPhrase, wl_AccountDepth = accountDepth,
          wl_PrimaryWallet = False, wl_IsLinked = False, wl_ZapExchangeID = nil_id,
          wl_IsDeleted = False, wl_DeletedAt = None, wl_CreatedAt = now, wl_UpdatedAt = now\<rparr>, w2))"

definition wallet_MarkAsDeleted :: "int \<Rightarrow> wallet \<Rightarrow> wallet" where
  "wallet_MarkAsDeleted now x = x\<lparr>wl_IsDeleted := True, wl_DeletedAt := Some now, wl_UpdatedAt := now\<rparr>"

definition SetAsPrimary :: "int \<Rightarrow> wallet \<Rightarrow> wallet" where
  "SetAsPrimary now x = x\<lparr>wl_PrimaryWallet := True, wl_UpdatedAt := now\<rparr>"

text \<open>\<open>AccountDepth\<close> is an \<open>int\<close> of 64 bits; the increment wraps around.\<close>

definition IncreaseAccountDepth :: "int \<Rightarrow> wallet \<Rightarrow> wallet" where
  "IncreaseAccountDepth now x =
     x\<lparr>wl_AccountDepth := sint (of_int (wl_AccountDepth x + 1) :: 64 word), wl_UpdatedAt := now\<rparr>"

definition LinkWallet :: "int \<Rightarrow> string \<Rightarrow> wallet \<Rightarrow> wallet" where
  "LinkWallet now zapExchangeID x =
     x\<lparr>wl_IsLinked := True, wl_ZapExchangeID := zapExchangeID, wl_UpdatedAt := now\<rparr>"

definition wallet_UpdateWallet :: "int \<Rightarrow> string \<Rightarrow> string \<Rightarrow> wallet \<Rightarrow> wallet" where
  "wallet_UpdateWallet now name walletGroup x =
     x\<lparr>wl_Name := (if name \<noteq> [] then name else wl_Name x),
       wl_WalletGroup := (if walletGroup \<noteq> [] then walletGroup else wl_WalletGroup x),
       wl_UpdatedAt := now\<rparr>"

definition NewAccount ::
  "'w db \<Rightarrow> string \<Rightarrow> string \<Rightarrow> string \<Rightarrow> string \<Rightarrow> string \<Rightarrow> string \<Rightarrow> 'w \<Rightarrow> account \<times> 'w" where
  "NewAccount db walletID userID currencyID chainID walletAddress encryptedPrivateKey w =
     (case db_now db w of (now, w1) \<Rightarrow> case db_new_id db w1 of (i, w2) \<Rightarrow>
        (\<lparr>ac_ID = i, ac_CurrencyID = currencyID, ac_WalletID = walletID, ac_ChainID = chainID,
          ac_UserID = userID, ac_SupportedCurrencyID = nil_id, ac_WalletAddress = walletAddress,
          ac_Balance = Fin 0, ac_Type = [], ac_DeletedAt = None,
          ac_EncryptedPrivateKey = encryptedPrivateKey, ac_CreatedAt = now, ac_UpdatedAt = now\<rparr>, w2))"

definition UpdateBalance :: "int \<Rightarrow> f64 \<Rightarrow> account \<Rightarrow> account" where
  "UpdateBalance now balance x = x\<lparr>ac_Balance := balance, ac_UpdatedAt := now\<rparr>"

definition account_MarkAsDeleted :: "int \<Rightarrow> account \<Rightarrow> account" where
  "account_MarkAsDeleted now x = x\<lparr>ac_DeletedAt := Some now, ac_UpdatedAt := now\<rparr>"

definition account_IsDeleted :: "account \<Rightarrow> bool" where
  "account_IsDeleted x \<longleftrightarrow> ac_DeletedAt x \<noteq> None"

definition HasWalletAddress :: "account \<Rightarrow> bool" where
  "HasWalletAddress x \<longleftrightarrow> ac_WalletAddress x \<noteq> []"

end
