(* ===== verification/Repositories.thy ===== *)
theory Repositories
  imports Models
begin

text \<open>
  The repositories (\<open>config/mongodb/repositories.go\<close>) and the adapters that give them the interface of
  the domain (\<open>src/adapters\<close>, \<open>src/repositories\<close>). A repository answers \<open>ErrNotFound\<close> where the
  driver reports no document; accounts and orders marked as deleted are not found, wallets are. The
  adapters return a pointer, which is \<open>nil\<close> (\<open>None\<close>) only if the repository's is.
\<close>

section \<open>Repositories\<close>

definition ErrNotFound :: goerr where "ErrNotFound = EMsg ''document not found''"
definition ErrInvalidID :: goerr where "ErrInvalidID = EMsg ''invalid ID''"
definition ErrDuplicateKey :: goerr where "ErrDuplicateKey = EMsg ''duplicate key error''"

text \<open>The pattern of the queries: one document or \<open>ErrNotFound\<close>; all documents.\<close>

definition decode_doc :: "(bdoc \<Rightarrow> 'a option) \<Rightarrow> bdoc \<Rightarrow> 'a res" where
  "decode_doc dec d = (case dec d of Some a \<Rightarrow> Ok a | None \<Rightarrow> Err (EMsg ''error decoding document''))"

definition repo_find_one ::
  "'w mongo \<Rightarrow> string \<Rightarrow> (bdoc \<Rightarrow> 'a option) \<Rightarrow> mfilter \<Rightarrow> 'w \<Rightarrow> 'a res \<times> 'w" where
  "repo_find_one mg c dec f w =
     (case mongo_find_one mg c f w of
        (Ok d, w') \<Rightarrow> (decode_doc dec d, w')
      | (Err e, w') \<Rightarrow> (Err (if e = no_docs then ErrNotFound else e), w')
      | (Panic p, w') \<Rightarrow> (Panic p, w'))"

definition decode_docs :: "(bdoc \<Rightarrow> 'a option) \<Rightarrow> bdoc list \<Rightarrow> 'a list res" where
  "decode_docs dec ds =
     (case those (map dec ds) of Some xs \<Rightarrow> Ok xs | None \<Rightarrow> Err (EMsg ''error decoding document''))"

definition repo_find_all ::
  "'w mongo \<Rightarrow> string \<Rightarrow> (bdoc \<Rightarrow> 'a option) \<Rightarrow> mfilter \<Rightarrow> 'w \<Rightarrow> 'a list res \<times> 'w" where
  "repo_find_all mg c dec f w =
     (case mongo_find mg c f w of
        (Ok ds, w') \<Rightarrow> (decode_docs dec ds, w')
      | (Err e, w') \<Rightarrow> (Err e, w')
      | (Panic p, w') \<Rightarrow> (Panic p, w'))"

definition repo_find_sorted ::
  "'w mongo \<Rightarrow> string \<Rightarrow> (bdoc \<Rightarrow> 'a option) \<Rightarrow> string \<Rightarrow> bool \<Rightarrow> 'w \<Rightarrow> 'a list res \<times> 'w" where
  "repo_find_sorted mg c dec k asc w =
     (case mdo mg (MFindSorted c (FAll []) k asc) w of
        (MDocs ds, w') \<Rightarrow> (decode_docs dec ds, w')
      | (MErr e, w') \<Rightarrow> (Err e, w')
      | (_, w') \<Rightarrow> (Err (EMsg ''unexpected reply''), w'))"

definition repo_count :: "'w mongo \<Rightarrow> string \<Rightarrow> mfilter \<Rightarrow> 'w \<Rightarrow> nat res \<times> 'w" where
  "repo_count mg c f w =
     (case mdo mg (MCount c f) w of
        (MNum n, w') \<Rightarrow> (Ok n, w')
      | (MErr e, w') \<Rightarrow> (Err e, w')
      | (_, w') \<Rightarrow> (Err (EMsg ''unexpected reply''), w'))"

definition repo_insert :: "'w mongo \<Rightarrow> string \<Rightarrow> bdoc \<Rightarrow> 'w \<Rightarrow> unit res \<times> 'w" where
  "repo_insert mg c d w =
     (case mdo mg (MInsert c d) w of
        (MErr e, w') \<Rightarrow> (Err (if e = dup_key then ErrDuplicateKey else e), w')
      | (_, w') \<Rightarrow> (Ok (), w'))"

definition repo_update :: "'w mongo \<Rightarrow> string \<Rightarrow> string \<Rightarrow> bdoc \<Rightarrow> 'w \<Rightarrow> unit res \<times> 'w" where
  "repo_update mg c i us w =
     (case mdo mg (MUpdateOne c (FEq ''_id'' (BId i)) us) w of
        (MErr e, w') \<Rightarrow> (Err e, w')
      | (MNum 0, w') \<Rightarrow> (Err ErrNotFound, w')
      | (_, w') \<Rightarrow> (Ok (), w'))"

text \<open>A filter \<open>"deletedAt": nil\<close> takes the documents without the field or with a null there.\<close>

definition not_deleted :: mfilter where
  "not_deleted = FEq ''deletedAt'' BNull"

definition soft_delete :: "int \<Rightarrow> bdoc" where
  "soft_delete now = [(''deletedAt'', bson_time now), (''updatedAt'', bson_time now)]"

definition fresh_id :: "'w db \<Rightarrow> string \<Rightarrow> 'w \<Rightarrow> string \<times> 'w" where
  "fresh_id db i w = (if i = nil_id then db_new_id db w else (i, w))"

subsection \<open>Wallets\<close>

definition GetWalletByID :: "'w db \<Rightarrow> string \<Rightarrow> 'w \<Rightarrow> wallet_model res \<times> 'w" where
  "GetWalletByID db i w = repo_find_one (db_mongo db) ''wallets'' dec_wallet_model (FEq ''_id'' (BId i)) w"

definition GetWalletsByUserId :: "'w db \<Rightarrow> string \<Rightarrow> 'w \<Rightarrow> wallet_model list res \<times> 'w" where
  "GetWalletsByUserId db userId w = repo_find_all (db_mongo db) ''wallets'' dec_wallet_model
     (FAll [FEq ''userId'' (BId userId), FEq ''isDeleted'' (BBool False)]) w"

definition repo_CreateWallet :: "'w db \<Rightarrow> wallet_model \<Rightarrow> 'w \<Rightarrow> wallet_model res \<times> 'w" where
  "repo_CreateWallet db x w =
     (case db_now db w of (now, w1) \<Rightarrow> case fresh_id db (wm_ID x) w1 of (i, w2) \<Rightarrow>
        let x' = x\<lparr>wm_CreatedAt := now, wm_UpdatedAt := now, wm_ID := i\<rparr>
        in case repo_insert (db_mongo db) ''wallets'' (enc_wallet_model x') w2 of
             (r, w3) \<Rightarrow> (map_res (\<lambda>_. x') r, w3))"

definition repo_UpdateWallet :: "'w db \<Rightarrow> wallet_model \<Rightarrow> 'w \<Rightarrow> unit res \<times> 'w" where
  "repo_UpdateWallet db x w =
     (if wm_ID x = nil_id then (Err ErrInvalidID, w)
      else case db_now db w of (now, w1) \<Rightarrow>
        repo_update (db_mongo db) ''wallets'' (wm_ID x) (enc_wallet_model (x\<lparr>wm_UpdatedAt := now\<rparr>)) w1)"

definition repo_DeleteWallet :: "'w db \<Rightarrow> string \<Rightarrow> 'w \<Rightarrow> unit res \<times> 'w" where
  "repo_DeleteWallet db i w =
     (case db_now db w of (now, w1) \<Rightarrow>
        repo_update (db_mongo db) ''wallets'' i ((''isDeleted'', BBool True) # soft_delete now) w1)"

subsection \<open>Accounts\<close>

definition GetAccountByID :: "'w db \<Rightarrow> string \<Rightarrow> 'w \<Rightarrow> account_model res \<times> 'w" where
  "GetAccountByID db i w = repo_find_one (db_mongo db) ''accounts'' dec_account_model
     (FAll [FEq ''_id'' (BId i), not_deleted]) w"

definition GetAccountsByWalletID :: "'w db \<Rightarrow> string \<Rightarrow> 'w \<Rightarrow> account_model list res \<times> 'w" where
  "GetAccountsByWalletID db i w = repo_find_all (db_mongo db) ''accounts'' dec_account_model
     (FAll [FEq ''walletId'' (BId i), not_deleted]) w"

definition GetAccountsByUserID :: "'w db \<Rightarrow> string \<Rightarrow> 'w \<Rightarrow> account_model list res \<times> 'w" where
  "GetAccountsByUserID db i w = repo_find_all (db_mongo db) ''accounts'' dec_account_model
     (FAll [FEq ''userId'' (BId i), not_deleted]) w"

definition address_filter :: "string \<Rightarrow> mfilter" where
  "address_filter address = FAll [FEq ''walletAddress'' (BStr address), not_deleted]"

definition GetAccountByAddress :: "'w db \<Rightarrow> string \<Rightarrow> 'w \<Rightarrow> account_model res \<times> 'w" where
  "GetAccountByAddress db address w =
     repo_find_one (db_mongo db) ''accounts'' dec_account_model (address_filter address) w"

definition CountByAddress :: "'w db \<Rightarrow> string \<Rightarrow> 'w \<Rightarrow> nat res \<times> 'w" where
  "CountByAddress db address w = repo_count (db_mongo db) ''accounts'' (address_filter address) w"

definition duplicate_filter :: "string \<Rightarrow> string \<Rightarrow> string \<Rightarrow> string \<Rightarrow> mfilter" where
  "duplicate_filter walletAddress userID chainID currencyID =
     FAll [FEq ''walletAddress'' (BStr walletAddress), FEq ''userId'' (BId userID),
           FEq ''chainId'' (BId chainID), FEq ''currencyId'' (BId currencyID), not_deleted]"

definition CheckDuplicateAccount ::
  "'w db \<Rightarrow> string \<Rightarrow> string \<Rightarrow> string \<Rightarrow> string \<Rightarrow> 'w \<Rightarrow> bool res \<times> 'w" where
  "CheckDuplicateAccount db walletAddress userID chainID currencyID w =
     (case repo_count (db_mongo db) ''accounts''
             (duplicate_filter walletAddress userID chainID currencyID) w of
        (r, w') \<Rightarrow> (map_res (\<lambda>n. n > 0) r, w'))"

definition repo_CreateAccount :: "'w db \<Rightarrow> account_model \<Rightarrow> 'w \<Rightarrow> account_model res \<times> 'w" where
  "repo_CreateAccount db x w =
     (case db_now db w of (now, w1) \<Rightarrow> case fresh_id db (am_ID x) w1 of (i, w2) \<Rightarrow>
        let x' = x\<lparr>am_CreatedAt := now, am_UpdatedAt := now, am_ID := i\<rparr>
        in case repo_insert (db_mongo db) ''accounts'' (enc_account_model x') w2 of
             (r, w3) \<Rightarrow> (map_res (\<lambda>_. x') r, w3))"

definition repo_UpdateAccount :: "'w db \<Rightarrow> account_model \<Rightarrow> 'w \<Rightarrow> unit res \<times> 'w" where
  "repo_UpdateAccount db x w =
     (if am_ID x = nil_id then (Err ErrInvalidID, w)
      else case db_now db w of (now, w1) \<Rightarrow>
        repo_update (db_mongo db) ''accounts'' (am_ID x) (enc_account_model (x\<lparr>am_UpdatedAt := now\<rparr>)) w1)"

definition repo_DeleteAccount :: "'w db \<Rightarrow> string \<Rightarrow> 'w \<Rightarrow> unit res \<times> 'w" where
  "repo_DeleteAccount db i w =
     (case db_now db w of (now, w1) \<Rightarrow>
        repo_update (db_mongo db) ''accounts'' i (soft_delete now) w1)"

subsection \<open>Currencies and chains\<close>

definition GetCurrencyByID :: "'w db \<Rightarrow> string \<Rightarrow> 'w \<Rightarrow> currency_model res \<times> 'w" where
  "GetCurrencyByID db i w =
     repo_find_one (db_mongo db) ''currencies'' dec_currency_model (FEq ''_id'' (BId i)) w"

definition GetCurrencyBySymbol :: "'w db \<Rightarrow> string \<Rightarrow> 'w \<Rightarrow> currency_model res \<times> 'w" where
  "GetCurrencyBySymbol db s w =
     repo_find_one (db_mongo db) ''currencies'' dec_currency_model (FEq ''symbol'' (BStr s)) w"

definition GetCurrencies :: "'w db \<Rightarrow> 'w \<Rightarrow> currency_model list res \<times> 'w" where
  "GetCurrencies db w = repo_find_all (db_mongo db) ''currencies'' dec_currency_model (FAll []) w"

definition GetChainByID :: "'w db \<Rightarrow> string \<Rightarrow> 'w \<Rightarrow> chain_model res \<times> 'w" where
  "GetChainByID db i w = repo_find_one (db_mongo db) ''chains'' dec_chain_model (FEq ''_id'' (BId i)) w"

definition GetChainBySymbol :: "'w db \<Rightarrow> string \<Rightarrow> 'w \<Rightarrow> chain_model res \<times> 'w" where
  "GetChainBySymbol db s w =
     repo_find_one (db_mongo db) ''chains'' dec_chain_model (FEq ''symbol'' (BStr s)) w"

definition GetChains :: "'w db \<Rightarrow> 'w \<Rightarrow> chain_model list res \<times> 'w" where
  "GetChains db w = repo_find_sorted (db_mongo db) ''chains'' dec_chain_model ''name'' True w"

definition GetSupportedCurrencyByID :: "'w db \<Rightarrow> string \<Rightarrow> 'w \<Rightarrow> supported_currency res \<times> 'w" where
  "GetSupportedCurrencyByID db i w =
     repo_find_one (db_mongo db) ''supportedcurrencies'' dec_supported_currency (FEq ''_id'' (BId i)) w"

definition GetSupportedCurrenciesByChainID ::
  "'w db \<Rightarrow> string \<Rightarrow> 'w \<Rightarrow> supported_currency list res \<times> 'w" where
  "GetSupportedCurrenciesByChainID db i w =
     repo_find_all (db_mongo db) ''supportedcurrencies'' dec_supported_currency (FEq ''chainId'' (BId i)) w"

definition GetSupportedCurrencies :: "'w db \<Rightarrow> 'w \<Rightarrow> supported_currency list res \<times> 'w" where
  "GetSupportedCurrencies db w =
     repo_find_sorted (db_mongo db) ''supportedcurrencies'' dec_supported_currency ''createdAt'' False w"

definition GetSupportedCurrencyBySymbol :: "'w db \<Rightarrow> string \<Rightarrow> 'w \<Rightarrow> supported_currency res \<times> 'w" where
  "GetSupportedCurrencyBySymbol db s w =
     repo_find_one (db_mongo db) ''supportedcurrencies'' dec_supported_currency (FEq ''symbol'' (BStr s)) w"

section \<open>Adapters\<close>

definition via :: "('a \<Rightarrow> 'b) \<Rightarrow> 'a res \<times> 'w \<Rightarrow> 'b res \<times> 'w" where
  "via f r = (map_res f (fst r), snd r)"

subsection \<open>Wallets\<close>

definition wallet_GetByID :: "'w db \<Rightarrow> string \<Rightarrow> 'w \<Rightarrow> wallet option res \<times> 'w" where
  "wallet_GetByID db i w = via (Some \<circ> convertWalletModelToDomain) (GetWalletByID db i w)"

definition wallet_GetByUserID :: "'w db \<Rightarrow> string \<Rightarrow> 'w \<Rightarrow> wallet list res \<times> 'w" where
  "wallet_GetByUserID db i w = via (map convertWalletModelToDomain) (GetWalletsByUserId db i w)"

definition wallet_Create :: "'w db \<Rightarrow> wallet \<Rightarrow> 'w \<Rightarrow> wallet res \<times> 'w" where
  "wallet_Create db x w =
     via (\<lambda>m. x\<lparr>wl_ID := wm_ID m\<rparr>) (repo_CreateWallet db (convertWalletDomainToModel x) w)"

definition wallet_Update :: "'w db \<Rightarrow> wallet \<Rightarrow> 'w \<Rightarrow> unit res \<times> 'w" where
  "wallet_Update db x w = repo_UpdateWallet db (convertWalletDomainToModel x) w"

definition wallet_Delete :: "'w db \<Rightarrow> string \<Rightarrow> 'w \<Rightarrow> unit res \<times> 'w" where
  "wallet_Delete db i w = repo_DeleteWallet db i w"

subsection \<open>Accounts\<close>

definition account_GetByID :: "'w db \<Rightarrow> string \<Rightarrow> 'w \<Rightarrow> account option res \<times> 'w" where
  "account_GetByID db i w = via (Some \<circ> convertAccountModelToDomain) (GetAccountByID db i w)"

definition account_GetByWalletID :: "'w db \<Rightarrow> string \<Rightarrow> 'w \<Rightarrow> account list res \<times> 'w" where
  "account_GetByWalletID db i w = via (map convertAccountModelToDomain) (GetAccountsByWalletID db i w)"

definition account_GetByAddress :: "'w db \<Rightarrow> string \<Rightarrow> 'w \<Rightarrow> account option res \<times> 'w" where
  "account_GetByAddress db address w =
     via (Some \<circ> convertAccountModelToDomain) (GetAccountByAddress db address w)"

definition account_CountByAddress :: "'w db \<Rightarrow> string \<Rightarrow> 'w \<Rightarrow> nat res \<times> 'w" where
  "account_CountByAddress db address w = CountByAddress db address w"

definition account_CheckDuplicateAccount ::
  "'w db \<Rightarrow> string \<Rightarrow> string \<Rightarrow> string \<Rightarrow> string \<Rightarrow> 'w \<Rightarrow> bool res \<times> 'w" where
  "account_CheckDuplicateAccount db walletAddress userID chainID currencyID w =
     CheckDuplicateAccount db walletAddress userID chainID currencyID w"

definition account_Create :: "'w db \<Rightarrow> account \<Rightarrow> 'w \<Rightarrow> account res \<times> 'w" where
  "account_Create db x w =
     via (\<lambda>m. x\<lparr>ac_ID := am_ID m\<rparr>) (repo_CreateAccount db (convertAccountDomainToModel x) w)"

definition account_Update :: "'w db \<Rightarrow> account \<Rightarrow> 'w \<Rightarrow> unit res \<times> 'w" where
  "account_Update db x w = repo_UpdateAccount db (convertAccountDomainToModel x) w"

definition account_Delete :: "'w db \<Rightarrow> string \<Rightarrow> 'w \<Rightarrow> unit res \<times> 'w" where
  "account_Delete db i w = repo_DeleteAccount db i w"

subsection \<open>Currencies and chains\<close>

definition currency_GetByID :: "'w db \<Rightarrow> string \<Rightarrow> 'w \<Rightarrow> currency_model option res \<times> 'w" where
  "currency_GetByID db i w = via Some (GetCurrencyByID db i w)"

definition chain_GetByID :: "'w db \<Rightarrow> string \<Rightarrow> 'w \<Rightarrow> chain_model option res \<times> 'w" where
  "chain_GetByID db i w = via Some (GetChainByID db i w)"

definition chain_GetBySymbol :: "'w db \<Rightarrow> string \<Rightarrow> 'w \<Rightarrow> chain_model option res \<times> 'w" where
  "chain_GetBySymbol db s w = via Some (GetChainBySymbol db s w)"

definition chain_GetAll :: "'w db \<Rightarrow> 'w \<Rightarrow> chain_model list res \<times> 'w" where
  "chain_GetAll db w = GetChains db w"

definition supported_GetByID :: "'w db \<Rightarrow> string \<Rightarrow> 'w \<Rightarrow> supported_currency option res \<times> 'w" where
  "supported_GetByID db i w = via Some (GetSupportedCurrencyByID db i w)"

definition supported_GetBySymbol :: "'w db \<Rightarrow> string \<Rightarrow> 'w \<Rightarrow> supported_currency option res \<times> 'w" where
  "supported_GetBySymbol db s w = via Some (GetSupportedCurrencyBySymbol db s w)"

definition supported_GetAll :: "'w db \<Rightarrow> 'w \<Rightarrow> supported_currency list res \<times> 'w" where
  "supported_GetAll db w = GetSupportedCurrencies db w"

text \<open>A page of the supported currencies; a slice with impossible bounds panics.\<close>

definition page :: "int \<Rightarrow> int \<Rightarrow> 'a list \<Rightarrow> 'a list res" where
  "page limit skip xs =
     (let n = int (length xs); e = (if skip + limit > n then n else skip + limit) in
      if skip \<ge> n then Ok []
      else if skip < 0 \<or> e < skip then Panic ''slice bounds out of range''
      else Ok (take (nat (e - skip)) (drop (nat skip) xs)))"

definition GetBatch :: "'w db \<Rightarrow> int \<Rightarrow> int \<Rightarrow> 'w \<Rightarrow> supported_currency list res \<times> 'w" where
  "GetBatch db limit skip w =
     (case GetSupportedCurrencies db w of
        (Ok xs, w') \<Rightarrow> (page limit skip xs, w')
      | (Err e, w') \<Rightarrow> (Err e, w')
      | (Panic p, w') \<Rightarrow> (Panic p, w'))"

section \<open>The database under the repositories\<close>

text \<open>A driver that behaves as documented, on a store observed by \<open>view\<close>, and a clock and
  identifiers that leave the store alone.\<close>

definition db_ok :: "(string \<Rightarrow> string \<Rightarrow> bool) \<Rightarrow> 'w db \<Rightarrow> ('w \<Rightarrow> mstore) \<Rightarrow> bool" where
  "db_ok re db view \<longleftrightarrow> mongo_ok re (db_mongo db) view \<and> (\<forall>w. view (snd (db_now db w)) = view w)
     \<and> (\<forall>w. view (snd (db_new_id db w)) = view w)"

lemma db_okD:
  assumes "db_ok re db view"
  shows "mongo_ok re (db_mongo db) view"
    "db_now db w = (t, w') \<Longrightarrow> view w' = view w" "db_new_id db w = (i, w') \<Longrightarrow> view w' = view w"
  using assms unfolding db_ok_def by (auto, metis snd_conv, metis snd_conv)

definition live :: "bdoc \<Rightarrow> bool" where
  "live d \<longleftrightarrow> matches (\<lambda>_ _. False) not_deleted (map_of d)"

text \<open>A database without documents of its own: identifiers longer than all those in use.\<close>

definition fresh_name :: "string \<Rightarrow> mstore \<Rightarrow> string" where
  "fresh_name c m = replicate (Suc (fold max (map (\<lambda>d. case map_of d ''_id'' of
     Some (BId i) \<Rightarrow> length i | _ \<Rightarrow> 0) (m c)) 24)) CHR ''f''"

lemma fold_max_ge: "(y :: nat) \<le> fold max xs y \<and> (\<forall>x \<in> set xs. x \<le> fold max xs y)"
proof (induction xs arbitrary: y)
  case (Cons x xs)
  from Cons [of "max x y"] show ?case by auto
qed simp

lemma id_length:
  assumes "d \<in> set (m c)" "map_of d ''_id'' = Some (BId i)"
  shows "length i < length (fresh_name c m)"
proof -
  let ?len = "\<lambda>d. case map_of d ''_id'' of Some (BId i) \<Rightarrow> length i | _ \<Rightarrow> 0"
  have "?len d \<le> fold max (map ?len (m c)) 24"
    using fold_max_ge [of 24 "map ?len (m c)"] assms(1) by simp
  with assms(2) show ?thesis by (simp add: fresh_name_def)
qed

lemma fresh_name_long: "24 < length (fresh_name c m)"
  using fold_max_ge [of 24 "map (\<lambda>d. case map_of d ''_id'' of Some (BId i) \<Rightarrow> length i | _ \<Rightarrow> 0) (m c)"]
  by (simp add: fresh_name_def less_Suc_eq_le)

definition mem_db :: "mstore db" where
  "mem_db = \<lparr>db_mongo = mem_mongo (\<lambda>_ _. False), db_now = Pair 1700000000000000000,
             db_new_id = (\<lambda>m. (fresh_name ''accounts'' m, m))\<rparr>"

lemma mem_db_ok: "db_ok (\<lambda>_ _. False) mem_db id"
  using mem_mongo_ok by (simp add: db_ok_def mem_db_def)

lemma repo_find_one_ok:
  assumes "mongo_ok re mg view"
  shows "\<exists>w'. repo_find_one mg c dec f w
      = ((case filter (\<lambda>d. matches re f (map_of d)) (view w c) of
            [] \<Rightarrow> Err ErrNotFound | d # _ \<Rightarrow> decode_doc dec d), w') \<and> view w' = view w"
proof -
  obtain r w' where m: "mdo mg (MFindOne c f) w = (r, w')" by (metis surj_pair)
  from mongo_okD [OF assms m] m show ?thesis
    by (cases "filter (\<lambda>d. matches re f (map_of d)) (view w c)")
      (auto simp: repo_find_one_def mongo_find_one_def)
qed

lemma repo_update_ok:
  assumes "mongo_ok re mg view"
  shows "\<exists>w'. repo_update mg c i us w
      = ((if filter (\<lambda>d. matches re (FEq ''_id'' (BId i)) (map_of d)) (view w c) = []
          then Err ErrNotFound else Ok ()), w')
    \<and> view w' = (view w)(c := update_first (\<lambda>d. matches re (FEq ''_id'' (BId i)) (map_of d))
        (set_fields us) (view w c))"
proof -
  let ?f = "FEq ''_id'' (BId i)"
  obtain r w' where m: "mdo mg (MUpdateOne c ?f us) w = (r, w')" by (metis surj_pair)
  have "r = MNum (min 1 (length (filter (\<lambda>d. matches re ?f (map_of d)) (view w c))))"
    "view w' = (view w)(c := update_first (\<lambda>d. matches re ?f (map_of d)) (set_fields us) (view w c))"
    using mongo_okD [OF assms m] by simp_all
  with m show ?thesis
    by (cases "filter (\<lambda>d. matches re ?f (map_of d)) (view w c)") (simp_all add: repo_update_def)
qed

lemma repo_insert_ok:
  assumes "mongo_ok re mg view"
  shows "\<exists>w'. repo_insert mg c d w
      = ((if \<exists>e \<in> set (view w c). map_of e ''_id'' = map_of d ''_id'' then Err ErrDuplicateKey else Ok ()), w')
    \<and> view w' = (if \<exists>e \<in> set (view w c). map_of e ''_id'' = map_of d ''_id'' then view w
        else (view w)(c := view w c @ [d]))"
proof -
  obtain r w' where m: "mdo mg (MInsert c d) w = (r, w')" by (metis surj_pair)
  from mongo_okD [OF assms m] m show ?thesis
    by (auto simp: repo_insert_def dup_key_def split: if_splits)
qed

lemma repo_count_ok:
  assumes "mongo_ok re mg view"
  shows "\<exists>w'. repo_count mg c f w = (Ok (length (filter (\<lambda>d. matches re f (map_of d)) (view w c))), w')
    \<and> view w' = view w"
proof -
  obtain r w' where m: "mdo mg (MCount c f) w = (r, w')" by (metis surj_pair)
  from mongo_okD [OF assms m] m show ?thesis by (auto simp: repo_count_def)
qed

end
