(* ===== verification/WalletUseCase.thy ===== *)
theory WalletUseCase
  imports Repositories
begin

text \<open>
  \<open>src/usecases/wallet_usecase.go\<close> over the interface of \<open>src/repositories/wallet_repository.go\<close>, and
  what becomes of a wallet's fields between the use cases and the database.
\<close>

record 'w wallet_repo =
  wr_GetByID :: "string \<Rightarrow> 'w \<Rightarrow> wallet option res \<times> 'w"
  wr_GetByUserID :: "string \<Rightarrow> 'w \<Rightarrow> wallet list res \<times> 'w"
  wr_Create :: "wallet \<Rightarrow> 'w \<Rightarrow> wallet res \<times> 'w"
  wr_Update :: "wallet \<Rightarrow> 'w \<Rightarrow> unit res \<times> 'w"
  wr_Delete :: "string \<Rightarrow> 'w \<Rightarrow> unit res \<times> 'w"

definition WalletRepositoryAdapter :: "'w db \<Rightarrow> 'w wallet_repo" where
  "WalletRepositoryAdapter db =
     \<lparr>wr_GetByID = wallet_GetByID db, wr_GetByUserID = wallet_GetByUserID db,
      wr_Create = wallet_Create db, wr_Update = wallet_Update db, wr_Delete = wallet_Delete db\<rparr>"

definition ErrWalletNotFound :: goerr where "ErrWalletNotFound = EMsg ''wallet not found''"
definition ErrInvalidUserID :: goerr where "ErrInvalidUserID = EMsg ''invalid user ID''"

text \<open>The environment of a use case is that of the domain structs: clock and identifiers.\<close>

definition uc_CreateWallet ::
  "'w db \<Rightarrow> 'w wallet_repo \<Rightarrow> string \<Rightarrow> string \<Rightarrow> string \<Rightarrow> int \<Rightarrow> 'w \<Rightarrow> wallet res \<times> 'w" where
  "uc_CreateWallet db wr userID name hashedSeedPhrase accountDepth w =
     (if userID = nil_id then (Err ErrInvalidUserID, w)
      else case NewWallet db userID name hashedSeedPhrase accountDepth w of (x, w1) \<Rightarrow> wr_Create wr x w1)"

definition uc_GetWalletByID :: "'w wallet_repo \<Rightarrow> string \<Rightarrow> 'w \<Rightarrow> wallet res \<times> 'w" where
  "uc_GetWalletByID wr i w =
     (case wr_GetByID wr i w of
        (Ok (Some x), w') \<Rightarrow> (Ok x, w')
      | (Ok None, w') \<Rightarrow> (Err ErrWalletNotFound, w')
      | (Err e, w') \<Rightarrow> (Err e, w')
      | (Panic p, w') \<Rightarrow> (Panic p, w'))"

definition uc_GetWalletsByUserID :: "'w wallet_repo \<Rightarrow> string \<Rightarrow> 'w \<Rightarrow> wallet list res \<times> 'w" where
  "uc_GetWalletsByUserID wr userID w =
     (if userID = nil_id then (Err ErrInvalidUserID, w) else wr_GetByUserID wr userID w)"

definition uc_UpdateWallet :: "'w wallet_repo \<Rightarrow> wallet \<Rightarrow> 'w \<Rightarrow> unit res \<times> 'w" where
  "uc_UpdateWallet wr x w =
     (if wl_ID x = nil_id then (Err (EMsg ''wallet ID is required''), w)
      else
        (case wr_GetByID wr (wl_ID x) w of
           (Ok _, w1) \<Rightarrow> wr_Update wr x w1
         | (Err e, w1) \<Rightarrow> (Err e, w1)
         | (Panic p, w1) \<Rightarrow> (Panic p, w1)))"

definition uc_DeleteWallet :: "'w db \<Rightarrow> 'w wallet_repo \<Rightarrow> string \<Rightarrow> 'w \<Rightarrow> unit res \<times> 'w" where
  "uc_DeleteWallet db wr i w =
     (case wr_GetByID wr i w of
        (Ok (Some x), w1) \<Rightarrow>
          (case db_now db w1 of (now, w2) \<Rightarrow> wr_Update wr (wallet_MarkAsDeleted now x) w2)
      | (Ok None, w1) \<Rightarrow> (Err ErrWalletNotFound, w1)
      | (Err e, w1) \<Rightarrow> (Err e, w1)
      | (Panic p, w1) \<Rightarrow> (Panic p, w1))"

section \<open>What is lost on the way\<close>

lemma set_fields_put [doc_simps]:
  "set_fields (us @ vs) d = set_fields vs (set_fields us d)"
  "map_of (set_fields (put k v) d) j = (if j = k then Some v else map_of d j)"
  "map_of (set_fields (put_id k i) d) j = (if j \<noteq> k \<or> i = nil_id then map_of d j else Some (BId i))"
  "map_of (set_fields (put_str k s) d) j = (if j \<noteq> k \<or> s = [] then map_of d j else Some (BStr s))"
  "map_of (set_fields (put_time k t) d) j = (if j \<noteq> k \<or> t = None then map_of d j else map_option bson_time t)"
  by (auto simp: set_fields_def put_def put_id_def put_str_def put_time_def update_conv' split: option.splits)

text \<open>The document of a wallet after \<open>wallet_Update\<close>: the fields the domain conversion drops are reset
  unless they are tagged \<open>omitempty\<close>.\<close>

lemma updated_wallet_doc:
  assumes "dec_wallet_model d = Some m" "wl_ID x = wm_ID m"
  shows "dec_wallet_model (set_fields (enc_wallet_model (convertWalletDomainToModel x\<lparr>wm_UpdatedAt := t\<rparr>)) d)
    = Some (m\<lparr>wm_UserID := wl_UserID x, wm_Name := wl_Name x, wm_WalletGroup := [], wm_AccountDepth := 0,
        wm_PrimaryWallet := False, wm_IsLinked := False, wm_IsDeleted := False,
        wm_CreatedAt := ms_trunc (wl_CreatedAt x), wm_UpdatedAt := ms_trunc t\<rparr>)"
proof -
  have get: "get_id d ''_id'' = Some (wm_ID m)" "get_str d ''hashedSeedPhrase'' = Some (wm_HashedSeedPhrase m)"
    "get_id d ''zapExchangeId'' = Some (wm_ZapExchangeID m)"
    "get_time_ptr d ''deletedAt'' = Some (wm_DeletedAt m)"
    using assms(1) by (auto simp: dec_wallet_model_def bind_eq_Some_conv)
  have "id_of (if wm_ID m = nil_id then map_of d ''_id'' else Some (BId (wm_ID m))) = Some (wm_ID m)"
    using get(1) by (simp add: get_id_def id_of_def)
  with get show ?thesis
    unfolding dec_wallet_model_def get_defs enc_wallet_model_def convertWalletDomainToModel_def
    by (simp add: doc_simps assms(2) split del: if_split cong del: if_weak_cong)
qed

lemma wallet_read_times:
  "dec_wallet_model d = Some m \<Longrightarrow> ms_trunc (wm_CreatedAt m) = wm_CreatedAt m"
  by (auto simp: dec_wallet_model_def bind_eq_Some_conv get_time_def dest: ms_trunc_read)

text \<open>Updating a stored wallet and reading it again.\<close>

lemma wallet_update_then_get:
  assumes "db_ok re db view" "i \<noteq> nil_id"
    and d: "filter (\<lambda>d. matches re (FEq ''_id'' (BId i)) (map_of d)) (view w ''wallets'') = d # ds"
    and id: "map_of d ''_id'' = Some (BId i)"
    and us: "map_of (set_fields us d) ''_id'' = Some (BId i)"
    and dec: "dec_wallet_model (set_fields us d) = Some m'"
  shows "\<exists>w'. repo_update (db_mongo db) ''wallets'' i us w = (Ok (), w')
    \<and> (\<exists>w''. GetWalletByID db i w' = (Ok m', w''))"
proof -
  let ?P = "\<lambda>d. matches re (FEq ''_id'' (BId i)) (map_of d)"
  have mg: "mongo_ok re (db_mongo db) view" by (rule db_okD [OF assms(1)])
  obtain w' where w': "repo_update (db_mongo db) ''wallets'' i us w = (Ok (), w')"
    "view w' = (view w)(''wallets'' := update_first ?P (set_fields us) (view w ''wallets''))"
    using repo_update_ok [OF mg, of "''wallets''" i us w] d by auto
  have "?P (set_fields us d)" using us by (simp add: field_vals_def)
  from filter_update_first [where P = ?P and f = "set_fields us", OF d this] have "filter ?P (view w' ''wallets'') = set_fields us d # ds"
    by (simp add: w'(2))
  with repo_find_one_ok [OF mg, of "''wallets''" dec_wallet_model "FEq ''_id'' (BId i)" w'] dec w'(1)
  show ?thesis by (auto simp: GetWalletByID_def decode_doc_def)
qed

text \<open>
  C24: Deleting a wallet through the use case reports success, but the wallet is not deleted: its
  conversion to the stored struct drops the mark, and writing the struct back clears the group, the
  account depth and the primary and linked flags. The repository's own \<open>Delete\<close>, which the use
  case does not call, marks the wallet and keeps everything else.
\<close>

theorem wallet_delete_lost:
  assumes "db_ok re db view" "i \<noteq> nil_id"
    and "filter (\<lambda>d. matches re (FEq ''_id'' (BId i)) (map_of d)) (view w ''wallets'') = d # ds"
    and "map_of d ''_id'' = Some (BId i)" "dec_wallet_model d = Some m"
  shows "(\<exists>w' w'' t. uc_DeleteWallet db (WalletRepositoryAdapter db) i w = (Ok (), w')
      \<and> GetWalletByID db i w'
        = (Ok (m\<lparr>wm_WalletGroup := [], wm_AccountDepth := 0, wm_PrimaryWallet := False,
              wm_IsLinked := False, wm_IsDeleted := False, wm_UpdatedAt := t\<rparr>), w''))
    \<and> (\<exists>w' w'' t. wallet_Delete db i w = (Ok (), w')
      \<and> GetWalletByID db i w'
        = (Ok (m\<lparr>wm_IsDeleted := True, wm_DeletedAt := Some t, wm_UpdatedAt := t\<rparr>), w''))"
proof (rule conjI)
  note mg = db_okD(1) [OF assms(1)]
  have mid: "wm_ID m = i"
    using assms(4,5) by (auto simp: dec_wallet_model_def bind_eq_Some_conv get_id_def id_of_def)
  obtain w1 where w1: "GetWalletByID db i w = (Ok m, w1)" "view w1 = view w"
    using repo_find_one_ok [OF mg, of "''wallets''" dec_wallet_model "FEq ''_id'' (BId i)" w] assms(3,5)
    by (auto simp: GetWalletByID_def decode_doc_def)
  obtain n w2 where n: "db_now db w1 = (n, w2)" by (metis surj_pair)
  obtain n' w3 where n': "db_now db w2 = (n', w3)" by (metis surj_pair)
  have v3: "view w3 = view w" using db_okD(2) [OF assms(1)] n n' w1(2) by simp
  let ?x = "wallet_MarkAsDeleted n (convertWalletModelToDomain m)"
  let ?us = "enc_wallet_model (convertWalletDomainToModel ?x\<lparr>wm_UpdatedAt := n'\<rparr>)"
  let ?m = "m\<lparr>wm_WalletGroup := [], wm_AccountDepth := 0, wm_PrimaryWallet := False,
    wm_IsLinked := False, wm_IsDeleted := False, wm_UpdatedAt := ms_trunc n'\<rparr>"
  have x: "wl_ID ?x = wm_ID m" by (simp add: wallet_MarkAsDeleted_def convertWalletModelToDomain_def)
  have dec: "dec_wallet_model (set_fields ?us d) = Some ?m"
    using updated_wallet_doc [OF assms(5) x, of n'] wallet_read_times [OF assms(5)]
    by (simp add: wallet_MarkAsDeleted_def convertWalletModelToDomain_def)
  have us: "map_of (set_fields ?us d) ''_id'' = Some (BId i)"
    using assms(2) mid x unfolding enc_wallet_model_def
    by (simp add: doc_simps convertWalletDomainToModel_def)
  obtain w4 w5 where w4: "repo_update (db_mongo db) ''wallets'' i ?us w3 = (Ok (), w4)"
    "GetWalletByID db i w4 = (Ok ?m, w5)"
    using wallet_update_then_get [OF assms(1,2) _ assms(4) us dec, of w3 ds] assms(3) v3 by metis
  have "wm_ID (convertWalletDomainToModel ?x) = i"
    using mid x by (simp add: convertWalletDomainToModel_def)
  then have "uc_DeleteWallet db (WalletRepositoryAdapter db) i w = (Ok (), w4)"
    using w1 n n' w4 assms(2)
    by (simp add: uc_DeleteWallet_def WalletRepositoryAdapter_def wallet_GetByID_def via_def
        wallet_Update_def repo_UpdateWallet_def)
  with w4(2) show "\<exists>w' w'' t. uc_DeleteWallet db (WalletRepositoryAdapter db) i w = (Ok (), w')
      \<and> GetWalletByID db i w'
        = (Ok (m\<lparr>wm_WalletGroup := [], wm_AccountDepth := 0, wm_PrimaryWallet := False,
              wm_IsLinked := False, wm_IsDeleted := False, wm_UpdatedAt := t\<rparr>), w'')" by blast
next
  obtain n w1 where n: "db_now db w = (n, w1)" by (metis surj_pair)
  have v1: "view w1 = view w" using db_okD(2) [OF assms(1) n] .
  let ?us = "(''isDeleted'', BBool True) # soft_delete n"
  have us: "map_of (set_fields ?us d) ''_id'' = Some (BId i)"
    by (simp add: map_of_set_fields soft_delete_def assms(4))
  have dec: "dec_wallet_model (set_fields ?us d)
      = Some (m\<lparr>wm_IsDeleted := True, wm_DeletedAt := Some (ms_trunc n), wm_UpdatedAt := ms_trunc n\<rparr>)"
    using assms(5) unfolding dec_wallet_model_def get_defs map_of_set_fields soft_delete_def
    by (auto simp: bind_eq_Some_conv doc_simps)
  show "\<exists>w' w'' t. wallet_Delete db i w = (Ok (), w')
      \<and> GetWalletByID db i w'
        = (Ok (m\<lparr>wm_IsDeleted := True, wm_DeletedAt := Some t, wm_UpdatedAt := t\<rparr>), w'')"
    using wallet_update_then_get [OF assms(1,2) _ assms(4) us dec, of w1 ds] assms(3) v1 n
    by (auto simp: wallet_Delete_def repo_DeleteWallet_def)
qed

text \<open>A database with one wallet.\<close>

definition demo_wallet :: wallet_model where
  "demo_wallet = \<lparr>wm_ID = ''a1'', wm_UserID = ''u1'', wm_Name = ''Main'', wm_WalletGroup = ''Group 1'',
     wm_HashedSeedPhrase = ''h'', wm_AccountDepth = 1, wm_PrimaryWallet = True, wm_IsLinked = True,
     wm_ZapExchangeID = ''z1'', wm_IsDeleted = False, wm_DeletedAt = None,
     wm_CreatedAt = 10 ^ 18, wm_UpdatedAt = 10 ^ 18\<rparr>"

definition wallet_store :: mstore where
  "wallet_store = (\<lambda>c. if c = ''wallets'' then [enc_wallet_model demo_wallet] else [])"

theorem wallet_delete_lost_witness:
  "(\<exists>w' w'' t. uc_DeleteWallet mem_db (WalletRepositoryAdapter mem_db) ''a1'' wallet_store = (Ok (), w')
      \<and> GetWalletByID mem_db ''a1'' w'
        = (Ok (demo_wallet\<lparr>wm_WalletGroup := [], wm_AccountDepth := 0, wm_PrimaryWallet := False,
              wm_IsLinked := False, wm_IsDeleted := False, wm_UpdatedAt := t\<rparr>), w''))
   \<and> (\<exists>w' w'' t. wallet_Delete mem_db ''a1'' wallet_store = (Ok (), w')
      \<and> GetWalletByID mem_db ''a1'' w'
        = (Ok (demo_wallet\<lparr>wm_IsDeleted := True, wm_DeletedAt := Some t, wm_UpdatedAt := t\<rparr>), w''))"
proof -
  let ?d = "enc_wallet_model demo_wallet"
  have id: "map_of ?d ''_id'' = Some (BId ''a1'')" by code_simp
  have f: "filter (\<lambda>d. matches (\<lambda>_ _. False) (FEq ''_id'' (BId ''a1'')) (map_of d)) (id wallet_store ''wallets'')
      = ?d # []"
    by (simp add: wallet_store_def field_vals_def id)
  have "stored_wallet demo_wallet = demo_wallet"
    by (simp add: stored_wallet_def demo_wallet_def ms_trunc_def)
  then have dec: "dec_wallet_model ?d = Some demo_wallet" using dec_enc_wallet [of demo_wallet] by simp
  have "''a1'' \<noteq> nil_id" by (simp add: nil_id_def)
  from wallet_delete_lost [where re = "\<lambda>_ _. False" and db = mem_db and view = id and w = wallet_store
      and i = "''a1''" and d = ?d and ds = "[]" and m = demo_wallet, OF mem_db_ok this f id dec]
  show ?thesis .
qed

end
