(* ===== verification/AccountUseCase.thy ===== *)
theory AccountUseCase
  imports WalletUseCase
begin

text \<open>
  \<open>src/usecases/account_usecase.go\<close> over the repository interfaces of \<open>src/repositories\<close>: creating,
  finding, updating and deleting accounts, and the import of accounts. The balance of an account
  comes from the blockchain service, whose provider is chosen at run time: it is an argument of the
  model (\<open>au_balance\<close>), as is the state of the context (\<open>au_ctx\<close>: the error of a context that is
  done). The notifications sent to the Node.js server in goroutines of their own and the pauses
  between accounts have no effect on what is modelled.
\<close>

record 'w account_repo =
  ar_GetByID :: "string \<Rightarrow> 'w \<Rightarrow> account option res \<times> 'w"
  ar_GetByWalletID :: "string \<Rightarrow> 'w \<Rightarrow> account list res \<times> 'w"
  ar_GetByAddress :: "string \<Rightarrow> 'w \<Rightarrow> account option res \<times> 'w"
  ar_CountByAddress :: "string \<Rightarrow> 'w \<Rightarrow> nat res \<times> 'w"
  ar_CheckDuplicateAccount :: "string \<Rightarrow> string \<Rightarrow> string \<Rightarrow> string \<Rightarrow> 'w \<Rightarrow> bool res \<times> 'w"
  ar_Create :: "account \<Rightarrow> 'w \<Rightarrow> account res \<times> 'w"
  ar_Update :: "account \<Rightarrow> 'w \<Rightarrow> unit res \<times> 'w"
  ar_Delete :: "string \<Rightarrow> 'w \<Rightarrow> unit res \<times> 'w"

definition AccountRepositoryAdapter :: "'w db \<Rightarrow> 'w account_repo" where
  "AccountRepositoryAdapter db =
     \<lparr>ar_GetByID = account_GetByID db, ar_GetByWalletID = account_GetByWalletID db,
      ar_GetByAddress = account_GetByAddress db, ar_CountByAddress = account_CountByAddress db,
      ar_CheckDuplicateAccount = account_CheckDuplicateAccount db,
      ar_Create = account_Create db, ar_Update = account_Update db, ar_Delete = account_Delete db\<rparr>"

record 'w supported_repo =
  sr_GetByID :: "string \<Rightarrow> 'w \<Rightarrow> supported_currency option res \<times> 'w"
  sr_GetBySymbol :: "string \<Rightarrow> 'w \<Rightarrow> supported_currency option res \<times> 'w"
  sr_GetAll :: "'w \<Rightarrow> supported_currency list res \<times> 'w"
  sr_GetBatch :: "int \<Rightarrow> int \<Rightarrow> 'w \<Rightarrow> supported_currency list res \<times> 'w"

definition SupportedCurrencyRepositoryAdapter :: "'w db \<Rightarrow> 'w supported_repo" where
  "SupportedCurrencyRepositoryAdapter db =
     \<lparr>sr_GetByID = supported_GetByID db, sr_GetBySymbol = supported_GetBySymbol db,
      sr_GetAll = supported_GetAll db, sr_GetBatch = GetBatch db\<rparr>"

record 'w account_uc =
  au_accountRepo :: "'w account_repo"
  au_walletRepo :: "'w wallet_repo"
  au_currency :: "string \<Rightarrow> 'w \<Rightarrow> currency_model option res \<times> 'w"
  au_chain :: "string \<Rightarrow> 'w \<Rightarrow> chain_model option res \<times> 'w"
  au_supported :: "'w supported_repo"
  au_balance :: "string \<Rightarrow> currency_model \<Rightarrow> chain_model \<Rightarrow> supported_currency option \<Rightarrow> 'w \<Rightarrow> f64 res \<times> 'w"
  au_db :: "'w db"
  au_ctx :: "'w \<Rightarrow> goerr option"

definition ErrAccountNotFound :: goerr where "ErrAccountNotFound = EMsg ''account not found''"
definition ErrCurrencyNotFound :: goerr where "ErrCurrencyNotFound = EMsg ''currency not found''"
definition ErrChainNotFound :: goerr where "ErrChainNotFound = EMsg ''chain not found''"

definition nil_deref :: string where
  "nil_deref = ''invalid memory address or nil pointer dereference''"

text \<open>A lookup whose error ends the operation, as does a nil pointer.\<close>

definition found_or ::
  "goerr \<Rightarrow> 'a option res \<times> 'w \<Rightarrow> ('a \<Rightarrow> 'w \<Rightarrow> 'b res \<times> 'w) \<Rightarrow> 'b res \<times> 'w" where
  "found_or e r k =
     (case r of
        (Ok (Some x), w) \<Rightarrow> k x w
      | (Ok None, w) \<Rightarrow> (Err e, w)
      | (Err e', w) \<Rightarrow> (Err e', w)
      | (Panic p, w) \<Rightarrow> (Panic p, w))"

definition uc_CreateAccount ::
  "'w account_uc \<Rightarrow> string \<Rightarrow> string \<Rightarrow> string \<Rightarrow> string \<Rightarrow> string \<Rightarrow> string \<Rightarrow> 'w \<Rightarrow> account res \<times> 'w" where
  "uc_CreateAccount uc walletID userID currencyID chainID walletAddress encryptedPrivateKey w =
     found_or ErrWalletNotFound (wr_GetByID (au_walletRepo uc) walletID w) (\<lambda>_ w1.
     found_or ErrCurrencyNotFound (au_currency uc currencyID w1) (\<lambda>_ w2.
       let create = (\<lambda>w3. case NewAccount (au_db uc) walletID userID currencyID chainID walletAddress
                               encryptedPrivateKey w3 of (a, w4) \<Rightarrow> ar_Create (au_accountRepo uc) a w4)
       in if chainID = nil_id then create w2
          else found_or ErrChainNotFound (au_chain uc chainID w2) (\<lambda>_. create)))"

definition CreateOrFindAccount ::
  "'w account_uc \<Rightarrow> string \<Rightarrow> string \<Rightarrow> string \<Rightarrow> 'w \<Rightarrow> account option res \<times> 'w" where
  "CreateOrFindAccount uc userId chainId walletAddress w =
     (case ar_CountByAddress (au_accountRepo uc) walletAddress w of
        (Err e, w1) \<Rightarrow> (Err (EWrap ''failed to count accounts by address: '' e), w1)
      | (Panic p, w1) \<Rightarrow> (Panic p, w1)
      | (Ok n, w1) \<Rightarrow>
          if n > 0 then
            (case ar_GetByAddress (au_accountRepo uc) walletAddress w1 of
               (Err e, w2) \<Rightarrow> (Err (EWrap ''failed to get account: '' e), w2)
             | r \<Rightarrow> r)
          else
            (case NewAccount (au_db uc) nil_id userId nil_id chainId walletAddress [] w1 of
               (a, w2) \<Rightarrow>
                 (case ar_Create (au_accountRepo uc) a w2 of
                    (Ok a', w3) \<Rightarrow> (Ok (Some a'), w3)
                  | (Err e, w3) \<Rightarrow> (Err (EWrap ''failed to create account: '' e), w3)
                  | (Panic p, w3) \<Rightarrow> (Panic p, w3))))"

definition uc_GetAccountByID :: "'w account_uc \<Rightarrow> string \<Rightarrow> 'w \<Rightarrow> account res \<times> 'w" where
  "uc_GetAccountByID uc i w =
     found_or ErrAccountNotFound (ar_GetByID (au_accountRepo uc) i w) (\<lambda>a w'. (Ok a, w'))"

definition uc_GetAccountsByWalletID :: "'w account_uc \<Rightarrow> string \<Rightarrow> 'w \<Rightarrow> account list res \<times> 'w" where
  "uc_GetAccountsByWalletID uc walletID w =
     found_or ErrWalletNotFound (wr_GetByID (au_walletRepo uc) walletID w)
       (\<lambda>_. ar_GetByWalletID (au_accountRepo uc) walletID)"

definition uc_GetAccountByAddress :: "'w account_uc \<Rightarrow> string \<Rightarrow> 'w \<Rightarrow> account res \<times> 'w" where
  "uc_GetAccountByAddress uc address w =
     (if address = [] then (Err (EMsg ''wallet address is required''), w)
      else found_or ErrAccountNotFound (ar_GetByAddress (au_accountRepo uc) address w) (\<lambda>a w'. (Ok a, w')))"

definition uc_UpdateAccount :: "'w account_uc \<Rightarrow> account \<Rightarrow> 'w \<Rightarrow> unit res \<times> 'w" where
  "uc_UpdateAccount uc a w =
     (if ac_ID a = nil_id then (Err (EMsg ''account ID is required''), w)
      else found_or ErrAccountNotFound (ar_GetByID (au_accountRepo uc) (ac_ID a) w)
             (\<lambda>_. ar_Update (au_accountRepo uc) a))"

definition uc_DeleteAccount :: "'w account_uc \<Rightarrow> string \<Rightarrow> 'w \<Rightarrow> unit res \<times> 'w" where
  "uc_DeleteAccount uc i w =
     found_or ErrAccountNotFound (ar_GetByID (au_accountRepo uc) i w) (\<lambda>a w1.
       case db_now (au_db uc) w1 of (now, w2) \<Rightarrow> ar_Update (au_accountRepo uc) (account_MarkAsDeleted now a) w2)"

section \<open>Importing accounts\<close>

text \<open>
  One account of the list (\<open>processOriginalAccounts\<close>). The account is a pointer: what is set on it
  stays set whatever happens next, so every outcome carries it.
\<close>

datatype import_out = IFail account goerr | ISkip account | IDone account | IPanic string

text \<open>The currency and chain of the supported currency, where it has them.\<close>

definition set_currency :: "supported_currency \<Rightarrow> account \<Rightarrow> account" where
  "set_currency sc a =
     a\<lparr>ac_CurrencyID := (if sc_CurrencyID sc = nil_id then ac_CurrencyID a else sc_CurrencyID sc),
       ac_ChainID := (if sc_ChainID sc = nil_id then ac_ChainID a else sc_ChainID sc)\<rparr>"

text \<open>The balance of an account that is imported; on any error it stays as it is.\<close>

definition fetch_balance :: "'w account_uc \<Rightarrow> account \<Rightarrow> 'w \<Rightarrow> account res \<times> 'w" where
  "fetch_balance uc a w =
     (if ac_WalletAddress a = [] \<or> ac_SupportedCurrencyID a = nil_id \<or> ac_Type a = ''ACCOUNT_CREATED''
      then (Ok a, w)
      else
        (case sr_GetByID (au_supported uc) (ac_SupportedCurrencyID a) w of
           (Ok (Some sc), w1) \<Rightarrow>
             (case au_currency uc (sc_CurrencyID sc) w1 of
                (Ok (Some cu), w2) \<Rightarrow>
                  (case au_chain uc (sc_ChainID sc) w2 of
                     (Ok (Some ch), w3) \<Rightarrow>
                       (case au_balance uc (ac_WalletAddress a) cu ch (Some sc) w3 of
                          (Ok b, w4) \<Rightarrow>
                            (case db_now (au_db uc) w4 of (now, w5) \<Rightarrow> (Ok (UpdateBalance now b a), w5))
                        | (Err e, w4) \<Rightarrow> (Ok a, w4)
                        | (Panic p, w4) \<Rightarrow> (Panic p, w4))
                   | (Panic p, w3) \<Rightarrow> (Panic p, w3)
                   | (_, w3) \<Rightarrow> (Ok a, w3))
              | (Panic p, w2) \<Rightarrow> (Panic p, w2)
              | (_, w2) \<Rightarrow> (Ok a, w2))
         | (Panic p, w1) \<Rightarrow> (Panic p, w1)
         | (_, w1) \<Rightarrow> (Ok a, w1)))"

text \<open>From the duplicate check on: a duplicate is skipped, any other account saved.\<close>

definition save_account :: "'w account_uc \<Rightarrow> account \<Rightarrow> 'w \<Rightarrow> import_out \<times> 'w" where
  "save_account uc a w =
     (case ar_CheckDuplicateAccount (au_accountRepo uc) (ac_WalletAddress a) (ac_UserID a) (ac_ChainID a)
             (ac_CurrencyID a) w of
        (Err e, w1) \<Rightarrow> (IFail a e, w1)
      | (Panic p, w1) \<Rightarrow> (IPanic p, w1)
      | (Ok True, w1) \<Rightarrow> (ISkip a, w1)
      | (Ok False, w1) \<Rightarrow>
          (case fetch_balance uc a w1 of
             (Ok a', w2) \<Rightarrow>
               (case ar_Create (au_accountRepo uc) a' w2 of
                  (Ok a'', w3) \<Rightarrow> (IDone a'', w3)
                | (Err e, w3) \<Rightarrow> (IFail a' e, w3)
                | (Panic p, w3) \<Rightarrow> (IPanic p, w3))
           | (Err e, w2) \<Rightarrow> (IFail a e, w2)
           | (Panic p, w2) \<Rightarrow> (IPanic p, w2)))"

definition import_type :: "account \<Rightarrow> account" where
  "import_type a = (if ac_Type a = [] then a\<lparr>ac_Type := ''ACCOUNT_IMPORTED''\<rparr> else a)"

definition import_original :: "'w account_uc \<Rightarrow> account \<Rightarrow> 'w \<Rightarrow> import_out \<times> 'w" where
  "import_original uc a0 w0 =
     (let (a, w) = (if ac_CreatedAt a0 = zero_time
                    then case db_now (au_db uc) w0 of (now, w) \<Rightarrow>
                           (a0\<lparr>ac_CreatedAt := now, ac_UpdatedAt := now\<rparr>, w)
                    else (a0, w0))
      in case wr_GetByID (au_walletRepo uc) (ac_WalletID a) w of
           (Err e, w1) \<Rightarrow> (IFail a e, w1)
         | (Panic p, w1) \<Rightarrow> (IPanic p, w1)
         | (Ok None, w1) \<Rightarrow> (IFail a ErrWalletNotFound, w1)
         | (Ok (Some _), w1) \<Rightarrow>
             if ac_SupportedCurrencyID a = nil_id then save_account uc (import_type a) w1
             else
               (case sr_GetByID (au_supported uc) (ac_SupportedCurrencyID a) w1 of
                  (Err e, w2) \<Rightarrow> (IFail a e, w2)
                | (Panic p, w2) \<Rightarrow> (IFail a (EMsg (''panic during currency lookup: '' @ p)), w2)
                | (Ok None, w2) \<Rightarrow> (IFail a ErrCurrencyNotFound, w2)
                | (Ok (Some sc), w2) \<Rightarrow> save_account uc (import_type (set_currency sc a)) w2))"

text \<open>
  The list: the identifiers created, the error that ended it, and the accounts as they are then.
  A nil pointer in the list is passed over.
\<close>

fun processOriginalAccounts ::
  "'w account_uc \<Rightarrow> account option list \<Rightarrow> string list \<Rightarrow> 'w
     \<Rightarrow> (string list \<times> goerr option \<times> account option list) res \<times> 'w" where
  "processOriginalAccounts uc [] ids w = (Ok (ids, None, []), w)"
| "processOriginalAccounts uc (x # xs) ids w =
     (case au_ctx uc w of
        Some e \<Rightarrow> (Ok (ids, Some e, x # xs), w)
      | None \<Rightarrow>
          let go = (\<lambda>y ids w. case processOriginalAccounts uc xs ids w of
                (Ok (is, e, ys), w') \<Rightarrow> (Ok (is, e, y # ys), w') | r \<Rightarrow> r)
          in case x of
               None \<Rightarrow> go None ids w
             | Some a \<Rightarrow>
                 (case import_original uc a w of
                    (IFail a' e, w1) \<Rightarrow> (Ok (ids, Some e, Some a' # xs), w1)
                  | (IPanic p, w1) \<Rightarrow> (Panic p, w1)
                  | (ISkip a', w1) \<Rightarrow> go (Some a') ids w1
                  | (IDone a', w1) \<Rightarrow> go (Some a') (ids @ [ac_ID a']) w1))"

text \<open>The second part: an account in every other supported currency of a chain that is imported.\<close>

definition currency_key :: "string \<Rightarrow> string \<Rightarrow> string" where
  "currency_key chainID currencyID = chainID @ ''-'' @ currencyID"

definition existing_keys :: "account list \<Rightarrow> string list" where
  "existing_keys as = map (\<lambda>a. currency_key (ac_ChainID a) (ac_CurrencyID a))
     (filter (\<lambda>a. ac_ChainID a \<noteq> nil_id \<and> ac_CurrencyID a \<noteq> nil_id) as)"

definition unadded :: "account list \<Rightarrow> supported_currency list \<Rightarrow> supported_currency list" where
  "unadded as cs = filter (\<lambda>c. sc_ChainID c \<noteq> nil_id \<and> sc_CurrencyID c \<noteq> nil_id
     \<and> currency_key (sc_ChainID c) (sc_CurrencyID c) \<notin> set (existing_keys as)) cs"

definition new_import :: "'w db \<Rightarrow> account \<Rightarrow> supported_currency \<Rightarrow> f64 \<Rightarrow> 'w \<Rightarrow> account \<times> 'w" where
  "new_import db a c balance w =
     (case db_new_id db w of (i, w1) \<Rightarrow> case db_now db w1 of (t1, w2) \<Rightarrow> case db_now db w2 of (t2, w3) \<Rightarrow>
        (\<lparr>ac_ID = i, ac_CurrencyID = sc_CurrencyID c, ac_WalletID = ac_WalletID a,
          ac_ChainID = sc_ChainID c, ac_UserID = ac_UserID a, ac_SupportedCurrencyID = sc_ID c,
          ac_WalletAddress = ac_WalletAddress a, ac_Balance = balance, ac_Type = ''ACCOUNT_IMPORTED'',
          ac_DeletedAt = None, ac_EncryptedPrivateKey = ac_EncryptedPrivateKey a, ac_CreatedAt = t1,
          ac_UpdatedAt = t2\<rparr>, w3))"

text \<open>The account in one more currency: its identifier, or nothing when it is passed over.\<close>

definition save_import :: "'w account_uc \<Rightarrow> account \<Rightarrow> 'w \<Rightarrow> string option res \<times> 'w" where
  "save_import uc a w =
     (case ar_CheckDuplicateAccount (au_accountRepo uc) (ac_WalletAddress a) (ac_UserID a) (ac_ChainID a)
             (ac_CurrencyID a) w of
        (Panic p, w1) \<Rightarrow> (Panic p, w1)
      | (Ok False, w1) \<Rightarrow>
          (case ar_Create (au_accountRepo uc) a w1 of
             (Ok a', w2) \<Rightarrow> (Ok (Some (ac_ID a')), w2)
           | (Err e, w2) \<Rightarrow> (Ok None, w2)
           | (Panic p, w2) \<Rightarrow> (Panic p, w2))
      | (_, w1) \<Rightarrow> (Ok None, w1))"

definition import_currency :: "'w account_uc \<Rightarrow> account list \<Rightarrow> supported_currency \<Rightarrow> 'w \<Rightarrow> string option res \<times> 'w" where
  "import_currency uc as c w =
     (case find (\<lambda>a. ac_ChainID a \<noteq> nil_id \<and> ac_ChainID a = sc_ChainID c) as of
        None \<Rightarrow> (Ok None, w)
      | Some a \<Rightarrow>
          (case au_currency uc (sc_CurrencyID c) w of
             (Err e, w1) \<Rightarrow> (Ok None, w1)
           | (Panic p, w1) \<Rightarrow> (Panic p, w1)
           | (Ok cu, w1) \<Rightarrow>
               (case au_chain uc (sc_ChainID c) w1 of
                  (Err e, w2) \<Rightarrow> (Ok None, w2)
                | (Panic p, w2) \<Rightarrow> (Panic p, w2)
                | (Ok ch, w2) \<Rightarrow>
                    (case sr_GetByID (au_supported uc) (sc_ID c) w2 of
                       (Panic p, w3) \<Rightarrow> (Panic p, w3)
                     | (r, w3) \<Rightarrow>
                         (case (cu, ch) of
                            (Some cur, Some chn) \<Rightarrow>
                              let sc = (case r of Ok x \<Rightarrow> x | _ \<Rightarrow> None);
                                  (b, w4) = (if ac_Type a \<noteq> ''ACCOUNT_CREATED''
                                             then au_balance uc (ac_WalletAddress a) cur chn sc w3
                                             else (Ok (Fin 0), w3))
                              in (case b of
                                    Panic p \<Rightarrow> (Panic p, w4)
                                  | _ \<Rightarrow>
                                      (case new_import (au_db uc) a c (case b of Ok x \<Rightarrow> x | _ \<Rightarrow> Fin 0) w4 of
                                         (n, w5) \<Rightarrow> save_import uc n w5))
                          | _ \<Rightarrow> (Panic nil_deref, w3))))))"

fun import_chunk ::
  "'w account_uc \<Rightarrow> account list \<Rightarrow> supported_currency list \<Rightarrow> string list \<Rightarrow> 'w \<Rightarrow> string list res \<times> 'w" where
  "import_chunk uc as [] ids w = (Ok ids, w)"
| "import_chunk uc as (c # cs) ids w =
     (case import_currency uc as c w of
        (Ok (Some i), w1) \<Rightarrow> import_chunk uc as cs (ids @ [i]) w1
      | (Panic p, w1) \<Rightarrow> (Panic p, w1)
      | (_, w1) \<Rightarrow> import_chunk uc as cs ids w1)"

text \<open>Chunks of five; before each the context is looked at. The result has the identifiers and, if
  the context was done, its error.\<close>

function import_chunks ::
  "'w account_uc \<Rightarrow> account list \<Rightarrow> supported_currency list \<Rightarrow> string list \<Rightarrow> 'w
     \<Rightarrow> (string list \<times> goerr option) res \<times> 'w" where
  "import_chunks uc as cs ids w =
     (if cs = [] then (Ok (ids, None), w)
      else case au_ctx uc w of
        Some e \<Rightarrow> (Ok (ids, Some e), w)
      | None \<Rightarrow>
          (case import_chunk uc as (take 5 cs) ids w of
             (Ok is, w1) \<Rightarrow> import_chunks uc as (drop 5 cs) is w1
           | (Err e, w1) \<Rightarrow> (Err e, w1)
           | (Panic p, w1) \<Rightarrow> (Panic p, w1)))"
  by pat_completeness auto
termination by (relation "measure (\<lambda>(uc, as, cs, ids, w). length cs)") auto

declare import_chunks.simps [simp del]

text \<open>Batches of ten, until a batch is empty.\<close>

partial_function (option) import_batches ::
  "'w account_uc \<Rightarrow> account list \<Rightarrow> int \<Rightarrow> string list \<Rightarrow> 'w
     \<Rightarrow> ((string list \<times> goerr option) res \<times> 'w) option" where
  "import_batches uc as processed ids w =
     (case au_ctx uc w of
        Some e \<Rightarrow> Some (Ok (ids, Some e), w)
      | None \<Rightarrow>
          (case sr_GetBatch (au_supported uc) 10 processed w of
             (Err e, w1) \<Rightarrow> Some (Ok (ids, Some e), w1)
           | (Panic p, w1) \<Rightarrow> Some (Panic p, w1)
           | (Ok [], w1) \<Rightarrow> Some (Ok (ids, None), w1)
           | (Ok (c # cs), w1) \<Rightarrow>
               (case import_chunks uc as (unadded as (c # cs)) ids w1 of
                  (Ok (is, None), w2) \<Rightarrow> import_batches uc as (processed + int (length (c # cs))) is w2
                | r \<Rightarrow> Some r)))"

text \<open>
  \<open>ImportAccounts\<close>: identifiers and error. A panic is recovered; the results are then the zero
  values.
\<close>

definition recovered ::
  "(string list \<times> goerr option) res \<times> 'w \<Rightarrow> (string list \<times> goerr option) \<times> 'w" where
  "recovered r = ((case fst r of Ok x \<Rightarrow> x | Err e \<Rightarrow> ([], Some e) | Panic _ \<Rightarrow> ([], None)), snd r)"

definition ImportAccounts ::
  "'w account_uc \<Rightarrow> account option list \<Rightarrow> 'w \<Rightarrow> ((string list \<times> goerr option) \<times> 'w) option" where
  "ImportAccounts uc accounts w =
     (case au_ctx uc w of
        Some e \<Rightarrow> Some (([], Some e), w)
      | None \<Rightarrow>
          (case accounts of
             [] \<Rightarrow> Some (([], Some (EMsg ''no accounts to import'')), w)
           | None # _ \<Rightarrow> Some (([], None), w)
           | Some a # _ \<Rightarrow>
               if ac_UserID a = nil_id then Some (([], Some (EMsg ''first account has no user ID'')), w)
               else
                 (case processOriginalAccounts uc accounts [] w of
                    (Ok (ids, Some e, _), w1) \<Rightarrow> Some ((ids, Some e), w1)
                  | (Ok (ids, None, xs), w1) \<Rightarrow>
                      (case those xs of
                         None \<Rightarrow> Some (([], None), w1)
                       | Some as \<Rightarrow> map_option recovered (import_batches uc as 0 ids w1))
                  | (Err e, w1) \<Rightarrow> Some (([], Some e), w1)
                  | (Panic p, w1) \<Rightarrow> Some (([], None), w1))))"

end
