(* ===== verification/AccountStore.thy ===== *)
theory AccountStore
  imports AccountUseCase
begin

text \<open>
  What the account use cases rely on of the account repository, as a locale, its interpretation on
  the adapter over MongoDB, and the theorems on finding or creating an account and on imports.
\<close>

section \<open>The interface\<close>

type_synonym akey = "string \<times> string \<times> string \<times> string"

definition akey :: "account \<Rightarrow> akey" where
  "akey a = (ac_WalletAddress a, ac_UserID a, ac_ChainID a, ac_CurrencyID a)"

text \<open>Fields that are zero are not written, so that only complete keys can be searched for.\<close>

definition full_key :: "akey \<Rightarrow> bool" where
  "full_key = (\<lambda>(a, u, c, k). a \<noteq> [] \<and> u \<noteq> nil_id \<and> c \<noteq> nil_id \<and> k \<noteq> nil_id)"

definition has_address :: "string \<Rightarrow> account \<Rightarrow> bool" where
  "has_address address a \<longleftrightarrow> ac_WalletAddress a = address"

text \<open>An account as the store keeps it.\<close>

definition kept :: "string \<Rightarrow> int \<Rightarrow> account \<Rightarrow> account" where
  "kept i t a = a\<lparr>ac_ID := i, ac_CreatedAt := t, ac_UpdatedAt := t\<rparr>"

locale account_store =
  fixes ar :: "'w account_repo" and ok :: "'w \<Rightarrow> bool" and accts :: "'w \<Rightarrow> account list"
  assumes count: "ok w \<Longrightarrow> address \<noteq> [] \<Longrightarrow> \<exists>w'. ar_CountByAddress ar address w
        = (Ok (length (filter (has_address address) (accts w))), w') \<and> ok w' \<and> accts w' = accts w"
    and get: "ok w \<Longrightarrow> filter (has_address address) (accts w) = a # as \<Longrightarrow> address \<noteq> [] \<Longrightarrow>
      \<exists>w'. ar_GetByAddress ar address w = (Ok (Some a), w') \<and> ok w' \<and> accts w' = accts w"
    and check: "ok w \<Longrightarrow> \<exists>b w'. ar_CheckDuplicateAccount ar ad u c k w = (Ok b, w') \<and> ok w' \<and> accts w' = accts w
      \<and> (full_key (ad, u, c, k) \<longrightarrow> b = ((ad, u, c, k) \<in> akey ` set (accts w)))"
    and create: "ok w \<Longrightarrow> \<exists>r w'. ar_Create ar a w = (r, w') \<and> ok w'
      \<and> (case r of Ok a' \<Rightarrow> \<exists>i t. a' = a\<lparr>ac_ID := i\<rparr> \<and> (ac_ID a \<noteq> nil_id \<longrightarrow> i = ac_ID a)
             \<and> accts w' = accts w @ (if ac_DeletedAt a = None then [kept i t a] else [])
         | _ \<Rightarrow> accts w' = accts w)"
begin

text \<open>Creating an account only if its key is new keeps the keys distinct.\<close>

lemma guarded_create:
  assumes "ok w" "distinct (filter full_key (map akey (accts w)))"
    and "ar_CheckDuplicateAccount ar (ac_WalletAddress a) (ac_UserID a) (ac_ChainID a) (ac_CurrencyID a) w
      = (Ok False, w1)"
    and "accts w2 = accts w1" "ok w2" "ar_Create ar a' w2 = (r, w3)" "akey a' = akey a"
  shows "ok w3 \<and> distinct (filter full_key (map akey (accts w3)))"
proof -
  have w1: "accts w1 = accts w" "full_key (akey a) \<Longrightarrow> akey a \<notin> akey ` set (accts w)"
    using check [OF assms(1), of "ac_WalletAddress a" "ac_UserID a" "ac_ChainID a" "ac_CurrencyID a"] assms(3)
    by (auto simp: akey_def)
  have k: "akey (kept i t a') = akey a" for i t using assms(7) by (simp add: akey_def kept_def)
  from create [OF assms(5), of a'] assms(6) have "ok w3"
    and "accts w3 = accts w2 \<or> (\<exists>i t. accts w3 = accts w2 @ [kept i t a'])"
    by (auto split: res.splits if_splits)
  then show ?thesis using assms(2,4) w1 k by auto
qed

definition env_keeps :: "'w db \<Rightarrow> bool" where
  "env_keeps db \<longleftrightarrow> (\<forall>w. ok w \<longrightarrow> ok (snd (db_now db w)) \<and> accts (snd (db_now db w)) = accts w
     \<and> ok (snd (db_new_id db w)) \<and> accts (snd (db_new_id db w)) = accts w)"

lemma new_account_keeps:
  assumes "env_keeps db" "ok w" "NewAccount db wi u cu c ad pk w = (a, w')"
  shows "ok w' \<and> accts w' = accts w \<and> ac_WalletAddress a = ad \<and> ac_UserID a = u \<and> ac_ChainID a = c
    \<and> ac_DeletedAt a = None"
proof -
  obtain t w1 where t: "db_now db w = (t, w1)" by (metis surj_pair)
  obtain i w2 where i: "db_new_id db w1 = (i, w2)" by (metis surj_pair)
  have "ok w1 \<and> accts w1 = accts w" using assms(1,2) t unfolding env_keeps_def by (metis snd_conv)
  moreover from this have "ok w2 \<and> accts w2 = accts w1"
    using assms(1) i unfolding env_keeps_def by (metis snd_conv)
  ultimately show ?thesis using assms(3) t i by (auto simp: NewAccount_def)
qed

text \<open>An account that exists is found; otherwise one is created, unless the store refuses it.\<close>

lemma finds:
  assumes "ok w" "au_accountRepo uc = ar" "address \<noteq> []"
    "filter (has_address address) (accts w) = a # as"
  shows "\<exists>w'. CreateOrFindAccount uc u c address w = (Ok (Some a), w') \<and> ok w' \<and> accts w' = accts w"
proof -
  from count [OF assms(1,3)] assms(4) obtain w1 where w1:
    "ar_CountByAddress ar address w = (Ok (Suc (length as)), w1)" "ok w1" "accts w1 = accts w" by auto
  from get [OF w1(2) _ assms(3)] assms(4) w1(3) obtain w2 where
    "ar_GetByAddress ar address w1 = (Ok (Some a), w2)" "ok w2" "accts w2 = accts w" by auto
  with w1 assms(2) show ?thesis by (simp add: CreateOrFindAccount_def)
qed

lemma creates:
  assumes "ok w" "au_accountRepo uc = ar" "env_keeps (au_db uc)" "address \<noteq> []"
    "filter (has_address address) (accts w) = []" "CreateOrFindAccount uc u c address w = (r, w')"
  shows "ok w' \<and> ((\<exists>a t. r = Ok (Some a) \<and> accts w' = accts w @ [kept (ac_ID a) t a]
        \<and> ac_WalletAddress a = address \<and> ac_UserID a = u \<and> ac_ChainID a = c)
    \<or> (\<not> is_ok r \<and> accts w' = accts w))"
proof -
  from count [OF assms(1,4)] assms(5) obtain w1 where w1:
    "ar_CountByAddress ar address w = (Ok 0, w1)" "ok w1" "accts w1 = accts w" by auto
  obtain n w2 where n: "NewAccount (au_db uc) nil_id u nil_id c address [] w1 = (n, w2)" by (metis surj_pair)
  note k = new_account_keeps [OF assms(3) w1(2) n]
  from k create [of w2 n] obtain q w3 where q: "ar_Create ar n w2 = (q, w3)" "ok w3"
    "case q of Ok a' \<Rightarrow> \<exists>i t. a' = n\<lparr>ac_ID := i\<rparr> \<and> (ac_ID n \<noteq> nil_id \<longrightarrow> i = ac_ID n)
       \<and> accts w3 = accts w2 @ (if ac_DeletedAt n = None then [kept i t n] else [])
     | _ \<Rightarrow> accts w3 = accts w2" by blast
  have e: "(r, w') = (case q of Ok a' \<Rightarrow> (Ok (Some a'), w3)
      | Err e \<Rightarrow> (Err (EWrap ''failed to create account: '' e), w3) | Panic p \<Rightarrow> (Panic p, w3))"
    using assms(6) w1 n q(1) assms(2) by (simp add: CreateOrFindAccount_def split: res.splits)
  show ?thesis
  proof (cases q)
    case (Ok a')
    with q(3) k obtain i t where a': "a' = n\<lparr>ac_ID := i\<rparr>" "accts w3 = accts w2 @ [kept i t n]" by auto
    moreover have "kept i t n = kept (ac_ID a') t a'" by (simp add: a'(1) kept_def)
    ultimately have "accts w' = accts w @ [kept (ac_ID a') t a']" "r = Ok (Some a')" "w' = w3"
      using e Ok k w1(3) by auto
    with q(2) k a'(1) show ?thesis by auto
  qed (use e q k w1 in auto)
qed

lemma create_or_find:
  assumes "ok w" "au_accountRepo uc = ar" "env_keeps (au_db uc)" "address \<noteq> []"
    "CreateOrFindAccount uc u c address w = (r, w')"
  shows "case filter (has_address address) (accts w) of
      a # _ \<Rightarrow> r = Ok (Some a) \<and> accts w' = accts w
    | [] \<Rightarrow> (\<exists>a t. r = Ok (Some a) \<and> accts w' = accts w @ [kept (ac_ID a) t a]
        \<and> ac_WalletAddress a = address \<and> ac_UserID a = u \<and> ac_ChainID a = c
        \<and> (\<exists>w''. CreateOrFindAccount uc u' c' address w' = (Ok (Some (kept (ac_ID a) t a)), w'')
             \<and> accts w'' = accts w'))
      \<or> (\<not> is_ok r \<and> accts w' = accts w)"
proof (cases "filter (has_address address) (accts w)")
  case Nil
  note cr = creates [OF assms(1-4) Nil assms(5)]
  show ?thesis
  proof (cases "is_ok r")
    case True
    with cr obtain a t where a: "r = Ok (Some a)" "accts w' = accts w @ [kept (ac_ID a) t a]"
      "ac_WalletAddress a = address" "ac_UserID a = u" "ac_ChainID a = c" by auto
    have "filter (has_address address) (accts w') = [kept (ac_ID a) t a]"
      using Nil a(2,3) by (simp add: has_address_def kept_def)
    from finds [OF _ assms(2,4) this] cr a Nil show ?thesis by fastforce
  qed (use cr Nil in auto)
next
  case (Cons a as)
  from finds [OF assms(1,2,4) Cons, of u c] assms(5) Cons show ?thesis by auto
qed

subsection \<open>Imports\<close>

definition keeps :: "'w \<Rightarrow> 'w \<Rightarrow> bool" where
  "keeps w w' \<longleftrightarrow> (ok w \<longrightarrow> ok w' \<and> accts w' = accts w)"

text \<open>A step that only adds accounts, and none with a key that is there.\<close>

definition grows :: "'w \<Rightarrow> 'w \<Rightarrow> bool" where
  "grows w w' \<longleftrightarrow> (ok w \<and> distinct (filter full_key (map akey (accts w))) \<longrightarrow>
     ok w' \<and> distinct (filter full_key (map akey (accts w'))) \<and> (\<exists>xs. accts w' = accts w @ xs))"

lemma keeps_trans: "keeps w w1 \<Longrightarrow> keeps w1 w2 \<Longrightarrow> keeps w w2"
  by (simp add: keeps_def)

lemma keeps_grows: "keeps w w' \<Longrightarrow> grows w w'"
  by (simp add: keeps_def grows_def)

lemma grows_refl: "grows w w"
  by (simp add: grows_def)

lemma grows_trans: "grows w w1 \<Longrightarrow> grows w1 w2 \<Longrightarrow> grows w w2"
  unfolding grows_def by (metis append_assoc)

text \<open>What else the use case calls leaves the accounts alone, and the batches come to an end.\<close>

definition uc_keeps :: "'w account_uc \<Rightarrow> bool" where
  "uc_keeps uc \<longleftrightarrow> (\<forall>w i ad cu ch sc n.
       keeps w (snd (db_now (au_db uc) w)) \<and> keeps w (snd (db_new_id (au_db uc) w))
     \<and> keeps w (snd (wr_GetByID (au_walletRepo uc) i w)) \<and> keeps w (snd (au_currency uc i w))
     \<and> keeps w (snd (au_chain uc i w)) \<and> keeps w (snd (sr_GetByID (au_supported uc) i w))
     \<and> keeps w (snd (sr_GetBatch (au_supported uc) 10 n w)) \<and> keeps w (snd (au_balance uc ad cu ch sc w)))
   \<and> (\<exists>B. \<forall>w n c cs. ok w \<longrightarrow> n \<ge> B \<longrightarrow> fst (sr_GetBatch (au_supported uc) 10 n w) \<noteq> Ok (c # cs))"

lemma uc_keepsD:
  assumes "uc_keeps uc"
  shows "db_now (au_db uc) w = (t, w') \<Longrightarrow> keeps w w'" "db_new_id (au_db uc) w = (i, w') \<Longrightarrow> keeps w w'"
    "wr_GetByID (au_walletRepo uc) i w = (rw, w') \<Longrightarrow> keeps w w'"
    "au_currency uc i w = (rc, w') \<Longrightarrow> keeps w w'" "au_chain uc i w = (rh, w') \<Longrightarrow> keeps w w'"
    "sr_GetByID (au_supported uc) i w = (rs, w') \<Longrightarrow> keeps w w'"
    "sr_GetBatch (au_supported uc) 10 n w = (rb, w') \<Longrightarrow> keeps w w'"
    "au_balance uc ad cu ch sc w = (rf, w') \<Longrightarrow> keeps w w'"
  using assms unfolding uc_keeps_def by (metis snd_conv)+

lemma fetch_balance_keeps:
  assumes "uc_keeps uc" "fetch_balance uc a w = (r, w')"
  shows "keeps w w'" "r = Ok a' \<Longrightarrow> akey a' = akey a"
proof -
  note D = uc_keepsD [OF assms(1)]
  show "keeps w w'"
    using assms(2)
    by (auto simp: fetch_balance_def split: if_splits prod.splits res.splits option.splits
        intro: D keeps_trans) (auto simp: keeps_def dest!: D)
  show "akey a' = akey a" if "r = Ok a'"
    using assms(2) that
    by (auto simp: fetch_balance_def akey_def UpdateBalance_def
        split: if_splits prod.splits res.splits option.splits)
qed

lemma check_keeps: "ar_CheckDuplicateAccount ar ad u c k w = (r, w') \<Longrightarrow> keeps w w'"
  using check [of w ad u c k] by (auto simp: keeps_def)

lemma checked_create_grows:
  assumes "ar_CheckDuplicateAccount ar (ac_WalletAddress a) (ac_UserID a) (ac_ChainID a) (ac_CurrencyID a) w
      = (Ok False, w1)"
    and "keeps w1 w2" "ar_Create ar a' w2 = (r, w3)" "akey a' = akey a"
  shows "grows w w3"
  unfolding grows_def
proof (intro impI, elim conjE)
  assume w: "ok w" "distinct (filter full_key (map akey (accts w)))"
  have "keeps w w2" using check_keeps [OF assms(1)] assms(2) by (rule keeps_trans)
  with w have w2: "ok w2" "accts w2 = accts w1" "accts w2 = accts w"
    using check_keeps [OF assms(1)] by (simp_all add: keeps_def)
  from create [OF w2(1), of a'] assms(3) w2(3) have "\<exists>xs. accts w3 = accts w @ xs"
    by (auto split: res.splits)
  with guarded_create [OF w assms(1) w2(2,1) assms(3,4)]
  show "ok w3 \<and> distinct (filter full_key (map akey (accts w3))) \<and> (\<exists>xs. accts w3 = accts w @ xs)" by blast
qed

lemma save_account_grows:
  assumes "uc_keeps uc" "au_accountRepo uc = ar" "save_account uc a w = (r, w')"
  shows "grows w w'"
proof -
  obtain b w1 where b: "ar_CheckDuplicateAccount ar (ac_WalletAddress a) (ac_UserID a) (ac_ChainID a)
      (ac_CurrencyID a) w = (b, w1)" by (metis surj_pair)
  show ?thesis
  proof (cases "b = Ok False")
    case True
    obtain f w2 where f: "fetch_balance uc a w1 = (f, w2)" by (metis surj_pair)
    note k = fetch_balance_keeps [OF assms(1) f]
    show ?thesis
    proof (cases "\<exists>a'. f = Ok a'")
      case False
      then have "w' = w2" using assms(2,3) b f True by (auto simp: save_account_def split: res.splits)
      with keeps_trans [OF check_keeps [OF b] k(1)] show ?thesis by (simp add: keeps_grows)
    next
      case True': True
      then obtain a' where Ok: "f = Ok a'" ..
      obtain q w3 where q: "ar_Create ar a' w2 = (q, w3)" by (metis surj_pair)
      have "w' = w3" using assms(2,3) b f q True Ok by (auto simp: save_account_def split: res.splits)
      with checked_create_grows [OF b [unfolded True] k(1) q k(2) [OF Ok]] show ?thesis by simp
    qed
  next
    case False
    then have "w' = w1" using assms(2,3) b by (auto simp: save_account_def split: res.splits bool.splits)
    with check_keeps [OF b] show ?thesis by (simp add: keeps_grows)
  qed
qed

lemma import_original_grows:
  assumes "uc_keeps uc" "au_accountRepo uc = ar" "import_original uc a0 w0 = (r, w')"
  shows "grows w0 w'"
proof -
  note D = uc_keepsD [OF assms(1)]
  note S = save_account_grows [OF assms(1,2)]
  define p where "p = (if ac_CreatedAt a0 = zero_time
      then case db_now (au_db uc) w0 of (now, w) \<Rightarrow> (a0\<lparr>ac_CreatedAt := now, ac_UpdatedAt := now\<rparr>, w)
      else (a0, w0))"
  obtain a w where p: "p = (a, w)" by (metis surj_pair)
  have 0: "keeps w0 w" using p D(1) by (auto simp: p_def keeps_def split: if_splits prod.splits)
  obtain q w1 where q: "wr_GetByID (au_walletRepo uc) (ac_WalletID a) w = (q, w1)" by (metis surj_pair)
  obtain z w2 where z: "sr_GetByID (au_supported uc) (ac_SupportedCurrencyID a) w1 = (z, w2)" by (metis surj_pair)
  have 1: "keeps w0 w1" using keeps_trans [OF 0 D(3) [OF q]] .
  have 2: "keeps w0 w2" using keeps_trans [OF 1 D(6) [OF z]] .
  from assms(3) q z have "w' = w1 \<or> w' = w2 \<or> (\<exists>b. save_account uc b w1 = (r, w'))
      \<or> (\<exists>b. save_account uc b w2 = (r, w'))"
    by (auto simp: import_original_def p_def [symmetric] p split: res.splits option.splits if_splits)
  then show ?thesis using 1 2 S keeps_grows grows_trans by metis
qed

lemma originals_grow:
  assumes "uc_keeps uc" "au_accountRepo uc = ar" "processOriginalAccounts uc xs ids w = (r, w')"
  shows "grows w w'"
  using assms(3)
proof (induction xs arbitrary: ids w r w')
  case (Cons x xs)
  note I = import_original_grows [OF assms(1,2)]
  have go: "grows w1 w'" if "(case processOriginalAccounts uc xs js w1 of
      (Ok (is, e, ys), w') \<Rightarrow> (Ok (is, e, y # ys), w') | r \<Rightarrow> r) = (r, w')" for js y w1
    using that Cons.IH [of js w1] by (cases "processOriginalAccounts uc xs js w1") (auto split: res.splits)
  show ?case
  proof (cases "au_ctx uc w")
    case None
    show ?thesis
    proof (cases x)
      case (Some a)
      obtain q w1 where q: "import_original uc a w = (q, w1)" by (metis surj_pair)
      have "grows w1 w'"
      proof (cases q)
        case (ISkip a')
        show ?thesis by (rule go [where js = ids and y = "Some a'"]) (use Cons.prems None Some q ISkip in simp)
      next
        case (IDone a')
        show ?thesis by (rule go [where js = "ids @ [ac_ID a']" and y = "Some a'"]) (use Cons.prems None Some q IDone in simp)
      qed (use Cons.prems None Some q grows_refl in auto)
      with I [OF q] show ?thesis by (rule grows_trans)
    qed (rule go [where js = ids and y = None], use Cons.prems None in simp)
  qed (use Cons.prems grows_refl in auto)
qed (simp add: grows_refl)

lemma save_import_grows:
  assumes "au_accountRepo uc = ar" "save_import uc a w = (r, w')"
  shows "grows w w'"
proof -
  obtain b w1 where b: "ar_CheckDuplicateAccount ar (ac_WalletAddress a) (ac_UserID a) (ac_ChainID a)
      (ac_CurrencyID a) w = (b, w1)" by (metis surj_pair)
  show ?thesis
  proof (cases "b = Ok False")
    case True
    obtain q w2 where q: "ar_Create ar a w1 = (q, w2)" by (metis surj_pair)
    have "w' = w2" using assms b q True by (auto simp: save_import_def split: res.splits)
    with checked_create_grows [OF b [unfolded True] _ q] show ?thesis by (simp add: keeps_def)
  next
    case False
    then have "w' = w1" using assms b by (auto simp: save_import_def split: res.splits bool.splits)
    with check_keeps [OF b] show ?thesis by (simp add: keeps_grows)
  qed
qed

lemma new_import_keeps:
  assumes "uc_keeps uc" "new_import (au_db uc) a c b w = (n, w')"
  shows "keeps w w'"
proof -
  note D = uc_keepsD(1,2) [OF assms(1)]
  obtain i w1 where 1: "db_new_id (au_db uc) w = (i, w1)" by (metis surj_pair)
  obtain t w2 where 2: "db_now (au_db uc) w1 = (t, w2)" by (metis surj_pair)
  obtain t' w3 where 3: "db_now (au_db uc) w2 = (t', w3)" by (metis surj_pair)
  have "w' = w3" using assms(2) 1 2 3 by (auto simp: new_import_def)
  with D(2) [OF 1] D(1) [OF 2] D(1) [OF 3] show ?thesis by (meson keeps_trans)
qed

lemma import_currency_grows:
  assumes "uc_keeps uc" "au_accountRepo uc = ar" "import_currency uc as c w = (r, w')"
  shows "grows w w'"
proof (cases "find (\<lambda>a. ac_ChainID a \<noteq> nil_id \<and> ac_ChainID a = sc_ChainID c) as")
  case (Some a)
  note D = uc_keepsD [OF assms(1)]
  obtain cu w1 where 1: "au_currency uc (sc_CurrencyID c) w = (cu, w1)" by (metis surj_pair)
  obtain ch w2 where 2: "au_chain uc (sc_ChainID c) w1 = (ch, w2)" by (metis surj_pair)
  obtain sc w3 where 3: "sr_GetByID (au_supported uc) (sc_ID c) w2 = (sc, w3)" by (metis surj_pair)
  have k1: "keeps w w1" by (rule D(4) [OF 1])
  have k2: "keeps w w2" using keeps_trans [OF k1 D(5) [OF 2]] .
  have k3: "keeps w w3" using keeps_trans [OF k2 D(6) [OF 3]] .
  show ?thesis
  proof (cases "\<exists>x y. cu = Ok (Some x) \<and> ch = Ok (Some y) \<and> (\<forall>p. sc \<noteq> Panic p)")
    case False
    then have "w' \<in> {w1, w2, w3}" using assms(3) Some 1 2 3
      by (auto simp: import_currency_def split: res.splits option.splits)
    with k1 k2 k3 show ?thesis by (auto intro: keeps_grows)
  next
    case True
    then obtain x y where xy: "cu = Ok (Some x)" "ch = Ok (Some y)" "\<forall>p. sc \<noteq> Panic p" by blast
    define s where "s = (case sc of Ok x \<Rightarrow> x | _ \<Rightarrow> None)"
    define g where "g = (if ac_Type a \<noteq> ''ACCOUNT_CREATED''
      then au_balance uc (ac_WalletAddress a) x y s w3 else (Ok (Fin 0), w3))"
    obtain b w4 where b: "g = (b, w4)" by (metis surj_pair)
    have k4: "keeps w w4"
      using keeps_trans [OF k3 D(8)] b k3 by (auto simp: g_def split: if_splits)
    obtain n w5 where n: "new_import (au_db uc) a c (case b of Ok x \<Rightarrow> x | _ \<Rightarrow> Fin 0) w4 = (n, w5)"
      by (metis surj_pair)
    have k5: "keeps w w5" using keeps_trans [OF k4 new_import_keeps [OF assms(1) n]] .
    have "(case b of Panic p \<Rightarrow> (Panic p, w4) | _ \<Rightarrow>
        (case new_import (au_db uc) a c (case b of Ok x \<Rightarrow> x | _ \<Rightarrow> Fin 0) w4 of (n, w5) \<Rightarrow> save_import uc n w5))
        = (r, w')"
      using assms(3) Some 1 2 3 xy b
      by (cases sc; cases "ac_Type a = ''ACCOUNT_CREATED''") (simp_all add: import_currency_def g_def s_def)
    then have "w' = w4 \<or> save_import uc n w5 = (r, w')" using n by (auto split: res.splits)
    with k4 k5 save_import_grows [OF assms(2)] show ?thesis by (metis keeps_grows grows_trans)
  qed
qed (use assms(3) in \<open>simp add: import_currency_def grows_refl\<close>)

lemma import_chunk_grows:
  assumes "uc_keeps uc" "au_accountRepo uc = ar" "import_chunk uc as cs ids w = (r, w')"
  shows "grows w w'"
  using assms(3)
proof (induction cs arbitrary: ids w)
  case (Cons c cs)
  obtain q w1 where q: "import_currency uc as c w = (q, w1)" by (metis surj_pair)
  from Cons q have "grows w1 w'" by (auto simp: grows_refl split: res.splits option.splits)
  with import_currency_grows [OF assms(1,2) q] show ?case by (rule grows_trans)
qed (simp add: grows_refl)

lemma import_chunks_grows:
  assumes "uc_keeps uc" "au_accountRepo uc = ar" "import_chunks uc as cs ids w = (r, w')"
  shows "grows w w'"
  using assms(3)
proof (induction cs arbitrary: ids w rule: measure_induct_rule [where f = length])
  case (less cs)
  show ?case
  proof (cases "cs = [] \<or> au_ctx uc w \<noteq> None")
    case True
    with less.prems show ?thesis by (subst (asm) import_chunks.simps) (auto simp: grows_refl split: if_splits)
  next
    case False
    obtain q w1 where q: "import_chunk uc as (take 5 cs) ids w = (q, w1)" by (metis surj_pair)
    note g = import_chunk_grows [OF assms(1,2) q]
    have e: "import_chunks uc as cs ids w = (case q of Ok is \<Rightarrow> import_chunks uc as (drop 5 cs) is w1
        | Err e \<Rightarrow> (Err e, w1) | Panic p \<Rightarrow> (Panic p, w1))"
      using False q by (subst import_chunks.simps) (simp split: res.splits)
    have "length (drop 5 cs) < length cs" using False by simp
    from less.IH [OF this] less.prems e have "grows w1 w'" by (auto simp: grows_refl split: res.splits)
    with g show ?thesis by (rule grows_trans)
  qed
qed

text \<open>The batches end, because beyond a bound there is none.\<close>

lemma import_batches_grow:
  assumes "uc_keeps uc" "au_accountRepo uc = ar" "ok w" "distinct (filter full_key (map akey (accts w)))"
  shows "\<exists>r w'. import_batches uc as n ids w = Some (r, w') \<and> grows w w'"
proof -
  obtain B where B: "\<And>w n c cs. ok w \<Longrightarrow> n \<ge> B \<Longrightarrow> fst (sr_GetBatch (au_supported uc) 10 n w) \<noteq> Ok (c # cs)"
    using assms(1) unfolding uc_keeps_def by blast
  show ?thesis
    using assms(3,4)
  proof (induction "nat (B - n)" arbitrary: n ids w rule: less_induct)
    case less
    show ?case
    proof (cases "au_ctx uc w")
      case None
      obtain b w1 where b: "sr_GetBatch (au_supported uc) 10 n w = (b, w1)" by (metis surj_pair)
      have k1: "keeps w w1" by (rule uc_keepsD(7) [OF assms(1) b])
      show ?thesis
      proof (cases "\<exists>c cs. b = Ok (c # cs)")
        case True
        then obtain c cs where c: "b = Ok (c # cs)" by blast
        obtain q w2 where q: "import_chunks uc as (unadded as (c # cs)) ids w1 = (q, w2)" by (metis surj_pair)
        have g: "grows w w2"
          using keeps_grows [OF k1] import_chunks_grows [OF assms(1,2) q] by (rule grows_trans)
        have e: "import_batches uc as n ids w = (case q of
            Ok (is, None) \<Rightarrow> import_batches uc as (n + int (length (c # cs))) is w2 | _ \<Rightarrow> Some (q, w2))"
          using None b c q
          by (subst import_batches.simps) (simp split: res.splits option.splits)
        show ?thesis
        proof (cases "\<exists>is. q = Ok (is, None)")
          case True
          then obtain js where js: "q = Ok (js, None)" by blast
          have w2: "ok w2" "distinct (filter full_key (map akey (accts w2)))"
            using g less.prems by (simp_all add: grows_def)
          have "n < B" using B [OF less.prems(1), of n c cs] b c by fastforce
          then have "nat (B - (n + int (length (c # cs)))) < nat (B - n)" by simp
          from less.hyps [OF this w2, of js] e js g show ?thesis by (auto intro: grows_trans)
        qed (use e g in \<open>auto split: res.splits option.splits\<close>)
      next
        case False
        then have "import_batches uc as n ids w \<noteq> None \<and> snd (the (import_batches uc as n ids w)) = w1"
          using None b by (subst (1 2) import_batches.simps) (auto split: res.splits list.splits)
        with keeps_grows [OF k1] show ?thesis by fastforce
      qed
    qed (subst import_batches.simps, simp add: grows_refl)
  qed
qed

lemma import_grows:
  assumes "uc_keeps uc" "au_accountRepo uc = ar" "ok w" "distinct (filter full_key (map akey (accts w)))"
  shows "\<exists>r w'. ImportAccounts uc xs w = Some (r, w') \<and> grows w w'"
proof -
  obtain q w1 where q: "processOriginalAccounts uc xs [] w = (q, w1)" by (metis surj_pair)
  note g = originals_grow [OF assms(1,2) q]
  then have w1: "ok w1" "distinct (filter full_key (map akey (accts w1)))"
    using assms(3,4) by (simp_all add: grows_def)
  have b: "\<exists>r w'. import_batches uc as 0 ids w1 = Some (r, w') \<and> grows w w'" for as ids
    using import_batches_grow [OF assms(1,2) w1] g by (metis grows_trans)
  show ?thesis
  proof (cases "au_ctx uc w \<noteq> None \<or> xs = [] \<or> hd xs = None \<or> ac_UserID (the (hd xs)) = nil_id")
    case True
    then show ?thesis using grows_refl
      by (auto simp: ImportAccounts_def split: option.splits list.splits)
  next
    case False
    then obtain a ys where xs: "au_ctx uc w = None" "xs = Some a # ys" "ac_UserID a \<noteq> nil_id"
      by (cases xs) auto
    show ?thesis
    proof (cases "\<exists>ids zs as. q = Ok (ids, None, zs) \<and> those zs = Some as")
      case True
      then obtain ids zs as where z: "q = Ok (ids, None, zs)" "those zs = Some as" by blast
      from b [of as ids] obtain r w' where "import_batches uc as 0 ids w1 = Some (r, w')" "grows w w'" by blast
      with xs q z show ?thesis by (simp add: ImportAccounts_def recovered_def del: processOriginalAccounts.simps)
    next
      case False
      then have "\<exists>r. ImportAccounts uc xs w = Some (r, w1)" using xs q
        by (auto simp: ImportAccounts_def simp del: processOriginalAccounts.simps split: res.splits option.splits)
      with g show ?thesis by blast
    qed
  qed
qed

end

section \<open>The adapter over MongoDB\<close>

definition account_doc :: "bdoc \<Rightarrow> bool" where
  "account_doc d \<longleftrightarrow> (\<exists>x. map_of d = map_of (enc_account_model x))"

definition is_live :: "bdoc \<Rightarrow> bool" where
  "is_live d \<longleftrightarrow> matches (\<lambda>_ _. False) not_deleted (map_of d)"

definition account_of :: "bdoc \<Rightarrow> account" where
  "account_of d = convertAccountModelToDomain (the (dec_account_model d))"

definition live_accounts :: "mstore \<Rightarrow> account list" where
  "live_accounts m = map account_of (filter is_live (m ''accounts''))"

definition accounts_ok :: "mstore \<Rightarrow> bool" where
  "accounts_ok m \<longleftrightarrow> (\<forall>d \<in> set (m ''accounts''). account_doc d)"

lemma enc_account_lookup:
  "map_of (enc_account_model x) ''walletAddress''
     = (if am_WalletAddress x = [] then None else Some (BStr (am_WalletAddress x)))"
  "map_of (enc_account_model x) ''userId'' = (if am_UserID x = nil_id then None else Some (BId (am_UserID x)))"
  "map_of (enc_account_model x) ''chainId'' = (if am_ChainID x = nil_id then None else Some (BId (am_ChainID x)))"
  "map_of (enc_account_model x) ''currencyId''
     = (if am_CurrencyID x = nil_id then None else Some (BId (am_CurrencyID x)))"
  "map_of (enc_account_model x) ''deletedAt'' = map_option bson_time (am_DeletedAt x)"
  "map_of (enc_account_model x) ''_id'' = (if am_ID x = nil_id then None else Some (BId (am_ID x)))"
  unfolding enc_account_model_def
  by (simp_all add: doc_simps del: map_of_append)

lemma dec_account_cong: "map_of d = map_of e \<Longrightarrow> dec_account_model d = dec_account_model e"
  unfolding dec_account_model_def get_defs by simp

lemma account_docE:
  assumes "account_doc d"
  obtains x where "map_of d = map_of (enc_account_model x)" "dec_account_model d = Some (stored_account x)"
    "account_of d = convertAccountModelToDomain (stored_account x)"
proof -
  from assms obtain x where x: "map_of d = map_of (enc_account_model x)" by (auto simp: account_doc_def)
  from dec_account_cong [OF x] have "dec_account_model d = Some (stored_account x)" by (simp add: dec_enc_account)
  with x that show thesis by (simp add: account_of_def)
qed

lemma stored_fields [simp]:
  "am_WalletAddress (stored_account x) = am_WalletAddress x" "am_UserID (stored_account x) = am_UserID x"
  "am_ChainID (stored_account x) = am_ChainID x" "am_CurrencyID (stored_account x) = am_CurrencyID x"
  by (simp_all add: stored_account_def)

lemma account_matches:
  assumes "account_doc d"
  shows "address \<noteq> [] \<Longrightarrow> matches re (address_filter address) (map_of d)
      \<longleftrightarrow> is_live d \<and> has_address address (account_of d)"
    and "full_key (ad, u, c, k) \<Longrightarrow> matches re (duplicate_filter ad u c k) (map_of d)
      \<longleftrightarrow> is_live d \<and> akey (account_of d) = (ad, u, c, k)"
proof -
  from assms obtain x where x: "map_of d = map_of (enc_account_model x)"
    "account_of d = convertAccountModelToDomain (stored_account x)" by (rule account_docE)
  have l: "is_live d \<longleftrightarrow> am_DeletedAt x = None"
    by (simp add: is_live_def not_deleted_def field_vals_def x enc_account_lookup bson_time_def
        split: option.splits)
  have n: "matches re not_deleted (map_of (enc_account_model x)) \<longleftrightarrow> is_live d"
    by (simp add: is_live_def not_deleted_def x)
  show "address \<noteq> [] \<Longrightarrow> matches re (address_filter address) (map_of d)
      \<longleftrightarrow> is_live d \<and> has_address address (account_of d)"
    by (auto simp: address_filter_def n field_vals_def x enc_account_lookup has_address_def
        convertAccountModelToDomain_def)
  show "full_key (ad, u, c, k) \<Longrightarrow> matches re (duplicate_filter ad u c k) (map_of d)
      \<longleftrightarrow> is_live d \<and> akey (account_of d) = (ad, u, c, k)"
    by (auto simp: duplicate_filter_def n field_vals_def x enc_account_lookup akey_def full_key_def
        convertAccountModelToDomain_def)
qed

lemma live_filter:
  assumes "accounts_ok m" "\<And>d. account_doc d \<Longrightarrow> matches re f (map_of d) \<longleftrightarrow> is_live d \<and> P (account_of d)"
  shows "filter P (live_accounts m) = map account_of (filter (\<lambda>d. matches re f (map_of d)) (m ''accounts''))"
proof -
  have "filter (\<lambda>d. matches re f (map_of d)) (m ''accounts'') = filter (P \<circ> account_of) (filter is_live (m ''accounts''))"
    unfolding filter_filter using assms by (intro filter_cong) (auto simp: accounts_ok_def)
  then show ?thesis by (simp add: live_accounts_def filter_map)
qed

text \<open>The laws of the interface, one operation at a time. The other collections are \<open>F\<close> throughout.\<close>

definition store_ok ::
  "(string \<Rightarrow> string \<Rightarrow> bool) \<Rightarrow> 'w db \<Rightarrow> ('w \<Rightarrow> mstore) \<Rightarrow> mstore \<Rightarrow> 'w \<Rightarrow> bool" where
  "store_ok re db view F w \<longleftrightarrow> db_ok re db view \<and> accounts_ok (view w)
     \<and> (\<forall>c. c \<noteq> ''accounts'' \<longrightarrow> view w c = F c)"

lemma store_okD:
  assumes "store_ok re db view F w"
  shows "db_ok re db view" "accounts_ok (view w)" "mongo_ok re (db_mongo db) view"
  using assms db_okD(1) by (auto simp: store_ok_def)

lemma adapter_count:
  assumes "store_ok re db view F w" "address \<noteq> []"
  shows "\<exists>w'. account_CountByAddress db address w
        = (Ok (length (filter (has_address address) (live_accounts (view w)))), w')
      \<and> store_ok re db view F w' \<and> live_accounts (view w') = live_accounts (view w)"
  using repo_count_ok [OF store_okD(3) [OF assms(1)], of "''accounts''" "address_filter address" w]
    live_filter [where re = re, OF store_okD(2) [OF assms(1)] account_matches(1) [OF _ assms(2)]] assms(1)
  by (auto simp: account_CountByAddress_def CountByAddress_def store_ok_def)

lemma adapter_get:
  assumes "store_ok re db view F w" "filter (has_address address) (live_accounts (view w)) = a # as" "address \<noteq> []"
  shows "\<exists>w'. account_GetByAddress db address w = (Ok (Some a), w')
      \<and> store_ok re db view F w' \<and> live_accounts (view w') = live_accounts (view w)"
proof -
  let ?ds = "filter (\<lambda>d. matches re (address_filter address) (map_of d)) (view w ''accounts'')"
  have "map account_of ?ds = a # as"
    using live_filter [OF store_okD(2) [OF assms(1)] account_matches(1) [OF _ assms(3)]] assms(2) by simp
  then obtain d ds where d: "?ds = d # ds" "account_of d = a" by auto
  then have "d \<in> set (view w ''accounts'')" by (auto simp: filter_eq_Cons_iff)
  then have "account_doc d" using store_okD(2) [OF assms(1)] by (simp add: accounts_ok_def)
  then obtain x where "dec_account_model d = Some x" "account_of d = convertAccountModelToDomain x"
    by (metis account_docE)
  with d repo_find_one_ok [OF store_okD(3) [OF assms(1)], of "''accounts''" dec_account_model
      "address_filter address" w] assms(1)
  show ?thesis
    by (auto simp: account_GetByAddress_def GetAccountByAddress_def via_def decode_doc_def store_ok_def)
qed

lemma adapter_check:
  assumes "store_ok re db view F w"
  shows "\<exists>b w'. account_CheckDuplicateAccount db ad u c k w = (Ok b, w') \<and> store_ok re db view F w'
      \<and> live_accounts (view w') = live_accounts (view w)
      \<and> (full_key (ad, u, c, k) \<longrightarrow> b = ((ad, u, c, k) \<in> akey ` set (live_accounts (view w))))"
proof -
  let ?f = "duplicate_filter ad u c k"
  obtain w' where w': "repo_count (db_mongo db) ''accounts'' ?f w
      = (Ok (length (filter (\<lambda>d. matches re ?f (map_of d)) (view w ''accounts''))), w')" "view w' = view w"
    using repo_count_ok [OF store_okD(3) [OF assms]] by blast
  have "(filter (\<lambda>d. matches re ?f (map_of d)) (view w ''accounts'') \<noteq> [])
      = ((ad, u, c, k) \<in> akey ` set (live_accounts (view w)))" if "full_key (ad, u, c, k)"
  proof -
    have "(filter (\<lambda>a. akey a = (ad, u, c, k)) (live_accounts (view w)) \<noteq> [])
        = ((ad, u, c, k) \<in> akey ` set (live_accounts (view w)))"
      by (force simp: filter_empty_conv)
    then show ?thesis
      using live_filter [where re = re, OF store_okD(2) [OF assms] account_matches(2) [OF _ that]] by simp
  qed
  with w' assms show ?thesis
    by (auto simp: account_CheckDuplicateAccount_def CheckDuplicateAccount_def store_ok_def)
qed

lemma adapter_create:
  assumes "store_ok re db view F w"
  shows "\<exists>r w'. account_Create db a w = (r, w') \<and> store_ok re db view F w'
      \<and> (case r of Ok a' \<Rightarrow> \<exists>i t. a' = a\<lparr>ac_ID := i\<rparr> \<and> (ac_ID a \<noteq> nil_id \<longrightarrow> i = ac_ID a)
             \<and> live_accounts (view w') = live_accounts (view w) @ (if ac_DeletedAt a = None then [kept i t a] else [])
         | _ \<Rightarrow> live_accounts (view w') = live_accounts (view w))"
proof -
  obtain n w1 where n: "db_now db w = (n, w1)" by (metis surj_pair)
  obtain i w2 where i: "fresh_id db (ac_ID a) w1 = (i, w2)" by (metis surj_pair)
  have v: "view w2 = view w" "ac_ID a \<noteq> nil_id \<Longrightarrow> i = ac_ID a"
    using db_okD(2,3) [OF store_okD(1) [OF assms]] n i by (auto simp: fresh_id_def split: if_splits)
  let ?x = "convertAccountDomainToModel a\<lparr>am_CreatedAt := n, am_UpdatedAt := n, am_ID := i\<rparr>"
  let ?d = "enc_account_model ?x"
  obtain r w3 where r: "repo_insert (db_mongo db) ''accounts'' ?d w2 = (r, w3)"
    and c: "(r = Ok () \<and> view w3 = (view w)(''accounts'' := view w ''accounts'' @ [?d]))
      \<or> (r = Err ErrDuplicateKey \<and> view w3 = view w)"
    using repo_insert_ok [OF store_okD(3) [OF assms], of "''accounts''" ?d w2] v(1) by (auto split: if_splits)
  have id: "am_ID (convertAccountDomainToModel a) = ac_ID a" by (simp add: convertAccountDomainToModel_def)
  have e: "account_Create db a w = (map_res (\<lambda>_. a\<lparr>ac_ID := i\<rparr>) r, w3)"
    using n i r by (cases r) (simp_all add: account_Create_def repo_CreateAccount_def id via_def Let_def)
  have live: "is_live ?d \<longleftrightarrow> ac_DeletedAt a = None"
    by (simp add: is_live_def not_deleted_def field_vals_def enc_account_lookup bson_time_def
        convertAccountDomainToModel_def split: option.splits)
  have dec: "account_of ?d = kept i (ms_trunc n) a" if "ac_DeletedAt a = None"
    using that by (simp add: account_of_def dec_enc_account stored_account_def convertAccountModelToDomain_def
        convertAccountDomainToModel_def kept_def)
  have "account_doc ?d" by (auto simp: account_doc_def)
  with c assms have "store_ok re db view F w3" by (auto simp: store_ok_def accounts_ok_def)
  have i': "\<exists>j. a\<lparr>ac_ID := i\<rparr> = a\<lparr>ac_ID := j\<rparr> \<and> (ac_ID a \<noteq> nil_id \<longrightarrow> j = ac_ID a)
      \<and> (\<exists>t. kept i (ms_trunc n) a = kept j t a)"
    using v(2) by blast
  then have i'': "\<exists>j. a\<lparr>ac_ID := i\<rparr> = a\<lparr>ac_ID := j\<rparr> \<and> (ac_ID a \<noteq> nil_id \<longrightarrow> j = ac_ID a)" by blast
  from c show ?thesis
  proof
    assume "r = Ok () \<and> view w3 = (view w)(''accounts'' := view w ''accounts'' @ [?d])"
    with e live dec i' i'' \<open>store_ok re db view F w3\<close> show ?thesis by (simp add: live_accounts_def)
  qed (use e \<open>store_ok re db view F w3\<close> in simp)
qed

interpretation accounts: account_store "AccountRepositoryAdapter db" "store_ok re db view F"
  "\<lambda>w. live_accounts (view w)" for db re view F
  by unfold_locales
    (simp_all add: AccountRepositoryAdapter_def adapter_count adapter_get adapter_check adapter_create)

section \<open>Importing accounts\<close>

text \<open>The use case over the adapters of one database; the balance lookup leaves the database alone.\<close>

definition uc_over :: "'w db \<Rightarrow> ('w \<Rightarrow> mstore) \<Rightarrow> 'w account_uc \<Rightarrow> bool" where
  "uc_over db view uc \<longleftrightarrow> au_accountRepo uc = AccountRepositoryAdapter db
     \<and> au_walletRepo uc = WalletRepositoryAdapter db \<and> au_currency uc = currency_GetByID db
     \<and> au_chain uc = chain_GetByID db \<and> au_supported uc = SupportedCurrencyRepositoryAdapter db
     \<and> au_db uc = db \<and> (\<forall>ad cu ch sc w. view (snd (au_balance uc ad cu ch sc w)) = view w)"

lemma find_one_view:
  "mongo_ok re mg view \<Longrightarrow> view (snd (repo_find_one mg c dec f w)) = view w"
  using repo_find_one_ok [of re mg view c dec f w] by auto

lemma length_those: "those xs = Some ys \<Longrightarrow> length ys = length xs"
  by (induction xs arbitrary: ys) (auto split: option.splits)

lemma GetBatch_ok:
  assumes "mongo_ok re (db_mongo db) view"
  shows "view (snd (GetBatch db l n w)) = view w"
    "n \<ge> int (length (view w ''supportedcurrencies'')) \<Longrightarrow> fst (GetBatch db l n w) \<noteq> Ok (c # cs)"
proof -
  let ?ds = "sort_docs ''createdAt'' False (view w ''supportedcurrencies'')"
  obtain r w' where r: "mdo (db_mongo db) (MFindSorted ''supportedcurrencies'' (FAll []) ''createdAt'' False) w = (r, w')"
    by (metis surj_pair)
  from mongo_okD [OF assms r] have s: "r = MDocs ?ds" "view w' = view w" by auto
  have len: "length xs = length ?ds" if "those (map dec_supported_currency ?ds) = Some xs" for xs
    using length_those [OF that] by simp
  show "view (snd (GetBatch db l n w)) = view w"
    using r s by (auto simp: GetBatch_def GetSupportedCurrencies_def repo_find_sorted_def decode_docs_def
        split: option.splits)
  show "fst (GetBatch db l n w) \<noteq> Ok (c # cs)" if "n \<ge> int (length (view w ''supportedcurrencies''))"
    using r s len that by (auto simp: GetBatch_def GetSupportedCurrencies_def repo_find_sorted_def
        decode_docs_def page_def Let_def split: option.splits)
qed

lemma uc_over_keeps:
  assumes "uc_over db view uc"
  shows "account_store.uc_keeps (store_ok re db view F) (\<lambda>w. live_accounts (view w)) uc"
proof -
  note U = assms [unfolded uc_over_def]
  have k: "account_store.keeps (store_ok re db view F) (\<lambda>w. live_accounts (view w)) w w'"
    if "db_ok re db view \<Longrightarrow> view w' = view w" for w w'
    unfolding account_store.keeps_def [OF accounts.account_store_axioms]
    using that by (auto simp: store_ok_def)
  have 1: "view (snd (db_now db w)) = view w" "view (snd (db_new_id db w)) = view w"
    "view (snd (wallet_GetByID db i w)) = view w" "view (snd (currency_GetByID db i w)) = view w"
    "view (snd (chain_GetByID db i w)) = view w" "view (snd (supported_GetByID db i w)) = view w"
    "view (snd (GetBatch db l n w)) = view w"
    if "db_ok re db view" for i l n w
    using that find_one_view [OF db_okD(1) [OF that]] GetBatch_ok(1) [OF db_okD(1) [OF that]]
    by (simp_all add: db_ok_def via_def wallet_GetByID_def GetWalletByID_def currency_GetByID_def
        GetCurrencyByID_def chain_GetByID_def GetChainByID_def supported_GetByID_def GetSupportedCurrencyByID_def)
  have 2: "fst (GetBatch db 10 n w) \<noteq> Ok (c # cs)"
    if "store_ok re db view F w" "n \<ge> int (length (F ''supportedcurrencies''))" for n w c cs
    using GetBatch_ok(2) [OF store_okD(3) [OF that(1)], of w n] that by (simp add: store_ok_def)
  show ?thesis
    unfolding account_store.uc_keeps_def [OF accounts.account_store_axioms]
  proof (intro conjI allI)
    show "\<exists>B. \<forall>w n c cs. store_ok re db view F w \<longrightarrow> n \<ge> B
        \<longrightarrow> fst (sr_GetBatch (au_supported uc) 10 n w) \<noteq> Ok (c # cs)"
      using 2 U by (intro exI [of _ "int (length (F ''supportedcurrencies''))"])
        (auto simp: SupportedCurrencyRepositoryAdapter_def)
  qed (use U 1 in \<open>auto intro!: k simp: WalletRepositoryAdapter_def SupportedCurrencyRepositoryAdapter_def\<close>)
qed

text \<open>
  C22: Importing accounts ends for every list of accounts, whatever fails on the way. It only adds
  accounts: those that were there stay as they were, and no other collection changes. If no two
  accounts that are not deleted agree in address, user, chain and currency, this still holds
  afterwards; accounts that lack one of the four are not compared, since the database does not store
  their zero values.
\<close>

theorem import_no_duplicates:
  assumes "store_ok re db view F w" "uc_over db view uc"
    and "distinct (filter full_key (map akey (live_accounts (view w))))"
  shows "\<exists>ids e w' added. ImportAccounts uc xs w = Some ((ids, e), w')
    \<and> live_accounts (view w') = live_accounts (view w) @ added
    \<and> distinct (filter full_key (map akey (live_accounts (view w'))))
    \<and> (\<forall>c. c \<noteq> ''accounts'' \<longrightarrow> view w' c = view w c)"
proof -
  have "au_accountRepo uc = AccountRepositoryAdapter db" using assms(2) by (simp add: uc_over_def)
  from accounts.import_grows [OF uc_over_keeps [OF assms(2)] this assms(1,3)]
  obtain r w' where "ImportAccounts uc xs w = Some (r, w')"
    "account_store.grows (store_ok re db view F) (\<lambda>w. live_accounts (view w)) w w'" by blast
  with assms(1,3) show ?thesis
    unfolding account_store.grows_def [OF accounts.account_store_axioms]
    by (cases r) (auto simp: store_ok_def)
qed

section \<open>Finding or creating an account\<close>

lemma db_env_keeps:
  assumes "db_ok re db view"
  shows "account_store.env_keeps (store_ok re db view F) (\<lambda>w. live_accounts (view w)) db"
  unfolding account_store.env_keeps_def [OF accounts.account_store_axioms]
  using assms by (simp add: store_ok_def db_ok_def)

text \<open>
  C23: Finding or creating an account for an address: if an account that is not deleted has the
  address, the first of these is returned, whoever its user is and whatever its chain, and nothing
  is stored. Otherwise exactly one account is added, with the user, chain and address given, and
  asking for the address again, even for another user or chain, returns that account and adds
  nothing; or the store refused the account and nothing changed.
\<close>

theorem create_or_find_account:
  assumes "store_ok re db view F w" "au_accountRepo uc = AccountRepositoryAdapter db" "au_db uc = db"
    "address \<noteq> []" "CreateOrFindAccount uc u c address w = (r, w')"
  shows "case filter (has_address address) (live_accounts (view w)) of
      a # _ \<Rightarrow> r = Ok (Some a) \<and> live_accounts (view w') = live_accounts (view w)
    | [] \<Rightarrow> (\<exists>a t. r = Ok (Some a)
        \<and> live_accounts (view w') = live_accounts (view w) @ [kept (ac_ID a) t a]
        \<and> ac_WalletAddress a = address \<and> ac_UserID a = u \<and> ac_ChainID a = c
        \<and> (\<exists>w''. CreateOrFindAccount uc u' c' address w' = (Ok (Some (kept (ac_ID a) t a)), w'')
             \<and> live_accounts (view w'') = live_accounts (view w')))
      \<or> (\<not> is_ok r \<and> live_accounts (view w') = live_accounts (view w))"
proof -
  have "account_store.env_keeps (store_ok re db view F) (\<lambda>w. live_accounts (view w)) (au_db uc)"
    using db_env_keeps [of re db view F] assms(1,3) by (simp add: store_ok_def)
  from accounts.create_or_find [OF assms(1,2) this assms(4,5)] show ?thesis .
qed

text \<open>A database with the accounts of one user, and the use case over it.\<close>

definition demo_account :: account_model where
  "demo_account = convertAccountDomainToModel
     \<lparr>ac_ID = ''a1'', ac_CurrencyID = ''k1'', ac_WalletID = ''w1'', ac_ChainID = ''c1'', ac_UserID = ''u1'',
      ac_SupportedCurrencyID = ''s1'', ac_WalletAddress = ''addr'', ac_Balance = Fin 0, ac_Type = [],
      ac_DeletedAt = None, ac_EncryptedPrivateKey = [], ac_CreatedAt = 10 ^ 18, ac_UpdatedAt = 10 ^ 18\<rparr>"

definition account_store_demo :: mstore where
  "account_store_demo = (\<lambda>c. if c = ''accounts'' then [enc_account_model demo_account] else [])"

definition demo_uc :: "mstore account_uc" where
  "demo_uc = \<lparr>au_accountRepo = AccountRepositoryAdapter mem_db, au_walletRepo = WalletRepositoryAdapter mem_db,
     au_currency = currency_GetByID mem_db, au_chain = chain_GetByID mem_db,
     au_supported = SupportedCurrencyRepositoryAdapter mem_db, au_balance = (\<lambda>_ _ _ _ m. (Ok (Fin 1), m)),
     au_db = mem_db, au_ctx = (\<lambda>_. None)\<rparr>"

lemma demo_store_ok: "store_ok (\<lambda>_ _. False) mem_db id (\<lambda>_. []) account_store_demo"
  using mem_db_ok by (auto simp: store_ok_def accounts_ok_def account_store_demo_def account_doc_def)

theorem create_or_find_account_witness:
  "\<exists>r w'. CreateOrFindAccount demo_uc ''u2'' ''c2'' ''other'' account_store_demo = (r, w')
     \<and> (case filter (has_address ''other'') (live_accounts account_store_demo) of
      a # _ \<Rightarrow> r = Ok (Some a) \<and> live_accounts w' = live_accounts account_store_demo
    | [] \<Rightarrow> (\<exists>a t. r = Ok (Some a)
        \<and> live_accounts w' = live_accounts account_store_demo @ [kept (ac_ID a) t a]
        \<and> ac_WalletAddress a = ''other'' \<and> ac_UserID a = ''u2'' \<and> ac_ChainID a = ''c2''
        \<and> (\<exists>w''. CreateOrFindAccount demo_uc ''u3'' ''c3'' ''other'' w' = (Ok (Some (kept (ac_ID a) t a)), w'')
             \<and> live_accounts w'' = live_accounts w'))
      \<or> (\<not> is_ok r \<and> live_accounts w' = live_accounts account_store_demo))"
proof -
  obtain r w' where c: "CreateOrFindAccount demo_uc ''u2'' ''c2'' ''other'' account_store_demo = (r, w')"
    by (metis surj_pair)
  have uc: "au_accountRepo demo_uc = AccountRepositoryAdapter mem_db" "au_db demo_uc = mem_db"
    by (simp_all add: demo_uc_def)
  have "''other'' \<noteq> []" by simp
  from create_or_find_account [OF demo_store_ok uc this c, of "''u3''" "''c3''", unfolded id_apply]
  show ?thesis by (intro exI conjI) (rule c)
qed

theorem import_no_duplicates_witness:
  "\<exists>ids e w' added.
     ImportAccounts demo_uc [None, Some (convertAccountModelToDomain demo_account)] account_store_demo
       = Some ((ids, e), w')
    \<and> live_accounts w' = live_accounts account_store_demo @ added
    \<and> distinct (filter full_key (map akey (live_accounts w')))
    \<and> (\<forall>c. c \<noteq> ''accounts'' \<longrightarrow> w' c = account_store_demo c)"
proof -
  have uc: "uc_over mem_db id demo_uc" by (simp add: uc_over_def demo_uc_def)
  have "distinct (filter full_key (map akey (live_accounts (id account_store_demo))))"
    by (simp add: live_accounts_def account_store_demo_def)
  from import_no_duplicates [where view = id and w = account_store_demo, OF demo_store_ok uc this] show ?thesis unfolding id_apply .
qed

end
