(* ===== verification/Redis.thy ===== *)
theory Redis
  imports GoValue
begin

text \<open>
  Redis is an external service: the program sees it through the go-redis client, which is a
  parameter of the model (\<open>rdo\<close> for one command, \<open>rexec\<close> for a pipeline, both acting on an
  arbitrary world). What Redis documents of the commands used is \<open>redis_spec\<close>, on a key space
  that maps a key to its value and its time to live in seconds (0: none); the hypothesis
  \<open>redis_ok\<close> says that a client behaves as documented and that no command fails in transport.
  Theorems about failures use a client that returns an error instead.
\<close>

datatype redis_cmd =
    CGet string
  | CSet string blob int
  | CHGetAll string
  | CRPush string blob
  | CLPush string blob
  | CBLPop string int
  | CLRem string blob
  | CLLen string
  | CDel string
  | CPublish string string

datatype redis_reply =
    RErr goerr
  | RNil
  | RBlob blob
  | RHash "(string \<times> blob) list"
  | RInt int
  | RDone

record 'w redis =
  rdo :: "redis_cmd \<Rightarrow> 'w \<Rightarrow> redis_reply \<times> 'w"
  rexec :: "redis_cmd list \<Rightarrow> 'w \<Rightarrow> (redis_reply list \<times> goerr option) \<times> 'w"

datatype rvalue = SV blob | LV "blob list" | HV "(string \<times> blob) list"

type_synonym keyspace = "string \<rightharpoonup> rvalue \<times> int"

definition wrongtype :: goerr where
  "wrongtype = EMsg ''WRONGTYPE Operation against a key holding the wrong kind of value''"

fun redis_spec :: "redis_cmd \<Rightarrow> keyspace \<Rightarrow> redis_reply \<times> keyspace" where
  "redis_spec (CGet k) m =
     (case m k of None \<Rightarrow> (RNil, m) | Some (SV b, _) \<Rightarrow> (RBlob b, m) | _ \<Rightarrow> (RErr wrongtype, m))"
| "redis_spec (CSet k b ttl) m = (RDone, m(k \<mapsto> (SV b, ttl)))"
| "redis_spec (CHGetAll k) m =
     (case m k of None \<Rightarrow> (RHash [], m) | Some (HV h, _) \<Rightarrow> (RHash h, m)
      | _ \<Rightarrow> (RErr wrongtype, m))"
| "redis_spec (CRPush k b) m =
     (case m k of None \<Rightarrow> (RInt 1, m(k \<mapsto> (LV [b], 0)))
      | Some (LV xs, t) \<Rightarrow> (RInt (int (length xs) + 1), m(k \<mapsto> (LV (xs @ [b]), t)))
      | _ \<Rightarrow> (RErr wrongtype, m))"
| "redis_spec (CLPush k b) m =
     (case m k of None \<Rightarrow> (RInt 1, m(k \<mapsto> (LV [b], 0)))
      | Some (LV xs, t) \<Rightarrow> (RInt (int (length xs) + 1), m(k \<mapsto> (LV (b # xs), t)))
      | _ \<Rightarrow> (RErr wrongtype, m))"
| "redis_spec (CBLPop k _) m =
     (case m k of None \<Rightarrow> (RNil, m)
      | Some (LV [], _) \<Rightarrow> (RNil, m)
      | Some (LV [x], _) \<Rightarrow> (RBlob x, m(k := None))
      | Some (LV (x # xs), t) \<Rightarrow> (RBlob x, m(k \<mapsto> (LV xs, t)))
      | _ \<Rightarrow> (RErr wrongtype, m))"
| "redis_spec (CLRem k b) m =
     (case m k of None \<Rightarrow> (RInt 0, m)
      | Some (LV xs, t) \<Rightarrow>
          (RInt (int (length xs) - int (length (removeAll b xs))),
           if removeAll b xs = [] then m(k := None) else m(k \<mapsto> (LV (removeAll b xs), t)))
      | _ \<Rightarrow> (RErr wrongtype, m))"
| "redis_spec (CLLen k) m =
     (case m k of None \<Rightarrow> (RInt 0, m) | Some (LV xs, _) \<Rightarrow> (RInt (int (length xs)), m)
      | _ \<Rightarrow> (RErr wrongtype, m))"
| "redis_spec (CDel k) m = (RInt (if m k = None then 0 else 1), m(k := None))"
| "redis_spec (CPublish _ _) m = (RInt 0, m)"

text \<open>A pipeline runs its commands in order, whatever they return; \<open>Exec\<close> reports the first error.\<close>

fun spec_exec :: "redis_cmd list \<Rightarrow> keyspace \<Rightarrow> redis_reply list \<times> keyspace" where
  "spec_exec [] m = ([], m)"
| "spec_exec (c # cs) m =
     (let (r, m1) = redis_spec c m; (rs, m2) = spec_exec cs m1 in (r # rs, m2))"

fun first_err :: "redis_reply list \<Rightarrow> goerr option" where
  "first_err [] = None"
| "first_err (RErr e # _) = Some e"
| "first_err (_ # rs) = first_err rs"

definition redis_ok :: "'w redis \<Rightarrow> ('w \<Rightarrow> keyspace) \<Rightarrow> bool" where
  "redis_ok cl view \<longleftrightarrow>
     (\<forall>c w. fst (rdo cl c w) = fst (redis_spec c (view w))
          \<and> view (snd (rdo cl c w)) = snd (redis_spec c (view w)))
   \<and> (\<forall>cs w. fst (rexec cl cs w)
                = (fst (spec_exec cs (view w)), first_err (fst (spec_exec cs (view w))))
          \<and> view (snd (rexec cl cs w)) = snd (spec_exec cs (view w)))"

text \<open>A client that is the documented behaviour itself, for instances at concrete inputs.\<close>

definition mem_redis :: "keyspace redis" where
  "mem_redis = \<lparr>rdo = redis_spec,
     rexec = (\<lambda>cs m. let (rs, m') = spec_exec cs m in ((rs, first_err rs), m'))\<rparr>"

lemma mem_redis_ok: "redis_ok mem_redis id"
  by (simp add: redis_ok_def mem_redis_def split_beta)

lemma redis_okD:
  assumes "redis_ok cl view"
  shows "fst (rdo cl c w) = fst (redis_spec c (view w))"
    and "view (snd (rdo cl c w)) = snd (redis_spec c (view w))"
    and "fst (fst (rexec cl cs w)) = fst (spec_exec cs (view w))"
    and "snd (fst (rexec cl cs w)) = first_err (fst (spec_exec cs (view w)))"
    and "view (snd (rexec cl cs w)) = snd (spec_exec cs (view w))"
  using assms by (simp_all add: redis_ok_def)

lemma redis_ok_rdo:
  assumes "redis_ok cl view" and "rdo cl c w = (r, w')"
  shows "redis_spec c (view w) = (r, view w')"
  using redis_okD(1,2) [OF assms(1), of c w] assms(2) by (metis fst_conv prod.collapse snd_conv)

lemma redis_ok_rexec:
  assumes "redis_ok cl view" and "rexec cl cs w = ((rs, e), w')"
  shows "spec_exec cs (view w) = (rs, view w')" and "e = first_err rs"
  using redis_okD(3-5) [OF assms(1), of cs w] assms(2)
  by (metis fst_conv prod.collapse snd_conv, metis fst_conv snd_conv)

text \<open>The list stored at a key; an absent key is the empty list.\<close>

definition list_at :: "keyspace \<Rightarrow> string \<Rightarrow> blob list" where
  "list_at m k = (case m k of Some (LV xs, _) \<Rightarrow> xs | _ \<Rightarrow> [])"

definition is_list_key :: "keyspace \<Rightarrow> string \<Rightarrow> bool" where
  "is_list_key m k = (case m k of None \<Rightarrow> True | Some (LV _, _) \<Rightarrow> True | _ \<Rightarrow> False)"

lemma list_at_upd [simp]:
  "list_at (m(k \<mapsto> (LV xs, t))) j = (if j = k then xs else list_at m j)"
  "list_at (m(k := None)) j = (if j = k then [] else list_at m j)"
  "list_at (m(k \<mapsto> (SV b, t))) j = (if j = k then [] else list_at m j)"
  by (simp_all add: list_at_def)

lemma is_list_key_upd [simp]:
  "is_list_key (m(k \<mapsto> (LV xs, t))) j = (j = k \<or> is_list_key m j)"
  "is_list_key (m(k := None)) j = (j = k \<or> is_list_key m j)"
  "is_list_key (m(k \<mapsto> (SV b, t))) j = (j \<noteq> k \<and> is_list_key m j)"
  by (auto simp: is_list_key_def)

lemma spec_rpush [redis_simps]:
  assumes "is_list_key m k"
  shows "\<exists>t. redis_spec (CRPush k b) m
               = (RInt (int (length (list_at m k)) + 1), m(k \<mapsto> (LV (list_at m k @ [b]), t)))"
  using assms by (auto simp: is_list_key_def list_at_def split: option.splits rvalue.splits)

lemma spec_lpush [redis_simps]:
  assumes "is_list_key m k"
  shows "\<exists>t. redis_spec (CLPush k b) m
               = (RInt (int (length (list_at m k)) + 1), m(k \<mapsto> (LV (b # list_at m k), t)))"
  using assms by (auto simp: is_list_key_def list_at_def split: option.splits rvalue.splits)

lemma spec_llen [redis_simps]:
  "is_list_key m k \<Longrightarrow> redis_spec (CLLen k) m = (RInt (int (length (list_at m k))), m)"
  by (auto simp: is_list_key_def list_at_def split: option.splits rvalue.splits)

end
