(* ===== verification/CacheManager.thy ===== *)
theory CacheManager
  imports Redis
begin

text \<open>
  \<open>managers/cache/cache.go\<close>: values stored in Redis as \<open>\{"data": value\}\<close>. The operations the
  rest of the program calls are gathered in a record (\<open>cache_ops\<close>), which is the pointer to the
  \<open>CacheManager\<close> the other components hold; what they rely on is the locale \<open>cache_iface\<close>, which
  the model of the cache manager satisfies over any client that behaves as Redis documents.
\<close>

record 'w cache_ops =
  cm_get :: "string \<Rightarrow> 'w \<Rightarrow> gval res \<times> 'w"
  cm_set :: "string \<Rightarrow> gval \<Rightarrow> int \<Rightarrow> 'w \<Rightarrow> unit res \<times> 'w"
  cm_del :: "string \<Rightarrow> 'w \<Rightarrow> unit res \<times> 'w"

definition marshal_error :: goerr where
  "marshal_error = EMsg ''json: unsupported value''"

definition unmarshal_error :: goerr where
  "unmarshal_error = EMsg ''json: cannot unmarshal''"

text \<open>\<open>json.Unmarshal\<close> into a \<open>ResponseData\<close>.\<close>

definition unmarshal_response :: "blob \<Rightarrow> gval res" where
  "unmarshal_response b =
     (case b of
        Enc (JObj kjs) \<Rightarrow>
          (case json_lookup kjs ''data'' of
             None \<Rightarrow> Ok VNil
           | Some j \<Rightarrow> (case from_json j of Some v \<Rightarrow> Ok v | None \<Rightarrow> Err unmarshal_error))
      | Enc JNull \<Rightarrow> Ok VNil
      | _ \<Rightarrow> Err unmarshal_error)"

definition cache_set :: "'w redis \<Rightarrow> string \<Rightarrow> gval \<Rightarrow> int \<Rightarrow> 'w \<Rightarrow> unit res \<times> 'w" where
  "cache_set cl key v expirySeconds w =
     (case to_json v of
        None \<Rightarrow> (Err (EWrap ''failed to marshal cache data: '' marshal_error), w)
      | Some j \<Rightarrow>
          (case rdo cl (CSet key (Enc (JObj [(''data'', j)])) expirySeconds) w of
             (RErr e, w') \<Rightarrow> (Err (EWrap ''failed to set cache value: '' e), w')
           | (_, w') \<Rightarrow> (Ok (), w')))"

definition cache_get :: "'w redis \<Rightarrow> string \<Rightarrow> 'w \<Rightarrow> gval res \<times> 'w" where
  "cache_get cl key w =
     (case rdo cl (CGet key) w of
        (RNil, w') \<Rightarrow> (Ok VNil, w')
      | (RErr e, w') \<Rightarrow> (Err (EWrap ''failed to get cache value: '' e), w')
      | (RBlob b, w') \<Rightarrow>
          (case unmarshal_response b of
             Err e \<Rightarrow> (Err (EWrap ''failed to unmarshal cache data: '' e), w')
           | r \<Rightarrow> (r, w'))
      | (_, w') \<Rightarrow> (Err (EWrap ''failed to get cache value: '' (EMsg ''unexpected reply'')), w'))"

definition cache_delete :: "'w redis \<Rightarrow> string \<Rightarrow> 'w \<Rightarrow> unit res \<times> 'w" where
  "cache_delete cl key w =
     (case rdo cl (CDel key) w of
        (RErr e, w') \<Rightarrow> (Err (EWrap ''failed to delete cache key: '' e), w')
      | (_, w') \<Rightarrow> (Ok (), w'))"

definition cache_manager :: "'w redis \<Rightarrow> 'w cache_ops" where
  "cache_manager cl = \<lparr>cm_get = cache_get cl, cm_set = cache_set cl, cm_del = cache_delete cl\<rparr>"

lemma cache_manager_sel [simp]:
  "cm_get (cache_manager cl) = cache_get cl" "cm_set (cache_manager cl) = cache_set cl"
  "cm_del (cache_manager cl) = cache_delete cl"
  by (simp_all add: cache_manager_def)

section \<open>What a key space holds for the cache\<close>

definition cache_look :: "keyspace \<Rightarrow> string \<Rightarrow> gval" where
  "cache_look m k =
     (case m k of
        Some (SV b, _) \<Rightarrow> (case unmarshal_response b of Ok v \<Rightarrow> v | _ \<Rightarrow> VNil)
      | _ \<Rightarrow> VNil)"

definition entry_ok :: "keyspace \<Rightarrow> string \<Rightarrow> bool" where
  "entry_ok m k =
     (case m k of None \<Rightarrow> True | Some (SV b, _) \<Rightarrow> is_ok (unmarshal_response b) | _ \<Rightarrow> False)"

lemma unmarshal_data:
  "unmarshal_response (Enc (JObj [(''data'', j)]))
     = (case from_json j of Some v \<Rightarrow> Ok v | None \<Rightarrow> Err unmarshal_error)"
  by (simp add: unmarshal_response_def json_lookup_def)

lemma unmarshal_not_Panic [simp]: "unmarshal_response b \<noteq> Panic p"
  by (auto simp: unmarshal_response_def split: blob.splits json.splits option.splits)

lemma json_norm_SomeE:
  assumes "json_norm v = Some v'"
  obtains j where "to_json v = Some j" "from_json j = Some v'"
  using assms by (auto simp: json_norm_def bind_eq_Some_conv)

lemma cache_get_ok:
  assumes "redis_ok cl view" and "entry_ok (view w) k"
  shows "fst (cache_get cl k w) = Ok (cache_look (view w) k)"
    and "view (snd (cache_get cl k w)) = view w"
proof -
  obtain r w' where c: "rdo cl (CGet k) w = (r, w')" by (metis surj_pair)
  have s: "redis_spec (CGet k) (view w) = (r, view w')" by (rule redis_ok_rdo [OF assms(1) c])
  have "fst (cache_get cl k w) = Ok (cache_look (view w) k) \<and> view (snd (cache_get cl k w)) = view w"
    using s assms(2)
    by (auto simp: cache_get_def c entry_ok_def cache_look_def
        split: option.splits rvalue.splits res.splits elim: is_okE)
  then show "fst (cache_get cl k w) = Ok (cache_look (view w) k)"
    and "view (snd (cache_get cl k w)) = view w" by auto
qed

lemma cache_set_ok:
  assumes "redis_ok cl view" and "to_json v = Some j"
  shows "fst (cache_set cl k v t w) = Ok ()"
    and "view (snd (cache_set cl k v t w)) = (view w)(k \<mapsto> (SV (Enc (JObj [(''data'', j)])), t))"
proof -
  obtain r w' where c: "rdo cl (CSet k (Enc (JObj [(''data'', j)])) t) w = (r, w')"
    by (metis surj_pair)
  from redis_ok_rdo [OF assms(1) c] assms(2)
  have "fst (cache_set cl k v t w) = Ok () \<and>
    view (snd (cache_set cl k v t w)) = (view w)(k \<mapsto> (SV (Enc (JObj [(''data'', j)])), t))"
    by (auto simp: cache_set_def c)
  then show "fst (cache_set cl k v t w) = Ok ()"
    and "view (snd (cache_set cl k v t w)) = (view w)(k \<mapsto> (SV (Enc (JObj [(''data'', j)])), t))"
    by auto
qed

lemma cache_delete_ok:
  assumes "redis_ok cl view"
  shows "fst (cache_delete cl k w) = Ok ()" and "view (snd (cache_delete cl k w)) = (view w)(k := None)"
proof -
  obtain r w' where c: "rdo cl (CDel k) w = (r, w')" by (metis surj_pair)
  from redis_ok_rdo [OF assms c]
  have "fst (cache_delete cl k w) = Ok () \<and> view (snd (cache_delete cl k w)) = (view w)(k := None)"
    by (auto simp: cache_delete_def c)
  then show "fst (cache_delete cl k w) = Ok ()"
    and "view (snd (cache_delete cl k w)) = (view w)(k := None)" by auto
qed

lemma entry_ok_upd [simp]:
  "entry_ok (m(k := None)) j = (j = k \<or> entry_ok m j)"
  "entry_ok (m(k \<mapsto> (SV b, t))) j = (if j = k then is_ok (unmarshal_response b) else entry_ok m j)"
  by (auto simp: entry_ok_def)

lemma cache_look_upd [simp]:
  "cache_look (m(k := None)) j = (if j = k then VNil else cache_look m j)"
  "cache_look (m(k \<mapsto> (SV b, t))) j =
     (if j = k then (case unmarshal_response b of Ok v \<Rightarrow> v | _ \<Rightarrow> VNil) else cache_look m j)"
  by (auto simp: cache_look_def)

section \<open>The interface\<close>

text \<open>
  \<open>look w k\<close> is the value a read of key \<open>k\<close> returns in world \<open>w\<close>, \<open>ok\<close> the worlds in which the
  operations on the keys of \<open>K\<close> succeed. A write returns \<open>nil\<close> and makes the value readable as JSON
  gives it back, and leaves the other keys alone.
\<close>

locale cache_iface =
  fixes cm :: "'w cache_ops" and look :: "'w \<Rightarrow> string \<Rightarrow> gval"
    and ok :: "'w \<Rightarrow> bool" and K :: "string set"
  assumes get_val: "ok w \<Longrightarrow> k \<in> K \<Longrightarrow> fst (cm_get cm k w) = Ok (look w k)"
    and get_ok: "ok w \<Longrightarrow> k \<in> K \<Longrightarrow> ok (snd (cm_get cm k w))"
    and get_look: "ok w \<Longrightarrow> k \<in> K \<Longrightarrow> look (snd (cm_get cm k w)) = look w"
    and set_res: "ok w \<Longrightarrow> k \<in> K \<Longrightarrow> json_norm v = Some v' \<Longrightarrow> fst (cm_set cm k v t w) = Ok ()"
    and set_ok: "ok w \<Longrightarrow> k \<in> K \<Longrightarrow> json_norm v = Some v' \<Longrightarrow> ok (snd (cm_set cm k v t w))"
    and set_look: "ok w \<Longrightarrow> k \<in> K \<Longrightarrow> json_norm v = Some v' \<Longrightarrow>
      look (snd (cm_set cm k v t w)) = (look w)(k := v')"
    and del_res: "ok w \<Longrightarrow> k \<in> K \<Longrightarrow> fst (cm_del cm k w) = Ok ()"
    and del_ok: "ok w \<Longrightarrow> k \<in> K \<Longrightarrow> ok (snd (cm_del cm k w))"
    and del_look: "ok w \<Longrightarrow> k \<in> K \<Longrightarrow> look (snd (cm_del cm k w)) = (look w)(k := VNil)"
begin

lemma set_get:
  assumes "ok w" "k \<in> K" "json_norm v = Some v'"
  shows "fst (cm_get cm k (snd (cm_set cm k v t w))) = Ok v'"
  using get_val [OF set_ok [OF assms] assms(2)] set_look [OF assms] by simp

lemma set_get_other:
  assumes "ok w" "k \<in> K" "j \<in> K" "j \<noteq> k" "json_norm v = Some v'"
  shows "fst (cm_get cm j (snd (cm_set cm k v t w))) = fst (cm_get cm j w)"
  using get_val [OF set_ok [OF assms(1,2,5)] assms(3)] set_look [OF assms(1,2,5)] get_val [OF assms(1,3)]
    assms(4) by simp

lemma del_get: "ok w \<Longrightarrow> k \<in> K \<Longrightarrow> fst (cm_get cm k (snd (cm_del cm k w))) = Ok VNil"
  by (simp add: get_val del_ok del_look)

lemma height_look:
  assumes "ok w" "k \<in> K" "unat h \<le> 2 ^ 53"
  shows "cached_height oor (look (snd (cm_set cm k (VUint64 h) t w)) k) = h"
  using set_look [OF assms(1,2) json_norm_uint64 [OF assms(3)]]
    cached_height_roundtrip [OF assms(3) json_norm_uint64 [OF assms(3)]] by simp

end

definition cache_ok :: "'w redis \<Rightarrow> ('w \<Rightarrow> keyspace) \<Rightarrow> string set \<Rightarrow> 'w \<Rightarrow> bool" where
  "cache_ok cl view K w \<longleftrightarrow> redis_ok cl view \<and> (\<forall>k \<in> K. entry_ok (view w) k)"

interpretation cache: cache_iface "cache_manager cl" "\<lambda>w. cache_look (view w)" "cache_ok cl view K" K
  for cl :: "'w redis" and view K
proof unfold_locales
  fix w k assume a: "cache_ok cl view K w" "k \<in> K"
  then have r: "redis_ok cl view" and e: "entry_ok (view w) k" by (auto simp: cache_ok_def)
  show "fst (cm_get (cache_manager cl) k w) = Ok (cache_look (view w) k)"
    by (simp add: cache_get_ok [OF r e])
  show "cache_ok cl view K (snd (cm_get (cache_manager cl) k w))"
    using a by (simp add: cache_ok_def cache_get_ok [OF r e])
  show "cache_look (view (snd (cm_get (cache_manager cl) k w))) = cache_look (view w)"
    by (simp add: cache_get_ok [OF r e])
  show "fst (cm_del (cache_manager cl) k w) = Ok ()" by (simp add: cache_delete_ok [OF r])
  show "cache_ok cl view K (snd (cm_del (cache_manager cl) k w))"
    using a by (simp add: cache_ok_def cache_delete_ok [OF r])
  show "cache_look (view (snd (cm_del (cache_manager cl) k w))) = (cache_look (view w))(k := VNil)"
    by (auto simp: cache_delete_ok [OF r])
  fix v v' t assume n: "json_norm v = Some v'"
  then obtain j where j: "to_json v = Some j" "from_json j = Some v'" by (rule json_norm_SomeE)
  show "fst (cm_set (cache_manager cl) k v t w) = Ok ()" by (simp add: cache_set_ok [OF r j(1)])
  show "cache_ok cl view K (snd (cm_set (cache_manager cl) k v t w))"
    using a by (simp add: cache_ok_def cache_set_ok [OF r j(1)] unmarshal_data j(2))
  show "cache_look (view (snd (cm_set (cache_manager cl) k v t w))) = (cache_look (view w))(k := v')"
    by (auto simp: cache_set_ok [OF r j(1)] unmarshal_data j(2))
qed

section \<open>Properties\<close>

text \<open>
  What \<open>Set\<close> stores under a key \<open>Get\<close> returns, in the form JSON gives the value back, and reads of
  the other keys are unaffected; after \<open>Delete\<close> the key reads as nil without an error. This holds for
  any client that behaves as Redis documents.
\<close>

theorem cache_set_get_delete:
  assumes "cache_ok cl view K w" "k \<in> K" "j \<in> K" "j \<noteq> k" "json_norm v = Some v'"
  shows "fst (cache_get cl k (snd (cache_set cl k v t w))) = Ok v'
    \<and> fst (cache_get cl j (snd (cache_set cl k v t w))) = fst (cache_get cl j w)
    \<and> fst (cache_get cl k (snd (cache_delete cl k (snd (cache_set cl k v t w))))) = Ok VNil"
  using cache.set_get [OF assms(1,2,5), of t] cache.set_get_other [OF assms, of t]
    cache.del_get [OF cache.set_ok [OF assms(1,2,5), of t] assms(2)]
  by simp

theorem cache_set_get_delete_witness:
  "let w = snd (cache_set mem_redis ''k'' (VStr ''v'') 120 (\<lambda>_. None))
   in fst (cache_get mem_redis ''k'' w) = Ok (VStr ''v'')
    \<and> fst (cache_get mem_redis ''j'' w) = fst (cache_get mem_redis ''j'' (\<lambda>_. None))
    \<and> fst (cache_get mem_redis ''k'' (snd (cache_delete mem_redis ''k'' w))) = Ok VNil"
  using cache_set_get_delete [of mem_redis id "{''k'', ''j''}" "\<lambda>_. None" "''k''" "''j''"
      "VStr ''v''" "VStr ''v''" 120]
  by (simp add: cache_ok_def mem_redis_ok entry_ok_def Let_def)

text \<open>
  A block height of at most \<open>2 ^ 53\<close>, stored as a \<open>uint64\<close>, is read back by the monitors' type
  switch as the same height although JSON has turned it into a \<open>float64\<close>.
\<close>

theorem cached_height_survives:
  assumes "cache_ok cl view {k} w" "unat h \<le> 2 ^ 53"
  shows "\<exists>v. fst (cache_get cl k (snd (cache_set cl k (VUint64 h) t w))) = Ok v
           \<and> cached_height oor v = h"
  using cache.set_get [OF assms(1) _ json_norm_uint64 [OF assms(2)], of k t]
    cached_height_roundtrip [OF assms(2) json_norm_uint64 [OF assms(2)]]
  by simp

theorem cached_height_survives_witness:
  "\<exists>v. fst (cache_get mem_redis ''h'' (snd (cache_set mem_redis ''h'' (VUint64 21500000) 120
          (\<lambda>_. None)))) = Ok v \<and> cached_height (\<lambda>_. 0) v = 21500000"
  by (rule cached_height_survives [of _ id]) (simp_all add: cache_ok_def mem_redis_ok entry_ok_def)

end
