(* ===== verification/EventManager.thy ===== *)
theory EventManager
  imports Prelude
begin

text \<open>
  \<open>managers/events/event_manager.go\<close>: handlers by event name, in subscription order. Publishing
  starts one goroutine per handler; the goroutines started are recorded in order, and each one's
  body recovers a panic of its handler.
\<close>

record ('h, 'd) event_manager =
  handlers :: "string \<rightharpoonup> 'h list"
  spawned :: "('h \<times> 'd) list"

definition new_event_manager :: "('h, 'd) event_manager" where
  "new_event_manager = \<lparr>handlers = Map.empty, spawned = []\<rparr>"

definition handlers_of :: "('h, 'd) event_manager \<Rightarrow> string \<Rightarrow> 'h list" where
  "handlers_of em name = (case handlers em name of Some hs \<Rightarrow> hs | None \<Rightarrow> [])"

definition subscribe :: "string \<Rightarrow> 'h \<Rightarrow> ('h, 'd) event_manager \<Rightarrow> ('h, 'd) event_manager" where
  "subscribe name h em = em\<lparr>handlers := (handlers em)(name \<mapsto> handlers_of em name @ [h])\<rparr>"

definition publish :: "string \<Rightarrow> 'd \<Rightarrow> ('h, 'd) event_manager \<Rightarrow> ('h, 'd) event_manager" where
  "publish name d em = em\<lparr>spawned := spawned em @ map (\<lambda>h. (h, d)) (handlers_of em name)\<rparr>"

definition unsubscribe_all :: "string \<Rightarrow> ('h, 'd) event_manager \<Rightarrow> ('h, 'd) event_manager" where
  "unsubscribe_all name em = em\<lparr>handlers := (handlers em)(name := None)\<rparr>"

text \<open>
  The body of a publishing goroutine: call the handler and recover a panic, which is logged. The
  result is what the deferred function logged, if anything.
\<close>

definition handler_goroutine :: "('h \<Rightarrow> 'd \<Rightarrow> unit res) \<Rightarrow> 'h \<times> 'd \<Rightarrow> string option" where
  "handler_goroutine call g = (case call (fst g) (snd g) of Panic p \<Rightarrow> Some p | _ \<Rightarrow> None)"

lemma handlers_of_simps [simp]:
  "handlers_of (subscribe n h em) n' = (if n' = n then handlers_of em n @ [h] else handlers_of em n')"
  "handlers_of (publish n d em) n' = handlers_of em n'"
  "handlers_of (unsubscribe_all n em) n' = (if n' = n then [] else handlers_of em n')"
  "handlers_of new_event_manager n' = []"
  by (simp_all add: handlers_of_def subscribe_def publish_def unsubscribe_all_def
      new_event_manager_def)

lemma spawned_simps [simp]:
  "spawned (subscribe n h em) = spawned em"
  "spawned (publish n d em) = spawned em @ map (\<lambda>h. (h, d)) (handlers_of em n)"
  "spawned (unsubscribe_all n em) = spawned em"
  "spawned new_event_manager = []"
  by (simp_all add: subscribe_def publish_def unsubscribe_all_def new_event_manager_def)

text \<open>Publishing a list of events in turn.\<close>

lemma spawned_publish_fold:
  "spawned (fold (publish n) ds em)
     = spawned em @ concat (map (\<lambda>d. map (\<lambda>h. (h, d)) (handlers_of em n)) ds)"
  by (induction ds arbitrary: em) auto

section \<open>Histories\<close>

datatype ('h, 'd) ev_op = Sub string 'h | Unsub string | Pub string 'd

fun ev_step :: "('h, 'd) ev_op \<Rightarrow> ('h, 'd) event_manager \<Rightarrow> ('h, 'd) event_manager" where
  "ev_step (Sub n h) em = subscribe n h em"
| "ev_step (Unsub n) em = unsubscribe_all n em"
| "ev_step (Pub n d) em = publish n d em"

text \<open>What the manager promises, from the history alone (latest operation first).\<close>

fun subscribed :: "('h, 'd) ev_op list \<Rightarrow> string \<Rightarrow> 'h list" where
  "subscribed [] n = []"
| "subscribed (Sub m h # ops) n = subscribed ops n @ (if m = n then [h] else [])"
| "subscribed (Unsub m # ops) n = (if m = n then [] else subscribed ops n)"
| "subscribed (Pub _ _ # ops) n = subscribed ops n"

fun delivered :: "('h, 'd) ev_op list \<Rightarrow> ('h \<times> 'd) list" where
  "delivered [] = []"
| "delivered (Pub n d # ops) = delivered ops @ map (\<lambda>h. (h, d)) (subscribed ops n)"
| "delivered (_ # ops) = delivered ops"

lemma handlers_history:
  "handlers_of (foldr ev_step ops new_event_manager) n = subscribed ops n"
  by (induction ops rule: delivered.induct) auto

text \<open>
  C11: Over any history of subscriptions, unsubscriptions and publications, in any order, the event
  manager has started exactly the calls the history prescribes: each publication calls, in
  subscription order, the handlers subscribed to that name since its last \<open>UnsubscribeAll\<close>, once
  each, and nothing else is called.
\<close>

theorem event_history:
  "spawned (foldr ev_step ops new_event_manager) = delivered ops
   \<and> handlers_of (foldr ev_step ops new_event_manager) n = subscribed ops n"
  by (induction ops rule: delivered.induct) (auto simp: handlers_history)

end
