(* ===== verification/QueueManager.thy ===== *)
theory QueueManager
  imports Redis EventManager GoStrings "HOL-Library.Monad_Syntax"
begin

text \<open>
  \<open>managers/queue/queue.go\<close> and the service in front of it, \<open>src/services/queue_service.go\<close>: job
  queues kept in Redis under Bull's key names. The parameters are the Redis client, the clock, the
  text of a JSON value and \<open>fmt\<close>'s \<open>%v\<close> of a map (\<open>queue_env\<close>). The state of a manager is the
  world, the registered handlers and the workers started.
\<close>

text \<open>A Go map of dynamic values, \<open>None\<close> for nil.\<close>

type_synonym gomap = "(string \<times> gval) list option"

record 'w queue_env =
  qe_redis :: "'w redis"
  qe_clock :: "'w \<Rightarrow> int \<times> 'w"
  qe_text :: "json \<Rightarrow> string"
  qe_fmt :: "gomap \<Rightarrow> string"
  qe_oori :: "f64 \<Rightarrow> int"

type_synonym 'w job_handler = "gomap \<Rightarrow> 'w \<Rightarrow> unit res \<times> 'w"

record 'w queue_manager =
  qm_net :: 'w
  qm_handlers :: "string \<rightharpoonup> 'w job_handler"
  qm_workers :: "(string \<times> nat) list"

datatype job_state = JobStateWaiting | JobStateActive | JobStateCompleted | JobStateFailed
  | JobStateDelayed | JobStateStalled | JobStateOther string

fun job_state_string :: "job_state \<Rightarrow> string" where
  "job_state_string JobStateWaiting = ''waiting''"
| "job_state_string JobStateActive = ''active''"
| "job_state_string JobStateCompleted = ''completed''"
| "job_state_string JobStateFailed = ''failed''"
| "job_state_string JobStateDelayed = ''delayed''"
| "job_state_string JobStateStalled = ''stalled''"
| "job_state_string (JobStateOther s) = s"

definition job_state_of :: "string \<Rightarrow> job_state" where
  "job_state_of s =
     (if s = ''waiting'' then JobStateWaiting else if s = ''active'' then JobStateActive
      else if s = ''completed'' then JobStateCompleted else if s = ''failed'' then JobStateFailed
      else if s = ''delayed'' then JobStateDelayed else if s = ''stalled'' then JobStateStalled
      else JobStateOther s)"

record job_data =
  jd_ID :: string
  jd_QueueName :: string
  jd_Data :: gomap
  jd_Opts :: gomap
  jd_Timestamp :: int
  jd_ProcessedOn :: int
  jd_FinishedOn :: int
  jd_Attempts :: int
  jd_State :: job_state
  jd_Name :: string

record repeat_data =
  rp_ID :: string
  rp_QueueName :: string
  rp_Data :: gomap
  rp_Name :: string
  rp_Opts :: gomap
  rp_Every :: int

section \<open>Marshalling\<close>

definition map_json :: "gomap \<Rightarrow> json option" where
  "map_json m = (case m of None \<Rightarrow> Some JNull | Some kvs \<Rightarrow> to_json (VMap kvs))"

text \<open>\<open>omitempty\<close> on a map, an integer and a string.\<close>

definition omit_map :: "string \<Rightarrow> gomap \<Rightarrow> (string \<times> json) list option" where
  "omit_map k m = (case m of None \<Rightarrow> Some [] | Some [] \<Rightarrow> Some []
     | Some kvs \<Rightarrow> map_option (\<lambda>j. [(k, j)]) (to_json (VMap kvs)))"

definition omit_int :: "string \<Rightarrow> int \<Rightarrow> (string \<times> json) list" where
  "omit_int k i = (if i = 0 then [] else [(k, JNum (of_int i))])"

definition omit_str :: "string \<Rightarrow> string \<Rightarrow> (string \<times> json) list" where
  "omit_str k s = (if s = [] then [] else [(k, JStr s)])"

definition job_to_json :: "job_data \<Rightarrow> json option" where
  "job_to_json job = do {
     d \<leftarrow> map_json (jd_Data job);
     opts \<leftarrow> omit_map ''opts'' (jd_Opts job);
     Some (JObj ([(''id'', JStr (jd_ID job)), (''queueName'', JStr (jd_QueueName job)), (''data'', d)]
       @ opts @ [(''timestamp'', JNum (of_int (jd_Timestamp job)))]
       @ omit_int ''processedOn'' (jd_ProcessedOn job) @ omit_int ''finishedOn'' (jd_FinishedOn job)
       @ [(''attempts'', JNum (of_int (jd_Attempts job))),
          (''state'', JStr (job_state_string (jd_State job)))]
       @ omit_str ''name'' (jd_Name job))) }"

definition repeat_to_json :: "repeat_data \<Rightarrow> json option" where
  "repeat_to_json r = do {
     d \<leftarrow> map_json (rp_Data r);
     opts \<leftarrow> map_json (rp_Opts r);
     Some (JObj [(''id'', JStr (rp_ID r)), (''queueName'', JStr (rp_QueueName r)), (''data'', d),
       (''name'', JStr (rp_Name r)), (''opts'', opts), (''every'', JNum (of_int (rp_Every r)))]) }"

text \<open>A map member of a struct, and a whole JSON text, unmarshalled into a map.\<close>

definition json_map :: "json \<Rightarrow> gomap option" where
  "json_map j = (case j of
     JNull \<Rightarrow> Some None
   | JObj kjs \<Rightarrow> (case from_json (JObj kjs) of Some (VMap kvs) \<Rightarrow> Some (Some kvs) | _ \<Rightarrow> None)
   | _ \<Rightarrow> None)"

definition jmap :: "json \<Rightarrow> string \<Rightarrow> gomap option" where
  "jmap j k = (case jmember j k of None \<Rightarrow> Some None | Some v \<Rightarrow> json_map v)"

definition unmarshal_map :: "blob \<Rightarrow> gomap option" where
  "unmarshal_map b = (case b of Enc j \<Rightarrow> json_map j | Raw _ \<Rightarrow> None)"

definition json_to_job :: "json \<Rightarrow> job_data option" where
  "json_to_job j = (if \<not> jstruct j then None else do {
     i \<leftarrow> jstr j ''id''; q \<leftarrow> jstr j ''queueName''; d \<leftarrow> jmap j ''data''; opts \<leftarrow> jmap j ''opts'';
     ts \<leftarrow> ji64 j ''timestamp''; pr \<leftarrow> ji64 j ''processedOn''; fi \<leftarrow> ji64 j ''finishedOn'';
     a \<leftarrow> ji64 j ''attempts''; st \<leftarrow> jstr j ''state''; nm \<leftarrow> jstr j ''name'';
     Some \<lparr>jd_ID = i, jd_QueueName = q, jd_Data = d, jd_Opts = opts, jd_Timestamp = ts,
       jd_ProcessedOn = pr, jd_FinishedOn = fi, jd_Attempts = a, jd_State = job_state_of st,
       jd_Name = nm\<rparr> })"

definition json_to_repeat :: "json \<Rightarrow> repeat_data option" where
  "json_to_repeat j = (if \<not> jstruct j then None else do {
     i \<leftarrow> jstr j ''id''; q \<leftarrow> jstr j ''queueName''; d \<leftarrow> jmap j ''data''; nm \<leftarrow> jstr j ''name'';
     opts \<leftarrow> jmap j ''opts''; ev \<leftarrow> ji64 j ''every''; _ \<leftarrow> ji64 j ''endDate''; _ \<leftarrow> jstr j ''tz'';
     Some \<lparr>rp_ID = i, rp_QueueName = q, rp_Data = d, rp_Name = nm, rp_Opts = opts, rp_Every = ev\<rparr> })"

section \<open>Keys and identifiers\<close>

definition getBullKey :: "string \<Rightarrow> string \<Rightarrow> string" where
  "getBullKey queueName suffix = ''bull:'' @ queueName @ '':'' @ suffix"

definition isRepeatJobID :: "string \<Rightarrow> bool" where
  "isRepeatJobID jobID = has_prefix jobID ''repeat:''"

definition getRepeatJobKey :: "string \<Rightarrow> string \<Rightarrow> string" where
  "getRepeatJobKey queueName jobID = ''bull:'' @ queueName @ '':repeat:'' @ jobID"

definition parseRepeatJobID :: "string \<Rightarrow> (string \<times> string) option" where
  "parseRepeatJobID jobID =
     (case split_on (CHR '':'') jobID of
        [p, key, timestamp] \<Rightarrow> if p = ''repeat'' then Some (key, timestamp) else None
      | _ \<Rightarrow> None)"

text \<open>The hash is a signed 64-bit integer that wraps around; it is printed in hexadecimal.\<close>

definition hash_string :: "string \<Rightarrow> u64" where
  "hash_string s = fold (\<lambda>c h. 31 * h + of_nat (of_char c)) s 0"

definition generateHash :: "(gomap \<Rightarrow> string) \<Rightarrow> string \<Rightarrow> gomap \<Rightarrow> string" where
  "generateHash fmt queueName data =
     show_int 16 (sint (hash_string (queueName @ '':'' @ fmt data)))"

definition repeat_id :: "string \<Rightarrow> int \<Rightarrow> string" where
  "repeat_id hash unix = ''repeat:'' @ hash @ '':'' @ show_int 10 unix"

definition unix_of :: "int \<Rightarrow> int" where
  "unix_of nanos = nanos div 1000000000"

section \<open>Adding jobs\<close>

definition new_job :: "string \<Rightarrow> string \<Rightarrow> gomap \<Rightarrow> gomap \<Rightarrow> int \<Rightarrow> string \<Rightarrow> job_data" where
  "new_job jobID queueName data opts nanos name =
     \<lparr>jd_ID = jobID, jd_QueueName = queueName, jd_Data = data, jd_Opts = opts,
      jd_Timestamp = unix_of nanos, jd_ProcessedOn = 0, jd_FinishedOn = 0, jd_Attempts = 1,
      jd_State = JobStateWaiting, jd_Name = name\<rparr>"

text \<open>The definition of a repeat job, stored before the job; the identifier is returned.\<close>

definition add_repeat ::
  "'w queue_env \<Rightarrow> string \<Rightarrow> gomap \<Rightarrow> gomap \<Rightarrow> (string \<times> gval) list \<Rightarrow> 'w \<Rightarrow> string res \<times> 'w" where
  "add_repeat env queueName data opts repeatOpts w =
     (let (nanos, w1) = qe_clock env w;
          jobID = repeat_id (generateHash (qe_fmt env) queueName data) (unix_of nanos)
      in case map_of repeatOpts ''every'' of
           Some (VFloat x) \<Rightarrow>
             (case repeat_to_json \<lparr>rp_ID = jobID, rp_QueueName = queueName, rp_Data = data, rp_Name = [],
                     rp_Opts = opts, rp_Every = i64_of_f64 (qe_oori env) x\<rparr> of
                None \<Rightarrow> (Err (EWrap ''failed to marshal repeat job: '' (EMsg ''json: unsupported value'')), w1)
              | Some j \<Rightarrow>
                  (case rdo (qe_redis env) (CSet (getRepeatJobKey queueName jobID) (Enc j) 0) w1 of
                     (RErr e, w2) \<Rightarrow> (Err (EWrap ''failed to store repeat job: '' e), w2)
                   | (_, w2) \<Rightarrow> (Ok jobID, w2)))
         | _ \<Rightarrow> (Panic ''interface conversion: interface is not float64'', w1))"

text \<open>The rest of \<open>AddJob\<close>: the job itself, queued in one pipeline.\<close>

definition enqueue_job ::
  "'w queue_env \<Rightarrow> string \<Rightarrow> gomap \<Rightarrow> gomap \<Rightarrow> string \<Rightarrow> 'w \<Rightarrow> string res \<times> 'w" where
  "enqueue_job env queueName data opts jobID w =
     (let (nanos, w1) = qe_clock env w in
      case job_to_json (new_job jobID queueName data opts nanos []) of
        None \<Rightarrow> (Err (EWrap ''failed to marshal job: '' (EMsg ''json: unsupported value'')), w1)
      | Some j \<Rightarrow>
          (case rexec (qe_redis env)
                  [CRPush (getBullKey queueName ''wait'') (Raw jobID),
                   CSet (getBullKey queueName jobID) (Enc j) 0,
                   CPublish (getBullKey queueName ''events'') ''added''] w1 of
             ((_, Some e), w2) \<Rightarrow> (Err (EWrap ''failed to execute Redis pipeline: '' e), w2)
           | (_, w2) \<Rightarrow> (Ok jobID, w2)))"

definition AddJob :: "'w queue_env \<Rightarrow> string \<Rightarrow> gomap \<Rightarrow> gomap \<Rightarrow> 'w \<Rightarrow> string res \<times> 'w" where
  "AddJob env queueName data opts w =
     (case Option.bind opts (\<lambda>kvs. map_of kvs ''repeat'') of
        Some (VMap repeatOpts) \<Rightarrow>
          (case add_repeat env queueName data opts repeatOpts w of
             (Ok jobID, w1) \<Rightarrow> enqueue_job env queueName data opts jobID w1
           | r \<Rightarrow> r)
      | _ \<Rightarrow>
          (let (nanos, w1) = qe_clock env w
           in enqueue_job env queueName data opts (show_int 10 nanos) w1))"

section \<open>Reading jobs\<close>

text \<open>The job a repeat identifier stands for when nothing is known of it.\<close>

definition synthetic_job :: "'w queue_env \<Rightarrow> string \<Rightarrow> string \<Rightarrow> 'w \<Rightarrow> job_data res \<times> 'w" where
  "synthetic_job env queueName jobID w =
     (let (nanos, w1) = qe_clock env w
      in (Ok (new_job jobID queueName (Some []) (Some []) nanos []), w1))"

definition hash_map_field :: "(string \<times> blob) list \<Rightarrow> string \<Rightarrow> gomap" where
  "hash_map_field h k =
     (case map_of h k of
        None \<Rightarrow> Some []
      | Some b \<Rightarrow> if b = Raw [] then Some []
                   else (case unmarshal_map b of Some m \<Rightarrow> m | None \<Rightarrow> Some []))"

definition hash_str_field :: "'w queue_env \<Rightarrow> (string \<times> blob) list \<Rightarrow> string \<Rightarrow> string" where
  "hash_str_field env h k =
     (case map_of h k of None \<Rightarrow> [] | Some (Raw s) \<Rightarrow> s | Some (Enc j) \<Rightarrow> qe_text env j)"

definition getRepeatJob :: "'w queue_env \<Rightarrow> string \<Rightarrow> string \<Rightarrow> 'w \<Rightarrow> job_data res \<times> 'w" where
  "getRepeatJob env queueName jobID w =
     (case parseRepeatJobID jobID of
        None \<Rightarrow> (Err (EMsg (''invalid repeat job ID format: '' @ jobID)), w)
      | Some (hash, _) \<Rightarrow>
          let key = getBullKey queueName (''repeat:'' @ hash) in
          (case rdo (qe_redis env) (CHGetAll key) w of
             (RErr _, w1) \<Rightarrow>
               (case rdo (qe_redis env) (CGet key) w1 of
                  (RNil, w2) \<Rightarrow> synthetic_job env queueName jobID w2
                | (RErr e, w2) \<Rightarrow> (Err (EWrap ''failed to get repeat job: '' e), w2)
                | (RBlob b, w2) \<Rightarrow>
                    (case (case b of Enc j \<Rightarrow> json_to_repeat j | Raw _ \<Rightarrow> None) of
                       None \<Rightarrow> synthetic_job env queueName jobID w2
                     | Some rp \<Rightarrow>
                         let (nanos, w3) = qe_clock env w2
                         in (Ok (new_job jobID queueName (rp_Data rp) (rp_Opts rp) nanos (rp_Name rp)), w3))
                | (_, w2) \<Rightarrow> synthetic_job env queueName jobID w2)
           | (RHash h, w1) \<Rightarrow>
               if h \<noteq> [] then
                 let (nanos, w2) = qe_clock env w1
                 in (Ok (new_job jobID queueName (hash_map_field h ''data'') (hash_map_field h ''opts'')
                           nanos (hash_str_field env h ''name'')), w2)
               else synthetic_job env queueName jobID w1
           | (_, w1) \<Rightarrow> synthetic_job env queueName jobID w1))"

definition GetJob :: "'w queue_env \<Rightarrow> string \<Rightarrow> string \<Rightarrow> 'w \<Rightarrow> job_data res \<times> 'w" where
  "GetJob env queueName jobID w =
     (if isRepeatJobID jobID then getRepeatJob env queueName jobID w
      else
        (case rdo (qe_redis env) (CGet (getBullKey queueName jobID)) w of
           (RNil, w1) \<Rightarrow> (Err (EMsg ''job not found''), w1)
         | (RErr e, w1) \<Rightarrow> (Err (EWrap ''failed to get job: '' e), w1)
         | (RBlob b, w1) \<Rightarrow>
             (case (case b of Enc j \<Rightarrow> json_to_job j | Raw _ \<Rightarrow> None) of
                Some job \<Rightarrow> (Ok job, w1)
              | None \<Rightarrow> (Err (EWrap ''failed to unmarshal job: '' (EMsg ''json: cannot unmarshal'')), w1))
         | (_, w1) \<Rightarrow> (Err (EWrap ''failed to get job: '' (EMsg ''unexpected reply'')), w1)))"

section \<open>Workers\<close>

definition RegisterHandler :: "string \<Rightarrow> 'w job_handler \<Rightarrow> 'w queue_manager \<Rightarrow> 'w queue_manager" where
  "RegisterHandler queueName handler qm = qm\<lparr>qm_handlers := (qm_handlers qm)(queueName \<mapsto> handler)\<rparr>"

text \<open>\<open>ProcessJobs\<close> starts the workers; each one repeats \<open>worker_step\<close> until it exits or crashes.\<close>

definition ProcessJobs :: "string \<Rightarrow> int \<Rightarrow> 'w queue_manager \<Rightarrow> 'w queue_manager" where
  "ProcessJobs queueName concurrency qm =
     qm\<lparr>qm_workers := qm_workers qm @ map (Pair queueName) [0..<nat concurrency]\<rparr>"

datatype worker_out = WContinue | WExit | WCrash string

definition is_canceled :: "goerr \<Rightarrow> bool" where
  "is_canceled e \<longleftrightarrow> root_cause e \<in> {''context canceled'', ''context deadline exceeded''}"

definition worker_step ::
  "'w queue_env \<Rightarrow> string \<Rightarrow> 'w queue_manager \<Rightarrow> worker_out \<times> 'w queue_manager" where
  "worker_step env queueName qm =
     (case rdo (qe_redis env) (CBLPop queueName 0) (qm_net qm) of
        (RErr e, w) \<Rightarrow> (if is_canceled e then WExit else WContinue, qm\<lparr>qm_net := w\<rparr>)
      | (RBlob b, w) \<Rightarrow>
          (case unmarshal_map b of
             None \<Rightarrow> (WContinue, qm\<lparr>qm_net := w\<rparr>)
           | Some data \<Rightarrow>
               (case qm_handlers qm queueName of
                  None \<Rightarrow> (WContinue, qm\<lparr>qm_net := w\<rparr>)
                | Some handler \<Rightarrow>
                    (case handler data w of
                       (Panic p, w') \<Rightarrow> (WCrash p, qm\<lparr>qm_net := w'\<rparr>)
                     | (_, w') \<Rightarrow> (WContinue, qm\<lparr>qm_net := w'\<rparr>))))
      | (_, w) \<Rightarrow> (WContinue, qm\<lparr>qm_net := w\<rparr>))"

text \<open>
  \<open>rescheduleRepeatJob\<close>: a new job under a new identifier, from the definition stored under the old
  one.
\<close>

definition rescheduleRepeatJob :: "'w queue_env \<Rightarrow> string \<Rightarrow> string \<Rightarrow> 'w \<Rightarrow> unit res \<times> 'w" where
  "rescheduleRepeatJob env queueName jobID w =
     (case parseRepeatJobID jobID of
        None \<Rightarrow> (Err (EMsg (''invalid repeat job ID format: '' @ jobID)), w)
      | Some (hash, _) \<Rightarrow>
          (case rdo (qe_redis env) (CGet (getRepeatJobKey queueName jobID)) w of
             (RBlob b, w1) \<Rightarrow>
               (case (case b of Enc j \<Rightarrow> json_to_repeat j | Raw _ \<Rightarrow> None) of
                  None \<Rightarrow> (Err (EWrap ''failed to unmarshal repeat job: '' (EMsg ''json: cannot unmarshal'')), w1)
                | Some rp \<Rightarrow>
                    let (nanos, w2) = qe_clock env w1; newJobID = repeat_id hash (unix_of nanos);
                        (nanos', w3) = qe_clock env w2
                    in (case job_to_json (new_job newJobID queueName (rp_Data rp) (rp_Opts rp) nanos' []) of
                          None \<Rightarrow> (Err (EWrap ''failed to marshal job: '' (EMsg ''json: unsupported value'')), w3)
                        | Some j \<Rightarrow>
                            (case rexec (qe_redis env)
                                    [CRPush (getBullKey queueName ''wait'') (Raw newJobID),
                                     CSet (getBullKey queueName newJobID) (Enc j) 0] w3 of
                               ((_, Some e), w4) \<Rightarrow> (Err (EWrap ''failed to execute Redis pipeline: '' e), w4)
                             | (_, w4) \<Rightarrow> (Ok (), w4))))
           | (RErr e, w1) \<Rightarrow> (Err (EWrap ''failed to get repeat job: '' e), w1)
           | (_, w1) \<Rightarrow> (Err (EWrap ''failed to get repeat job: '' (EMsg ''redis: nil'')), w1)))"

text \<open>
  One round of \<open>processQueue\<close>'s default branch; the error of marshalling the job is ignored and
  leaves an empty text. The set is the identifiers tracked as active.
\<close>

definition job_blob :: "job_data \<Rightarrow> blob" where
  "job_blob job = (case job_to_json job of Some j \<Rightarrow> Enc j | None \<Rightarrow> Raw [])"

definition finish_job ::
  "'w queue_env \<Rightarrow> string \<Rightarrow> string \<Rightarrow> job_data \<Rightarrow> bool \<Rightarrow> 'w \<Rightarrow> 'w" where
  "finish_job env queueName jobID job failed w =
     (let (nanos, w1) = qe_clock env w;
          job' = job\<lparr>jd_State := (if failed then JobStateFailed else JobStateCompleted),
                     jd_FinishedOn := unix_of nanos\<rparr>
      in snd (rexec (qe_redis env)
           [CSet (getBullKey queueName jobID) (job_blob job') 0,
            CLRem (getBullKey queueName ''active'') (Raw jobID),
            CLPush (getBullKey queueName (if failed then ''failed'' else ''completed'')) (Raw jobID)] w1))"

definition run_handler ::
  "'w queue_env \<Rightarrow> string \<Rightarrow> 'w job_handler \<Rightarrow> string \<Rightarrow> job_data \<Rightarrow> string set \<Rightarrow> 'w
     \<Rightarrow> worker_out \<times> string set \<times> 'w" where
  "run_handler env queueName handler jobID job act w =
     (case handler (jd_Data job) w of
        (Panic p, w1) \<Rightarrow> (WCrash p, act, w1)
      | (r, w1) \<Rightarrow>
          if isRepeatJobID jobID
          then (WContinue, act - {jobID}, snd (rescheduleRepeatJob env queueName jobID w1))
          else (WContinue, act - {jobID}, finish_job env queueName jobID job (\<not> is_ok r) w1))"

definition queue_round ::
  "'w queue_env \<Rightarrow> string \<Rightarrow> 'w job_handler \<Rightarrow> string set \<Rightarrow> 'w \<Rightarrow> worker_out \<times> string set \<times> 'w" where
  "queue_round env queueName handler act w =
     (case rdo (qe_redis env) (CBLPop (getBullKey queueName ''wait'') 5) w of
        (RBlob b, w1) \<Rightarrow>
          let jobID = (case b of Raw s \<Rightarrow> s | Enc j \<Rightarrow> qe_text env j);
              act' = insert jobID act
          in (case GetJob env queueName jobID w1 of
                (Ok job, w2) \<Rightarrow>
                  let (nanos, w3) = qe_clock env w2;
                      job' = job\<lparr>jd_State := JobStateActive, jd_ProcessedOn := unix_of nanos\<rparr>
                  in if isRepeatJobID jobID
                     then run_handler env queueName handler jobID job' act' w3
                     else (case rexec (qe_redis env)
                                 [CSet (getBullKey queueName jobID) (job_blob job') 0,
                                  CRPush (getBullKey queueName ''active'') (Raw jobID)] w3 of
                             ((_, Some e), w4) \<Rightarrow> (WContinue, act' - {jobID}, w4)
                           | (_, w4) \<Rightarrow> run_handler env queueName handler jobID job' act' w4)
              | (_, w2) \<Rightarrow> (WContinue, act' - {jobID}, w2))
      | (_, w1) \<Rightarrow> (WContinue, act, w1))"

section \<open>Status\<close>

definition reply_int :: "redis_reply \<Rightarrow> int" where
  "reply_int r = (case r of RInt i \<Rightarrow> i | _ \<Rightarrow> 0)"

definition GetQueueStatus ::
  "'w queue_env \<Rightarrow> string \<Rightarrow> 'w \<Rightarrow> (string \<times> int) list res \<times> 'w" where
  "GetQueueStatus env queueName w =
     (case rexec (qe_redis env)
             (map (\<lambda>k. CLLen (getBullKey queueName k))
               [''wait'', ''active'', ''completed'', ''failed'', ''delayed'']) w of
        ((_, Some e), w') \<Rightarrow> (Err (EWrap ''failed to get queue status: '' e), w')
      | ((rs, None), w') \<Rightarrow>
          let n = (\<lambda>i. if i < length rs then reply_int (rs ! i) else 0)
          in (Ok [(''waiting'', n 0), (''active'', n 1), (''completed'', n 2), (''failed'', n 3),
                  (''delayed'', n 4), (''total'', n 0 + n 1 + n 2 + n 3 + n 4)], w'))"

fun del_keys :: "'w redis \<Rightarrow> string \<Rightarrow> string list \<Rightarrow> 'w \<Rightarrow> unit res \<times> 'w" where
  "del_keys cl queueName [] w = (Ok (), w)"
| "del_keys cl queueName (key # keys) w =
     (case rdo cl (CDel key) w of
        (RErr e, w') \<Rightarrow> (Err (EWrap (''failed to clear queue '' @ queueName @ '' key '' @ key @ '': '') e), w')
      | (_, w') \<Rightarrow> del_keys cl queueName keys w')"

definition ClearQueue :: "'w queue_env \<Rightarrow> string \<Rightarrow> 'w \<Rightarrow> unit res \<times> 'w" where
  "ClearQueue env queueName w =
     del_keys (qe_redis env) queueName
       (map (getBullKey queueName) [''wait'', ''active'', ''completed'', ''failed'', ''delayed'', ''stalled'']) w"

definition ScheduleJob :: "'w queue_env \<Rightarrow> string \<Rightarrow> gomap \<Rightarrow> gomap \<Rightarrow> 'w \<Rightarrow> string res \<times> 'w" where
  "ScheduleJob env queueName data options w = AddJob env queueName data options w"

section \<open>The queue service\<close>

text \<open>An option argument that is neither an integer nor a map is logged: the empty identifier, no error.\<close>

definition ScheduleJobFlexible ::
  "'w queue_env \<Rightarrow> string \<Rightarrow> gomap \<Rightarrow> gval \<Rightarrow> 'w \<Rightarrow> string res \<times> 'w" where
  "ScheduleJobFlexible env queueName data optsOrDelay w =
     (case optsOrDelay of
        VInt delay \<Rightarrow>
          AddJob env queueName data (Some [(''delay'', VInt (sint (of_int (delay * 1000) :: u64)))]) w
      | VMap kvs \<Rightarrow> AddJob env queueName data (Some kvs) w
      | _ \<Rightarrow> (Ok [], w))"

definition service_AddJob :: "'w queue_env \<Rightarrow> string \<Rightarrow> gomap \<Rightarrow> gomap \<Rightarrow> 'w \<Rightarrow> string res \<times> 'w" where
  "service_AddJob env queueName data options w =
     (case AddJob env queueName data options w of
        (Ok jobID, w') \<Rightarrow> (Ok jobID, w') | (Err e, w') \<Rightarrow> (Err e, w') | (Panic p, w') \<Rightarrow> (Panic p, w'))"

section \<open>Lemmas on keys and texts\<close>

lemma getBullKey_eq [simp]: "getBullKey q a = getBullKey q b \<longleftrightarrow> a = b"
  by (simp add: getBullKey_def)

lemma getBullKey_not_queue [simp]: "getBullKey q a \<noteq> q" "q \<noteq> getBullKey q a"
proof -
  have "length (getBullKey q a) > length q" by (simp add: getBullKey_def)
  then show "getBullKey q a \<noteq> q" "q \<noteq> getBullKey q a" by auto
qed

lemma show_int_not_word [simp]:
  "show_int 10 i \<noteq> ''wait''" "show_int 10 i \<noteq> ''active''" "show_int 10 i \<noteq> ''completed''"
  "show_int 10 i \<noteq> ''failed''" "show_int 10 i \<noteq> ''delayed''"
proof -
  have n: "show_int 10 i \<noteq> s" if "big_set_string s 10 = None" for s
    using that big_set_string_show_int [of 10 i] by auto
  show "show_int 10 i \<noteq> ''wait''" "show_int 10 i \<noteq> ''active''" "show_int 10 i \<noteq> ''completed''"
    "show_int 10 i \<noteq> ''failed''" "show_int 10 i \<noteq> ''delayed''"
    by (rule n, simp add: big_set_string_def parse_nat_def char_digit_def)+
qed

lemmas show_int_not_word_sym [simp] = show_int_not_word [THEN not_sym]

lemma show_int_not_repeat [simp]: "\<not> isRepeatJobID (show_int 10 i)"
proof
  assume "isRepeatJobID (show_int 10 i)"
  then have "CHR '':'' \<in> set (show_int 10 i)"
    by (auto simp: isRepeatJobID_def has_prefix_iff)
  then show False using show_int_no_sep [of 10 "CHR '':''" i] by simp
qed

lemma isRepeatJobID_repeat_id [simp]: "isRepeatJobID (repeat_id h u)"
  by (simp add: isRepeatJobID_def repeat_id_def has_prefix_def)

lemma parse_repeat_id:
  assumes "CHR '':'' \<notin> set h"
  shows "parseRepeatJobID (repeat_id h u) = Some (h, show_int 10 u)"
proof -
  have "repeat_id h u = join_with (CHR '':'') [''repeat'', h, show_int 10 u]"
    by (simp add: repeat_id_def)
  then show ?thesis using assms show_int_no_sep [of 10 "CHR '':''" u]
    by (simp add: parseRepeatJobID_def split_on_append split_on_noc)
qed

lemma generateHash_no_colon: "CHR '':'' \<notin> set (generateHash fmt q d)"
  by (simp add: generateHash_def show_int_no_sep)

section \<open>The queue as lists\<close>

text \<open>What a queue is, apart from its encoding: the identifiers in each list.\<close>

record abs_queue =
  aq_wait :: "blob list"
  aq_active :: "blob list"
  aq_completed :: "blob list"
  aq_failed :: "blob list"
  aq_delayed :: "blob list"

definition abs_queue :: "keyspace \<Rightarrow> string \<Rightarrow> abs_queue" where
  "abs_queue m q = \<lparr>aq_wait = list_at m (getBullKey q ''wait''),
     aq_active = list_at m (getBullKey q ''active''),
     aq_completed = list_at m (getBullKey q ''completed''),
     aq_failed = list_at m (getBullKey q ''failed''),
     aq_delayed = list_at m (getBullKey q ''delayed'')\<rparr>"

definition aq_total :: "abs_queue \<Rightarrow> nat" where
  "aq_total a = length (aq_wait a) + length (aq_active a) + length (aq_completed a)
     + length (aq_failed a) + length (aq_delayed a)"

definition aq_add :: "blob \<Rightarrow> abs_queue \<Rightarrow> abs_queue" where
  "aq_add b a = a\<lparr>aq_wait := aq_wait a @ [b]\<rparr>"

text \<open>The job at the head of the wait list has been run.\<close>

definition aq_run :: "bool \<Rightarrow> abs_queue \<Rightarrow> abs_queue" where
  "aq_run failed a =
     (case aq_wait a of
        [] \<Rightarrow> a
      | b # bs \<Rightarrow>
          let a' = a\<lparr>aq_wait := bs, aq_active := removeAll b (aq_active a)\<rparr>
          in if failed then a'\<lparr>aq_failed := b # aq_failed a'\<rparr>
             else a'\<lparr>aq_completed := b # aq_completed a'\<rparr>)"

abbreviation "queue_lists \<equiv> [''wait'', ''active'', ''completed'', ''failed'', ''delayed'']"

definition queue_ok :: "keyspace \<Rightarrow> string \<Rightarrow> bool" where
  "queue_ok m q \<longleftrightarrow> (\<forall>k \<in> set queue_lists. is_list_key m (getBullKey q k))"

definition queue_env_ok :: "'w queue_env \<Rightarrow> ('w \<Rightarrow> keyspace) \<Rightarrow> bool" where
  "queue_env_ok env view \<longleftrightarrow> redis_ok (qe_redis env) view
   \<and> (\<forall>w. view (snd (qe_clock env w)) = view w
        \<and> 0 \<le> fst (qe_clock env w) \<and> fst (qe_clock env w) < 2 ^ 63)"

lemma env_clock:
  assumes "queue_env_ok env view" "qe_clock env w = (nanos, w')"
  shows "view w' = view w" "0 \<le> nanos" "nanos < 2 ^ 63"
  using assms unfolding queue_env_ok_def by (metis fst_conv snd_conv)+

lemma env_exec:
  assumes "queue_env_ok env view"
  shows "\<exists>w'. rexec (qe_redis env) cs w
      = ((fst (spec_exec cs (view w)), first_err (fst (spec_exec cs (view w)))), w')
    \<and> view w' = snd (spec_exec cs (view w))"
proof -
  from assms have r: "redis_ok (qe_redis env) view" by (simp add: queue_env_ok_def)
  obtain rs e w' where c: "rexec (qe_redis env) cs w = ((rs, e), w')" by (metis surj_pair)
  from redis_ok_rexec [OF r c] c show ?thesis by simp
qed

lemma env_rdo:
  assumes "queue_env_ok env view"
  shows "\<exists>w'. rdo (qe_redis env) c w = (fst (redis_spec c (view w)), w')
    \<and> view w' = snd (redis_spec c (view w))"
proof -
  from assms have r: "redis_ok (qe_redis env) view" by (simp add: queue_env_ok_def)
  obtain rs w' where c: "rdo (qe_redis env) c w = (rs, w')" by (metis surj_pair)
  from redis_ok_rdo [OF r c] c show ?thesis by simp
qed

text \<open>The pipeline that queues a job.\<close>

lemma enqueue_exec:
  assumes "is_list_key m k" "k' \<noteq> k"
  obtains t where "spec_exec [CRPush k b, CSet k' b' 0, CPublish ch msg] m
    = ([RInt (int (length (list_at m k)) + 1), RDone, RInt 0],
       m(k \<mapsto> (LV (list_at m k @ [b]), t), k' \<mapsto> (SV b', 0)))"
  using spec_rpush [OF assms(1), of b] by auto

lemma enqueue_job_ok:
  assumes "queue_env_ok env view" "queue_ok (view w) q" "jobID \<notin> set queue_lists"
    and "map_json data \<noteq> None" "omit_map ''opts'' opts \<noteq> None"
  obtains nanos j w' t where "enqueue_job env q data opts jobID w = (Ok jobID, w')"
    "0 \<le> nanos" "nanos < 2 ^ 63" "job_to_json (new_job jobID q data opts nanos []) = Some j"
    "view w' = (view w)(getBullKey q ''wait'' \<mapsto> (LV (list_at (view w) (getBullKey q ''wait'') @ [Raw jobID]), t),
                 getBullKey q jobID \<mapsto> (SV (Enc j), 0))"
proof -
  obtain nanos w1 where n: "qe_clock env w = (nanos, w1)" by (metis surj_pair)
  note c = env_clock [OF assms(1) n]
  obtain j where j: "job_to_json (new_job jobID q data opts nanos []) = Some j"
    using assms(4,5) by (auto simp: job_to_json_def new_job_def)
  have l: "is_list_key (view w1) (getBullKey q ''wait'')" "getBullKey q jobID \<noteq> getBullKey q ''wait''"
    using assms(2,3) c(1) by (simp_all add: queue_ok_def)
  from enqueue_exec [OF l, of "Raw jobID" "Enc j" "getBullKey q ''events''" "''added''"] obtain t where
    x: "spec_exec [CRPush (getBullKey q ''wait'') (Raw jobID), CSet (getBullKey q jobID) (Enc j) 0,
          CPublish (getBullKey q ''events'') ''added''] (view w1)
        = ([RInt (int (length (list_at (view w1) (getBullKey q ''wait''))) + 1), RDone, RInt 0],
           (view w1)(getBullKey q ''wait'' \<mapsto> (LV (list_at (view w1) (getBullKey q ''wait'') @ [Raw jobID]), t),
              getBullKey q jobID \<mapsto> (SV (Enc j), 0)))" by blast
  from env_exec [OF assms(1), of "[CRPush (getBullKey q ''wait'') (Raw jobID),
        CSet (getBullKey q jobID) (Enc j) 0, CPublish (getBullKey q ''events'') ''added'']" w1]
  obtain w' where "rexec (qe_redis env) [CRPush (getBullKey q ''wait'') (Raw jobID),
        CSet (getBullKey q jobID) (Enc j) 0, CPublish (getBullKey q ''events'') ''added''] w1
      = (([RInt (int (length (list_at (view w1) (getBullKey q ''wait''))) + 1), RDone, RInt 0], None), w')"
    "view w' = (view w1)(getBullKey q ''wait'' \<mapsto> (LV (list_at (view w1) (getBullKey q ''wait'') @ [Raw jobID]), t),
              getBullKey q jobID \<mapsto> (SV (Enc j), 0))"
    unfolding x by auto
  with n j c show ?thesis by (intro that [of w' nanos j t]) (simp_all add: enqueue_job_def)
qed

section \<open>Round trips\<close>

text \<open>What a map has become after JSON; an empty map of options is omitted and comes back as nil.\<close>

definition map_norm :: "gomap \<Rightarrow> gomap option" where
  "map_norm m = Option.bind (map_json m) json_map"

definition opts_norm :: "gomap \<Rightarrow> gomap option" where
  "opts_norm m = (case m of Some (kv # kvs) \<Rightarrow> map_norm m | _ \<Rightarrow> Some None)"

definition i64_range :: "int \<Rightarrow> bool" where
  "i64_range i \<longleftrightarrow> - (2 ^ 63) \<le> i \<and> i < 2 ^ 63"

lemma job_state_of_string [simp]:
  "\<forall>s. st \<noteq> JobStateOther s \<Longrightarrow> job_state_of (job_state_string st) = st"
  by (cases st) (simp_all add: job_state_of_def)

lemma map_json_not_null: "map_json (Some kvs) = Some j \<Longrightarrow> j \<noteq> JNull"
  by (auto simp: map_json_def)

lemma json_map_null [simp]: "json_map JNull = Some None" by (simp add: json_map_def)

lemma jmap_lookup: "json_lookup kjs k = Some j \<Longrightarrow> jmap (JObj kjs) k = json_map j"
  by (cases j) (simp_all add: jmap_def jmember_def)

lemma jmap_absent: "json_lookup kjs k = None \<Longrightarrow> jmap (JObj kjs) k = Some None"
  by (simp add: jmap_def jmember_def)

lemma json_lookup_append [simp]:
  "json_lookup (xs @ ys) k = (case json_lookup ys k of None \<Rightarrow> json_lookup xs k | r \<Rightarrow> r)"
  by (auto simp: json_lookup_def map_add_def split: option.split)

lemma json_lookup_simps [simp]:
  "json_lookup [] k = None"
  "json_lookup [(k', j)] k = (if k = k' then Some j else None)"
  "json_lookup (omit_int k' n) k = (if k = k' \<and> n \<noteq> 0 then Some (JNum (of_int n)) else None)"
  "json_lookup (omit_str k' s) k = (if k = k' \<and> s \<noteq> [] then Some (JStr s) else None)"
  by (simp_all add: json_lookup_def omit_int_def omit_str_def)

lemma json_lookup_Cons: "json_lookup ((k', j) # xs) k
    = (case json_lookup xs k of None \<Rightarrow> if k = k' then Some j else None | r \<Rightarrow> r)"
  by (auto simp: json_lookup_def map_add_def split: option.split)

lemma omit_map_lookup:
  assumes "omit_map k' m = Some kjs"
  shows "k \<noteq> k' \<Longrightarrow> json_lookup kjs k = None"
    and "opts_norm m = (case json_lookup kjs k' of None \<Rightarrow> Some None | Some j \<Rightarrow> json_map j)"
  using assms
  by (auto simp: omit_map_def opts_norm_def map_norm_def map_json_def
      split: option.splits list.splits)

lemma jobs_roundtrip:
  assumes "job_to_json job = Some j" "\<forall>s. jd_State job \<noteq> JobStateOther s"
    and "\<forall>i \<in> {jd_Timestamp job, jd_ProcessedOn job, jd_FinishedOn job, jd_Attempts job}. i64_range i"
    and "map_norm (jd_Data job) = Some d" "opts_norm (jd_Opts job) = Some opts"
  shows "json_to_job j = Some (job\<lparr>jd_Data := d, jd_Opts := opts\<rparr>)"
proof -
  obtain dj oj where dj: "map_json (jd_Data job) = Some dj" and oj: "omit_map ''opts'' (jd_Opts job) = Some oj"
    using assms(1) by (auto simp: job_to_json_def bind_eq_Some_conv)
  let ?kjs = "[(''id'', JStr (jd_ID job)), (''queueName'', JStr (jd_QueueName job)), (''data'', dj)]
       @ oj @ [(''timestamp'', JNum (of_int (jd_Timestamp job)))]
       @ omit_int ''processedOn'' (jd_ProcessedOn job) @ omit_int ''finishedOn'' (jd_FinishedOn job)
       @ [(''attempts'', JNum (of_int (jd_Attempts job))),
          (''state'', JStr (job_state_string (jd_State job)))]
       @ omit_str ''name'' (jd_Name job)"
  from assms(1) dj oj have j: "j = JObj ?kjs" by (simp add: job_to_json_def)
  note o = omit_map_lookup [OF oj]
  have data: "jmap (JObj ?kjs) ''data'' = Some d"
    using assms(4) dj by (subst jmap_lookup [of _ _ dj]) (simp_all add: json_lookup_Cons o map_norm_def)
  have opts: "jmap (JObj ?kjs) ''opts'' = Some opts"
  proof (cases "json_lookup oj ''opts''")
    case None
    with o(2) assms(5) show ?thesis by (subst jmap_absent) (simp_all add: json_lookup_Cons)
  next
    case (Some v)
    with o(2) assms(5) show ?thesis by (subst jmap_lookup [of _ _ v]) (simp_all add: json_lookup_Cons)
  qed
  have strs: "jstr (JObj ?kjs) ''id'' = Some (jd_ID job)"
    "jstr (JObj ?kjs) ''queueName'' = Some (jd_QueueName job)"
    "jstr (JObj ?kjs) ''state'' = Some (job_state_string (jd_State job))"
    "jstr (JObj ?kjs) ''name'' = Some (jd_Name job)"
    by (simp_all add: jstr_def jmember_def json_lookup_Cons o)
  have ints: "ji64 (JObj ?kjs) ''timestamp'' = Some (jd_Timestamp job)"
    "ji64 (JObj ?kjs) ''processedOn'' = Some (jd_ProcessedOn job)"
    "ji64 (JObj ?kjs) ''finishedOn'' = Some (jd_FinishedOn job)"
    "ji64 (JObj ?kjs) ''attempts'' = Some (jd_Attempts job)"
    using assms(3) by (simp_all add: ji64_def jint_def jmember_def json_lookup_Cons o i64_range_def)
  have "jstruct j" by (simp add: j jstruct_def)
  with strs ints data opts assms(2) show ?thesis
    by (simp only: json_to_job_def j not_True_eq_False if_False Option.bind.simps job_state_of_string)
      simp
qed

lemma unix_of_range: "0 \<le> n \<Longrightarrow> n < 2 ^ 63 \<Longrightarrow> i64_range (unix_of n)"
proof -
  assume "0 \<le> n" "n < 2 ^ 63"
  then have "0 \<le> n div 1000000000" "n div 1000000000 \<le> n"
    using zdiv_mono2 [of n 1 1000000000] by simp_all
  with \<open>n < 2 ^ 63\<close> show ?thesis by (simp add: unix_of_def i64_range_def)
qed

lemma new_job_roundtrip:
  assumes "job_to_json (new_job i q data opts n []) = Some j" "0 \<le> n" "n < 2 ^ 63"
    and "map_norm data = Some d" "opts_norm opts = Some o'"
  shows "json_to_job j = Some (new_job i q d o' n [])"
  using jobs_roundtrip [OF assms(1)] unix_of_range [OF assms(2,3)] assms(4,5)
  by (simp add: new_job_def i64_range_def)

lemma map_norm_json: "map_norm m = Some d \<Longrightarrow> map_json m \<noteq> None"
  by (auto simp: map_norm_def bind_eq_Some_conv)

lemma opts_norm_omit: "opts_norm m = Some d \<Longrightarrow> omit_map k m \<noteq> None"
  by (auto simp: opts_norm_def omit_map_def map_norm_def map_json_def bind_eq_Some_conv
      split: option.splits list.splits)

definition no_repeat :: "gomap \<Rightarrow> bool" where
  "no_repeat opts = (case Option.bind opts (\<lambda>kvs. map_of kvs ''repeat'') of
     Some (VMap _) \<Rightarrow> False | _ \<Rightarrow> True)"

lemma AddJob_regular:
  assumes "no_repeat opts"
  shows "AddJob env q data opts w = (let (nanos, w1) = qe_clock env w
    in enqueue_job env q data opts (show_int 10 nanos) w1)"
  using assms by (auto simp: AddJob_def no_repeat_def split: option.splits gval.splits)

lemma GetJob_stored:
  assumes "queue_env_ok env view" "\<not> isRepeatJobID i"
    and "view w (getBullKey q i) = Some (SV (Enc j), t)" "json_to_job j = Some job"
  obtains w' where "GetJob env q i w = (Ok job, w')" "view w' = view w"
proof -
  from env_rdo [OF assms(1), of "CGet (getBullKey q i)" w] obtain w' where
    "rdo (qe_redis env) (CGet (getBullKey q i)) w = (RBlob (Enc j), w')" "view w' = view w"
    using assms(3) by auto
  with assms(2,4) that show ?thesis by (simp add: GetJob_def)
qed

lemma add_then_get_ok:
  assumes "queue_env_ok env view" "queue_ok (view w) q" "no_repeat opts"
    and "map_norm data = Some d" "opts_norm opts = Some o'"
  shows "\<exists>nanos jobID w'. AddJob env q data opts w = (Ok jobID, w')
    \<and> abs_queue (view w') q = aq_add (Raw jobID) (abs_queue (view w) q) \<and> queue_ok (view w') q
    \<and> fst (GetJob env q jobID w') = Ok (new_job jobID q d o' nanos [])"
proof -
  obtain n w1 where n: "qe_clock env w = (n, w1)" by (metis surj_pair)
  let ?i = "show_int 10 n"
  have v: "view w1 = view w" by (rule env_clock(1) [OF assms(1) n])
  have nm: "?i \<notin> set queue_lists" by simp
  from enqueue_job_ok [OF assms(1) _ nm map_norm_json [OF assms(4)] opts_norm_omit [OF assms(5)], of w1 q]
    assms(2) v obtain nanos j w' t where e: "enqueue_job env q data opts ?i w1 = (Ok ?i, w')"
    "0 \<le> nanos" "nanos < 2 ^ 63" "job_to_json (new_job ?i q data opts nanos []) = Some j"
    "view w' = (view w)(getBullKey q ''wait'' \<mapsto> (LV (list_at (view w) (getBullKey q ''wait'') @ [Raw ?i]), t),
                 getBullKey q ?i \<mapsto> (SV (Enc j), 0))" by metis
  from e(5) have "view w' (getBullKey q ?i) = Some (SV (Enc j), 0)" by simp
  with GetJob_stored [OF assms(1) show_int_not_repeat, of w' q n j 0]
    new_job_roundtrip [OF e(4,2,3) assms(4,5)]
  have g: "fst (GetJob env q ?i w') = Ok (new_job ?i q d o' nanos [])" by (metis fst_conv)
  have "AddJob env q data opts w = (Ok ?i, w')"
    using e(1) n by (simp add: AddJob_regular [OF assms(3)])
  moreover have "abs_queue (view w') q = aq_add (Raw ?i) (abs_queue (view w) q)"
    by (simp add: abs_queue_def aq_add_def e(5))
  moreover have "queue_ok (view w') q" using assms(2) by (simp add: queue_ok_def e(5))
  ultimately show ?thesis using g by blast
qed

section \<open>Running a job\<close>

text \<open>A handler that returns and leaves what is observed of the queue alone.\<close>

definition handler_ok :: "'w job_handler \<Rightarrow> ('w \<Rightarrow> keyspace) \<Rightarrow> (gomap \<Rightarrow> bool) \<Rightarrow> bool" where
  "handler_ok handler view good \<longleftrightarrow> (\<forall>d w. view (snd (handler d w)) = view w
     \<and> (\<forall>p. fst (handler d w) \<noteq> Panic p) \<and> is_ok (fst (handler d w)) = good d)"

text \<open>The two pipelines of a round.\<close>

lemma activate_exec:
  assumes "is_list_key m a" "k \<noteq> a"
  obtains t where "spec_exec [CSet k b 0, CRPush a x] m
    = ([RDone, RInt (int (length (list_at m a)) + 1)], m(k \<mapsto> (SV b, 0), a \<mapsto> (LV (list_at m a @ [x]), t)))"
  using spec_rpush [where m = "m(k \<mapsto> (SV b, 0))" and k = a and b = x] assms by auto

lemma lrem_list_at:
  assumes "is_list_key m a"
  shows "\<exists>n. fst (redis_spec (CLRem a x) m) = RInt n"
    and "list_at (snd (redis_spec (CLRem a x) m)) k
      = (if k = a then removeAll x (list_at m a) else list_at m k)"
    and "is_list_key m k \<Longrightarrow> is_list_key (snd (redis_spec (CLRem a x) m)) k"
    and "k \<noteq> a \<Longrightarrow> snd (redis_spec (CLRem a x) m) k = m k"
  using assms by (auto simp: is_list_key_def list_at_def split: option.splits rvalue.splits)

lemma finish_exec:
  assumes "is_list_key m a" "is_list_key m f" "k \<noteq> a" "k \<noteq> f" "a \<noteq> f"
  shows "first_err (fst (spec_exec [CSet k b 0, CLRem a x, CLPush f x] m)) = None"
    and "list_at (snd (spec_exec [CSet k b 0, CLRem a x, CLPush f x] m)) k'
      = (if k' = f then x # list_at m f else if k' = a then removeAll x (list_at m a)
         else if k' = k then [] else list_at m k')"
    and "k' \<noteq> k \<Longrightarrow> is_list_key m k' \<Longrightarrow>
      is_list_key (snd (spec_exec [CSet k b 0, CLRem a x, CLPush f x] m)) k'"
    and "snd (spec_exec [CSet k b 0, CLRem a x, CLPush f x] m) k = Some (SV b, 0)"
proof -
  let ?m1 = "m(k \<mapsto> (SV b, 0))" and ?m2 = "snd (redis_spec (CLRem a x) (m(k \<mapsto> (SV b, 0))))"
  have a: "is_list_key ?m1 a" using assms by simp
  note r = lrem_list_at [OF a, where x = x]
  from r(1) obtain n where n: "fst (redis_spec (CLRem a x) ?m1) = RInt n" by blast
  have f: "is_list_key ?m2 f" using r(3) [of f] assms by simp
  from spec_lpush [OF f, where b = x] obtain t where
    t: "redis_spec (CLPush f x) ?m2 = (RInt (int (length (list_at ?m2 f)) + 1),
          ?m2(f \<mapsto> (LV (x # list_at ?m2 f), t)))" by blast
  have e: "spec_exec [CSet k b 0, CLRem a x, CLPush f x] m
      = ([RDone, RInt n, RInt (int (length (list_at ?m2 f)) + 1)], ?m2(f \<mapsto> (LV (x # list_at ?m2 f), t)))"
    using n t by (simp add: split_beta del: redis_spec.simps(4,5,7,8))
  show "first_err (fst (spec_exec [CSet k b 0, CLRem a x, CLPush f x] m)) = None"
    unfolding e by simp
  show "list_at (snd (spec_exec [CSet k b 0, CLRem a x, CLPush f x] m)) k'
      = (if k' = f then x # list_at m f else if k' = a then removeAll x (list_at m a)
         else if k' = k then [] else list_at m k')"
    unfolding e using assms by (simp add: r(2) del: redis_spec.simps)
  show "k' \<noteq> k \<Longrightarrow> is_list_key m k' \<Longrightarrow>
      is_list_key (snd (spec_exec [CSet k b 0, CLRem a x, CLPush f x] m)) k'"
    unfolding e using r(3) [of k'] by (simp del: redis_spec.simps)
  show "snd (spec_exec [CSet k b 0, CLRem a x, CLPush f x] m) k = Some (SV b, 0)"
    unfolding e using assms r(4) [of k] by (simp del: redis_spec.simps)
qed

lemma list_at_pop:
  assumes "list_at m k = x # xs"
  shows "fst (redis_spec (CBLPop k s) m) = RBlob x"
    and "list_at (snd (redis_spec (CBLPop k s) m)) k' = (if k' = k then xs else list_at m k')"
    and "is_list_key m k' \<Longrightarrow> is_list_key (snd (redis_spec (CBLPop k s) m)) k'"
    and "k' \<noteq> k \<Longrightarrow> snd (redis_spec (CBLPop k s) m) k' = m k'"
  using assms
  by (auto simp: is_list_key_def list_at_def split: option.splits rvalue.splits list.splits)

text \<open>
  One round on a wait list whose first job is stored: the job moves from the wait list to the
  completed or the failed list, as its handler says, and its new state is stored.
\<close>

lemma queue_round_ok:
  assumes env: "queue_env_ok env view" and q: "queue_ok (view w) q"
    and h: "handler_ok handler view good"
    and wait: "list_at (view w) (getBullKey q ''wait'') = Raw i # ids"
    and i: "\<not> isRepeatJobID i" "i \<notin> set queue_lists"
    and job: "view w (getBullKey q i) = Some (SV (Enc j), t)" "json_to_job j = Some job"
  obtains w' pr fi where "queue_round env q handler act w = (WContinue, insert i act - {i}, w')"
    "abs_queue (view w') q = aq_run (\<not> good (jd_Data job)) (abs_queue (view w) q)" "queue_ok (view w') q"
    "view w' (getBullKey q i) = Some (SV (job_blob (job\<lparr>jd_ProcessedOn := pr,
        jd_State := (if good (jd_Data job) then JobStateCompleted else JobStateFailed),
        jd_FinishedOn := fi\<rparr>)), 0)"
proof -
  let ?K = "getBullKey q"
  have keys: "?K i \<noteq> ?K k" if "k \<in> set queue_lists" for k using i(2) that by auto
  have lk: "is_list_key (view w) (?K k)" if "k \<in> set queue_lists" for k using q that
    unfolding queue_ok_def by blast
  from env_rdo [OF env, of "CBLPop (?K ''wait'') 5" w] list_at_pop(1) [OF wait]
  obtain w1 where w1: "rdo (qe_redis env) (CBLPop (?K ''wait'') 5) w = (RBlob (Raw i), w1)"
    "view w1 = snd (redis_spec (CBLPop (?K ''wait'') 5) (view w))" by auto
  note pop = list_at_pop [OF wait, where s = 5, folded w1(2)]
  have j1: "view w1 (?K i) = Some (SV (Enc j), t)" using job(1) pop(4) keys by simp
  from GetJob_stored [OF env i(1) j1 job(2)] obtain w2 where
    w2: "GetJob env q i w1 = (Ok job, w2)" "view w2 = view w1" .
  obtain n w3 where n: "qe_clock env w2 = (n, w3)" by (metis surj_pair)
  have v3: "view w3 = view w1" using env_clock(1) [OF env n] w2 by simp
  let ?j1 = "job\<lparr>jd_State := JobStateActive, jd_ProcessedOn := unix_of n\<rparr>"
  have "is_list_key (view w3) (?K ''active'')" using pop(3) lk v3 by simp
  from activate_exec [OF this keys, where b = "job_blob ?j1" and x = "Raw i"] obtain t4 where
    "spec_exec [CSet (?K i) (job_blob ?j1) 0, CRPush (?K ''active'') (Raw i)] (view w3)
     = ([RDone, RInt (int (length (list_at (view w3) (?K ''active''))) + 1)],
        (view w3)(?K i \<mapsto> (SV (job_blob ?j1), 0), ?K ''active'' \<mapsto>
          (LV (list_at (view w3) (?K ''active'') @ [Raw i]), t4)))" by auto
  with env_exec [OF env, of "[CSet (?K i) (job_blob ?j1) 0, CRPush (?K ''active'') (Raw i)]" w3]
  obtain w4 where w4: "rexec (qe_redis env) [CSet (?K i) (job_blob ?j1) 0, CRPush (?K ''active'') (Raw i)] w3
      = (([RDone, RInt (int (length (list_at (view w3) (?K ''active''))) + 1)], None), w4)"
    "view w4 = (view w3)(?K i \<mapsto> (SV (job_blob ?j1), 0), ?K ''active'' \<mapsto>
          (LV (list_at (view w3) (?K ''active'') @ [Raw i]), t4))" by auto
  obtain r w5 where r: "handler (jd_Data job) w4 = (r, w5)" by (metis surj_pair)
  with h have w5: "view w5 = view w4" "\<forall>p. r \<noteq> Panic p" "is_ok r = good (jd_Data job)"
    unfolding handler_ok_def by (metis fst_conv snd_conv)+
  obtain n' w6 where n': "qe_clock env w5 = (n', w6)" by (metis surj_pair)
  have v6: "view w6 = view w4" using env_clock(1) [OF env n'] w5 by simp
  let ?l = "if good (jd_Data job) then ''completed'' else ''failed''"
  let ?st = "if good (jd_Data job) then JobStateCompleted else JobStateFailed"
  let ?j2 = "job\<lparr>jd_ProcessedOn := unix_of n, jd_State := ?st, jd_FinishedOn := unix_of n'\<rparr>"
  let ?cs = "[CSet (?K i) (job_blob ?j2) 0, CLRem (?K ''active'') (Raw i), CLPush (?K ?l) (Raw i)]"
  have l4: "is_list_key (view w4) (?K k)" if "k \<in> set queue_lists" for k
    using pop(3) [OF lk [OF that]] v3 keys [OF that] by (simp add: w4(2))
  have fx: "is_list_key (view w6) (?K ''active'')" "is_list_key (view w6) (?K ?l)" "?K i \<noteq> ?K ''active''"
    "?K i \<noteq> ?K ?l" "?K ''active'' \<noteq> ?K ?l" using l4 keys i(2) v6 by simp_all
  note fin = finish_exec [OF fx, where b = "job_blob ?j2" and x = "Raw i"]
  from env_exec [OF env, of ?cs w6] obtain w7 where
    w7: "snd (rexec (qe_redis env) ?cs w6) = w7" "view w7 = snd (spec_exec ?cs (view w6))" by auto
  note f = fin(2,3,4) [folded w7(2)]
  have "finish_job env q i ?j1 (\<not> is_ok r) w5 = w7"
    using w7(1) n' w5(3) by (cases "good (jd_Data job)") (simp_all add: finish_job_def)
  with r w5(2) i(1) have run: "run_handler env q handler i ?j1 A w4 = (WContinue, A - {i}, w7)" for A
    by (cases r) (simp_all add: run_handler_def)
  have round: "queue_round env q handler act w = (WContinue, insert i act - {i}, w7)"
    using w1(1) w2(1) n w4(1) run i(1) by (simp add: queue_round_def Let_def)
  have la: "list_at (view w7) (?K k) = (if k = ?l then Raw i # list_at (view w) (?K ?l)
      else if k = ''active'' then removeAll (Raw i) (list_at (view w) (?K ''active''))
      else if k = ''wait'' then ids else list_at (view w) (?K k))" if "k \<in> set queue_lists" for k
    using that i(2) v6 v3 pop(2) keys by (auto simp: f(1) w4(2))
  have "abs_queue (view w7) q = aq_run (\<not> good (jd_Data job)) (abs_queue (view w) q)"
    by (simp add: abs_queue_def aq_run_def la wait)
  moreover have "queue_ok (view w7) q"
    unfolding queue_ok_def
  proof
    fix k assume "k \<in> set queue_lists"
    with l4 keys v6 have "is_list_key (view w6) (?K k)" "?K k \<noteq> ?K i" by metis+
    then show "is_list_key (view w7) (?K k)" by (rule f(2) [rotated])
  qed
  moreover have "view w7 (?K i) = Some (SV (job_blob ?j2), 0)" using f(3) by simp
  ultimately show ?thesis using round by (intro that) auto
qed

section \<open>Properties\<close>

text \<open>
  C6: A job added without repeat options, whose data JSON can represent, is appended at the end of the
  wait list and nothing else in the queue's lists changes; \<open>GetJob\<close> with the identifier returned
  then yields that job, waiting, with its data and options as JSON gives them back.
\<close>

theorem add_job_then_get:
  assumes "queue_env_ok env view" "queue_ok (view w) q" "no_repeat opts"
    and "map_norm data = Some d" "opts_norm opts = Some o'"
  shows "\<exists>nanos jobID w'. AddJob env q data opts w = (Ok jobID, w')
    \<and> abs_queue (view w') q = aq_add (Raw jobID) (abs_queue (view w) q)
    \<and> fst (GetJob env q jobID w') = Ok (new_job jobID q d o' nanos [])"
  using add_then_get_ok [OF assms] by blast

definition demo_env :: "keyspace queue_env" where
  "demo_env = \<lparr>qe_redis = mem_redis, qe_clock = (\<lambda>w. (1700000000123456789, w)),
     qe_text = (\<lambda>_. []), qe_fmt = (\<lambda>_. ''map[]''), qe_oori = (\<lambda>_. 0)\<rparr>"

lemma demo_env_ok: "queue_env_ok demo_env id"
  by (simp add: queue_env_ok_def demo_env_def mem_redis_ok)

lemma empty_queue_ok: "queue_ok Map.empty q"
  by (simp add: queue_ok_def is_list_key_def)

theorem add_job_then_get_witness:
  "\<exists>nanos jobID w'. AddJob demo_env ''Q'' (Some [(''k'', VStr ''v'')]) None Map.empty = (Ok jobID, w')
    \<and> abs_queue w' ''Q'' = aq_add (Raw jobID) (abs_queue Map.empty ''Q'')
    \<and> fst (GetJob demo_env ''Q'' jobID w')
        = Ok (new_job jobID ''Q'' (Some [(''k'', VStr ''v'')]) None nanos [])"
  using add_job_then_get [OF demo_env_ok, of Map.empty "''Q''" None "Some [(''k'', VStr ''v'')]"
      "Some [(''k'', VStr ''v'')]" None]
  by (simp add: empty_queue_ok no_repeat_def map_norm_def map_json_def json_map_def opts_norm_def)

text \<open>
  C3: One round of the queue processor on a wait list whose head is a stored regular job refines the
  abstract queue step: the head leaves the wait list and is pushed on the completed list if its
  handler returns no error and on the failed list otherwise, its stored state says which, no job is
  lost or duplicated (the total over the lists is unchanged when the job is not already active), and
  the processor tracks the job as active no longer.
\<close>

theorem queue_round_refines:
  assumes "queue_env_ok env view" "queue_ok (view w) q" "handler_ok handler view good"
    and "list_at (view w) (getBullKey q ''wait'') = Raw i # ids"
    and "\<not> isRepeatJobID i" "i \<notin> {''wait'', ''active'', ''completed'', ''failed'', ''delayed''}"
    and "view w (getBullKey q i) = Some (SV (Enc j), t)" "json_to_job j = Some job"
    and "Raw i \<notin> set (aq_active (abs_queue (view w) q))"
  shows "\<exists>w' pr fi. queue_round env q handler act w = (WContinue, act - {i}, w')
    \<and> abs_queue (view w') q = aq_run (\<not> good (jd_Data job)) (abs_queue (view w) q)
    \<and> aq_total (abs_queue (view w') q) = aq_total (abs_queue (view w) q)
    \<and> view w' (getBullKey q i) = Some (SV (job_blob (job\<lparr>jd_ProcessedOn := pr,
        jd_State := (if good (jd_Data job) then JobStateCompleted else JobStateFailed),
        jd_FinishedOn := fi\<rparr>)), 0)"
proof -
  from assms(6) have n: "i \<notin> set queue_lists" by simp
  obtain w' pr fi where r: "queue_round env q handler act w = (WContinue, insert i act - {i}, w')"
    "abs_queue (view w') q = aq_run (\<not> good (jd_Data job)) (abs_queue (view w) q)"
    "view w' (getBullKey q i) = Some (SV (job_blob (job\<lparr>jd_ProcessedOn := pr,
        jd_State := (if good (jd_Data job) then JobStateCompleted else JobStateFailed),
        jd_FinishedOn := fi\<rparr>)), 0)"
    using queue_round_ok [OF assms(1-5) n assms(7,8), of act] by metis
  have "aq_wait (abs_queue (view w) q) = Raw i # ids" by (simp add: abs_queue_def assms(4))
  with assms(9) have "aq_total (aq_run f (abs_queue (view w) q)) = aq_total (abs_queue (view w) q)" for f
    by (simp add: aq_run_def aq_total_def Let_def)
  with r show ?thesis by (intro exI [of _ w'] exI [of _ pr] exI [of _ fi]) simp
qed

definition demo_job :: job_data where
  "demo_job = new_job ''42'' ''Q'' (Some []) None 0 []"

definition demo_queue :: keyspace where
  "demo_queue = [getBullKey ''Q'' ''wait'' \<mapsto> (LV [Raw ''42'', Raw ''43''], 0),
     getBullKey ''Q'' ''42'' \<mapsto> (SV (job_blob demo_job), 0)]"

lemma demo_job_json: "job_to_json demo_job = Some (the (job_to_json demo_job))"
  "json_to_job (the (job_to_json demo_job)) = Some demo_job"
  by (simp_all add: demo_job_def new_job_def job_to_json_def map_json_def omit_map_def unix_of_def
      json_to_job_def jstruct_def jstr_def jmap_def jmember_def json_lookup_Cons omit_int_def omit_str_def
      json_map_def ji64_def jint_def int_of_rat_def job_state_of_def json_lookup_def)

theorem queue_round_refines_witness:
  "\<exists>w' pr fi. queue_round demo_env ''Q'' (\<lambda>_ w. (Err (EMsg ''boom''), w)) {} demo_queue
      = (WContinue, {}, w')
    \<and> abs_queue w' ''Q'' = aq_run True (abs_queue demo_queue ''Q'')
    \<and> aq_total (abs_queue w' ''Q'') = aq_total (abs_queue demo_queue ''Q'')
    \<and> w' (getBullKey ''Q'' ''42'') = Some (SV (job_blob (demo_job\<lparr>jd_ProcessedOn := pr,
        jd_State := JobStateFailed, jd_FinishedOn := fi\<rparr>)), 0)"
proof -
  have "queue_ok demo_queue ''Q''" by (simp add: queue_ok_def demo_queue_def is_list_key_def)
  moreover have "handler_ok (\<lambda>_ w. (Err (EMsg ''boom''), w)) id (\<lambda>_. False)"
    by (simp add: handler_ok_def)
  moreover have "demo_queue (getBullKey ''Q'' ''42'') = Some (SV (Enc (the (job_to_json demo_job))), 0)"
    by (subst demo_queue_def, subst job_blob_def, subst demo_job_json(1)) simp
  ultimately show ?thesis
    using queue_round_refines [OF demo_env_ok, of demo_queue "''Q''" "\<lambda>_ w. (Err (EMsg ''boom''), w)"
        "\<lambda>_. False" "''42''" "[Raw ''43'']" "the (job_to_json demo_job)" 0 demo_job "{}"]
      demo_job_json(2)
    by (simp add: demo_queue_def list_at_def isRepeatJobID_def has_prefix_def abs_queue_def)
qed

text \<open>
  \<open>GetQueueStatus\<close> reports the lengths of the five lists and their sum, and changes nothing.
\<close>

theorem queue_status_counts:
  assumes "queue_env_ok env view" "queue_ok (view w) q"
  defines "a \<equiv> abs_queue (view w) q"
  shows "\<exists>w'. GetQueueStatus env q w = (Ok [(''waiting'', int (length (aq_wait a))),
      (''active'', int (length (aq_active a))), (''completed'', int (length (aq_completed a))),
      (''failed'', int (length (aq_failed a))), (''delayed'', int (length (aq_delayed a))),
      (''total'', int (aq_total a))], w') \<and> view w' = view w"
proof -
  let ?K = "getBullKey q"
  have l: "redis_spec (CLLen (?K k)) (view w) = (RInt (int (length (list_at (view w) (?K k)))), view w)"
    if "k \<in> set queue_lists" for k
    using assms(2) that unfolding queue_ok_def by (blast intro: spec_llen)
  from env_exec [OF assms(1), of "map (\<lambda>k. CLLen (?K k)) queue_lists" w]
  show ?thesis
    by (auto simp: l GetQueueStatus_def reply_int_def abs_queue_def a_def aq_total_def
        simp del: redis_spec.simps)
qed

theorem queue_status_counts_witness:
  "\<exists>w'. GetQueueStatus demo_env ''Q'' demo_queue = (Ok [(''waiting'', 2), (''active'', 0),
      (''completed'', 0), (''failed'', 0), (''delayed'', 0), (''total'', 2)], w') \<and> w' = demo_queue"
proof -
  have "queue_ok demo_queue ''Q''" by (simp add: queue_ok_def demo_queue_def is_list_key_def)
  with queue_status_counts [OF demo_env_ok, of demo_queue "''Q''"] show ?thesis
    by (simp add: abs_queue_def demo_queue_def list_at_def aq_total_def)
qed

lemma del_keys_ok:
  assumes "queue_env_ok env view"
  shows "\<exists>w'. del_keys (qe_redis env) q ks w = (Ok (), w')
    \<and> view w' = (\<lambda>k. if k \<in> set ks then None else view w k)"
proof (induction ks arbitrary: w)
  case (Cons k ks)
  from env_rdo [OF assms, of "CDel k" w] obtain w1 where
    "rdo (qe_redis env) (CDel k) w = (RInt (if view w k = None then 0 else 1), w1)"
    "view w1 = (view w)(k := None)" by auto
  with Cons.IH [of w1] show ?case by (auto simp: fun_eq_iff)
qed auto

text \<open>
  \<open>ClearQueue\<close> succeeds and deletes exactly the six lists of the queue: afterwards the queue has
  no job in any list, and every other key, the stored jobs among them, is as before.
\<close>

theorem clear_queue_empties:
  assumes "queue_env_ok env view"
  shows "\<exists>w'. ClearQueue env q w = (Ok (), w') \<and> aq_total (abs_queue (view w') q) = 0
    \<and> (\<forall>k. k \<notin> getBullKey q ` {''wait'', ''active'', ''completed'', ''failed'', ''delayed'', ''stalled''}
          \<longrightarrow> view w' k = view w k)"
proof -
  from del_keys_ok [OF assms, of q "map (getBullKey q) (queue_lists @ [''stalled''])" w] obtain w' where
    w': "ClearQueue env q w = (Ok (), w')"
    "view w' = (\<lambda>k. if k \<in> set (map (getBullKey q) (queue_lists @ [''stalled''])) then None else view w k)"
    by (auto simp: ClearQueue_def)
  then have "aq_total (abs_queue (view w') q) = 0"
    by (simp add: aq_total_def abs_queue_def list_at_def)
  with w' show ?thesis by auto
qed

theorem clear_queue_empties_witness:
  "\<exists>w'. ClearQueue demo_env ''Q'' demo_queue = (Ok (), w') \<and> aq_total (abs_queue w' ''Q'') = 0
    \<and> w' (getBullKey ''Q'' ''42'') = Some (SV (job_blob demo_job), 0)"
proof -
  obtain w' where w: "ClearQueue demo_env ''Q'' demo_queue = (Ok (), w')" "aq_total (abs_queue w' ''Q'') = 0"
    "\<forall>k. k \<notin> getBullKey ''Q'' ` {''wait'', ''active'', ''completed'', ''failed'', ''delayed'', ''stalled''}
       \<longrightarrow> w' k = demo_queue k"
    using clear_queue_empties [OF demo_env_ok, of "''Q''" demo_queue] by auto
  then have "w' (getBullKey ''Q'' ''42'') = demo_queue (getBullKey ''Q'' ''42'')" by (simp add: image_iff)
  with w show ?thesis by (simp add: demo_queue_def)
qed

section \<open>What the workers see\<close>

lemma enqueue_job_other:
  assumes "queue_env_ok env view" "k \<noteq> getBullKey q ''wait''" "k \<noteq> getBullKey q jobID"
  shows "view (snd (enqueue_job env q data opts jobID w)) k = view w k"
proof -
  obtain n w1 where n: "qe_clock env w = (n, w1)" by (metis surj_pair)
  have v: "view w1 = view w" by (rule env_clock(1) [OF assms(1) n])
  have push: "snd (redis_spec (CRPush k' b) m) k = m k" if "k \<noteq> k'" for k' b and m :: keyspace
    using that by (auto split: option.split rvalue.split)
  show ?thesis
  proof (cases "job_to_json (new_job jobID q data opts n [])")
    case None
    with n v show ?thesis by (simp add: enqueue_job_def)
  next
    case (Some j)
    let ?cs = "[CRPush (getBullKey q ''wait'') (Raw jobID), CSet (getBullKey q jobID) (Enc j) 0,
      CPublish (getBullKey q ''events'') ''added'']"
    from env_exec [OF assms(1), of ?cs w1] obtain rs e w' where
      x: "rexec (qe_redis env) ?cs w1 = ((rs, e), w')" "view w' = snd (spec_exec ?cs (view w1))" by metis
    have "snd (spec_exec ?cs (view w1)) k = view w1 k"
      using push [OF assms(2), of "Raw jobID" "view w1"] assms(3)
      by (simp add: split_beta del: redis_spec.simps(4))
    with x n v Some show ?thesis by (auto simp: enqueue_job_def split: option.split)
  qed
qed

lemma getRepeatJobKey_not_queue [simp]: "getRepeatJobKey q i \<noteq> q" "q \<noteq> getRepeatJobKey q i"
proof -
  have "length (getRepeatJobKey q i) > length q" by (simp add: getRepeatJobKey_def)
  then show "getRepeatJobKey q i \<noteq> q" "q \<noteq> getRepeatJobKey q i" by auto
qed

lemma add_repeat_other:
  assumes "queue_env_ok env view" "\<forall>i. k \<noteq> getRepeatJobKey q i"
  shows "view (snd (add_repeat env q data opts ro w)) k = view w k"
proof -
  obtain n w1 where n: "qe_clock env w = (n, w1)" by (metis surj_pair)
  have v: "view w1 = view w" by (rule env_clock(1) [OF assms(1) n])
  have s: "view (snd (rdo (qe_redis env) (CSet (getRepeatJobKey q i) b 0) w1)) k = view w k" for i b
    using env_rdo [OF assms(1), of "CSet (getRepeatJobKey q i) b 0" w1] assms(2) v by auto
  with n v show ?thesis
    by (auto simp: add_repeat_def Let_def split: option.split gval.split prod.split redis_reply.split)
      (metis snd_conv)+
qed



section \<open>Repeat jobs\<close>

text \<open>
  The identifier of a repeat job, for any queue, data and time, is parsed back into the hash and
  the time it was made of, and is recognised as that of a repeat job; that of a regular job is not.
\<close>

theorem repeat_id_roundtrip:
  "parseRepeatJobID (repeat_id (generateHash fmt q data) u) = Some (generateHash fmt q data, show_int 10 u)
   \<and> isRepeatJobID (repeat_id (generateHash fmt q data) u) \<and> \<not> isRepeatJobID (show_int 10 nanos)"
  by (simp add: parse_repeat_id [OF generateHash_no_colon])

lemma repeat_key_neq:
  "getBullKey q (''repeat:'' @ h) \<noteq> getRepeatJobKey q (repeat_id h u)"
  "repeat_id h u \<noteq> ''repeat:'' @ h"
  "''repeat:'' @ h \<noteq> ''wait''" "repeat_id h u \<notin> set queue_lists"
proof -
  have "length (getRepeatJobKey q (repeat_id h u)) > length (getBullKey q (''repeat:'' @ h))"
    by (simp add: getBullKey_def getRepeatJobKey_def repeat_id_def)
  then show "getBullKey q (''repeat:'' @ h) \<noteq> getRepeatJobKey q (repeat_id h u)" by auto
  show "repeat_id h u \<noteq> ''repeat:'' @ h" by (simp add: repeat_id_def)
  show "''repeat:'' @ h \<noteq> ''wait''" "repeat_id h u \<notin> set queue_lists"
    by (simp_all add: repeat_id_def)
qed

lemma add_repeat_ok:
  assumes "queue_env_ok env view" "map_of ro ''every'' = Some (VFloat x)"
    and "map_json data \<noteq> None" "map_json opts \<noteq> None"
  obtains u w' j where
    "add_repeat env q data opts ro w = (Ok (repeat_id (generateHash (qe_fmt env) q data) u), w')"
    "view w' = (view w)(getRepeatJobKey q (repeat_id (generateHash (qe_fmt env) q data) u) \<mapsto> (SV (Enc j), 0))"
proof -
  obtain n w1 where n: "qe_clock env w = (n, w1)" by (metis surj_pair)
  let ?i = "repeat_id (generateHash (qe_fmt env) q data) (unix_of n)"
  obtain j where j: "repeat_to_json \<lparr>rp_ID = ?i, rp_QueueName = q, rp_Data = data, rp_Name = [],
      rp_Opts = opts, rp_Every = i64_of_f64 (qe_oori env) x\<rparr> = Some j"
    using assms(3,4) by (auto simp: repeat_to_json_def)
  from env_rdo [OF assms(1), of "CSet (getRepeatJobKey q ?i) (Enc j) 0" w1] obtain w' where
    "rdo (qe_redis env) (CSet (getRepeatJobKey q ?i) (Enc j) 0) w1 = (RDone, w')"
    "view w' = (view w)(getRepeatJobKey q ?i \<mapsto> (SV (Enc j), 0))"
    using env_clock(1) [OF assms(1) n] by auto
  with n j assms(2) that show ?thesis by (simp add: add_repeat_def)
qed

text \<open>
  The data of a repeat job is not found again: \<open>AddJob\<close> stores the definition under a key that
  contains the whole identifier, while \<open>GetJob\<close> looks it up under the hash alone, so the job that is
  handed to a handler has empty data and options, whatever was added.
\<close>

theorem repeat_job_data_lost:
  assumes "queue_env_ok env view" "queue_ok (view w) q"
    and "opts = Some okvs" "map_of okvs ''repeat'' = Some (VMap ro)" "map_of ro ''every'' = Some (VFloat x)"
    and "map_norm data = Some d" "opts_norm opts = Some o'" "map_json opts \<noteq> None"
    and "view w (getBullKey q (''repeat:'' @ generateHash (qe_fmt env) q data)) = None"
  shows "\<exists>jobID w' nanos. AddJob env q data opts w = (Ok jobID, w')
    \<and> fst (GetJob env q jobID w') = Ok (new_job jobID q (Some []) (Some []) nanos [])"
proof -
  let ?h = "generateHash (qe_fmt env) q data" and ?K = "getBullKey q"
  from add_repeat_ok [OF assms(1,5) map_norm_json [OF assms(6)] assms(8), of q w] obtain u w1 j1 where
    r: "add_repeat env q data opts ro w = (Ok (repeat_id ?h u), w1)"
      "view w1 = (view w)(getRepeatJobKey q (repeat_id ?h u) \<mapsto> (SV (Enc j1), 0))" by metis
  let ?i = "repeat_id ?h u"
  have d: "getRepeatJobKey q ?i \<noteq> ?K k" if "k \<in> set queue_lists" for k
    using that by (auto simp: getRepeatJobKey_def getBullKey_def)
  with assms(2) have q1: "queue_ok (view w1) q" unfolding queue_ok_def r(2)
    by (metis is_list_key_upd(3))
  from enqueue_job_ok [OF assms(1) q1 repeat_key_neq(4) map_norm_json [OF assms(6)]
      opts_norm_omit [OF assms(7)]]
  obtain nanos j w' t where e: "enqueue_job env q data opts ?i w1 = (Ok ?i, w')"
    "view w' = (view w1)(?K ''wait'' \<mapsto> (LV (list_at (view w1) (?K ''wait'') @ [Raw ?i]), t),
                 ?K ?i \<mapsto> (SV (Enc j), 0))" by metis
  have "view w' (?K (''repeat:'' @ ?h)) = None"
    using assms(9) repeat_key_neq(1) [of q ?h u] repeat_key_neq(2) [of ?h u, symmetric]
    by (simp add: e(2) r(2))
  with env_rdo [OF assms(1), of "CHGetAll (?K (''repeat:'' @ ?h))" w'] obtain w2 where
    "rdo (qe_redis env) (CHGetAll (?K (''repeat:'' @ ?h))) w' = (RHash [], w2)" by auto
  then have "\<exists>nanos. fst (GetJob env q ?i w') = Ok (new_job ?i q (Some []) (Some []) nanos [])"
    by (auto simp: GetJob_def getRepeatJob_def parse_repeat_id [OF generateHash_no_colon] Let_def
        synthetic_job_def split: prod.split)
  moreover have "AddJob env q data opts w = (Ok ?i, w')"
    using r(1) e(1) assms(3,4) by (simp add: AddJob_def)
  ultimately show ?thesis by blast
qed

theorem repeat_job_data_lost_witness:
  "\<exists>jobID w' nanos. AddJob demo_env ''Q'' (Some [(''k'', VStr ''v'')])
        (Some [(''repeat'', VMap [(''every'', VFloat (Fin 10000))])]) Map.empty = (Ok jobID, w')
    \<and> fst (GetJob demo_env ''Q'' jobID w') = Ok (new_job jobID ''Q'' (Some []) (Some []) nanos [])"
proof (rule repeat_job_data_lost [OF demo_env_ok, where ro = "[(''every'', VFloat (Fin 10000))]"
      and x = "Fin 10000" and okvs = "[(''repeat'', VMap [(''every'', VFloat (Fin 10000))])]"])
  show "map_norm (Some [(''k'', VStr ''v'')]) = Some (Some [(''k'', VStr ''v'')])"
    by (simp add: map_norm_def map_json_def json_map_def)
  show "opts_norm (Some [(''repeat'', VMap [(''every'', VFloat (Fin 10000))])])
      = Some (Some [(''repeat'', VMap [(''every'', VFloat (Fin 10000))])])"
    by (simp add: opts_norm_def map_norm_def map_json_def json_map_def)
qed (simp_all add: empty_queue_ok map_json_def)

lemma AddJob_bad_every:
  assumes "opts = Some okvs" "map_of okvs ''repeat'' = Some (VMap ro)"
    and "\<forall>x. map_of ro ''every'' \<noteq> Some (VFloat x)"
  shows "\<exists>p. AddJob env q data opts w = (Panic p, snd (qe_clock env w))"
proof -
  have "\<exists>p. add_repeat env q data opts ro w = (Panic p, snd (qe_clock env w))"
    using assms(3) by (auto simp: add_repeat_def Let_def split: option.splits gval.splits prod.splits)
  with assms(1,2) show ?thesis by (auto simp: AddJob_def)
qed

text \<open>
  A repeat interval given as a Go \<open>int\<close>, or as anything but a \<open>float64\<close>, makes \<open>AddJob\<close> panic
  before it stores anything.
\<close>

theorem add_job_every_panics:
  assumes "opts = Some okvs" "map_of okvs ''repeat'' = Some (VMap ro)"
    and "\<forall>x. map_of ro ''every'' \<noteq> Some (VFloat x)"
  shows "\<exists>p. AddJob env q data opts w = (Panic p, snd (qe_clock env w))"
  by (rule AddJob_bad_every [OF assms])

theorem add_job_every_panics_witness:
  "\<exists>p. AddJob demo_env ''TronBlockMonitor'' (Some [])
     (Some [(''jobId'', VStr ''tron-block-monitor''), (''repeat'', VMap [(''every'', VInt 10000)])]) Map.empty
   = (Panic p, Map.empty)"
  using add_job_every_panics [of _ "[(''jobId'', VStr ''tron-block-monitor''),
      (''repeat'', VMap [(''every'', VInt 10000)])]" "[(''every'', VInt 10000)]" demo_env
      "''TronBlockMonitor''" "Some []" Map.empty]
  by (simp add: demo_env_def)

end
