(* ===== verification/HttpClient.thy ===== *)
theory HttpClient
  imports GoValue
begin

text \<open>
  Requests to remote HTTP services. The service and the transport (\<open>net/http\<close>'s \<open>Client.Do\<close>) are
  a parameter that acts on the world; what the program does with an answer (status check, decoding)
  is modelled. A request is its method, URL, headers and body; its outcome is an error before it is
  sent, an error of the transport, a status with a body that could not be read, or a status with a
  body. A body whose first JSON value is \<open>j\<close> is \<open>Enc j\<close>.
\<close>

datatype http_out =
    HReqErr goerr
  | HDoErr goerr
  | HBodyErr int goerr
  | HResp int blob

record 'w httpc =
  hdo :: "string \<Rightarrow> string \<Rightarrow> (string \<times> string) list \<Rightarrow> blob option \<Rightarrow> 'w \<Rightarrow> http_out \<times> 'w"

text \<open>
  A request that is sent again is the same object: its body is a buffer, and the next attempt sends
  what the transport has left unread of it. How much that is belongs to the transport
  (\<open>hrest\<close>, on the world after the attempt; \<open>None\<close> is an empty body).
\<close>

record 'w http_client = "'w httpc" +
  hrest :: "blob \<Rightarrow> 'w \<Rightarrow> blob option"

definition resend :: "'w http_client \<Rightarrow> blob option \<Rightarrow> 'w \<Rightarrow> blob option" where
  "resend hc body w = (case body of None \<Rightarrow> None | Some b \<Rightarrow> hrest hc b w)"

definition decode_body :: "(json \<Rightarrow> 'a option) \<Rightarrow> blob \<Rightarrow> 'a res" where
  "decode_body dec b =
     (case b of
        Enc j \<Rightarrow>
          (case dec j of
             Some a \<Rightarrow> Ok a
           | None \<Rightarrow> Err (EWrap ''error decoding response: '' (EMsg ''json: cannot unmarshal'')))
      | Raw _ \<Rightarrow> Err (EWrap ''error decoding response: '' (EMsg ''invalid character'')))"

text \<open>
  The pattern every fetch of the block monitors follows: make the request, send it, insist on
  status 200, decode the body.
\<close>

definition fetch_json ::
  "'w httpc \<Rightarrow> string \<Rightarrow> string \<Rightarrow> (string \<times> string) list \<Rightarrow> blob option \<Rightarrow> (json \<Rightarrow> 'a option)
     \<Rightarrow> 'w \<Rightarrow> 'a res \<times> 'w" where
  "fetch_json hc meth url hdrs body dec w =
     (case hdo hc meth url hdrs body w of
        (HReqErr e, w') \<Rightarrow> (Err (EWrap ''error creating request: '' e), w')
      | (HDoErr e, w') \<Rightarrow> (Err (EWrap ''error making request: '' e), w')
      | (HBodyErr code e, w') \<Rightarrow>
          (if code \<noteq> 200 then (Err (EMsg (''unexpected status code: '' @ show_int 10 code)), w')
           else (Err (EWrap ''error decoding response: '' e), w'))
      | (HResp code b, w') \<Rightarrow>
          (if code \<noteq> 200 then (Err (EMsg (''unexpected status code: '' @ show_int 10 code)), w')
           else (decode_body dec b, w')))"

text \<open>A service that has no effect on what \<open>view\<close> observes of the world.\<close>

definition http_indep :: "('w, 'z) httpc_scheme \<Rightarrow> ('w \<Rightarrow> 'v) \<Rightarrow> bool" where
  "http_indep hc view \<longleftrightarrow> (\<forall>m u h b w. view (snd (hdo hc m u h b w)) = view w)"

lemma decode_body_not_Panic [simp]: "decode_body dec b \<noteq> Panic p"
  by (auto simp: decode_body_def split: blob.splits option.splits)

lemma fetch_json_not_Panic [simp]: "fst (fetch_json hc m u h b dec w) \<noteq> Panic p"
  by (auto simp: fetch_json_def split: prod.splits http_out.splits)

lemma fetch_json_view:
  "http_indep hc view \<Longrightarrow> view (snd (fetch_json hc m u h b dec w)) = view w"
  unfolding http_indep_def fetch_json_def
  by (auto split: prod.splits http_out.splits) (metis snd_conv)+

text \<open>The service as a function of the request, and what a request yields.\<close>

definition http_serves :: "'w httpc \<Rightarrow> (string \<Rightarrow> string \<Rightarrow> blob option \<Rightarrow> http_out) \<Rightarrow> bool" where
  "http_serves hc f \<longleftrightarrow> (\<forall>m u h b w. fst (hdo hc m u h b w) = f m u b)"

definition answer :: "(json \<Rightarrow> 'a option) \<Rightarrow> http_out \<Rightarrow> 'a option" where
  "answer dec r = (case r of HResp c (Enc j) \<Rightarrow> if c = 200 then dec j else None | _ \<Rightarrow> None)"

lemma fetch_json_answer:
  assumes "http_serves hc f"
  shows "(case answer dec (f m u b) of Some a \<Rightarrow> fst (fetch_json hc m u h b dec w) = Ok a
    | None \<Rightarrow> \<exists>e. fst (fetch_json hc m u h b dec w) = Err e)"
proof -
  obtain r w' where c: "hdo hc m u h b w = (r, w')" by (metis surj_pair)
  with assms have "f m u b = r" unfolding http_serves_def by (metis fst_conv)
  with c show ?thesis
    by (auto simp: answer_def fetch_json_def decode_body_def split: http_out.split blob.split option.split)
qed

end
