(* ===== verification/RequestManager.thy ===== *)
theory RequestManager
  imports HttpClient
begin

text \<open>
  \<open>managers/http/request_manager.go\<close> and \<open>init.go\<close>: requests to external services with retries. A
  client is created for a time limit (nanoseconds), which belongs to the transport; \<open>rq_node\<close> is what
  \<open>config.Load\<close> says of the Node.js server (\<open>None\<close> if it is not configured), \<open>rq_status\<close> the text of a
  status line.
\<close>

record 'w request_manager =
  rq_client :: "int \<Rightarrow> 'w http_client"
  rq_sleep :: "int \<Rightarrow> 'w \<Rightarrow> 'w"
  rq_node :: "string option res"
  rq_status :: "int \<Rightarrow> string"

record request_options =
  ro_Headers :: "(string \<times> string) list option"
  ro_Timeout :: int
  ro_Retries :: int
  ro_Method :: string
  ro_URL :: string

text \<open>What a request returns: the body; or an error, with the last body if there is one.\<close>

datatype rq_out = RqOk blob | RqErr "blob option" goerr | RqPanic string

definition default_timeout :: int where
  "default_timeout = 10 * 10 ^ 9"

section \<open>The URL\<close>

definition getServerURL :: "'w request_manager \<Rightarrow> string \<Rightarrow> string \<Rightarrow> string" where
  "getServerURL rm serverName endpoint =
     (let path = (if endpoint \<noteq> [] \<and> hd endpoint \<noteq> CHR ''/'' then CHR ''/'' # endpoint else endpoint) in
      if serverName = ''NODE_SERVER'' then
        (case rq_node rm of Ok (Some url) \<Rightarrow> url @ path | _ \<Rightarrow> [])
      else serverName @ path)"

section \<open>Headers\<close>

text \<open>\<open>Header.Set\<close>: keys are in canonical form, the first letter of each part in upper case.\<close>

definition upper_char :: "char \<Rightarrow> char" where
  "upper_char c = (let n = of_char c :: nat in if 97 \<le> n \<and> n \<le> 122 then char_of (n - 32) else c)"

fun canonical_key :: "bool \<Rightarrow> string \<Rightarrow> string" where
  "canonical_key up [] = []"
| "canonical_key up (c # cs) =
     (if up then upper_char c else lower_char c) # canonical_key (c = CHR ''-'') cs"

definition set_header :: "string \<Rightarrow> string \<Rightarrow> (string \<times> string) list \<Rightarrow> (string \<times> string) list" where
  "set_header k v hs = AList.update (canonical_key True k) v hs"

definition request_headers :: "request_options option \<Rightarrow> (string \<times> string) list" where
  "request_headers options =
     fold (\<lambda>(k, v). set_header k v)
       (case options of Some opt \<Rightarrow> (case ro_Headers opt of Some hs \<Rightarrow> hs | None \<Rightarrow> []) | None \<Rightarrow> [])
       (set_header ''Accept'' ''application/json'' (set_header ''Content-Type'' ''application/json'' []))"

section \<open>The request\<close>

text \<open>
  The attempts: \<open>n\<close> retries at most, \<open>i\<close> of them left. Errors of the transport, bodies that cannot
  be read and server errors are retried.
\<close>

fun rq_attempts ::
  "'w request_manager \<Rightarrow> 'w http_client \<Rightarrow> string \<Rightarrow> string \<Rightarrow> (string \<times> string) list \<Rightarrow> nat \<Rightarrow> nat
     \<Rightarrow> blob option \<Rightarrow> 'w \<Rightarrow> rq_out \<times> 'w" where
  "rq_attempts rm hc meth url hs n i body w =
     (let failed = ''request failed after '' @ show_nat 10 n @ '' retries'';
          again = (\<lambda>out w'. case i of 0 \<Rightarrow> (out, w') | Suc k \<Rightarrow>
             rq_attempts rm hc meth url hs n k (resend hc body w') (rq_sleep rm (int (n - k) * 500) w'))
      in case hdo hc meth url hs body w of
        (HReqErr e, w') \<Rightarrow> (RqErr None (EWrap ''error creating request: '' e), w')
      | (HDoErr e, w') \<Rightarrow> again (RqErr None (EWrap (failed @ '': '') e)) w'
      | (HBodyErr c e, w') \<Rightarrow> again (RqErr None (EWrap (failed @ '': '') e)) w'
      | (HResp c b, w') \<Rightarrow>
          (if 200 \<le> c \<and> c < 300 then (RqOk b, w')
           else if c < 500 then
             (RqErr (Some b) (EMsg (''HTTP error: '' @ show_int 10 c @ '' '' @ rq_status rm c)), w')
           else again (RqErr (Some b) (EMsg (failed @ '' with status: '' @ show_int 10 c))) w'))"

declare rq_attempts.simps [simp del]

definition rq_retries :: "request_options option \<Rightarrow> nat" where
  "rq_retries options =
     (case options of Some opt \<Rightarrow> if 0 \<le> ro_Retries opt then nat (ro_Retries opt) else 2 | None \<Rightarrow> 2)"

definition rq_timeout :: "request_options option \<Rightarrow> int" where
  "rq_timeout options =
     (case options of Some opt \<Rightarrow> if 0 < ro_Timeout opt then ro_Timeout opt else default_timeout
      | None \<Rightarrow> default_timeout)"

definition makeRequest ::
  "'w request_manager \<Rightarrow> string \<Rightarrow> string \<Rightarrow> gval \<Rightarrow> request_options option \<Rightarrow> 'w \<Rightarrow> rq_out \<times> 'w" where
  "makeRequest rm meth url data options w =
     (let send = (\<lambda>body. rq_attempts rm (rq_client rm (rq_timeout options)) meth url
                    (request_headers options) (rq_retries options) (rq_retries options) body w)
      in if data = VNil then send None
         else (case to_json data of
                 Some j \<Rightarrow> send (Some (Enc j))
               | None \<Rightarrow> (RqErr None (EWrap ''error marshaling request data: ''
                                        (EMsg ''json: unsupported value'')), w)))"

definition rq_Get ::
  "'w request_manager \<Rightarrow> string \<Rightarrow> string \<Rightarrow> request_options option \<Rightarrow> 'w \<Rightarrow> rq_out \<times> 'w" where
  "rq_Get rm serverName endpoint options w =
     makeRequest rm ''GET'' (getServerURL rm serverName endpoint) VNil options w"

definition rq_Post ::
  "'w request_manager \<Rightarrow> string \<Rightarrow> string \<Rightarrow> gval \<Rightarrow> request_options option \<Rightarrow> 'w \<Rightarrow> rq_out \<times> 'w" where
  "rq_Post rm serverName endpoint data options w =
     makeRequest rm ''POST'' (getServerURL rm serverName endpoint) data options w"

definition MakeBitcoinRequest ::
  "'w request_manager \<Rightarrow> string \<Rightarrow> request_options option \<Rightarrow> 'w \<Rightarrow> rq_out \<times> 'w" where
  "MakeBitcoinRequest rm url options w = makeRequest rm ''GET'' url VNil options w"

text \<open>A key is written into the map of headers, which panics if there are no options or the map is nil.\<close>

definition MakeSolanaRequest ::
  "'w request_manager \<Rightarrow> string \<Rightarrow> request_options option \<Rightarrow> string \<Rightarrow> 'w \<Rightarrow> rq_out \<times> 'w" where
  "MakeSolanaRequest rm url options apiKey w =
     (if apiKey = [] then makeRequest rm ''POST'' url VNil options w
      else
        (case options of
           None \<Rightarrow> (RqPanic ''invalid memory address or nil pointer dereference'', w)
         | Some opt \<Rightarrow>
             (case ro_Headers opt of
                None \<Rightarrow> (RqPanic ''assignment to entry in nil map'', w)
              | Some hs \<Rightarrow> makeRequest rm ''POST'' url VNil
                             (Some (opt\<lparr>ro_Headers := Some (AList.update ''x-api-key'' apiKey hs)\<rparr>)) w)))"

text \<open>The singleton: \<open>Initialize\<close> keeps the first instance, \<open>GetRequestManager\<close> panics without one.\<close>

definition rq_Initialize :: "'m \<Rightarrow> 'm option \<Rightarrow> 'm \<times> 'm option" where
  "rq_Initialize fresh inst = (case inst of None \<Rightarrow> (fresh, Some fresh) | Some m \<Rightarrow> (m, inst))"

definition GetRequestManager :: "'m option \<Rightarrow> 'm res" where
  "GetRequestManager inst =
     (case inst of
        None \<Rightarrow> Panic ''RequestManager not initialized. Call Initialize() first.''
      | Some m \<Rightarrow> Ok m)"

text \<open>What the callers do with an outcome: the body is only used if there is no error.\<close>

definition rq_body :: "rq_out \<times> 'w \<Rightarrow> blob res \<times> 'w" where
  "rq_body r = (case r of (RqOk b, w) \<Rightarrow> (Ok b, w) | (RqErr _ e, w) \<Rightarrow> (Err e, w)
     | (RqPanic p, w) \<Rightarrow> (Panic p, w))"

section \<open>Properties\<close>

text \<open>
  A transport that answers from a script: the outcome of a request depends on how many were sent
  before. \<open>cnt\<close> reads that number off the world.
\<close>

definition scripted :: "'w http_client \<Rightarrow> ('w \<Rightarrow> nat) \<Rightarrow> (nat \<Rightarrow> http_out) \<Rightarrow> bool" where
  "scripted hc cnt out \<longleftrightarrow>
     (\<forall>m u h b w. fst (hdo hc m u h b w) = out (cnt w) \<and> cnt (snd (hdo hc m u h b w)) = Suc (cnt w))"

definition final_out :: "http_out \<Rightarrow> bool" where
  "final_out r = (case r of HReqErr _ \<Rightarrow> True | HResp c _ \<Rightarrow> c < 500 | _ \<Rightarrow> False)"

text \<open>What an attempt's outcome means for the request, when it is the one that counts.\<close>

definition outcome_ok :: "http_out \<Rightarrow> rq_out \<Rightarrow> bool" where
  "outcome_ok r out \<longleftrightarrow>
     (case r of
        HResp c b \<Rightarrow> if 200 \<le> c \<and> c < 300 then out = RqOk b else \<exists>e. out = RqErr (Some b) e
      | _ \<Rightarrow> \<exists>e. out = RqErr None e)"

lemma attempts_scripted:
  assumes "scripted hc cnt out" "\<And>t w. cnt (rq_sleep rm t w) = cnt w"
  shows "\<exists>k \<le> i. cnt (snd (rq_attempts rm hc m u hs n i body w)) = cnt w + Suc k
    \<and> (\<forall>j < k. \<not> final_out (out (cnt w + j))) \<and> (k < i \<longrightarrow> final_out (out (cnt w + k)))
    \<and> outcome_ok (out (cnt w + k)) (fst (rq_attempts rm hc m u hs n i body w))"
proof (induction i arbitrary: body w)
  case 0
  obtain r w' where h: "hdo hc m u hs body w = (r, w')" by (metis surj_pair)
  with assms(1) have "r = out (cnt w)" "cnt w' = Suc (cnt w)"
    unfolding scripted_def by (metis fst_conv, metis snd_conv)
  with h show ?case
    by (subst (1 2) rq_attempts.simps) (auto simp: outcome_ok_def Let_def split: http_out.split)
next
  case (Suc i)
  obtain r w' where h: "hdo hc m u hs body w = (r, w')" by (metis surj_pair)
  with assms(1) have r: "r = out (cnt w)" "cnt w' = Suc (cnt w)"
    unfolding scripted_def by (metis fst_conv, metis snd_conv)
  show ?case
  proof (cases "final_out r")
    case True
    have "cnt (snd (rq_attempts rm hc m u hs n (Suc i) body w)) = cnt w + Suc 0
      \<and> outcome_ok r (fst (rq_attempts rm hc m u hs n (Suc i) body w))"
      using h r True
      by (subst (1 2) rq_attempts.simps)
        (auto simp: outcome_ok_def final_out_def Let_def split: http_out.splits)
    with r True show ?thesis by (intro exI [of _ 0]) auto
  next
    case False
    let ?b = "resend hc body w'" and ?w = "rq_sleep rm (int (n - i) * 500) w'"
    have e: "rq_attempts rm hc m u hs n (Suc i) body w = rq_attempts rm hc m u hs n i ?b ?w"
      using h False by (subst rq_attempts.simps) (cases r; auto simp: final_out_def Let_def)
    from Suc.IH [of ?b ?w] assms(2) r(2) obtain k where k: "k \<le> i"
      "cnt (snd (rq_attempts rm hc m u hs n i ?b ?w)) = Suc (cnt w) + Suc k"
      "\<forall>j < k. \<not> final_out (out (Suc (cnt w) + j))" "k < i \<longrightarrow> final_out (out (Suc (cnt w) + k))"
      "outcome_ok (out (Suc (cnt w) + k)) (fst (rq_attempts rm hc m u hs n i ?b ?w))" by auto
    have "\<forall>j < Suc k. \<not> final_out (out (cnt w + j))"
      using k(3) False r(1) by (auto simp: less_Suc_eq_0_disj)
    with k e show ?thesis by (intro exI [of _ "Suc k"]) auto
  qed
qed

text \<open>A transport and waiting that leave what \<open>view\<close> observes alone.\<close>

lemma attempts_view:
  assumes "http_indep hc view" "\<And>t w. view (rq_sleep rm t w) = view w"
  shows "view (snd (rq_attempts rm hc m u hs n i body w)) = view w"
proof (induction i arbitrary: body w)
  case 0
  obtain r w' where h: "hdo hc m u hs body w = (r, w')" by (metis surj_pair)
  with assms(1) have "view w' = view w" unfolding http_indep_def by (metis snd_conv)
  with h show ?case by (subst rq_attempts.simps) (cases r; auto simp: Let_def)
next
  case (Suc i)
  obtain r w' where h: "hdo hc m u hs body w = (r, w')" by (metis surj_pair)
  with assms(1) have "view w' = view w" unfolding http_indep_def by (metis snd_conv)
  with h Suc.IH assms(2) show ?case by (subst rq_attempts.simps) (cases r; auto simp: Let_def)
qed

definition rq_indep :: "'w request_manager \<Rightarrow> ('w \<Rightarrow> 'v) \<Rightarrow> bool" where
  "rq_indep rm view \<longleftrightarrow> (\<forall>t. http_indep (rq_client rm t) view) \<and> (\<forall>t w. view (rq_sleep rm t w) = view w)"

lemma makeRequest_view: "rq_indep rm view \<Longrightarrow> view (snd (makeRequest rm m u d opt w)) = view w"
  by (auto simp: rq_indep_def makeRequest_def Let_def attempts_view split: option.splits)

lemma snd_rq_body [simp]: "snd (rq_body r) = snd r"
  by (cases r; cases "fst r") (auto simp: rq_body_def)

lemma MakeBitcoinRequest_view: "rq_indep rm view \<Longrightarrow> view (snd (MakeBitcoinRequest rm u opt w)) = view w"
  by (simp add: MakeBitcoinRequest_def makeRequest_view)

lemma bitcoin_body_view:
  assumes "rq_indep rm view" "rq_body (MakeBitcoinRequest rm url opt w) = (r, w')"
  shows "view w' = view w"
  using MakeBitcoinRequest_view [OF assms(1), of url opt w] assms(2)
    snd_rq_body [of "MakeBitcoinRequest rm url opt w"] by simp

lemma rq_Post_view: "rq_indep rm view \<Longrightarrow> view (snd (rq_Post rm s p d opt w)) = view w"
  by (simp add: rq_Post_def makeRequest_view)

text \<open>
  C31: A request is sent at least once and at most one time more than it has retries. Attempts go on
  exactly as long as the outcome is an error of the transport, an unreadable body or a server error;
  the result is that of the last attempt: the body for a 2xx status, the body with an error for
  another status, an error without a body otherwise.
\<close>

theorem request_retries:
  assumes "scripted (rq_client rm (rq_timeout options)) cnt out" "\<And>t w. cnt (rq_sleep rm t w) = cnt w"
    and "data = VNil \<or> to_json data \<noteq> None"
  shows "\<exists>k \<le> rq_retries options.
    cnt (snd (makeRequest rm m url data options w)) = cnt w + Suc k
    \<and> (\<forall>j < k. \<not> final_out (out (cnt w + j)))
    \<and> (k < rq_retries options \<longrightarrow> final_out (out (cnt w + k)))
    \<and> outcome_ok (out (cnt w + k)) (fst (makeRequest rm m url data options w))"
proof -
  from assms(3) obtain body where "makeRequest rm m url data options w
      = rq_attempts rm (rq_client rm (rq_timeout options)) m url (request_headers options)
          (rq_retries options) (rq_retries options) body w"
    by (cases "data = VNil") (auto simp: makeRequest_def Let_def)
  with attempts_scripted [where cnt = cnt, OF assms(1,2)] show ?thesis by metis
qed

text \<open>A service that is down for two requests.\<close>

definition demo_script :: "nat \<Rightarrow> http_out" where
  "demo_script n = (if n < 2 then HResp 503 (Raw ''down'') else HResp 200 (Raw ''up''))"

definition demo_rm :: "nat request_manager" where
  "demo_rm = \<lparr>rq_client = (\<lambda>_. \<lparr>hdo = (\<lambda>_ _ _ _ n. (demo_script n, Suc n)), hrest = (\<lambda>_ _. None)\<rparr>),
     rq_sleep = (\<lambda>_ n. n), rq_node = Ok None, rq_status = (\<lambda>_. [])\<rparr>"

theorem request_retries_witness:
  "\<exists>k \<le> rq_retries None.
    snd (makeRequest demo_rm ''GET'' ''u'' VNil None 0) = Suc k
    \<and> (\<forall>j < k. \<not> final_out (demo_script j))
    \<and> (k < rq_retries None \<longrightarrow> final_out (demo_script k))
    \<and> outcome_ok (demo_script k) (fst (makeRequest demo_rm ''GET'' ''u'' VNil None 0))"
proof -
  have s: "scripted (rq_client demo_rm (rq_timeout None)) id demo_script"
    by (simp add: scripted_def demo_rm_def)
  have "id (rq_sleep demo_rm t w) = id w" for t w by (simp add: demo_rm_def)
  from request_retries [where cnt = id, OF s this, of VNil "''GET''" "''u''" 0] show ?thesis by simp
qed

end
