(* ===== verification/AccountWorkers.thy ===== *)
theory AccountWorkers
  imports AccountStore CacheManager QueueManager RequestManager
begin

text \<open>
  What the account workers of Bitcoin, Tron and Solana share: the accounts of active users of a
  chain, the supported currency of an account, the stored balance and the caches that depend on it,
  the orders that wait for a deposit to an address, transactions (\<open>models.Transaction\<close>), the pool
  that works through the accounts and the scheduled job. The workers of a pool run concurrently;
  here the accounts are processed one after the other, in the order in which they are sent. Days are
  counted as 24 hours each.
\<close>

record 'w acct_worker =
  aw_db :: "'w db"
  aw_cache :: "'w cache_ops"
  aw_uc :: "'w account_uc"
  aw_rm :: "'w request_manager"
  aw_client :: "'w http_client"
  aw_url :: string
  aw_key :: string
  aw_text :: "blob \<Rightarrow> string"
  aw_time_text :: "int \<Rightarrow> string"
  aw_fmt :: "bval \<Rightarrow> string"
  aw_sleep :: "int \<Rightarrow> 'w \<Rightarrow> 'w"
  aw_oor :: "f64 \<Rightarrow> int"

section \<open>Accounts\<close>

definition three_days :: int where
  "three_days = 3 * 24 * 3600 * 10 ^ 9"

definition active_accounts_pipeline :: "string \<Rightarrow> int \<Rightarrow> mstage list" where
  "active_accounts_pipeline chainId threeDaysAgo =
     [SMatch (FAll [FEq ''chainId'' (BId chainId), FExists ''deletedAt'' False]),
      SLookup ''Wallet-Users'' ''userId'' ''_id'' ''user'',
      SUnwind ''user'',
      SMatch (FAll [FPathGe [''user'', ''lastActiveTime''] (bson_time threeDaysAgo),
                    FNot (FPathEq [''user'', ''isDeleted''] (BBool True))]),
      SDrop ''user'']"

definition getActiveAccountsByChainId :: "'w db \<Rightarrow> string \<Rightarrow> 'w \<Rightarrow> bdoc list res \<times> 'w" where
  "getActiveAccountsByChainId db chainSymbol w =
     (case mongo_find_one (db_mongo db) ''chains'' (FEq ''symbol'' (BStr chainSymbol)) w of
        (Err e, w1) \<Rightarrow>
          (Err (if e = no_docs then EMsg (''chain with symbol '' @ chainSymbol @ '' not found'') else e), w1)
      | (Panic p, w1) \<Rightarrow> (Panic p, w1)
      | (Ok chain, w1) \<Rightarrow>
          (case map_of chain ''_id'' of
             Some (BId chainId) \<Rightarrow>
               (case db_now db w1 of (now, w2) \<Rightarrow>
                case mdo (db_mongo db)
                       (MAggregate ''accounts'' (active_accounts_pipeline chainId (now - three_days))) w2 of
                  (MErr e, w3) \<Rightarrow> (Err e, w3)
                | (MNum _, w3) \<Rightarrow> (Err (EMsg ''unexpected reply''), w3)
                | (MDocs accounts, w3) \<Rightarrow> (Ok accounts, w3))
           | _ \<Rightarrow> (Err (EMsg ''invalid chain ID format''), w1)))"

section \<open>Supported currencies\<close>

text \<open>
  A value that is an object identifier, or a string that is one; the printed form of any other value
  is none.
\<close>

definition oid_of :: "bval \<Rightarrow> string option" where
  "oid_of v = (case v of BId i \<Rightarrow> Some i | BStr s \<Rightarrow> ObjectIDFromHex s | _ \<Rightarrow> None)"

definition currency_filter :: "string \<Rightarrow> bdoc \<Rightarrow> mfilter" where
  "currency_filter chainId account =
     FAll (FEq ''chainId'' (BId chainId)
           # (case Option.bind (map_of account ''currencyId'') oid_of of
                Some k \<Rightarrow> [FEq ''currencyId'' (BId k)] | None \<Rightarrow> []))"

definition default_currency :: "string \<Rightarrow> bdoc" where
  "default_currency chainId = [(''tokenAddress'', BStr []), (''chainId'', BId chainId)]"

definition getSupportedCurrency :: "'w db \<Rightarrow> bdoc \<Rightarrow> 'w \<Rightarrow> bdoc res \<times> 'w" where
  "getSupportedCurrency db account w =
     (case map_of account ''chainId'' of
        None \<Rightarrow> (Err (EMsg ''chainId is missing from account''), w)
      | Some BNull \<Rightarrow> (Err (EMsg ''chainId is missing from account''), w)
      | Some v \<Rightarrow>
          (case oid_of v of
             None \<Rightarrow> (Err (EWrap (case v of BStr _ \<Rightarrow> ''invalid chainId format: ''
                                  | _ \<Rightarrow> ''failed to convert chainId to ObjectID: '')
                            (EMsg ''the provided hex string is not a valid ObjectID'')), w)
           | Some chainId \<Rightarrow>
               (case mongo_find (db_mongo db) ''supportedcurrencies'' (currency_filter chainId account) w of
                  (Err e, w1) \<Rightarrow> (Err (EWrap ''failed to query database: '' e), w1)
                | (Panic p, w1) \<Rightarrow> (Panic p, w1)
                | (Ok [], w1) \<Rightarrow> (Ok (default_currency chainId), w1)
                | (Ok (c # _), w1) \<Rightarrow> (Ok c, w1))))"

section \<open>Balances\<close>

definition balance_update :: "f64 \<Rightarrow> int \<Rightarrow> bdoc" where
  "balance_update balance now = [(''balance'', BDbl balance), (''updatedAt'', bson_time now)]"

definition store_balance :: "'w db \<Rightarrow> bdoc \<Rightarrow> f64 \<Rightarrow> 'w \<Rightarrow> unit res \<times> 'w" where
  "store_balance db account balance w =
     (case db_now db w of (now, w1) \<Rightarrow>
      case mdo (db_mongo db)
             (MUpdateOne ''accounts''
                (FEq ''_id'' (case map_of account ''_id'' of Some v \<Rightarrow> v | None \<Rightarrow> BNull))
                (balance_update balance now)) w1 of
        (MErr e, w2) \<Rightarrow> (Err e, w2)
      | (_, w2) \<Rightarrow> (Ok (), w2))"

definition WALLET_PORTFOLIO_CACHE_KEY :: string where
  "WALLET_PORTFOLIO_CACHE_KEY = ''wallet_portfolio''"

definition ACCOUNT_PORTFOLIO_CACHE_KEY :: string where
  "ACCOUNT_PORTFOLIO_CACHE_KEY = ''account_portfolio''"

text \<open>Errors of the cache are only logged.\<close>

definition expire_portfolios :: "'w cache_ops \<Rightarrow> string \<Rightarrow> string \<Rightarrow> 'w \<Rightarrow> 'w" where
  "expire_portfolios cm userId accountId w =
     snd (cm_del cm (ACCOUNT_PORTFOLIO_CACHE_KEY @ '':'' @ accountId)
       (snd (cm_del cm (WALLET_PORTFOLIO_CACHE_KEY @ '':'' @ userId) w)))"

section \<open>Watched orders\<close>

definition watched_orders_pipeline :: "string \<Rightarrow> mstage list" where
  "watched_orders_pipeline address =
     [SMatch (FAll [FEq ''status'' (BStr ''PENDING''), FEq ''flow'' (BStr ''BUY''),
                    FExists ''depositAccountIds'' True, FNot (FEq ''depositAccountIds'' (BArr []))]),
      SLookup ''accounts'' ''depositAccountIds'' ''_id'' ''depositAccounts'',
      SMatch (FPathEq [''depositAccounts'', ''walletAddress''] (BStr address))]"

definition FindOrdersWithMatchingDepositAddress ::
  "string \<Rightarrow> 'w db \<Rightarrow> 'w \<Rightarrow> bdoc list res \<times> 'w" where
  "FindOrdersWithMatchingDepositAddress address db w =
     (case mdo (db_mongo db) (MAggregate ''orders'' (watched_orders_pipeline address)) w of
        (MErr e, w1) \<Rightarrow> (Err e, w1)
      | (MNum _, w1) \<Rightarrow> (Err (EMsg ''unexpected reply''), w1)
      | (MDocs ds, w1) \<Rightarrow> (Ok ds, w1))"

text \<open>A document as a JSON value: identifiers are their digits, points in time their RFC 3339 text.\<close>

fun gval_of_bval :: "(int \<Rightarrow> string) \<Rightarrow> bval \<Rightarrow> gval" where
  "gval_of_bval fmt BNull = VNil"
| "gval_of_bval fmt (BBool b) = VBool b"
| "gval_of_bval fmt (BInt i) = VInt64 i"
| "gval_of_bval fmt (BDbl x) = VFloat x"
| "gval_of_bval fmt (BStr s) = VStr s"
| "gval_of_bval fmt (BId i) = VStr i"
| "gval_of_bval fmt (BTime t) = VStr (fmt t)"
| "gval_of_bval fmt (BArr vs) = VList (map (gval_of_bval fmt) vs)"
| "gval_of_bval fmt (BDoc kvs) = VMap (map (\<lambda>(k, v). (k, gval_of_bval fmt v)) kvs)"

text \<open>
  The type assertions on \<open>order["_id"]\<close> and \<open>order["order"]\<close> panic for a value of another type. The
  answer of the Node.js server is only logged.
\<close>

fun ProcessWatchedAddress :: "'w acct_worker \<Rightarrow> bdoc list \<Rightarrow> 'w \<Rightarrow> unit res \<times> 'w" where
  "ProcessWatchedAddress wk [] w = (Ok (), w)"
| "ProcessWatchedAddress wk (order # orders) w =
     (case map_of order ''_id'' of
        Some (BId _) \<Rightarrow>
          (case map_of order ''order'' of
             Some (BDoc d) \<Rightarrow>
               ProcessWatchedAddress wk orders (snd (rq_Post (aw_rm wk) ''NODE_SERVER'' ''/webhooks/watchAddress''
                 (VMap [(''order'', gval_of_bval (aw_time_text wk) (BDoc d)), (''goWorkerType'', VStr ''sol'')])
                 None w))
           | _ \<Rightarrow> (Panic ''interface conversion: order'', w))
      | _ \<Rightarrow> (Panic ''interface conversion: _id'', w))"

section \<open>Transactions\<close>

record transaction_model =
  tm_ID :: string
  tm_InitiatorId :: string
  tm_SenderId :: string
  tm_ReceiverId :: string
  tm_CurrencyID :: string
  tm_ChainID :: string
  tm_Hash :: string
  tm_TxDate :: int
  tm_Block :: int
  tm_Amount :: f64
  tm_Type :: string
  tm_NetworkFee :: f64
  tm_Direction :: string
  tm_Status :: int
  tm_Success :: bool
  tm_CreatedAt :: int
  tm_UpdatedAt :: int

definition enc_transaction :: "transaction_model \<Rightarrow> bdoc" where
  "enc_transaction x =
     put_id ''_id'' (tm_ID x)
     @ put ''initiatorId'' (BId (tm_InitiatorId x))
     @ put ''senderId'' (BId (tm_SenderId x))
     @ put ''receiverId'' (BId (tm_ReceiverId x))
     @ put ''currencyId'' (BId (tm_CurrencyID x))
     @ put ''chainId'' (BId (tm_ChainID x))
     @ put_str ''hash'' (tm_Hash x)
     @ put ''txDate'' (bson_time (tm_TxDate x))
     @ (if tm_Block x = 0 then [] else put ''block'' (BInt (tm_Block x)))
     @ put ''amount'' (BDbl (tm_Amount x))
     @ put_str ''type'' (tm_Type x)
     @ (if tm_NetworkFee x = Fin 0 then [] else put ''networkFee'' (BDbl (tm_NetworkFee x)))
     @ put_str ''direction'' (tm_Direction x)
     @ (if tm_Status x = 0 then [] else put ''status'' (BInt (tm_Status x)))
     @ put ''success'' (BBool (tm_Success x))
     @ put ''createdAt'' (bson_time (tm_CreatedAt x))
     @ put ''updatedAt'' (bson_time (tm_UpdatedAt x))"

text \<open>\<open>models.Transaction\{...\}\<close> with the fields the workers set, identifier and times included.\<close>

definition new_transaction ::
  "'w db \<Rightarrow> string \<Rightarrow> string \<Rightarrow> string \<Rightarrow> string \<Rightarrow> string \<Rightarrow> string \<Rightarrow> f64 \<Rightarrow> bool \<Rightarrow> string \<Rightarrow> 'w
     \<Rightarrow> transaction_model \<times> 'w" where
  "new_transaction db initiator sender receiver currency chain hash amount success direction w =
     (case db_new_id db w of (i, w1) \<Rightarrow> case db_now db w1 of (c, w2) \<Rightarrow> case db_now db w2 of (u, w3) \<Rightarrow>
        (\<lparr>tm_ID = i, tm_InitiatorId = initiator, tm_SenderId = sender, tm_ReceiverId = receiver,
          tm_CurrencyID = currency, tm_ChainID = chain, tm_Hash = hash, tm_TxDate = zero_time,
          tm_Block = 0, tm_Amount = amount, tm_Type = ''WALLET'', tm_NetworkFee = Fin 0,
          tm_Direction = direction, tm_Status = 0, tm_Success = success, tm_CreatedAt = c,
          tm_UpdatedAt = u\<rparr>, w3))"

definition insert_transaction :: "'w db \<Rightarrow> transaction_model \<Rightarrow> 'w \<Rightarrow> unit res \<times> 'w" where
  "insert_transaction db x w =
     (case mdo (db_mongo db) (MInsert ''transactions'' (enc_transaction x)) w of
        (MErr e, w1) \<Rightarrow> (Err e, w1) | (_, w1) \<Rightarrow> (Ok (), w1))"

text \<open>How the workers ask whether a transaction is stored already.\<close>

definition count_signature :: "'w db \<Rightarrow> string \<Rightarrow> 'w \<Rightarrow> nat res \<times> 'w" where
  "count_signature db hash w = repo_count (db_mongo db) ''transactions'' (FEq ''signature'' (BStr hash)) w"

text \<open>An identifier of an account document, given as such or in hexadecimal; otherwise zero.\<close>

definition field_oid :: "bdoc \<Rightarrow> string \<Rightarrow> string" where
  "field_oid account k = (case Option.bind (map_of account k) oid_of of Some i \<Rightarrow> i | None \<Rightarrow> nil_id)"

text \<open>From the receiver's account to the stored transaction; \<open>currency\<close> panics if it is missing.\<close>

definition record_transaction ::
  "'w acct_worker \<Rightarrow> bdoc \<Rightarrow> string \<Rightarrow> string \<Rightarrow> string res \<Rightarrow> string \<Rightarrow> f64 \<Rightarrow> bool \<Rightarrow> string \<Rightarrow> 'w
     \<Rightarrow> unit res \<times> 'w" where
  "record_transaction wk account userId toAddr currency hash amount success direction w =
     (let accountId = field_oid account ''_id''; chainId = field_oid account ''chainId'' in
      case CreateOrFindAccount (aw_uc wk) userId chainId toAddr w of
        (Err e, w1) \<Rightarrow> (Err (EWrap ''failed to create receiver account: '' e), w1)
      | (Panic p, w1) \<Rightarrow> (Panic p, w1)
      | (Ok None, w1) \<Rightarrow> (Panic nil_deref, w1)
      | (Ok (Some receiver), w1) \<Rightarrow>
          (case currency of
             Panic p \<Rightarrow> (Panic p, w1)
           | Err e \<Rightarrow> (Err e, w1)
           | Ok currencyId \<Rightarrow>
               (case new_transaction (aw_db wk) userId accountId (ac_ID receiver) currencyId chainId
                       hash amount success direction w1 of
                  (x, w2) \<Rightarrow>
                    (case insert_transaction (aw_db wk) x w2 of
                       (Err e, w3) \<Rightarrow> (Err (EWrap ''failed to store transaction: '' e), w3)
                     | r \<Rightarrow> r))))"

text \<open>\<open>supportedCurrency["currencyId"].(primitive.ObjectID)\<close>.\<close>

definition currency_of :: "bdoc \<Rightarrow> string res" where
  "currency_of supportedCurrency =
     (case map_of supportedCurrency ''currencyId'' of
        Some (BId k) \<Rightarrow> Ok k | _ \<Rightarrow> Panic ''interface conversion: currencyId'')"

section \<open>The pool\<close>

text \<open>
  The result is the number of accounts that failed. A panic of a pool goroutine is not recovered: it
  ends the program.
\<close>

fun run_pool :: "('a \<Rightarrow> 'w \<Rightarrow> unit res \<times> 'w) \<Rightarrow> 'a list \<Rightarrow> 'w \<Rightarrow> nat res \<times> 'w" where
  "run_pool f [] w = (Ok 0, w)"
| "run_pool f (x # xs) w =
     (case f x w of
        (Panic p, w1) \<Rightarrow> (Panic p, w1)
      | (r, w1) \<Rightarrow>
          (case run_pool f xs w1 of
             (Ok n, w2) \<Rightarrow> (Ok (if is_ok r then n else Suc n), w2)
           | q \<Rightarrow> q))"

text \<open>A loop whose body logs errors and goes on.\<close>

definition for_each :: "('a \<Rightarrow> 'w \<Rightarrow> unit res \<times> 'w) \<Rightarrow> 'a list \<Rightarrow> 'w \<Rightarrow> unit res \<times> 'w" where
  "for_each f xs w =
     (case run_pool f xs w of (Panic p, w1) \<Rightarrow> (Panic p, w1) | (_, w1) \<Rightarrow> (Ok (), w1))"

section \<open>Answers and numbers\<close>

text \<open>A member of a decoded object.\<close>

definition obj_member :: "gomap \<Rightarrow> string \<Rightarrow> gval option" where
  "obj_member m k = (case m of Some kvs \<Rightarrow> map_of kvs k | None \<Rightarrow> None)"

text \<open>Division by a positive constant; \<open>int64\<close> arithmetic wraps around.\<close>

definition f64_div_by :: "f64 \<Rightarrow> rat \<Rightarrow> f64" where
  "f64_div_by x c = (case x of Fin a \<Rightarrow> f64_of_rat (a / c) | _ \<Rightarrow> x)"

definition i64_wrap :: "int \<Rightarrow> int" where
  "i64_wrap i = sint (of_int i :: 64 word)"

text \<open>
  \<open>strconv.ParseFloat(s, 64)\<close> on decimal literals, infinities and NaN; a value out of range is an
  error. Hexadecimal literals are taken for errors.
\<close>

definition parse_decimal :: "string \<Rightarrow> rat option" where
  "parse_decimal s =
     (let ip = takeWhile is_digit s; s1 = dropWhile is_digit s;
          (fp, s2) = (case s1 of
             CHR ''.'' # t \<Rightarrow> (takeWhile is_digit t, dropWhile is_digit t) | _ \<Rightarrow> ([], s1));
          ex = (case s2 of [] \<Rightarrow> Some 0
             | c # t \<Rightarrow> if c = CHR ''e'' \<or> c = CHR ''E'' then big_set_string t 10 else None)
      in case (parse_nat 10 (ip @ fp), ex) of
           (Some n, Some e) \<Rightarrow> Some (of_nat n * 10 powi (e - int (length fp)))
         | _ \<Rightarrow> None)"

definition parse_float :: "string \<Rightarrow> f64 option" where
  "parse_float s =
     (let (signed, neg, t) = (case s of
            CHR ''-'' # t \<Rightarrow> (True, True, t) | CHR ''+'' # t \<Rightarrow> (True, False, t) | _ \<Rightarrow> (False, False, s))
      in if to_lower t = ''inf'' \<or> to_lower t = ''infinity'' then Some (f64_inf neg)
         else if to_lower t = ''nan'' \<and> \<not> signed then Some NaN
         else case parse_decimal t of
                Some r \<Rightarrow> (case f64_of_rat (if neg then - r else r) of Fin q \<Rightarrow> Some (Fin q) | _ \<Rightarrow> None)
              | None \<Rightarrow> None)"

text \<open>\<open>strings.EqualFold\<close>.\<close>

definition equal_fold :: "string \<Rightarrow> string \<Rightarrow> bool" where
  "equal_fold s t \<longleftrightarrow> to_lower s = to_lower t"

section \<open>Scheduling\<close>

definition enqueue_account_job :: "'w redis \<Rightarrow> ('w \<Rightarrow> int \<times> 'w) \<Rightarrow> string \<Rightarrow> 'w \<Rightarrow> unit res \<times> 'w" where
  "enqueue_account_job cl now queueName w =
     (case now w of (t, w1) \<Rightarrow>
      case rdo cl (CRPush queueName (Enc (JObj [(''timestamp'', JNum (of_int (unix_of t)))]))) w1 of
        (RErr e, w2) \<Rightarrow> (Err (EWrap ''failed to enqueue job: '' e), w2)
      | (_, w2) \<Rightarrow> (Ok (), w2))"

text \<open>One job on startup and one at every tick; errors are only logged.\<close>

definition schedule_jobs :: "('w \<Rightarrow> unit res \<times> 'w) \<Rightarrow> nat \<Rightarrow> 'w \<Rightarrow> 'w" where
  "schedule_jobs enqueue ticks w = ((\<lambda>w. snd (enqueue w)) ^^ Suc ticks) w"

text \<open>\<open>Start\<close>: the handler, the workers of the queue, the first job.\<close>

definition start_account_worker ::
  "'w queue_env \<Rightarrow> string \<Rightarrow> int \<Rightarrow> 'w job_handler \<Rightarrow> ('w \<Rightarrow> unit res \<times> 'w) \<Rightarrow> 'w queue_manager
     \<Rightarrow> 'w queue_manager" where
  "start_account_worker env queueName concurrency handler enqueue qm =
     (let qm1 = ProcessJobs queueName concurrency (RegisterHandler queueName handler qm)
      in qm1\<lparr>qm_net := schedule_jobs enqueue 0 (qm_net qm1)\<rparr>)"

end
