(* ===== verification/WorkerStore.thy ===== *)
theory WorkerStore
  imports AccountWorkers
begin

text \<open>
  What the operations of the account workers may do to the database: they change the balance and
  the time of the last change of stored accounts, add accounts and add transactions, and nothing
  else. The steps a worker is made of are shown to stay within that; the locale carries it to the
  loops over transactions and accounts.
\<close>

section \<open>Loops\<close>

locale store_order =
  fixes le :: "'w \<Rightarrow> 'w \<Rightarrow> bool"
  assumes le_refl: "le w w" and le_trans: "le w w1 \<Longrightarrow> le w1 w2 \<Longrightarrow> le w w2"
begin

lemma pool_le:
  assumes "\<And>x w r w'. x \<in> set xs \<Longrightarrow> f x w = (r, w') \<Longrightarrow> le w w'" "run_pool f xs w = (r, w')"
  shows "le w w'"
  using assms
proof (induction xs arbitrary: w r w')
  case (Cons x xs)
  obtain q w1 where q: "f x w = (q, w1)" by (metis surj_pair)
  obtain s w2 where s: "run_pool f xs w1 = (s, w2)" by (metis surj_pair)
  have "le w w1" by (rule Cons.prems(1) [OF _ q]) simp
  moreover have "le w1 w2" by (rule Cons.IH [OF _ s]) (rule Cons.prems(1), simp_all)
  moreover have "w' = w1 \<or> w' = w2" using Cons.prems(2) q s by (cases q; cases s) auto
  ultimately show ?case using le_trans by blast
qed (simp add: le_refl)

lemma for_each_le:
  assumes "\<And>x w r w'. x \<in> set xs \<Longrightarrow> f x w = (r, w') \<Longrightarrow> le w w'" "for_each f xs w = (r, w')"
  shows "le w w'"
proof -
  obtain s w1 where s: "run_pool f xs w = (s, w1)" by (metis surj_pair)
  with assms(2) have "w' = w1" by (cases s) (auto simp: for_each_def)
  with pool_le [OF assms(1) s] show ?thesis by simp
qed

end

section \<open>The order on databases\<close>

text \<open>An account document without its balance and its time of change.\<close>

definition acct_frame :: "bdoc \<Rightarrow> string \<rightharpoonup> bval" where
  "acct_frame d = (map_of d)(''balance'' := None, ''updatedAt'' := None)"

definition worker_le :: "mstore \<Rightarrow> mstore \<Rightarrow> bool" where
  "worker_le m m' \<longleftrightarrow> (accounts_ok m \<longrightarrow> accounts_ok m')
     \<and> (\<exists>new. map acct_frame (m' ''accounts'') = map acct_frame (m ''accounts'') @ new)
     \<and> (\<exists>txs. m' ''transactions'' = m ''transactions'' @ map enc_transaction txs)
     \<and> (\<forall>c. c \<noteq> ''accounts'' \<and> c \<noteq> ''transactions'' \<longrightarrow> m' c = m c)"

lemma worker_le_refl: "worker_le m m"
  by (auto simp: worker_le_def intro: exI [of _ "[]"])

lemma worker_leD:
  assumes "worker_le m m'"
  shows "accounts_ok m \<Longrightarrow> accounts_ok m'"
    "\<exists>new. map acct_frame (m' ''accounts'') = map acct_frame (m ''accounts'') @ new"
    "\<exists>txs. m' ''transactions'' = m ''transactions'' @ map enc_transaction txs"
    "c \<noteq> ''accounts'' \<Longrightarrow> c \<noteq> ''transactions'' \<Longrightarrow> m' c = m c"
  using assms unfolding worker_le_def by iprover+

lemma worker_leI:
  assumes "accounts_ok m \<Longrightarrow> accounts_ok m'"
    "map acct_frame (m' ''accounts'') = map acct_frame (m ''accounts'') @ new"
    "m' ''transactions'' = m ''transactions'' @ map enc_transaction txs"
    "\<And>c. c \<noteq> ''accounts'' \<Longrightarrow> c \<noteq> ''transactions'' \<Longrightarrow> m' c = m c"
  shows "worker_le m m'"
  unfolding worker_le_def by (intro conjI exI impI allI) (use assms in simp_all)

lemma worker_le_trans:
  assumes "worker_le m m1" "worker_le m1 m2" shows "worker_le m m2"
proof -
  note 1 = worker_leD [OF assms(1)] and 2 = worker_leD [OF assms(2)]
  obtain n1 where n1: "map acct_frame (m1 ''accounts'') = map acct_frame (m ''accounts'') @ n1" using 1(2) ..
  obtain n2 where n2: "map acct_frame (m2 ''accounts'') = map acct_frame (m1 ''accounts'') @ n2" using 2(2) ..
  obtain t1 where t1: "m1 ''transactions'' = m ''transactions'' @ map enc_transaction t1" using 1(3) ..
  obtain t2 where t2: "m2 ''transactions'' = m1 ''transactions'' @ map enc_transaction t2" using 2(3) ..
  show ?thesis
    by (rule worker_leI [where new = "n1 @ n2" and txs = "t1 @ t2"])
      (simp_all add: n1 n2 t1 t2 1(1,4) 2(1,4))
qed

interpretation worker: store_order "\<lambda>w w'. worker_le (view w) (view w')" for view
  by unfold_locales (auto intro: worker_le_refl worker_le_trans)

lemma worker_le_same: "view w' = view w \<Longrightarrow> worker_le (view w) (view w')"
  by (simp add: worker_le_refl)

text \<open>Storing a balance.\<close>

lemma map_of_balance_update:
  "map_of (set_fields (balance_update b t) d)
     = (map_of d)(''balance'' \<mapsto> BDbl b, ''updatedAt'' \<mapsto> bson_time t)"
  by (simp add: map_of_set_fields balance_update_def)

lemma acct_frame_balance: "acct_frame (set_fields (balance_update b t) d) = acct_frame d"
  by (rule ext) (simp add: acct_frame_def map_of_balance_update)

lemma account_doc_balance: "account_doc d \<Longrightarrow> account_doc (set_fields (balance_update b t) d)"
proof -
  assume "account_doc d"
  then obtain x where x: "map_of d = map_of (enc_account_model x)" by (auto simp: account_doc_def)
  have "map_of (set_fields (balance_update b t) d)
      = map_of (enc_account_model (x\<lparr>am_Balance := b, am_UpdatedAt := t\<rparr>))"
    by (rule ext) (simp add: map_of_balance_update x enc_account_model_def doc_simps del: map_of_append)
  then show ?thesis unfolding account_doc_def by blast
qed

lemma worker_le_balance:
  "worker_le m (m(''accounts'' := update_first P (set_fields (balance_update b t)) (m ''accounts'')))"
proof -
  let ?xs = "m ''accounts''" and ?f = "set_fields (balance_update b t)"
  have f: "map acct_frame (update_first P ?f xs) = map acct_frame xs" for xs
    by (induction xs) (simp_all add: acct_frame_balance)
  have "(\<forall>d \<in> set xs. account_doc d) \<longrightarrow> (\<forall>d \<in> set (update_first P ?f xs). account_doc d)" for xs
    by (induction xs) (auto simp: account_doc_balance)
  then show ?thesis by (simp add: worker_le_def accounts_ok_def f)
qed

lemma worker_le_account:
  "worker_le m (m(''accounts'' := m ''accounts'' @ [enc_account_model x]))"
  by (auto simp: worker_le_def accounts_ok_def account_doc_def intro: exI [of _ "[]"])

lemma worker_le_transaction:
  "worker_le m (m(''transactions'' := m ''transactions'' @ [enc_transaction x]))"
  by (rule worker_leI [where new = "[]" and txs = "[x]"]) (simp_all add: accounts_ok_def)

section \<open>The steps\<close>

definition worker_ok :: "(string \<Rightarrow> string \<Rightarrow> bool) \<Rightarrow> ('w \<Rightarrow> mstore) \<Rightarrow> 'w acct_worker \<Rightarrow> bool" where
  "worker_ok re view wk \<longleftrightarrow> db_ok re (aw_db wk) view
     \<and> au_accountRepo (aw_uc wk) = AccountRepositoryAdapter (aw_db wk) \<and> au_db (aw_uc wk) = aw_db wk
     \<and> rq_indep (aw_rm wk) view \<and> http_indep (aw_client wk) view
     \<and> (\<forall>t w. view (aw_sleep wk t w) = view w) \<and> (\<forall>k w. view (snd (cm_del (aw_cache wk) k w)) = view w)"

lemma worker_okD:
  assumes "worker_ok re view wk"
  shows "db_ok re (aw_db wk) view" "mongo_ok re (db_mongo (aw_db wk)) view"
    "au_accountRepo (aw_uc wk) = AccountRepositoryAdapter (aw_db wk)" "au_db (aw_uc wk) = aw_db wk"
    "rq_indep (aw_rm wk) view" "http_indep (aw_client wk) view" "view (aw_sleep wk t w) = view w"
    "view (snd (cm_del (aw_cache wk) k w)) = view w"
  using assms db_okD(1) by (auto simp: worker_ok_def)

lemma mongo_read_view:
  assumes "mongo_ok re mg view" "mdo mg c w = (r, w')" "\<And>m. snd (mongo_spec re c m) = m"
  shows "view w' = view w"
  using mongo_okD [OF assms(1,2)] assms(3) [of "view w"] by simp

lemma mongo_state:
  assumes "mongo_ok re mg view" "mdo mg c w = (r, w')"
  shows "view w' = snd (mongo_spec re c (view w))"
  using mongo_okD [OF assms] by (metis snd_conv)

lemma mongo_find_views:
  assumes "mongo_ok re mg view"
  shows "view (snd (mongo_find mg c f w)) = view w" "view (snd (mongo_find_one mg c f w)) = view w"
proof -
  obtain r w1 where 1: "mdo mg (MFind c f) w = (r, w1)" by (metis surj_pair)
  obtain q w2 where 2: "mdo mg (MFindOne c f) w = (q, w2)" by (metis surj_pair)
  from mongo_read_view [OF assms 1] 1 show "view (snd (mongo_find mg c f w)) = view w"
    by (cases r) (simp_all add: mongo_find_def)
  from mongo_read_view [OF assms 2] 2 show "view (snd (mongo_find_one mg c f w)) = view w"
    by (cases q) (auto simp: mongo_find_one_def split: list.split)
qed

lemma getActiveAccounts_view:
  assumes "db_ok re db view" shows "view (snd (getActiveAccountsByChainId db c w)) = view w"
proof -
  note M = db_okD(1) [OF assms]
  obtain r w1 where 1: "mongo_find_one (db_mongo db) ''chains'' (FEq ''symbol'' (BStr c)) w = (r, w1)"
    by (metis surj_pair)
  obtain t w2 where 2: "db_now db w1 = (t, w2)" by (metis surj_pair)
  have a: "view w3 = view w2" if "mdo (db_mongo db) (MAggregate co ss) w2 = (q, w3)" for co ss q w3
    by (rule mongo_read_view [OF M that]) simp
  have "view w1 = view w" using mongo_find_views(2) [OF M] 1 by (metis snd_conv)
  with a db_okD(2) [OF assms 2] 1 2 show ?thesis
    by (auto simp: getActiveAccountsByChainId_def split: res.split option.split bval.split prod.split mreply.split)
qed

lemma getSupportedCurrency_view:
  assumes "mongo_ok re (db_mongo db) view" shows "view (snd (getSupportedCurrency db a w)) = view w"
proof -
  have "view w1 = view w" if "mongo_find (db_mongo db) c f w = (r, w1)" for c f r w1
    using mongo_find_views(1) [OF assms] that by (metis snd_conv)
  then show ?thesis
    by (auto simp: getSupportedCurrency_def split: res.split option.split bval.split prod.split list.split)
qed

lemma count_signature_view:
  "mongo_ok re (db_mongo db) view \<Longrightarrow> view (snd (count_signature db h w)) = view w"
  using repo_count_ok [of re "db_mongo db" view "''transactions''" "FEq ''signature'' (BStr h)" w]
  by (auto simp: count_signature_def)

lemma watched_orders_view:
  assumes "mongo_ok re (db_mongo db) view"
  shows "view (snd (FindOrdersWithMatchingDepositAddress ad db w)) = view w"
proof -
  obtain r w1 where 1: "mdo (db_mongo db) (MAggregate ''orders'' (watched_orders_pipeline ad)) w = (r, w1)"
    by (metis surj_pair)
  from mongo_read_view [OF assms 1] 1 show ?thesis
    by (cases r) (simp_all add: FindOrdersWithMatchingDepositAddress_def)
qed

lemma ProcessWatchedAddress_view:
  "rq_indep (aw_rm wk) view \<Longrightarrow> view (snd (ProcessWatchedAddress wk os w)) = view w"
  by (induction wk os w rule: ProcessWatchedAddress.induct)
    (auto simp: rq_Post_view split: option.split bval.split)

lemma store_balance_le:
  assumes "db_ok re db view" "store_balance db a b w = (r, w')"
  shows "worker_le (view w) (view w')"
proof -
  obtain t w1 where 1: "db_now db w = (t, w1)" by (metis surj_pair)
  let ?c = "MUpdateOne ''accounts'' (FEq ''_id'' (case map_of a ''_id'' of Some v \<Rightarrow> v | None \<Rightarrow> BNull))
    (balance_update b t)"
  obtain q w2 where 2: "mdo (db_mongo db) ?c w1 = (q, w2)" by (metis surj_pair)
  have "w' = w2" using assms(2) 1 2 by (cases q) (auto simp: store_balance_def)
  moreover have "worker_le (view w1) (view w2)"
    unfolding mongo_state [OF db_okD(1) [OF assms(1)] 2] by (simp add: worker_le_balance)
  ultimately show ?thesis using db_okD(2) [OF assms(1) 1] by simp
qed

lemma expire_view:
  "worker_ok re view wk \<Longrightarrow> view (expire_portfolios (aw_cache wk) u a w) = view w"
  by (simp add: expire_portfolios_def worker_okD(8))

lemma insert_transaction_le:
  assumes "mongo_ok re (db_mongo db) view" "insert_transaction db x w = (r, w')"
  shows "worker_le (view w) (view w')"
proof -
  obtain q w1 where 1: "mdo (db_mongo db) (MInsert ''transactions'' (enc_transaction x)) w = (q, w1)"
    by (metis surj_pair)
  have "w' = w1" using assms(2) 1 by (cases q) (auto simp: insert_transaction_def)
  with mongo_state [OF assms(1) 1] worker_le_transaction worker_le_refl show ?thesis by simp
qed

lemma new_transaction_view:
  assumes "db_ok re db view" "new_transaction db a b c d e f g h i w = (x, w')"
  shows "view w' = view w"
proof -
  obtain n w1 where 1: "db_new_id db w = (n, w1)" by (metis surj_pair)
  obtain t w2 where 2: "db_now db w1 = (t, w2)" by (metis surj_pair)
  obtain u w3 where 3: "db_now db w2 = (u, w3)" by (metis surj_pair)
  have "w' = w3" using assms(2) 1 2 3 by (simp add: new_transaction_def)
  with db_okD(3) [OF assms(1) 1] db_okD(2) [OF assms(1) 2] db_okD(2) [OF assms(1) 3] show ?thesis by simp
qed

lemma account_Create_le:
  assumes "db_ok re db view" "account_Create db a w = (r, w')"
  shows "worker_le (view w) (view w')"
proof -
  obtain n w1 where n: "db_now db w = (n, w1)" by (metis surj_pair)
  obtain i w2 where i: "fresh_id db (ac_ID a) w1 = (i, w2)" by (metis surj_pair)
  have v: "view w2 = view w"
    using db_okD(2,3) [OF assms(1)] n i by (auto simp: fresh_id_def split: if_splits)
  let ?d = "enc_account_model (convertAccountDomainToModel a\<lparr>am_CreatedAt := n, am_UpdatedAt := n, am_ID := i\<rparr>)"
  obtain q w3 where q: "repo_insert (db_mongo db) ''accounts'' ?d w2 = (q, w3)" by (metis surj_pair)
  have id: "am_ID (convertAccountDomainToModel a) = ac_ID a" by (simp add: convertAccountDomainToModel_def)
  have "w' = w3" using assms(2) n i q by (cases q) (auto simp: account_Create_def repo_CreateAccount_def id via_def Let_def)
  moreover have "worker_le (view w2) (view w3)"
    using repo_insert_ok [OF db_okD(1) [OF assms(1)], of "''accounts''" ?d w2] q
      worker_le_account worker_le_refl by (auto split: if_splits)
  ultimately show ?thesis using v by simp
qed

lemma CreateOrFind_le:
  assumes "worker_ok re view wk" "CreateOrFindAccount (aw_uc wk) u c ad w = (r, w')"
  shows "worker_le (view w) (view w')"
proof -
  note W = worker_okD [OF assms(1)]
  let ?db = "aw_db wk"
  obtain n w1 where 1: "account_CountByAddress ?db ad w = (n, w1)" by (metis surj_pair)
  obtain g w2 where 2: "account_GetByAddress ?db ad w1 = (g, w2)" by (metis surj_pair)
  obtain t w3 where 3: "db_now ?db w1 = (t, w3)" by (metis surj_pair)
  obtain i w4 where 4: "db_new_id ?db w3 = (i, w4)" by (metis surj_pair)
  have v: "view w1 = view w" using repo_count_ok [OF W(2)] 1
    by (auto simp: account_CountByAddress_def CountByAddress_def) (metis snd_conv)
  have g: "view w2 = view w" using find_one_view [OF W(2), of "''accounts''" dec_account_model "address_filter ad" w1] 2 v
    by (auto simp: account_GetByAddress_def GetAccountByAddress_def via_def split: prod.splits)
  have t: "view w4 = view w" using v db_okD(2) [OF W(1) 3] db_okD(3) [OF W(1) 4] by simp
  have c: "worker_le (view w4) (view w5)" if "account_Create ?db a w4 = (q, w5)" for a q w5
    by (rule account_Create_le [OF W(1) that])
  have "w' = w1 \<or> w' = w2 \<or> (\<exists>a q. account_Create ?db a w4 = (q, w'))"
    using assms(2) 1 2 3 4 W(3,4)
    by (auto simp: CreateOrFindAccount_def AccountRepositoryAdapter_def NewAccount_def
        split: res.splits if_splits prod.splits)
  with v g t c show ?thesis by (metis worker_le_refl)
qed

lemma record_transaction_le:
  assumes "worker_ok re view wk" "record_transaction wk a u ad cu h am su d w = (r, w')"
  shows "worker_le (view w) (view w')"
proof -
  note W = worker_okD [OF assms(1)]
  obtain q w1 where 1: "CreateOrFindAccount (aw_uc wk) u (field_oid a ''chainId'') ad w = (q, w1)"
    by (metis surj_pair)
  note le = CreateOrFind_le [OF assms(1) 1]
  show ?thesis
  proof (cases "\<exists>b k. q = Ok (Some b) \<and> cu = Ok k")
    case False
    then have "w' = w1" using assms(2) 1
      by (auto simp: record_transaction_def Let_def split: res.splits option.splits)
    with le show ?thesis by simp
  next
    case True
    then obtain b k where bk: "q = Ok (Some b)" "cu = Ok k" by blast
    obtain x w2 where 2: "new_transaction (aw_db wk) u (field_oid a ''_id'') (ac_ID b) k
      (field_oid a ''chainId'') h am su d w1 = (x, w2)" by (metis surj_pair)
    obtain s w3 where 3: "insert_transaction (aw_db wk) x w2 = (s, w3)" by (metis surj_pair)
    have "w' = w3" using assms(2) 1 2 3 bk by (auto simp: record_transaction_def Let_def split: res.splits)
    with le new_transaction_view [OF W(1) 2] insert_transaction_le [OF W(2) 3] show ?thesis
      by (metis worker_le_trans)
  qed
qed

text \<open>Transactions have no field \<open>signature\<close>, so none is ever found by it.\<close>

definition unsigned_txs :: "mstore \<Rightarrow> bool" where
  "unsigned_txs m \<longleftrightarrow> (\<forall>d \<in> set (m ''transactions''). map_of d ''signature'' = None)"

lemma enc_transaction_unsigned: "map_of (enc_transaction x) ''signature'' = None"
  by (simp add: enc_transaction_def doc_simps del: map_of_append)

lemma unsigned_le: "worker_le m m' \<Longrightarrow> unsigned_txs m \<Longrightarrow> unsigned_txs m'"
  using worker_leD(3) [of m m'] by (auto simp: unsigned_txs_def enc_transaction_unsigned)

lemma count_signature_zero:
  assumes "mongo_ok re (db_mongo db) view" "unsigned_txs (view w)"
  shows "\<exists>w'. count_signature db h w = (Ok 0, w') \<and> view w' = view w"
proof -
  have "filter (\<lambda>d. matches re (FEq ''signature'' (BStr h)) (map_of d)) (view w ''transactions'') = []"
    using assms(2) by (auto simp: unsigned_txs_def filter_empty_conv field_vals_def)
  with repo_count_ok [OF assms(1), of "''transactions''" "FEq ''signature'' (BStr h)" w] show ?thesis
    by (auto simp: count_signature_def)
qed

section \<open>Recording transactions\<close>

text \<open>
  New identifiers are unused (\<open>fresh_ids\<close>, what \<open>primitive.NewObjectID\<close> promises). A receiver that
  has an account is found, and nothing is stored for it; a receiver without an address gets a new
  account every time, because an empty address is not stored and so cannot be looked up.
\<close>

definition fresh_ids :: "('w \<Rightarrow> mstore) \<Rightarrow> 'w db \<Rightarrow> bool" where
  "fresh_ids view db \<longleftrightarrow> (\<forall>w. fst (db_new_id db w) \<noteq> nil_id
     \<and> (\<forall>d \<in> set (view w ''transactions'') \<union> set (view w ''accounts'').
          map_of d ''_id'' \<noteq> Some (BId (fst (db_new_id db w)))))"

definition record_ready ::
  "(string \<Rightarrow> string \<Rightarrow> bool) \<Rightarrow> ('w \<Rightarrow> mstore) \<Rightarrow> 'w acct_worker \<Rightarrow> string set \<Rightarrow> 'w \<Rightarrow> bool" where
  "record_ready re view wk A w \<longleftrightarrow>
     worker_ok re view wk \<and> fresh_ids view (aw_db wk) \<and> accounts_ok (view w) \<and> unsigned_txs (view w)
     \<and> (\<forall>a \<in> A. a = [] \<or> filter (has_address a) (live_accounts (view w)) \<noteq> [])"

lemma record_readyD:
  assumes "record_ready re view wk A w"
  shows "worker_ok re view wk" "unsigned_txs (view w)" "fresh_ids view (aw_db wk)" "accounts_ok (view w)"
  using assms by (simp_all add: record_ready_def)

lemma record_ready_view:
  "record_ready re view wk A w \<Longrightarrow> view w' = view w \<Longrightarrow> record_ready re view wk A w'"
  by (simp add: record_ready_def)

lemma fresh_idsD:
  assumes "fresh_ids view db" "db_new_id db w = (i, w')"
  shows "i \<noteq> nil_id" "d \<in> set (view w ''transactions'') \<Longrightarrow> map_of d ''_id'' \<noteq> Some (BId i)"
    "d \<in> set (view w ''accounts'') \<Longrightarrow> map_of d ''_id'' \<noteq> Some (BId i)"
  using assms unfolding fresh_ids_def by (metis fst_conv UnCI)+

lemma CreateOrFind_found:
  assumes "record_ready re view wk A w" "address \<in> A" "address \<noteq> []"
  shows "\<exists>a w'. CreateOrFindAccount (aw_uc wk) u c address w = (Ok (Some a), w') \<and> view w' = view w"
proof -
  note W = worker_okD [OF record_readyD(1) [OF assms(1)]]
  have s: "store_ok re (aw_db wk) view (view w) w"
    using W(1) assms by (simp add: store_ok_def record_ready_def)
  obtain a as where as: "filter (has_address address) (live_accounts (view w)) = a # as"
    using assms by (auto simp: record_ready_def neq_Nil_conv)
  obtain w' where r: "CreateOrFindAccount (aw_uc wk) u c address w = (Ok (Some a), w')"
    using accounts.finds [OF s W(3) assms(3) as] by blast
  obtain n w1 where 1: "account_CountByAddress (aw_db wk) address w = (n, w1)" by (metis surj_pair)
  have n: "n = Ok (Suc (length as))" "view w1 = view w"
    using adapter_count [OF s assms(3)] as 1
      repo_count_ok [OF W(2), of "''accounts''" "address_filter address" w]
    by (auto simp: account_CountByAddress_def CountByAddress_def)
  obtain g w2 where 2: "account_GetByAddress (aw_db wk) address w1 = (g, w2)" by (metis surj_pair)
  have "view w2 = view w"
    using find_one_view [OF W(2), of "''accounts''" dec_account_model "address_filter address" w1] 2 n(2)
    by (auto simp: account_GetByAddress_def GetAccountByAddress_def via_def split: prod.splits)
  moreover have "w' = w2" using r 1 2 n(1) W(3)
    by (auto simp: CreateOrFindAccount_def AccountRepositoryAdapter_def split: res.splits)
  ultimately show ?thesis using r by blast
qed

lemma no_empty_address:
  assumes "accounts_ok m" "d \<in> set (m ''accounts'')"
  shows "\<not> matches re (address_filter []) (map_of d)"
proof -
  from assms obtain x where x: "map_of d = map_of (enc_account_model x)"
    by (auto simp: accounts_ok_def account_doc_def)
  have "BStr [] \<notin> set (field_vals (map_of d) ''walletAddress'')"
    by (simp add: field_vals_def x enc_account_lookup)
  then show ?thesis by (simp add: address_filter_def)
qed

lemma CreateOrFind_empty:
  assumes "record_ready re view wk A w"
  shows "\<exists>a w' x. CreateOrFindAccount (aw_uc wk) u c [] w = (Ok (Some a), w') \<and> am_WalletAddress x = []
    \<and> view w' = (view w)(''accounts'' := view w ''accounts'' @ [enc_account_model x])"
proof -
  note W = worker_okD [OF record_readyD(1) [OF assms]]
  let ?db = "aw_db wk"
  obtain n w1 where 1: "account_CountByAddress ?db [] w = (n, w1)" by (metis surj_pair)
  have "filter (\<lambda>d. matches re (address_filter []) (map_of d)) (view w ''accounts'') = []"
    using no_empty_address [OF record_readyD(4) [OF assms]] by (auto simp: filter_empty_conv)
  with repo_count_ok [OF W(2), of "''accounts''" "address_filter []" w] 1
  have n: "n = Ok 0" "view w1 = view w" by (auto simp: account_CountByAddress_def CountByAddress_def)
  obtain t w2 where 2: "db_now ?db w1 = (t, w2)" by (metis surj_pair)
  obtain i w3 where 3: "db_new_id ?db w2 = (i, w3)" by (metis surj_pair)
  obtain t' w4 where 4: "db_now ?db w3 = (t', w4)" by (metis surj_pair)
  have v: "view w2 = view w" "view w4 = view w"
    using n(2) db_okD(2) [OF W(1) 2] db_okD(3) [OF W(1) 3] db_okD(2) [OF W(1) 4] by simp_all
  note f = fresh_idsD [OF record_readyD(3) [OF assms] 3, unfolded v(1)]
  define a where "a = \<lparr>ac_ID = i, ac_CurrencyID = nil_id, ac_WalletID = nil_id, ac_ChainID = c, ac_UserID = u,
    ac_SupportedCurrencyID = nil_id, ac_WalletAddress = [], ac_Balance = Fin 0, ac_Type = [],
    ac_DeletedAt = None, ac_EncryptedPrivateKey = [], ac_CreatedAt = t, ac_UpdatedAt = t\<rparr>"
  define x where "x = convertAccountDomainToModel a\<lparr>am_CreatedAt := t', am_UpdatedAt := t', am_ID := i\<rparr>"
  have x: "am_WalletAddress x = []" "am_ID x = i" "am_ID (convertAccountDomainToModel a) = i"
    by (simp_all add: x_def a_def convertAccountDomainToModel_def)
  obtain q w5 where q: "repo_insert (db_mongo ?db) ''accounts'' (enc_account_model x) w4 = (q, w5)" by (metis surj_pair)
  have new: "\<not> (\<exists>e \<in> set (view w4 ''accounts''). map_of e ''_id'' = map_of (enc_account_model x) ''_id'')"
    using f(1,3) by (auto simp: v x enc_account_lookup)
  have r: "q = Ok ()" "view w5 = (view w)(''accounts'' := view w ''accounts'' @ [enc_account_model x])"
    using repo_insert_ok [OF W(2), of "''accounts''" "enc_account_model x" w4] q new
    unfolding v by simp_all
  have "account_Create ?db a w3 = (Ok (a\<lparr>ac_ID := i\<rparr>), w5)"
    using 4 q r(1) f(1) x(2,3)
    by (simp add: account_Create_def repo_CreateAccount_def fresh_id_def via_def Let_def x_def [symmetric])
  then have "CreateOrFindAccount (aw_uc wk) u c [] w = (Ok (Some (a\<lparr>ac_ID := i\<rparr>)), w5)"
    using 1 2 3 n(1) W(3,4)
    by (simp add: CreateOrFindAccount_def AccountRepositoryAdapter_def NewAccount_def a_def)
  with r(2) x(1) show ?thesis by blast
qed

lemma record_ready_more:
  assumes "record_ready re view wk A w" "\<And>x. x \<in> set as \<Longrightarrow> am_WalletAddress x = []"
    and "view w' ''accounts'' = view w ''accounts'' @ map enc_account_model as"
    and "view w' ''transactions'' = view w ''transactions'' @ map enc_transaction txs"
  shows "record_ready re view wk A w'"
proof -
  have "accounts_ok (view w')"
    using record_readyD(4) [OF assms(1)] by (auto simp: accounts_ok_def assms(3) account_doc_def)
  moreover have "unsigned_txs (view w')"
    using record_readyD(2) [OF assms(1)] by (auto simp: unsigned_txs_def assms(4) enc_transaction_unsigned)
  moreover have "filter (has_address a) (live_accounts (view w')) \<noteq> []"
    if "filter (has_address a) (live_accounts (view w)) \<noteq> []" for a
    using that by (simp add: live_accounts_def assms(3))
  ultimately show ?thesis using assms(1) by (auto simp: record_ready_def)
qed

text \<open>What recording adds to the database: one transaction, and accounts without an address.\<close>

definition adds :: "transaction_model list \<Rightarrow> account_model list \<Rightarrow> mstore \<Rightarrow> mstore \<Rightarrow> bool" where
  "adds txs as m m' \<longleftrightarrow> m' ''transactions'' = m ''transactions'' @ map enc_transaction txs
     \<and> m' ''accounts'' = m ''accounts'' @ map enc_account_model as
     \<and> (\<forall>x \<in> set as. am_WalletAddress x = [])"

lemma adds_refl: "adds [] [] m m"
  by (simp add: adds_def)

lemma adds_trans: "adds t a m m1 \<Longrightarrow> adds t' a' m1 m2 \<Longrightarrow> adds (t @ t') (a @ a') m m2"
  by (auto simp: adds_def)

lemma adds_ready:
  assumes "adds txs as (view w) (view w')" "record_ready re view wk A w"
  shows "record_ready re view wk A w'"
  by (rule record_ready_more [OF assms(2)]) (use assms(1) in \<open>simp_all add: adds_def\<close>)

lemma record_transaction_ready:
  assumes "record_ready re view wk A w" "address \<in> A"
  shows "\<exists>t as w'. record_transaction wk account u address (Ok k) h am su d w = (Ok (), w')
    \<and> adds [t] as (view w) (view w') \<and> length as = (if address = [] then 1 else 0)
    \<and> tm_Hash t = h \<and> record_ready re view wk A w'"
proof -
  note W = worker_okD [OF record_readyD(1) [OF assms(1)]]
  let ?db = "aw_db wk"
  obtain a as w1 where 1: "CreateOrFindAccount (aw_uc wk) u (field_oid account ''chainId'') address w = (Ok (Some a), w1)"
    "adds [] as (view w) (view w1)" "length as = (if address = [] then 1 else 0)"
  proof (cases "address = []")
    case True
    from CreateOrFind_empty [OF assms(1), of u "field_oid account ''chainId''"] obtain b w2 x where
      "CreateOrFindAccount (aw_uc wk) u (field_oid account ''chainId'') [] w = (Ok (Some b), w2)"
      "am_WalletAddress x = []" "view w2 = (view w)(''accounts'' := view w ''accounts'' @ [enc_account_model x])"
      by blast
    with True show ?thesis by (intro that [of b w2 "[x]"]) (simp_all add: adds_def)
  next
    case False
    from CreateOrFind_found [OF assms False, of u "field_oid account ''chainId''"] obtain b w2 where
      "CreateOrFindAccount (aw_uc wk) u (field_oid account ''chainId'') address w = (Ok (Some b), w2)"
      "view w2 = view w" by blast
    with False show ?thesis by (intro that [of b w2 "[]"]) (simp_all add: adds_refl)
  qed
  obtain i v1 where i: "db_new_id ?db w1 = (i, v1)" by (metis surj_pair)
  obtain c v2 where c: "db_now ?db v1 = (c, v2)" by (metis surj_pair)
  obtain e v3 where e: "db_now ?db v2 = (e, v3)" by (metis surj_pair)
  obtain t w2 where 2: "new_transaction ?db u (field_oid account ''_id'') (ac_ID a) k
      (field_oid account ''chainId'') h am su d w1 = (t, w2)" by (metis surj_pair)
  have t: "tm_ID t = i" "tm_Hash t = h" using 2 i c e by (auto simp: new_transaction_def)
  have v2: "view w2 = view w1" by (rule new_transaction_view [OF W(1) 2])
  note f = fresh_idsD(1,2) [OF record_readyD(3) [OF assms(1)] i]
  have "map_of (enc_transaction t) ''_id'' = Some (BId i)"
    using f(1) t(1) by (simp add: enc_transaction_def doc_simps del: map_of_append)
  with f(2) have n: "\<not> (\<exists>x \<in> set (view w2 ''transactions''). map_of x ''_id'' = map_of (enc_transaction t) ''_id'')"
    unfolding v2 by auto
  obtain q w3 where q: "mdo (db_mongo ?db) (MInsert ''transactions'' (enc_transaction t)) w2 = (q, w3)"
    by (metis surj_pair)
  have "view w3 = (view w1)(''transactions'' := view w1 ''transactions'' @ [enc_transaction t])"
    unfolding mongo_state [OF W(2) q] using n v2 by simp
  with 1(2) have ad: "adds [t] as (view w) (view w3)" by (simp add: adds_def)
  have "q = MNum 1" using mongo_okD [OF W(2) q] n by simp
  then have "record_transaction wk account u address (Ok k) h am su d w = (Ok (), w3)"
    using 1(1) 2 q by (simp add: record_transaction_def insert_transaction_def)
  with ad 1(3) t(2) adds_ready [OF ad assms(1)] show ?thesis by blast
qed

text \<open>
  A loop whose body records one transaction for each item, with the hash \<open>h x\<close>, and adds \<open>e x\<close>
  accounts without an address, in the worlds of \<open>ok\<close>. Run \<open>n\<close> times, it records every item \<open>n\<close> times.
\<close>

locale recording =
  fixes f :: "'a \<Rightarrow> 'w \<Rightarrow> unit res \<times> 'w" and view :: "'w \<Rightarrow> mstore" and ok :: "'w \<Rightarrow> bool"
    and X :: "'a set" and h :: "'a \<Rightarrow> string" and e :: "'a \<Rightarrow> nat"
  assumes records: "ok w \<Longrightarrow> x \<in> X \<Longrightarrow> \<exists>t as w'. f x w = (Ok (), w')
    \<and> adds [t] as (view w) (view w') \<and> length as = e x \<and> tm_Hash t = h x \<and> ok w'"
begin

lemma pool_records:
  assumes "ok w" "set xs \<subseteq> X"
  shows "\<exists>txs as w'. run_pool f xs w = (Ok 0, w') \<and> adds txs as (view w) (view w')
    \<and> map tm_Hash txs = map h xs \<and> length as = sum_list (map e xs) \<and> ok w'"
  using assms
proof (induction xs arbitrary: w)
  case Nil
  then show ?case by (intro exI [of _ "[]"] exI [of _ w]) (simp add: adds_refl)
next
  case (Cons x xs)
  then obtain t a w1 where 1: "f x w = (Ok (), w1)" "adds [t] a (view w) (view w1)" "length a = e x"
    "tm_Hash t = h x" "ok w1" using records [of w x] by auto
  have sub: "set xs \<subseteq> X" using Cons.prems(2) by simp
  from Cons.IH [OF 1(5) sub] obtain ts as w2 where 2: "run_pool f xs w1 = (Ok 0, w2)"
    "adds ts as (view w1) (view w2)" "map tm_Hash ts = map h xs" "length as = sum_list (map e xs)" "ok w2"
    by blast
  have "run_pool f (x # xs) w = (Ok 0, w2)" using 1(1) 2(1) by simp
  with adds_trans [OF 1(2) 2(2)] 1(3,4) 2(3-5) show ?case
    by (intro exI [of _ "[t] @ ts"] exI [of _ "a @ as"] exI [of _ w2]) simp
qed

lemma for_each_records:
  assumes "ok w" "set xs \<subseteq> X"
  shows "\<exists>txs as w'. for_each f xs w = (Ok (), w') \<and> adds txs as (view w) (view w')
    \<and> map tm_Hash txs = map h xs \<and> length as = sum_list (map e xs) \<and> ok w'"
proof -
  from pool_records [OF assms] obtain txs as w' where "run_pool f xs w = (Ok 0, w')"
    "adds txs as (view w) (view w')" "map tm_Hash txs = map h xs" "length as = sum_list (map e xs)" "ok w'" by blast
  then show ?thesis by (intro exI [of _ txs] exI [of _ as] exI [of _ w']) (simp add: for_each_def)
qed

text \<open>A run may do other things first, as long as they leave the database and \<open>ok\<close> alone.\<close>

lemma repeats:
  assumes "ok w" "set xs \<subseteq> X"
    and "\<And>w. ok w \<Longrightarrow> \<exists>w1. run w = for_each f xs w1 \<and> view w1 = view w \<and> ok w1"
  shows "\<exists>txs as. adds txs as (view w) (view (((\<lambda>w. snd (run w)) ^^ n) w))
    \<and> map tm_Hash txs = concat (replicate n (map h xs)) \<and> length as = n * sum_list (map e xs)
    \<and> ok (((\<lambda>w. snd (run w)) ^^ n) w)"
proof (induction n)
  case 0
  show ?case using assms(1) by (intro exI [of _ "[]"]) (simp add: adds_refl)
next
  case (Suc n)
  let ?v = "((\<lambda>w. snd (run w)) ^^ n) w"
  from Suc obtain txs as where 1: "adds txs as (view w) (view ?v)"
    "map tm_Hash txs = concat (replicate n (map h xs))" "length as = n * sum_list (map e xs)" "ok ?v" by blast
  from assms(3) [OF 1(4)] obtain w1 where w1: "run ?v = for_each f xs w1" "view w1 = view ?v" "ok w1" by blast
  from for_each_records [OF w1(3) assms(2)] obtain ts bs w2 where 2: "for_each f xs w1 = (Ok (), w2)"
    "adds ts bs (view w1) (view w2)" "map tm_Hash ts = map h xs" "length bs = sum_list (map e xs)" "ok w2" by blast
  have "((\<lambda>w. snd (run w)) ^^ Suc n) w = w2" using w1(1) 2(1) by simp
  moreover have "concat (replicate (Suc n) (map h xs)) = concat (replicate n (map h xs)) @ map h xs"
    by (simp add: replicate_append_same [symmetric])
  ultimately show ?case using adds_trans [OF 1(1) 2(2) [unfolded w1(2)]] 1(2,3) 2(3-5)
    by (intro exI [of _ "txs @ ts"] exI [of _ "as @ bs"]) simp
qed

end

section \<open>A worker over a database in memory\<close>

definition job_db :: "mstore db" where
  "job_db = mem_db\<lparr>db_new_id :=
     (\<lambda>m. (replicate (length (fresh_name ''transactions'' m) + length (fresh_name ''accounts'' m)) CHR ''f'', m))\<rparr>"

lemma job_db_ok: "db_ok (\<lambda>_ _. False) job_db id" "fresh_ids id job_db"
proof -
  show "db_ok (\<lambda>_ _. False) job_db id" using mem_db_ok by (simp add: db_ok_def job_db_def)
  have "replicate n CHR ''f'' \<noteq> nil_id" if "n > 24" for n
  proof
    assume "replicate n CHR ''f'' = nil_id"
    then have "length (replicate n CHR ''f'') = 24" by (simp only:) (simp add: nil_id_def)
    with that show False by simp
  qed
  moreover have "24 < length (fresh_name ''transactions'' w) + length (fresh_name ''accounts'' w)" for w
    by (rule trans_less_add1 [OF fresh_name_long])
  ultimately have n: "fst (db_new_id job_db w) \<noteq> nil_id" for w by (simp add: job_db_def)
  have "map_of d ''_id'' \<noteq> Some (BId (fst (db_new_id job_db w)))"
    if "d \<in> set (w c)" "c = ''transactions'' \<or> c = ''accounts''" for d c w
    using id_length [of d w c "fst (db_new_id job_db w)"] that by (auto simp: job_db_def)
  with n show "fresh_ids id job_db" by (auto simp: fresh_ids_def)
qed

definition served_client :: "(string \<Rightarrow> blob option \<Rightarrow> blob) \<Rightarrow> 'w http_client" where
  "served_client f = \<lparr>hdo = (\<lambda>_ u _ b w. (HResp 200 (f u b), w)), hrest = (\<lambda>_ _. None)\<rparr>"

definition job_worker :: "(string \<Rightarrow> blob option \<Rightarrow> blob) \<Rightarrow> mstore acct_worker" where
  "job_worker f = \<lparr>aw_db = job_db,
     aw_cache = \<lparr>cm_get = (\<lambda>_ w. (Ok VNil, w)), cm_set = (\<lambda>_ _ _ w. (Ok (), w)), cm_del = (\<lambda>_ w. (Ok (), w))\<rparr>,
     aw_uc = demo_uc\<lparr>au_accountRepo := AccountRepositoryAdapter job_db, au_db := job_db\<rparr>,
     aw_rm = \<lparr>rq_client = (\<lambda>_. served_client f), rq_sleep = (\<lambda>_ w. w), rq_node = Ok None, rq_status = (\<lambda>_. [])\<rparr>,
     aw_client = served_client f, aw_url = ''u'', aw_key = [], aw_text = (\<lambda>_. []), aw_time_text = (\<lambda>_. []), aw_fmt = (\<lambda>_. []),
     aw_sleep = (\<lambda>_ w. w), aw_oor = (\<lambda>_. 0)\<rparr>"

lemma job_worker_sel [simp]:
  "aw_db (job_worker f) = job_db" "aw_url (job_worker f) = ''u''" "aw_client (job_worker f) = served_client f"
  by (simp_all add: job_worker_def)

lemma served_indep: "http_indep (served_client f) view"
  by (simp add: served_client_def http_indep_def)

lemma job_worker_ok: "worker_ok (\<lambda>_ _. False) id (job_worker f)"
  using job_db_ok(1) by (simp add: worker_ok_def rq_indep_def job_worker_def served_indep)

lemma job_worker_request:
  "fst (rq_body (MakeBitcoinRequest (aw_rm (job_worker f)) url None w)) = Ok (f url None)"
  by (simp add: MakeBitcoinRequest_def makeRequest_def rq_attempts.simps job_worker_def served_client_def
      rq_body_def Let_def)

text \<open>A store with one account, of the address \<open>a\<close>, on the chain \<open>c1\<close>.\<close>

definition job_account :: "string \<Rightarrow> account_model" where
  "job_account a = demo_account\<lparr>am_WalletAddress := a\<rparr>"

definition job_store :: "string \<Rightarrow> mstore" where
  "job_store a = (\<lambda>c. if c = ''accounts'' then [enc_account_model (job_account a)] else [])"

lemma job_store_ready:
  assumes "a \<noteq> []"
  shows "record_ready (\<lambda>_ _. False) id (job_worker f) {a} (job_store a)"
proof -
  let ?d = "enc_account_model (job_account a)"
  have "is_live ?d" by (simp add: is_live_def not_deleted_def field_vals_def enc_account_lookup job_account_def
      demo_account_def convertAccountDomainToModel_def)
  moreover have "ac_WalletAddress (account_of ?d) = a"
    by (simp add: account_of_def dec_enc_account stored_account_def convertAccountModelToDomain_def job_account_def)
  ultimately have "filter (has_address a) (live_accounts (job_store a)) \<noteq> []"
    by (simp add: live_accounts_def job_store_def has_address_def)
  moreover have "accounts_ok (job_store a)" by (auto simp: accounts_ok_def job_store_def account_doc_def)
  ultimately show ?thesis using job_worker_ok job_db_ok(2) assms
    by (simp add: record_ready_def unsigned_txs_def job_store_def)
qed

end
