(* ===== verification/BtcWorker.thy ===== *)
theory BtcWorker
  imports WorkerStore
begin

text \<open>
  \<open>internal/worker/btc/worker.go\<close>: for every account of an active user on the Bitcoin chain the worker
  stores the balance, the sum of the unspent outputs, and records the outputs as received
  transactions.
\<close>

record btc_utxo =
  bu_TxHash :: string
  bu_TxHashBigEndian :: string
  bu_TxIndex :: int
  bu_TxOutputN :: int
  bu_Script :: string
  bu_Value :: int
  bu_ValueHex :: string
  bu_Confirmations :: int

definition dec_btc_utxo :: "json \<Rightarrow> btc_utxo option" where
  "dec_btc_utxo j =
     (if \<not> jstruct j then None
      else do {
        h \<leftarrow> jstr j ''tx_hash''; b \<leftarrow> jstr j ''tx_hash_big_endian''; i \<leftarrow> ji64 j ''tx_index'';
        n \<leftarrow> ji64 j ''tx_output_n''; s \<leftarrow> jstr j ''script''; v \<leftarrow> ji64 j ''value'';
        x \<leftarrow> jstr j ''value_hex''; c \<leftarrow> ji64 j ''confirmations'';
        Some \<lparr>bu_TxHash = h, bu_TxHashBigEndian = b, bu_TxIndex = i, bu_TxOutputN = n, bu_Script = s,
              bu_Value = v, bu_ValueHex = x, bu_Confirmations = c\<rparr> })"

definition dec_btc_unspent :: "blob \<Rightarrow> btc_utxo list option" where
  "dec_btc_unspent b =
     (case b of Enc j \<Rightarrow> if jstruct j then jlist dec_btc_utxo j ''unspent_outputs'' else None
      | Raw _ \<Rightarrow> None)"

record btc_tx_details =
  bd_Hash :: string
  bd_BlockTime :: int
  bd_Status :: string
  bd_FromAddr :: string
  bd_ToAddr :: string
  bd_Amount :: f64

text \<open>The \<open>error\<close> member of an answer, if it is text.\<close>

definition api_error :: "blob \<Rightarrow> string option" where
  "api_error b =
     (case b of
        Enc j \<Rightarrow>
          (if \<not> jstruct j then None
           else case jstr j ''error'' of Some e \<Rightarrow> if e = [] then None else Some e | None \<Rightarrow> None)
      | Raw _ \<Rightarrow> None)"

definition isValidBitcoinAddress :: "string \<Rightarrow> bool" where
  "isValidBitcoinAddress address \<longleftrightarrow>
     has_prefix address ''1'' \<or> has_prefix address ''3'' \<or> has_prefix address ''bc1''"

section \<open>Balance\<close>

definition satoshis :: "btc_utxo list \<Rightarrow> int" where
  "satoshis os = fold (\<lambda>ou t. i64_wrap (t + bu_Value ou)) os 0"

text \<open>The unspent outputs of an address: no outputs are reported as an error of the service.\<close>

definition btc_unspent :: "string \<Rightarrow> request_options option \<Rightarrow> 'w acct_worker \<Rightarrow> 'w \<Rightarrow> btc_utxo list res \<times> 'w" where
  "btc_unspent url opt wk w =
     (case rq_body (MakeBitcoinRequest (aw_rm wk) url opt w) of
        (Err e, w1) \<Rightarrow> (Err (EWrap ''error making request: '' e), w1)
      | (Panic p, w1) \<Rightarrow> (Panic p, w1)
      | (Ok b, w1) \<Rightarrow>
          (case api_error b of
             Some e \<Rightarrow> if e = ''No free outputs'' then (Ok [], w1) else (Err (EMsg (''API error: '' @ e)), w1)
           | None \<Rightarrow>
               (case dec_btc_unspent b of
                  Some os \<Rightarrow> (Ok os, w1)
                | None \<Rightarrow> (Err (EWrap ''error parsing response: '' (EMsg ''json: cannot unmarshal'')), w1))))"

definition balance_options :: "string \<Rightarrow> request_options" where
  "balance_options url =
     \<lparr>ro_Headers = Some [(''Content-Type'', ''application/json'')], ro_Timeout = 0, ro_Retries = 0,
      ro_Method = ''GET'', ro_URL = url\<rparr>"

definition getBitcoinAccountBalance :: "'w acct_worker \<Rightarrow> string \<Rightarrow> 'w \<Rightarrow> f64 res \<times> 'w" where
  "getBitcoinAccountBalance wk walletAddress w =
     (let url = aw_url wk @ ''/unspent?active='' @ walletAddress in
      case btc_unspent url (Some (balance_options url)) wk w of
        (Ok os, w1) \<Rightarrow> (Ok (f64_div_by (f64_of_int (satoshis os)) 100000000), w1)
      | (Err e, w1) \<Rightarrow> (Err e, w1)
      | (Panic p, w1) \<Rightarrow> (Panic p, w1))"

section \<open>Transactions\<close>

text \<open>The address of the first input, if the answer has one.\<close>

definition first_input_addr :: "gomap \<Rightarrow> string option" where
  "first_input_addr tx =
     (case obj_member tx ''inputs'' of
        Some (VList (input # _)) \<Rightarrow>
          (case vlookup input ''prev_out'' of
             Some prev \<Rightarrow> (case vlookup prev ''addr'' of Some (VStr a) \<Rightarrow> Some a | _ \<Rightarrow> None)
           | None \<Rightarrow> None)
      | _ \<Rightarrow> None)"

definition btc_getTransactionDetails ::
  "'w acct_worker \<Rightarrow> string \<Rightarrow> string \<Rightarrow> 'w \<Rightarrow> btc_tx_details res \<times> 'w" where
  "btc_getTransactionDetails wk txHash walletAddress w =
     (case rq_body (MakeBitcoinRequest (aw_rm wk) (aw_url wk @ ''/rawtx/'' @ txHash) None w) of
        (Err e, w1) \<Rightarrow> (Err (EWrap ''error making request: '' e), w1)
      | (Panic p, w1) \<Rightarrow> (Panic p, w1)
      | (Ok b, w1) \<Rightarrow>
          (case api_error b of
             Some e \<Rightarrow> (Err (EMsg (''API error: '' @ e)), w1)
           | None \<Rightarrow>
               (case unmarshal_map b of
                  None \<Rightarrow> (Err (EWrap ''error parsing transaction: '' (EMsg ''json: cannot unmarshal'')), w1)
                | Some tx \<Rightarrow>
                    (Ok \<lparr>bd_Hash = txHash,
                         bd_BlockTime = (case obj_member tx ''time'' of
                            Some (VFloat x) \<Rightarrow> i64_of_f64 (aw_oor wk) x | _ \<Rightarrow> 0),
                         bd_Status = ''success'',
                         bd_FromAddr = (case first_input_addr tx of Some a \<Rightarrow> a | None \<Rightarrow> ''unknown''),
                         bd_ToAddr = walletAddress, bd_Amount = Fin 0\<rparr>, w1))))"

definition btc_process_utxo ::
  "'w acct_worker \<Rightarrow> bdoc \<Rightarrow> string \<Rightarrow> string \<Rightarrow> bdoc \<Rightarrow> btc_utxo \<Rightarrow> 'w \<Rightarrow> unit res \<times> 'w" where
  "btc_process_utxo wk account walletAddress userId supportedCurrency utxo w =
     (case count_signature (aw_db wk) (bu_TxHashBigEndian utxo) w of
        (Err e, w1) \<Rightarrow> (Err e, w1)
      | (Panic p, w1) \<Rightarrow> (Panic p, w1)
      | (Ok n, w1) \<Rightarrow>
          if n > 0 then (Ok (), w1)
          else
            (case btc_getTransactionDetails wk (bu_TxHashBigEndian utxo) walletAddress w1 of
               (Err e, w2) \<Rightarrow> (Err e, w2)
             | (Panic p, w2) \<Rightarrow> (Panic p, w2)
             | (Ok d, w2) \<Rightarrow>
                 record_transaction wk account userId (bd_ToAddr d) (currency_of supportedCurrency)
                   (bu_TxHashBigEndian utxo) (f64_div_by (f64_of_int (bu_Value utxo)) 100000000) True
                   ''RECEIVE'' w2))"

definition btc_processTransactionHistory ::
  "'w acct_worker \<Rightarrow> bdoc \<Rightarrow> string \<Rightarrow> string \<Rightarrow> bdoc \<Rightarrow> 'w \<Rightarrow> unit res \<times> 'w" where
  "btc_processTransactionHistory wk account walletAddress userId supportedCurrency w =
     (case btc_unspent (aw_url wk @ ''/unspent?active='' @ walletAddress @ ''&limit=50'') None wk w of
        (Err e, w1) \<Rightarrow> (Err e, w1)
      | (Panic p, w1) \<Rightarrow> (Panic p, w1)
      | (Ok os, w1) \<Rightarrow> for_each (btc_process_utxo wk account walletAddress userId supportedCurrency) os w1)"

section \<open>Accounts\<close>

text \<open>
  An account without an identifier of its own is not worked on further once its balance is stored.
\<close>

definition btc_process_account :: "'w acct_worker \<Rightarrow> bdoc \<Rightarrow> 'w \<Rightarrow> unit res \<times> 'w" where
  "btc_process_account wk account w =
     (case map_of account ''walletAddress'' of
        Some (BStr walletAddress) \<Rightarrow>
          if walletAddress = [] then (Err (EMsg ''invalid wallet address for account''), w)
          else if \<not> isValidBitcoinAddress walletAddress
          then (Err (EMsg (''invalid Bitcoin address format: '' @ walletAddress)), w)
          else
            (case map_of account ''userId'' of
               Some (BId userId) \<Rightarrow>
                 (case getSupportedCurrency (aw_db wk) account w of
                    (Err e, w1) \<Rightarrow> (Err e, w1)
                  | (Panic p, w1) \<Rightarrow> (Panic p, w1)
                  | (Ok supportedCurrency, w1) \<Rightarrow>
                      (case getBitcoinAccountBalance wk walletAddress w1 of
                         (Err e, w2) \<Rightarrow> (Err e, w2)
                       | (Panic p, w2) \<Rightarrow> (Panic p, w2)
                       | (Ok balance, w2) \<Rightarrow>
                           (case store_balance (aw_db wk) account balance w2 of
                              (Err e, w3) \<Rightarrow> (Err e, w3)
                            | (Panic p, w3) \<Rightarrow> (Panic p, w3)
                            | (Ok _, w3) \<Rightarrow>
                                (case map_of account ''_id'' of
                                   Some (BId accountId) \<Rightarrow>
                                     btc_processTransactionHistory wk account walletAddress userId
                                       supportedCurrency (expire_portfolios (aw_cache wk) userId accountId w3)
                                 | _ \<Rightarrow> (Ok (), w3)))))
             | _ \<Rightarrow> (Err (EMsg ''invalid userId for account''), w))
      | _ \<Rightarrow> (Err (EMsg ''invalid wallet address for account''), w))"

text \<open>Accounts that fail are counted for the log only.\<close>

definition btc_process_accounts :: "'w acct_worker \<Rightarrow> bdoc list \<Rightarrow> 'w \<Rightarrow> unit res \<times> 'w" where
  "btc_process_accounts wk accounts w = for_each (btc_process_account wk) accounts w"

definition processBitcoinAccounts :: "'w acct_worker \<Rightarrow> 'w \<Rightarrow> unit res \<times> 'w" where
  "processBitcoinAccounts wk w =
     (case getActiveAccountsByChainId (aw_db wk) ''BTC'' w of
        (Err e, w1) \<Rightarrow> (Err e, w1)
      | (Panic p, w1) \<Rightarrow> (Panic p, w1)
      | (Ok accounts, w1) \<Rightarrow> btc_process_accounts wk accounts w1)"

section \<open>Jobs\<close>

definition enqueueBitcoinJob :: "'w queue_env \<Rightarrow> string \<Rightarrow> 'w \<Rightarrow> unit res \<times> 'w" where
  "enqueueBitcoinJob env queueName w = enqueue_account_job (qe_redis env) (qe_clock env) queueName w"

definition btc_startScheduler :: "'w queue_env \<Rightarrow> string \<Rightarrow> nat \<Rightarrow> 'w \<Rightarrow> 'w" where
  "btc_startScheduler env queueName ticks w = schedule_jobs (enqueueBitcoinJob env queueName) ticks w"

definition btc_Start ::
  "'w queue_env \<Rightarrow> 'w acct_worker \<Rightarrow> int \<Rightarrow> 'w queue_manager \<Rightarrow> 'w queue_manager" where
  "btc_Start env wk concurrency qm =
     start_account_worker env ''BitcoinBlockQueue'' concurrency (\<lambda>_. processBitcoinAccounts wk)
       (enqueueBitcoinJob env ''BitcoinBlockQueue'') qm"

section \<open>The database\<close>

lemma btc_unspent_view:
  assumes "rq_indep (aw_rm wk) view" shows "view (snd (btc_unspent url opt wk w)) = view w"
proof -
  obtain r w1 where r: "rq_body (MakeBitcoinRequest (aw_rm wk) url opt w) = (r, w1)" by (metis surj_pair)
  with bitcoin_body_view [OF assms r] show ?thesis
    by (simp add: btc_unspent_def split: res.split option.split)
qed

lemma btc_details_view:
  assumes "rq_indep (aw_rm wk) view" shows "view (snd (btc_getTransactionDetails wk h a w)) = view w"
proof -
  obtain r w1 where r: "rq_body (MakeBitcoinRequest (aw_rm wk) (aw_url wk @ ''/rawtx/'' @ h) None w) = (r, w1)"
    by (metis surj_pair)
  with bitcoin_body_view [OF assms r] show ?thesis
    by (simp add: btc_getTransactionDetails_def split: res.split option.split)
qed

lemma btc_process_utxo_le:
  assumes "worker_ok re view wk" "btc_process_utxo wk account a u cur x w = (r, w')"
  shows "worker_le (view w) (view w')"
proof -
  note W = worker_okD [OF assms(1)]
  obtain n w1 where 1: "count_signature (aw_db wk) (bu_TxHashBigEndian x) w = (n, w1)" by (metis surj_pair)
  obtain d w2 where 2: "btc_getTransactionDetails wk (bu_TxHashBigEndian x) a w1 = (d, w2)" by (metis surj_pair)
  have v: "view w1 = view w" "view w2 = view w"
    using count_signature_view [OF W(2), of "bu_TxHashBigEndian x" w] 1
      btc_details_view [OF W(5), of "bu_TxHashBigEndian x" a w1] 2 by simp_all
  have "w' = w1 \<or> w' = w2 \<or> (\<exists>b cu h am su e. record_transaction wk account u b cu h am su e w2 = (r, w'))"
    using assms(2) 1 2 by (auto simp: btc_process_utxo_def split: res.splits if_splits)
  with v record_transaction_le [OF assms(1)] show ?thesis by (metis worker_le_refl)
qed

lemma btc_history_le:
  assumes "worker_ok re view wk" "btc_processTransactionHistory wk account a u cur w = (r, w')"
  shows "worker_le (view w) (view w')"
proof -
  obtain q w1 where 1: "btc_unspent (aw_url wk @ ''/unspent?active='' @ a @ ''&limit=50'') None wk w = (q, w1)"
    by (metis surj_pair)
  have v: "view w1 = view w" using btc_unspent_view [OF worker_okD(5) [OF assms(1)]] 1 by (metis snd_conv)
  have "w' = w1 \<or> (\<exists>os. for_each (btc_process_utxo wk account a u cur) os w1 = (r, w'))"
    using assms(2) 1 by (auto simp: btc_processTransactionHistory_def split: res.splits)
  then show ?thesis
  proof (elim disjE exE)
    fix os assume e: "for_each (btc_process_utxo wk account a u cur) os w1 = (r, w')"
    have "worker_le (view w1) (view w')"
      by (rule worker.for_each_le [where view = view, OF _ e]) (rule btc_process_utxo_le [OF assms(1)])
    with v show ?thesis by simp
  qed (simp add: v worker_le_refl)
qed

lemma getBitcoinAccountBalance_view:
  "rq_indep (aw_rm wk) view \<Longrightarrow> view (snd (getBitcoinAccountBalance wk a w)) = view w"
  using btc_unspent_view [of wk view "aw_url wk @ ''/unspent?active='' @ a"]
  by (auto simp: getBitcoinAccountBalance_def Let_def split: prod.split res.split) (metis snd_conv)+

lemma btc_account_le:
  assumes "worker_ok re view wk" "btc_process_account wk account w = (r, w')"
  shows "worker_le (view w) (view w')"
proof (cases "\<exists>a u i. map_of account ''walletAddress'' = Some (BStr a) \<and> map_of account ''userId'' = Some (BId u)
    \<and> a \<noteq> [] \<and> isValidBitcoinAddress a")
  case False
  then have "w' = w" using assms(2)
    by (auto simp: btc_process_account_def split: option.splits bval.splits if_splits)
  then show ?thesis by (simp add: worker_le_refl)
next
  case True
  then obtain a u where au: "map_of account ''walletAddress'' = Some (BStr a)" "map_of account ''userId'' = Some (BId u)"
    "a \<noteq> []" "isValidBitcoinAddress a" by blast
  note W = worker_okD [OF assms(1)]
  obtain c w1 where 1: "getSupportedCurrency (aw_db wk) account w = (c, w1)" by (metis surj_pair)
  obtain b w2 where 2: "getBitcoinAccountBalance wk a w1 = (b, w2)" by (metis surj_pair)
  have v: "view w1 = view w" "view w2 = view w"
    using getSupportedCurrency_view [OF W(2), of account w] 1
      getBitcoinAccountBalance_view [OF W(5), of a w1] 2 by simp_all
  show ?thesis
  proof (cases "\<exists>x y. c = Ok x \<and> b = Ok y")
    case False
    then have "w' = w1 \<or> w' = w2" using assms(2) au 1 2
      by (auto simp: btc_process_account_def split: res.splits)
    with v show ?thesis by (metis worker_le_refl)
  next
    case True
    then obtain x y where xy: "c = Ok x" "b = Ok y" by blast
    obtain s w3 where 3: "store_balance (aw_db wk) account y w2 = (s, w3)" by (metis surj_pair)
    note le = store_balance_le [OF W(1) 3]
    have "w' = w3 \<or> (\<exists>i. btc_processTransactionHistory wk account a u x
        (expire_portfolios (aw_cache wk) u i w3) = (r, w'))"
      using assms(2) au 1 2 3 xy
      by (auto simp: btc_process_account_def split: res.splits option.splits bval.splits)
    with le v btc_history_le [OF assms(1)] expire_view [OF assms(1)] show ?thesis
      by (metis worker_le_trans)
  qed
qed

lemma btc_job_le:
  assumes "worker_ok re view wk"
  shows "worker_le (view w) (view (snd (processBitcoinAccounts wk w)))"
proof -
  obtain q w1 where 1: "getActiveAccountsByChainId (aw_db wk) ''BTC'' w = (q, w1)" by (metis surj_pair)
  have v: "view w1 = view w" using getActiveAccounts_view [OF worker_okD(1) [OF assms]] 1 by (metis snd_conv)
  obtain r w' where r: "processBitcoinAccounts wk w = (r, w')" by (metis surj_pair)
  have "w' = w1 \<or> (\<exists>xs. for_each (btc_process_account wk) xs w1 = (r, w'))"
    using r 1 by (auto simp: processBitcoinAccounts_def btc_process_accounts_def split: res.splits)
  then have "worker_le (view w1) (view w')"
  proof (elim disjE exE)
    fix xs assume e: "for_each (btc_process_account wk) xs w1 = (r, w')"
    show ?thesis
      by (rule worker.for_each_le [where view = view, OF _ e]) (rule btc_account_le [OF assms])
  qed (simp add: worker_le_refl)
  with v r show ?thesis by simp
qed

section \<open>The history\<close>

text \<open>The explorer answers: the outputs \<open>os\<close> of the address, and a transaction for each.\<close>

definition btc_history_url :: "'w acct_worker \<Rightarrow> string \<Rightarrow> string" where
  "btc_history_url wk a = aw_url wk @ ''/unspent?active='' @ a @ ''&limit=50''"

definition btc_answers :: "'w acct_worker \<Rightarrow> string \<Rightarrow> btc_utxo list \<Rightarrow> bool" where
  "btc_answers wk a os \<longleftrightarrow>
     (\<forall>w. \<exists>b. fst (rq_body (MakeBitcoinRequest (aw_rm wk) (btc_history_url wk a) None w)) = Ok b
        \<and> api_error b = None \<and> dec_btc_unspent b = Some os)
   \<and> (\<forall>x \<in> set os. \<forall>w. \<exists>b m.
        fst (rq_body (MakeBitcoinRequest (aw_rm wk) (aw_url wk @ ''/rawtx/'' @ bu_TxHashBigEndian x) None w)) = Ok b
        \<and> api_error b = None \<and> unmarshal_map b = Some m)"

definition btc_ready ::
  "(string \<Rightarrow> string \<Rightarrow> bool) \<Rightarrow> ('w \<Rightarrow> mstore) \<Rightarrow> 'w acct_worker \<Rightarrow> string \<Rightarrow> bdoc \<Rightarrow> btc_utxo list \<Rightarrow> 'w \<Rightarrow> bool" where
  "btc_ready re view wk a cur os w \<longleftrightarrow>
     record_ready re view wk {a} w \<and> a \<noteq> [] \<and> btc_answers wk a os \<and> is_ok (currency_of cur)"

lemma btc_utxo_records:
  assumes "btc_ready re view wk a cur os w" "x \<in> set os"
  shows "\<exists>t as w'. btc_process_utxo wk account a u cur x w = (Ok (), w')
    \<and> adds [t] as (view w) (view w') \<and> length as = 0
    \<and> tm_Hash t = bu_TxHashBigEndian x \<and> btc_ready re view wk a cur os w'"
proof -
  let ?h = "bu_TxHashBigEndian x"
  from assms(1) have R: "record_ready re view wk {a} w" and A: "btc_answers wk a os" and a: "a \<noteq> []"
    and C: "is_ok (currency_of cur)" by (simp_all add: btc_ready_def)
  from C obtain k where k: "currency_of cur = Ok k" by (rule is_okE)
  note W = worker_okD [OF record_readyD(1) [OF R]]
  obtain w1 where 1: "count_signature (aw_db wk) ?h w = (Ok 0, w1)" "view w1 = view w"
    using count_signature_zero [OF W(2) record_readyD(2) [OF R]] by blast
  obtain w2 where w2: "w2 = snd (btc_getTransactionDetails wk ?h a w1)" by blast
  have v2: "view w2 = view w" using btc_details_view [OF W(5)] 1(2) w2 by simp
  obtain b m where b: "fst (rq_body (MakeBitcoinRequest (aw_rm wk) (aw_url wk @ ''/rawtx/'' @ ?h) None w1)) = Ok b"
    "api_error b = None" "unmarshal_map b = Some m"
    using A assms(2) unfolding btc_answers_def by blast
  then have "\<exists>d. btc_getTransactionDetails wk ?h a w1 = (Ok d, w2) \<and> bd_ToAddr d = a"
    using w2 by (cases "rq_body (MakeBitcoinRequest (aw_rm wk) (aw_url wk @ ''/rawtx/'' @ ?h) None w1)")
      (simp add: btc_getTransactionDetails_def)
  then obtain d where d: "btc_getTransactionDetails wk ?h a w1 = (Ok d, w2)" "bd_ToAddr d = a" by blast
  obtain t as w3 where 3: "record_transaction wk account u a (Ok k) ?h
        (f64_div_by (f64_of_int (bu_Value x)) 100000000) True ''RECEIVE'' w2 = (Ok (), w3)"
    "adds [t] as (view w2) (view w3)" "length as = (if a = [] then 1 else 0)"
    "tm_Hash t = ?h" "record_ready re view wk {a} w3"
    using record_transaction_ready [OF record_ready_view [OF R v2] singletonI] by blast
  have "btc_process_utxo wk account a u cur x w = (Ok (), w3)"
    using 1(1) d 3(1) k by (simp add: btc_process_utxo_def)
  with 3 v2 a A C show ?thesis by (auto simp: btc_ready_def)
qed

interpretation btc_rec: recording "btc_process_utxo wk account a u cur" view "btc_ready re view wk a cur os"
  "set os" bu_TxHashBigEndian "\<lambda>_. 0"
  for wk account a u cur view re os
  by unfold_locales (rule btc_utxo_records)

lemma btc_run_each:
  assumes "btc_ready re view wk a cur os w"
  shows "\<exists>w1. btc_processTransactionHistory wk account a u cur w
      = for_each (btc_process_utxo wk account a u cur) os w1 \<and> view w1 = view w \<and> btc_ready re view wk a cur os w1"
proof -
  from assms have R: "record_ready re view wk {a} w" and A: "btc_answers wk a os"
    by (simp_all add: btc_ready_def)
  obtain b where b: "fst (rq_body (MakeBitcoinRequest (aw_rm wk) (btc_history_url wk a) None w)) = Ok b"
    "api_error b = None" "dec_btc_unspent b = Some os"
    using A unfolding btc_answers_def by blast
  obtain q w1 where q: "btc_unspent (btc_history_url wk a) None wk w = (q, w1)" by (metis surj_pair)
  have "q = Ok os"
    using q b by (cases "rq_body (MakeBitcoinRequest (aw_rm wk) (btc_history_url wk a) None w)")
      (simp add: btc_unspent_def)
  with q have "btc_processTransactionHistory wk account a u cur w
      = for_each (btc_process_utxo wk account a u cur) os w1"
    by (simp add: btc_processTransactionHistory_def btc_history_url_def)
  moreover have v: "view w1 = view w"
    using btc_unspent_view [OF worker_okD(5) [OF record_readyD(1) [OF R]]] q by (metis snd_conv)
  moreover have "btc_ready re view wk a cur os w1"
    using assms record_ready_view [OF R v] by (simp add: btc_ready_def)
  ultimately show ?thesis by blast
qed

text \<open>
  The Bitcoin history is recorded again by every run. A transaction is stored under \<open>hash\<close>, but
  looked for under \<open>signature\<close>: over a database without such a field, with an explorer that answers
  and a receiver that has an account, \<open>n\<close> runs store every unspent output of the address \<open>n\<close> times.
\<close>

theorem btc_history_repeats:
  assumes "record_ready re view wk {a} w" "a \<noteq> []" "btc_answers wk a os" "currency_of cur = Ok k"
  shows "\<exists>txs. adds txs [] (view w)
        (view (((\<lambda>w. snd (btc_processTransactionHistory wk account a u cur w)) ^^ n) w))
    \<and> map tm_Hash txs = concat (replicate n (map bu_TxHashBigEndian os))"
proof -
  have "btc_ready re view wk a cur os w" using assms by (simp add: btc_ready_def)
  from btc_rec.repeats [OF this order_refl btc_run_each, where account = account and u = u and n = n] show ?thesis by auto
qed

text \<open>An explorer that knows one unspent output of one satoshi.\<close>

definition demo_utxo :: btc_utxo where
  "demo_utxo = \<lparr>bu_TxHash = [], bu_TxHashBigEndian = ''h'', bu_TxIndex = 0, bu_TxOutputN = 0, bu_Script = [],
     bu_Value = 1, bu_ValueHex = [], bu_Confirmations = 0\<rparr>"

definition demo_explorer :: "string \<Rightarrow> blob option \<Rightarrow> blob" where
  "demo_explorer u b = Enc (JObj [(''unspent_outputs'',
     JArr [JObj [(''tx_hash_big_endian'', JStr ''h''), (''value'', JNum 1)]])])"

lemma demo_explorer_outputs:
  "api_error (demo_explorer u b) = None" "dec_btc_unspent (demo_explorer u b) = Some [demo_utxo]"
  "\<not> Option.is_none (unmarshal_map (demo_explorer u b))"
  by (simp_all only: demo_explorer_def, code_simp+)

theorem btc_history_repeats_witness:
  "\<exists>txs. adds txs [] (job_store ''1a'')
        (((\<lambda>w. snd (btc_processTransactionHistory (job_worker demo_explorer) [] ''1a'' ''u1''
            [(''currencyId'', BId ''k1'')] w)) ^^ 2) (job_store ''1a''))
    \<and> map tm_Hash txs = [''h'', ''h'']"
proof -
  have "btc_answers (job_worker demo_explorer) ''1a'' [demo_utxo]"
    using demo_explorer_outputs by (auto simp: btc_answers_def job_worker_request Option.is_none_def)
  moreover have "currency_of [(''currencyId'', BId ''k1'')] = Ok ''k1''" by (simp add: currency_of_def)
  ultimately show ?thesis
    using btc_history_repeats [OF job_store_ready [of "''1a''" demo_explorer], where account = "[]"
        and u = "''u1''" and n = 2 and os = "[demo_utxo]" and cur = "[(''currencyId'', BId ''k1'')]"
        and k = "''k1''"]
    by (simp add: demo_utxo_def numeral_2_eq_2)
qed

end
