(* ===== verification/TrxWorker.thy ===== *)
theory TrxWorker
  imports WorkerStore
begin

text \<open>
  \<open>internal/worker/trx/worker.go\<close>: the worker of the Tron accounts. It reads the accounts of active
  users once, when it starts; every job then stores the TRX balance of each of them and records its
  native transfers and, if the account's currency is a token, the transfers of the token. The
  functions this file has in common with the other workers are those of \<open>AccountWorkers\<close>.
\<close>

section \<open>Types\<close>

record trx_contract =
  tc_Type :: string
  tc_Parameter :: "json option"
  tc_OwnerAddress :: string
  tc_ToAddress :: string
  tc_Amount :: int

record trx_raw_data =
  rd_Contract :: "trx_contract list"
  rd_Timestamp :: int

record trx_transaction =
  tt_TxID :: string
  tt_BlockNumber :: int
  tt_BlockTimeStamp :: int
  tt_ContractAddress :: string
  tt_To :: string
  tt_From :: string
  tt_Value :: string
  tt_Type :: string
  tt_RawData :: "trx_raw_data option"
  tt_Confirmed :: bool

record trx_response =
  tp_Data :: "trx_transaction list"
  tp_Success :: bool

record trx_tx_details =
  td_Hash :: string
  td_BlockTime :: int
  td_Status :: string
  td_FromAddr :: string
  td_ToAddr :: string
  td_Amount :: f64
  td_TokenAddr :: string

text \<open>The parameter of a contract stays as it is, the fields of \<open>ParameterValue\<close> are not decoded.\<close>

definition dec_trx_contract :: "json \<Rightarrow> trx_contract option" where
  "dec_trx_contract j =
     (if \<not> jstruct j then None
      else do {
        t \<leftarrow> jstr j ''type'';
        Some \<lparr>tc_Type = t, tc_Parameter = jmember j ''parameter'', tc_OwnerAddress = [],
              tc_ToAddress = [], tc_Amount = 0\<rparr> })"

definition dec_trx_raw_data :: "json \<Rightarrow> trx_raw_data option" where
  "dec_trx_raw_data j =
     (if \<not> jstruct j then None
      else do {
        cs \<leftarrow> jlist dec_trx_contract j ''contract''; t \<leftarrow> ji64 j ''timestamp'';
        Some \<lparr>rd_Contract = cs, rd_Timestamp = t\<rparr> })"

definition dec_trx_transaction :: "json \<Rightarrow> trx_transaction option" where
  "dec_trx_transaction j =
     (if \<not> jstruct j then None
      else do {
        i \<leftarrow> jstr j ''txID''; n \<leftarrow> ji64 j ''blockNumber''; t \<leftarrow> ji64 j ''block_timestamp'';
        c \<leftarrow> jstr j ''contract_address''; to \<leftarrow> jstr j ''to''; f \<leftarrow> jstr j ''from''; v \<leftarrow> jstr j ''value'';
        y \<leftarrow> jstr j ''type'';
        r \<leftarrow> (case jmember j ''raw_data'' of None \<Rightarrow> Some None | Some d \<Rightarrow> map_option Some (dec_trx_raw_data d));
        b \<leftarrow> jbool j ''confirmed'';
        Some \<lparr>tt_TxID = i, tt_BlockNumber = n, tt_BlockTimeStamp = t, tt_ContractAddress = c, tt_To = to,
              tt_From = f, tt_Value = v, tt_Type = y, tt_RawData = r, tt_Confirmed = b\<rparr> })"

definition dec_trx_response :: "blob \<Rightarrow> trx_response option" where
  "dec_trx_response b =
     (case b of
        Raw _ \<Rightarrow> None
      | Enc j \<Rightarrow>
          (if \<not> jstruct j then None
           else do {
             ds \<leftarrow> jlist dec_trx_transaction j ''data''; s \<leftarrow> jbool j ''success'';
             m \<leftarrow> jmember_struct j ''meta''; l \<leftarrow> jmember_struct m ''links''; _ \<leftarrow> jstr l ''next'';
             _ \<leftarrow> ji64 m ''page''; _ \<leftarrow> jstr m ''fingerprint'';
             Some \<lparr>tp_Data = ds, tp_Success = s\<rparr> }))"

section \<open>Accounts\<close>

definition trx_getActiveAccountsByChainId :: "'w db \<Rightarrow> string \<Rightarrow> 'w \<Rightarrow> bdoc list res \<times> 'w" where
  "trx_getActiveAccountsByChainId = getActiveAccountsByChainId"

definition trx_getSupportedCurrency :: "'w db \<Rightarrow> bdoc \<Rightarrow> 'w \<Rightarrow> bdoc res \<times> 'w" where
  "trx_getSupportedCurrency = getSupportedCurrency"

definition trx_FindOrders :: "string \<Rightarrow> 'w db \<Rightarrow> 'w \<Rightarrow> bdoc list res \<times> 'w" where
  "trx_FindOrders = FindOrdersWithMatchingDepositAddress"

definition trx_ProcessWatchedAddress :: "'w acct_worker \<Rightarrow> bdoc list \<Rightarrow> 'w \<Rightarrow> unit res \<times> 'w" where
  "trx_ProcessWatchedAddress = ProcessWatchedAddress"

definition isValidTronAddress :: "string \<Rightarrow> bool" where
  "isValidTronAddress address \<longleftrightarrow> has_prefix address ''T'' \<and> length address = 34"

text \<open>The requests all have this form.\<close>

definition trx_fetch :: "'w acct_worker \<Rightarrow> string \<Rightarrow> 'w \<Rightarrow> blob res \<times> 'w" where
  "trx_fetch wk url w =
     (case hdo (aw_client wk) ''GET'' url
             (if aw_key wk = [] then [] else set_header ''TRON-PRO-API-KEY'' (aw_key wk) []) None w of
        (HReqErr e, w1) \<Rightarrow> (Err (EWrap ''error creating request: '' e), w1)
      | (HDoErr e, w1) \<Rightarrow> (Err (EWrap ''error making request: '' e), w1)
      | (HBodyErr c e, w1) \<Rightarrow>
          (if c \<noteq> 200 then (Err (EMsg (''unexpected status code: '' @ show_int 10 c @ '', response: '')), w1)
           else (Err (EWrap ''error reading response body: '' e), w1))
      | (HResp c b, w1) \<Rightarrow>
          (if c \<noteq> 200
           then (Err (EMsg (''unexpected status code: '' @ show_int 10 c @ '', response: '' @ aw_text wk b)), w1)
           else (Ok b, w1)))"

text \<open>The balance in SUN: a number, or text that is one; anything else counts as zero.\<close>

definition balance_value :: "(string \<times> gval) list \<Rightarrow> f64" where
  "balance_value info =
     (case map_of info ''balance'' of
        Some (VFloat x) \<Rightarrow> x
      | Some (VStr s) \<Rightarrow> (case parse_float s of Some x \<Rightarrow> x | None \<Rightarrow> Fin 0)
      | _ \<Rightarrow> Fin 0)"

definition getTronAccountBalance :: "'w acct_worker \<Rightarrow> string \<Rightarrow> 'w \<Rightarrow> f64 res \<times> 'w" where
  "getTronAccountBalance wk walletAddress w =
     (case trx_fetch wk (aw_url wk @ ''/v1/accounts/'' @ walletAddress) w of
        (Err e, w1) \<Rightarrow> (Err e, w1)
      | (Panic p, w1) \<Rightarrow> (Panic p, w1)
      | (Ok b, w1) \<Rightarrow>
          (case unmarshal_map b of
             None \<Rightarrow> (Err (EWrap ''error parsing response: '' (EMsg ''json: cannot unmarshal'')), w1)
           | Some data \<Rightarrow>
               (case obj_member data ''data'' of
                  Some (VList (VMap info # _)) \<Rightarrow> (Ok (f64_div_by (balance_value info) 1000000), w1)
                | Some (VList (_ # _)) \<Rightarrow> (Err (EMsg ''invalid account data format''), w1)
                | _ \<Rightarrow> (Ok (Fin 0), w1))))"

section \<open>Transactions\<close>

definition dec_trx_parameter :: "json \<Rightarrow> (string \<times> string \<times> int) option" where
  "dec_trx_parameter j =
     (if \<not> jstruct j then None
      else do {
        v \<leftarrow> jmember_struct j ''value''; ow \<leftarrow> jstr v ''owner_address''; to \<leftarrow> jstr v ''to_address'';
        a \<leftarrow> ji64 v ''amount''; Some (ow, to, a) })"

text \<open>A native transfer with its values filled in; \<open>None\<close> if the transaction is not one.\<close>

definition native_transfer :: "trx_transaction \<Rightarrow> trx_transaction option" where
  "native_transfer tx =
     (case tt_RawData tx of
        None \<Rightarrow> None
      | Some raw \<Rightarrow>
          (case rd_Contract raw of
             [] \<Rightarrow> None
           | c # cs \<Rightarrow>
               if tc_Type c \<noteq> ''TransferContract'' then None
               else
                 (case Option.bind (tc_Parameter c) dec_trx_parameter of
                    None \<Rightarrow> None
                  | Some (ow, to, a) \<Rightarrow>
                      if a = 0 then None
                      else Some (tx\<lparr>tt_RawData := Some (raw\<lparr>rd_Contract :=
                             c\<lparr>tc_OwnerAddress := ow, tc_ToAddress := to, tc_Amount := a\<rparr> # cs\<rparr>)\<rparr>))))"

definition extractTransactionDetails :: "trx_transaction \<Rightarrow> trx_tx_details" where
  "extractTransactionDetails tx =
     (let d = \<lparr>td_Hash = tt_TxID tx, td_BlockTime = tt_BlockTimeStamp tx, td_Status = ''success'',
               td_FromAddr = [], td_ToAddr = [], td_Amount = Fin 0, td_TokenAddr = []\<rparr> in
      if tt_ContractAddress tx \<noteq> [] then
        d\<lparr>td_TokenAddr := tt_ContractAddress tx, td_FromAddr := tt_From tx, td_ToAddr := tt_To tx,
          td_Amount := (if tt_Value tx = [] then Fin 0
                        else case parse_float (tt_Value tx) of
                               Some a \<Rightarrow> f64_div_by a 1000000 | None \<Rightarrow> Fin 0)\<rparr>
      else
        (case tt_RawData tx of
           Some raw \<Rightarrow>
             (case rd_Contract raw of
                c # _ \<Rightarrow>
                  if tc_Type c = ''TransferContract''
                  then d\<lparr>td_FromAddr := tc_OwnerAddress c, td_ToAddr := tc_ToAddress c,
                         td_Amount := f64_div_by (f64_of_int (tc_Amount c)) 1000000\<rparr>
                  else d
              | [] \<Rightarrow> d)
         | None \<Rightarrow> d))"

definition determineTransactionType :: "string \<Rightarrow> string \<Rightarrow> string" where
  "determineTransactionType from walletAddress =
     (if equal_fold from walletAddress then ''SEND'' else ''RECEIVE'')"

definition not_positive :: "f64 \<Rightarrow> bool" where
  "not_positive x \<longleftrightarrow> f64_lt x (Fin 0) \<or> f64_eq x (Fin 0)"

definition trx_process_tx ::
  "'w acct_worker \<Rightarrow> bdoc \<Rightarrow> string \<Rightarrow> string \<Rightarrow> trx_transaction \<Rightarrow> 'w \<Rightarrow> unit res \<times> 'w" where
  "trx_process_tx wk account walletAddress userId tx w =
     (case count_signature (aw_db wk) (tt_TxID tx) w of
        (Err e, w1) \<Rightarrow> (Err e, w1)
      | (Panic p, w1) \<Rightarrow> (Panic p, w1)
      | (Ok n, w1) \<Rightarrow>
          if n > 0 then (Ok (), w1)
          else
            let d = extractTransactionDetails tx in
            if not_positive (td_Amount d) then (Ok (), w1)
            else record_transaction wk account userId (td_ToAddr d) (Ok (field_oid account ''currencyId''))
                   (tt_TxID tx) (td_Amount d) True
                   (determineTransactionType (td_FromAddr d) walletAddress) w1)"

definition processTransactionBatch ::
  "'w acct_worker \<Rightarrow> bdoc \<Rightarrow> string \<Rightarrow> string \<Rightarrow> trx_transaction list \<Rightarrow> 'w \<Rightarrow> unit res \<times> 'w" where
  "processTransactionBatch wk account walletAddress userId txs w =
     for_each (trx_process_tx wk account walletAddress userId) txs w"

text \<open>The transactions of an answer, in the order in which the service lists them.\<close>

definition trx_transactions :: "'w acct_worker \<Rightarrow> string \<Rightarrow> 'w \<Rightarrow> trx_transaction list res \<times> 'w" where
  "trx_transactions wk url w =
     (case trx_fetch wk url w of
        (Err e, w1) \<Rightarrow> (Err e, w1)
      | (Panic p, w1) \<Rightarrow> (Panic p, w1)
      | (Ok b, w1) \<Rightarrow>
          (case dec_trx_response b of
             None \<Rightarrow> (Err (EWrap ''error parsing response: '' (EMsg ''json: cannot unmarshal'')), w1)
           | Some r \<Rightarrow> (Ok (tp_Data r), w1)))"

definition processNativeTransactions ::
  "'w acct_worker \<Rightarrow> bdoc \<Rightarrow> string \<Rightarrow> string \<Rightarrow> 'w \<Rightarrow> unit res \<times> 'w" where
  "processNativeTransactions wk account walletAddress userId w =
     (case trx_transactions wk (aw_url wk @ ''/v1/accounts/'' @ walletAddress
              @ ''/transactions?only_confirmed=true&limit=200&order_by=block_timestamp,desc'') w of
        (Err e, w1) \<Rightarrow> (Err e, w1)
      | (Panic p, w1) \<Rightarrow> (Panic p, w1)
      | (Ok txs, w1) \<Rightarrow>
          (case List.map_filter native_transfer txs of
             [] \<Rightarrow> (Ok (), w1)
           | ts \<Rightarrow> processTransactionBatch wk account walletAddress userId ts w1))"

definition processTokenTransactions ::
  "'w acct_worker \<Rightarrow> bdoc \<Rightarrow> string \<Rightarrow> string \<Rightarrow> string \<Rightarrow> 'w \<Rightarrow> unit res \<times> 'w" where
  "processTokenTransactions wk account walletAddress tokenAddress userId w =
     (case trx_transactions wk (aw_url wk @ ''/v1/accounts/'' @ walletAddress
              @ ''/transactions/trc20?only_confirmed=true&limit=30&order_by=block_timestamp,desc'') w of
        (Err e, w1) \<Rightarrow> (Err e, w1)
      | (Panic p, w1) \<Rightarrow> (Panic p, w1)
      | (Ok txs, w1) \<Rightarrow>
          (case filter (\<lambda>tx. equal_fold (tt_ContractAddress tx) tokenAddress) txs of
             [] \<Rightarrow> (Ok (), w1)
           | ts \<Rightarrow> processTransactionBatch wk account walletAddress userId ts w1))"

section \<open>Accounts\<close>

text \<open>The part after the balance is known; only a failed update of the account ends it early.\<close>

definition trx_expire :: "'w acct_worker \<Rightarrow> bdoc \<Rightarrow> 'w \<Rightarrow> 'w" where
  "trx_expire wk account w =
     (case (map_of account ''userId'', map_of account ''_id'') of
        (Some (BId userId), Some (BId accountId)) \<Rightarrow> expire_portfolios (aw_cache wk) userId accountId w
      | _ \<Rightarrow> w)"

definition trx_user :: "bdoc \<Rightarrow> string" where
  "trx_user account = (case map_of account ''userId'' of Some (BId u) \<Rightarrow> u | _ \<Rightarrow> nil_id)"

definition trx_history :: "'w acct_worker \<Rightarrow> bdoc \<Rightarrow> string \<Rightarrow> bdoc \<Rightarrow> 'w \<Rightarrow> unit res \<times> 'w" where
  "trx_history wk account walletAddress supportedCurrency w =
     (case processNativeTransactions wk account walletAddress (trx_user account) w of
        (Panic p, w1) \<Rightarrow> (Panic p, w1)
      | (_, w1) \<Rightarrow>
          (case map_of supportedCurrency ''tokenAddress'' of
             Some (BStr tokenAddress) \<Rightarrow>
               if tokenAddress = [] then (Ok (), w1)
               else
                 (case processTokenTransactions wk account walletAddress tokenAddress (trx_user account) w1 of
                    (Panic p, w2) \<Rightarrow> (Panic p, w2)
                  | (_, w2) \<Rightarrow> (Ok (), w2))
           | _ \<Rightarrow> (Ok (), w1)))"

definition trx_update ::
  "'w acct_worker \<Rightarrow> bdoc \<Rightarrow> string \<Rightarrow> bdoc \<Rightarrow> 'w \<Rightarrow> unit res \<times> 'w" where
  "trx_update wk account walletAddress supportedCurrency w =
     (case getTronAccountBalance wk walletAddress w of
        (Err e, w1) \<Rightarrow> (Err e, w1)
      | (Panic p, w1) \<Rightarrow> (Panic p, w1)
      | (Ok balance, w1) \<Rightarrow>
          (case store_balance (aw_db wk) account balance w1 of
             (Err e, w2) \<Rightarrow> (Err e, w2)
           | (Panic p, w2) \<Rightarrow> (Panic p, w2)
           | (Ok _, w2) \<Rightarrow> trx_history wk account walletAddress supportedCurrency (trx_expire wk account w2)))"

definition trx_process_account :: "'w acct_worker \<Rightarrow> bdoc \<Rightarrow> 'w \<Rightarrow> unit res \<times> 'w" where
  "trx_process_account wk account w =
     (case map_of account ''walletAddress'' of
        Some (BStr walletAddress) \<Rightarrow>
          if walletAddress = [] then (Err (EMsg ''invalid wallet address for account''), w)
          else if \<not> isValidTronAddress walletAddress
          then (Err (EMsg (''invalid TRON address format: '' @ walletAddress)), w)
          else
            (case trx_getSupportedCurrency (aw_db wk) account w of
               (Err e, w1) \<Rightarrow> (Err e, w1)
             | (Panic p, w1) \<Rightarrow> (Panic p, w1)
             | (Ok supportedCurrency, w1) \<Rightarrow>
                 (case trx_FindOrders walletAddress (aw_db wk) w1 of
                    (Err e, w2) \<Rightarrow> (Err e, w2)
                  | (Panic p, w2) \<Rightarrow> (Panic p, w2)
                  | (Ok watchedOrders, w2) \<Rightarrow>
                      (case trx_ProcessWatchedAddress wk watchedOrders w2 of
                         (Panic p, w3) \<Rightarrow> (Panic p, w3)
                       | (_, w3) \<Rightarrow> trx_update wk account walletAddress supportedCurrency w3)))
      | _ \<Rightarrow> (Err (EMsg ''invalid wallet address for account''), w))"

definition trx_process_accounts :: "'w acct_worker \<Rightarrow> bdoc list \<Rightarrow> 'w \<Rightarrow> unit res \<times> 'w" where
  "trx_process_accounts wk accounts w = for_each (trx_process_account wk) accounts w"

section \<open>Jobs\<close>

definition enqueueTronJob :: "'w queue_env \<Rightarrow> string \<Rightarrow> 'w \<Rightarrow> unit res \<times> 'w" where
  "enqueueTronJob env queueName w = enqueue_account_job (qe_redis env) (qe_clock env) queueName w"

definition trx_startScheduler :: "'w queue_env \<Rightarrow> string \<Rightarrow> nat \<Rightarrow> 'w \<Rightarrow> 'w" where
  "trx_startScheduler env queueName ticks w = schedule_jobs (enqueueTronJob env queueName) ticks w"

text \<open>The accounts are read here, once; the handler works on them in every job.\<close>

definition trx_Start ::
  "'w queue_env \<Rightarrow> 'w acct_worker \<Rightarrow> int \<Rightarrow> 'w queue_manager \<Rightarrow> unit res \<times> 'w queue_manager" where
  "trx_Start env wk concurrency qm =
     (case trx_getActiveAccountsByChainId (aw_db wk) ''TRX'' (qm_net qm) of
        (Err e, w) \<Rightarrow> (Err e, qm\<lparr>qm_net := w\<rparr>)
      | (Panic p, w) \<Rightarrow> (Panic p, qm\<lparr>qm_net := w\<rparr>)
      | (Ok accounts, w) \<Rightarrow>
          (Ok (), start_account_worker env ''TronBlockMonitor'' concurrency
                    (\<lambda>_. trx_process_accounts wk accounts)
                    (enqueueTronJob env ''TronBlockMonitor'') (qm\<lparr>qm_net := w\<rparr>)))"

section \<open>The database\<close>

lemma trx_fetch_view:
  assumes "http_indep (aw_client wk) view" shows "view (snd (trx_fetch wk url w)) = view w"
proof -
  let ?h = "if aw_key wk = [] then [] else set_header ''TRON-PRO-API-KEY'' (aw_key wk) []"
  obtain r w1 where r: "hdo (aw_client wk) ''GET'' url ?h None w = (r, w1)" by (metis surj_pair)
  have "view w1 = view w" using assms r unfolding http_indep_def by (metis snd_conv)
  with r show ?thesis unfolding trx_fetch_def r by (cases r) simp_all
qed

lemma trx_balance_view:
  assumes "http_indep (aw_client wk) view" shows "view (snd (getTronAccountBalance wk a w)) = view w"
proof -
  obtain r w1 where r: "trx_fetch wk (aw_url wk @ ''/v1/accounts/'' @ a) w = (r, w1)" by (metis surj_pair)
  have "view w1 = view w" using trx_fetch_view [OF assms] r by (metis snd_conv)
  with r show ?thesis
    by (simp add: getTronAccountBalance_def split: res.split option.split gval.split list.split)
qed

lemma trx_transactions_view:
  assumes "http_indep (aw_client wk) view" shows "view (snd (trx_transactions wk url w)) = view w"
proof -
  obtain r w1 where r: "trx_fetch wk url w = (r, w1)" by (metis surj_pair)
  have "view w1 = view w" using trx_fetch_view [OF assms] r by (metis snd_conv)
  with r show ?thesis by (simp add: trx_transactions_def split: res.split option.split)
qed

lemma trx_tx_le:
  assumes "worker_ok re view wk" "trx_process_tx wk account a u x w = (r, w')"
  shows "worker_le (view w) (view w')"
proof -
  note W = worker_okD [OF assms(1)]
  obtain n w1 where 1: "count_signature (aw_db wk) (tt_TxID x) w = (n, w1)" by (metis surj_pair)
  have v: "view w1 = view w" using count_signature_view [OF W(2), of "tt_TxID x" w] 1 by simp
  have "w' = w1 \<or> (\<exists>b cu h am su e. record_transaction wk account u b cu h am su e w1 = (r, w'))"
    using assms(2) 1 by (auto simp: trx_process_tx_def Let_def split: res.splits if_splits)
  then show ?thesis
  proof (elim disjE exE)
    fix b cu h am su e assume "record_transaction wk account u b cu h am su e w1 = (r, w')"
    from record_transaction_le [OF assms(1) this] v show ?thesis by simp
  qed (simp add: v worker_le_refl)
qed

lemma trx_batch_le:
  assumes "worker_ok re view wk" "processTransactionBatch wk account a u xs w = (r, w')"
  shows "worker_le (view w) (view w')"
  by (rule worker.for_each_le [where view = view, OF _ assms(2) [unfolded processTransactionBatch_def]])
    (rule trx_tx_le [OF assms(1)])

lemma trx_native_le:
  assumes "worker_ok re view wk" "processNativeTransactions wk account a u w = (r, w')"
  shows "worker_le (view w) (view w')"
proof -
  let ?url = "aw_url wk @ ''/v1/accounts/'' @ a
    @ ''/transactions?only_confirmed=true&limit=200&order_by=block_timestamp,desc''"
  obtain q w1 where 1: "trx_transactions wk ?url w = (q, w1)" by (metis surj_pair)
  have v: "view w1 = view w" using trx_transactions_view [OF worker_okD(6) [OF assms(1)]] 1 by (metis snd_conv)
  have "w' = w1 \<or> (\<exists>xs. processTransactionBatch wk account a u xs w1 = (r, w'))"
    using assms(2) unfolding processNativeTransactions_def 1 by (auto split: res.splits list.splits)
  then show ?thesis
  proof (elim disjE exE)
    fix xs assume "processTransactionBatch wk account a u xs w1 = (r, w')"
    from trx_batch_le [OF assms(1) this] v show ?thesis by simp
  qed (simp add: v worker_le_refl)
qed

lemma trx_token_le:
  assumes "worker_ok re view wk" "processTokenTransactions wk account a ta u w = (r, w')"
  shows "worker_le (view w) (view w')"
proof -
  let ?url = "aw_url wk @ ''/v1/accounts/'' @ a
    @ ''/transactions/trc20?only_confirmed=true&limit=30&order_by=block_timestamp,desc''"
  obtain q w1 where 1: "trx_transactions wk ?url w = (q, w1)" by (metis surj_pair)
  have v: "view w1 = view w" using trx_transactions_view [OF worker_okD(6) [OF assms(1)]] 1 by (metis snd_conv)
  have "w' = w1 \<or> (\<exists>xs. processTransactionBatch wk account a u xs w1 = (r, w'))"
    using assms(2) unfolding processTokenTransactions_def 1 by (auto split: res.splits list.splits)
  then show ?thesis
  proof (elim disjE exE)
    fix xs assume "processTransactionBatch wk account a u xs w1 = (r, w')"
    from trx_batch_le [OF assms(1) this] v show ?thesis by simp
  qed (simp add: v worker_le_refl)
qed

lemma trx_history_le:
  assumes "worker_ok re view wk" "trx_history wk account a cur w = (r, w')"
  shows "worker_le (view w) (view w')"
proof -
  obtain q w1 where 1: "processNativeTransactions wk account a (trx_user account) w = (q, w1)" by (metis surj_pair)
  note le = trx_native_le [OF assms(1) 1]
  have "w' = w1 \<or> (\<exists>ta s. processTokenTransactions wk account a ta (trx_user account) w1 = (s, w'))"
    using assms(2) 1
    by (auto simp: trx_history_def split: res.splits option.splits bval.splits if_splits prod.splits)
  then show ?thesis
  proof (elim disjE exE)
    fix ta s assume "processTokenTransactions wk account a ta (trx_user account) w1 = (s, w')"
    from trx_token_le [OF assms(1) this] le show ?thesis by (rule worker_le_trans [rotated])
  qed (use le in simp)
qed

lemma trx_update_le:
  assumes "worker_ok re view wk" "trx_update wk account a cur w = (r, w')"
  shows "worker_le (view w) (view w')"
proof -
  note W = worker_okD [OF assms(1)]
  obtain b w1 where 1: "getTronAccountBalance wk a w = (b, w1)" by (metis surj_pair)
  have v: "view w1 = view w" using trx_balance_view [OF W(6)] 1 by (metis snd_conv)
  show ?thesis
  proof (cases "\<exists>x. b = Ok x")
    case True
    then obtain x where x: "b = Ok x" ..
    obtain s w2 where 2: "store_balance (aw_db wk) account x w1 = (s, w2)" by (metis surj_pair)
    note le = store_balance_le [OF W(1) 2]
    have e: "view (trx_expire wk account w2) = view w2"
      using expire_view [OF assms(1)]
      by (auto simp: trx_expire_def split: option.split bval.split)
    have "w' = w2 \<or> trx_history wk account a cur (trx_expire wk account w2) = (r, w')"
      using assms(2) 1 2 x by (auto simp: trx_update_def split: res.splits)
    then show ?thesis
    proof
      assume "trx_history wk account a cur (trx_expire wk account w2) = (r, w')"
      from trx_history_le [OF assms(1) this] le e v show ?thesis by (simp add: worker_le_trans)
    qed (use le v in simp)
  next
    case False
    then have "w' = w1" using assms(2) 1 by (auto simp: trx_update_def split: res.splits)
    with v show ?thesis by (simp add: worker_le_refl)
  qed
qed

lemma trx_account_le:
  assumes "worker_ok re view wk" "trx_process_account wk account w = (r, w')"
  shows "worker_le (view w) (view w')"
proof (cases "\<exists>a. map_of account ''walletAddress'' = Some (BStr a) \<and> a \<noteq> [] \<and> isValidTronAddress a")
  case False
  then have "w' = w" using assms(2)
    by (auto simp: trx_process_account_def split: option.splits bval.splits if_splits)
  then show ?thesis by (simp add: worker_le_refl)
next
  case True
  then obtain a where a: "map_of account ''walletAddress'' = Some (BStr a)" "a \<noteq> []" "isValidTronAddress a" by blast
  note W = worker_okD [OF assms(1)]
  obtain c w1 where 1: "getSupportedCurrency (aw_db wk) account w = (c, w1)" by (metis surj_pair)
  obtain os w2 where 2: "FindOrdersWithMatchingDepositAddress a (aw_db wk) w1 = (os, w2)" by (metis surj_pair)
  have v: "view w1 = view w" "view w2 = view w"
    using getSupportedCurrency_view [OF W(2), of account w] 1 watched_orders_view [OF W(2), of a w1] 2 by simp_all
  show ?thesis
  proof (cases "\<exists>x y. c = Ok x \<and> os = Ok y")
    case False
    then have "w' = w1 \<or> w' = w2" using assms(2) a 1 2
      by (auto simp: trx_process_account_def trx_getSupportedCurrency_def trx_FindOrders_def split: res.splits)
    with v show ?thesis by (auto simp: worker_le_refl)
  next
    case True
    then obtain x y where xy: "c = Ok x" "os = Ok y" by blast
    obtain s w3 where 3: "ProcessWatchedAddress wk y w2 = (s, w3)" by (metis surj_pair)
    have v3: "view w3 = view w" using ProcessWatchedAddress_view [OF W(5)] 3 v by (metis snd_conv)
    have "w' = w3 \<or> trx_update wk account a x w3 = (r, w')" using assms(2) a 1 2 3 xy
      by (auto simp: trx_process_account_def trx_getSupportedCurrency_def trx_FindOrders_def
          trx_ProcessWatchedAddress_def split: res.splits)
    then show ?thesis
    proof
      assume "trx_update wk account a x w3 = (r, w')"
      from trx_update_le [OF assms(1) this] v3 show ?thesis by simp
    qed (simp add: v3 worker_le_refl)
  qed
qed

lemma trx_job_le:
  assumes "worker_ok re view wk"
  shows "worker_le (view w) (view (snd (trx_process_accounts wk accounts w)))"
proof -
  obtain r w' where r: "for_each (trx_process_account wk) accounts w = (r, w')" by (metis surj_pair)
  have "worker_le (view w) (view w')"
    by (rule worker.for_each_le [where view = view, OF _ r]) (rule trx_account_le [OF assms])
  with r show ?thesis by (simp add: trx_process_accounts_def)
qed

section \<open>The history\<close>

text \<open>Transactions that a batch records: a positive amount, and a receiver that has an account.\<close>

definition trx_recorded :: "string set \<Rightarrow> trx_transaction set" where
  "trx_recorded A = {x. td_ToAddr (extractTransactionDetails x) \<in> A
     \<and> \<not> not_positive (td_Amount (extractTransactionDetails x))}"

definition trx_receiver :: "trx_transaction \<Rightarrow> string" where
  "trx_receiver x = td_ToAddr (extractTransactionDetails x)"

lemma trx_tx_records:
  assumes "record_ready re view wk A w" "x \<in> trx_recorded A"
  shows "\<exists>t as w'. trx_process_tx wk account a u x w = (Ok (), w') \<and> adds [t] as (view w) (view w')
    \<and> length as = (if trx_receiver x = [] then 1 else 0) \<and> tm_Hash t = tt_TxID x \<and> record_ready re view wk A w'"
proof -
  let ?d = "extractTransactionDetails x"
  from assms(2) have x: "td_ToAddr ?d \<in> A" "\<not> not_positive (td_Amount ?d)" by (simp_all add: trx_recorded_def)
  obtain w1 where 1: "count_signature (aw_db wk) (tt_TxID x) w = (Ok 0, w1)" "view w1 = view w"
    using count_signature_zero [OF worker_okD(2) [OF record_readyD(1) [OF assms(1)]] record_readyD(2) [OF assms(1)]]
    by blast
  obtain t as w2 where 2: "record_transaction wk account u (td_ToAddr ?d) (Ok (field_oid account ''currencyId''))
        (tt_TxID x) (td_Amount ?d) True (determineTransactionType (td_FromAddr ?d) a) w1 = (Ok (), w2)"
    "adds [t] as (view w1) (view w2)" "length as = (if td_ToAddr ?d = [] then 1 else 0)"
    "tm_Hash t = tt_TxID x" "record_ready re view wk A w2"
    using record_transaction_ready [OF record_ready_view [OF assms(1) 1(2)] x(1)] by blast
  have "trx_process_tx wk account a u x w = (Ok (), w2)" using 1(1) 2(1) x(2) by (simp add: trx_process_tx_def)
  moreover have "length as = (if trx_receiver x = [] then 1 else 0)"
    using 2(3) by (simp add: trx_receiver_def)
  moreover have "adds [t] as (view w) (view w2)" using 2(2) 1(2) by simp
  ultimately show ?thesis using 2(4,5) by blast
qed

interpretation trx_rec: recording "trx_process_tx wk account a u" view "record_ready re view wk A"
  "trx_recorded A" tt_TxID "\<lambda>x. if trx_receiver x = [] then 1 else 0"
  for wk account a u view re A
  by unfold_locales (rule trx_tx_records)

lemma trx_batch_repeats:
  assumes "record_ready re view wk A w" "set txs \<subseteq> trx_recorded A"
  shows "\<exists>ts as. adds ts as (view w) (view (((\<lambda>w. snd (processTransactionBatch wk account a u txs w)) ^^ n) w))
    \<and> map tm_Hash ts = concat (replicate n (map tt_TxID txs))
    \<and> length as = n * sum_list (map (\<lambda>x. if trx_receiver x = [] then 1 else 0) txs)"
proof -
  have "\<exists>w1. processTransactionBatch wk account a u txs w = for_each (trx_process_tx wk account a u) txs w1
      \<and> view w1 = view w \<and> record_ready re view wk A w1" if "record_ready re view wk A w" for w
    using that by (auto simp: processTransactionBatch_def)
  from trx_rec.repeats [OF assms this, where n = n] show ?thesis by blast
qed

end
