(* ===== verification/SolWorker.thy ===== *)
theory SolWorker
  imports WorkerStore
begin

text \<open>
  \<open>internal/worker/sol/worker.go\<close>: the worker of the Solana accounts. It stores the SOL balance of an
  account, or the balance of the token its currency is, and records its ten most recent
  transactions. Requests to the RPC service are sent up to four times; for histories and
  transactions, a key the service rejects in the header is moved to the URL.
\<close>

section \<open>Keys and URLs\<close>

text \<open>The key at the end of the URL, if the URL has one.\<close>

definition url_key :: "string \<Rightarrow> string" where
  "url_key rpcURL =
     (let parts = split_on CHR ''/'' rpcURL in
      if contains rpcURL ''/solana/'' \<and> count_char CHR ''/'' rpcURL > 3 \<and> length parts > 4
      then last parts else [])"

definition balance_key :: "'w acct_worker \<Rightarrow> string" where
  "balance_key wk =
     (if contains (aw_url wk) ''/solana/'' \<and> count_char CHR ''/'' (aw_url wk) > 3 then url_key (aw_url wk)
      else aw_key wk)"

text \<open>The URL without the key, and the key to use with it.\<close>

definition base_url :: "string \<Rightarrow> string" where
  "base_url rpcURL = (if url_key rpcURL = [] then rpcURL
     else join_with CHR ''/'' (butlast (split_on CHR ''/'' rpcURL)))"

definition header_key :: "'w acct_worker \<Rightarrow> string" where
  "header_key wk = (if url_key (aw_url wk) = [] then aw_key wk else url_key (aw_url wk))"

definition sol_rpc_body :: "string \<Rightarrow> json list \<Rightarrow> blob" where
  "sol_rpc_body meth params = Enc (JObj [(''jsonrpc'', JStr ''2.0''), (''id'', JNum 1), (''method'', JStr meth),
     (''params'', JArr params)])"

definition sol_headers :: "string \<Rightarrow> (string \<times> string) list" where
  "sol_headers apiKey =
     (let hs = set_header ''Content-Type'' ''application/json'' []
      in if apiKey = [] then hs else set_header ''x-api-key'' apiKey hs)"

section \<open>Requests\<close>

text \<open>\<open>i\<close> attempts are left after this one, of three.\<close>

definition after_retries :: string where
  "after_retries = '' (after 3 retries)''"

fun rpc_send ::
  "'w acct_worker \<Rightarrow> string \<Rightarrow> (string \<times> string) list \<Rightarrow> nat \<Rightarrow> blob option \<Rightarrow> 'w \<Rightarrow> blob res \<times> 'w" where
  "rpc_send wk url hs i body w =
     (let again = (\<lambda>e w1. case i of 0 \<Rightarrow> (Err e, w1) | Suc k \<Rightarrow>
            rpc_send wk url hs k (resend (aw_client wk) body w1) (aw_sleep wk (int ((3 - k) ^ 2) * 500) w1))
      in case hdo (aw_client wk) ''POST'' url hs body w of
        (HReqErr e, w1) \<Rightarrow> (Err (EWrap ''failed to create HTTP request: '' e), w1)
      | (HDoErr e, w1) \<Rightarrow> again (EWrap (''failed to make RPC request'' @ after_retries @ '': '') e) w1
      | (HBodyErr c e, w1) \<Rightarrow> again (EWrap (''failed to read response body'' @ after_retries @ '': '') e) w1
      | (HResp c b, w1) \<Rightarrow>
          (if c = 200 then (Ok b, w1)
           else again (EMsg (''unexpected status code: '' @ show_int 10 c @ after_retries)) w1))"

declare rpc_send.simps [simp del]

text \<open>
  With authentication errors: the first one moves the key into the URL of a new request. If that
  request cannot be created, the next attempt sends a nil request, which panics.
\<close>

fun rpc_send_auth ::
  "'w acct_worker \<Rightarrow> string \<Rightarrow> string \<Rightarrow> string \<Rightarrow> (string \<times> string) list \<Rightarrow> blob \<Rightarrow> nat \<Rightarrow> blob option \<Rightarrow> 'w
     \<Rightarrow> blob res \<times> 'w" where
  "rpc_send_auth wk base apiKey url hs req i body w =
     (let again = (\<lambda>e w1. case i of 0 \<Rightarrow> (Err e, w1) | Suc k \<Rightarrow>
            rpc_send_auth wk base apiKey url hs req k (resend (aw_client wk) body w1)
              (aw_sleep wk (int ((3 - k) ^ 2) * 500) w1))
      in case hdo (aw_client wk) ''POST'' url hs body w of
        (HReqErr e, w1) \<Rightarrow>
          (if i = 3 then Err (EWrap ''failed to create HTTP request: '' e) else Panic nil_deref, w1)
      | (HDoErr e, w1) \<Rightarrow> again (EWrap (''failed to make RPC request'' @ after_retries @ '': '') e) w1
      | (HBodyErr c e, w1) \<Rightarrow> again (EWrap (''failed to read response body'' @ after_retries @ '': '') e) w1
      | (HResp c b, w1) \<Rightarrow>
          (if c = 401 \<or> c = 403 then
             (if i = 3 \<and> apiKey \<noteq> [] then
                rpc_send_auth wk base apiKey (base @ ''/'' @ apiKey) (sol_headers []) req 2 (Some req)
                  (aw_sleep wk 500 w1)
              else again (EMsg (''authentication failed with Ankr API (status '' @ show_int 10 c @ '')'')) w1)
           else if c = 200 then (Ok b, w1)
           else again (EMsg (''unexpected status code: '' @ show_int 10 c @ after_retries)) w1))"

declare rpc_send_auth.simps [simp del]

definition sol_balance_call :: "'w acct_worker \<Rightarrow> string \<Rightarrow> json list \<Rightarrow> 'w \<Rightarrow> blob res \<times> 'w" where
  "sol_balance_call wk meth params w =
     rpc_send wk (aw_url wk) (sol_headers (balance_key wk)) 3 (Some (sol_rpc_body meth params)) w"

definition sol_history_call :: "'w acct_worker \<Rightarrow> string \<Rightarrow> json list \<Rightarrow> 'w \<Rightarrow> blob res \<times> 'w" where
  "sol_history_call wk meth params w =
     (let req = sol_rpc_body meth params; base = base_url (aw_url wk); key = header_key wk
      in rpc_send_auth wk base key base (sol_headers key) req 3 (Some req) w)"

section \<open>Answers\<close>

text \<open>An RPC answer: the decoded result and the error, if there is one.\<close>

definition dec_rpc_error :: "json \<Rightarrow> (int \<times> string) option option" where
  "dec_rpc_error j =
     (case jmember j ''error'' of
        None \<Rightarrow> Some None
      | Some e \<Rightarrow> if jstruct e then do { c \<leftarrow> ji64 e ''code''; m \<leftarrow> jstr e ''message''; Some (Some (c, m)) } else None)"

definition sol_answer :: "string \<Rightarrow> (json \<Rightarrow> 'a option) \<Rightarrow> blob \<Rightarrow> 'a res" where
  "sol_answer what dec b =
     (case (case b of Enc j \<Rightarrow> if jstruct j then do { e \<leftarrow> dec_rpc_error j; a \<leftarrow> dec j; Some (e, a) } else None
            | Raw _ \<Rightarrow> None) of
        None \<Rightarrow> Err (EWrap (''failed to decode '' @ what @ '': '') (EMsg ''json: cannot unmarshal''))
      | Some (Some (c, m), _) \<Rightarrow> Err (EMsg (''RPC error: '' @ m @ '' (code: '' @ show_int 10 c @ '')''))
      | Some (None, a) \<Rightarrow> Ok a)"

definition dec_sol_balance :: "json \<Rightarrow> int option" where
  "dec_sol_balance j = do { r \<leftarrow> jmember_struct j ''result''; ji64 r ''value'' }"

definition dec_token_balance :: "json \<Rightarrow> f64 option" where
  "dec_token_balance j = do {
     r \<leftarrow> jmember_struct j ''result''; v \<leftarrow> jmember_struct r ''value'';
     _ \<leftarrow> jstr v ''amount''; _ \<leftarrow> ji64 v ''decimals''; jf64 v ''uiAmount'' }"

definition dec_text_of :: "string \<Rightarrow> json \<Rightarrow> string option" where
  "dec_text_of k j = (if jstruct j then jstr j k else None)"

definition dec_token_accounts :: "json \<Rightarrow> string list option" where
  "dec_token_accounts j = do { r \<leftarrow> jmember_struct j ''result''; jlist (dec_text_of ''pubkey'') r ''value'' }"

definition dec_signatures :: "json \<Rightarrow> string list option" where
  "dec_signatures j = jlist (dec_text_of ''signature'') j ''result''"

section \<open>Balances\<close>

definition getAssociatedTokenAccount :: "'w acct_worker \<Rightarrow> string \<Rightarrow> string \<Rightarrow> 'w \<Rightarrow> string res \<times> 'w" where
  "getAssociatedTokenAccount wk walletAddress tokenAddress w =
     (case sol_balance_call wk ''getTokenAccountsByOwner''
             [JStr walletAddress, JObj [(''mint'', JStr tokenAddress)], JObj [(''encoding'', JStr ''jsonParsed'')]] w of
        (Err e, w1) \<Rightarrow> (Err e, w1)
      | (Panic p, w1) \<Rightarrow> (Panic p, w1)
      | (Ok b, w1) \<Rightarrow>
          (case sol_answer ''RPC response'' dec_token_accounts b of
             Ok [] \<Rightarrow> (Ok [], w1) | Ok (a # _) \<Rightarrow> (Ok a, w1) | Err e \<Rightarrow> (Err e, w1) | Panic p \<Rightarrow> (Panic p, w1)))"

text \<open>The token address as text; \<open>aw_fmt\<close> prints a value that is none.\<close>

definition getSolanaTokenBalance :: "'w acct_worker \<Rightarrow> string \<Rightarrow> bdoc \<Rightarrow> 'w \<Rightarrow> f64 res \<times> 'w" where
  "getSolanaTokenBalance wk walletAddress supportedCurrency w =
     (let tokenAddress = (case map_of supportedCurrency ''tokenAddress'' of
            None \<Rightarrow> [] | Some BNull \<Rightarrow> [] | Some (BStr s) \<Rightarrow> s
          | Some v \<Rightarrow> if aw_fmt wk v = ''<nil>'' then [] else aw_fmt wk v) in
      if tokenAddress = [] then (Err (EMsg ''token address is empty in supported currency data''), w)
      else
        (case getAssociatedTokenAccount wk walletAddress tokenAddress w of
           (Err e, w1) \<Rightarrow> (Err (EWrap ''failed to get associated token account: '' e), w1)
         | (Panic p, w1) \<Rightarrow> (Panic p, w1)
         | (Ok tokenAccount, w1) \<Rightarrow>
             if tokenAccount = [] then (Ok (Fin 0), w1)
             else
               (case sol_balance_call wk ''getTokenAccountBalance'' [JStr tokenAccount] w1 of
                  (Err e, w2) \<Rightarrow> (Err e, w2)
                | (Panic p, w2) \<Rightarrow> (Panic p, w2)
                | (Ok b, w2) \<Rightarrow> (sol_answer ''RPC response'' dec_token_balance b, w2))))"

definition getSolanaAccountBalance :: "'w acct_worker \<Rightarrow> string \<Rightarrow> bdoc \<Rightarrow> 'w \<Rightarrow> f64 res \<times> 'w" where
  "getSolanaAccountBalance wk walletAddress supportedCurrency w =
     (let tokenAddress = (case map_of supportedCurrency ''tokenAddress'' of
            None \<Rightarrow> [] | Some BNull \<Rightarrow> [] | Some (BStr s) \<Rightarrow> s | Some v \<Rightarrow> aw_fmt wk v) in
      if tokenAddress \<noteq> [] \<and> tokenAddress \<noteq> ''<nil>'' \<and> tokenAddress \<noteq> ''null''
      then getSolanaTokenBalance wk walletAddress supportedCurrency w
      else
        (case sol_balance_call wk ''getBalance''
                [JStr walletAddress, JObj [(''commitment'', JStr ''confirmed'')]] w of
           (Err e, w1) \<Rightarrow> (Err e, w1)
         | (Panic p, w1) \<Rightarrow> (Panic p, w1)
         | (Ok b, w1) \<Rightarrow>
             (case sol_answer ''RPC response'' dec_sol_balance b of
                Ok v \<Rightarrow> (Ok (f64_div_by (f64_of_int v) 1000000000), w1)
              | Err e \<Rightarrow> (Err e, w1)
              | Panic p \<Rightarrow> (Panic p, w1))))"

section \<open>Transactions\<close>

record sol_instruction =
  si_ProgramIdIndex :: int
  si_Accounts :: "int list"
  si_Data :: string

record sol_tx_response =
  sx_Meta :: gval
  sx_AccountKeys :: "string list"
  sx_Instructions :: "sol_instruction list"
  sx_Signatures :: "string list"
  sx_BlockTime :: int

record sol_tx_details =
  sd_Signature :: string
  sd_BlockTime :: int
  sd_AccountKeys :: "string list"
  sd_Status :: string
  sd_FromAddress :: string
  sd_ToAddress :: string
  sd_Amount :: f64

definition dec_json_i64 :: "json \<Rightarrow> int option" where
  "dec_json_i64 j = ji64 (JObj [([], j)]) []"

definition dec_sol_instruction :: "json \<Rightarrow> sol_instruction option" where
  "dec_sol_instruction j =
     (if \<not> jstruct j then None
      else do {
        p \<leftarrow> ji64 j ''programIdIndex''; as \<leftarrow> jlist dec_json_i64 j ''accounts''; d \<leftarrow> jstr j ''data'';
        Some \<lparr>si_ProgramIdIndex = p, si_Accounts = as, si_Data = d\<rparr> })"

definition jany :: "json \<Rightarrow> string \<Rightarrow> gval option" where
  "jany j k = (case jmember j k of None \<Rightarrow> Some VNil | Some v \<Rightarrow> from_json v)"

definition dec_sol_tx_response :: "json \<Rightarrow> sol_tx_response option" where
  "dec_sol_tx_response j = do {
     _ \<leftarrow> jstr j ''jsonrpc''; _ \<leftarrow> ji64 j ''id'';
     r \<leftarrow> jmember_struct j ''result''; m \<leftarrow> jany r ''meta''; bt \<leftarrow> ji64 r ''blockTime'';
     t \<leftarrow> jmember_struct r ''transaction''; sg \<leftarrow> jlist dec_json_str t ''signatures'';
     msg \<leftarrow> jmember_struct t ''message''; ks \<leftarrow> jlist dec_json_str msg ''accountKeys'';
     _ \<leftarrow> jany msg ''header''; ins \<leftarrow> jlist dec_sol_instruction msg ''instructions'';
     _ \<leftarrow> jstr msg ''recentBlockhash'';
     Some \<lparr>sx_Meta = m, sx_AccountKeys = ks, sx_Instructions = ins, sx_Signatures = sg, sx_BlockTime = bt\<rparr> }"

definition system_program :: string where
  "system_program = ''11111111111111111111111111111111''"

definition token_program :: string where
  "token_program = ''TokenkegQfeZyiNwAJbNbGKPFXCWuBvf9Ss623VQ5DA''"

text \<open>The amount that leaves the account with the given index; other values leave it unchanged.\<close>

definition balance_change :: "gval \<Rightarrow> int \<Rightarrow> f64 \<Rightarrow> f64" where
  "balance_change meta fromIdx amount =
     (case (vlookup meta ''preBalances'', vlookup meta ''postBalances'') of
        (Some (VList pre), Some (VList post)) \<Rightarrow>
          if int (length pre) > fromIdx \<and> int (length post) > fromIdx then
            let val = (\<lambda>v. case v of VFloat x \<Rightarrow> x | _ \<Rightarrow> Fin 0);
                a = val (pre ! nat fromIdx); b = val (post ! nat fromIdx)
            in if f64_lt b a then f64_div_by (f64_sub a b) 1000000000 else amount
          else amount
      | _ \<Rightarrow> amount)"

text \<open>
  One instruction. The indices of the accounts are compared with the number of keys only: a negative
  one panics.
\<close>

definition transfer_step ::
  "sol_tx_response \<Rightarrow> sol_instruction \<Rightarrow> string \<times> string \<times> f64 \<Rightarrow> string + string \<times> string \<times> f64" where
  "transfer_step tx ins s =
     (case s of (from, to, amount) \<Rightarrow>
      let keys = sx_AccountKeys tx; n = int (length keys); p = si_ProgramIdIndex ins in
      if \<not> (0 \<le> p \<and> p < n) then Inr s
      else
        let prog = keys ! nat p; need = (if prog = system_program then 2 else 3) in
        if (prog \<noteq> system_program \<and> prog \<noteq> token_program) \<or> length (si_Accounts ins) < need then Inr s
        else
          let f = si_Accounts ins ! 0; t = si_Accounts ins ! 1 in
          if \<not> (f < n \<and> t < n) then Inr s
          else if f < 0 \<or> t < 0 then Inl ''index out of range''
          else Inr (keys ! nat f, keys ! nat t,
                    if prog = system_program then balance_change (sx_Meta tx) f amount else amount))"

definition extractTransferDetails :: "sol_tx_response \<Rightarrow> (string \<times> string \<times> f64) res" where
  "extractTransferDetails tx =
     (case each (transfer_step tx) (sx_Instructions tx)
             ((case sx_AccountKeys tx of k # _ \<Rightarrow> k | [] \<Rightarrow> []), [], Fin 0) of
        Inl p \<Rightarrow> Panic p | Inr s \<Rightarrow> Ok s)"

definition tx_failed :: "gval \<Rightarrow> bool" where
  "tx_failed meta = (case vlookup meta ''err'' of None \<Rightarrow> False | Some v \<Rightarrow> v \<noteq> VNil)"

definition sol_getTransactionDetails :: "'w acct_worker \<Rightarrow> string \<Rightarrow> 'w \<Rightarrow> sol_tx_details res \<times> 'w" where
  "sol_getTransactionDetails wk signature w =
     (case sol_history_call wk ''getTransaction'' [JStr signature,
             JObj [(''encoding'', JStr ''json''), (''maxSupportedTransactionVersion'', JNum 0)]] w of
        (Err e, w1) \<Rightarrow> (Err e, w1)
      | (Panic p, w1) \<Rightarrow> (Panic p, w1)
      | (Ok b, w1) \<Rightarrow>
          (case sol_answer ''transaction response'' dec_sol_tx_response b of
             Err e \<Rightarrow> (Err e, w1)
           | Panic p \<Rightarrow> (Panic p, w1)
           | Ok tx \<Rightarrow>
               (case extractTransferDetails tx of
                  Ok (f, t, a) \<Rightarrow>
                    (Ok \<lparr>sd_Signature = signature, sd_BlockTime = sx_BlockTime tx,
                         sd_AccountKeys = sx_AccountKeys tx,
                         sd_Status = (if tx_failed (sx_Meta tx) then ''failed'' else ''success''),
                         sd_FromAddress = f, sd_ToAddress = t, sd_Amount = a\<rparr>, w1)
                | Err e \<Rightarrow> (Err e, w1)
                | Panic p \<Rightarrow> (Panic p, w1))))"

definition sol_process_tx ::
  "'w acct_worker \<Rightarrow> bdoc \<Rightarrow> string \<Rightarrow> string \<Rightarrow> bdoc \<Rightarrow> string \<Rightarrow> 'w \<Rightarrow> unit res \<times> 'w" where
  "sol_process_tx wk account walletAddress userId supportedCurrency signature w =
     (case count_signature (aw_db wk) signature w of
        (Err e, w1) \<Rightarrow> (Err (EWrap ''failed to check if transaction exists: '' e), w1)
      | (Panic p, w1) \<Rightarrow> (Panic p, w1)
      | (Ok n, w1) \<Rightarrow>
          if n > 0 then (Ok (), w1)
          else
            (case sol_getTransactionDetails wk signature w1 of
               (Err e, w2) \<Rightarrow> (Err (EWrap ''failed to get transaction details: '' e), w2)
             | (Panic p, w2) \<Rightarrow> (Panic p, w2)
             | (Ok d, w2) \<Rightarrow>
                 record_transaction wk account userId (sd_ToAddress d) (currency_of supportedCurrency) signature
                   (sd_Amount d) (sd_Status d = ''success'')
                   (if equal_fold walletAddress (sd_ToAddress d) then ''RECEIVE'' else ''SEND'') w2))"

definition getRecentTransactionSignatures :: "'w acct_worker \<Rightarrow> string \<Rightarrow> 'w \<Rightarrow> string list res \<times> 'w" where
  "getRecentTransactionSignatures wk walletAddress w =
     (case sol_history_call wk ''getSignaturesForAddress''
             [JStr walletAddress, JObj [(''limit'', JNum 20)]] w of
        (Err e, w1) \<Rightarrow> (Err e, w1)
      | (Panic p, w1) \<Rightarrow> (Panic p, w1)
      | (Ok b, w1) \<Rightarrow> (sol_answer ''RPC response'' dec_signatures b, w1))"

definition sol_processTransactionHistory ::
  "'w acct_worker \<Rightarrow> bdoc \<Rightarrow> string \<Rightarrow> string \<Rightarrow> bdoc \<Rightarrow> 'w \<Rightarrow> unit res \<times> 'w" where
  "sol_processTransactionHistory wk account walletAddress userId supportedCurrency w =
     (case getRecentTransactionSignatures wk walletAddress w of
        (Err e, w1) \<Rightarrow> (Err (EWrap ''failed to get recent transactions: '' e), w1)
      | (Panic p, w1) \<Rightarrow> (Panic p, w1)
      | (Ok ss, w1) \<Rightarrow>
          for_each (sol_process_tx wk account walletAddress userId supportedCurrency) (take 10 ss) w1)"

end
