(* ===== verification/SolAccounts.thy ===== *)
theory SolAccounts
  imports SolWorker
begin

text \<open>
  The accounts and jobs of \<open>internal/worker/sol/worker.go\<close>, and what its runs do to the database. The
  functions this file has in common with the other workers are those of \<open>AccountWorkers\<close>.
\<close>

section \<open>Accounts\<close>

definition sol_getActiveAccountsByChainId :: "'w db \<Rightarrow> string \<Rightarrow> 'w \<Rightarrow> bdoc list res \<times> 'w" where
  "sol_getActiveAccountsByChainId = getActiveAccountsByChainId"

definition sol_FindOrders :: "string \<Rightarrow> 'w db \<Rightarrow> 'w \<Rightarrow> bdoc list res \<times> 'w" where
  "sol_FindOrders = FindOrdersWithMatchingDepositAddress"

definition sol_ProcessWatchedAddress :: "'w acct_worker \<Rightarrow> bdoc list \<Rightarrow> 'w \<Rightarrow> unit res \<times> 'w" where
  "sol_ProcessWatchedAddress = ProcessWatchedAddress"

text \<open>
  The copy of this worker: without a match it reads a sample of the collection for the log, and a
  match gets an empty token address if it has none.
\<close>

definition sol_getSupportedCurrency :: "'w db \<Rightarrow> bdoc \<Rightarrow> 'w \<Rightarrow> bdoc res \<times> 'w" where
  "sol_getSupportedCurrency db account w =
     (case map_of account ''chainId'' of
        None \<Rightarrow> (Err (EMsg ''chainId is missing from account''), w)
      | Some BNull \<Rightarrow> (Err (EMsg ''chainId is missing from account''), w)
      | Some v \<Rightarrow>
          (case oid_of v of
             None \<Rightarrow> (Err (EWrap (case v of BStr _ \<Rightarrow> ''invalid chainId format: ''
                                  | _ \<Rightarrow> ''failed to convert chainId to ObjectID: '')
                            (EMsg ''the provided hex string is not a valid ObjectID'')), w)
           | Some chainId \<Rightarrow>
               (case mongo_find (db_mongo db) ''supportedcurrencies'' (currency_filter chainId account) w of
                  (Err e, w1) \<Rightarrow> (Err (EWrap ''failed to query database: '' e), w1)
                | (Panic p, w1) \<Rightarrow> (Panic p, w1)
                | (Ok [], w1) \<Rightarrow>
                    (Ok (default_currency chainId),
                     snd (mongo_find (db_mongo db) ''supportedcurrencies'' (FAll []) w1))
                | (Ok (c # _), w1) \<Rightarrow>
                    (Ok (if map_of c ''tokenAddress'' = None
                         then AList.update ''tokenAddress'' (BStr []) c else c), w1))))"

text \<open>A balance that cannot be read is logged, and zero is stored.\<close>

definition sol_update ::
  "'w acct_worker \<Rightarrow> bdoc \<Rightarrow> string \<Rightarrow> string \<Rightarrow> bdoc \<Rightarrow> 'w \<Rightarrow> unit res \<times> 'w" where
  "sol_update wk account walletAddress userId supportedCurrency w =
     (case getSolanaAccountBalance wk walletAddress supportedCurrency w of
        (Panic p, w1) \<Rightarrow> (Panic p, w1)
      | (r, w1) \<Rightarrow>
          (case store_balance (aw_db wk) account (case r of Ok b \<Rightarrow> b | _ \<Rightarrow> Fin 0) w1 of
             (Err e, w2) \<Rightarrow> (Err e, w2)
           | (Panic p, w2) \<Rightarrow> (Panic p, w2)
           | (Ok _, w2) \<Rightarrow>
               sol_processTransactionHistory wk account walletAddress userId supportedCurrency w2))"

definition sol_process_account :: "'w acct_worker \<Rightarrow> bdoc \<Rightarrow> 'w \<Rightarrow> unit res \<times> 'w" where
  "sol_process_account wk account w =
     (case map_of account ''walletAddress'' of
        Some (BStr walletAddress) \<Rightarrow>
          if walletAddress = [] then (Err (EMsg ''invalid wallet address for account''), w)
          else
            (case map_of account ''userId'' of
               Some (BId userId) \<Rightarrow>
                 (case sol_getSupportedCurrency (aw_db wk) account w of
                    (Err e, w1) \<Rightarrow> (Err e, w1)
                  | (Panic p, w1) \<Rightarrow> (Panic p, w1)
                  | (Ok supportedCurrency, w1) \<Rightarrow>
                      (case sol_FindOrders walletAddress (aw_db wk) w1 of
                         (Err e, w2) \<Rightarrow> (Err e, w2)
                       | (Panic p, w2) \<Rightarrow> (Panic p, w2)
                       | (Ok watchedOrders, w2) \<Rightarrow>
                           (case sol_ProcessWatchedAddress wk watchedOrders w2 of
                              (Panic p, w3) \<Rightarrow> (Panic p, w3)
                            | (_, w3) \<Rightarrow> sol_update wk account walletAddress userId supportedCurrency w3)))
             | _ \<Rightarrow> (Err (EMsg ''invalid userId for account''), w))
      | _ \<Rightarrow> (Err (EMsg ''invalid wallet address for account''), w))"

definition sol_process_accounts :: "'w acct_worker \<Rightarrow> bdoc list \<Rightarrow> 'w \<Rightarrow> unit res \<times> 'w" where
  "sol_process_accounts wk accounts w =
     (case run_pool (sol_process_account wk) accounts w of
        (Ok n, w1) \<Rightarrow>
          (if n > 0
           then (Err (EMsg (''failed to process '' @ show_nat 10 n @ '' of ''
                            @ show_nat 10 (length accounts) @ '' accounts'')), w1)
           else (Ok (), w1))
      | (Err e, w1) \<Rightarrow> (Err e, w1)
      | (Panic p, w1) \<Rightarrow> (Panic p, w1))"

definition processSolanaAccounts :: "'w acct_worker \<Rightarrow> 'w \<Rightarrow> unit res \<times> 'w" where
  "processSolanaAccounts wk w =
     (case sol_getActiveAccountsByChainId (aw_db wk) ''SOL'' w of
        (Err e, w1) \<Rightarrow> (Err e, w1)
      | (Panic p, w1) \<Rightarrow> (Panic p, w1)
      | (Ok accounts, w1) \<Rightarrow> sol_process_accounts wk accounts w1)"

section \<open>Jobs\<close>

definition enqueueSolJob :: "'w queue_env \<Rightarrow> string \<Rightarrow> 'w \<Rightarrow> unit res \<times> 'w" where
  "enqueueSolJob env queueName w = enqueue_account_job (qe_redis env) (qe_clock env) queueName w"

definition sol_startScheduler :: "'w queue_env \<Rightarrow> string \<Rightarrow> nat \<Rightarrow> 'w \<Rightarrow> 'w" where
  "sol_startScheduler env queueName ticks w = schedule_jobs (enqueueSolJob env queueName) ticks w"

definition sol_Start ::
  "'w queue_env \<Rightarrow> 'w acct_worker \<Rightarrow> int \<Rightarrow> 'w queue_manager \<Rightarrow> 'w queue_manager" where
  "sol_Start env wk concurrency qm =
     start_account_worker env ''SolanaBlockMonitor'' concurrency (\<lambda>_. processSolanaAccounts wk)
       (enqueueSolJob env ''SolanaBlockMonitor'') qm"

section \<open>The database\<close>

definition client_indep :: "'w acct_worker \<Rightarrow> ('w \<Rightarrow> 'v) \<Rightarrow> bool" where
  "client_indep wk view \<longleftrightarrow> http_indep (aw_client wk) view \<and> (\<forall>t w. view (aw_sleep wk t w) = view w)"

lemma client_hdo:
  "client_indep wk view \<Longrightarrow> hdo (aw_client wk) m u h b w = (r, w1) \<Longrightarrow> view w1 = view w"
  unfolding client_indep_def http_indep_def by (metis snd_conv)

lemma rpc_send_view:
  assumes "client_indep wk view" shows "view (snd (rpc_send wk url hs i body w)) = view w"
proof (induction i arbitrary: body w)
  case 0
  obtain r w1 where r: "hdo (aw_client wk) ''POST'' url hs body w = (r, w1)" by (metis surj_pair)
  with client_hdo [OF assms r] show ?case by (subst rpc_send.simps) (cases r; simp add: Let_def)
next
  case (Suc i)
  obtain r w1 where r: "hdo (aw_client wk) ''POST'' url hs body w = (r, w1)" by (metis surj_pair)
  have "view (aw_sleep wk t w1) = view w" for t
    using client_hdo [OF assms r] assms by (simp add: client_indep_def)
  with r client_hdo [OF assms r] Suc.IH show ?case by (subst rpc_send.simps) (cases r; simp add: Let_def)
qed

lemma rpc_send_auth_view:
  assumes "client_indep wk view" shows "view (snd (rpc_send_auth wk base key url hs req i body w)) = view w"
proof -
  have s: "view (aw_sleep wk t w1) = view w"
    if "hdo (aw_client wk) ''POST'' url hs body w = (r, w1)" for t url hs body w r w1
    using client_hdo [OF assms that] assms by (simp add: client_indep_def)
  have small: "view (snd (rpc_send_auth wk base key url hs req i body w)) = view w" if "i < 3" for i url hs body w
    using that
  proof (induction i arbitrary: url hs body w)
    case 0
    obtain r w1 where r: "hdo (aw_client wk) ''POST'' url hs body w = (r, w1)" by (metis surj_pair)
    with client_hdo [OF assms r] show ?case by (subst rpc_send_auth.simps) (cases r; simp add: Let_def)
  next
    case (Suc i)
    obtain r w1 where r: "hdo (aw_client wk) ''POST'' url hs body w = (r, w1)" by (metis surj_pair)
    with client_hdo [OF assms r] s [OF r] Suc show ?case
      by (subst rpc_send_auth.simps) (cases r; simp add: Let_def)
  qed
  have three: "view (snd (rpc_send_auth wk base key url hs req 3 body w)) = view w" for url hs body w
  proof -
    obtain r w1 where r: "hdo (aw_client wk) ''POST'' url hs body w = (r, w1)" by (metis surj_pair)
    with client_hdo [OF assms r] s [OF r] small [of 2] show ?thesis
      by (subst rpc_send_auth.simps) (cases r; auto simp: Let_def numeral_3_eq_3 numeral_2_eq_2)
  qed
  show ?thesis
  proof (induction i arbitrary: url hs body w)
    case 0
    show ?case by (rule small) simp
  next
    case (Suc i)
    obtain r w1 where r: "hdo (aw_client wk) ''POST'' url hs body w = (r, w1)" by (metis surj_pair)
    show ?case
    proof (cases "Suc i = 3")
      case True
      with three show ?thesis by simp
    next
      case False
      with r client_hdo [OF assms r] s [OF r] Suc.IH show ?thesis
        by (subst rpc_send_auth.simps) (cases r; simp add: Let_def)
    qed
  qed
qed

lemma sol_calls_view:
  assumes "client_indep wk view"
  shows "view (snd (sol_balance_call wk m ps w)) = view w" "view (snd (sol_history_call wk m ps w)) = view w"
  by (simp_all add: sol_balance_call_def sol_history_call_def Let_def rpc_send_view [OF assms]
      rpc_send_auth_view [OF assms])

lemma sol_balance_call_viewD:
  "client_indep wk view \<Longrightarrow> sol_balance_call wk m ps w = (r, w1) \<Longrightarrow> view w1 = view w"
  using sol_calls_view(1) by (metis snd_conv)

lemma sol_history_call_viewD:
  "client_indep wk view \<Longrightarrow> sol_history_call wk m ps w = (r, w1) \<Longrightarrow> view w1 = view w"
  using sol_calls_view(2) by (metis snd_conv)

lemma token_account_view:
  assumes "client_indep wk view" "getAssociatedTokenAccount wk a t w = (r, w')"
  shows "view w' = view w"
  using assms(2)
  by (auto simp: getAssociatedTokenAccount_def Let_def dest!: sol_balance_call_viewD [OF assms(1)]
      split: prod.splits res.splits list.splits)

lemma token_balance_view:
  assumes "client_indep wk view" "getSolanaTokenBalance wk a cur w = (r, w')"
  shows "view w' = view w"
  using assms(2)
  by (auto simp: getSolanaTokenBalance_def Let_def dest!: sol_balance_call_viewD [OF assms(1)] token_account_view [OF assms(1)]
      split: prod.splits res.splits if_splits)

lemma sol_balance_view:
  assumes "client_indep wk view" "getSolanaAccountBalance wk a cur w = (r, w')"
  shows "view w' = view w"
  using assms(2)
  by (auto simp: getSolanaAccountBalance_def Let_def dest!: sol_balance_call_viewD [OF assms(1)] token_balance_view [OF assms(1)]
      split: prod.splits res.splits if_splits)

lemma sol_details_view:
  assumes "client_indep wk view" "sol_getTransactionDetails wk sg w = (r, w')"
  shows "view w' = view w"
  using assms(2)
  by (auto simp: sol_getTransactionDetails_def Let_def dest!: sol_history_call_viewD [OF assms(1)]
      split: prod.splits res.splits)

lemma sol_signatures_view:
  assumes "client_indep wk view" "getRecentTransactionSignatures wk a w = (r, w')"
  shows "view w' = view w"
  using assms(2)
  by (auto simp: getRecentTransactionSignatures_def Let_def dest!: sol_history_call_viewD [OF assms(1)]
      split: prod.splits res.splits)

lemma worker_client: "worker_ok re view wk \<Longrightarrow> client_indep wk view"
  using worker_okD(6,7) by (auto simp: client_indep_def)

lemma sol_currency_view:
  assumes "mongo_ok re (db_mongo db) view" "sol_getSupportedCurrency db a w = (r, w1)"
  shows "view w1 = view w"
proof -
  have "view w3 = view w2" if "mongo_find (db_mongo db) c f w2 = (q, w3)" for c f w2 q w3
    using mongo_find_views(1) [OF assms(1)] that by (metis snd_conv)
  then show ?thesis using assms(2) mongo_find_views(1) [OF assms(1)]
    by (auto simp: sol_getSupportedCurrency_def split: res.splits option.splits bval.splits prod.splits list.splits)
qed

lemma sol_tx_le:
  assumes "worker_ok re view wk" "sol_process_tx wk account a u cur sg w = (r, w')"
  shows "worker_le (view w) (view w')"
proof -
  obtain n w1 where 1: "count_signature (aw_db wk) sg w = (n, w1)" by (metis surj_pair)
  obtain d w2 where 2: "sol_getTransactionDetails wk sg w1 = (d, w2)" by (metis surj_pair)
  have v: "view w1 = view w" "view w2 = view w"
    using count_signature_view [OF worker_okD(2) [OF assms(1)], of sg w] 1
      sol_details_view [OF worker_client [OF assms(1)] 2] by simp_all
  have "w' = w1 \<or> w' = w2 \<or> (\<exists>b cu h am su e. record_transaction wk account u b cu h am su e w2 = (r, w'))"
    using assms(2) 1 2 by (auto simp: sol_process_tx_def split: res.splits if_splits)
  then show ?thesis
  proof (elim disjE exE)
    fix b cu h am su e assume "record_transaction wk account u b cu h am su e w2 = (r, w')"
    from record_transaction_le [OF assms(1) this] v show ?thesis by simp
  qed (simp_all add: v worker_le_refl)
qed

lemma sol_history_le:
  assumes "worker_ok re view wk" "sol_processTransactionHistory wk account a u cur w = (r, w')"
  shows "worker_le (view w) (view w')"
proof -
  obtain q w1 where 1: "getRecentTransactionSignatures wk a w = (q, w1)" by (metis surj_pair)
  have v: "view w1 = view w" by (rule sol_signatures_view [OF worker_client [OF assms(1)] 1])
  have "w' = w1 \<or> (\<exists>ss. for_each (sol_process_tx wk account a u cur) ss w1 = (r, w'))"
    using assms(2) 1 by (auto simp: sol_processTransactionHistory_def split: res.splits)
  then show ?thesis
  proof (elim disjE exE)
    fix ss assume e: "for_each (sol_process_tx wk account a u cur) ss w1 = (r, w')"
    have "worker_le (view w1) (view w')"
      by (rule worker.for_each_le [where view = view, OF _ e]) (rule sol_tx_le [OF assms(1)])
    with v show ?thesis by simp
  qed (simp add: v worker_le_refl)
qed

lemma sol_update_le:
  assumes "worker_ok re view wk" "sol_update wk account a u cur w = (r, w')"
  shows "worker_le (view w) (view w')"
proof -
  obtain b w1 where 1: "getSolanaAccountBalance wk a cur w = (b, w1)" by (metis surj_pair)
  have v: "view w1 = view w" by (rule sol_balance_view [OF worker_client [OF assms(1)] 1])
  show ?thesis
  proof (cases "\<exists>p. b = Panic p")
    case True
    then have "w' = w1" using assms(2) 1 by (auto simp: sol_update_def)
    with v show ?thesis by (simp add: worker_le_refl)
  next
    case False
    obtain s w2 where 2: "store_balance (aw_db wk) account (case b of Ok x \<Rightarrow> x | _ \<Rightarrow> Fin 0) w1 = (s, w2)"
      by (metis surj_pair)
    note le = store_balance_le [OF worker_okD(1) [OF assms(1)] 2]
    have "w' = w2 \<or> sol_processTransactionHistory wk account a u cur w2 = (r, w')"
      using assms(2) 1 2 False by (auto simp: sol_update_def split: res.splits)
    then show ?thesis
    proof
      assume "sol_processTransactionHistory wk account a u cur w2 = (r, w')"
      from sol_history_le [OF assms(1) this] le v show ?thesis by (simp add: worker_le_trans)
    qed (use le v in simp)
  qed
qed

lemma sol_account_le:
  assumes "worker_ok re view wk" "sol_process_account wk account w = (r, w')"
  shows "worker_le (view w) (view w')"
proof (cases "\<exists>a u. map_of account ''walletAddress'' = Some (BStr a) \<and> a \<noteq> [] \<and> map_of account ''userId'' = Some (BId u)")
  case False
  then have "w' = w" using assms(2)
    by (auto simp: sol_process_account_def split: option.splits bval.splits if_splits)
  then show ?thesis by (simp add: worker_le_refl)
next
  case True
  then obtain a u where a: "map_of account ''walletAddress'' = Some (BStr a)" "a \<noteq> []"
    "map_of account ''userId'' = Some (BId u)" by blast
  note W = worker_okD [OF assms(1)]
  obtain c w1 where 1: "sol_getSupportedCurrency (aw_db wk) account w = (c, w1)" by (metis surj_pair)
  obtain os w2 where 2: "FindOrdersWithMatchingDepositAddress a (aw_db wk) w1 = (os, w2)" by (metis surj_pair)
  have v: "view w1 = view w" "view w2 = view w"
    using sol_currency_view [OF W(2) 1] watched_orders_view [OF W(2), of a w1] 2 by simp_all
  show ?thesis
  proof (cases "\<exists>x y. c = Ok x \<and> os = Ok y")
    case False
    then have "w' = w1 \<or> w' = w2" using assms(2) a 1 2
      by (auto simp: sol_process_account_def sol_FindOrders_def split: res.splits)
    with v show ?thesis by (auto simp: worker_le_refl)
  next
    case True
    then obtain x y where xy: "c = Ok x" "os = Ok y" by blast
    obtain s w3 where 3: "ProcessWatchedAddress wk y w2 = (s, w3)" by (metis surj_pair)
    have v3: "view w3 = view w" using ProcessWatchedAddress_view [OF W(5)] 3 v by (metis snd_conv)
    have "w' = w3 \<or> sol_update wk account a u x w3 = (r, w')" using assms(2) a 1 2 3 xy
      by (auto simp: sol_process_account_def sol_FindOrders_def sol_ProcessWatchedAddress_def split: res.splits)
    then show ?thesis
    proof
      assume "sol_update wk account a u x w3 = (r, w')"
      from sol_update_le [OF assms(1) this] v3 show ?thesis by simp
    qed (simp add: v3 worker_le_refl)
  qed
qed

lemma sol_job_le:
  assumes "worker_ok re view wk"
  shows "worker_le (view w) (view (snd (processSolanaAccounts wk w)))"
proof -
  obtain q w1 where 1: "getActiveAccountsByChainId (aw_db wk) ''SOL'' w = (q, w1)" by (metis surj_pair)
  have v: "view w1 = view w" using getActiveAccounts_view [OF worker_okD(1) [OF assms]] 1 by (metis snd_conv)
  obtain r w' where r: "processSolanaAccounts wk w = (r, w')" by (metis surj_pair)
  have "w' = w1 \<or> (\<exists>xs s. run_pool (sol_process_account wk) xs w1 = (s, w'))"
    using r 1 by (auto simp: processSolanaAccounts_def sol_getActiveAccountsByChainId_def
        sol_process_accounts_def split: res.splits prod.splits if_splits)
  then have "worker_le (view w1) (view w')"
  proof (elim disjE exE)
    fix xs s assume e: "run_pool (sol_process_account wk) xs w1 = (s, w')"
    show ?thesis
      by (rule worker.pool_le [where view = view, OF _ e]) (rule sol_account_le [OF assms])
  qed (simp add: worker_le_refl)
  with v r show ?thesis by simp
qed

end
