(* ===== verification/AccountJobs.thy ===== *)
theory AccountJobs
  imports BtcWorker TrxWorker SolAccounts
begin

text \<open>
  Properties of the jobs of the account workers (\<open>internal/worker/btc\<close>, \<open>trx\<close> and \<open>sol\<close>): what a
  job may change in the database, how often the history of a Solana account is recorded, what a job
  stores when the node cannot be reached, and the accounts that wait for a deposit.
\<close>

section \<open>What a job changes\<close>

text \<open>
  C28: The jobs of the Bitcoin, Tron and Solana workers keep the database well-formed: every account
  stays readable, an account that is there keeps all its fields except its balance and the time of
  its last change, new accounts and transactions are added at the end, each transaction in the form
  \<open>models.Transaction\<close> is stored in, and no other collection changes. This holds for every answer
  of the explorers and nodes, whether the job succeeds, fails or panics.
\<close>

theorem account_jobs_keep_database:
  assumes "worker_ok re view wk"
    and "w' \<in> {snd (processBitcoinAccounts wk w), snd (trx_process_accounts wk tron_accounts w),
               snd (processSolanaAccounts wk w)}"
  shows "(accounts_ok (view w) \<longrightarrow> accounts_ok (view w'))
    \<and> (\<exists>new. map acct_frame (view w' ''accounts'') = map acct_frame (view w ''accounts'') @ new)
    \<and> (\<exists>txs. view w' ''transactions'' = view w ''transactions'' @ map enc_transaction txs)
    \<and> (\<forall>c. c \<noteq> ''accounts'' \<and> c \<noteq> ''transactions'' \<longrightarrow> view w' c = view w c)"
proof -
  have "worker_le (view w) (view w')"
    using assms(2) btc_job_le [OF assms(1)] trx_job_le [OF assms(1)] sol_job_le [OF assms(1)] by auto
  then show ?thesis by (simp add: worker_le_def)
qed

theorem account_jobs_keep_database_witness:
  "\<exists>txs. snd (processBitcoinAccounts (job_worker demo_explorer) (job_store ''1a'')) ''transactions''
     = map enc_transaction txs"
  using account_jobs_keep_database [OF job_worker_ok [of demo_explorer],
      of "snd (processBitcoinAccounts (job_worker demo_explorer) (job_store ''1a''))" "job_store ''1a''"]
  by (simp add: job_store_def)

section \<open>The history of a Solana account\<close>

text \<open>
  A node that answers the RPC calls of the history by \<open>rpc\<close>; the transaction it gives for a
  signature has the receiver \<open>to\<close>.
\<close>

definition sol_node :: "'w acct_worker \<Rightarrow> (string \<Rightarrow> json list \<Rightarrow> blob) \<Rightarrow> bool" where
  "sol_node wk rpc \<longleftrightarrow> (\<forall>m ps w. fst (sol_history_call wk m ps w) = Ok (rpc m ps))"

definition signatures_params :: "string \<Rightarrow> json list" where
  "signatures_params a = [JStr a, JObj [(''limit'', JNum 20)]]"

definition details_params :: "string \<Rightarrow> json list" where
  "details_params sg = [JStr sg, JObj [(''encoding'', JStr ''json''), (''maxSupportedTransactionVersion'', JNum 0)]]"

definition tx_to :: "(string \<Rightarrow> json list \<Rightarrow> blob) \<Rightarrow> (string \<Rightarrow> string) \<Rightarrow> string \<Rightarrow> bool" where
  "tx_to rpc to sg \<longleftrightarrow>
     (\<exists>tx f x. sol_answer ''transaction response'' dec_sol_tx_response (rpc ''getTransaction'' (details_params sg)) = Ok tx
        \<and> extractTransferDetails tx = Ok (f, to sg, x))"

lemma sol_node_call: "sol_node wk rpc \<Longrightarrow> \<exists>w1. sol_history_call wk m ps w = (Ok (rpc m ps), w1)"
  unfolding sol_node_def by (metis surj_pair fst_conv)

lemma sol_node_details:
  assumes "sol_node wk rpc" "tx_to rpc to sg"
  shows "\<exists>d w1. sol_getTransactionDetails wk sg w = (Ok d, w1) \<and> sd_ToAddress d = to sg"
proof -
  obtain w1 where 1: "sol_history_call wk ''getTransaction'' (details_params sg) w
      = (Ok (rpc ''getTransaction'' (details_params sg)), w1)" using sol_node_call [OF assms(1)] by blast
  from assms(2) 1 show ?thesis
    by (auto simp: tx_to_def sol_getTransactionDetails_def details_params_def)
qed

lemma sol_tx_records:
  assumes R: "record_ready re view wk A w" and n: "sol_node wk rpc" and k: "currency_of cur = Ok k"
    and x: "tx_to rpc to sg" "to sg \<in> A"
  shows "\<exists>t as w'. sol_process_tx wk account a u cur sg w = (Ok (), w') \<and> adds [t] as (view w) (view w')
    \<and> length as = (if to sg = [] then 1 else 0) \<and> tm_Hash t = sg \<and> record_ready re view wk A w'"
proof -
  note W = record_readyD(1) [OF R]
  obtain w1 where 1: "count_signature (aw_db wk) sg w = (Ok 0, w1)" "view w1 = view w"
    using count_signature_zero [OF worker_okD(2) [OF W] record_readyD(2) [OF R]] by blast
  obtain d w2 where 2: "sol_getTransactionDetails wk sg w1 = (Ok d, w2)" "sd_ToAddress d = to sg"
    using sol_node_details [OF n x(1)] by blast
  have v: "view w2 = view w" using sol_details_view [OF worker_client [OF W] 2(1)] 1(2) by simp
  obtain t as w3 where 3: "record_transaction wk account u (to sg) (Ok k) sg (sd_Amount d)
        (sd_Status d = ''success'') (if equal_fold a (to sg) then ''RECEIVE'' else ''SEND'') w2 = (Ok (), w3)"
    "adds [t] as (view w2) (view w3)" "length as = (if to sg = [] then 1 else 0)"
    "tm_Hash t = sg" "record_ready re view wk A w3"
    using record_transaction_ready [OF record_ready_view [OF R v] x(2)] by blast
  have "sol_process_tx wk account a u cur sg w = (Ok (), w3)"
    using 1(1) 2 3(1) k by (simp add: sol_process_tx_def)
  moreover have "adds [t] as (view w) (view w3)" using 3(2) v by simp
  ultimately show ?thesis using 3(3-5) by blast
qed

definition sol_ready ::
  "(string \<Rightarrow> string \<Rightarrow> bool) \<Rightarrow> ('w \<Rightarrow> mstore) \<Rightarrow> 'w acct_worker \<Rightarrow> string set
     \<Rightarrow> (string \<Rightarrow> json list \<Rightarrow> blob) \<Rightarrow> bdoc \<Rightarrow> 'w \<Rightarrow> bool" where
  "sol_ready re view wk A rpc cur w \<longleftrightarrow>
     record_ready re view wk A w \<and> sol_node wk rpc \<and> is_ok (currency_of cur)"

interpretation sol_rec: recording "sol_process_tx wk account a u cur" view "sol_ready re view wk A rpc cur"
  "{sg. tx_to rpc to sg \<and> to sg \<in> A}" "\<lambda>sg. sg" "\<lambda>sg. if to sg = [] then 1 else 0"
  for wk account a u cur view re A rpc to
proof
  fix w sg assume w: "sol_ready re view wk A rpc cur w" and "sg \<in> {sg. tx_to rpc to sg \<and> to sg \<in> A}"
  then have x: "tx_to rpc to sg" "to sg \<in> A" by simp_all
  from w have r: "record_ready re view wk A w" "sol_node wk rpc" "is_ok (currency_of cur)"
    by (simp_all add: sol_ready_def)
  from r(3) obtain k where "currency_of cur = Ok k" by (rule is_okE)
  from sol_tx_records [OF r(1,2) this x] r(2,3)
  show "\<exists>t as w'. sol_process_tx wk account a u cur sg w = (Ok (), w') \<and> adds [t] as (view w) (view w')
      \<and> length as = (if to sg = [] then 1 else 0) \<and> tm_Hash t = sg \<and> sol_ready re view wk A rpc cur w'"
    by (auto simp: sol_ready_def)
qed

lemma sol_run_each:
  assumes "sol_ready re view wk A rpc cur w"
    and "sol_answer ''RPC response'' dec_signatures (rpc ''getSignaturesForAddress'' (signatures_params a)) = Ok ss"
  shows "\<exists>w1. sol_processTransactionHistory wk account a u cur w
      = for_each (sol_process_tx wk account a u cur) (take 10 ss) w1 \<and> view w1 = view w \<and> sol_ready re view wk A rpc cur w1"
proof -
  from assms(1) have R: "record_ready re view wk A w" and n: "sol_node wk rpc" by (simp_all add: sol_ready_def)
  obtain w1 where 1: "sol_history_call wk ''getSignaturesForAddress'' (signatures_params a) w
      = (Ok (rpc ''getSignaturesForAddress'' (signatures_params a)), w1)" using sol_node_call [OF n] by blast
  then have g: "getRecentTransactionSignatures wk a w = (Ok ss, w1)"
    using assms(2) by (simp add: getRecentTransactionSignatures_def signatures_params_def)
  have v: "view w1 = view w" by (rule sol_signatures_view [OF worker_client [OF record_readyD(1) [OF R]] g])
  have "sol_ready re view wk A rpc cur w1"
    using assms(1) record_ready_view [OF R v] by (simp add: sol_ready_def)
  with g v show ?thesis by (auto simp: sol_processTransactionHistory_def)
qed

lemma sum_list_if: "sum_list (map (\<lambda>x. if P x then 1 else (0 :: nat)) xs) = length (filter P xs)"
  by (induction xs) auto

text \<open>
  The Solana history grows with every run. Only the ten latest signatures are looked at, but a
  transaction is stored under \<open>hash\<close> and looked for under \<open>signature\<close>: with a node that answers,
  \<open>n\<close> runs store each of the ten \<open>n\<close> times, and add \<open>n\<close> accounts without an address for each that
  has no transfer to read a receiver from.
\<close>

theorem sol_history_grows:
  assumes "record_ready re view wk A w" "sol_node wk rpc" "currency_of cur = Ok k"
    and "sol_answer ''RPC response'' dec_signatures (rpc ''getSignaturesForAddress'' (signatures_params a)) = Ok ss"
    and "\<And>sg. sg \<in> set (take 10 ss) \<Longrightarrow> tx_to rpc to sg \<and> to sg \<in> A"
  shows "\<exists>txs as. adds txs as (view w)
        (view (((\<lambda>w. snd (sol_processTransactionHistory wk account a u cur w)) ^^ n) w))
    \<and> map tm_Hash txs = concat (replicate n (take 10 ss))
    \<and> length as = n * length (filter (\<lambda>sg. to sg = []) (take 10 ss))"
proof -
  have 1: "sol_ready re view wk A rpc cur w" using assms by (simp add: sol_ready_def)
  have 2: "set (take 10 ss) \<subseteq> {sg. tx_to rpc to sg \<and> to sg \<in> A}" using assms(5) by blast
  from sol_rec.repeats [OF 1 2 sol_run_each [where rpc = rpc and a = a and ss = ss, OF _ assms(4)], where account = account and u = u and n = n]
  show ?thesis by (auto simp: sum_list_if)
qed

text \<open>A node with one transaction, signed \<open>s\<close>, without instructions.\<close>

definition demo_sol_rpc :: "string \<Rightarrow> json list \<Rightarrow> blob" where
  "demo_sol_rpc m ps =
     (if m = ''getSignaturesForAddress''
      then Enc (JObj [(''result'', JArr [JObj [(''signature'', JStr ''s'')]])])
      else Enc (JObj [(''result'', JObj [(''blockTime'', JNum 7)])]))"

definition demo_sol_serve :: "string \<Rightarrow> blob option \<Rightarrow> blob" where
  "demo_sol_serve u b =
     (case b of
        Some (Enc (JObj [_, _, (_, JStr m), (_, JArr ps)])) \<Rightarrow> demo_sol_rpc m ps
      | _ \<Rightarrow> Raw [])"

lemma demo_sol_node: "sol_node (job_worker demo_sol_serve) demo_sol_rpc"
  by (simp add: sol_node_def sol_history_call_def Let_def rpc_send_auth.simps served_client_def
      demo_sol_serve_def sol_rpc_body_def)

lemma demo_sol_answers:
  "sol_answer ''RPC response'' dec_signatures (demo_sol_rpc ''getSignaturesForAddress'' (signatures_params a)) = Ok [''s'']"
  "tx_to demo_sol_rpc (\<lambda>_. []) ''s''"
proof -
  show "sol_answer ''RPC response'' dec_signatures
      (demo_sol_rpc ''getSignaturesForAddress'' (signatures_params a)) = Ok [''s'']"
    by (simp add: demo_sol_rpc_def, code_simp)
  have "sol_answer ''transaction response'' dec_sol_tx_response (Enc (JObj [(''result'', JObj [(''blockTime'', JNum 7)])]))
      = Ok \<lparr>sx_Meta = VNil, sx_AccountKeys = [], sx_Instructions = [], sx_Signatures = [], sx_BlockTime = 7\<rparr>"
    by code_simp
  then show "tx_to demo_sol_rpc (\<lambda>_. []) ''s''"
    by (auto simp: tx_to_def demo_sol_rpc_def extractTransferDetails_def)
qed

theorem sol_history_grows_witness:
  "\<exists>txs as. adds txs as (job_store ''1a'')
        (((\<lambda>w. snd (sol_processTransactionHistory (job_worker demo_sol_serve) [] ''1a'' ''u1''
            [(''currencyId'', BId ''k1'')] w)) ^^ 2) (job_store ''1a''))
    \<and> map tm_Hash txs = [''s'', ''s''] \<and> length as = 2"
proof -
  have r: "record_ready (\<lambda>_ _. False) id (job_worker demo_sol_serve) {[]} (job_store ''1a'')"
    using job_store_ready [of "''1a''" demo_sol_serve] by (simp add: record_ready_def)
  have k: "currency_of [(''currencyId'', BId ''k1'')] = Ok ''k1''" by (simp add: currency_of_def)
  show ?thesis
    using sol_history_grows [OF r demo_sol_node k demo_sol_answers(1), where to = "\<lambda>_. []" and n = 2 and account = "[]"
        and u = "''u1''" and a = "''1a''"] demo_sol_answers(2)
    by (simp add: numeral_2_eq_2)
qed

section \<open>A node that cannot be reached\<close>

definition node_down :: "'w acct_worker \<Rightarrow> bool" where
  "node_down wk \<longleftrightarrow> (\<forall>m u h b w. \<exists>e. fst (hdo (aw_client wk) m u h b w) = HDoErr e)"

lemma node_down_hdo: "node_down wk \<Longrightarrow> \<exists>e w1. hdo (aw_client wk) m u h b w = (HDoErr e, w1)"
  unfolding node_down_def by (metis surj_pair fst_conv)

lemma rpc_send_down:
  assumes "node_down wk" shows "\<exists>e. fst (rpc_send wk url hs i body w) = Err e"
proof (induction i arbitrary: body w)
  case 0
  obtain e w1 where "hdo (aw_client wk) ''POST'' url hs body w = (HDoErr e, w1)"
    using node_down_hdo [OF assms] by blast
  then show ?case by (simp add: rpc_send.simps Let_def)
next
  case (Suc i)
  obtain e w1 where "hdo (aw_client wk) ''POST'' url hs body w = (HDoErr e, w1)"
    using node_down_hdo [OF assms] by blast
  with Suc show ?case by (subst rpc_send.simps) (simp add: Let_def)
qed

lemma rpc_send_auth_down:
  assumes "node_down wk" shows "\<exists>e. fst (rpc_send_auth wk base key url hs req i body w) = Err e"
proof (induction i arbitrary: body w)
  case 0
  obtain e w1 where "hdo (aw_client wk) ''POST'' url hs body w = (HDoErr e, w1)"
    using node_down_hdo [OF assms] by blast
  then show ?case by (simp add: rpc_send_auth.simps Let_def)
next
  case (Suc i)
  obtain e w1 where "hdo (aw_client wk) ''POST'' url hs body w = (HDoErr e, w1)"
    using node_down_hdo [OF assms] by blast
  with Suc show ?case by (subst rpc_send_auth.simps) (simp add: Let_def)
qed

lemma sol_calls_down:
  assumes "node_down wk"
  shows "\<exists>e w1. sol_balance_call wk m ps w = (Err e, w1)" "\<exists>e w1. sol_history_call wk m ps w = (Err e, w1)"
  using rpc_send_down [OF assms] rpc_send_auth_down [OF assms]
  unfolding sol_balance_call_def sol_history_call_def Let_def by (metis surj_pair fst_conv)+

lemma sol_balance_down:
  assumes "node_down wk" shows "\<exists>e w1. getSolanaAccountBalance wk a cur w = (Err e, w1)"
proof -
  have token: "\<exists>e w1. getAssociatedTokenAccount wk a t w = (Err e, w1)" for t
  proof -
    let ?ps = "[JStr a, JObj [(''mint'', JStr t)], JObj [(''encoding'', JStr ''jsonParsed'')]]"
    obtain e w1 where "sol_balance_call wk ''getTokenAccountsByOwner'' ?ps w = (Err e, w1)"
      using sol_calls_down(1) [OF assms] by blast
    then show ?thesis by (simp add: getAssociatedTokenAccount_def)
  qed
  then obtain E V where "getAssociatedTokenAccount wk a t w = (Err (E t), V t)" for t by metis
  then have "\<exists>e w1. getSolanaTokenBalance wk a cur w = (Err e, w1)"
    by (simp add: getSolanaTokenBalance_def Let_def)
  then obtain e1 w1 where 1: "getSolanaTokenBalance wk a cur w = (Err e1, w1)" by blast
  obtain e2 w2 where 2: "sol_balance_call wk ''getBalance''
      [JStr a, JObj [(''commitment'', JStr ''confirmed'')]] w = (Err e2, w2)"
    using sol_calls_down(1) [OF assms] by blast
  show ?thesis by (simp add: getSolanaAccountBalance_def Let_def 1 2)
qed

lemma mongo_find_Ok:
  assumes "mongo_ok re mg view" shows "\<exists>w1. mongo_find mg c f w = (Ok (filter (\<lambda>d. matches re f (map_of d)) (view w c)), w1)"
proof -
  obtain r w1 where r: "mdo mg (MFind c f) w = (r, w1)" by (metis surj_pair)
  from mongo_okD [OF assms r] r show ?thesis by (auto simp: mongo_find_def)
qed

lemma sol_currency_Ok:
  assumes "mongo_ok re (db_mongo db) view" "map_of account ''chainId'' = Some (BId c)"
  shows "\<exists>cur w1. sol_getSupportedCurrency db account w = (Ok cur, w1) \<and> view w1 = view w"
proof -
  obtain cs w1 where 1: "mongo_find (db_mongo db) ''supportedcurrencies'' (currency_filter c account) w = (Ok cs, w1)"
    using mongo_find_Ok [OF assms(1)] by blast
  obtain r w' where r: "sol_getSupportedCurrency db account w = (r, w')" by (metis surj_pair)
  with 1 assms(2) have "\<exists>cur. r = Ok cur"
    by (auto simp: sol_getSupportedCurrency_def oid_of_def split: list.splits prod.splits)
  with r sol_currency_view [OF assms(1) r] show ?thesis by blast
qed

lemma currency_Ok:
  assumes "mongo_ok re (db_mongo db) view" "map_of account ''chainId'' = Some (BId c)"
  shows "\<exists>cur w1. getSupportedCurrency db account w = (Ok cur, w1) \<and> view w1 = view w"
proof -
  obtain cs w1 where 1: "mongo_find (db_mongo db) ''supportedcurrencies'' (currency_filter c account) w = (Ok cs, w1)"
    using mongo_find_Ok [OF assms(1)] by blast
  with assms(2) have "\<exists>cur. getSupportedCurrency db account w = (Ok cur, w1)"
    by (cases cs) (auto simp: getSupportedCurrency_def oid_of_def)
  with getSupportedCurrency_view [OF assms(1), of account w] show ?thesis by (metis snd_conv)
qed

lemma watched_orders_Ok:
  assumes "mongo_ok re (db_mongo db) view"
  shows "\<exists>w1. FindOrdersWithMatchingDepositAddress a db w
    = (Ok (fold (run_stage re (view w)) (watched_orders_pipeline a) (view w ''orders'')), w1) \<and> view w1 = view w"
proof -
  obtain r w1 where r: "mdo (db_mongo db) (MAggregate ''orders'' (watched_orders_pipeline a)) w = (r, w1)"
    by (metis surj_pair)
  from mongo_okD [OF assms r] r show ?thesis by (auto simp: FindOrdersWithMatchingDepositAddress_def)
qed

lemma store_balance_Ok:
  assumes "db_ok re db view" "map_of account ''_id'' = Some (BId i)"
  shows "\<exists>t w1. store_balance db account b w = (Ok (), w1)
    \<and> view w1 = (view w)(''accounts'' := update_first (\<lambda>d. matches re (FEq ''_id'' (BId i)) (map_of d))
        (set_fields (balance_update b t)) (view w ''accounts''))"
proof -
  obtain t w1 where 1: "db_now db w = (t, w1)" by (metis surj_pair)
  obtain q w2 where 2: "mdo (db_mongo db) (MUpdateOne ''accounts'' (FEq ''_id'' (BId i)) (balance_update b t)) w1 = (q, w2)"
    by (metis surj_pair)
  from mongo_okD [OF db_okD(1) [OF assms(1)] 2] db_okD(2) [OF assms(1) 1] 1 2 assms(2) show ?thesis
    by (auto simp: store_balance_def split: mreply.splits intro!: exI [of _ t])
qed

text \<open>
  C29: A node that cannot be reached empties the accounts. When every request fails, processing an
  account of the Solana worker, which has no order waiting for it, reports an error, but it has set
  the stored balance of the account to zero.
\<close>

theorem sol_outage_zeroes_balance:
  assumes "worker_ok re view wk" "node_down wk"
    and "map_of account ''walletAddress'' = Some (BStr a)" "a \<noteq> []" "map_of account ''userId'' = Some (BId u)"
    and "map_of account ''chainId'' = Some (BId c)" "map_of account ''_id'' = Some (BId i)"
    and "view w ''orders'' = []"
  shows "\<exists>e t w'. sol_process_account wk account w = (Err e, w')
    \<and> view w' = (view w)(''accounts'' :=
        update_first (\<lambda>d. matches re (FEq ''_id'' (BId i)) (map_of d)) (set_fields (balance_update (Fin 0) t))
          (view w ''accounts''))"
proof -
  note W = worker_okD [OF assms(1)]
  obtain cur w1 where 1: "sol_getSupportedCurrency (aw_db wk) account w = (Ok cur, w1)" "view w1 = view w"
    using sol_currency_Ok [OF W(2) assms(6)] by blast
  obtain w2 where 2: "FindOrdersWithMatchingDepositAddress a (aw_db wk) w1 = (Ok [], w2)" "view w2 = view w"
    using watched_orders_Ok [OF W(2), of a w1] 1(2) assms(8) by (auto simp: watched_orders_pipeline_def)
  obtain e w3 where 3: "getSolanaAccountBalance wk a cur w2 = (Err e, w3)"
    using sol_balance_down [OF assms(2)] by blast
  have v: "view w3 = view w" using sol_balance_view [OF worker_client [OF assms(1)] 3] 2(2) by simp
  from store_balance_Ok [OF W(1) assms(7), of "Fin 0" w3] v obtain t w4 where
    4: "store_balance (aw_db wk) account (Fin 0) w3 = (Ok (), w4)"
    "view w4 = (view w)(''accounts'' := update_first (\<lambda>d. matches re (FEq ''_id'' (BId i)) (map_of d))
        (set_fields (balance_update (Fin 0) t)) (view w ''accounts''))" by auto
  obtain e5 w5 where 5: "getRecentTransactionSignatures wk a w4 = (Err e5, w5)"
    using sol_calls_down(2) [OF assms(2), of "''getSignaturesForAddress''" "[JStr a, JObj [(''limit'', JNum 20)]]" w4]
    by (auto simp: getRecentTransactionSignatures_def)
  have "view w5 = view w4" by (rule sol_signatures_view [OF worker_client [OF assms(1)] 5])
  moreover have "sol_process_account wk account w = (Err (EWrap ''failed to get recent transactions: '' e5), w5)"
    using 1(1) 2(1) 3 4(1) 5 assms(3-5)
    by (simp add: sol_process_account_def sol_FindOrders_def sol_ProcessWatchedAddress_def sol_update_def
        sol_processTransactionHistory_def)
  ultimately show ?thesis using 4(2) by metis
qed

definition down_worker :: "mstore acct_worker" where
  "down_worker = (job_worker (\<lambda>_ _. Raw []))\<lparr>aw_client := \<lparr>hdo = (\<lambda>_ _ _ _ w. (HDoErr (EMsg ''timeout''), w)),
     hrest = (\<lambda>_ _. None)\<rparr>\<rparr>"

lemma down_worker_ok: "worker_ok (\<lambda>_ _. False) id down_worker" "node_down down_worker"
  using job_worker_ok [of "\<lambda>_ _. Raw []"]
  by (simp_all add: worker_ok_def down_worker_def http_indep_def node_down_def job_worker_def)

theorem sol_outage_zeroes_balance_witness:
  "\<exists>e t w'. sol_process_account down_worker (enc_account_model (job_account ''1a'')) (job_store ''1a'') = (Err e, w')
    \<and> w' = (job_store ''1a'')(''accounts'' :=
        [set_fields (balance_update (Fin 0) t) (enc_account_model (job_account ''1a''))])"
proof -
  have a: "map_of (enc_account_model (job_account ''1a'')) ''walletAddress'' = Some (BStr ''1a'')"
    "\<exists>u. map_of (enc_account_model (job_account ''1a'')) ''userId'' = Some (BId u)"
    "\<exists>c. map_of (enc_account_model (job_account ''1a'')) ''chainId'' = Some (BId c)"
    "\<exists>i. map_of (enc_account_model (job_account ''1a'')) ''_id'' = Some (BId i)"
    by (simp_all add: enc_account_lookup job_account_def demo_account_def convertAccountDomainToModel_def nil_id_def)
  then obtain u c i where b: "map_of (enc_account_model (job_account ''1a'')) ''userId'' = Some (BId u)"
    "map_of (enc_account_model (job_account ''1a'')) ''chainId'' = Some (BId c)"
    "map_of (enc_account_model (job_account ''1a'')) ''_id'' = Some (BId i)" by blast
  show ?thesis
    using sol_outage_zeroes_balance [OF down_worker_ok a(1) _ b, of "job_store ''1a''"] b(3)
    by (simp add: job_store_def field_vals_def)
qed

section \<open>Waiting orders\<close>

text \<open>A pending buy order with an account of the address \<open>a\<close> among its deposit accounts.\<close>

definition waiting_order :: "mstore \<Rightarrow> string \<Rightarrow> bdoc \<Rightarrow> bool" where
  "waiting_order m a d \<longleftrightarrow> map_of d ''status'' = Some (BStr ''PENDING'') \<and> map_of d ''flow'' = Some (BStr ''BUY'')
     \<and> (\<exists>is e i. map_of d ''depositAccountIds'' = Some (BArr (map BId is)) \<and> i \<in> set is
          \<and> e \<in> set (m ''accounts'') \<and> map_of e ''_id'' = Some (BId i)
          \<and> map_of e ''walletAddress'' = Some (BStr a))"

definition order_docs :: "mstore \<Rightarrow> bool" where
  "order_docs m \<longleftrightarrow> (\<forall>d \<in> set (m ''orders''). map_of d ''order'' = None)"

lemma watched_orders_of:
  assumes "order_docs m" "d \<in> set (m ''orders'')" "waiting_order m a d"
  shows "\<exists>e es. fold (run_stage re m) (watched_orders_pipeline a) (m ''orders'') = e # es \<and> map_of e ''order'' = None"
proof -
  let ?r = "fold (run_stage re m) (watched_orders_pipeline a) (m ''orders'')"
  have "map_of e ''order'' = None" if "e \<in> set ?r" for e
    using that assms(1) by (auto simp: watched_orders_pipeline_def order_docs_def update_conv')
  moreover have "?r \<noteq> []"
    using assms(2,3)
    by (fastforce simp: watched_orders_pipeline_def waiting_order_def filter_empty_conv field_vals_def joined_def
        path_vals_def list_ex_iff update_conv')
  ultimately show ?thesis by (metis neq_Nil_conv list.set_intros(1))
qed

text \<open>
  C30: An order that waits for a deposit stops the worker. Order documents have no field \<open>order\<close>,
  which the type assertion on the orders that wait for a deposit to the address expects: processing
  an account of the Tron or the Solana worker panics as soon as a pending buy order names an account
  of this address among its deposit accounts. The panic is in a goroutine of the pool, which does
  not recover it.
\<close>

theorem waiting_order_panics:
  assumes "worker_ok re view wk" "order_docs (view w)" "d \<in> set (view w ''orders'')" "waiting_order (view w) a d"
    and "map_of account ''walletAddress'' = Some (BStr a)" "a \<noteq> []" "map_of account ''userId'' = Some (BId u)"
    and "map_of account ''chainId'' = Some (BId c)"
  shows "(\<exists>p. fst (sol_process_account wk account w) = Panic p)
    \<and> (isValidTronAddress a \<longrightarrow> (\<exists>p. fst (trx_process_account wk account w) = Panic p))"
proof -
  note W = worker_okD [OF assms(1)]
  obtain e es where es: "fold (run_stage re (view w)) (watched_orders_pipeline a) (view w ''orders'') = e # es"
    "map_of e ''order'' = None" using watched_orders_of [OF assms(2-4)] by blast
  have orders: "\<exists>w2. FindOrdersWithMatchingDepositAddress a (aw_db wk) w1 = (Ok (e # es), w2)"
    if "view w1 = view w" for w1
    using watched_orders_Ok [OF W(2), of a w1] that es(1) by auto
  have panic: "\<exists>p w3. ProcessWatchedAddress wk (e # es) w2 = (Panic p, w3)" for w2
    using es(2) by (auto split: option.split bval.split)
  obtain cur w1 where 1: "sol_getSupportedCurrency (aw_db wk) account w = (Ok cur, w1)" "view w1 = view w"
    using sol_currency_Ok [OF W(2) assms(8)] by blast
  obtain w2 where 2: "FindOrdersWithMatchingDepositAddress a (aw_db wk) w1 = (Ok (e # es), w2)"
    using orders [OF 1(2)] by blast
  obtain p w3 where 3: "ProcessWatchedAddress wk (e # es) w2 = (Panic p, w3)" using panic by blast
  have "fst (sol_process_account wk account w) = Panic p"
    using 1(1) 2 3 assms(5-7)
    by (simp add: sol_process_account_def sol_FindOrders_def sol_ProcessWatchedAddress_def del: ProcessWatchedAddress.simps)
  moreover obtain cur' v1 where 4: "getSupportedCurrency (aw_db wk) account w = (Ok cur', v1)" "view v1 = view w"
    using currency_Ok [OF W(2) assms(8)] by blast
  obtain v2 where 5: "FindOrdersWithMatchingDepositAddress a (aw_db wk) v1 = (Ok (e # es), v2)"
    using orders [OF 4(2)] by blast
  obtain q v3 where 6: "ProcessWatchedAddress wk (e # es) v2 = (Panic q, v3)" using panic by blast
  have "fst (trx_process_account wk account w) = Panic q" if "isValidTronAddress a"
    using 4(1) 5 6 assms(5,6) that
    by (simp add: trx_process_account_def trx_FindOrders_def trx_ProcessWatchedAddress_def trx_getSupportedCurrency_def
        del: ProcessWatchedAddress.simps)
  ultimately show ?thesis by blast
qed

definition waiting_store :: "string \<Rightarrow> mstore" where
  "waiting_store a = (job_store a)(''orders'' :=
     [[(''_id'', BId ''o1''), (''status'', BStr ''PENDING''), (''flow'', BStr ''BUY''),
       (''depositAccountIds'', BArr [BId ''a1''])]])"

theorem waiting_order_panics_witness:
  "\<exists>p. fst (sol_process_account (job_worker demo_sol_serve) (enc_account_model (job_account ''1a'')) (waiting_store ''1a'')) = Panic p"
proof -
  let ?d = "[(''_id'', BId ''o1''), (''status'', BStr ''PENDING''), (''flow'', BStr ''BUY''),
       (''depositAccountIds'', BArr [BId ''a1''])]"
  note l = enc_account_lookup job_account_def demo_account_def convertAccountDomainToModel_def nil_id_def
  have a: "map_of (enc_account_model (job_account ''1a'')) ''walletAddress'' = Some (BStr ''1a'')"
    "map_of (enc_account_model (job_account ''1a'')) ''userId'' = Some (BId ''u1'')"
    "map_of (enc_account_model (job_account ''1a'')) ''chainId'' = Some (BId ''c1'')"
    "map_of (enc_account_model (job_account ''1a'')) ''_id'' = Some (BId ''a1'')"
    by (simp_all add: l)
  have "waiting_order (waiting_store ''1a'') ''1a'' ?d"
    unfolding waiting_order_def
    by (intro conjI exI [of _ "[''a1'']"] exI [of _ "enc_account_model (job_account ''1a'')"] exI [of _ "''a1''"])
      (simp_all add: waiting_store_def job_store_def a)
  moreover have "order_docs (waiting_store ''1a'')" "?d \<in> set (waiting_store ''1a'' ''orders'')"
    by (simp_all add: order_docs_def waiting_store_def)
  ultimately show ?thesis
    using waiting_order_panics [OF job_worker_ok [of demo_sol_serve], of "waiting_store ''1a''" ?d "''1a''"
        "enc_account_model (job_account ''1a'')"] a(1-3) by auto
qed

end
