(* ===== verification/Portfolio.thy ===== *)
theory Portfolio
  imports AccountUseCase
begin

text \<open>
  Portfolios: \<open>src/types/portfolio.go\<close>, \<open>src/usecases/portfolio_usecase.go\<close> over the repositories of the domain, and
  \<open>src/services/portfolio_service.go\<close> over those of the database. Both keep what they computed in a map in
  memory for five minutes; the map and the world are the state. The goroutines that work on the
  accounts of a wallet run one after the other, in an order that is a parameter (\<open>sched\<close>): each of them
  reads and writes the map under the key of its own account. Balances come from the blockchain
  service, whose provider is chosen at run time: an argument.
\<close>

section \<open>Values\<close>

record chain_ref =
  rf_ID :: string
  rf_Symbol :: string

record token_data =
  tk_Symbol :: string
  tk_Balance :: f64
  tk_Price :: f64
  tk_UsdValue :: f64
  tk_ChainID :: chain_ref

record account_portfolio =
  ap_AccountID :: string
  ap_WalletAddress :: string
  ap_Token :: token_data
  ap_TotalUsdValue :: f64

record wallet_portfolio =
  wp_WalletID :: string
  wp_Accounts :: "account_portfolio list"
  wp_WalletUsdValue :: f64

record portfolio_response =
  pr_WalletID :: string
  pr_Name :: string
  pr_Identifier :: string
  pr_WalletPortfolio :: "account_portfolio list"
  pr_WalletUsdValue :: f64

definition NewTokenData :: "string \<Rightarrow> f64 \<Rightarrow> f64 \<Rightarrow> chain_ref \<Rightarrow> token_data" where
  "NewTokenData symbol balance price chainID =
     \<lparr>tk_Symbol = symbol, tk_Balance = balance, tk_Price = price, tk_UsdValue = f64_mul balance price, tk_ChainID = chainID\<rparr>"

definition NewChainReference :: "string \<Rightarrow> string \<Rightarrow> chain_ref" where
  "NewChainReference i symbol = \<lparr>rf_ID = i, rf_Symbol = symbol\<rparr>"

definition NewAccountPortfolio :: "string \<Rightarrow> string \<Rightarrow> token_data \<Rightarrow> account_portfolio" where
  "NewAccountPortfolio accountID walletAddress token =
     \<lparr>ap_AccountID = accountID, ap_WalletAddress = walletAddress, ap_Token = token, ap_TotalUsdValue = tk_UsdValue token\<rparr>"

definition total_usd :: "account_portfolio list \<Rightarrow> f64" where
  "total_usd as = fold (\<lambda>a total. f64_add total (ap_TotalUsdValue a)) as (Fin 0)"

definition NewWalletPortfolio :: "string \<Rightarrow> account_portfolio list \<Rightarrow> wallet_portfolio" where
  "NewWalletPortfolio walletID accounts =
     \<lparr>wp_WalletID = walletID, wp_Accounts = accounts, wp_WalletUsdValue = total_usd accounts\<rparr>"

definition NewWalletPortfolioResponse :: "string \<Rightarrow> string \<Rightarrow> string \<Rightarrow> wallet_portfolio \<Rightarrow> portfolio_response" where
  "NewWalletPortfolioResponse walletID name identifier p =
     \<lparr>pr_WalletID = walletID, pr_Name = name, pr_Identifier = identifier, pr_WalletPortfolio = wp_Accounts p,
      pr_WalletUsdValue = wp_WalletUsdValue p\<rparr>"

text \<open>The prices are constants; a currency that is not listed is worth nothing.\<close>

definition mock_prices :: "(string \<times> f64) list" where
  "mock_prices = [(''BTC'', Fin 40000), (''ETH'', Fin 2000), (''SOL'', Fin 100), (''TRX'', f64_of_rat (1 / 10)),
     (''USDT'', Fin 1), (''USDC'', Fin 1)]"

definition getTokenPrice :: "currency_model \<Rightarrow> f64" where
  "getTokenPrice c = (case map_of mock_prices (cu_Symbol c) of Some x \<Rightarrow> x | None \<Rightarrow> Fin 0)"

section \<open>The cache\<close>

record cached_portfolio =
  cp_portfolio :: "wallet_portfolio option"
  cp_account :: "account_portfolio option"
  cp_timestamp :: int

type_synonym portfolio_cache = "string \<rightharpoonup> cached_portfolio"

definition cache_ttl :: int where "cache_ttl = 5 * 60 * 10 ^ 9"

text \<open>An entry that is younger than the limit; the clock is read only if there is an entry.\<close>

definition cached :: "'w db \<Rightarrow> string \<Rightarrow> portfolio_cache \<times> 'w \<Rightarrow> cached_portfolio option \<times> portfolio_cache \<times> 'w" where
  "cached db key s =
     (case fst s key of
        None \<Rightarrow> (None, s)
      | Some e \<Rightarrow> (case db_now db (snd s) of (now, w) \<Rightarrow>
          (if now - cp_timestamp e < cache_ttl then Some e else None, fst s, w)))"

definition store_account :: "'w db \<Rightarrow> string \<Rightarrow> account_portfolio \<Rightarrow> portfolio_cache \<times> 'w \<Rightarrow> portfolio_cache \<times> 'w" where
  "store_account db key p s =
     (case db_now db (snd s) of (now, w) \<Rightarrow>
        ((fst s)(key \<mapsto> \<lparr>cp_portfolio = None, cp_account = Some p, cp_timestamp = now\<rparr>), w))"

definition store_wallet :: "'w db \<Rightarrow> string \<Rightarrow> wallet_portfolio \<Rightarrow> portfolio_cache \<times> 'w \<Rightarrow> portfolio_cache \<times> 'w" where
  "store_wallet db key p s =
     (case db_now db (snd s) of (now, w) \<Rightarrow>
        ((fst s)(key \<mapsto> \<lparr>cp_portfolio = Some p, cp_account = None, cp_timestamp = now\<rparr>), w))"

text \<open>The accounts of a wallet, in the order in which their goroutines run; errors are only logged.\<close>

fun collect_accounts ::
  "(string \<Rightarrow> portfolio_cache \<times> 'w \<Rightarrow> account_portfolio option res \<times> portfolio_cache \<times> 'w) \<Rightarrow> string list
     \<Rightarrow> portfolio_cache \<times> 'w \<Rightarrow> account_portfolio list res \<times> portfolio_cache \<times> 'w" where
  "collect_accounts f [] s = (Ok [], s)"
| "collect_accounts f (i # is) s =
     (case f i s of
        (Panic x, s1) \<Rightarrow> (Panic x, s1)
      | (Err e, s1) \<Rightarrow> collect_accounts f is s1
      | (Ok p, s1) \<Rightarrow>
          (case collect_accounts f is s1 of
             (Ok ps, s2) \<Rightarrow> (Ok ((case p of Some a \<Rightarrow> [a] | None \<Rightarrow> []) @ ps), s2)
           | r \<Rightarrow> r))"

definition empty_portfolio :: "string \<Rightarrow> wallet_portfolio" where
  "empty_portfolio walletID = \<lparr>wp_WalletID = walletID, wp_Accounts = [], wp_WalletUsdValue = Fin 0\<rparr>"

section \<open>The use case\<close>

record 'w portfolio_uc =
  pu_accountRepo :: "'w account_repo"
  pu_currency :: "string \<Rightarrow> 'w \<Rightarrow> currency_model option res \<times> 'w"
  pu_chain :: "string \<Rightarrow> 'w \<Rightarrow> chain_model option res \<times> 'w"
  pu_balance :: "string \<Rightarrow> string \<Rightarrow> currency_model \<Rightarrow> supported_currency option \<Rightarrow> 'w \<Rightarrow> f64 res \<times> 'w"
  pu_db :: "'w db"

definition ErrNoWalletAddress :: goerr where "ErrNoWalletAddress = EMsg ''account has no wallet address''"

text \<open>The symbol of the chain of an account, empty if it cannot be found.\<close>

definition chain_symbol :: "(string \<Rightarrow> 'w \<Rightarrow> chain_model option res \<times> 'w) \<Rightarrow> string \<Rightarrow> 'w \<Rightarrow> string res \<times> 'w" where
  "chain_symbol get chainID w =
     (if chainID = nil_id then (Ok [], w)
      else case get chainID w of
        (Ok (Some c), w1) \<Rightarrow> (Ok (ch_Symbol c), w1)
      | (Panic x, w1) \<Rightarrow> (Panic x, w1)
      | (_, w1) \<Rightarrow> (Ok [], w1))"

definition puc_GetAccountPortfolio ::
  "'w portfolio_uc \<Rightarrow> string \<Rightarrow> portfolio_cache \<times> 'w \<Rightarrow> account_portfolio option res \<times> portfolio_cache \<times> 'w" where
  "puc_GetAccountPortfolio uc accountID s =
     (let cacheKey = ''account-portfolio:'' @ accountID in
      case cached (pu_db uc) cacheKey s of
        (Some e, s1) \<Rightarrow> (Ok (cp_account e), s1)
      | (None, c, w) \<Rightarrow>
          (case ar_GetByID (pu_accountRepo uc) accountID w of
             (Err e, w1) \<Rightarrow> (Err e, c, w1)
           | (Panic x, w1) \<Rightarrow> (Panic x, c, w1)
           | (Ok None, w1) \<Rightarrow> (Err ErrAccountNotFound, c, w1)
           | (Ok (Some account), w1) \<Rightarrow>
               (case pu_currency uc (ac_CurrencyID account) w1 of
                  (Err e, w2) \<Rightarrow> (Err e, c, w2)
                | (Panic x, w2) \<Rightarrow> (Panic x, c, w2)
                | (Ok None, w2) \<Rightarrow> (Err ErrCurrencyNotFound, c, w2)
                | (Ok (Some currency), w2) \<Rightarrow>
                    (case chain_symbol (pu_chain uc) (ac_ChainID account) w2 of
                       (Panic x, w3) \<Rightarrow> (Panic x, c, w3)
                     | (Err e, w3) \<Rightarrow> (Err e, c, w3)
                     | (Ok symbol, w3) \<Rightarrow>
                         (let token = NewTokenData (cu_Symbol currency) (ac_Balance account) (getTokenPrice currency)
                                        (NewChainReference (ac_ChainID account) symbol);
                              result = NewAccountPortfolio (ac_ID account) (ac_WalletAddress account) token
                          in (Ok (Some result), store_account (pu_db uc) cacheKey result (c, w3)))))))"

definition puc_GetWalletPortfolio ::
  "'w portfolio_uc \<Rightarrow> (string list \<Rightarrow> string list) \<Rightarrow> string \<Rightarrow> portfolio_cache \<times> 'w
     \<Rightarrow> wallet_portfolio option res \<times> portfolio_cache \<times> 'w" where
  "puc_GetWalletPortfolio uc sched walletID s =
     (let cacheKey = ''wallet-portfolio:'' @ walletID in
      case cached (pu_db uc) cacheKey s of
        (Some e, s1) \<Rightarrow> (Ok (cp_portfolio e), s1)
      | (None, c, w) \<Rightarrow>
          (case ar_GetByWalletID (pu_accountRepo uc) walletID w of
             (Err e, w1) \<Rightarrow> (Err e, c, w1)
           | (Panic x, w1) \<Rightarrow> (Panic x, c, w1)
           | (Ok accounts, w1) \<Rightarrow>
               if accounts = [] then (Ok (Some (empty_portfolio walletID)), c, w1)
               else (case collect_accounts (puc_GetAccountPortfolio uc) (sched (map ac_ID accounts)) (c, w1) of
                  (Ok ps, s2) \<Rightarrow>
                    (let result = NewWalletPortfolio walletID ps
                     in (Ok (Some result), store_wallet (pu_db uc) cacheKey result s2))
                | (Err e, s2) \<Rightarrow> (Err e, s2)
                | (Panic x, s2) \<Rightarrow> (Panic x, s2))))"

text \<open>The balance of an account on the chain; that it could not be stored is only logged.\<close>

definition puc_GetBalance :: "'w portfolio_uc \<Rightarrow> string \<Rightarrow> 'w \<Rightarrow> f64 res \<times> 'w" where
  "puc_GetBalance uc accountID w =
     (case ar_GetByID (pu_accountRepo uc) accountID w of
        (Err e, w1) \<Rightarrow> (Err e, w1)
      | (Panic x, w1) \<Rightarrow> (Panic x, w1)
      | (Ok None, w1) \<Rightarrow> (Err ErrAccountNotFound, w1)
      | (Ok (Some account), w1) \<Rightarrow>
          if ac_WalletAddress account = [] then (Err ErrNoWalletAddress, w1)
          else if ac_ChainID account = nil_id then (Err ErrChainNotFound, w1)
          else (case pu_chain uc (ac_ChainID account) w1 of
             (Err e, w2) \<Rightarrow> (Err e, w2)
           | (Panic x, w2) \<Rightarrow> (Panic x, w2)
           | (Ok None, w2) \<Rightarrow> (Err ErrChainNotFound, w2)
           | (Ok (Some chain), w2) \<Rightarrow>
               (case pu_currency uc (ac_CurrencyID account) w2 of
                  (Err e, w3) \<Rightarrow> (Err e, w3)
                | (Panic x, w3) \<Rightarrow> (Panic x, w3)
                | (Ok None, w3) \<Rightarrow> (Err ErrCurrencyNotFound, w3)
                | (Ok (Some currency), w3) \<Rightarrow>
                    (case pu_balance uc (ch_Symbol chain) (ac_WalletAddress account) currency None w3 of
                       (Err e, w4) \<Rightarrow> (Err e, w4)
                     | (Panic x, w4) \<Rightarrow> (Panic x, w4)
                     | (Ok balance, w4) \<Rightarrow>
                         (case db_now (pu_db uc) w4 of (now, w5) \<Rightarrow>
                            (case ar_Update (pu_accountRepo uc) (UpdateBalance now balance account) w5 of
                               (Panic x, w6) \<Rightarrow> (Panic x, w6)
                             | (_, w6) \<Rightarrow> (Ok balance, w6)))))))"

section \<open>The service\<close>

record 'w portfolio_service =
  ps_db :: "'w db"
  ps_balance :: "string \<Rightarrow> currency_model \<Rightarrow> chain_model \<Rightarrow> supported_currency option \<Rightarrow> 'w \<Rightarrow> f64 res \<times> 'w"

text \<open>The currency of an account: its own or else that of its supported currency.\<close>

definition currency_id :: "account_model \<Rightarrow> string" where
  "currency_id a = (if am_CurrencyID a \<noteq> nil_id then am_CurrencyID a else am_SupportedCurrencyID a)"

definition svc_GetAccountPortfolio ::
  "'w portfolio_service \<Rightarrow> string \<Rightarrow> portfolio_cache \<times> 'w \<Rightarrow> account_portfolio option res \<times> portfolio_cache \<times> 'w" where
  "svc_GetAccountPortfolio sv accountID s =
     (let cacheKey = ''account-portfolio:'' @ accountID in
      case cached (ps_db sv) cacheKey s of
        (Some e, s1) \<Rightarrow> (Ok (cp_account e), s1)
      | (None, c, w) \<Rightarrow>
          (case GetAccountByID (ps_db sv) accountID w of
             (Err e, w1) \<Rightarrow> (Err (EWrap ''failed to fetch account: '' e), c, w1)
           | (Panic x, w1) \<Rightarrow> (Panic x, c, w1)
           | (Ok account, w1) \<Rightarrow>
               if am_CurrencyID account = nil_id \<and> am_SupportedCurrencyID account = nil_id
               then (Err (EMsg ''account has no currency ID''), c, w1)
               else (case GetCurrencyByID (ps_db sv) (currency_id account) w1 of
                  (Err e, w2) \<Rightarrow> (Err (EWrap ''failed to fetch currency: '' e), c, w2)
                | (Panic x, w2) \<Rightarrow> (Panic x, c, w2)
                | (Ok currency, w2) \<Rightarrow>
                    (let price = getTokenPrice currency in
                     case chain_symbol (\<lambda>i w. via Some (GetChainByID (ps_db sv) i w)) (am_ChainID account) w2 of
                       (Panic x, w3) \<Rightarrow> (Panic x, c, w3)
                     | (Err e, w3) \<Rightarrow> (Err e, c, w3)
                     | (Ok symbol, w3) \<Rightarrow>
                         (let usdValue = f64_mul (am_Balance account) price;
                              token = \<lparr>tk_Symbol = cu_Symbol currency, tk_Balance = am_Balance account, tk_Price = price,
                                tk_UsdValue = usdValue, tk_ChainID = \<lparr>rf_ID = am_ChainID account, rf_Symbol = symbol\<rparr>\<rparr>;
                              result = \<lparr>ap_AccountID = am_ID account, ap_WalletAddress = am_WalletAddress account,
                                ap_Token = token, ap_TotalUsdValue = usdValue\<rparr>
                          in (Ok (Some result), store_account (ps_db sv) cacheKey result (c, w3)))))))"

definition svc_GetWalletPortfolio ::
  "'w portfolio_service \<Rightarrow> (string list \<Rightarrow> string list) \<Rightarrow> string \<Rightarrow> portfolio_cache \<times> 'w
     \<Rightarrow> wallet_portfolio option res \<times> portfolio_cache \<times> 'w" where
  "svc_GetWalletPortfolio sv sched walletID s =
     (let cacheKey = ''wallet-portfolio:'' @ walletID in
      case cached (ps_db sv) cacheKey s of
        (Some e, s1) \<Rightarrow> (Ok (cp_portfolio e), s1)
      | (None, c, w) \<Rightarrow>
          (case GetAccountsByWalletID (ps_db sv) walletID w of
             (Err e, w1) \<Rightarrow> (Err (EWrap ''failed to fetch wallet accounts: '' e), c, w1)
           | (Panic x, w1) \<Rightarrow> (Panic x, c, w1)
           | (Ok accounts, w1) \<Rightarrow>
               if accounts = [] then (Ok (Some (empty_portfolio walletID)), c, w1)
               else (case collect_accounts (svc_GetAccountPortfolio sv) (sched (map am_ID accounts)) (c, w1) of
                  (Ok ps, s2) \<Rightarrow>
                    (let result = \<lparr>wp_WalletID = walletID, wp_Accounts = ps, wp_WalletUsdValue = total_usd ps\<rparr>
                     in (Ok (Some result), store_wallet (ps_db sv) cacheKey result s2))
                | (Err e, s2) \<Rightarrow> (Err e, s2)
                | (Panic x, s2) \<Rightarrow> (Panic x, s2))))"

definition GetPortfolioBalance :: "'w portfolio_service \<Rightarrow> account_model \<Rightarrow> 'w \<Rightarrow> f64 res \<times> 'w" where
  "GetPortfolioBalance sv account w =
     (if am_WalletAddress account = [] then (Err (EMsg ''account has no wallet address''), w)
      else if am_ChainID account = nil_id then (Err (EMsg ''account has no chain ID''), w)
      else case GetChainByID (ps_db sv) (am_ChainID account) w of
        (Err e, w1) \<Rightarrow> (Err (EWrap ''failed to fetch chain: '' e), w1)
      | (Panic x, w1) \<Rightarrow> (Panic x, w1)
      | (Ok chain, w1) \<Rightarrow>
          if am_CurrencyID account = nil_id \<and> am_SupportedCurrencyID account = nil_id
          then (Err (EMsg ''account has no currency ID''), w1)
          else (case GetCurrencyByID (ps_db sv) (currency_id account) w1 of
             (Err e, w2) \<Rightarrow> (Err (EWrap ''failed to fetch currency: '' e), w2)
           | (Panic x, w2) \<Rightarrow> (Panic x, w2)
           | (Ok currency, w2) \<Rightarrow> ps_balance sv (am_WalletAddress account) currency chain None w2))"

end
