(* ===== verification/Times.thy ===== *)
theory Times
  imports Documents "HOL-Library.Monad_Syntax"
begin

text \<open>
  The part of Go's \<open>time\<close> package that the exchange client and the ChangeNow worker use: points in time
  with the offset they were written with, their RFC 3339 texts as \<open>MarshalJSON\<close> writes and
  \<open>UnmarshalJSON\<close> reads them. An instant is its nanoseconds since 1970; an offset is in seconds. The
  lenient forms that \<open>time.Parse\<close> accepts besides (a comma for the point, an hour of one digit) are not
  read: the program only parses texts that \<open>MarshalJSON\<close> has written.
\<close>

section \<open>The calendar\<close>

definition leap :: "nat \<Rightarrow> bool" where
  "leap y \<longleftrightarrow> y mod 4 = 0 \<and> (y mod 100 \<noteq> 0 \<or> y mod 400 = 0)"

definition year_len :: "nat \<Rightarrow> nat" where
  "year_len y = (if leap y then 366 else 365)"

definition month_lens :: "nat \<Rightarrow> nat list" where
  "month_lens y = [31, if leap y then 29 else 28, 31, 30, 31, 30, 31, 31, 30, 31, 30, 31]"

fun days_before_year :: "nat \<Rightarrow> nat" where
  "days_before_year 0 = 0"
| "days_before_year (Suc y) = days_before_year y + year_len y"

text \<open>The year that a number of days after the beginning of year \<open>y\<close> falls into, with the days left.\<close>

lemma year_len_pos [simp]: "0 < year_len y"
  by (simp add: year_len_def)

function year_of :: "nat \<Rightarrow> nat \<Rightarrow> nat \<times> nat" where
  "year_of y d = (if d < year_len y then (y, d) else year_of (Suc y) (d - year_len y))"
  by pat_completeness auto
termination
proof (relation "measure snd")
  fix y d assume "\<not> d < year_len y"
  with year_len_pos [of y] have "d - year_len y < d" by linarith
  then show "((Suc y, d - year_len y), (y, d)) \<in> measure snd" by simp
qed simp

declare year_of.simps [simp del]

fun split_days :: "nat list \<Rightarrow> nat \<Rightarrow> nat \<times> nat" where
  "split_days [] d = (0, d)"
| "split_days (n # ns) d =
     (if d < n then (0, d) else (case split_days ns (d - n) of (i, r) \<Rightarrow> (Suc i, r)))"

text \<open>Day 0 is the first of January of year 0; the months and days of a date start at 1.\<close>

definition date_of :: "nat \<Rightarrow> nat \<times> nat \<times> nat" where
  "date_of n = (let (y, d) = year_of 0 n; (m, r) = split_days (month_lens y) d in (y, m + 1, r + 1))"

definition day_number :: "nat \<Rightarrow> nat \<Rightarrow> nat \<Rightarrow> nat" where
  "day_number y m d = days_before_year y + sum_list (take (m - 1) (month_lens y)) + (d - 1)"

lemma year_of_props:
  "year_of y d = (y', r) \<Longrightarrow> days_before_year y' + r = days_before_year y + d \<and> r < year_len y'"
proof (induction y d rule: year_of.induct)
  case (1 y d)
  show ?case
  proof (cases "d < year_len y")
    case True
    with 1 show ?thesis by (simp add: year_of.simps)
  next
    case False
    with 1(2) have "year_of (Suc y) (d - year_len y) = (y', r)" by (subst (asm) year_of.simps) simp
    from 1(1) [OF False this] False show ?thesis by simp
  qed
qed

lemma split_days_props:
  "split_days ns d = (i, r) \<Longrightarrow> d < sum_list ns
     \<Longrightarrow> sum_list (take i ns) + r = d \<and> i < length ns \<and> r < ns ! i"
proof (induction ns d arbitrary: i r rule: split_days.induct)
  case (2 n ns d)
  show ?case
  proof (cases "d < n")
    case True
    with 2 show ?thesis by auto
  next
    case False
    obtain j s where s: "split_days ns (d - n) = (j, s)" by (metis surj_pair)
    from 2(1) [OF False this] 2(3) False have "sum_list (take j ns) + s = d - n \<and> j < length ns \<and> s < ns ! j"
      by simp
    with 2(2) s False show ?thesis by auto
  qed
qed simp

lemma sum_month_lens: "sum_list (month_lens y) = year_len y" "length (month_lens y) = 12"
  by (simp_all add: month_lens_def year_len_def)

lemma date_of_day_number:
  assumes "date_of n = (y, m, d)"
  shows "day_number y m d = n" "1 \<le> m" "m \<le> 12" "1 \<le> d" "d \<le> month_lens y ! (m - 1)"
proof -
  obtain r where y: "year_of 0 n = (y, r)" using assms by (auto simp: date_of_def split: prod.splits)
  obtain i s where m: "split_days (month_lens y) r = (i, s)" by (metis surj_pair)
  from assms y m have "m = i + 1" "d = s + 1" by (auto simp: date_of_def)
  with year_of_props [OF y] split_days_props [OF m] show
    "day_number y m d = n" "1 \<le> m" "m \<le> 12" "1 \<le> d" "d \<le> month_lens y ! (m - 1)"
    by (auto simp: day_number_def sum_month_lens)
qed

section \<open>Numbers of fixed width\<close>

fun show_fix :: "nat \<Rightarrow> nat \<Rightarrow> string" where
  "show_fix 0 n = []"
| "show_fix (Suc k) n = show_fix k (n div 10) @ [digit_char (n mod 10)]"

text \<open>Parsers take a value off the front of a text: a number of \<open>k\<close> digits in a range, one character.\<close>

definition num_field :: "nat \<Rightarrow> nat \<Rightarrow> nat \<Rightarrow> string \<Rightarrow> (nat \<times> string) option" where
  "num_field k lo hi s =
     (if length s < k then None
      else case parse_digits 10 0 (take k s) of
        Some n \<Rightarrow> if lo \<le> n \<and> n \<le> hi then Some (n, drop k s) else None
      | None \<Rightarrow> None)"

definition lit :: "char \<Rightarrow> string \<Rightarrow> string option" where
  "lit c s = (case s of [] \<Rightarrow> None | d # t \<Rightarrow> if d = c then Some t else None)"

lemma length_show_fix [simp]: "length (show_fix k n) = k"
  by (induction k arbitrary: n) simp_all

lemma parse_show_fix: "n < 10 ^ k \<Longrightarrow> parse_digits 10 0 (show_fix k n) = Some n"
proof (induction k arbitrary: n)
  case (Suc k)
  from Suc.prems have "n div 10 < 10 ^ k" by (simp add: less_mult_imp_div_less mult.commute)
  with Suc.IH show ?case by (simp add: parse_digits_append char_digit_digit_char)
qed simp

lemma num_field_show:
  "n < 10 ^ k \<Longrightarrow> lo \<le> n \<Longrightarrow> n \<le> hi \<Longrightarrow> num_field k lo hi (show_fix k n @ s) = Some (n, s)"
  by (simp add: num_field_def parse_show_fix)

lemma lit_Cons [simp]: "lit c (c # s) = Some s"
  by (simp add: lit_def)

section \<open>Texts\<close>

record gtime =
  t_ns :: int
  t_off :: int

definition zero_gtime :: gtime where
  "zero_gtime = \<lparr>t_ns = zero_time, t_off = 0\<rparr>"

definition IsZero :: "gtime \<Rightarrow> bool" where
  "IsZero t \<longleftrightarrow> t_ns t = zero_time"

text \<open>The first of January 1970 is day 719528.\<close>

definition civil_ns :: "nat \<Rightarrow> nat \<Rightarrow> nat \<Rightarrow> nat \<Rightarrow> nat \<Rightarrow> nat \<Rightarrow> nat \<Rightarrow> int" where
  "civil_ns y mo d h mi s ns =
     ((((int (day_number y mo d) - 719528) * 24 + int h) * 60 + int mi) * 60 + int s) * 10 ^ 9 + int ns"

text \<open>The fraction of a second without the zeros at its end, and how it is read: nine digits count.\<close>

definition strip_zeros :: "string \<Rightarrow> string" where
  "strip_zeros s = rev (dropWhile (\<lambda>c. c = CHR ''0'') (rev s))"

definition show_frac :: "nat \<Rightarrow> string" where
  "show_frac ns = (if ns = 0 then [] else CHR ''.'' # strip_zeros (show_fix 9 ns))"

definition read_frac :: "string \<Rightarrow> nat \<times> string" where
  "read_frac s =
     (case s of
        c # d # t \<Rightarrow>
          if c = CHR ''.'' \<and> is_digit d then
            (let ds = takeWhile is_digit (d # t) in
             ((case parse_digits 10 0 (take 9 (ds @ replicate 9 (CHR ''0''))) of Some n \<Rightarrow> n | None \<Rightarrow> 0),
              dropWhile is_digit (d # t)))
          else (0, s)
      | _ \<Rightarrow> (0, s))"

text \<open>The offset, to the minute: seconds are cut off.\<close>

definition show_offset :: "int \<Rightarrow> string" where
  "show_offset off =
     (if off = 0 then ''Z''
      else let m = nat (\<bar>off\<bar> div 60)
           in (if off < 0 \<and> m \<noteq> 0 then CHR ''-'' else CHR ''+'') # show_fix 2 (m div 60) @ CHR '':'' # show_fix 2 (m mod 60))"

definition read_offset :: "string \<Rightarrow> int option" where
  "read_offset s =
     (if s = ''Z'' then Some 0
      else case s of
        c # t \<Rightarrow>
          do {
            (h, t1) \<leftarrow> num_field 2 0 23 t;
            t2 \<leftarrow> lit (CHR '':'') t1;
            (m, t3) \<leftarrow> num_field 2 0 59 t2;
            if t3 \<noteq> [] then None
            else if c = CHR ''+'' then Some (int ((h * 60 + m) * 60))
            else if c = CHR ''-'' then Some (- int ((h * 60 + m) * 60))
            else None }
      | [] \<Rightarrow> None)"

text \<open>\<open>MarshalJSON\<close>: the year has four digits and the offset is less than a day, or it fails.\<close>

definition show_civil :: "int \<Rightarrow> nat \<Rightarrow> int \<Rightarrow> string option" where
  "show_civil sec ns off =
     (if sec div 86400 + 719528 < 0 then None
      else case date_of (nat (sec div 86400 + 719528)) of (y, mo, d) \<Rightarrow>
        let sod = nat (sec mod 86400) in
        if 9999 < y \<or> 86400 \<le> \<bar>off\<bar> then None
        else Some (show_fix 4 y @ CHR ''-'' # show_fix 2 mo @ CHR ''-'' # show_fix 2 d @ CHR ''T''
               # show_fix 2 (sod div 3600) @ CHR '':'' # show_fix 2 (sod div 60 mod 60) @ CHR '':''
               # show_fix 2 (sod mod 60) @ show_frac ns @ show_offset off))"

definition show_time :: "gtime \<Rightarrow> string option" where
  "show_time t =
     (let l = t_ns t + t_off t * 10 ^ 9 in show_civil (l div 10 ^ 9) (nat (l mod 10 ^ 9)) (t_off t))"

definition parse_time :: "string \<Rightarrow> gtime option" where
  "parse_time s0 =
     do {
       (y, s) \<leftarrow> num_field 4 0 9999 s0; s \<leftarrow> lit (CHR ''-'') s;
       (mo, s) \<leftarrow> num_field 2 1 12 s; s \<leftarrow> lit (CHR ''-'') s;
       (d, s) \<leftarrow> num_field 2 1 (month_lens y ! (mo - 1)) s; s \<leftarrow> lit (CHR ''T'') s;
       (h, s) \<leftarrow> num_field 2 0 23 s; s \<leftarrow> lit (CHR '':'') s;
       (mi, s) \<leftarrow> num_field 2 0 59 s; s \<leftarrow> lit (CHR '':'') s;
       (sec, s) \<leftarrow> num_field 2 0 59 s;
       let (ns, s) = read_frac s;
       off \<leftarrow> read_offset s;
       Some \<lparr>t_ns = civil_ns y mo d h mi sec ns - off * 10 ^ 9, t_off = off\<rparr> }"

section \<open>A time that is written is read back\<close>

lemma show_fix_digit: "c \<in> set (show_fix k n) \<Longrightarrow> is_digit c"
proof (induction k arbitrary: n)
  case (Suc k)
  have "is_digit (digit_char (n mod 10))" by (simp add: is_digit_def char_digit_digit_char)
  with Suc show ?case by auto
qed simp

lemma strip_zeros_pad:
  "strip_zeros s @ replicate (length s - length (strip_zeros s)) (CHR ''0'') = s"
proof -
  let ?P = "\<lambda>c. c = CHR ''0''" and ?r = "rev s"
  have "takeWhile ?P ?r = replicate (length (takeWhile ?P ?r)) (CHR ''0'')"
    by (intro replicate_eqI) (auto dest: set_takeWhileD)
  moreover have "length (takeWhile ?P ?r) = length s - length (strip_zeros s)"
    by (metis add_diff_cancel_right' length_append length_rev strip_zeros_def takeWhile_dropWhile_id)
  moreover have "rev (dropWhile ?P ?r) @ rev (takeWhile ?P ?r) = s"
    by (metis rev_append rev_rev_ident takeWhile_dropWhile_id)
  ultimately show ?thesis by (metis rev_replicate strip_zeros_def)
qed

lemma strip_zeros_digit: "c \<in> set (strip_zeros (show_fix k n)) \<Longrightarrow> is_digit c"
  by (metis show_fix_digit strip_zeros_def set_rev set_dropWhileD)

lemma strip_zeros_Nil: "strip_zeros (show_fix k n) = [] \<Longrightarrow> n < 10 ^ k \<Longrightarrow> n = 0"
proof -
  have z: "parse_digits 10 0 (replicate k (CHR ''0'')) = Some 0" for k
    by (induction k) (simp_all add: char_digit_def)
  assume "strip_zeros (show_fix k n) = []" "n < 10 ^ k"
  with strip_zeros_pad [of "show_fix k n"] have "show_fix k n = replicate k (CHR ''0'')" by simp
  with parse_show_fix [OF \<open>n < 10 ^ k\<close>] z [of k] show "n = 0" by simp
qed

lemma read_show_frac:
  assumes "n < 10 ^ 9" "s = [] \<or> \<not> is_digit (hd s)" "s \<noteq> [] \<longrightarrow> hd s \<noteq> CHR ''.''"
  shows "read_frac (show_frac n @ s) = (n, s)"
proof (cases "n = 0")
  case True
  with assms(3) show ?thesis by (auto simp: show_frac_def read_frac_def split: list.split)
next
  case False
  let ?z = "strip_zeros (show_fix 9 n)"
  from strip_zeros_Nil [OF _ assms(1)] False obtain c t where ct: "?z = c # t" by (cases ?z) auto
  have dig: "\<forall>c \<in> set ?z. is_digit c" using strip_zeros_digit by blast
  have tw: "takeWhile is_digit (?z @ s) = ?z" "dropWhile is_digit (?z @ s) = s"
    using dig assms(2) by (cases s; simp)+
  have "length ?z \<le> 9" by (metis length_append length_show_fix le_add1 strip_zeros_pad)
  then have "take 9 (?z @ replicate 9 (CHR ''0'')) = ?z @ replicate (9 - length ?z) (CHR ''0'')"
    by (simp add: min_def)
  also have "\<dots> = show_fix 9 n" using strip_zeros_pad [of "show_fix 9 n"] by simp
  finally have "parse_digits 10 0 (take 9 (?z @ replicate 9 (CHR ''0''))) = Some n"
    using parse_show_fix [OF assms(1)] by simp
  moreover have "is_digit c" using dig ct by simp
  ultimately show ?thesis using tw False unfolding show_frac_def read_frac_def ct
    by (simp del: parse_digits.simps takeWhile.simps dropWhile.simps)
qed

lemma read_show_offset:
  assumes "\<bar>off\<bar> < 86400" "off mod 60 = 0"
  shows "read_offset (show_offset off) = Some off"
proof (cases "off = 0")
  case False
  let ?m = "nat (\<bar>off\<bar> div 60)"
  from assms(2) obtain k where k: "off = 60 * k" by (metis dvd_def mod_0_imp_dvd)
  have m: "int ?m * 60 = \<bar>off\<bar>" by (simp add: k abs_mult)
  with assms(1) have "?m < 1440" by linarith
  then have h: "?m div 60 < 24" "?m mod 60 < 60" by auto
  have nz: "?m \<noteq> 0" using m False by auto
  have s: "int ((?m div 60 * 60 + ?m mod 60) * 60) = \<bar>off\<bar>" using m by simp
  have z: "show_offset off \<noteq> ''Z''" using False by (simp add: show_offset_def Let_def)
  from False nz have e: "show_offset off = (if off < 0 then CHR ''-'' else CHR ''+'')
      # show_fix 2 (?m div 60) @ CHR '':'' # show_fix 2 (?m mod 60)" by (simp add: show_offset_def Let_def)
  have f: "num_field 2 0 23 (show_fix 2 (?m div 60) @ CHR '':'' # show_fix 2 (?m mod 60))
      = Some (?m div 60, CHR '':'' # show_fix 2 (?m mod 60))" using h by (intro num_field_show) simp_all
  have g: "num_field 2 0 59 (show_fix 2 (?m mod 60)) = Some (?m mod 60, [])"
    using num_field_show [of "?m mod 60" 2 0 59 "[]"] h by simp
  show ?thesis
    using z s unfolding read_offset_def e by (simp add: f g del: show_fix.simps)
qed (simp add: show_offset_def read_offset_def)

lemma show_offset_props:
  "show_offset off \<noteq> []" "\<not> is_digit (hd (show_offset off))" "hd (show_offset off) \<noteq> CHR ''.''"
  by (auto simp: show_offset_def Let_def is_digit_def char_digit_def simp del: show_fix.simps)

lemma parse_show_civil:
  assumes "show_civil sec ns off = Some s" "off mod 60 = 0" "ns < 10 ^ 9"
  shows "parse_time s = Some \<lparr>t_ns = sec * 10 ^ 9 + int ns - off * 10 ^ 9, t_off = off\<rparr>"
proof -
  define sod where "sod = nat (sec mod 86400)"
  obtain y mo d where dt: "date_of (nat (sec div 86400 + 719528)) = (y, mo, d)" by (metis prod_cases3)
  note day = date_of_day_number [OF dt]
  from assms(1) dt have s: "0 \<le> sec div 86400 + 719528" "y \<le> 9999" "\<bar>off\<bar> < 86400"
    "s = show_fix 4 y @ CHR ''-'' # show_fix 2 mo @ CHR ''-'' # show_fix 2 d @ CHR ''T''
        # show_fix 2 (sod div 3600) @ CHR '':'' # show_fix 2 (sod div 60 mod 60) @ CHR '':''
        # show_fix 2 (sod mod 60) @ show_frac ns @ show_offset off"
    by (auto simp: show_civil_def Let_def sod_def simp del: show_fix.simps split: if_splits)
  have "month_lens y ! (mo - 1) \<le> 31" using day(2,3)
    by (auto simp: month_lens_def nth_Cons split: nat.split)
  with day have b: "y < 10 ^ 4" "mo < 10 ^ 2" "d < 10 ^ 2" using s(2) by auto
  have sod: "sod < 86400" by (simp add: sod_def)
  then have f: "sod div 3600 < 10 ^ 2" "sod div 3600 \<le> 23" by auto
  have g: "sod div 60 mod 60 < 10 ^ 2" "sod div 60 mod 60 \<le> 59" "sod mod 60 < 10 ^ 2" "sod mod 60 \<le> 59"
    by simp_all
  have fr: "read_frac (show_frac ns @ show_offset off) = (ns, show_offset off)"
    by (rule read_show_frac) (use show_offset_props assms(3) in auto)
  have "sod div 3600 = sod div 60 div 60" by (simp add: div_mult2_eq [symmetric])
  then have n: "(sod div 3600 * 60 + sod div 60 mod 60) * 60 + sod mod 60 = sod"
    by (simp only: div_mult_mod_eq)
  have "int (day_number y mo d) = sec div 86400 + 719528" using day(1) s(1) by simp
  moreover have "int sod = sec mod 86400" by (simp add: sod_def)
  moreover have "((int (sod div 3600)) * 60 + int (sod div 60 mod 60)) * 60 + int (sod mod 60) = int sod"
    by (metis n of_nat_add of_nat_mult of_nat_numeral)
  moreover have "sec div 86400 * 86400 + sec mod 86400 = sec" by (rule div_mult_mod_eq)
  ultimately have "civil_ns y mo d (sod div 3600) (sod div 60 mod 60) (sod mod 60) ns = sec * 10 ^ 9 + int ns"
    unfolding civil_ns_def by algebra
  with day s(2,3) b f g assms(2) show ?thesis
    unfolding s(4) parse_time_def
    by (simp add: num_field_show fr read_show_offset del: show_fix.simps)
qed

theorem parse_show_time:
  assumes "show_time t = Some s" "t_off t mod 60 = 0"
  shows "parse_time s = Some t"
proof -
  define l where "l = t_ns t + t_off t * 10 ^ 9"
  have "nat (l mod 10 ^ 9) < 10 ^ 9" by (simp add: nat_less_iff)
  from parse_show_civil [OF _ assms(2) this, of "l div 10 ^ 9" s] assms(1)
  have "parse_time s = Some \<lparr>t_ns = l div 10 ^ 9 * 10 ^ 9 + int (nat (l mod 10 ^ 9)) - t_off t * 10 ^ 9, t_off = t_off t\<rparr>"
    unfolding show_time_def Let_def l_def by blast
  also have "l div 10 ^ 9 * 10 ^ 9 + int (nat (l mod 10 ^ 9)) = l" by simp
  finally show ?thesis by (simp add: l_def)
qed

section \<open>A time that is read can be written\<close>

lemma days_before_year_mono: "y < y' \<Longrightarrow> days_before_year y + year_len y \<le> days_before_year y'"
proof (induction y')
  case (Suc y')
  then show ?case by (cases "y = y'") auto
qed simp

lemma year_of_unique:
  assumes "r < year_len y"
  shows "year_of 0 (days_before_year y + r) = (y, r)"
proof -
  obtain y' r' where e: "year_of 0 (days_before_year y + r) = (y', r')" by (metis surj_pair)
  from year_of_props [OF e] have p: "days_before_year y' + r' = days_before_year y + r" "r' < year_len y'"
    by simp_all
  have "y' = y"
  proof (rule linorder_cases [of y y'])
    assume "y < y'" then show ?thesis using days_before_year_mono [of y y'] p assms by linarith
  next
    assume "y' < y" then show ?thesis using days_before_year_mono [of y' y] p assms by linarith
  qed simp
  with p e show ?thesis by simp
qed

lemma split_days_sum:
  "i < length ns \<Longrightarrow> r < ns ! i \<Longrightarrow> split_days ns (sum_list (take i ns) + r) = (i, r)"
proof (induction ns arbitrary: i)
  case (Cons n ns)
  then show ?case by (cases i) auto
qed simp

lemma sum_take_less: "i < length ns \<Longrightarrow> r < ns ! i \<Longrightarrow> sum_list (take i ns) + r < sum_list (ns :: nat list)"
proof (induction ns arbitrary: i)
  case (Cons n ns)
  then show ?case by (cases i) auto
qed simp

lemma date_of_day_number_inverse:
  assumes "1 \<le> m" "m \<le> 12" "1 \<le> d" "d \<le> month_lens y ! (m - 1)"
  shows "date_of (day_number y m d) = (y, m, d)"
proof -
  let ?r = "sum_list (take (m - 1) (month_lens y)) + (d - 1)"
  have i: "m - 1 < length (month_lens y)" "d - 1 < month_lens y ! (m - 1)"
    using assms by (simp_all add: sum_month_lens)
  from sum_take_less [OF this] have "?r < year_len y" by (simp add: sum_month_lens)
  from year_of_unique [OF this] have "year_of 0 (day_number y m d) = (y, ?r)"
    by (simp add: day_number_def add.assoc)
  with split_days_sum [OF i] assms show ?thesis by (simp add: date_of_def)
qed

lemma num_field_range: "num_field k lo hi s = Some (n, t) \<Longrightarrow> lo \<le> n \<and> n \<le> hi"
  by (auto simp: num_field_def split: if_splits option.splits)

lemma parse_digits_bound:
  "parse_digits b acc s = Some n \<Longrightarrow> n < (acc + 1) * b ^ length s"
proof (induction s arbitrary: acc)
  case (Cons c s)
  from Cons.prems obtain d where d: "d < b" "parse_digits b (acc * b + d) s = Some n"
    by (auto split: option.splits if_splits)
  from Cons.IH [OF d(2)] have "n < (acc * b + d + 1) * b ^ length s" .
  also have "\<dots> \<le> ((acc + 1) * b) * b ^ length s" using d(1) by (intro mult_right_mono) auto
  finally show ?case by (simp add: algebra_simps)
qed simp

lemma read_frac_bound: "read_frac s = (n, t) \<Longrightarrow> n < 10 ^ 9"
proof -
  assume r: "read_frac s = (n, t)"
  have "k < 10 ^ 9" if "parse_digits 10 0 (take 9 (ds @ replicate 9 (CHR ''0''))) = Some k" for ds k
  proof -
    have "length (take 9 (ds @ replicate 9 (CHR ''0''))) = 9" by simp
    with parse_digits_bound [OF that] show ?thesis by simp
  qed
  with r show ?thesis
    by (auto simp: read_frac_def Let_def split: list.splits if_splits option.splits
        simp del: take_append parse_digits.simps takeWhile.simps dropWhile.simps)
qed

lemma read_offset_range: "read_offset s = Some off \<Longrightarrow> \<bar>off\<bar> < 86400 \<and> off mod 60 = 0"
proof -
  assume r: "read_offset s = Some off"
  show ?thesis
  proof (cases "s = ''Z''")
    case False
    with r obtain h m a b a' b' where "num_field 2 0 23 a = Some (h, b)" "num_field 2 0 59 a' = Some (m, b')"
      "off = int ((h * 60 + m) * 60) \<or> off = - int ((h * 60 + m) * 60)"
      by (auto simp: read_offset_def bind_eq_Some_conv split: list.splits if_splits)
    with num_field_range [of 2 0 23 a h b] num_field_range [of 2 0 59 a' m b'] show ?thesis by auto
  qed (use r in \<open>simp add: read_offset_def\<close>)
qed

lemma bind_SomeE: "Option.bind x f = Some y \<Longrightarrow> (\<And>a. x = Some a \<Longrightarrow> f a = Some y \<Longrightarrow> R) \<Longrightarrow> R"
  by (cases x) simp_all

lemma bind_pairE:
  "Option.bind x (\<lambda>(a, b). f a b) = Some y \<Longrightarrow> (\<And>a b. x = Some (a, b) \<Longrightarrow> f a b = Some y \<Longrightarrow> R) \<Longrightarrow> R"
  by (cases x) auto

theorem show_parsed_time:
  assumes "parse_time s = Some t"
  shows "show_time t \<noteq> None" "t_off t mod 60 = 0"
proof -
  from assms obtain y mo d h mi sec ns off s1 s2 s3 s4 s5 s6 s7 s8 s9 s10 s11 s12 s13 s14 where p:
    "num_field 4 0 9999 s1 = Some (y, s2)" "num_field 2 1 12 s3 = Some (mo, s4)"
    "num_field 2 1 (month_lens y ! (mo - 1)) s5 = Some (d, s6)" "num_field 2 0 23 s7 = Some (h, s8)"
    "num_field 2 0 59 s9 = Some (mi, s10)" "num_field 2 0 59 s11 = Some (sec, s12)"
    "read_frac s12 = (ns, s13)" "read_offset s13 = Some off"
    "t = \<lparr>t_ns = civil_ns y mo d h mi sec ns - off * 10 ^ 9, t_off = off\<rparr>"
  proof -
    note r = that
    show thesis
      using assms unfolding parse_time_def
      by (elim bind_pairE bind_SomeE, unfold Let_def, split prod.split_asm, elim bind_SomeE)
        (rule r, assumption+, simp)
  qed
  have b: "y \<le> 9999" "1 \<le> mo" "mo \<le> 12" "1 \<le> d" "d \<le> month_lens y ! (mo - 1)" "h \<le> 23" "mi \<le> 59" "sec \<le> 59"
    using p(1-6) [THEN num_field_range] by simp_all
  note ns = read_frac_bound [OF p(7)] and off = read_offset_range [OF p(8)]
  define secs where "secs = (int (day_number y mo d) - 719528) * 86400 + int ((h * 60 + mi) * 60 + sec)"
  have l: "t_ns t + t_off t * 10 ^ 9 = secs * 10 ^ 9 + int ns" by (simp add: p(9) civil_ns_def secs_def)
  have "int ns < 10 ^ 9" using ns by (metis of_nat_less_iff of_nat_numeral of_nat_power)
  then have "(secs * 10 ^ 9 + int ns) div 10 ^ 9 = secs" by simp
  moreover have "secs div 86400 = int (day_number y mo d) - 719528"
  proof -
    have "(h * 60 + mi) * 60 + sec \<le> (23 * 60 + 59) * 60 + 59"
      using b(6-8) by (intro add_mono mult_right_mono) simp_all
    then have "(h * 60 + mi) * 60 + sec < 86400" by simp
    then have "int ((h * 60 + mi) * 60 + sec) < 86400" by (metis of_nat_less_iff of_nat_numeral)
    then show ?thesis by (simp add: secs_def)
  qed
  ultimately have "show_time t = show_civil secs (nat ((secs * 10 ^ 9 + int ns) mod 10 ^ 9)) (t_off t)"
    "secs div 86400 + 719528 = int (day_number y mo d)" unfolding show_time_def Let_def l by simp_all
  moreover have "t_off t = off" using p(9) by simp
  ultimately show "show_time t \<noteq> None" "t_off t mod 60 = 0"
    using b off date_of_day_number_inverse [OF b(2-5)] by (simp_all add: show_civil_def Let_def)
qed

lemma show_zero_time: "show_time zero_gtime \<noteq> None"
proof -
  have "year_of 0 366 = (1, 0)" by (simp add: year_of.simps year_len_def leap_def)
  then have "date_of 366 = (1, 1, 1)" by (simp add: date_of_def month_lens_def)
  then show ?thesis
    by (simp add: show_time_def show_civil_def zero_gtime_def zero_time_def Let_def del: show_fix.simps)
qed

end
