(* ===== verification/ChangeNowProvider.thy ===== *)
theory ChangeNowProvider
  imports QueueManager Times Models RequestManager
begin

text \<open>
  \<open>providers/cex/changenow\<close>: the client of the ChangeNow exchange, with its types (\<open>types.go\<close>) and
  constants (\<open>constants.go\<close>). The list of currencies is loaded once and kept in the provider, which is
  therefore returned by the operations that load it. The service is the HTTP parameter, \<open>cn_text\<close> the
  text of a body that is quoted in an error, \<open>cn_iter\<close> the order in which a range over a map visits it.
  Of the currency and chain structs of a market only the symbols are ever set.
\<close>

section \<open>Types\<close>

definition jtime :: "json \<Rightarrow> string \<Rightarrow> gtime option" where
  "jtime j k =
     (case jmember j k of None \<Rightarrow> Some zero_gtime | Some (JStr s) \<Rightarrow> parse_time s | _ \<Rightarrow> None)"

record cn_currency =
  cc_Ticker :: string
  cc_Name :: string
  cc_Image :: string
  cc_HasExternalID :: bool
  cc_IsFiat :: bool
  cc_Featured :: bool
  cc_IsStable :: bool
  cc_SupportsFixRate :: bool
  cc_Network :: string
  cc_TokenContract :: string
  cc_AvailableForBuy :: bool
  cc_BuyNetworks :: "string list"

definition dec_cn_currency :: "json \<Rightarrow> cn_currency option" where
  "dec_cn_currency j =
     (if \<not> jstruct j then None
      else do {
        v0 \<leftarrow> jstr j ''ticker'';
        v1 \<leftarrow> jstr j ''name'';
        v2 \<leftarrow> jstr j ''image'';
        v3 \<leftarrow> jbool j ''has_external_id'';
        v4 \<leftarrow> jbool j ''is_fiat'';
        v5 \<leftarrow> jbool j ''featured'';
        v6 \<leftarrow> jbool j ''is_stable'';
        v7 \<leftarrow> jbool j ''supports_fixed_rate'';
        v8 \<leftarrow> jstr j ''network'';
        v9 \<leftarrow> jstr j ''token_contract'';
        v10 \<leftarrow> jbool j ''available_for_buy'';
        v11 \<leftarrow> jlist dec_json_str j ''buy_networks'';
        Some \<lparr>cc_Ticker = v0, cc_Name = v1, cc_Image = v2, cc_HasExternalID = v3, cc_IsFiat = v4, cc_Featured = v5, cc_IsStable = v6, cc_SupportsFixRate = v7, cc_Network = v8, cc_TokenContract = v9, cc_AvailableForBuy = v10, cc_BuyNetworks = v11\<rparr> })"

record cn_range =
  cr_MinAmount :: f64
  cr_MaxAmount :: f64

definition dec_cn_range :: "json \<Rightarrow> cn_range option" where
  "dec_cn_range j =
     (if \<not> jstruct j then None
      else do {
        v0 \<leftarrow> jf64 j ''minAmount'';
        v1 \<leftarrow> jf64 j ''maxAmount'';
        Some \<lparr>cr_MinAmount = v0, cr_MaxAmount = v1\<rparr> })"

record cn_rate =
  ct_FromAmount :: f64
  ct_ToAmount :: f64
  ct_Flow :: string
  ct_Type :: string
  ct_RateID :: string
  ct_ValidUntil :: gtime
  ct_Transactions :: "string list"
  ct_DepositFee :: f64
  ct_WithdrawalFee :: f64

definition dec_cn_rate :: "json \<Rightarrow> cn_rate option" where
  "dec_cn_rate j =
     (if \<not> jstruct j then None
      else do {
        v0 \<leftarrow> jf64 j ''fromAmount'';
        v1 \<leftarrow> jf64 j ''toAmount'';
        v2 \<leftarrow> jstr j ''flow'';
        v3 \<leftarrow> jstr j ''type'';
        v4 \<leftarrow> jstr j ''rateId'';
        v5 \<leftarrow> jtime j ''validUntil'';
        v6 \<leftarrow> jlist dec_json_str j ''transactionsAvailable'';
        v7 \<leftarrow> jf64 j ''depositFee'';
        v8 \<leftarrow> jf64 j ''withdrawalFee'';
        Some \<lparr>ct_FromAmount = v0, ct_ToAmount = v1, ct_Flow = v2, ct_Type = v3, ct_RateID = v4, ct_ValidUntil = v5, ct_Transactions = v6, ct_DepositFee = v7, ct_WithdrawalFee = v8\<rparr> })"

definition dec_cn_currencies :: "json \<Rightarrow> cn_currency list option" where
  "dec_cn_currencies j = (case j of JArr js \<Rightarrow> those (map dec_cn_currency js) | JNull \<Rightarrow> Some [] | _ \<Rightarrow> None)"

record cn_pair =
  mp_Currency :: string
  mp_Chain :: string

record cn_market =
  mk_From :: cn_pair
  mk_To :: cn_pair
  mk_BuyCurrency :: string
  mk_SellCurrency :: string
  mk_BuyChain :: string
  mk_SellChain :: string

record rate_params =
  gp_SupportedCurrency :: "supported_currency option"
  gp_Amount :: f64
  gp_IsReversed :: bool
  gp_OrderFlow :: string

record deposit_params =
  dp_SupportedCurrency :: "supported_currency option"
  dp_Amount :: f64
  dp_IsReversed :: bool
  dp_OrderFlow :: string
  dp_WithdrawalAddress :: string
  dp_RefundAddress :: string
  dp_RateID :: string

record min_max =
  mm_Min :: f64
  mm_Max :: f64

record order_rate =
  orp_Rate :: f64
  orp_MinMax :: min_max
  orp_ProviderFees :: f64
  orp_ChainFees :: f64
  orp_Expiry :: gtime
  orp_RateID :: string
  orp_USDChain :: string

record deposit_data =
  dd_DepositAddress :: string
  dd_BuyAmount :: f64
  dd_SellAmount :: f64
  dd_WithdrawalAddress :: string
  dd_ProviderID :: string
  dd_USDChain :: string

section \<open>The provider\<close>

record cn_config =
  cf_APIKey :: string
  cf_APIURL :: string
  cf_OrderMinAmount :: f64
  cf_OrderMaxAmount :: f64

record 'w cn_provider =
  cn_http :: "'w httpc"
  cn_baseURL :: string
  cn_apiKey :: string
  cn_orderMin :: f64
  cn_orderMax :: f64
  cn_currencies :: "cn_currency list"
  cn_queue :: "'w queue_env option"
  cn_text :: "blob \<Rightarrow> string"
  cn_iter :: "(string \<times> string) list \<Rightarrow> (string \<times> string) list"

definition cn_NewProvider ::
  "'w httpc \<Rightarrow> (string \<Rightarrow> string) \<Rightarrow> (blob \<Rightarrow> string) \<Rightarrow> ((string \<times> string) list \<Rightarrow> (string \<times> string) list)
     \<Rightarrow> cn_config \<Rightarrow> 'w queue_env option \<Rightarrow> 'w cn_provider" where
  "cn_NewProvider client getenv txt iter cfg queue =
     \<lparr>cn_http = client,
      cn_baseURL = (if getenv ''CHANGE_NOW_API_URL'' \<noteq> [] then getenv ''CHANGE_NOW_API_URL''
        else if cf_APIURL cfg \<noteq> [] then cf_APIURL cfg else ''https://api.changenow.io''),
      cn_apiKey = (if getenv ''CHANGE_NOW_API_KEY'' \<noteq> [] then getenv ''CHANGE_NOW_API_KEY'' else cf_APIKey cfg),
      cn_orderMin = (if f64_lt (Fin 0) (cf_OrderMinAmount cfg) then cf_OrderMinAmount cfg else Fin 10),
      cn_orderMax = (if f64_lt (Fin 0) (cf_OrderMaxAmount cfg) then cf_OrderMaxAmount cfg else Fin 5000),
      cn_currencies = [], cn_queue = queue, cn_text = txt, cn_iter = iter\<rparr>"

definition cn_GetProviderName :: string where "cn_GetProviderName = ''changenow''"

definition cn_GetBalance :: "string \<Rightarrow> f64 res" where
  "cn_GetBalance address = Err (EMsg ''ChangeNow doesn't support direct address balance retrieval'')"

definition cn_ValidateAddress :: "string \<Rightarrow> bool" where
  "cn_ValidateAddress address \<longleftrightarrow> 10 < length address \<and> CHR '' '' \<notin> set address"

section \<open>Requests\<close>

definition cn_getHeaders :: "'w cn_provider \<Rightarrow> (string \<times> string) list" where
  "cn_getHeaders p =
     (''Content-Type'', ''application/json'')
     # (if cn_apiKey p = [] then []
        else [(''x-changenow-api-key'', cn_apiKey p), (''x-api-key'', cn_apiKey p)])"

text \<open>
  The pattern of every request: make it, set the headers, send it, insist on a status, decode the body.
  The errors name what was asked for. Of a body that cannot be read nothing is quoted.
\<close>

definition cn_call ::
  "'w cn_provider \<Rightarrow> string \<Rightarrow> string \<Rightarrow> string \<Rightarrow> blob option \<Rightarrow> int list \<Rightarrow> (json \<Rightarrow> 'a option)
     \<Rightarrow> 'w \<Rightarrow> 'a res \<times> 'w" where
  "cn_call p what meth url body oks dec w =
     (let unexpected = (\<lambda>c t. Err (EMsg (''unexpected status code from '' @ what @ '' endpoint: ''
            @ show_int 10 c @ '', response: '' @ t)));
          unparsed = (\<lambda>e. Err (EWrap (''failed to parse '' @ what @ '' response: '') e))
      in case hdo (cn_http p) meth url (fold (\<lambda>(k, v). set_header k v) (cn_getHeaders p) []) body w of
        (HReqErr e, w') \<Rightarrow> (Err (EWrap (''failed to create '' @ what @ '' request: '') e), w')
      | (HDoErr e, w') \<Rightarrow> (Err (EWrap (''failed to execute '' @ what @ '' request: '') e), w')
      | (HBodyErr c e, w') \<Rightarrow> (if c \<notin> set oks then unexpected c [] else unparsed e, w')
      | (HResp c b, w') \<Rightarrow>
          (if c \<notin> set oks then unexpected c (cn_text p b)
           else (case b of
             Raw _ \<Rightarrow> unparsed (EMsg ''invalid character'')
           | Enc j \<Rightarrow> (case dec j of None \<Rightarrow> unparsed (EMsg ''json: cannot unmarshal'') | Some a \<Rightarrow> Ok a)), w'))"

text \<open>\<open>fmt\<close>'s \<open>%f\<close>: six decimals, correctly rounded.\<close>

definition show_f :: "f64 \<Rightarrow> string" where
  "show_f x =
     (case x of
        Fin r \<Rightarrow> (let n = nat (rne (\<bar>r\<bar> * 10 ^ 6))
                  in (if r < 0 then ''-'' else []) @ show_nat 10 (n div 10 ^ 6) @ ''.'' @ show_fix 6 (n mod 10 ^ 6))
      | PInf \<Rightarrow> ''+Inf'' | NInf \<Rightarrow> ''-Inf'' | NaN \<Rightarrow> ''NaN'')"

section \<open>Markets\<close>

definition loadAvailableCurrencies :: "'w cn_provider \<Rightarrow> 'w \<Rightarrow> unit res \<times> 'w cn_provider \<times> 'w" where
  "loadAvailableCurrencies p w =
     (if cn_currencies p \<noteq> [] then (Ok (), p, w)
      else case cn_call p ''currencies'' ''GET''
                  (cn_baseURL p @ ''/exchange/currencies'' @ ''?active=&flow=standard&buy=&sell='') None [200]
                  dec_cn_currencies w of
        (Ok cs, w1) \<Rightarrow> (Ok (), p\<lparr>cn_currencies := cs\<rparr>, w1)
      | (Err e, w1) \<Rightarrow> (Err e, p, w1)
      | (Panic x, w1) \<Rightarrow> (Panic x, p, w1))"

definition chain_alias :: "string \<Rightarrow> string" where
  "chain_alias c = (if c = ''arb'' then ''arbitrum'' else if c = ''pls'' then ''eth'' else c)"

definition currency_alias :: "string \<Rightarrow> string" where
  "currency_alias c = (if c = ''pls'' then ''eth'' else c)"

text \<open>The chain and the currency of a supported currency are not looked up: they get the default symbols.\<close>

definition extractMarketFromCurrency :: "rate_params \<Rightarrow> cn_market" where
  "extractMarketFromCurrency params =
     (let buy = gp_OrderFlow params = ''BUY'';
          given = gp_SupportedCurrency params \<noteq> None;
          buyCurrency = (if given \<and> buy then ''usdt'' else ''usdt'');
          buyChain = (if given \<and> buy then ''bsc'' else ''bsc'');
          sellCurrency = (if given \<and> \<not> buy then ''usdt'' else ''usdt'');
          sellChain = (if given \<and> \<not> buy then ''bsc'' else ''bsc'')
      in \<lparr>mk_From = \<lparr>mp_Currency = currency_alias (to_lower buyCurrency), mp_Chain = chain_alias (to_lower buyChain)\<rparr>,
          mk_To = \<lparr>mp_Currency = currency_alias (to_lower sellCurrency), mp_Chain = chain_alias (to_lower sellChain)\<rparr>,
          mk_BuyCurrency = buyCurrency, mk_SellCurrency = sellCurrency,
          mk_BuyChain = buyChain, mk_SellChain = sellChain\<rparr>)"

definition market_query :: "cn_market \<Rightarrow> string" where
  "market_query m =
     ''?fromCurrency='' @ mp_Currency (mk_From m) @ ''&toCurrency='' @ mp_Currency (mk_To m)
     @ ''&fromNetwork='' @ mp_Chain (mk_From m) @ ''&toNetwork='' @ mp_Chain (mk_To m)"

definition usd_chain :: "cn_market \<Rightarrow> string" where
  "usd_chain m = (if to_lower (mk_BuyCurrency m) = ''usdt'' then mk_BuyChain m else mk_SellChain m)"

section \<open>Rates\<close>

definition f64_min :: "f64 \<Rightarrow> f64 \<Rightarrow> f64" where
  "f64_min a b = (if f64_lt a b then a else b)"

definition f64_max :: "f64 \<Rightarrow> f64 \<Rightarrow> f64" where
  "f64_max a b = (if f64_lt b a then a else b)"

text \<open>The rate a response stands for, with its sign should it be zero.\<close>

definition provider_rate :: "cn_rate \<Rightarrow> f64 \<times> bool" where
  "provider_rate r =
     (let num = f64_add (ct_ToAmount r) (ct_WithdrawalFee r); den = f64_sub (ct_FromAmount r) (ct_DepositFee r)
      in (f64_div False num den, f64_neg_sign num \<noteq> f64_neg_sign den))"

definition estimate_url :: "'w cn_provider \<Rightarrow> cn_market \<Rightarrow> string \<Rightarrow> string \<Rightarrow> f64 \<Rightarrow> string" where
  "estimate_url p m typ side amount =
     cn_baseURL p @ ''/exchange/estimated-amount'' @ market_query m @ ''&flow=fixed-rate&type='' @ typ
     @ ''&'' @ side @ ''Amount='' @ show_f amount"

text \<open>The amount that is asked for: the given one, kept between the limits; those of the other
  currency if the order is reversed.\<close>

definition used_amount ::
  "'w cn_provider \<Rightarrow> rate_params \<Rightarrow> cn_market \<Rightarrow> f64 \<Rightarrow> f64 \<Rightarrow> 'w \<Rightarrow> f64 res \<times> 'w" where
  "used_amount p params m minAmount maxAmount w =
     (let clamp = (\<lambda>lo hi. f64_min (f64_max (gp_Amount params) (f64_mul lo (f64_of_rat (101 / 100))))
                                  (f64_mul hi (f64_of_rat (99 / 100))))
      in if \<not> gp_IsReversed params then (Ok (clamp minAmount maxAmount), w)
         else case cn_call p ''min rate'' ''GET'' (estimate_url p m ''direct'' ''from'' minAmount) None [200]
                     dec_cn_rate w of
           (Ok r, w1) \<Rightarrow> (Ok (clamp (ct_ToAmount r) (f64_mul maxAmount (fst (provider_rate r)))), w1)
         | (Err e, w1) \<Rightarrow> (Err e, w1)
         | (Panic x, w1) \<Rightarrow> (Panic x, w1))"

definition rate_result :: "'w cn_provider \<Rightarrow> cn_market \<Rightarrow> f64 \<Rightarrow> f64 \<Rightarrow> cn_rate \<Rightarrow> order_rate" where
  "rate_result p m minAmount maxAmount r =
     (let buyingUsdt = to_lower (mk_BuyCurrency m) = ''usdt'';
          (rate, neg) = provider_rate r;
          fees = (if buyingUsdt then f64_add (ct_DepositFee r) (f64_div neg (ct_WithdrawalFee r) rate)
                  else f64_add (f64_mul (ct_DepositFee r) rate) (ct_WithdrawalFee r));
          zapMin = (if buyingUsdt then cn_orderMin p else f64_div neg (cn_orderMin p) rate);
          zapMax = (if buyingUsdt then cn_orderMax p else f64_div neg (cn_orderMax p) rate)
      in \<lparr>orp_Rate = rate, orp_MinMax = \<lparr>mm_Min = f64_max minAmount zapMin, mm_Max = f64_min maxAmount zapMax\<rparr>,
          orp_ProviderFees = fees, orp_ChainFees = Fin 1, orp_Expiry = ct_ValidUntil r,
          orp_RateID = ct_RateID r, orp_USDChain = usd_chain m\<rparr>)"

definition order_rates :: "'w cn_provider \<Rightarrow> rate_params \<Rightarrow> 'w \<Rightarrow> order_rate res \<times> 'w" where
  "order_rates p params w =
     (let m = extractMarketFromCurrency params; buyingUsdt = to_lower (mk_BuyCurrency m) = ''usdt''
      in case cn_call p ''range'' ''GET'' (cn_baseURL p @ ''/exchange/range'' @ market_query m @ ''&flow=fixed-rate'')
                None [200] dec_cn_range w of
        (Err e, w1) \<Rightarrow> (Err e, w1)
      | (Panic x, w1) \<Rightarrow> (Panic x, w1)
      | (Ok rg, w1) \<Rightarrow>
          (let minAmount = (if buyingUsdt then f64_max (cn_orderMin p) (cr_MinAmount rg) else cr_MinAmount rg);
               maxAmount = (if buyingUsdt then f64_min (cn_orderMax p) (cr_MaxAmount rg) else cr_MaxAmount rg)
           in case used_amount p params m minAmount maxAmount w1 of
             (Err e, w2) \<Rightarrow> (Err e, w2)
           | (Panic x, w2) \<Rightarrow> (Panic x, w2)
           | (Ok used, w2) \<Rightarrow>
               (case cn_call p ''rate'' ''GET''
                       (estimate_url p m (if gp_IsReversed params then ''reverse'' else ''direct'')
                          (if gp_IsReversed params then ''to'' else ''from'') used) None [200] dec_cn_rate w2 of
                  (Err e, w3) \<Rightarrow> (Err e, w3)
                | (Panic x, w3) \<Rightarrow> (Panic x, w3)
                | (Ok r, w3) \<Rightarrow> (Ok (rate_result p m minAmount maxAmount r), w3))))"

definition GetOrderRates ::
  "'w cn_provider \<Rightarrow> rate_params \<Rightarrow> 'w \<Rightarrow> order_rate res \<times> 'w cn_provider \<times> 'w" where
  "GetOrderRates p params w =
     (case loadAvailableCurrencies p w of
        (Err e, p1, w1) \<Rightarrow> (Err (EWrap ''failed to load available currencies: '' e), p1, w1)
      | (Panic x, p1, w1) \<Rightarrow> (Panic x, p1, w1)
      | (Ok _, p1, w1) \<Rightarrow> (case order_rates p1 params w1 of (r, w2) \<Rightarrow> (r, p1, w2)))"

section \<open>Deposit accounts\<close>

record cn_exchange_request =
  cq_FromCurrency :: string
  cq_ToCurrency :: string
  cq_FromNetwork :: string
  cq_ToNetwork :: string
  cq_FromAmount :: f64
  cq_ToAmount :: f64
  cq_Address :: string
  cq_Flow :: string
  cq_Type :: string
  cq_RateID :: string
  cq_RefundAddress :: string
  cq_ExtraID :: string
  cq_RefundExtraID :: string
  cq_UserID :: string
  cq_Payload :: string
  cq_ContactEmail :: string
  cq_Source :: string

definition exchange_request_json :: "cn_exchange_request \<Rightarrow> gval" where
  "exchange_request_json b = VMap (
     [(''fromCurrency'', VStr (cq_FromCurrency b))] @
     [(''toCurrency'', VStr (cq_ToCurrency b))] @
     [(''fromNetwork'', VStr (cq_FromNetwork b))] @
     [(''toNetwork'', VStr (cq_ToNetwork b))] @
     (if cq_FromAmount b = Fin 0 then [] else [(''fromAmount'', VFloat (cq_FromAmount b))]) @
     (if cq_ToAmount b = Fin 0 then [] else [(''toAmount'', VFloat (cq_ToAmount b))]) @
     [(''address'', VStr (cq_Address b))] @
     [(''flow'', VStr (cq_Flow b))] @
     [(''type'', VStr (cq_Type b))] @
     (if cq_RateID b = [] then [] else [(''rateId'', VStr (cq_RateID b))]) @
     (if cq_RefundAddress b = [] then [] else [(''refundAddress'', VStr (cq_RefundAddress b))]) @
     (if cq_ExtraID b = [] then [] else [(''extraId'', VStr (cq_ExtraID b))]) @
     (if cq_RefundExtraID b = [] then [] else [(''refundExtraId'', VStr (cq_RefundExtraID b))]) @
     (if cq_UserID b = [] then [] else [(''userId'', VStr (cq_UserID b))]) @
     (if cq_Payload b = [] then [] else [(''payload'', VStr (cq_Payload b))]) @
     (if cq_ContactEmail b = [] then [] else [(''contactEmail'', VStr (cq_ContactEmail b))]) @
     (if cq_Source b = [] then [] else [(''source'', VStr (cq_Source b))]))"

record cn_exchange =
  ce_ID :: string
  ce_PayinAddress :: string
  ce_PayinExtraID :: string
  ce_PayoutAddress :: string
  ce_PayoutExtraID :: string
  ce_FromCurrency :: string
  ce_ToCurrency :: string
  ce_FromNetwork :: string
  ce_ToNetwork :: string
  ce_AmountFrom :: f64
  ce_AmountTo :: f64
  ce_PayTill :: gtime
  ce_RateID :: string
  ce_Flow :: string
  ce_Type :: string
  ce_FromAmount :: f64
  ce_ToAmount :: f64
  ce_CreatedAt :: gtime
  ce_RefundAddress :: string
  ce_RefundExtraID :: string
  ce_ProviderFee :: f64
  ce_ProviderFeeCurr :: string
  ce_NetworkFee :: f64
  ce_NetworkFeeCurr :: string
  ce_EstimatedConfirm :: f64

definition dec_cn_exchange :: "json \<Rightarrow> cn_exchange option" where
  "dec_cn_exchange j =
     (if \<not> jstruct j then None
      else do {
        v0 \<leftarrow> jstr j ''id'';
        v1 \<leftarrow> jstr j ''payinAddress'';
        v2 \<leftarrow> jstr j ''payinExtraId'';
        v3 \<leftarrow> jstr j ''payoutAddress'';
        v4 \<leftarrow> jstr j ''payoutExtraId'';
        v5 \<leftarrow> jstr j ''fromCurrency'';
        v6 \<leftarrow> jstr j ''toCurrency'';
        v7 \<leftarrow> jstr j ''fromNetwork'';
        v8 \<leftarrow> jstr j ''toNetwork'';
        v9 \<leftarrow> jf64 j ''expectedAmountFrom'';
        v10 \<leftarrow> jf64 j ''expectedAmountTo'';
        v11 \<leftarrow> jtime j ''payTill'';
        v12 \<leftarrow> jstr j ''rateId'';
        v13 \<leftarrow> jstr j ''flow'';
        v14 \<leftarrow> jstr j ''type'';
        v15 \<leftarrow> jf64 j ''fromAmount'';
        v16 \<leftarrow> jf64 j ''toAmount'';
        v17 \<leftarrow> jtime j ''createdAt'';
        v18 \<leftarrow> jstr j ''refundAddress'';
        v19 \<leftarrow> jstr j ''refundExtraId'';
        v20 \<leftarrow> jf64 j ''providerFee'';
        v21 \<leftarrow> jstr j ''providerFeeCurrency'';
        v22 \<leftarrow> jf64 j ''networkFee'';
        v23 \<leftarrow> jstr j ''networkFeeCurrency'';
        v24 \<leftarrow> jf64 j ''estimatedFormConfirmTime'';
        Some \<lparr>ce_ID = v0, ce_PayinAddress = v1, ce_PayinExtraID = v2, ce_PayoutAddress = v3, ce_PayoutExtraID = v4, ce_FromCurrency = v5, ce_ToCurrency = v6, ce_FromNetwork = v7, ce_ToNetwork = v8, ce_AmountFrom = v9, ce_AmountTo = v10, ce_PayTill = v11, ce_RateID = v12, ce_Flow = v13, ce_Type = v14, ce_FromAmount = v15, ce_ToAmount = v16, ce_CreatedAt = v17, ce_RefundAddress = v18, ce_RefundExtraID = v19, ce_ProviderFee = v20, ce_ProviderFeeCurr = v21, ce_NetworkFee = v22, ce_NetworkFeeCurr = v23, ce_EstimatedConfirm = v24\<rparr> })"

fun query_string :: "(string \<times> string) list \<Rightarrow> string" where
  "query_string [] = []"
| "query_string [(k, v)] = k @ ''='' @ v"
| "query_string ((k, v) # kvs) = k @ ''='' @ v @ ''&'' @ query_string kvs"

definition getRateID :: "'w cn_provider \<Rightarrow> cn_market \<Rightarrow> f64 \<Rightarrow> bool \<Rightarrow> 'w \<Rightarrow> string res \<times> 'w" where
  "getRateID p m amount isReversed w =
     (let params = [(''fromCurrency'', mp_Currency (mk_From m)), (''toCurrency'', mp_Currency (mk_To m)),
            (''fromNetwork'', mp_Chain (mk_From m)), (''toNetwork'', mp_Chain (mk_To m)),
            (''flow'', ''fixed-rate''), (''useRateId'', ''true''),
            (''type'', if isReversed then ''reverse'' else ''direct''),
            (if isReversed then ''toAmount'' else ''fromAmount'', show_f amount)]
      in case cn_call p ''rate ID'' ''GET''
                (cn_baseURL p @ ''/exchange/estimated-amount'' @ ''?'' @ query_string (cn_iter p params))
                None [200] dec_cn_rate w of
        (Ok r, w1) \<Rightarrow>
          (if ct_RateID r = [] then Err (EMsg ''no rate ID returned from ChangeNow'') else Ok (ct_RateID r), w1)
      | (Err e, w1) \<Rightarrow> (Err e, w1)
      | (Panic x, w1) \<Rightarrow> (Panic x, w1))"

definition exchange_request :: "deposit_params \<Rightarrow> cn_market \<Rightarrow> string \<Rightarrow> cn_exchange_request" where
  "exchange_request params m rateID =
     \<lparr>cq_FromCurrency = mp_Currency (mk_From m), cq_ToCurrency = mp_Currency (mk_To m),
      cq_FromNetwork = mp_Chain (mk_From m), cq_ToNetwork = mp_Chain (mk_To m),
      cq_FromAmount = (if dp_IsReversed params then Fin 0 else dp_Amount params),
      cq_ToAmount = (if dp_IsReversed params then dp_Amount params else Fin 0),
      cq_Address = dp_WithdrawalAddress params, cq_Flow = ''fixed-rate'', cq_Type = ''direct'',
      cq_RateID = rateID, cq_RefundAddress = dp_RefundAddress params, cq_ExtraID = [], cq_RefundExtraID = [],
      cq_UserID = [], cq_Payload = [], cq_ContactEmail = [], cq_Source = []\<rparr>"

text \<open>The rest of \<open>CreateDepositAccount\<close> once the identifier of a rate is known.\<close>

definition create_exchange ::
  "'w cn_provider \<Rightarrow> deposit_params \<Rightarrow> cn_market \<Rightarrow> string \<Rightarrow> 'w \<Rightarrow> deposit_data res \<times> 'w" where
  "create_exchange p params m rateID w =
     (case to_json (exchange_request_json (exchange_request params m rateID)) of
        None \<Rightarrow> (Err (EWrap ''failed to marshal request body: '' (EMsg ''json: unsupported value'')), w)
      | Some j \<Rightarrow>
          (case cn_call p ''exchange'' ''POST'' (cn_baseURL p @ ''/exchange'') (Some (Enc j)) [200, 201] dec_cn_exchange w of
             (Err e, w1) \<Rightarrow> (Err e, w1)
           | (Panic x, w1) \<Rightarrow> (Panic x, w1)
           | (Ok r, w1) \<Rightarrow>
               (Ok \<lparr>dd_DepositAddress = ce_PayinAddress r, dd_BuyAmount = ce_FromAmount r,
                   dd_SellAmount = ce_ToAmount r, dd_WithdrawalAddress = dp_WithdrawalAddress params,
                   dd_ProviderID = ce_ID r,
                   dd_USDChain = (if to_lower (mk_BuyCurrency m) = ''usdt'' \<and> mk_BuyChain m \<noteq> []
                     then mk_BuyChain m else mk_SellChain m)\<rparr>, w1)))"

definition CreateDepositAccount ::
  "'w cn_provider \<Rightarrow> deposit_params \<Rightarrow> 'w \<Rightarrow> deposit_data res \<times> 'w cn_provider \<times> 'w" where
  "CreateDepositAccount p params w =
     (if dp_WithdrawalAddress params = [] then
        (Err (EMsg ''withdrawalAddress is required for creating a fixed-rate exchange''), p, w)
      else case loadAvailableCurrencies p w of
        (Err e, p1, w1) \<Rightarrow> (Err (EWrap ''failed to load available currencies: '' e), p1, w1)
      | (Panic x, p1, w1) \<Rightarrow> (Panic x, p1, w1)
      | (Ok _, p1, w1) \<Rightarrow>
          (let m = extractMarketFromCurrency \<lparr>gp_SupportedCurrency = dp_SupportedCurrency params,
                 gp_Amount = dp_Amount params, gp_IsReversed = dp_IsReversed params,
                 gp_OrderFlow = dp_OrderFlow params\<rparr>
           in case (if dp_RateID params \<noteq> [] then (Ok (dp_RateID params), w1)
                    else getRateID p1 m (dp_Amount params) (dp_IsReversed params) w1) of
             (Err e, w2) \<Rightarrow> (Err (EWrap ''failed to get rate ID: '' e), p1, w2)
           | (Panic x, w2) \<Rightarrow> (Panic x, p1, w2)
           | (Ok rateID, w2) \<Rightarrow>
               (case create_exchange p1 params m rateID w2 of (r, w3) \<Rightarrow> (r, p1, w3))))"

section \<open>Transactions\<close>

record cn_status =
  cs_ID :: string
  cs_Status :: string
  cs_AmountFrom :: f64
  cs_AmountTo :: f64
  cs_ExpectedFrom :: f64
  cs_ExpectedTo :: f64
  cs_CreatedAt :: gtime
  cs_UpdatedAt :: gtime
  cs_PayinHash :: string
  cs_PayoutHash :: string
  cs_PayinExplorerURL :: string
  cs_PayoutExplorerURL :: string
  cs_RefundHash :: string
  cs_RefundExplorerURL :: string
  cs_FromCurrency :: string
  cs_ToCurrency :: string
  cs_FromNetwork :: string
  cs_ToNetwork :: string

definition dec_cn_status :: "json \<Rightarrow> cn_status option" where
  "dec_cn_status j =
     (if \<not> jstruct j then None
      else do {
        v0 \<leftarrow> jstr j ''id'';
        v1 \<leftarrow> jstr j ''status'';
        v2 \<leftarrow> jf64 j ''amountFrom'';
        v3 \<leftarrow> jf64 j ''amountTo'';
        v4 \<leftarrow> jf64 j ''expectedAmountFrom'';
        v5 \<leftarrow> jf64 j ''expectedAmountTo'';
        v6 \<leftarrow> jtime j ''createdAt'';
        v7 \<leftarrow> jtime j ''updatedAt'';
        v8 \<leftarrow> jstr j ''payinHash'';
        v9 \<leftarrow> jstr j ''payoutHash'';
        v10 \<leftarrow> jstr j ''payinExplorerLink'';
        v11 \<leftarrow> jstr j ''payoutExplorerLink'';
        v12 \<leftarrow> jstr j ''refundHash'';
        v13 \<leftarrow> jstr j ''refundExplorerLink'';
        v14 \<leftarrow> jstr j ''fromCurrency'';
        v15 \<leftarrow> jstr j ''toCurrency'';
        v16 \<leftarrow> jstr j ''fromNetwork'';
        v17 \<leftarrow> jstr j ''toNetwork'';
        Some \<lparr>cs_ID = v0, cs_Status = v1, cs_AmountFrom = v2, cs_AmountTo = v3, cs_ExpectedFrom = v4, cs_ExpectedTo = v5, cs_CreatedAt = v6, cs_UpdatedAt = v7, cs_PayinHash = v8, cs_PayoutHash = v9, cs_PayinExplorerURL = v10, cs_PayoutExplorerURL = v11, cs_RefundHash = v12, cs_RefundExplorerURL = v13, cs_FromCurrency = v14, cs_ToCurrency = v15, cs_FromNetwork = v16, cs_ToNetwork = v17\<rparr> })"

definition GetTransactionStatus :: "'w cn_provider \<Rightarrow> string \<Rightarrow> 'w \<Rightarrow> cn_status res \<times> 'w" where
  "GetTransactionStatus p txID w =
     cn_call p ''status'' ''GET'' (cn_baseURL p @ ''/v2/exchange/by-id'' @ ''?id='' @ txID) None [200] dec_cn_status w"

text \<open>
  The job that watches a transaction. A time that JSON cannot represent makes marshalling the job fail,
  as \<open>NaN\<close> does.
\<close>

definition time_gval :: "int \<Rightarrow> gval" where
  "time_gval t = (case show_time \<lparr>t_ns = t, t_off = 0\<rparr> of Some s \<Rightarrow> VStr s | None \<Rightarrow> VFloat NaN)"

definition supported_currency_gval :: "supported_currency option \<Rightarrow> gval" where
  "supported_currency_gval x =
     (case x of
        None \<Rightarrow> VNil
      | Some c \<Rightarrow> VMap ([(''id'', VStr (sc_ID c)), (''chainId'', VStr (sc_ChainID c)), (''currencyId'', VStr (sc_CurrencyID c))]
          @ (if sc_TokenAddress c = [] then [] else [(''tokenAddress'', VStr (sc_TokenAddress c))])
          @ [(''decimals'', VInt (sc_Decimals c)), (''status'', VStr (sc_Status c)),
             (''createdAt'', time_gval (sc_CreatedAt c)), (''updatedAt'', time_gval (sc_UpdatedAt c))]))"

definition watch_job_data :: "supported_currency option \<Rightarrow> string \<Rightarrow> gomap \<Rightarrow> string \<Rightarrow> (string \<times> gval) list" where
  "watch_job_data sc address order providerId =
     [(''supportedCurrency'', supported_currency_gval sc), (''address'', VStr address),
      (''order'', case order of Some kvs \<Rightarrow> VMap kvs | None \<Rightarrow> VNil), (''providerId'', VStr providerId)]"

definition WatchTransactionStatus ::
  "'w cn_provider \<Rightarrow> supported_currency option \<Rightarrow> string \<Rightarrow> gomap \<Rightarrow> string \<Rightarrow> 'w \<Rightarrow> unit res \<times> 'w" where
  "WatchTransactionStatus p sc address order providerId w =
     (let orderId = (case Option.bind order (\<lambda>kvs. map_of kvs ''_id'') of Some (VStr i) \<Rightarrow> i | _ \<Rightarrow> []);
          options = [(''jobId'', VStr (''changenow-tx:'' @ providerId @ '':'' @ orderId)),
            (''repeat'', VMap [(''every'', VInt 90000)]),
            (''removeOnComplete'', VBool True), (''removeOnFail'', VBool False)]
      in case cn_queue p of
        None \<Rightarrow> (Err (EMsg ''queue manager not initialized''), w)
      | Some q \<Rightarrow>
          (case ScheduleJob q ''ChangeNowWatcherQueue'' (Some (watch_job_data sc address order providerId)) (Some options) w of
             (Ok _, w1) \<Rightarrow> (Ok (), w1)
           | (Err e, w1) \<Rightarrow> (Err (EWrap ''failed to schedule transaction watch job: '' e), w1)
           | (Panic x, w1) \<Rightarrow> (Panic x, w1)))"

end
