(* ===== verification/HttpServer.thy ===== *)
theory HttpServer
  imports GoValue
begin

text \<open>
  Requests the program serves (\<open>interfaces/http\<close>): the framework (\<open>gin\<close>) delivers the parameter of a
  path as a string and a body as bytes, which are bound to a struct by \<open>ShouldBindJSON\<close>; a field bound
  as required must not have the zero value of its type.
\<close>

definition bind_json :: "(json \<Rightarrow> 'a option) \<Rightarrow> blob \<Rightarrow> 'a option" where
  "bind_json dec b = (case b of Enc j \<Rightarrow> dec j | Raw _ \<Rightarrow> None)"

definition required :: "bool \<Rightarrow> unit option" where
  "required b = (if b then Some () else None)"

end
