(* ===== verification/WalletHandlers.thy ===== *)
theory WalletHandlers
  imports Portfolio ChangeNowProvider HttpServer
begin

text \<open>
  The HTTP interface of the wallets: \<open>interfaces/http/handlers/wallet_handler.go\<close> over the use cases,
  \<open>src/services/wallet_service.go\<close> over the repositories, and the callbacks of \<open>src/services/event_service.go\<close>.
  A handler returns its reply; what it leaves running in a goroutine is a task of its own, run on
  a later world. The framework (\<open>gin\<close>) delivers the path parameter as a string and the body of a request
  as bytes.
\<close>

section \<open>Replies\<close>

text \<open>Status code, the members \<open>status\<close>, \<open>message\<close> and \<open>error\<close>, and the data.\<close>

datatype 'd reply = Reply (rp_code: int) (rp_status: string) (rp_message: string) (rp_error: "string option") (rp_data: "'d option")

definition failure :: "int \<Rightarrow> string \<Rightarrow> 'd reply" where
  "failure code message = Reply code ''error'' message None None"

definition success :: "string \<Rightarrow> 'd \<Rightarrow> 'd reply" where
  "success message d = Reply 200 ''success'' message None (Some d)"

text \<open>The portfolio of a wallet or an account.\<close>

definition portfolio_reply ::
  "string \<Rightarrow> string \<Rightarrow> (string \<Rightarrow> 's \<Rightarrow> 'd option res \<times> 's) \<Rightarrow> string \<Rightarrow> 's \<Rightarrow> 'd reply res \<times> 's" where
  "portfolio_reply what What get hex s =
     (case ObjectIDFromHex hex of
        None \<Rightarrow> (Ok (failure 400 (''Invalid '' @ what @ '' ID format'')), s)
      | Some i \<Rightarrow>
          (case get i s of
             (Panic x, s1) \<Rightarrow> (Panic x, s1)
           | (Err e, s1) \<Rightarrow> (Ok (failure 500 (''Failed to get '' @ what @ '' portfolio'')), s1)
           | (Ok None, s1) \<Rightarrow> (Ok (failure 404 (What @ '' portfolio not found'')), s1)
           | (Ok (Some p), s1) \<Rightarrow> (Ok (success (What @ '' portfolio fetched successfully'') p), s1)))"

text \<open>The portfolios of the wallets of a user; the goroutines run one after the other.\<close>

fun collect_wallets ::
  "(string \<Rightarrow> 's \<Rightarrow> wallet_portfolio option res \<times> 's) \<Rightarrow> (string \<times> string \<times> string) list
     \<Rightarrow> 's \<Rightarrow> portfolio_response list res \<times> 's" where
  "collect_wallets f [] s = (Ok [], s)"
| "collect_wallets f ((i, name, identifier) # xs) s =
     (case f i s of
        (Panic x, s1) \<Rightarrow> (Panic x, s1)
      | (Err e, s1) \<Rightarrow> collect_wallets f xs s1
      | (Ok p, s1) \<Rightarrow>
          (case collect_wallets f xs s1 of
             (Ok rs, s2) \<Rightarrow> (Ok ((case p of Some q \<Rightarrow> [NewWalletPortfolioResponse i name identifier q] | None \<Rightarrow> []) @ rs), s2)
           | r \<Rightarrow> r))"

text \<open>
  \<open>order n\<close> lists the \<open>n\<close> wallets in the order in which their goroutines run; \<open>late\<close> is the number of
  results after which the reply gave up waiting, if it did (the goroutines then still run).
\<close>

definition user_portfolio_reply ::
  "(string \<Rightarrow> 'w \<Rightarrow> (string \<times> string \<times> string) list res \<times> 'w)
     \<Rightarrow> (string \<Rightarrow> portfolio_cache \<times> 'w \<Rightarrow> wallet_portfolio option res \<times> portfolio_cache \<times> 'w)
     \<Rightarrow> (nat \<Rightarrow> nat list) \<Rightarrow> nat option \<Rightarrow> string
     \<Rightarrow> portfolio_cache \<times> 'w \<Rightarrow> portfolio_response list reply res \<times> portfolio_cache \<times> 'w" where
  "user_portfolio_reply wallets get order late hex s =
     (case ObjectIDFromHex hex of
        None \<Rightarrow> (Ok (failure 400 ''Invalid user ID format''), s)
      | Some u \<Rightarrow>
          (case wallets u (snd s) of
             (Panic x, w) \<Rightarrow> (Panic x, fst s, w)
           | (Err e, w) \<Rightarrow> (Ok (failure 500 ''Failed to fetch user wallets''), fst s, w)
           | (Ok xs, w) \<Rightarrow>
               if xs = [] then (Ok (success ''No wallets found for user'' []), fst s, w)
               else (case collect_wallets get (map ((!) xs) (order (length xs))) (fst s, w) of
                  (Ok rs, s1) \<Rightarrow>
                    (if (case late of Some n \<Rightarrow> n < length xs | None \<Rightarrow> False)
                     then (Ok (failure 504 ''Request timeout while processing wallet portfolios''), s1)
                     else (Ok (success ''User portfolio fetched successfully'' rs), s1))
                | (Err e, s1) \<Rightarrow> (Err e, s1)
                | (Panic x, s1) \<Rightarrow> (Panic x, s1))))"

section \<open>Events\<close>

record 'w event_service =
  ev_http :: "'w httpc"
  ev_db :: "'w db"

text \<open>A message to the URL a caller gave; the body of the answer is not read.\<close>

definition event_payload :: "string \<Rightarrow> string \<Rightarrow> string \<Rightarrow> gval option \<Rightarrow> string \<Rightarrow> int \<Rightarrow> gval" where
  "event_payload eventType status message data errorMsg now =
     VMap ([(''type'', VStr eventType), (''status'', VStr status), (''message'', VStr message)]
       @ (case data of Some d \<Rightarrow> [(''data'', d)] | None \<Rightarrow> [])
       @ (if errorMsg = [] then [] else [(''error'', VStr errorMsg)])
       @ [(''timestamp'', time_gval now)])"

definition event_failed :: "int \<Rightarrow> unit res" where
  "event_failed code = (if code \<ge> 400
     then Err (EMsg (''event delivery failed with status code: '' @ show_int 10 code)) else Ok ())"

definition ev_SendEvent ::
  "'w event_service \<Rightarrow> string \<Rightarrow> string \<Rightarrow> string \<Rightarrow> string \<Rightarrow> gval option \<Rightarrow> string \<Rightarrow> 'w \<Rightarrow> unit res \<times> 'w" where
  "ev_SendEvent es callbackURL eventType status message data errorMsg w =
     (if callbackURL = [] then (Err (EMsg ''no callback URL provided''), w)
      else case db_now (ev_db es) w of (now, w1) \<Rightarrow>
        (case to_json (event_payload eventType status message data errorMsg now) of
           None \<Rightarrow> (Err (EMsg ''json: unsupported value''), w1)
         | Some j \<Rightarrow>
             (case hdo (ev_http es) ''POST'' callbackURL
                     [(''Content-Type'', ''application/json''), (''X-Event-Type'', eventType)] (Some (Enc j)) w1 of
                (HReqErr e, w2) \<Rightarrow> (Err e, w2)
              | (HDoErr e, w2) \<Rightarrow> (Err e, w2)
              | (HBodyErr code e, w2) \<Rightarrow> (event_failed code, w2)
              | (HResp code b, w2) \<Rightarrow> (event_failed code, w2))))"

section \<open>The handler over the use cases\<close>

record 'w wallet_handler =
  wh_wallets :: "'w wallet_repo"
  wh_portfolio :: "'w portfolio_uc"
  wh_accounts :: "'w account_uc"
  wh_events :: "'w event_service"

definition wh_GetUserPortfolio ::
  "'w wallet_handler \<Rightarrow> (string list \<Rightarrow> string list)
     \<Rightarrow> (nat \<Rightarrow> nat list) \<Rightarrow> nat option \<Rightarrow> string
     \<Rightarrow> portfolio_cache \<times> 'w \<Rightarrow> portfolio_response list reply res \<times> portfolio_cache \<times> 'w" where
  "wh_GetUserPortfolio h sched order late userId =
     user_portfolio_reply
       (\<lambda>u w. via (map (\<lambda>x. (wl_ID x, wl_Name x, wl_HashedSeedPhrase x))) (uc_GetWalletsByUserID (wh_wallets h) u w))
       (puc_GetWalletPortfolio (wh_portfolio h) sched) order late userId"

definition wh_GetWalletPortfolio ::
  "'w wallet_handler \<Rightarrow> (string list \<Rightarrow> string list) \<Rightarrow> string \<Rightarrow> portfolio_cache \<times> 'w
     \<Rightarrow> wallet_portfolio reply res \<times> portfolio_cache \<times> 'w" where
  "wh_GetWalletPortfolio h sched walletId =
     portfolio_reply ''wallet'' ''Wallet'' (puc_GetWalletPortfolio (wh_portfolio h) sched) walletId"

definition wh_GetAccountPortfolio ::
  "'w wallet_handler \<Rightarrow> string \<Rightarrow> portfolio_cache \<times> 'w \<Rightarrow> account_portfolio reply res \<times> portfolio_cache \<times> 'w" where
  "wh_GetAccountPortfolio h accountId =
     portfolio_reply ''account'' ''Account'' (puc_GetAccountPortfolio (wh_portfolio h)) accountId"

definition wh_GetAccountBalance ::
  "'w wallet_handler \<Rightarrow> string \<Rightarrow> 'w \<Rightarrow> (account \<times> f64) reply res \<times> 'w" where
  "wh_GetAccountBalance h accountId w =
     (case ObjectIDFromHex accountId of
        None \<Rightarrow> (Ok (failure 400 ''Invalid account ID format''), w)
      | Some i \<Rightarrow>
          (case uc_GetAccountByID (wh_accounts h) i w of
             (Panic x, w1) \<Rightarrow> (Panic x, w1)
           | (Err e, w1) \<Rightarrow> (Ok (failure 500 ''Failed to fetch account''), w1)
           | (Ok account, w1) \<Rightarrow>
               if \<not> HasWalletAddress account then (Ok (failure 400 ''Account has no wallet address''), w1)
               else (case puc_GetBalance (wh_portfolio h) i w1 of
                  (Panic x, w2) \<Rightarrow> (Panic x, w2)
                | (Err e, w2) \<Rightarrow> (Ok (failure 500 ''Failed to get account balance''), w2)
                | (Ok balance, w2) \<Rightarrow>
                    (case uc_GetAccountByID (wh_accounts h) i w2 of
                       (Panic x, w3) \<Rightarrow> (Panic x, w3)
                     | (Err e, w3) \<Rightarrow> (Ok (failure 500 ''Failed to get updated account details''), w3)
                     | (Ok account', w3) \<Rightarrow>
                         (Ok (success ''Account balance updated successfully'' (account', balance)), w3)))))"

subsection \<open>Imports\<close>

record account_data =
  ad_WalletID :: string
  ad_UserID :: string
  ad_SupportedCurrencyID :: string
  ad_WalletAddress :: string
  ad_EncryptedPrivateKey :: string
  ad_Balance :: f64
  ad_Type :: string

record import_request =
  ir_Accounts :: "account_data list"
  ir_CallbackURL :: string

definition dec_account_data :: "json \<Rightarrow> account_data option" where
  "dec_account_data j = (if \<not> jstruct j then None else do {
     v0 \<leftarrow> jstr j ''walletId'';
     v1 \<leftarrow> jstr j ''userId'';
     v2 \<leftarrow> jstr j ''supportedCurrencyId'';
     v3 \<leftarrow> jstr j ''walletAddress'';
     v4 \<leftarrow> jstr j ''encryptedPrivateKey'';
     v5 \<leftarrow> jf64 j ''balance'';
     v6 \<leftarrow> jstr j ''type'';
     Some \<lparr>ad_WalletID = v0, ad_UserID = v1, ad_SupportedCurrencyID = v2, ad_WalletAddress = v3,
       ad_EncryptedPrivateKey = v4, ad_Balance = v5, ad_Type = v6\<rparr> })"

definition dec_import_request :: "json \<Rightarrow> import_request option" where
  "dec_import_request j = (if \<not> jstruct j then None else do {
     v0 \<leftarrow> jlist dec_account_data j ''accounts'';
     v1 \<leftarrow> jstr j ''callbackUrl'';
     Some \<lparr>ir_Accounts = v0, ir_CallbackURL = v1\<rparr> })"

text \<open>The accounts of a request, in order, up to the first that is invalid.\<close>

definition convert_account :: "'w db \<Rightarrow> account_data \<Rightarrow> 'w \<Rightarrow> account res \<times> 'w" where
  "convert_account db d w =
     (case ObjectIDFromHex (ad_WalletID d) of
        None \<Rightarrow> (Err (EMsg (''invalid wallet ID: '' @ ad_WalletID d)), w)
      | Some wi \<Rightarrow>
          (case ObjectIDFromHex (ad_UserID d) of
             None \<Rightarrow> (Err (EMsg (''invalid user ID: '' @ ad_UserID d)), w)
           | Some u \<Rightarrow>
               (case (if ad_SupportedCurrencyID d = [] then Some nil_id else ObjectIDFromHex (ad_SupportedCurrencyID d)) of
                  None \<Rightarrow> (Err (EMsg (''invalid supported currency ID: '' @ ad_SupportedCurrencyID d)), w)
                | Some sc \<Rightarrow>
                    (case NewAccount db wi u sc sc (ad_WalletAddress d) (ad_EncryptedPrivateKey d) w of (a, w1) \<Rightarrow>
                       let a' = a\<lparr>ac_SupportedCurrencyID := sc, ac_Type := ''ACCOUNT_IMPORTED''\<rparr>
                       in if f64_lt (Fin 0) (ad_Balance d)
                          then (case db_now db w1 of (now, w2) \<Rightarrow> (Ok (UpdateBalance now (ad_Balance d) a'), w2))
                          else (Ok a', w1)))))"

fun convertToAccounttypes :: "'w db \<Rightarrow> account_data list \<Rightarrow> 'w \<Rightarrow> account list res \<times> 'w" where
  "convertToAccounttypes db [] w = (Ok [], w)"
| "convertToAccounttypes db (d # ds) w =
     (case convert_account db d w of
        (Ok a, w1) \<Rightarrow>
          (case convertToAccounttypes db ds w1 of
             (Ok as, w2) \<Rightarrow> (Ok (a # as), w2) | r \<Rightarrow> r)
      | (Err e, w1) \<Rightarrow> (Err e, w1)
      | (Panic x, w1) \<Rightarrow> (Panic x, w1))"

datatype task = ImportTask "account list" string | BalanceTask string f64 string

definition accepted :: "string \<Rightarrow> 'd reply" where
  "accepted message = Reply 202 ''accepted'' message None None"

text \<open>The texts of the errors of \<open>ShouldBindJSON\<close> and \<open>ObjectIDFromHex\<close> are an argument.\<close>

definition HandleAccountsImported ::
  "'w wallet_handler \<Rightarrow> string \<Rightarrow> blob \<Rightarrow> 'w \<Rightarrow> (unit reply \<times> task option) res \<times> 'w" where
  "HandleAccountsImported h etext body w =
     (case bind_json dec_import_request body of
        None \<Rightarrow> (Ok (Reply 400 ''error'' ''Invalid request format'' (Some etext) None, None), w)
      | Some r \<Rightarrow>
          if ir_Accounts r = [] then (Ok (failure 400 ''No accounts to import'', None), w)
          else (case convertToAccounttypes (au_db (wh_accounts h)) (ir_Accounts r) w of
             (Panic x, w1) \<Rightarrow> (Panic x, w1)
           | (Err e, w1) \<Rightarrow> (Ok (Reply 400 ''error'' ''Invalid account data'' (Some (err_text e)) None, None), w1)
           | (Ok as, w1) \<Rightarrow>
               (Ok (accepted ''Account import process started'', Some (ImportTask as (ir_CallbackURL r))), w1)))"

text \<open>
  The goroutine of an import works with the context of the request, which is cancelled once the handler
  has returned (\<open>defer cancel()\<close>); \<open>returned\<close> says whether it has, \<open>expired\<close> is the error of the context
  before that. The callback has a context of its own.
\<close>

definition ctx_canceled :: goerr where "ctx_canceled = EMsg ''context canceled''"

definition request_ctx :: "('w \<Rightarrow> bool) \<Rightarrow> ('w \<Rightarrow> goerr option) \<Rightarrow> 'w \<Rightarrow> goerr option" where
  "request_ctx returned expired w = (if returned w then Some ctx_canceled else expired w)"

definition import_task ::
  "'w wallet_handler \<Rightarrow> ('w \<Rightarrow> bool) \<Rightarrow> ('w \<Rightarrow> goerr option) \<Rightarrow> account list \<Rightarrow> string \<Rightarrow> 'w \<Rightarrow> (unit res \<times> 'w) option" where
  "import_task h returned expired as url w =
     map_option (\<lambda>((ids, e), w1).
         case e of
           Some e' \<Rightarrow> ev_SendEvent (wh_events h) url ''accounts_imported'' ''error'' ''Failed to import accounts'' None (err_text e') w1
         | None \<Rightarrow> ev_SendEvent (wh_events h) url ''accounts_imported'' ''success''
             (''Successfully imported '' @ show_nat 10 (length ids) @ '' accounts'') (Some (VList (map VStr ids))) [] w1)
       (ImportAccounts ((wh_accounts h)\<lparr>au_ctx := request_ctx returned expired\<rparr>) (map Some as) w)"

subsection \<open>Balances\<close>

record balance_request =
  br_AccountID :: string
  br_NewBalance :: f64
  br_CallbackURL :: string

definition dec_balance_request :: "json \<Rightarrow> balance_request option" where
  "dec_balance_request j = (if \<not> jstruct j then None else do {
     v0 \<leftarrow> jstr j ''accountId'';
     v1 \<leftarrow> jf64 j ''newBalance'';
     v2 \<leftarrow> jstr j ''callbackUrl'';
     Some \<lparr>br_AccountID = v0, br_NewBalance = v1, br_CallbackURL = v2\<rparr> })"

definition HandleBalanceUpdate :: "string \<Rightarrow> blob \<Rightarrow> unit reply \<times> task option" where
  "HandleBalanceUpdate etext body =
     (case bind_json dec_balance_request body of
        None \<Rightarrow> (Reply 400 ''error'' ''Invalid request format'' (Some etext) None, None)
      | Some r \<Rightarrow>
          (case ObjectIDFromHex (br_AccountID r) of
             None \<Rightarrow> (Reply 400 ''error'' ''Invalid account ID format'' (Some etext) None, None)
           | Some i \<Rightarrow> (accepted ''Balance update process started'', Some (BalanceTask i (br_NewBalance r) (br_CallbackURL r)))))"

text \<open>The domain struct has no JSON tags.\<close>

definition account_gval :: "account \<Rightarrow> gval" where
  "account_gval a = VMap
     [(''ID'', VStr (ac_ID a)), (''CurrencyID'', VStr (ac_CurrencyID a)), (''ChainID'', VStr (ac_ChainID a)),
      (''WalletID'', VStr (ac_WalletID a)), (''UserID'', VStr (ac_UserID a)),
      (''SupportedCurrencyID'', VStr (ac_SupportedCurrencyID a)), (''Type'', VStr (ac_Type a)),
      (''WalletAddress'', VStr (ac_WalletAddress a)), (''Balance'', VFloat (ac_Balance a)),
      (''EncryptedPrivateKey'', VStr (ac_EncryptedPrivateKey a)),
      (''DeletedAt'', case ac_DeletedAt a of Some t \<Rightarrow> time_gval t | None \<Rightarrow> VNil),
      (''CreatedAt'', time_gval (ac_CreatedAt a)), (''UpdatedAt'', time_gval (ac_UpdatedAt a))]"

text \<open>A balance that was given is stored; otherwise it is fetched.\<close>

definition set_given_balance :: "'w wallet_handler \<Rightarrow> string \<Rightarrow> f64 \<Rightarrow> 'w \<Rightarrow> (account \<times> f64) res \<times> 'w" where
  "set_given_balance h i balance w =
     (case uc_GetAccountByID (wh_accounts h) i w of
        (Panic x, w1) \<Rightarrow> (Panic x, w1)
      | (Err e, w1) \<Rightarrow> (Err e, w1)
      | (Ok account, w1) \<Rightarrow>
          (case db_now (au_db (wh_accounts h)) w1 of (now, w2) \<Rightarrow>
             let account' = UpdateBalance now balance account
             in (case uc_UpdateAccount (wh_accounts h) account' w2 of
                   (r, w3) \<Rightarrow> (map_res (\<lambda>_. (account', balance)) r, w3))))"

definition refresh_balance :: "'w wallet_handler \<Rightarrow> string \<Rightarrow> 'w \<Rightarrow> (account \<times> f64) res \<times> 'w" where
  "refresh_balance h i w =
     (case puc_GetBalance (wh_portfolio h) i w of
        (Panic x, w1) \<Rightarrow> (Panic x, w1)
      | (b, w1) \<Rightarrow>
          (case uc_GetAccountByID (wh_accounts h) i w1 of
             (Panic x, w2) \<Rightarrow> (Panic x, w2)
           | (Err e, w2) \<Rightarrow> ((case b of Err e' \<Rightarrow> Err e' | _ \<Rightarrow> Err e), w2)
           | (Ok account, w2) \<Rightarrow> (map_res (Pair account) b, w2)))"

definition balance_task :: "'w wallet_handler \<Rightarrow> string \<Rightarrow> f64 \<Rightarrow> string \<Rightarrow> 'w \<Rightarrow> unit res \<times> 'w" where
  "balance_task h i newBalance url w =
     (case (if f64_lt (Fin 0) newBalance then set_given_balance h i newBalance w else refresh_balance h i w) of
        (Panic x, w1) \<Rightarrow> (Panic x, w1)
      | (Err e, w1) \<Rightarrow>
          ev_SendEvent (wh_events h) url ''balance_updated'' ''error'' ''Failed to update balance'' None (err_text e) w1
      | (Ok (account, balance), w1) \<Rightarrow>
          ev_SendEvent (wh_events h) url ''balance_updated'' ''success'' ''Balance updated successfully''
            (Some (VMap [(''account'', account_gval account), (''accountId'', VStr i), (''balance'', VFloat balance)])) [] w1)"

section \<open>The service over the repositories\<close>

definition ws_GetUserPortfolio ::
  "'w portfolio_service \<Rightarrow> (string list \<Rightarrow> string list)
     \<Rightarrow> (nat \<Rightarrow> nat list) \<Rightarrow> nat option \<Rightarrow> string
     \<Rightarrow> portfolio_cache \<times> 'w \<Rightarrow> portfolio_response list reply res \<times> portfolio_cache \<times> 'w" where
  "ws_GetUserPortfolio sv sched order late userId =
     user_portfolio_reply
       (\<lambda>u w. via (map (\<lambda>x. (wm_ID x, wm_Name x, wm_HashedSeedPhrase x))) (GetWalletsByUserId (ps_db sv) u w))
       (svc_GetWalletPortfolio sv sched) order late userId"

definition ws_GetWalletPortfolio ::
  "'w portfolio_service \<Rightarrow> (string list \<Rightarrow> string list) \<Rightarrow> string \<Rightarrow> portfolio_cache \<times> 'w
     \<Rightarrow> wallet_portfolio reply res \<times> portfolio_cache \<times> 'w" where
  "ws_GetWalletPortfolio sv sched walletId =
     portfolio_reply ''wallet'' ''Wallet'' (svc_GetWalletPortfolio sv sched) walletId"

definition ws_GetAccountPortfolio ::
  "'w portfolio_service \<Rightarrow> string \<Rightarrow> portfolio_cache \<times> 'w \<Rightarrow> account_portfolio reply res \<times> portfolio_cache \<times> 'w" where
  "ws_GetAccountPortfolio sv accountId =
     portfolio_reply ''account'' ''Account'' (svc_GetAccountPortfolio sv) accountId"

text \<open>The repository sets the time of the account it is given a pointer to.\<close>

definition ws_GetAccountBalance ::
  "'w portfolio_service \<Rightarrow> string \<Rightarrow> 'w \<Rightarrow> (account_model \<times> f64) reply res \<times> 'w" where
  "ws_GetAccountBalance sv accountId w =
     (case ObjectIDFromHex accountId of
        None \<Rightarrow> (Ok (failure 400 ''Invalid account ID format''), w)
      | Some i \<Rightarrow>
          (case GetAccountByID (ps_db sv) i w of
             (Panic x, w1) \<Rightarrow> (Panic x, w1)
           | (Err e, w1) \<Rightarrow> (Ok (failure 500 ''Failed to fetch account''), w1)
           | (Ok account, w1) \<Rightarrow>
               if am_WalletAddress account = [] then (Ok (failure 400 ''Account has no wallet address''), w1)
               else (case GetPortfolioBalance sv account w1 of
                  (Panic x, w2) \<Rightarrow> (Panic x, w2)
                | (Err e, w2) \<Rightarrow> (Ok (failure 500 ''Failed to get account balance''), w2)
                | (Ok balance, w2) \<Rightarrow>
                    (case db_now (ps_db sv) w2 of (now, w3) \<Rightarrow>
                       let account' = account\<lparr>am_Balance := balance, am_UpdatedAt := now\<rparr>
                       in (case repo_UpdateAccount (ps_db sv) account' w3 of
                          (Panic x, w4) \<Rightarrow> (Panic x, w4)
                        | (Err e, w4) \<Rightarrow> (Ok (failure 500 ''Failed to update account balance''), w4)
                        | (Ok _, w4) \<Rightarrow>
                            (Ok (success ''Account balance updated successfully''
                              (account'\<lparr>am_UpdatedAt := fst (db_now (ps_db sv) w3)\<rparr>, balance)), w4))))))"

definition WalletExists :: "'w db \<Rightarrow> string \<Rightarrow> 'w \<Rightarrow> bool res \<times> 'w" where
  "WalletExists db i w =
     (case GetWalletByID db i w of
        (Ok _, w1) \<Rightarrow> (Ok True, w1)
      | (Err e, w1) \<Rightarrow> ((if e = ErrNotFound then Ok False else Err e), w1)
      | (Panic x, w1) \<Rightarrow> (Panic x, w1))"

end
