(* ===== verification/OrderModel.thy ===== *)
theory OrderModel
  imports WalletUseCase
begin

text \<open>
  Orders: the stored struct (\<open>Order\<close> of \<open>models/models.go\<close>), the domain struct (\<open>types/order.go\<close>), how
  the driver writes and reads the former and how \<open>adapters/order_adapter.go\<close> converts between the
  two. A slice or map is \<open>None\<close> when it is nil, which is written as null. The values of
  \<open>statusTimestamps\<close> are of any type and stay as they are in the document.
\<close>

section \<open>Fields\<close>

definition bval_of_list :: "('a \<Rightarrow> bval) \<Rightarrow> 'a list option \<Rightarrow> bval" where
  "bval_of_list f xs = (case xs of None \<Rightarrow> BNull | Some vs \<Rightarrow> BArr (map f vs))"

definition list_of :: "(bval option \<Rightarrow> 'a option) \<Rightarrow> bval option \<Rightarrow> 'a list option option" where
  "list_of f v =
     (case v of
        None \<Rightarrow> Some None | Some BNull \<Rightarrow> Some None
      | Some (BArr vs) \<Rightarrow> map_option Some (those (map (\<lambda>u. f (Some u)) vs)) | _ \<Rightarrow> None)"

definition bval_of_map :: "bdoc option \<Rightarrow> bval" where
  "bval_of_map m = (case m of None \<Rightarrow> BNull | Some d \<Rightarrow> BDoc d)"

definition map_val_of :: "bval option \<Rightarrow> bdoc option option" where
  "map_val_of v =
     (case v of None \<Rightarrow> Some None | Some BNull \<Rightarrow> Some None | Some (BDoc d) \<Rightarrow> Some (Some d) | _ \<Rightarrow> None)"

definition get_ids :: "bdoc \<Rightarrow> string \<Rightarrow> string list option option" where
  "get_ids d k = list_of id_of (map_of d k)"

definition get_strs :: "bdoc \<Rightarrow> string \<Rightarrow> string list option option" where
  "get_strs d k = list_of str_of (map_of d k)"

definition get_map :: "bdoc \<Rightarrow> string \<Rightarrow> bdoc option option" where
  "get_map d k = map_val_of (map_of d k)"

lemma those_Some: "those (map Some xs) = Some xs"
  by (induction xs) simp_all

lemma read_written_lists [doc_simps]:
  "list_of id_of (Some (bval_of_list BId xs)) = Some xs"
  "list_of str_of (Some (bval_of_list BStr xs)) = Some xs"
  "map_val_of (Some (bval_of_map m)) = Some m"
  by (auto simp: list_of_def bval_of_list_def map_val_of_def bval_of_map_def id_of_def str_of_def o_def
      those_Some split: option.split)

section \<open>The structs\<close>

record order_model =
  om_ID :: string
  om_Platform :: string
  om_V1UserID :: string
  om_UserID :: string
  om_Type :: string
  om_Flow :: string
  om_CurrencyID :: string
  om_BuyChain :: string
  om_SellChain :: string
  om_OpenAmount :: f64
  om_Amount :: f64
  om_RefundAmount :: f64
  om_CalculatedAmount :: f64
  om_OpenRate :: f64
  om_Rate :: f64
  om_CalculatedRate :: f64
  om_ProviderFeesPaid :: f64
  om_BlockchainFeesPaid :: f64
  om_FeesGained :: f64
  om_ProviderFeesToPay :: f64
  om_BlockchainFeesToPay :: f64
  om_FeesToGain :: f64
  om_CalculatedProviderFeesPaid :: f64
  om_CalculatedBlockchainFeesPaid :: f64
  om_CalculatedFeesGained :: f64
  om_Status :: string
  om_StatusTimestamps :: "bdoc option"
  om_V1ID :: string
  om_DepositAccountIDs :: "string list option"
  om_WithdrawalAccountIDs :: "string list option"
  om_RefundAccountID :: string
  om_TransactionIDs :: "string list option"
  om_TransactionTypes :: "string list option"
  om_ParentOrder :: string
  om_ChildOrder :: string
  om_Provider :: string
  om_ProviderOrderID :: string
  om_BuyProvider :: string
  om_SellProvider :: string
  om_Margin :: f64
  om_RateID :: string
  om_ExpiresAt :: int
  om_DeletedAt :: "int option"
  om_CreatedAt :: int
  om_UpdatedAt :: int

definition enc_order_model :: "order_model \<Rightarrow> bdoc" where
  "enc_order_model x =
     put_id ''_id'' (om_ID x)
     @ put ''platform'' (BStr (om_Platform x))
     @ put_id ''v1userId'' (om_V1UserID x)
     @ put ''userId'' (BId (om_UserID x))
     @ put_str ''type'' (om_Type x)
     @ put ''flow'' (BStr (om_Flow x))
     @ put ''currencyId'' (BId (om_CurrencyID x))
     @ put_id ''buyChain'' (om_BuyChain x)
     @ put_id ''sellChain'' (om_SellChain x)
     @ put ''openAmount'' (BDbl (om_OpenAmount x))
     @ put ''amount'' (BDbl (om_Amount x))
     @ put ''refundAmount'' (BDbl (om_RefundAmount x))
     @ put ''calculatedAmount'' (BDbl (om_CalculatedAmount x))
     @ put ''openRate'' (BDbl (om_OpenRate x))
     @ put ''rate'' (BDbl (om_Rate x))
     @ put ''calculatedRate'' (BDbl (om_CalculatedRate x))
     @ put ''providerFeesPaid'' (BDbl (om_ProviderFeesPaid x))
     @ put ''blockchainFeesPaid'' (BDbl (om_BlockchainFeesPaid x))
     @ put ''feesGained'' (BDbl (om_FeesGained x))
     @ put ''providerFeesToPay'' (BDbl (om_ProviderFeesToPay x))
     @ put ''blockchainFeesToPay'' (BDbl (om_BlockchainFeesToPay x))
     @ put ''feesToGain'' (BDbl (om_FeesToGain x))
     @ put ''calculatedProviderFeesPaid'' (BDbl (om_CalculatedProviderFeesPaid x))
     @ put ''calculatedBlockchainFeesPaid'' (BDbl (om_CalculatedBlockchainFeesPaid x))
     @ put ''calculatedFeesGained'' (BDbl (om_CalculatedFeesGained x))
     @ put ''status'' (BStr (om_Status x))
     @ put ''statusTimestamps'' (bval_of_map (om_StatusTimestamps x))
     @ put_str ''v1Id'' (om_V1ID x)
     @ put ''depositAccountIds'' (bval_of_list BId (om_DepositAccountIDs x))
     @ put ''withdrawalAccountIds'' (bval_of_list BId (om_WithdrawalAccountIDs x))
     @ put_id ''refundAccountId'' (om_RefundAccountID x)
     @ put ''transactionIds'' (bval_of_list BId (om_TransactionIDs x))
     @ put ''transactionTypes'' (bval_of_list BStr (om_TransactionTypes x))
     @ put_id ''parentOrder'' (om_ParentOrder x)
     @ put_id ''childOrder'' (om_ChildOrder x)
     @ put_str ''provider'' (om_Provider x)
     @ put_str ''providerOrderId'' (om_ProviderOrderID x)
     @ put_str ''buyProvider'' (om_BuyProvider x)
     @ put_str ''sellProvider'' (om_SellProvider x)
     @ put ''margin'' (BDbl (om_Margin x))
     @ put_str ''rateId'' (om_RateID x)
     @ put ''expiresAt'' (bson_time (om_ExpiresAt x))
     @ put_time ''deletedAt'' (om_DeletedAt x)
     @ put ''createdAt'' (bson_time (om_CreatedAt x))
     @ put ''updatedAt'' (bson_time (om_UpdatedAt x))"

definition dec_order_model :: "bdoc \<Rightarrow> order_model option" where
  "dec_order_model d = do {
     v0 \<leftarrow> get_id d ''_id'';
     v1 \<leftarrow> get_str d ''platform'';
     v2 \<leftarrow> get_id d ''v1userId'';
     v3 \<leftarrow> get_id d ''userId'';
     v4 \<leftarrow> get_str d ''type'';
     v5 \<leftarrow> get_str d ''flow'';
     v6 \<leftarrow> get_id d ''currencyId'';
     v7 \<leftarrow> get_id d ''buyChain'';
     v8 \<leftarrow> get_id d ''sellChain'';
     v9 \<leftarrow> get_dbl d ''openAmount'';
     v10 \<leftarrow> get_dbl d ''amount'';
     v11 \<leftarrow> get_dbl d ''refundAmount'';
     v12 \<leftarrow> get_dbl d ''calculatedAmount'';
     v13 \<leftarrow> get_dbl d ''openRate'';
     v14 \<leftarrow> get_dbl d ''rate'';
     v15 \<leftarrow> get_dbl d ''calculatedRate'';
     v16 \<leftarrow> get_dbl d ''providerFeesPaid'';
     v17 \<leftarrow> get_dbl d ''blockchainFeesPaid'';
     v18 \<leftarrow> get_dbl d ''feesGained'';
     v19 \<leftarrow> get_dbl d ''providerFeesToPay'';
     v20 \<leftarrow> get_dbl d ''blockchainFeesToPay'';
     v21 \<leftarrow> get_dbl d ''feesToGain'';
     v22 \<leftarrow> get_dbl d ''calculatedProviderFeesPaid'';
     v23 \<leftarrow> get_dbl d ''calculatedBlockchainFeesPaid'';
     v24 \<leftarrow> get_dbl d ''calculatedFeesGained'';
     v25 \<leftarrow> get_str d ''status'';
     v26 \<leftarrow> get_map d ''statusTimestamps'';
     v27 \<leftarrow> get_str d ''v1Id'';
     v28 \<leftarrow> get_ids d ''depositAccountIds'';
     v29 \<leftarrow> get_ids d ''withdrawalAccountIds'';
     v30 \<leftarrow> get_id d ''refundAccountId'';
     v31 \<leftarrow> get_ids d ''transactionIds'';
     v32 \<leftarrow> get_strs d ''transactionTypes'';
     v33 \<leftarrow> get_id d ''parentOrder'';
     v34 \<leftarrow> get_id d ''childOrder'';
     v35 \<leftarrow> get_str d ''provider'';
     v36 \<leftarrow> get_str d ''providerOrderId'';
     v37 \<leftarrow> get_str d ''buyProvider'';
     v38 \<leftarrow> get_str d ''sellProvider'';
     v39 \<leftarrow> get_dbl d ''margin'';
     v40 \<leftarrow> get_str d ''rateId'';
     v41 \<leftarrow> get_time d ''expiresAt'';
     v42 \<leftarrow> get_time_ptr d ''deletedAt'';
     v43 \<leftarrow> get_time d ''createdAt'';
     v44 \<leftarrow> get_time d ''updatedAt'';
     Some \<lparr>om_ID = v0, om_Platform = v1, om_V1UserID = v2, om_UserID = v3, om_Type = v4,
       om_Flow = v5, om_CurrencyID = v6, om_BuyChain = v7, om_SellChain = v8, om_OpenAmount = v9,
       om_Amount = v10, om_RefundAmount = v11, om_CalculatedAmount = v12, om_OpenRate = v13,
       om_Rate = v14, om_CalculatedRate = v15, om_ProviderFeesPaid = v16,
       om_BlockchainFeesPaid = v17, om_FeesGained = v18, om_ProviderFeesToPay = v19,
       om_BlockchainFeesToPay = v20, om_FeesToGain = v21, om_CalculatedProviderFeesPaid = v22,
       om_CalculatedBlockchainFeesPaid = v23, om_CalculatedFeesGained = v24, om_Status = v25,
       om_StatusTimestamps = v26, om_V1ID = v27, om_DepositAccountIDs = v28,
       om_WithdrawalAccountIDs = v29, om_RefundAccountID = v30, om_TransactionIDs = v31,
       om_TransactionTypes = v32, om_ParentOrder = v33, om_ChildOrder = v34, om_Provider = v35,
       om_ProviderOrderID = v36, om_BuyProvider = v37, om_SellProvider = v38, om_Margin = v39,
       om_RateID = v40, om_ExpiresAt = v41, om_DeletedAt = v42, om_CreatedAt = v43,
       om_UpdatedAt = v44\<rparr>
   }"

text \<open>The domain struct has the same fields.\<close>

record order_t =
  or_ID :: string
  or_Platform :: string
  or_V1UserID :: string
  or_UserID :: string
  or_Type :: string
  or_Flow :: string
  or_CurrencyID :: string
  or_BuyChain :: string
  or_SellChain :: string
  or_OpenAmount :: f64
  or_Amount :: f64
  or_RefundAmount :: f64
  or_CalculatedAmount :: f64
  or_OpenRate :: f64
  or_Rate :: f64
  or_CalculatedRate :: f64
  or_ProviderFeesPaid :: f64
  or_BlockchainFeesPaid :: f64
  or_FeesGained :: f64
  or_ProviderFeesToPay :: f64
  or_BlockchainFeesToPay :: f64
  or_FeesToGain :: f64
  or_CalculatedProviderFeesPaid :: f64
  or_CalculatedBlockchainFeesPaid :: f64
  or_CalculatedFeesGained :: f64
  or_Status :: string
  or_StatusTimestamps :: "bdoc option"
  or_V1ID :: string
  or_DepositAccountIDs :: "string list option"
  or_WithdrawalAccountIDs :: "string list option"
  or_RefundAccountID :: string
  or_TransactionIDs :: "string list option"
  or_TransactionTypes :: "string list option"
  or_ParentOrderID :: string
  or_ChildOrderID :: string
  or_Provider :: string
  or_ProviderOrderID :: string
  or_BuyProvider :: string
  or_SellProvider :: string
  or_Margin :: f64
  or_RateID :: string
  or_ExpiresAt :: int
  or_DeletedAt :: "int option"
  or_CreatedAt :: int
  or_UpdatedAt :: int

definition convertOrderModelToDomain :: "order_model \<Rightarrow> order_t" where
  "convertOrderModelToDomain x =
     \<lparr>or_ID = om_ID x, or_Platform = om_Platform x,
      or_V1UserID = om_V1UserID x, or_UserID = om_UserID x, or_Type = om_Type x,
      or_Flow = om_Flow x, or_CurrencyID = om_CurrencyID x, or_BuyChain = om_BuyChain x,
      or_SellChain = om_SellChain x, or_OpenAmount = om_OpenAmount x, or_Amount = om_Amount x,
      or_RefundAmount = om_RefundAmount x, or_CalculatedAmount = om_CalculatedAmount x,
      or_OpenRate = om_OpenRate x, or_Rate = om_Rate x, or_CalculatedRate = om_CalculatedRate x,
      or_ProviderFeesPaid = om_ProviderFeesPaid x,
      or_BlockchainFeesPaid = om_BlockchainFeesPaid x, or_FeesGained = om_FeesGained x,
      or_ProviderFeesToPay = om_ProviderFeesToPay x,
      or_BlockchainFeesToPay = om_BlockchainFeesToPay x, or_FeesToGain = om_FeesToGain x,
      or_CalculatedProviderFeesPaid = om_CalculatedProviderFeesPaid x,
      or_CalculatedBlockchainFeesPaid = om_CalculatedBlockchainFeesPaid x,
      or_CalculatedFeesGained = om_CalculatedFeesGained x, or_Status = om_Status x,
      or_StatusTimestamps = om_StatusTimestamps x, or_V1ID = om_V1ID x,
      or_DepositAccountIDs = om_DepositAccountIDs x,
      or_WithdrawalAccountIDs = om_WithdrawalAccountIDs x,
      or_RefundAccountID = om_RefundAccountID x, or_TransactionIDs = om_TransactionIDs x,
      or_TransactionTypes = om_TransactionTypes x, or_ParentOrderID = om_ParentOrder x,
      or_ChildOrderID = om_ChildOrder x, or_Provider = om_Provider x,
      or_ProviderOrderID = om_ProviderOrderID x, or_BuyProvider = om_BuyProvider x,
      or_SellProvider = om_SellProvider x, or_Margin = om_Margin x, or_RateID = om_RateID x,
      or_ExpiresAt = om_ExpiresAt x, or_DeletedAt = om_DeletedAt x, or_CreatedAt = om_CreatedAt x,
      or_UpdatedAt = om_UpdatedAt x\<rparr>"

definition convertOrderDomainToModel :: "order_t \<Rightarrow> order_model" where
  "convertOrderDomainToModel x =
     \<lparr>om_ID = or_ID x, om_Platform = or_Platform x,
      om_V1UserID = or_V1UserID x, om_UserID = or_UserID x, om_Type = or_Type x,
      om_Flow = or_Flow x, om_CurrencyID = or_CurrencyID x, om_BuyChain = or_BuyChain x,
      om_SellChain = or_SellChain x, om_OpenAmount = or_OpenAmount x, om_Amount = or_Amount x,
      om_RefundAmount = or_RefundAmount x, om_CalculatedAmount = or_CalculatedAmount x,
      om_OpenRate = or_OpenRate x, om_Rate = or_Rate x, om_CalculatedRate = or_CalculatedRate x,
      om_ProviderFeesPaid = or_ProviderFeesPaid x,
      om_BlockchainFeesPaid = or_BlockchainFeesPaid x, om_FeesGained = or_FeesGained x,
      om_ProviderFeesToPay = or_ProviderFeesToPay x,
      om_BlockchainFeesToPay = or_BlockchainFeesToPay x, om_FeesToGain = or_FeesToGain x,
      om_CalculatedProviderFeesPaid = or_CalculatedProviderFeesPaid x,
      om_CalculatedBlockchainFeesPaid = or_CalculatedBlockchainFeesPaid x,
      om_CalculatedFeesGained = or_CalculatedFeesGained x, om_Status = or_Status x,
      om_StatusTimestamps = or_StatusTimestamps x, om_V1ID = or_V1ID x,
      om_DepositAccountIDs = or_DepositAccountIDs x,
      om_WithdrawalAccountIDs = or_WithdrawalAccountIDs x,
      om_RefundAccountID = or_RefundAccountID x, om_TransactionIDs = or_TransactionIDs x,
      om_TransactionTypes = or_TransactionTypes x, om_ParentOrder = or_ParentOrderID x,
      om_ChildOrder = or_ChildOrderID x, om_Provider = or_Provider x,
      om_ProviderOrderID = or_ProviderOrderID x, om_BuyProvider = or_BuyProvider x,
      om_SellProvider = or_SellProvider x, om_Margin = or_Margin x, om_RateID = or_RateID x,
      om_ExpiresAt = or_ExpiresAt x, om_DeletedAt = or_DeletedAt x, om_CreatedAt = or_CreatedAt x,
      om_UpdatedAt = or_UpdatedAt x\<rparr>"

lemma convert_order [simp]:
  "convertOrderModelToDomain (convertOrderDomainToModel x) = x"
  "convertOrderDomainToModel (convertOrderModelToDomain y) = y"
  by (simp_all add: convertOrderModelToDomain_def convertOrderDomainToModel_def)

text \<open>Reading what was written, up to the precision of times.\<close>

definition stored_order :: "order_model \<Rightarrow> order_model" where
  "stored_order x = x\<lparr>om_ExpiresAt := ms_trunc (om_ExpiresAt x),
     om_DeletedAt := map_option ms_trunc (om_DeletedAt x), om_CreatedAt := ms_trunc (om_CreatedAt x),
     om_UpdatedAt := ms_trunc (om_UpdatedAt x)\<rparr>"

lemma dec_enc_order: "dec_order_model (enc_order_model x) = Some (stored_order x)"
  unfolding dec_order_model_def get_defs get_ids_def get_strs_def get_map_def enc_order_model_def
  by (simp add: doc_simps stored_order_def del: map_of_append split del: if_split cong del: if_weak_cong)

text \<open>
  Writing a struct over a document leaves a field alone that is zero and tagged \<open>omitempty\<close>: it
  keeps the value of the old struct.
\<close>

definition written_over :: "order_model \<Rightarrow> order_model \<Rightarrow> order_model" where
  "written_over x y = y\<lparr>
     om_ID := (if om_ID y = nil_id then om_ID x else om_ID y),
     om_V1UserID := (if om_V1UserID y = nil_id then om_V1UserID x else om_V1UserID y),
     om_Type := (if om_Type y = [] then om_Type x else om_Type y),
     om_BuyChain := (if om_BuyChain y = nil_id then om_BuyChain x else om_BuyChain y),
     om_SellChain := (if om_SellChain y = nil_id then om_SellChain x else om_SellChain y),
     om_V1ID := (if om_V1ID y = [] then om_V1ID x else om_V1ID y),
     om_RefundAccountID := (if om_RefundAccountID y = nil_id then om_RefundAccountID x else om_RefundAccountID y),
     om_ParentOrder := (if om_ParentOrder y = nil_id then om_ParentOrder x else om_ParentOrder y),
     om_ChildOrder := (if om_ChildOrder y = nil_id then om_ChildOrder x else om_ChildOrder y),
     om_Provider := (if om_Provider y = [] then om_Provider x else om_Provider y),
     om_ProviderOrderID := (if om_ProviderOrderID y = [] then om_ProviderOrderID x else om_ProviderOrderID y),
     om_BuyProvider := (if om_BuyProvider y = [] then om_BuyProvider x else om_BuyProvider y),
     om_SellProvider := (if om_SellProvider y = [] then om_SellProvider x else om_SellProvider y),
     om_RateID := (if om_RateID y = [] then om_RateID x else om_RateID y),
     om_DeletedAt := (if om_DeletedAt y = None then om_DeletedAt x else om_DeletedAt y)\<rparr>"

lemma time_ptr_read: "time_ptr_of v = Some p \<Longrightarrow> map_option ms_trunc p = p"
  by (auto simp: time_ptr_of_def ms_trunc_def split: option.splits bval.splits)

lemma kept_values:
  "id_of (if c then v else u) = (if c then id_of v else id_of u)"
  "str_of (if c then v else u) = (if c then str_of v else str_of u)"
  "time_ptr_of (if c then v else u) = (if c then time_ptr_of v else time_ptr_of u)"
  "(if c then Some a else Some b) = Some (if c then a else b)"
  by simp_all

lemma set_fields_order:
  assumes "dec_order_model d = Some x"
  shows "dec_order_model (set_fields (enc_order_model y) d) = Some (stored_order (written_over x y))"
proof -
  have get:
    "id_of (map_of d ''_id'') = Some (om_ID x)"
    "id_of (map_of d ''v1userId'') = Some (om_V1UserID x)"
    "str_of (map_of d ''type'') = Some (om_Type x)"
    "id_of (map_of d ''buyChain'') = Some (om_BuyChain x)"
    "id_of (map_of d ''sellChain'') = Some (om_SellChain x)"
    "str_of (map_of d ''v1Id'') = Some (om_V1ID x)"
    "id_of (map_of d ''refundAccountId'') = Some (om_RefundAccountID x)"
    "id_of (map_of d ''parentOrder'') = Some (om_ParentOrder x)"
    "id_of (map_of d ''childOrder'') = Some (om_ChildOrder x)"
    "str_of (map_of d ''provider'') = Some (om_Provider x)"
    "str_of (map_of d ''providerOrderId'') = Some (om_ProviderOrderID x)"
    "str_of (map_of d ''buyProvider'') = Some (om_BuyProvider x)"
    "str_of (map_of d ''sellProvider'') = Some (om_SellProvider x)"
    "str_of (map_of d ''rateId'') = Some (om_RateID x)"
    "time_ptr_of (map_of d ''deletedAt'') = Some (om_DeletedAt x)"
    using assms(1) by (auto simp: dec_order_model_def bind_eq_Some_conv get_defs)
  have "map_option ms_trunc (om_DeletedAt x) = om_DeletedAt x"
    by (rule time_ptr_read [OF get(15)])
  then have del: "(if c then Some (om_DeletedAt x) else time_ptr_of (map_option bson_time p))
      = Some (map_option ms_trunc (if c then om_DeletedAt x else p))" if "\<not> c \<Longrightarrow> p \<noteq> None" for c p
    using that by (auto simp: read_written)
  show ?thesis
    unfolding dec_order_model_def get_defs get_ids_def get_strs_def get_map_def enc_order_model_def written_over_def
    by (simp add: set_fields_put doc_simps get kept_values del stored_order_def del: map_of_append split del: if_split
        cong del: if_weak_cong)
qed

end
