(* ===== verification/PortfolioProperties.thy ===== *)
theory PortfolioProperties
  imports Portfolio AccountStore OrderModel "HOL-Library.Multiset"
begin

text \<open>
  The theorems on portfolios: the use case and the service compute the same, a wallet is worth the
  sum over its accounts whatever the order of the goroutines, and what is cached hides a new balance.
\<close>

section \<open>The use case and the service\<close>

text \<open>The same value, or both an error.\<close>

fun same_ok :: "'a res \<Rightarrow> 'a res \<Rightarrow> bool" where
  "same_ok (Ok a) (Ok b) = (a = b)"
| "same_ok (Err _) (Err _) = True"
| "same_ok (Panic x) (Panic y) = (x = y)"
| "same_ok _ _ = False"

definition agree :: "'a res \<times> 's \<Rightarrow> 'a res \<times> 's \<Rightarrow> bool" where
  "agree r q \<longleftrightarrow> same_ok (fst r) (fst q) \<and> snd r = snd q"

lemma agree_simps [simp]:
  "agree (Ok a, s) r \<longleftrightarrow> r = (Ok a, s)" "agree (Panic x, s) r \<longleftrightarrow> r = (Panic x, s)"
  "agree (Err e, s) r \<longleftrightarrow> (\<exists>e'. r = (Err e', s))"
  by (cases r; cases "fst r"; auto simp: agree_def)+

lemma agree_same [simp]: "agree r r"
  by (cases r; cases "fst r") (auto simp: agree_def)

text \<open>Both over the repositories of one database.\<close>

definition same_portfolio_db :: "'w db \<Rightarrow> 'w portfolio_uc \<Rightarrow> 'w portfolio_service \<Rightarrow> bool" where
  "same_portfolio_db db uc sv \<longleftrightarrow> pu_accountRepo uc = AccountRepositoryAdapter db \<and> pu_currency uc = currency_GetByID db
     \<and> pu_chain uc = chain_GetByID db \<and> pu_db uc = db \<and> ps_db sv = db"

text \<open>The currencies of the accounts a store keeps.\<close>

definition accounts_priced :: "mstore \<Rightarrow> bool" where
  "accounts_priced m \<longleftrightarrow>
     (\<forall>d \<in> set (m ''accounts''). \<forall>a. dec_account_model d = Some a \<longrightarrow> am_CurrencyID a \<noteq> nil_id)"

lemma found_account_priced:
  assumes "db_ok re db view" "accounts_priced (view w)" "GetAccountByID db i w = (Ok a, w')"
  shows "am_CurrencyID a \<noteq> nil_id"
proof -
  obtain d where "dec_account_model d = Some a" "d \<in> set (view w ''accounts'')"
    using repo_find_one_ok [OF db_okD(1) [OF assms(1)], of "''accounts''" dec_account_model
        "FAll [FEq ''_id'' (BId i), not_deleted]" w] assms(3)
    by (auto simp: GetAccountByID_def decode_doc_def filter_eq_Cons_iff split: list.splits option.splits)
  with assms(2) show ?thesis by (simp add: accounts_priced_def)
qed

text \<open>The reads leave the store alone.\<close>

lemma read_view:
  assumes "db_ok re db view"
  shows "GetAccountByID db i w = (ra, w') \<Longrightarrow> view w' = view w"
    "GetCurrencyByID db i w = (rc, w') \<Longrightarrow> view w' = view w"
    "GetChainByID db i w = (rh, w') \<Longrightarrow> view w' = view w"
    "GetAccountsByWalletID db i w = (rs, w') \<Longrightarrow> view w' = view w"
    "cached db k (c, w) = (e, c', w') \<Longrightarrow> view w' = view w"
    "store_account db k p (c, w) = (c', w') \<Longrightarrow> view w' = view w"
    "store_wallet db k q (c, w) = (c', w') \<Longrightarrow> view w' = view w"
proof -
  note f = repo_find_one_ok [OF db_okD(1) [OF assms]]
  show "GetAccountByID db i w = (ra, w') \<Longrightarrow> view w' = view w"
    unfolding GetAccountByID_def by (metis f snd_conv)
  show "GetCurrencyByID db i w = (rc, w') \<Longrightarrow> view w' = view w"
    unfolding GetCurrencyByID_def by (metis f snd_conv)
  show "GetChainByID db i w = (rh, w') \<Longrightarrow> view w' = view w"
    unfolding GetChainByID_def by (metis f snd_conv)
  show "GetAccountsByWalletID db i w = (rs, w') \<Longrightarrow> view w' = view w"
    by (auto simp: GetAccountsByWalletID_def repo_find_all_def mongo_find_def
        split: prod.splits mreply.splits res.splits dest!: mongo_okD [OF db_okD(1) [OF assms]])
  show "cached db k (c, w) = (e, c', w') \<Longrightarrow> view w' = view w"
    by (auto simp: cached_def split: option.splits prod.splits dest: db_okD(2) [OF assms])
  show "store_account db k p (c, w) = (c', w') \<Longrightarrow> view w' = view w"
    by (auto simp: store_account_def split: prod.splits dest: db_okD(2) [OF assms])
  show "store_wallet db k q (c, w) = (c', w') \<Longrightarrow> view w' = view w"
    by (auto simp: store_wallet_def split: prod.splits dest: db_okD(2) [OF assms])
qed

lemma svc_account_view:
  assumes "db_ok re (ps_db sv) view" "svc_GetAccountPortfolio sv i (c, w) = (r, c', w')"
  shows "view w' = view w"
proof -
  note v = read_view [OF assms(1)]
  obtain e c1 w1 where 1: "cached (ps_db sv) (''account-portfolio:'' @ i) (c, w) = (e, c1, w1)" by (metis surj_pair)
  obtain ra w2 where 2: "GetAccountByID (ps_db sv) i w1 = (ra, w2)" by (metis surj_pair)
  obtain rc w3 where 3: "GetCurrencyByID (ps_db sv) (case ra of Ok a \<Rightarrow> currency_id a | _ \<Rightarrow> []) w2 = (rc, w3)"
    by (metis surj_pair)
  obtain rh w4 where 4: "GetChainByID (ps_db sv) (case ra of Ok a \<Rightarrow> am_ChainID a | _ \<Rightarrow> []) w3 = (rh, w4)"
    by (metis surj_pair)
  have w: "view w1 = view w" "view w2 = view w" "view w3 = view w" "view w4 = view w"
    using v(5) [OF 1] v(1) [OF 2] v(2) [OF 3] v(3) [OF 4] by simp_all
  from assms(2) 1 2 3 4 w show ?thesis
    by (cases e; cases ra; cases rc; cases rh)
      (auto simp: svc_GetAccountPortfolio_def chain_symbol_def via_def Let_def split: if_splits dest!: v(6))
qed

lemma collect_agree:
  assumes "\<And>i c w. P w \<Longrightarrow> agree (f i (c, w)) (g i (c, w))" "\<And>i c w. P w \<Longrightarrow> P (snd (snd (g i (c, w))))" "P w"
  shows "collect_accounts f is (c, w) = collect_accounts g is (c, w)"
  using assms(3)
proof (induction "is" arbitrary: c w)
  case (Cons i "is")
  obtain r c1 w1 where g: "g i (c, w) = (r, c1, w1)" by (metis surj_pair)
  with assms(2) [OF Cons.prems, of i c] have IH: "collect_accounts f is (c1, w1) = collect_accounts g is (c1, w1)"
    using Cons.IH by simp
  show ?case
    using assms(1) [OF Cons.prems, of i c] g IH
    by (cases "f i (c, w)"; cases "fst (f i (c, w))"; cases r) (auto simp: agree_def)
qed simp

lemma account_portfolios_agree:
  assumes "same_portfolio_db db uc sv" "db_ok re db view" "accounts_priced (view w)"
  shows "agree (puc_GetAccountPortfolio uc i (c, w)) (svc_GetAccountPortfolio sv i (c, w))"
proof -
  have uc: "pu_accountRepo uc = AccountRepositoryAdapter db" "pu_currency uc = currency_GetByID db"
    "pu_chain uc = chain_GetByID db" "pu_db uc = db" "ps_db sv = db"
    using assms(1) by (simp_all add: same_portfolio_db_def)
  obtain e c' w0 where c: "cached db (''account-portfolio:'' @ i) (c, w) = (e, c', w0)" by (metis surj_pair)
  obtain r w1 where r: "GetAccountByID db i w0 = (r, w1)" by (metis surj_pair)
  have p: "accounts_priced (view w0)" using read_view(5) [OF assms(2) c] assms(3) by simp
  show ?thesis
  proof (cases e)
    case None
    show ?thesis
    proof (cases r)
      case (Ok a)
      obtain q w2 where q: "GetCurrencyByID db (am_CurrencyID a) w1 = (q, w2)" by (metis surj_pair)
      obtain h w3 where h: "GetChainByID db (am_ChainID a) w2 = (h, w3)" by (metis surj_pair)
      from found_account_priced [OF assms(2) p r [unfolded Ok]] have "am_CurrencyID a \<noteq> nil_id" .
      with None c r Ok q h uc show ?thesis
        by (cases q; cases h)
          (simp_all add: puc_GetAccountPortfolio_def svc_GetAccountPortfolio_def AccountRepositoryAdapter_def
            account_GetByID_def currency_GetByID_def chain_GetByID_def via_def currency_id_def chain_symbol_def
            convertAccountModelToDomain_def NewTokenData_def NewChainReference_def NewAccountPortfolio_def Let_def)
    qed (use None c r uc in \<open>simp_all add: puc_GetAccountPortfolio_def svc_GetAccountPortfolio_def
        AccountRepositoryAdapter_def account_GetByID_def via_def\<close>)
  qed (use c uc in \<open>simp add: puc_GetAccountPortfolio_def svc_GetAccountPortfolio_def\<close>)
qed

lemma wallet_portfolios_agree:
  assumes "same_portfolio_db db uc sv" "db_ok re db view" "accounts_priced (view w)"
  shows "agree (puc_GetWalletPortfolio uc sched i (c, w)) (svc_GetWalletPortfolio sv sched i (c, w))"
proof -
  have uc: "pu_accountRepo uc = AccountRepositoryAdapter db" "pu_db uc = db" "ps_db sv = db"
    using assms(1) by (simp_all add: same_portfolio_db_def)
  have id: "ac_ID \<circ> convertAccountModelToDomain = am_ID" by (simp add: fun_eq_iff convertAccountModelToDomain_def)
  obtain e c' w0 where c: "cached db (''wallet-portfolio:'' @ i) (c, w) = (e, c', w0)" by (metis surj_pair)
  obtain r w1 where r: "GetAccountsByWalletID db i w0 = (r, w1)" by (metis surj_pair)
  have p: "view w1 = view w" using read_view(5) [OF assms(2) c] read_view(4) [OF assms(2) r] by simp
  have "view (snd (snd (svc_GetAccountPortfolio sv i (c, v)))) = view v" for i c v
    using svc_account_view [where sv = sv and view = view and re = re] assms(2) uc(3) by (metis prod.collapse)
  then have same: "collect_accounts (puc_GetAccountPortfolio uc) is (c', w1)
      = collect_accounts (svc_GetAccountPortfolio sv) is (c', w1)" for "is"
    by (intro collect_agree [where P = "\<lambda>v. view v = view w"] account_portfolios_agree [OF assms(1,2)])
      (use p assms(3) in simp_all)
  obtain q t where q: "collect_accounts (svc_GetAccountPortfolio sv)
      (sched (case r of Ok as \<Rightarrow> map am_ID as | _ \<Rightarrow> [])) (c', w1) = (q, t)" by (metis surj_pair)
  show ?thesis
  proof (cases e)
    case None
    with c r q uc show ?thesis
      by (cases r; cases q)
        (simp_all add: puc_GetWalletPortfolio_def svc_GetWalletPortfolio_def AccountRepositoryAdapter_def
          account_GetByWalletID_def via_def same id NewWalletPortfolio_def Let_def)
  qed (use c uc in \<open>simp add: puc_GetWalletPortfolio_def svc_GetWalletPortfolio_def\<close>)
qed

text \<open>C35: When every stored account names its currency, the use case and the service leave the same
  cache and the same world and return the same portfolio of a wallet, or both an error.\<close>

theorem use_case_is_service:
  assumes "same_portfolio_db db uc sv" "db_ok re db view" "accounts_priced (view w)"
  shows "agree (puc_GetWalletPortfolio uc sched i (c, w)) (svc_GetWalletPortfolio sv sched i (c, w))"
  by (rule wallet_portfolios_agree [OF assms])

section \<open>What a wallet is worth\<close>

subsection \<open>The interface\<close>

definition account_key :: "string \<Rightarrow> string" where "account_key i = ''account-portfolio:'' @ i"

text \<open>Accounts one at a time: without an entry in the cache, the value of the account or an error.\<close>

locale account_values =
  fixes get :: "string \<Rightarrow> portfolio_cache \<times> 'w \<Rightarrow> account_portfolio option res \<times> portfolio_cache \<times> 'w"
    and ok :: "'w \<Rightarrow> bool" and val :: "string \<Rightarrow> account_portfolio option"
  assumes computes: "ok w \<Longrightarrow> c (account_key i) = None \<Longrightarrow> val i = Some p \<Longrightarrow>
      \<exists>e w'. get i (c, w) = (Ok (Some p), c(account_key i \<mapsto> e), w') \<and> ok w'"
    and fails: "ok w \<Longrightarrow> c (account_key i) = None \<Longrightarrow> val i = None \<Longrightarrow>
      \<exists>e w'. get i (c, w) = (Err e, c, w') \<and> ok w'"
begin

text \<open>The goroutines of different accounts do not see each other's entries.\<close>

lemma collects:
  assumes "ok w" "distinct is" "\<forall>i \<in> set is. c (account_key i) = None"
  shows "\<exists>c' w'. collect_accounts get is (c, w) = (Ok (List.map_filter val is), c', w') \<and> ok w'"
  using assms
proof (induction "is" arbitrary: c w)
  case (Cons i "is")
  show ?case
  proof (cases "val i")
    case None
    with fails [of w c i] Cons.prems obtain e w1 where 1: "get i (c, w) = (Err e, c, w1)" "ok w1" by auto
    with Cons.IH [of w1 c] Cons.prems obtain c' w' where
      "collect_accounts get is (c, w1) = (Ok (List.map_filter val is), c', w')" "ok w'" by auto
    with 1 None show ?thesis by (simp add: map_filter_simps)
  next
    case (Some p)
    with computes [of w c i p] Cons.prems obtain e w1 where
      1: "get i (c, w) = (Ok (Some p), c(account_key i \<mapsto> e), w1)" "ok w1" by auto
    have "\<forall>j \<in> set is. (c(account_key i \<mapsto> e)) (account_key j) = None"
      using Cons.prems by (auto simp: account_key_def)
    from Cons.IH [OF 1(2) _ this] Cons.prems(2) obtain c' w' where
      "collect_accounts get is (c(account_key i \<mapsto> e), w1) = (Ok (List.map_filter val is), c', w')" "ok w'"
      by (metis distinct.simps(2))
    with 1 Some show ?thesis by (simp add: map_filter_simps)
  qed
qed (simp add: map_filter_simps)

lemma collects_any_order:
  assumes "ok w" "distinct is" "\<forall>i \<in> set is. c (account_key i) = None" "mset js = mset is"
  shows "\<exists>ps c' w'. collect_accounts get js (c, w) = (Ok ps, c', w') \<and> ok w'
    \<and> mset ps = mset (List.map_filter val is)"
proof -
  have js: "distinct js" "\<forall>i \<in> set js. c (account_key i) = None"
    using assms(2,3) mset_eq_imp_distinct_iff [OF assms(4)] mset_eq_setD [OF assms(4)] by simp_all
  have "mset (List.map_filter val js) = mset (List.map_filter val is)"
    unfolding List.map_filter_def mset_map mset_filter comp_def by (simp only: assms(4))
  with collects [OF assms(1) js] show ?thesis by metis
qed

end

subsection \<open>Over the database\<close>

definition find_doc :: "(string \<Rightarrow> string \<Rightarrow> bool) \<Rightarrow> mstore \<Rightarrow> string \<Rightarrow> (bdoc \<Rightarrow> 'a option) \<Rightarrow> mfilter \<Rightarrow> 'a option" where
  "find_doc re m c dec f = (case filter (\<lambda>d. matches re f (map_of d)) (m c) of [] \<Rightarrow> None | d # _ \<Rightarrow> dec d)"

lemma repo_find_one_doc:
  assumes "db_ok re db view"
  shows "\<exists>r w'. repo_find_one (db_mongo db) c dec f w = (r, w') \<and> view w' = view w
    \<and> (case find_doc re (view w) c dec f of Some a \<Rightarrow> r = Ok a | None \<Rightarrow> \<exists>e. r = Err e)"
  using repo_find_one_ok [OF db_okD(1) [OF assms], of c dec f w]
  by (auto simp: find_doc_def decode_doc_def split: list.splits option.splits)

text \<open>The value of an account that is read from the store: nothing without its currency.\<close>

definition symbol_of :: "(string \<Rightarrow> string \<Rightarrow> bool) \<Rightarrow> mstore \<Rightarrow> string \<Rightarrow> string" where
  "symbol_of re m i = (if i = nil_id then []
     else case find_doc re m ''chains'' dec_chain_model (FEq ''_id'' (BId i)) of Some h \<Rightarrow> ch_Symbol h | None \<Rightarrow> [])"

definition value_of :: "(string \<Rightarrow> string \<Rightarrow> bool) \<Rightarrow> mstore \<Rightarrow> account_model \<Rightarrow> account_portfolio option" where
  "value_of re m a = map_option (\<lambda>k. NewAccountPortfolio (am_ID a) (am_WalletAddress a)
       (NewTokenData (cu_Symbol k) (am_Balance a) (getTokenPrice k)
         (NewChainReference (am_ChainID a) (symbol_of re m (am_ChainID a)))))
     (find_doc re m ''currencies'' dec_currency_model (FEq ''_id'' (BId (am_CurrencyID a))))"

definition account_value :: "(string \<Rightarrow> string \<Rightarrow> bool) \<Rightarrow> mstore \<Rightarrow> string \<Rightarrow> account_portfolio option" where
  "account_value re m i = Option.bind (find_doc re m ''accounts'' dec_account_model
     (FAll [FEq ''_id'' (BId i), not_deleted])) (value_of re m)"

definition uc_over_db :: "'w db \<Rightarrow> (string \<Rightarrow> string \<Rightarrow> currency_model \<Rightarrow> supported_currency option \<Rightarrow> 'w \<Rightarrow> f64 res \<times> 'w)
    \<Rightarrow> 'w portfolio_uc" where
  "uc_over_db db balance = \<lparr>pu_accountRepo = AccountRepositoryAdapter db, pu_currency = currency_GetByID db,
     pu_chain = chain_GetByID db, pu_balance = balance, pu_db = db\<rparr>"

lemma chain_symbol_db:
  assumes "db_ok re db view"
  shows "\<exists>w'. chain_symbol (chain_GetByID db) i w = (Ok (symbol_of re (view w) i), w') \<and> view w' = view w"
  using repo_find_one_doc [OF assms, of "''chains''" dec_chain_model "FEq ''_id'' (BId i)" w]
  by (auto simp: symbol_of_def chain_symbol_def chain_GetByID_def GetChainByID_def via_def split: option.splits)

lemma store_account_ex:
  assumes "db_ok re db view"
  shows "\<exists>e w'. store_account db k p (c, w) = (c(k \<mapsto> e), w') \<and> view w' = view w"
  using db_okD(2) [OF assms] by (cases "db_now db w") (simp add: store_account_def, blast)

lemma use_case_value:
  assumes "db_ok re db view" "c (account_key i) = None"
  shows "\<exists>r c' w'. puc_GetAccountPortfolio (uc_over_db db balance) i (c, w) = (r, c', w') \<and> view w' = view w
    \<and> (case account_value re (view w) i of
         Some p \<Rightarrow> r = Ok (Some p) \<and> (\<exists>e. c' = c(account_key i \<mapsto> e))
       | None \<Rightarrow> (\<exists>e. r = Err e) \<and> c' = c)"
proof -
  note f = repo_find_one_doc [OF assms(1)]
  note d = puc_GetAccountPortfolio_def uc_over_db_def
    AccountRepositoryAdapter_def account_GetByID_def currency_GetByID_def via_def account_value_def value_of_def
  have n: "cached db (''account-portfolio:'' @ i) (c, w) = (None, c, w)"
    using assms(2) by (simp add: cached_def account_key_def)
  obtain r1 w1 where 1: "GetAccountByID db i w = (r1, w1)" "view w1 = view w"
    "case find_doc re (view w) ''accounts'' dec_account_model (FAll [FEq ''_id'' (BId i), not_deleted]) of
       Some a \<Rightarrow> r1 = Ok a | None \<Rightarrow> \<exists>e. r1 = Err e"
    unfolding GetAccountByID_def using f by blast
  show ?thesis
  proof (cases "find_doc re (view w) ''accounts'' dec_account_model (FAll [FEq ''_id'' (BId i), not_deleted])")
    case None
    with n 1 show ?thesis by (auto simp: d)
  next
    case (Some a)
    with 1 have r1: "r1 = Ok a" by simp
    obtain r2 w2 where 2: "GetCurrencyByID db (am_CurrencyID a) w1 = (r2, w2)" "view w2 = view w"
      "case find_doc re (view w) ''currencies'' dec_currency_model (FEq ''_id'' (BId (am_CurrencyID a))) of
         Some k \<Rightarrow> r2 = Ok k | None \<Rightarrow> \<exists>e. r2 = Err e"
      unfolding GetCurrencyByID_def using f [of "''currencies''" dec_currency_model _ w1] 1(2) by metis
    obtain w3 where 3: "chain_symbol (chain_GetByID db) (am_ChainID a) w2
        = (Ok (symbol_of re (view w) (am_ChainID a)), w3)" "view w3 = view w"
      using chain_symbol_db [OF assms(1), of "am_ChainID a" w2] 2(2) by metis
    show ?thesis
    proof (cases "find_doc re (view w) ''currencies'' dec_currency_model (FEq ''_id'' (BId (am_CurrencyID a)))")
      case None
      with n 1(1) r1 2 Some show ?thesis by (auto simp: d convertAccountModelToDomain_def)
    next
      case (Some k)
      let ?p = "NewAccountPortfolio (am_ID a) (am_WalletAddress a) (NewTokenData (cu_Symbol k) (am_Balance a)
          (getTokenPrice k) (NewChainReference (am_ChainID a) (symbol_of re (view w) (am_ChainID a))))"
      obtain e w4 where 4: "store_account db (''account-portfolio:'' @ i) ?p (c, w3)
          = (c(account_key i \<mapsto> e), w4)" "view w4 = view w"
        using store_account_ex [OF assms(1), of "account_key i" ?p c w3] 3(2) unfolding account_key_def by metis
      from Some 2(3) have "r2 = Ok k" by simp
      with n 1(1) r1 2(1) 3(1) 4 Some \<open>find_doc _ _ ''accounts'' _ _ = Some a\<close> show ?thesis
        by (auto simp: d convertAccountModelToDomain_def Let_def)
    qed
  qed
qed

interpretation use_case: account_values "puc_GetAccountPortfolio (uc_over_db db balance)"
  "\<lambda>w. db_ok re db view \<and> view w = m" "account_value re m" for db balance re view m
proof
  show "\<exists>e w'. puc_GetAccountPortfolio (uc_over_db db balance) i (c, w) = (Ok (Some p), c(account_key i \<mapsto> e), w')
      \<and> db_ok re db view \<and> view w' = m"
    if "db_ok re db view \<and> view w = m" "c (account_key i) = None" "account_value re m i = Some p" for w c i p
    using use_case_value [of re db view c i balance w] that by auto
  show "\<exists>e w'. puc_GetAccountPortfolio (uc_over_db db balance) i (c, w) = (Err e, c, w') \<and> db_ok re db view \<and> view w' = m"
    if "db_ok re db view \<and> view w = m" "c (account_key i) = None" "account_value re m i = None" for w c i
    using use_case_value [of re db view c i balance w] that by auto
qed

text \<open>Identifiers are there and unique, which MongoDB sees to.\<close>

definition store_ids_ok :: "mstore \<Rightarrow> bool" where
  "store_ids_ok m \<longleftrightarrow> distinct (map (\<lambda>d. map_of d ''_id'') (m ''accounts''))
     \<and> (\<forall>d \<in> set (m ''accounts''). map_of d ''_id'' \<noteq> None)"

definition wallet_docs :: "(string \<Rightarrow> string \<Rightarrow> bool) \<Rightarrow> mstore \<Rightarrow> string \<Rightarrow> bdoc list" where
  "wallet_docs re m i = filter (\<lambda>d. matches re (FAll [FEq ''walletId'' (BId i), not_deleted]) (map_of d)) (m ''accounts'')"

definition wallet_accounts :: "(string \<Rightarrow> string \<Rightarrow> bool) \<Rightarrow> mstore \<Rightarrow> string \<Rightarrow> account_model list" where
  "wallet_accounts re m i = map (the \<circ> dec_account_model) (wallet_docs re m i)"

lemma filter_single:
  assumes "distinct (map f xs)" "x \<in> set xs" "P x" "\<And>y. y \<in> set xs \<Longrightarrow> P y \<Longrightarrow> f y = f x"
  shows "filter P xs = [x]"
proof -
  obtain ys zs where xs: "xs = ys @ x # zs" using assms(2) by (meson split_list)
  with assms(1) have "f x \<notin> f ` (set ys \<union> set zs)" by auto
  then have "\<forall>y \<in> set ys \<union> set zs. f y \<noteq> f x" by (metis imageI)
  with assms(4) xs have "filter P ys = []" "filter P zs = []" unfolding filter_empty_conv by auto
  with xs assms(3) show ?thesis by simp
qed

lemma account_doc_id:
  assumes "account_doc d" "map_of d ''_id'' \<noteq> None"
  shows "map_of d ''_id'' = Some (BId (am_ID (the (dec_account_model d))))"
proof -
  from assms(1) obtain x where "map_of d = map_of (enc_account_model x)" "dec_account_model d = Some (stored_account x)"
    by (rule account_docE)
  with assms(2) show ?thesis by (simp add: enc_account_lookup stored_account_def split: if_splits)
qed

lemma found_by_id:
  assumes "accounts_ok m" "store_ids_ok m" "d \<in> set (wallet_docs re m i)"
  shows "find_doc re m ''accounts'' dec_account_model
      (FAll [FEq ''_id'' (BId (am_ID (the (dec_account_model d)))), not_deleted]) = dec_account_model d"
proof -
  let ?j = "am_ID (the (dec_account_model d))"
  let ?P = "\<lambda>e. matches re (FAll [FEq ''_id'' (BId ?j), not_deleted]) (map_of e)"
  have d: "d \<in> set (m ''accounts'')" "matches re not_deleted (map_of d)" using assms(3) by (auto simp: wallet_docs_def)
  have id: "map_of e ''_id'' = Some (BId (am_ID (the (dec_account_model e))))" if "e \<in> set (m ''accounts'')" for e
    using that assms(1,2) account_doc_id by (simp add: accounts_ok_def store_ids_ok_def)
  have "filter ?P (m ''accounts'') = [d]"
  proof (rule filter_single [where f = "\<lambda>d. map_of d ''_id''"])
    show "map_of e ''_id'' = map_of d ''_id''" if "e \<in> set (m ''accounts'')" "?P e" for e
      using that id [OF that(1)] id [OF d(1)] by (simp add: field_vals_def)
  qed (use assms(2) d id [OF d(1)] in \<open>simp_all add: store_ids_ok_def field_vals_def\<close>)
  then show ?thesis by (simp add: find_doc_def)
qed

lemma map_filter_over:
  "(\<And>a. a \<in> set as \<Longrightarrow> f (g a) = h a) \<Longrightarrow> List.map_filter f (map g as) = List.map_filter h as"
  by (induction as) (simp_all add: map_filter_simps split: option.split)

lemma wallet_values:
  assumes "accounts_ok m" "store_ids_ok m"
  shows "distinct (map am_ID (wallet_accounts re m i))"
    and "List.map_filter (account_value re m) (map am_ID (wallet_accounts re m i))
      = List.map_filter (value_of re m) (wallet_accounts re m i)"
proof -
  have sub: "set (wallet_docs re m i) \<subseteq> set (m ''accounts'')" by (auto simp: wallet_docs_def)
  have dec: "\<exists>a. dec_account_model d = Some a" if "d \<in> set (wallet_docs re m i)" for d
  proof -
    from that sub assms(1) have "account_doc d" by (auto simp: accounts_ok_def)
    then show ?thesis by (rule account_docE) simp
  qed
  have "distinct (map (\<lambda>d. map_of d ''_id'') (wallet_docs re m i))"
    using assms(2) by (simp add: wallet_docs_def store_ids_ok_def distinct_map_filter)
  moreover have "map (\<lambda>d. map_of d ''_id'') (wallet_docs re m i)
      = map (\<lambda>j. Some (BId j)) (map am_ID (wallet_accounts re m i))"
  proof -
    have "map_of d ''_id'' = Some (BId (am_ID (the (dec_account_model d))))" if "d \<in> set (wallet_docs re m i)" for d
      using that sub assms account_doc_id [of d] unfolding accounts_ok_def store_ids_ok_def by blast
    then show ?thesis by (simp add: wallet_accounts_def)
  qed
  ultimately show "distinct (map am_ID (wallet_accounts re m i))" by (metis distinct_map)
  have "account_value re m (am_ID a) = value_of re m a" if "a \<in> set (wallet_accounts re m i)" for a
  proof -
    from that obtain d where d: "d \<in> set (wallet_docs re m i)" "a = the (dec_account_model d)"
      by (auto simp: wallet_accounts_def)
    with found_by_id [OF assms d(1)] dec [OF d(1)] show ?thesis by (auto simp: account_value_def)
  qed
  then show "List.map_filter (account_value re m) (map am_ID (wallet_accounts re m i))
      = List.map_filter (value_of re m) (wallet_accounts re m i)" by (rule map_filter_over)
qed

lemma accounts_of_wallet:
  assumes "db_ok re db view" "accounts_ok (view w)"
  shows "\<exists>w'. GetAccountsByWalletID db i w = (Ok (wallet_accounts re (view w) i), w') \<and> view w' = view w"
proof -
  obtain r w' where m: "mdo (db_mongo db) (MFind ''accounts'' (FAll [FEq ''walletId'' (BId i), not_deleted])) w = (r, w')"
    by (metis surj_pair)
  have dec: "\<forall>d \<in> set (wallet_docs re (view w) i). dec_account_model d = Some (the (dec_account_model d))"
  proof
    fix d assume "d \<in> set (wallet_docs re (view w) i)"
    with assms(2) have "account_doc d" by (auto simp: accounts_ok_def wallet_docs_def)
    then show "dec_account_model d = Some (the (dec_account_model d))" by (rule account_docE) simp
  qed
  have "those (map f ds) = Some (map (the \<circ> f) ds)" if "\<forall>d \<in> set ds. f d = Some (the (f d))"
    for f :: "bdoc \<Rightarrow> account_model option" and ds
    using that
  proof (induction ds)
    case (Cons d ds)
    then obtain a where "f d = Some a" by auto
    with Cons show ?case by simp
  qed simp
  from this [OF dec] have "decode_docs dec_account_model (wallet_docs re (view w) i) = Ok (wallet_accounts re (view w) i)"
    by (simp add: decode_docs_def wallet_accounts_def)
  moreover have "r = MDocs (wallet_docs re (view w) i)" "view w' = view w"
    using mongo_okD [OF db_okD(1) [OF assms(1)] m] by (auto simp: wallet_docs_def)
  ultimately show ?thesis
    using m by (simp add: GetAccountsByWalletID_def repo_find_all_def mongo_find_def)
qed

text \<open>C33: With nothing cached, the use case returns, whatever the order of the goroutines, a portfolio with
  exactly one entry for every live account of the wallet whose currency is known (its balance times
  the price), worth their sum; other accounts are left out, and the store is not changed.\<close>

theorem wallet_portfolio_any_order:
  assumes "db_ok re db view" "accounts_ok (view w)" "store_ids_ok (view w)" "\<And>is. mset (sched is) = mset is"
    and "\<And>k. c k = None"
  shows "\<exists>ps c' w'. puc_GetWalletPortfolio (uc_over_db db balance) sched i (c, w)
        = (Ok (Some (NewWalletPortfolio i ps)), c', w') \<and> view w' = view w
    \<and> mset ps = mset (List.map_filter (value_of re (view w)) (wallet_accounts re (view w) i))"
proof -
  let ?as = "wallet_accounts re (view w) i"
  obtain w1 where 1: "GetAccountsByWalletID db i w = (Ok ?as, w1)" "view w1 = view w"
    using accounts_of_wallet [OF assms(1,2)] by blast
  have n: "cached db (''wallet-portfolio:'' @ i) (c, w) = (None, c, w)" using assms(5) by (simp add: cached_def)
  have id: "ac_ID \<circ> convertAccountModelToDomain = am_ID" by (simp add: fun_eq_iff convertAccountModelToDomain_def)
  obtain ps c2 w2 where 2: "collect_accounts (puc_GetAccountPortfolio (uc_over_db db balance)) (sched (map am_ID ?as)) (c, w1)
      = (Ok ps, c2, w2)" "view w2 = view w" "mset ps = mset (List.map_filter (value_of re (view w)) ?as)"
    using use_case.collects_any_order [of re db view w1 "view w" "map am_ID ?as" c "sched (map am_ID ?as)" balance]
      wallet_values [OF assms(2,3), of re i] assms(1,4,5) 1(2) by auto
  obtain c3 w3 where 3: "store_wallet db (''wallet-portfolio:'' @ i) (NewWalletPortfolio i ps) (c2, w2) = (c3, w3)"
    by (metis surj_pair)
  note d = puc_GetWalletPortfolio_def uc_over_db_def AccountRepositoryAdapter_def account_GetByWalletID_def via_def
  show ?thesis
  proof (cases "?as = []")
    case True
    with n 1 show ?thesis
      by (intro exI [of _ "[]"] exI [of _ c] exI [of _ w1])
        (simp add: d empty_portfolio_def NewWalletPortfolio_def total_usd_def map_filter_simps)
  next
    case False
    with n 1 2 3 read_view(7) [OF assms(1) 3] show ?thesis
      by (intro exI [of _ ps] exI [of _ c3] exI [of _ w3]) (simp add: d id Let_def uc_over_db_def [symmetric])
  qed
qed

section \<open>A new balance\<close>

lemma update_first_mem: "x \<in> set (update_first P f xs) \<Longrightarrow> x \<in> set xs \<or> (\<exists>y \<in> set xs. P y \<and> x = f y)"
  by (induction xs) (auto split: if_splits)

lemma update_first_hit: "\<exists>x \<in> set xs. P x \<Longrightarrow> \<exists>y \<in> set xs. P y \<and> f y \<in> set (update_first P f xs)"
  by (induction xs) auto

lemma account_update_stored:
  assumes "db_ok re db view" "ac_ID a \<noteq> nil_id" "d \<in> set (view w ''accounts'')" "map_of d ''_id'' = Some (BId (ac_ID a))"
    and "account_Update db a w = (r, w')"
  shows "\<exists>e \<in> set (view w' ''accounts''). map_of e ''_id'' = Some (BId (ac_ID a))
    \<and> map_of e ''balance'' = Some (BDbl (ac_Balance a))"
proof -
  obtain t w1 where t: "db_now db w = (t, w1)" by (metis surj_pair)
  let ?x = "convertAccountDomainToModel a\<lparr>am_UpdatedAt := t\<rparr>"
  let ?P = "\<lambda>d. matches re (FEq ''_id'' (BId (ac_ID a))) (map_of d)" and ?f = "set_fields (enc_account_model ?x)"
  have x: "am_ID ?x = ac_ID a" "am_Balance ?x = ac_Balance a" by (simp_all add: convertAccountDomainToModel_def)
  then have "account_Update db a w = repo_update (db_mongo db) ''accounts'' (ac_ID a) (enc_account_model ?x) w1"
    using assms(2) t by (simp add: account_Update_def repo_UpdateAccount_def)
  then have v: "view w' ''accounts'' = update_first ?P ?f (view w ''accounts'')"
    using repo_update_ok [OF db_okD(1) [OF assms(1)], of "''accounts''" "ac_ID a" "enc_account_model ?x" w1]
      assms(5) db_okD(2) [OF assms(1) t] by auto
  have "?P d" using assms(4) by (simp add: field_vals_def)
  with update_first_hit [of "view w ''accounts''" ?P ?f] assms(3) v obtain y
    where "?f y \<in> set (view w' ''accounts'')" by auto
  moreover have "map_of (?f y) ''_id'' = Some (BId (ac_ID a))" "map_of (?f y) ''balance'' = Some (BDbl (ac_Balance a))"
    using x assms(2) by (simp_all add: enc_account_model_def set_fields_put doc_simps del: map_of_append)
  ultimately show ?thesis by blast
qed

text \<open>What the cache holds after an answer.\<close>

lemma cached_answer:
  assumes "puc_GetAccountPortfolio uc i (c, w) = (Ok (Some p), c1, w1)"
  shows "\<exists>e. c1 (account_key i) = Some e \<and> cp_account e = Some p
    \<and> (c (account_key i) = None \<longrightarrow> (\<exists>w0. cp_timestamp e = fst (db_now (pu_db uc) w0)))"
proof -
  obtain e c0 w0 where n: "cached (pu_db uc) (account_key i) (c, w) = (e, c0, w0)" by (metis surj_pair)
  show ?thesis
  proof (cases e)
    case (Some x)
    with n have "c0 = c" "c (account_key i) = Some x"
      by (auto simp: cached_def split: option.splits prod.splits if_splits)
    with n Some assms show ?thesis by (auto simp: puc_GetAccountPortfolio_def account_key_def)
  next
    case None
    with n assms show ?thesis
      by (auto simp: puc_GetAccountPortfolio_def account_key_def Let_def store_account_def
          split: res.splits option.splits prod.splits) (metis fst_conv)+
  qed
qed

lemma served_from_cache:
  assumes "c (account_key i) = Some e" "fst (db_now (pu_db uc) w) - cp_timestamp e < cache_ttl"
  shows "fst (puc_GetAccountPortfolio uc i (c, w)) = Ok (cp_account e)"
  using assms by (auto simp: puc_GetAccountPortfolio_def account_key_def cached_def split: prod.splits)

lemma GetBalance_stored:
  assumes "db_ok re db view" "accounts_ok (view w)" "store_ids_ok (view w)"
    and "\<And>s ad k sc w. view (snd (balance s ad k sc w)) = view w"
    and "puc_GetBalance (uc_over_db db balance) i w = (Ok b, w')"
  shows "\<exists>d \<in> set (view w' ''accounts''). map_of d ''_id'' = Some (BId i) \<and> map_of d ''balance'' = Some (BDbl b)"
proof -
  note u = uc_over_db_def AccountRepositoryAdapter_def account_GetByID_def currency_GetByID_def chain_GetByID_def via_def
  obtain r w1 where 1: "GetAccountByID db i w = (r, w1)" by (metis surj_pair)
  from assms(5) 1 obtain m where r: "r = Ok m" by (cases r) (auto simp: puc_GetBalance_def u)
  then obtain d where d: "d \<in> set (view w ''accounts'')" "dec_account_model d = Some m"
      "matches re (FEq ''_id'' (BId i)) (map_of d)"
    using repo_find_one_ok [OF db_okD(1) [OF assms(1)], of "''accounts''" dec_account_model
        "FAll [FEq ''_id'' (BId i), not_deleted]" w] 1
    by (auto simp: GetAccountByID_def decode_doc_def filter_eq_Cons_iff split: list.splits option.splits)
  then have "account_doc d" "map_of d ''_id'' \<noteq> None" using assms(2,3) by (auto simp: accounts_ok_def store_ids_ok_def)
  from account_doc_id [OF this] d(2,3) have id: "map_of d ''_id'' = Some (BId i)" "am_ID m = i"
    by (auto simp: field_vals_def)
  from \<open>account_doc d\<close> obtain x where "map_of d = map_of (enc_account_model x)" by (auto simp: account_doc_def)
  with id have nil: "i \<noteq> nil_id" by (auto simp: enc_account_lookup split: if_splits)
  let ?a = "convertAccountModelToDomain m"
  obtain rh w2 where 2: "GetChainByID db (ac_ChainID ?a) w1 = (rh, w2)" by (metis surj_pair)
  obtain rk w3 where 3: "GetCurrencyByID db (ac_CurrencyID ?a) w2 = (rk, w3)" by (metis surj_pair)
  obtain rb w4 where 4: "balance (case rh of Ok h \<Rightarrow> ch_Symbol h | _ \<Rightarrow> []) (ac_WalletAddress ?a)
      (case rk of Ok k \<Rightarrow> k) None w3 = (rb, w4)" by (metis surj_pair)
  obtain t w5 where 5: "db_now db w4 = (t, w5)" by (metis surj_pair)
  obtain ru w6 where 6: "account_Update db (UpdateBalance t b ?a) w5 = (ru, w6)" by (metis surj_pair)
  have "view w4 = view w3" using assms(4) 4 by (metis snd_conv)
  then have v: "view w5 = view w"
    using read_view(1) [OF assms(1) 1] read_view(3) [OF assms(1) 2] read_view(2) [OF assms(1) 3]
      db_okD(2) [OF assms(1) 5] by simp
  have "w6 = w'"
    using assms(5) 1 r 2 3 4 5 6
    by (cases rh; cases rk; cases rb) (auto simp: puc_GetBalance_def u split: if_splits res.splits prod.splits)
  moreover have "ac_ID (UpdateBalance t b ?a) = i" "ac_Balance (UpdateBalance t b ?a) = b"
    using id(2) by (simp_all add: UpdateBalance_def convertAccountModelToDomain_def)
  ultimately show ?thesis
    using account_update_stored [OF assms(1) _ _ _ 6, of d] d(1) id(1) nil v by simp
qed

text \<open>C34: After an account portfolio was returned, \<open>GetBalance\<close> stores a new balance in the account but leaves the
  cache alone: until five minutes after the entry was made, the portfolio stays the old one.\<close>

theorem new_balance_hidden:
  assumes "db_ok re db view" "accounts_ok (view w1)" "store_ids_ok (view w1)"
    and "\<And>s ad k sc w. view (snd (balance s ad k sc w)) = view w"
    and "puc_GetAccountPortfolio (uc_over_db db balance) i (c, w) = (Ok (Some p), c1, w1)"
    and "puc_GetBalance (uc_over_db db balance) i w1 = (Ok b, w2)"
  shows "(\<exists>d \<in> set (view w2 ''accounts''). map_of d ''_id'' = Some (BId i) \<and> map_of d ''balance'' = Some (BDbl b))
    \<and> (\<exists>e. c1 (account_key i) = Some e \<and> (fst (db_now db w2) - cp_timestamp e < cache_ttl \<longrightarrow>
         fst (puc_GetAccountPortfolio (uc_over_db db balance) i (c1, w2)) = Ok (Some p)))"
proof
  show "\<exists>d \<in> set (view w2 ''accounts''). map_of d ''_id'' = Some (BId i) \<and> map_of d ''balance'' = Some (BDbl b)"
    by (rule GetBalance_stored [OF assms(1-4,6)])
  have "pu_db (uc_over_db db balance) = db" by (simp add: uc_over_db_def)
  with cached_answer [OF assms(5)] served_from_cache [where uc = "uc_over_db db balance" and w = w2 and c = c1 and i = i]
  show "\<exists>e. c1 (account_key i) = Some e \<and> (fst (db_now db w2) - cp_timestamp e < cache_ttl \<longrightarrow>
      fst (puc_GetAccountPortfolio (uc_over_db db balance) i (c1, w2)) = Ok (Some p))"
    by metis
qed

section \<open>Witnesses\<close>

definition portfolio_demo :: mstore where
  "portfolio_demo = (\<lambda>c.
     if c = ''accounts'' then [enc_account_model demo_account]
     else if c = ''currencies'' then [[(''_id'', BId ''k1''), (''symbol'', BStr ''ETH'')]]
     else if c = ''chains'' then [[(''_id'', BId ''c1''), (''symbol'', BStr ''ETH'')]]
     else [])"

definition demo_portfolio_uc :: "mstore portfolio_uc" where
  "demo_portfolio_uc = uc_over_db mem_db (\<lambda>_ _ _ _ m. (Ok (Fin 1), m))"

lemma demo_portfolio_ok:
  "accounts_ok portfolio_demo" "store_ids_ok portfolio_demo" "accounts_priced portfolio_demo"
proof -
  show "accounts_ok portfolio_demo" by (auto simp: accounts_ok_def portfolio_demo_def account_doc_def)
  show "store_ids_ok portfolio_demo" by code_simp
  show "accounts_priced portfolio_demo"
    by (simp add: accounts_priced_def portfolio_demo_def dec_enc_account stored_account_def demo_account_def
        convertAccountDomainToModel_def nil_id_def)
qed

theorem use_case_is_service_witness:
  "agree (puc_GetWalletPortfolio demo_portfolio_uc rev ''w1'' (\<lambda>_. None, portfolio_demo))
     (svc_GetWalletPortfolio \<lparr>ps_db = mem_db, ps_balance = (\<lambda>_ _ _ _ m. (Ok (Fin 1), m))\<rparr> rev ''w1''
        (\<lambda>_. None, portfolio_demo))"
  by (rule use_case_is_service [OF _ mem_db_ok])
    (simp_all add: same_portfolio_db_def demo_portfolio_uc_def uc_over_db_def demo_portfolio_ok)

theorem wallet_portfolio_any_order_witness:
  "\<exists>ps c' w'. puc_GetWalletPortfolio demo_portfolio_uc rev ''w1'' (\<lambda>_. None, portfolio_demo)
        = (Ok (Some (NewWalletPortfolio ''w1'' ps)), c', w') \<and> w' = portfolio_demo
    \<and> mset ps = mset (List.map_filter (value_of (\<lambda>_ _. False) portfolio_demo)
        (wallet_accounts (\<lambda>_ _. False) portfolio_demo ''w1''))
    \<and> length (wallet_accounts (\<lambda>_ _. False) portfolio_demo ''w1'') = 1"
proof -
  have "length (wallet_accounts (\<lambda>_ _. False) portfolio_demo ''w1'') = 1" by code_simp
  then show ?thesis
    using wallet_portfolio_any_order [OF mem_db_ok, where w = portfolio_demo and sched = rev and c = "\<lambda>_. None"
        and i = "''w1''" and balance = "\<lambda>_ _ _ _ m. (Ok (Fin 1), m)", unfolded id_apply, OF demo_portfolio_ok(1,2)]
    by (simp add: demo_portfolio_uc_def)
qed

theorem new_balance_hidden_witness:
  "\<exists>p c1 w1 w2. puc_GetAccountPortfolio demo_portfolio_uc ''a1'' (\<lambda>_. None, portfolio_demo) = (Ok (Some p), c1, w1)
    \<and> tk_Balance (ap_Token p) = Fin 0 \<and> puc_GetBalance demo_portfolio_uc ''a1'' w1 = (Ok (Fin 1), w2)
    \<and> (\<exists>d \<in> set (w2 ''accounts''). map_of d ''_id'' = Some (BId ''a1'') \<and> map_of d ''balance'' = Some (BDbl (Fin 1)))
    \<and> fst (puc_GetAccountPortfolio demo_portfolio_uc ''a1'' (c1, w2)) = Ok (Some p)"
proof -
  let ?b = "\<lambda>_ _ _ _ m. (Ok (Fin 1), m)"
  obtain r c1 w1 where 1: "puc_GetAccountPortfolio demo_portfolio_uc ''a1'' (\<lambda>_. None, portfolio_demo) = (r, c1, w1)"
    by (metis surj_pair)
  have a: "find_doc (\<lambda>_ _. False) portfolio_demo ''accounts'' dec_account_model
      (FAll [FEq ''_id'' (BId ''a1''), not_deleted]) = Some (stored_account demo_account)"
    by (simp add: find_doc_def portfolio_demo_def dec_enc_account field_vals_def not_deleted_def enc_account_lookup
        demo_account_def convertAccountDomainToModel_def nil_id_def)
  have "find_doc (\<lambda>_ _. False) portfolio_demo ''currencies'' dec_currency_model (FEq ''_id'' (BId ''k1'')) \<noteq> None"
    by code_simp
  with a obtain p' where v: "account_value (\<lambda>_ _. False) portfolio_demo ''a1'' = Some p'" "tk_Balance (ap_Token p') = Fin 0"
    by (auto simp: account_value_def value_of_def NewAccountPortfolio_def NewTokenData_def stored_account_def
        demo_account_def convertAccountDomainToModel_def)
  obtain p where p: "r = Ok (Some p)" "tk_Balance (ap_Token p) = Fin 0" and "w1 = portfolio_demo"
    using use_case_value [OF mem_db_ok, of "\<lambda>_. None" "''a1''" ?b portfolio_demo] 1 v
    by (auto simp: demo_portfolio_uc_def)
  obtain q w2 where 2: "puc_GetBalance demo_portfolio_uc ''a1'' portfolio_demo = (q, w2)" by (metis surj_pair)
  have "fst (puc_GetBalance demo_portfolio_uc ''a1'' portfolio_demo) = Ok (Fin 1)" by code_simp
  with 2 have q: "q = Ok (Fin 1)" by simp
  have now: "fst (db_now mem_db w) = 1700000000000000000" for w by (simp add: mem_db_def)
  note h = new_balance_hidden [OF mem_db_ok, where ?w1.0 = portfolio_demo and balance = ?b, unfolded id_apply,
      OF demo_portfolio_ok(1,2) _ 1 [unfolded demo_portfolio_uc_def p(1) \<open>w1 = _\<close>] 2 [unfolded demo_portfolio_uc_def q]]
  from cached_answer [OF 1 [unfolded p(1)]]
  have t: "\<exists>e. c1 (account_key ''a1'') = Some e \<and> cp_timestamp e = 1700000000000000000"
    by (auto simp: demo_portfolio_uc_def uc_over_db_def now)
  from h t p q 1 2 \<open>w1 = _\<close> show ?thesis
    by (auto simp: now cache_ttl_def demo_portfolio_uc_def)
qed

end
