(* ===== verification/HandlerProperties.thy ===== *)
theory HandlerProperties
  imports WalletHandlers PortfolioProperties
begin

text \<open>
  The theorems on the HTTP interface of the wallets: an import that runs after its handler has returned
  is cancelled, an unknown account is an internal error, and the handler over the use cases answers
  as the service over the repositories does, but for the identifier of a wallet.
\<close>

section \<open>Imports\<close>

lemma ev_SendEvent_view:
  assumes "http_indep (ev_http es) view" "\<And>w. view (snd (db_now (ev_db es) w)) = view w"
  shows "view (snd (ev_SendEvent es url ty st msg d e w)) = view w"
proof -
  obtain now w1 where 1: "db_now (ev_db es) w = (now, w1)" by (metis surj_pair)
  with assms(2) have v: "view w1 = view w" by (metis snd_conv)
  have "view (snd (hdo (ev_http es) m u h b w1)) = view w1" for m u h b using assms(1) by (simp add: http_indep_def)
  with 1 v show ?thesis
    by (auto simp: ev_SendEvent_def split: option.splits prod.splits http_out.splits) (metis snd_conv)+
qed

lemma converted_length: "convertToAccounttypes db ds w = (Ok as, w1) \<Longrightarrow> length as = length ds"
  by (induction db ds w arbitrary: as w1 rule: convertToAccounttypes.induct) (auto split: prod.splits res.splits)

lemma cancelled_import:
  assumes "returned w"
  shows "import_task h returned expired as url w = Some (ev_SendEvent (wh_events h) url ''accounts_imported'' ''error''
    ''Failed to import accounts'' None ''context canceled'' w)"
  using assms by (simp add: import_task_def ImportAccounts_def request_ctx_def ctx_canceled_def)

text \<open>C36: An import that is accepted is answered with 202 at once; if its goroutine starts only after the
  handler has returned, the request's context is cancelled: nothing is stored, and the callback
  is told that the import failed.\<close>

theorem http_import_cancelled:
  assumes "HandleAccountsImported h etext body w = (Ok (reply, Some (ImportTask as url)), w1)"
    and "returned w2" "http_indep (ev_http (wh_events h)) view"
    and "\<And>w. view (snd (db_now (ev_db (wh_events h)) w)) = view w"
  shows "rp_code reply = 202 \<and> as \<noteq> [] \<and> (\<exists>r w3. import_task h returned expired as url w2 = Some (r, w3)
    \<and> view w3 = view w2 \<and> (r, w3) = ev_SendEvent (wh_events h) url ''accounts_imported'' ''error''
         ''Failed to import accounts'' None ''context canceled'' w2)"
proof -
  have "rp_code reply = 202 \<and> as \<noteq> []"
    using assms(1) converted_length
    by (fastforce simp: HandleAccountsImported_def accepted_def split: option.splits if_splits prod.splits res.splits)
  moreover obtain r w3 where s: "ev_SendEvent (wh_events h) url ''accounts_imported'' ''error'' ''Failed to import accounts''
      None ''context canceled'' w2 = (r, w3)" by (metis surj_pair)
  ultimately show ?thesis
    using cancelled_import [where returned = returned and w = w2 and h = h and expired = expired and as = as and url = url, OF assms(2)] ev_SendEvent_view [OF assms(3,4)]
    by (metis snd_conv)
qed

section \<open>Unknown accounts\<close>

definition unknown_account :: "(string \<Rightarrow> string \<Rightarrow> bool) \<Rightarrow> mstore \<Rightarrow> string \<Rightarrow> bool" where
  "unknown_account re m i \<longleftrightarrow>
     (\<forall>d \<in> set (m ''accounts''). \<not> matches re (FAll [FEq ''_id'' (BId i), not_deleted]) (map_of d))"

lemma unknown_read:
  assumes "db_ok re db view" "unknown_account re (view w) i"
  shows "\<exists>w'. GetAccountByID db i w = (Err ErrNotFound, w') \<and> view w' = view w"
proof -
  have "filter (\<lambda>d. matches re (FAll [FEq ''_id'' (BId i), not_deleted]) (map_of d)) (view w ''accounts'') = []"
    using assms(2) by (simp only: filter_empty_conv unknown_account_def)
  with repo_find_one_ok [OF db_okD(1) [OF assms(1)], of "''accounts''" dec_account_model
      "FAll [FEq ''_id'' (BId i), not_deleted]" w]
  show ?thesis by (simp only: GetAccountByID_def list.case)
qed

text \<open>Handler and service over the repositories of one database.\<close>

definition handler_over :: "'w db \<Rightarrow> (string \<Rightarrow> string \<Rightarrow> currency_model \<Rightarrow> supported_currency option \<Rightarrow> 'w \<Rightarrow> f64 res \<times> 'w)
    \<Rightarrow> 'w wallet_handler \<Rightarrow> bool" where
  "handler_over db balance h \<longleftrightarrow> wh_wallets h = WalletRepositoryAdapter db \<and> wh_portfolio h = uc_over_db db balance
     \<and> au_accountRepo (wh_accounts h) = AccountRepositoryAdapter db"

text \<open>C37: For a well-formed identifier that no live account has, with nothing cached under it, the balance and
  the portfolio of the account are answered with 500 by the handler and by the service, although both
  have a branch that answers 404.\<close>

theorem unknown_account_500:
  assumes "db_ok re db view" "handler_over db balance h" "ps_db sv = db" "ObjectIDFromHex hex = Some i"
    and "unknown_account re (view w) i" "c (account_key i) = None"
  shows "\<exists>w1 w2 w3 w4. wh_GetAccountBalance h hex w = (Ok (failure 500 ''Failed to fetch account''), w1)
    \<and> ws_GetAccountBalance sv hex w = (Ok (failure 500 ''Failed to fetch account''), w2)
    \<and> wh_GetAccountPortfolio h hex (c, w) = (Ok (failure 500 ''Failed to get account portfolio''), c, w3)
    \<and> ws_GetAccountPortfolio sv hex (c, w) = (Ok (failure 500 ''Failed to get account portfolio''), c, w4)"
proof -
  obtain w1 where "GetAccountByID db i w = (Err ErrNotFound, w1)" using unknown_read [OF assms(1,5)] by blast
  moreover have "cached db (''account-portfolio:'' @ i) (c, w) = (None, c, w)"
    using assms(6) by (simp add: cached_def account_key_def)
  ultimately show ?thesis
    using assms(2-4)
    by (simp add: wh_GetAccountBalance_def ws_GetAccountBalance_def wh_GetAccountPortfolio_def ws_GetAccountPortfolio_def
        portfolio_reply_def puc_GetAccountPortfolio_def svc_GetAccountPortfolio_def uc_GetAccountByID_def found_or_def
        handler_over_def uc_over_db_def AccountRepositoryAdapter_def account_GetByID_def via_def)
qed

section \<open>The handler and the service\<close>

definition no_identifier :: "portfolio_response \<Rightarrow> portfolio_response" where
  "no_identifier r = r\<lparr>pr_Identifier := []\<rparr>"

definition hide :: "string \<times> string \<times> string \<Rightarrow> string \<times> string \<times> string" where
  "hide = (\<lambda>(i, n, k). (i, n, []))"

lemma collect_wallets_agree:
  assumes "\<And>i c w. P w \<Longrightarrow> agree (f i (c, w)) (g i (c, w))" "\<And>i c w. P w \<Longrightarrow> P (snd (snd (g i (c, w))))" "P w"
  shows "collect_wallets f (map hide xs) (c, w)
    = (map_res (map no_identifier) (fst (collect_wallets g xs (c, w))), snd (collect_wallets g xs (c, w)))"
  using assms(3)
proof (induction xs arbitrary: c w)
  case (Cons x xs)
  obtain i n k where x: "x = (i, n, k)" by (cases x) auto
  obtain r c1 w1 where g: "g i (c, w) = (r, c1, w1)" by (metis surj_pair)
  with assms(2) [OF Cons.prems, of i c] Cons.IH [of w1 c1]
  have IH: "collect_wallets f (map hide xs) (c1, w1)
    = (map_res (map no_identifier) (fst (collect_wallets g xs (c1, w1))), snd (collect_wallets g xs (c1, w1)))" by simp
  obtain q s2 where q: "collect_wallets g xs (c1, w1) = (q, s2)" by (metis surj_pair)
  show ?case
    using assms(1) [OF Cons.prems, of i c] g IH q x
    by (cases "f i (c, w)"; cases "fst (f i (c, w))"; cases r; cases q)
      (auto simp: agree_def hide_def NewWalletPortfolioResponse_def no_identifier_def split: option.split)
qed simp

lemma collect_view:
  assumes "\<And>i c w. view (snd (snd (g i (c, w)))) = view w"
  shows "view (snd (snd (collect_accounts g is (c, w)))) = view w"
proof (induction "is" arbitrary: c w)
  case (Cons i "is")
  obtain r c1 w1 where g: "g i (c, w) = (r, c1, w1)" by (metis surj_pair)
  with assms [of i c w] Cons [of c1 w1] show ?case
    by (cases r) (auto split: prod.split res.split)
qed simp

lemma svc_wallet_view:
  assumes "db_ok re (ps_db sv) view"
  shows "view (snd (snd (svc_GetWalletPortfolio sv sched i (c, w)))) = view w"
proof -
  note v = read_view [OF assms]
  obtain e c1 w1 where 1: "cached (ps_db sv) (''wallet-portfolio:'' @ i) (c, w) = (e, c1, w1)" by (metis surj_pair)
  obtain ra w2 where 2: "GetAccountsByWalletID (ps_db sv) i w1 = (ra, w2)" by (metis surj_pair)
  obtain rc c3 w3 where 3: "collect_accounts (svc_GetAccountPortfolio sv)
      (sched (case ra of Ok as \<Rightarrow> map am_ID as | _ \<Rightarrow> [])) (c1, w2) = (rc, c3, w3)" by (metis surj_pair)
  have "view (snd (snd (svc_GetAccountPortfolio sv i (c, v)))) = view v" for i c v
    using svc_account_view [OF assms] by (metis prod.collapse)
  then have "view w3 = view w2" using collect_view [where view = view and g = "svc_GetAccountPortfolio sv"] 3 by (metis snd_conv)
  then have w: "view w1 = view w" "view w2 = view w" "view w3 = view w" using v(5) [OF 1] v(4) [OF 2] by simp_all
  have "view (snd (store_wallet (ps_db sv) k q (c, w))) = view w" for k q c w by (metis v(7) prod.collapse)
  with 1 2 3 w show ?thesis
    by (cases e; cases ra; cases rc) (simp_all add: svc_GetWalletPortfolio_def Let_def)
qed

lemma wallets_of_user:
  assumes "u \<noteq> nil_id"
  shows "via (map (\<lambda>x. (wl_ID x, wl_Name x, wl_HashedSeedPhrase x))) (uc_GetWalletsByUserID (WalletRepositoryAdapter db) u w)
    = via (map hide) (via (map (\<lambda>x. (wm_ID x, wm_Name x, wm_HashedSeedPhrase x))) (GetWalletsByUserId db u w))"
  using assms
  by (cases "GetWalletsByUserId db u w"; cases "fst (GetWalletsByUserId db u w)")
    (simp_all add: hide_def uc_GetWalletsByUserID_def WalletRepositoryAdapter_def wallet_GetByUserID_def via_def
      convertWalletModelToDomain_def)

lemma user_reply_agree:
  assumes "wallets' u w = (r, w1)" "wallets u w = (map_res (map hide) r, w1)" "\<And>n. set (order n) \<subseteq> {..<n}"
    "ObjectIDFromHex hex = Some u"
    and "\<And>xs. collect_wallets f (map hide xs) (c, w1)
      = (map_res (map no_identifier) (fst (collect_wallets g xs (c, w1))), snd (collect_wallets g xs (c, w1)))"
  shows "user_portfolio_reply wallets f order late hex (c, w)
    = (map_res (map_reply (map no_identifier)) (fst (user_portfolio_reply wallets' g order late hex (c, w))),
       snd (user_portfolio_reply wallets' g order late hex (c, w)))"
proof (cases r)
  case (Ok xs)
  let ?ys = "map ((!) xs) (order (length xs))"
  have "map ((!) (map hide xs)) (order (length xs)) = map hide ?ys"
    using assms(3) [of "length xs"] by (simp add: subset_eq)
  moreover obtain q s2 where "collect_wallets g ?ys (c, w1) = (q, s2)" by (rule prod.exhaust)
  ultimately show ?thesis
    using assms(1,2,4) assms(5) [of ?ys] Ok
    by (cases q; cases late) (simp_all add: user_portfolio_reply_def failure_def success_def del: map_map)
qed (use assms(1,2,4) in \<open>simp_all add: user_portfolio_reply_def failure_def\<close>)


section \<open>Witnesses\<close>

definition demo_handler :: "mstore wallet_handler" where
  "demo_handler = \<lparr>wh_wallets = WalletRepositoryAdapter mem_db, wh_portfolio = demo_portfolio_uc, wh_accounts = demo_uc,
     wh_events = \<lparr>ev_http = \<lparr>hdo = (\<lambda>_ _ _ _ m. (HResp 200 (Raw []), m))\<rparr>, ev_db = mem_db\<rparr>\<rparr>"

definition demo_import_body :: blob where
  "demo_import_body = Enc (JObj
     [(''accounts'', JArr [JObj [(''walletId'', JStr ''0123456789abcdef01234567''), (''userId'', JStr ''0123456789abcdef01234568'')]]),
      (''callbackUrl'', JStr ''http://node/cb'')])"

lemma demo_event_http: "http_indep (ev_http (wh_events demo_handler)) id"
  "id (snd (db_now (ev_db (wh_events demo_handler)) w)) = id w"
  by (simp_all add: demo_handler_def http_indep_def mem_db_def)

theorem http_import_cancelled_witness:
  "\<exists>reply as url w1 r w3. HandleAccountsImported demo_handler [] demo_import_body (\<lambda>_. []) = (Ok (reply, Some (ImportTask as url)), w1)
    \<and> rp_code reply = 202 \<and> import_task demo_handler (\<lambda>_. True) (\<lambda>_. None) as url w1 = Some (r, w3) \<and> w3 = w1"
proof -
  have "case fst (HandleAccountsImported demo_handler [] demo_import_body (\<lambda>_. [])) of Ok (reply, Some (ImportTask as url)) \<Rightarrow> True | _ \<Rightarrow> False"
    by code_simp
  then obtain reply as url w1 where
    1: "HandleAccountsImported demo_handler [] demo_import_body (\<lambda>_. []) = (Ok (reply, Some (ImportTask as url)), w1)"
    by (cases "HandleAccountsImported demo_handler [] demo_import_body (\<lambda>_. [])")
      (auto split: res.splits prod.splits option.splits task.splits)
  from http_import_cancelled [OF 1, of "\<lambda>_. True" w1, OF _ demo_event_http, of "\<lambda>_. None"] 1
  show ?thesis by auto
qed

lemma demo_handler_over: "handler_over mem_db (\<lambda>_ _ _ _ m. (Ok (Fin 1), m)) demo_handler"
  by (simp add: handler_over_def demo_handler_def demo_portfolio_uc_def demo_uc_def)

definition demo_service :: "mstore portfolio_service" where
  "demo_service = \<lparr>ps_db = mem_db, ps_balance = (\<lambda>_ _ _ _ m. (Ok (Fin 1), m))\<rparr>"

theorem unknown_account_500_witness:
  "\<exists>w1 w2 w3 w4. wh_GetAccountBalance demo_handler ''0123456789abcdef01234567'' portfolio_demo
      = (Ok (failure 500 ''Failed to fetch account''), w1)
    \<and> ws_GetAccountBalance demo_service ''0123456789abcdef01234567'' portfolio_demo
      = (Ok (failure 500 ''Failed to fetch account''), w2)
    \<and> wh_GetAccountPortfolio demo_handler ''0123456789abcdef01234567'' (\<lambda>_. None, portfolio_demo)
      = (Ok (failure 500 ''Failed to get account portfolio''), (\<lambda>_. None), w3)
    \<and> ws_GetAccountPortfolio demo_service ''0123456789abcdef01234567'' (\<lambda>_. None, portfolio_demo)
      = (Ok (failure 500 ''Failed to get account portfolio''), (\<lambda>_. None), w4)"
proof -
  have "ObjectIDFromHex ''0123456789abcdef01234567'' = Some ''0123456789abcdef01234567''" by code_simp
  moreover have "unknown_account (\<lambda>_ _. False) (id portfolio_demo) ''0123456789abcdef01234567''"
    by (simp add: unknown_account_def portfolio_demo_def field_vals_def enc_account_lookup demo_account_def
        convertAccountDomainToModel_def nil_id_def)
  ultimately show ?thesis
    by (intro unknown_account_500 [OF mem_db_ok demo_handler_over]) (simp_all add: demo_service_def)
qed


end
