(* ===== verification/QueueHandlers.thy ===== *)
theory QueueHandlers
  imports QueueManager HttpServer
begin

text \<open>
  The HTTP interface of the queues, \<open>interfaces/http/handlers/queue_handler.go\<close>, over the queue service,
  and what becomes of the delay of a job that is scheduled through it.
\<close>

datatype queue_reply =
    QError int string
  | QJobID string
  | QStatus "(string \<times> int) list"
  | QDone

record add_request =
  qr_QueueName :: string
  qr_Data :: "(string \<times> gval) list"
  qr_Options :: gomap

record schedule_request =
  qs_QueueName :: string
  qs_Data :: "(string \<times> gval) list"
  qs_DelaySeconds :: int

record options_request =
  qo_QueueName :: string
  qo_Data :: "(string \<times> gval) list"
  qo_Options :: "(string \<times> gval) list"

definition dec_add_request :: "json \<Rightarrow> add_request option" where
  "dec_add_request j = (if \<not> jstruct j then None else do {
     q \<leftarrow> jstr j ''queueName''; d \<leftarrow> jmap j ''data''; opts \<leftarrow> jmap j ''options'';
     _ \<leftarrow> required (q \<noteq> []); data \<leftarrow> d;
     Some \<lparr>qr_QueueName = q, qr_Data = data, qr_Options = opts\<rparr> })"

definition dec_schedule_request :: "json \<Rightarrow> schedule_request option" where
  "dec_schedule_request j = (if \<not> jstruct j then None else do {
     q \<leftarrow> jstr j ''queueName''; d \<leftarrow> jmap j ''data''; delay \<leftarrow> ji64 j ''delaySeconds'';
     _ \<leftarrow> required (q \<noteq> []); data \<leftarrow> d; _ \<leftarrow> required (delay \<noteq> 0);
     Some \<lparr>qs_QueueName = q, qs_Data = data, qs_DelaySeconds = delay\<rparr> })"

definition dec_options_request :: "json \<Rightarrow> options_request option" where
  "dec_options_request j = (if \<not> jstruct j then None else do {
     q \<leftarrow> jstr j ''queueName''; d \<leftarrow> jmap j ''data''; opts \<leftarrow> jmap j ''options'';
     _ \<leftarrow> required (q \<noteq> []); data \<leftarrow> d; options \<leftarrow> opts;
     Some \<lparr>qo_QueueName = q, qo_Data = data, qo_Options = options\<rparr> })"

definition queue_answer :: "string \<Rightarrow> ('a \<Rightarrow> queue_reply) \<Rightarrow> 'a res \<times> 'w \<Rightarrow> queue_reply res \<times> 'w" where
  "queue_answer what f r =
     (case r of
        (Ok a, w) \<Rightarrow> (Ok (f a), w)
      | (Err e, w) \<Rightarrow> (Ok (QError 500 (''Failed to '' @ what @ '': '' @ err_text e)), w)
      | (Panic p, w) \<Rightarrow> (Panic p, w))"

text \<open>The text of an error of binding is an argument.\<close>

definition qh_AddJob :: "'w queue_env \<Rightarrow> string \<Rightarrow> blob \<Rightarrow> 'w \<Rightarrow> queue_reply res \<times> 'w" where
  "qh_AddJob env etext body w =
     (case bind_json dec_add_request body of
        None \<Rightarrow> (Ok (QError 400 (''Invalid request: '' @ etext)), w)
      | Some r \<Rightarrow> queue_answer ''add job'' QJobID
          (service_AddJob env (qr_QueueName r) (Some (qr_Data r)) (qr_Options r) w))"

definition qh_ScheduleJob :: "'w queue_env \<Rightarrow> string \<Rightarrow> blob \<Rightarrow> 'w \<Rightarrow> queue_reply res \<times> 'w" where
  "qh_ScheduleJob env etext body w =
     (case bind_json dec_schedule_request body of
        None \<Rightarrow> (Ok (QError 400 (''Invalid request: '' @ etext)), w)
      | Some r \<Rightarrow> queue_answer ''schedule job'' QJobID
          (ScheduleJobFlexible env (qs_QueueName r) (Some (qs_Data r)) (VInt (qs_DelaySeconds r)) w))"

definition qh_ScheduleJobWithOptions :: "'w queue_env \<Rightarrow> string \<Rightarrow> blob \<Rightarrow> 'w \<Rightarrow> queue_reply res \<times> 'w" where
  "qh_ScheduleJobWithOptions env etext body w =
     (case bind_json dec_options_request body of
        None \<Rightarrow> (Ok (QError 400 (''Invalid request: '' @ etext)), w)
      | Some r \<Rightarrow> queue_answer ''schedule job'' QJobID
          (AddJob env (qo_QueueName r) (Some (qo_Data r)) (Some (qo_Options r)) w))"

definition qh_GetQueueStatus :: "'w queue_env \<Rightarrow> string \<Rightarrow> 'w \<Rightarrow> queue_reply res \<times> 'w" where
  "qh_GetQueueStatus env queueName w =
     (if queueName = [] then (Ok (QError 400 ''Queue name is required''), w)
      else queue_answer ''get queue status'' QStatus (GetQueueStatus env queueName w))"

definition qh_ClearQueue :: "'w queue_env \<Rightarrow> string \<Rightarrow> 'w \<Rightarrow> queue_reply res \<times> 'w" where
  "qh_ClearQueue env queueName w =
     (if queueName = [] then (Ok (QError 400 ''Queue name is required''), w)
      else queue_answer ''clear queue'' (\<lambda>_. QDone) (ClearQueue env queueName w))"

text \<open>C39: A request to schedule a job with a delay of zero seconds is refused; with any other delay the job is
  put at the end of the wait list at once, and the list of delayed jobs stays as it is.\<close>

theorem http_schedule_at_once:
  assumes "queue_env_ok env view" "queue_ok (view w) q"
    and "jstruct j" "jstr j ''queueName'' = Some q" "q \<noteq> []" "jmap j ''data'' = Some (Some d)"
    and "ji64 j ''delaySeconds'' = Some delay" "map_json (Some d) \<noteq> None"
  shows "if delay = 0 then qh_ScheduleJob env etext (Enc j) w = (Ok (QError 400 (''Invalid request: '' @ etext)), w)
    else \<exists>jobID w'. qh_ScheduleJob env etext (Enc j) w = (Ok (QJobID jobID), w')
      \<and> abs_queue (view w') q = aq_add (Raw jobID) (abs_queue (view w) q)"
proof (cases "delay = 0")
  case True
  with assms(3-7) show ?thesis
    by (simp add: qh_ScheduleJob_def bind_json_def dec_schedule_request_def required_def)
next
  case False
  let ?o = "Some [(''delay'', VInt (sint (of_int (delay * 1000) :: u64)))]"
  obtain n w1 where n: "qe_clock env w = (n, w1)" by (metis surj_pair)
  have v: "view w1 = view w" by (rule env_clock(1) [OF assms(1) n])
  have "omit_map ''opts'' ?o \<noteq> None" "show_int 10 n \<notin> set queue_lists" by (simp_all add: omit_map_def map_json_def)
  from enqueue_job_ok [OF assms(1) _ this(2) assms(8) this(1), of w1 q] assms(2) v obtain w' t j' where
    e: "enqueue_job env q (Some d) ?o (show_int 10 n) w1 = (Ok (show_int 10 n), w')"
    "view w' = (view w)(getBullKey q ''wait'' \<mapsto> (LV (list_at (view w) (getBullKey q ''wait'') @ [Raw (show_int 10 n)]), t),
       getBullKey q (show_int 10 n) \<mapsto> (SV (Enc j'), 0))" by metis
  have "AddJob env q (Some d) ?o w = (Ok (show_int 10 n), w')"
    using e(1) n AddJob_regular [of ?o env q "Some d" w] by (simp add: no_repeat_def)
  moreover have "abs_queue (view w') q = aq_add (Raw (show_int 10 n)) (abs_queue (view w) q)"
    by (simp add: abs_queue_def aq_add_def e(2))
  ultimately obtain jobID where
    "AddJob env q (Some d) ?o w = (Ok jobID, w')" "abs_queue (view w') q = aq_add (Raw jobID) (abs_queue (view w) q)"
    by blast
  with assms(3-7) False show ?thesis
    by (simp add: qh_ScheduleJob_def bind_json_def dec_schedule_request_def required_def ScheduleJobFlexible_def
        queue_answer_def)
qed

theorem http_schedule_at_once_witness:
  "\<exists>jobID w'. qh_ScheduleJob demo_env [] (Enc (JObj [(''queueName'', JStr ''Q''), (''data'', JObj []), (''delaySeconds'', JNum 3600)])) Map.empty
      = (Ok (QJobID jobID), w') \<and> abs_queue w' ''Q'' = aq_add (Raw jobID) (abs_queue Map.empty ''Q'')"
proof -
  let ?j = "JObj [(''queueName'', JStr ''Q''), (''data'', JObj []), (''delaySeconds'', JNum 3600)]"
  have "jstruct ?j" "jstr ?j ''queueName'' = Some ''Q''" "jmap ?j ''data'' = Some (Some [])"
    by (simp_all add: jstruct_def jstr_def jmap_def jmember_def json_lookup_def json_map_def)
  moreover have "ji64 ?j ''delaySeconds'' = Some 3600" by code_simp
  moreover have "map_json (Some []) \<noteq> None" by (simp add: map_json_def)
  ultimately show ?thesis
    using http_schedule_at_once [OF demo_env_ok, of Map.empty "''Q''" ?j "[]" 3600]
    by (simp add: empty_queue_ok)
qed

end
