(* ===== verification/Providers.thy ===== *)
theory Providers
  imports Repositories
begin

text \<open>
  The providers of the chains: their interface (\<open>ChainProvider\<close> of \<open>providers/blockchain/bitcoin/provider.go\<close>) as a
  record of operations, the factory that creates one for a currency and a chain
  (\<open>providers/blockchain/factory.go\<close>), and the service in front of it
  (\<open>src/services/blockchain_service.go\<close>) with its mock provider. Constructors of providers are an
  argument of the factory. The maps of the providers created are the state beside the world.
\<close>

section \<open>The interface\<close>

record token_details =
  td_Name :: string
  td_Symbol :: string
  td_Decimals :: int
  td_TotalSupply :: string
  td_TokenAddress :: string
  td_IconURL :: string
  td_Website :: string
  td_ChainID :: string

record tx_params =
  tp_FromAddress :: string
  tp_ToAddress :: string
  tp_Amount :: f64
  tp_TokenAddress :: string
  tp_GasPrice :: f64
  tp_GasLimit :: u64
  tp_UseTreasury :: bool

record deposit_address =
  da_Address :: string
  da_PrivateKey :: string
  da_DerivationPath :: string

record chain_info =
  ci_Height :: u64
  ci_Hash :: string
  ci_Time :: int
  ci_Chain :: string

record block_details =
  bd_Hash :: string
  bd_Height :: u64
  bd_Time :: int
  bd_PreviousBlockHash :: string
  bd_Transactions :: "string list"

text \<open>
  The values of a context. A key is an \<open>interface\{\}\<close>, so keys are equal only if their types are: the
  constants of \<open>config/constants/keys.go\<close> have the type \<open>ContextKey\<close>, a string literal is another key.
\<close>

datatype ctx_key = ContextKey string | PlainKey string

type_synonym ctx = "ctx_key \<rightharpoonup> gval"

definition TokenAddressKey :: ctx_key where "TokenAddressKey = ContextKey ''tokenAddress''"

definition DecimalsKey :: ctx_key where "DecimalsKey = ContextKey ''decimals''"

text \<open>A string of the context, empty if it is absent or of another type; a positive number, or zero.\<close>

definition ctx_string :: "ctx_key \<Rightarrow> ctx \<Rightarrow> string" where
  "ctx_string k c = (case c k of Some (VStr s) \<Rightarrow> s | _ \<Rightarrow> [])"

definition ctx_positive :: "ctx_key \<Rightarrow> ctx \<Rightarrow> int" where
  "ctx_positive k c = (case c k of Some (VInt d) \<Rightarrow> if d > 0 then d else 0 | _ \<Rightarrow> 0)"

datatype provider_type = BTCProvider | EVMProvider | SOLANAProvider | TRONProvider | CHANGENOWProvider | MockProvider

text \<open>Watching an address and the two operations of a block monitor yield no value.\<close>

record 'w chain_provider =
  pv_type :: provider_type
  pv_GetBalance :: "ctx \<Rightarrow> string \<Rightarrow> currency_model \<Rightarrow> 'w \<Rightarrow> f64 res \<times> 'w"
  pv_ValidateAddress :: "string \<Rightarrow> bool"
  pv_GetTokenDetails :: "string \<Rightarrow> 'w \<Rightarrow> token_details res \<times> 'w"
  pv_WatchAddress :: "string \<Rightarrow> 'w \<Rightarrow> 'w"
  pv_CreateTransaction :: "tx_params \<Rightarrow> 'w \<Rightarrow> string res \<times> 'w"
  pv_CreateDepositAddress :: "'w \<Rightarrow> deposit_address res \<times> 'w"
  pv_StartBlockMonitor :: "'w \<Rightarrow> unit res \<times> 'w"
  pv_StopBlockMonitor :: "'w \<Rightarrow> unit res \<times> 'w"
  pv_GetChainInfo :: "'w \<Rightarrow> chain_info res \<times> 'w"
  pv_GetBlockDetails :: "string \<Rightarrow> 'w \<Rightarrow> block_details res \<times> 'w"
  pv_GetTreasuryAddress :: "string res"

section \<open>The factory\<close>

record 'w provider_factory =
  fa_bitcoin :: "'w \<Rightarrow> 'w chain_provider res \<times> 'w"
  fa_evm :: "string \<Rightarrow> 'w \<Rightarrow> 'w chain_provider res \<times> 'w"
  fa_solana :: "'w \<Rightarrow> 'w chain_provider res \<times> 'w"
  fa_tron :: "'w \<Rightarrow> 'w chain_provider res \<times> 'w"
  fa_changenow :: "'w \<Rightarrow> 'w chain_provider res \<times> 'w"

type_synonym 'w provider_map = "string \<rightharpoonup> 'w chain_provider"

text \<open>Which provider a chain has: first by its symbol or network, in the order of the cases.\<close>

definition evm_symbols :: "string list" where
  "evm_symbols = [''eth'', ''bsc'', ''matic'', ''arb'', ''op'', ''avax'', ''ftm'', ''base'', ''gnosis'']"

definition select_provider :: "chain_model \<Rightarrow> provider_type option" where
  "select_provider chain =
     (let chainSymbol = to_lower (ch_Symbol chain); net = ch_NetworkType chain in
      if chainSymbol = ''btc'' \<or> net = ''BITCOIN'' then Some BTCProvider
      else if chainSymbol \<in> set evm_symbols \<or> net = ''EVM'' then Some EVMProvider
      else if chainSymbol = ''sol'' \<or> net = ''SOLANA'' then Some SOLANAProvider
      else if chainSymbol = ''trx'' \<or> net = ''TRON'' then Some TRONProvider
      else if chainSymbol = ''changenow'' \<or> net = ''CHANGENOW'' then Some CHANGENOWProvider
      else None)"

definition new_provider :: "'w provider_factory \<Rightarrow> provider_type \<Rightarrow> string \<Rightarrow> 'w \<Rightarrow> 'w chain_provider res \<times> 'w" where
  "new_provider fa t symbol w =
     (case t of
        BTCProvider \<Rightarrow> fa_bitcoin fa w
      | EVMProvider \<Rightarrow> fa_evm fa symbol w
      | SOLANAProvider \<Rightarrow> fa_solana fa w
      | TRONProvider \<Rightarrow> fa_tron fa w
      | CHANGENOWProvider \<Rightarrow> fa_changenow fa w
      | MockProvider \<Rightarrow> (Err (EMsg ''unsupported''), w))"

definition provider_key :: "string \<Rightarrow> string \<Rightarrow> string" where
  "provider_key currencySymbol chainSymbol = currencySymbol @ ''_'' @ chainSymbol"

text \<open>A network type that no case names is an error of its own; the inner switch on the network type repeats the
  outer cases and is never taken otherwise.\<close>

definition GetProviderForCurrency ::
  "'w provider_factory \<Rightarrow> currency_model \<Rightarrow> chain_model \<Rightarrow> 'w provider_map \<times> 'w
     \<Rightarrow> 'w chain_provider res \<times> 'w provider_map \<times> 'w" where
  "GetProviderForCurrency fa currency chain s =
     (let providerKey = provider_key (cu_Symbol currency) (ch_Symbol chain) in
      case fst s providerKey of
        Some p \<Rightarrow> (Ok p, s)
      | None \<Rightarrow>
          (case select_provider chain of
             None \<Rightarrow>
               (if ch_NetworkType chain \<noteq> []
                then (Err (EMsg (''unsupported chain network type: '' @ ch_NetworkType chain)), s)
                else (Err (EMsg (''unsupported chain symbol: '' @ ch_Symbol chain)), s))
           | Some t \<Rightarrow>
               (case new_provider fa t (ch_Symbol chain) (snd s) of
                  (Ok p, w) \<Rightarrow> (Ok p, (fst s)(providerKey \<mapsto> p), w)
                | (Err e, w) \<Rightarrow> (Err (EWrap (''failed to create provider for '' @ providerKey @ '': '') e), fst s, w)
                | (Panic x, w) \<Rightarrow> (Panic x, fst s, w))))"

text \<open>The model objects made of symbols have no other fields.\<close>

definition symbol_network :: "string \<Rightarrow> string option" where
  "symbol_network chainSymbol =
     (if chainSymbol = ''BTC'' then Some ''BITCOIN''
      else if chainSymbol = ''ETH'' \<or> chainSymbol = ''BSC'' \<or> chainSymbol = ''MATIC'' \<or> chainSymbol = ''ARBITRUM'' then Some ''EVM''
      else if chainSymbol = ''SOL'' then Some ''SOLANA''
      else if chainSymbol = ''TRX'' then Some ''TRON''
      else if chainSymbol = ''CHANGENOW'' then Some ''CHANGENOW''
      else None)"

definition bare_currency :: "string \<Rightarrow> currency_model" where
  "bare_currency symbol = \<lparr>cu_ID = nil_id, cu_Name = [], cu_Symbol = symbol, cu_IsCrypto = False, cu_Logo = [],
     cu_Website = [], cu_Explorer = [], cu_Description = [], cu_CreatedAt = zero_time, cu_UpdatedAt = zero_time\<rparr>"

definition bare_chain :: "string \<Rightarrow> string \<Rightarrow> chain_model" where
  "bare_chain symbol net = \<lparr>ch_ID = nil_id, ch_Name = [], ch_Symbol = symbol, ch_ChainID = None, ch_NetworkType = net,
     ch_RpcURL = [], ch_ExplorerURL = [], ch_IconURL = [], ch_Status = [], ch_CreatedAt = zero_time, ch_UpdatedAt = zero_time\<rparr>"

definition GetProviderForSymbols ::
  "'w provider_factory \<Rightarrow> string \<Rightarrow> string \<Rightarrow> 'w provider_map \<times> 'w \<Rightarrow> 'w chain_provider res \<times> 'w provider_map \<times> 'w" where
  "GetProviderForSymbols fa currencySymbol chainSymbol s =
     (case symbol_network chainSymbol of
        None \<Rightarrow> (Err (EMsg (''unsupported chain symbol: '' @ chainSymbol)), s)
      | Some chainType \<Rightarrow> GetProviderForCurrency fa (bare_currency currencySymbol) (bare_chain chainSymbol chainType) s)"

text \<open>An entry of another type under the key of ChangeNow is replaced.\<close>

definition GetChangeNowProvider ::
  "'w provider_factory \<Rightarrow> 'w provider_map \<times> 'w \<Rightarrow> 'w chain_provider res \<times> 'w provider_map \<times> 'w" where
  "GetChangeNowProvider fa s =
     (let create = (case fa_changenow fa (snd s) of
          (Err e, w) \<Rightarrow> (Err (EWrap ''failed to create ChangeNow provider: '' e), fst s, w)
        | (Panic x, w) \<Rightarrow> (Panic x, fst s, w)
        | (Ok p, w) \<Rightarrow>
            (if pv_type p = CHANGENOWProvider then Ok p else Err (EMsg ''failed to cast to ChangeNow provider''),
             (fst s)(''changenow_provider'' \<mapsto> p), w))
      in case fst s ''changenow_provider'' of
           Some p \<Rightarrow> (if pv_type p = CHANGENOWProvider then (Ok p, s) else create)
         | None \<Rightarrow> create)"

section \<open>The service\<close>

definition with_token :: "supported_currency option \<Rightarrow> ctx \<Rightarrow> ctx" where
  "with_token sc ctx =
     (case sc of
        None \<Rightarrow> ctx
      | Some c \<Rightarrow>
          let ctx1 = (if sc_TokenAddress c \<noteq> [] then ctx(TokenAddressKey \<mapsto> VStr (sc_TokenAddress c)) else ctx)
          in if sc_Decimals c > 0 then ctx1(DecimalsKey \<mapsto> VInt (sc_Decimals c)) else ctx1)"

definition provider_balance ::
  "'w chain_provider \<Rightarrow> ctx \<Rightarrow> string \<Rightarrow> currency_model \<Rightarrow> supported_currency option \<Rightarrow> 'w \<Rightarrow> f64 res \<times> 'w" where
  "provider_balance p ctx address currency sc w =
     (case pv_GetBalance p (with_token sc ctx) address currency w of
        (Err e, w1) \<Rightarrow> (Err (EWrap ''failed to fetch balance: '' e), w1)
      | r \<Rightarrow> r)"

definition FetchAccountBalance ::
  "'w provider_factory \<Rightarrow> ctx \<Rightarrow> string \<Rightarrow> currency_model \<Rightarrow> chain_model \<Rightarrow> supported_currency option
     \<Rightarrow> 'w provider_map \<times> 'w \<Rightarrow> f64 res \<times> 'w provider_map \<times> 'w" where
  "FetchAccountBalance fa ctx walletAddress currency chain supportedCurrency s =
     (case GetProviderForCurrency fa currency chain s of
        (Err e, s1) \<Rightarrow> (Err (EWrap ''failed to get provider: '' e), s1)
      | (Panic x, s1) \<Rightarrow> (Panic x, s1)
      | (Ok p, m, w) \<Rightarrow> (case provider_balance p ctx walletAddress currency supportedCurrency w of (r, w1) \<Rightarrow> (r, m, w1)))"

definition FetchBalanceByIDs :: "f64 res" where
  "FetchBalanceByIDs = Err (EMsg ''not implemented'')"

definition svc_ValidateAddress ::
  "'w provider_factory \<Rightarrow> string \<Rightarrow> string \<Rightarrow> 'w provider_map \<times> 'w \<Rightarrow> bool res \<times> 'w provider_map \<times> 'w" where
  "svc_ValidateAddress fa address chainSymbol s =
     (case GetProviderForSymbols fa [] chainSymbol s of
        (Err e, s1) \<Rightarrow> (Err e, s1)
      | (Panic x, s1) \<Rightarrow> (Panic x, s1)
      | (Ok p, s1) \<Rightarrow> (Ok (pv_ValidateAddress p address), s1))"

definition svc_GetBalance ::
  "'w provider_factory \<Rightarrow> ctx \<Rightarrow> string \<Rightarrow> string \<Rightarrow> currency_model \<Rightarrow> supported_currency option
     \<Rightarrow> 'w provider_map \<times> 'w \<Rightarrow> f64 res \<times> 'w provider_map \<times> 'w" where
  "svc_GetBalance fa ctx chainSymbol address currency supportedCurrency s =
     (case GetProviderForSymbols fa (cu_Symbol currency) chainSymbol s of
        (Err e, s1) \<Rightarrow> (Err (EWrap ''failed to get provider: '' e), s1)
      | (Panic x, s1) \<Rightarrow> (Panic x, s1)
      | (Ok p, m, w) \<Rightarrow>
          if \<not> pv_ValidateAddress p address then (Err (EMsg (''invalid wallet address: '' @ address)), m, w)
          else (case provider_balance p ctx address currency supportedCurrency w of (r, w1) \<Rightarrow> (r, m, w1)))"

subsection \<open>The mock provider\<close>

definition mock_evm :: "string list" where
  "mock_evm = [''ETH'', ''BSC'', ''MATIC'', ''AVAX'', ''ARB'', ''OP'']"

definition mock_GetBalance :: "string \<Rightarrow> ctx \<Rightarrow> f64" where
  "mock_GetBalance chainSymbol ctx =
     (if ctx_string TokenAddressKey ctx \<noteq> []
      then if chainSymbol = ''ETH'' then Fin 100
           else if chainSymbol = ''SOL'' then Fin (1003 / 4)
           else if chainSymbol = ''TRX'' then Fin 500 else Fin 50
      else if chainSymbol = ''BTC'' then f64_of_rat (1 / 10)
           else if chainSymbol = ''ETH'' then Fin (1 / 2)
           else if chainSymbol = ''SOL'' then Fin (21 / 2)
           else if chainSymbol = ''TRX'' then Fin 1000 else Fin 1)"

definition mock_ValidateAddress :: "string \<Rightarrow> string \<Rightarrow> bool" where
  "mock_ValidateAddress chainSymbol address =
     (if chainSymbol = ''BTC'' then length address > 26 \<and> length address < 35
      else if chainSymbol \<in> set mock_evm then length address = 42 \<and> take 2 address = ''0x''
      else if chainSymbol = ''SOL'' then length address \<ge> 32 \<and> length address \<le> 44
      else if chainSymbol = ''TRX'' then length address = 34 \<and> hd address = CHR ''T''
      else True)"

definition mock_GetTokenDetails :: "string \<Rightarrow> string \<Rightarrow> token_details res" where
  "mock_GetTokenDetails chainSymbol tokenAddress =
     (if chainSymbol = ''BTC'' then Err (EMsg ''tokens not supported on Bitcoin'')
      else if length chainSymbol < 2 then Panic ''slice bounds out of range''
      else Ok \<lparr>td_Name = ''Sample '' @ chainSymbol @ '' Token'', td_Symbol = take 2 chainSymbol @ ''TKN'', td_Decimals = 18,
             td_TotalSupply = ''1000000000000000000000000'', td_TokenAddress = tokenAddress, td_IconURL = [],
             td_Website = [], td_ChainID = chainSymbol\<rparr>)"

definition mock_address :: "string \<Rightarrow> string option" where
  "mock_address chainSymbol =
     (if chainSymbol = ''BTC'' then Some ''bc1qxy2kgdygjrsqtzq2n0yrf2493p83kkfjhx0wlh''
      else if chainSymbol \<in> set mock_evm then Some ''0x742d35Cc6634C0532925a3b844Bc454e4438f44e''
      else if chainSymbol = ''SOL'' then Some ''DYw8jCTfwHNRJhhmFcbXvVDTqWMEVFBX6ZKUmG5CNSKK''
      else if chainSymbol = ''TRX'' then Some ''TMuA6YqfCeX8EhbfYEg5y7S4DqzSJireY9''
      else None)"

definition mock_CreateDepositAddress :: "string \<Rightarrow> deposit_address" where
  "mock_CreateDepositAddress chainSymbol =
     \<lparr>da_Address = (case mock_address chainSymbol of Some a \<Rightarrow> a | None \<Rightarrow> ''generic_address_'' @ chainSymbol),
      da_PrivateKey = ''encrypted_private_key_mock'',
      da_DerivationPath =
        (if chainSymbol \<in> set mock_evm then ''m/44'' @ [CHR 0x27] @ ''/60'' @ [CHR 0x27] @ ''/0'' @ [CHR 0x27] @ ''/0/0''
         else if chainSymbol = ''SOL'' then ''m/44'' @ [CHR 0x27] @ ''/501'' @ [CHR 0x27] @ ''/0'' @ [CHR 0x27] @ ''/0'' @ [CHR 0x27]
         else if chainSymbol = ''TRX'' then ''m/44'' @ [CHR 0x27] @ ''/195'' @ [CHR 0x27] @ ''/0'' @ [CHR 0x27] @ ''/0/0''
         else ''m/44'' @ [CHR 0x27] @ ''/0'' @ [CHR 0x27] @ ''/0'' @ [CHR 0x27] @ ''/0/0'')\<rparr>"

definition mock_GetChainInfo :: "string \<Rightarrow> int \<Rightarrow> chain_info" where
  "mock_GetChainInfo chainSymbol now =
     (let (height, hash) =
        (if chainSymbol = ''BTC'' then (800000, ''000000000000000000015d43b6b8b657924cfecf396e5c1f50854b7ae6956122'')
         else if chainSymbol = ''ETH'' then (18000000, ''0xb084c10440f05f5a23a55d1d7ebcb1b3892935fb56f23cdc9a7f42c348eed174'')
         else if chainSymbol = ''SOL'' then (150000000, ''4uQeVj5tqViQh7yWWGStvkEG1Zmhx6uasJtWCJziofM'')
         else if chainSymbol = ''TRX'' then (50000000, ''000000000000000002a7c4c1e48d76c3f94983b10b5d4a1c5dd4f311356bd2bb'')
         else (1000000, ''0x'' @ chainSymbol @ ''000000000000000000000000000000000000''))
      in \<lparr>ci_Height = height, ci_Hash = hash, ci_Time = now, ci_Chain = chainSymbol\<rparr>)"

definition mock_GetBlockDetails :: "string \<Rightarrow> string \<Rightarrow> int \<Rightarrow> block_details" where
  "mock_GetBlockDetails chainSymbol blockHash now =
     \<lparr>bd_Hash = blockHash, bd_Height = 1000000, bd_Time = now, bd_PreviousBlockHash = ''previous_'' @ blockHash,
      bd_Transactions = [''tx1_'' @ chainSymbol, ''tx2_'' @ chainSymbol]\<rparr>"

definition mock_provider :: "'w db \<Rightarrow> string \<Rightarrow> 'w chain_provider" where
  "mock_provider db chainSymbol =
     \<lparr>pv_type = MockProvider,
      pv_GetBalance = (\<lambda>ctx _ _ w. (Ok (mock_GetBalance chainSymbol ctx), w)),
      pv_ValidateAddress = mock_ValidateAddress chainSymbol,
      pv_GetTokenDetails = (\<lambda>a w. (mock_GetTokenDetails chainSymbol a, w)),
      pv_WatchAddress = (\<lambda>_ w. w),
      pv_CreateTransaction = (\<lambda>_ w. (Ok ''0xmocktransactionhash'', w)),
      pv_CreateDepositAddress = Pair (Ok (mock_CreateDepositAddress chainSymbol)),
      pv_StartBlockMonitor = Pair (Ok ()), pv_StopBlockMonitor = Pair (Ok ()),
      pv_GetChainInfo = (\<lambda>w. case db_now db w of (now, w1) \<Rightarrow> (Ok (mock_GetChainInfo chainSymbol now), w1)),
      pv_GetBlockDetails = (\<lambda>h w. case db_now db w of (now, w1) \<Rightarrow> (Ok (mock_GetBlockDetails chainSymbol h now), w1)),
      pv_GetTreasuryAddress = Ok (case mock_address chainSymbol of Some a \<Rightarrow> a | None \<Rightarrow> ''treasury_'' @ chainSymbol)\<rparr>"

text \<open>The service's own providers are mocks, made under a lock on first use.\<close>

record 'w mock_state =
  ms_providers :: "'w provider_map"
  ms_initStatus :: "string \<Rightarrow> bool"

definition svc_GetProvider :: "'w db \<Rightarrow> string \<Rightarrow> 'w mock_state \<Rightarrow> 'w chain_provider res \<times> 'w mock_state" where
  "svc_GetProvider db chainSymbol m =
     (case ms_providers m chainSymbol of
        Some p \<Rightarrow> (Ok p, m)
      | None \<Rightarrow>
          if ms_initStatus m chainSymbol
          then (Err (EMsg (''chain provider '' @ [CHR 0x27] @ chainSymbol @ [CHR 0x27] @ '' initialization in progress'')), m)
          else (Ok (mock_provider db chainSymbol),
                m\<lparr>ms_initStatus := (ms_initStatus m)(chainSymbol := True),
                  ms_providers := (ms_providers m)(chainSymbol \<mapsto> mock_provider db chainSymbol)\<rparr>))"

definition with_mock ::
  "'w db \<Rightarrow> string \<Rightarrow> ('w chain_provider \<Rightarrow> 'w \<Rightarrow> 'a res \<times> 'w) \<Rightarrow> 'w mock_state \<times> 'w \<Rightarrow> 'a res \<times> 'w mock_state \<times> 'w" where
  "with_mock db chainSymbol f s =
     (case svc_GetProvider db chainSymbol (fst s) of
        (Err e, m) \<Rightarrow> (Err e, m, snd s)
      | (Panic x, m) \<Rightarrow> (Panic x, m, snd s)
      | (Ok p, m) \<Rightarrow> (case f p (snd s) of (r, w) \<Rightarrow> (r, m, w)))"

definition svc_GetTokenDetails ::
  "'w db \<Rightarrow> string \<Rightarrow> string \<Rightarrow> 'w mock_state \<times> 'w \<Rightarrow> token_details res \<times> 'w mock_state \<times> 'w" where
  "svc_GetTokenDetails db chainSymbol tokenAddress =
     with_mock db chainSymbol (\<lambda>p w. case pv_GetTokenDetails p tokenAddress w of
        (Err e, w1) \<Rightarrow>
          (Err (EWrap (''failed to get token details for address '' @ tokenAddress @ '' on chain '' @ chainSymbol @ '': '') e), w1)
      | r \<Rightarrow> r)"

definition svc_WatchAddress ::
  "'w db \<Rightarrow> string \<Rightarrow> string \<Rightarrow> 'w mock_state \<times> 'w \<Rightarrow> unit res \<times> 'w mock_state \<times> 'w" where
  "svc_WatchAddress db chainSymbol address =
     with_mock db chainSymbol (\<lambda>p w. (Ok (), pv_WatchAddress p address w))"

definition svc_CreateTransaction ::
  "'w db \<Rightarrow> string \<Rightarrow> tx_params \<Rightarrow> 'w mock_state \<times> 'w \<Rightarrow> string res \<times> 'w mock_state \<times> 'w" where
  "svc_CreateTransaction db chainSymbol params =
     with_mock db chainSymbol (\<lambda>p w. case pv_CreateTransaction p params w of
        (Err e, w1) \<Rightarrow> (Err (EWrap (''failed to create transaction on chain '' @ chainSymbol @ '': '') e), w1)
      | r \<Rightarrow> r)"

end
