(* ===== verification/BlockMonitors.thy ===== *)
theory BlockMonitors
  imports CacheManager EventManager HttpClient
begin

text \<open>
  The block monitors of \<open>managers/workers\<close> for EVM chains, Bitcoin and Tron. Each job reads the
  last processed height from the cache, asks the chain for its current height and processes every
  block in between, publishing a \<open>handleBlockFound\<close> event per block; a block that fails is logged
  and skipped. The state of a monitor is the outside world (\<open>net\<close>) and the event manager.
\<close>

record block_data =
  bd_ChainID :: int
  bd_ChainSymbol :: string
  bd_BlockNumber :: gval
  bd_BlockHash :: string
  bd_Timestamp :: gval
  bd_ParentHash :: string
  bd_Transactions :: gval

record ('h, 'w) mon =
  net :: 'w
  ev :: "('h, block_data) event_manager"

definition publish_block :: "block_data \<Rightarrow> ('h, 'w, 'z) mon_scheme \<Rightarrow> ('h, 'w, 'z) mon_scheme" where
  "publish_block d s = s\<lparr>ev := publish ''handleBlockFound'' d (ev s)\<rparr>"

section \<open>The part the monitors share\<close>

text \<open>No height cached: store the current one, process nothing.\<close>

definition monitor_init ::
  "'w cache_ops \<Rightarrow> string \<Rightarrow> u64 \<Rightarrow> ('h, 'w, 'z) mon_scheme
     \<Rightarrow> (unit res \<times> ('h, 'w, 'z) mon_scheme) option" where
  "monitor_init cm key cur s =
     (case cm_set cm key (VUint64 cur) 120 (net s) of (r, w) \<Rightarrow> Some (r, s\<lparr>net := w\<rparr>))"

text \<open>
  New blocks: process the heights above the last one, then store the current height; otherwise do
  nothing. The loop runs over a \<open>uint64\<close> counter.
\<close>

definition monitor_advance ::
  "'w cache_ops \<Rightarrow> string \<Rightarrow> int
     \<Rightarrow> (u64 \<Rightarrow> ('h, 'w, 'z) mon_scheme \<Rightarrow> string \<times> ('h, 'w, 'z) mon_scheme + ('h, 'w, 'z) mon_scheme)
     \<Rightarrow> u64 \<Rightarrow> u64 \<Rightarrow> ('h, 'w, 'z) mon_scheme \<Rightarrow> (unit res \<times> ('h, 'w, 'z) mon_scheme) option" where
  "monitor_advance cm key ttl body prev cur s =
     (if cur > prev then
        (case loop_u64 body (prev + 1) cur s of
           None \<Rightarrow> None
         | Some (Inl (p, s')) \<Rightarrow> Some (Panic p, s')
         | Some (Inr s') \<Rightarrow>
             (case cm_set cm key (VUint64 cur) ttl (net s') of (r, w) \<Rightarrow> Some (r, s'\<lparr>net := w\<rparr>)))
      else Some (Ok (), s))"

text \<open>A block that fails is skipped: the loop body keeps only the state.\<close>

definition skip_errors ::
  "(u64 \<Rightarrow> 's \<Rightarrow> unit res \<times> 's) \<Rightarrow> u64 \<Rightarrow> 's \<Rightarrow> string \<times> 's + 's" where
  "skip_errors step h s = (case step h s of (Panic p, s') \<Rightarrow> Inl (p, s') | (_, s') \<Rightarrow> Inr s')"

lemma skip_errors_no_panic:
  "(\<And>p. fst (step h s) \<noteq> Panic p) \<Longrightarrow> skip_errors step h s = Inr (snd (step h s))"
  by (cases "step h s") (auto simp: skip_errors_def split: res.splits)

lemma each_skip_errors:
  "(\<And>h s p. fst (step h s) \<noteq> Panic p) \<Longrightarrow>
     each (skip_errors step) hs s = Inr (fold (\<lambda>h s. snd (step h s)) hs s)"
  by (rule each_no_exit) (rule skip_errors_no_panic)

context cache_iface
begin

lemma init_height:
  assumes "ok (net s)" "key \<in> K" "unat cur \<le> 2 ^ 53"
  obtains w where "monitor_init cm key cur s = Some (Ok (), s\<lparr>net := w\<rparr>)" "ok w"
    "cached_height oor (look w key) = cur"
proof -
  have n: "json_norm (VUint64 cur) = Some (VFloat (f64_of_int (uint cur)))"
    by (rule json_norm_uint64 [OF assms(3)])
  obtain r w where c: "cm_set cm key (VUint64 cur) 120 (net s) = (r, w)" by (metis surj_pair)
  from c set_res [OF assms(1,2) n, of 120] set_ok [OF assms(1,2) n, of 120]
    height_look [OF assms, of oor 120] show ?thesis
    by (intro that [of w]) (simp_all add: monitor_init_def)
qed

lemma advance_fold:
  fixes step :: "u64 \<Rightarrow> ('h, 'w, 'z) mon_scheme \<Rightarrow> unit res \<times> ('h, 'w, 'z) mon_scheme"
  assumes "key \<in> K" "prev < cur" "unat cur \<le> 2 ^ 53"
    and "\<And>h s p. fst (step h s) \<noteq> Panic p"
    and "ok (net (fold (\<lambda>h s. snd (step h s)) (heights_after prev cur) s))"
  obtains w where
    "monitor_advance cm key ttl (skip_errors step) prev cur s
       = Some (Ok (), (fold (\<lambda>h s. snd (step h s)) (heights_after prev cur) s)\<lparr>net := w\<rparr>)"
    "ok w" "cached_height oor (look w key) = cur"
proof -
  let ?t = "fold (\<lambda>h s. snd (step h s)) (heights_after prev cur) s"
  have eq: "heights_after prev cur = upto_u64 (prev + 1) cur" using assms(2)
    by (simp add: heights_after_def)
  from small_not_max [OF assms(3)] have loop: "loop_u64 (skip_errors step) (prev + 1) cur s = Some (Inr ?t)"
    by (simp add: eq loop_u64_each each_skip_errors assms(4))
  have n: "json_norm (VUint64 cur) = Some (VFloat (f64_of_int (uint cur)))"
    by (rule json_norm_uint64 [OF assms(3)])
  obtain r w where c: "cm_set cm key (VUint64 cur) ttl (net ?t) = (r, w)" by (metis surj_pair)
  from c set_res [OF assms(5,1) n, of ttl] set_ok [OF assms(5,1) n, of ttl]
    height_look [OF assms(5,1,3), of oor ttl] assms(2) loop show ?thesis
    by (intro that [of w]) (simp_all add: monitor_advance_def)
qed

end

lemma advance_idle: "cur \<le> prev \<Longrightarrow> monitor_advance cm key ttl body prev cur s = Some (Ok (), s)"
  using leD by (auto simp: monitor_advance_def)

lemma monitor_init_returns [simp]: "\<exists>r s'. monitor_init cm key cur s = Some (r, s')"
  by (simp add: monitor_init_def split: prod.splits)

lemma advance_returns:
  "cur \<noteq> - 1 \<Longrightarrow> \<exists>r s'. monitor_advance cm key ttl body prev cur s = Some (r, s')"
  using loop_u64_returns [of cur body "prev + 1" s]
  by (auto simp: monitor_advance_def split: option.splits sum.splits prod.splits)

lemma advance_max:
  "prev \<noteq> - 1 \<Longrightarrow> (\<And>h s p. fst (step h s) \<noteq> Panic p) \<Longrightarrow>
     monitor_advance cm key ttl (skip_errors step) prev (- 1) s = None"
  using loop_u64_max_None [of "skip_errors step" "prev + 1" s]
  by (simp add: monitor_advance_def skip_errors_no_panic word_order.not_eq_extremum [symmetric])

section \<open>A sequence of jobs\<close>

text \<open>
  The queue runs a monitor's job again and again, each time with the height the chain has by then;
  what a job returns is only logged. \<open>None\<close> is a job that does not return.
\<close>

fun run_jobs :: "(u64 \<Rightarrow> 's \<Rightarrow> (unit res \<times> 's) option) \<Rightarrow> u64 list \<Rightarrow> 's \<Rightarrow> 's option" where
  "run_jobs job [] s = Some s"
| "run_jobs job (cur # curs) s =
     (case job cur s of None \<Rightarrow> None | Some (_, s') \<Rightarrow> run_jobs job curs s')"

text \<open>
  What a monitor's job promises: \<open>height s\<close> is the last processed height the cache holds, \<open>emitted s\<close>
  the handler calls started so far, \<open>emit h\<close> those of block \<open>h\<close>.
\<close>

locale height_job =
  fixes job :: "u64 \<Rightarrow> 's \<Rightarrow> (unit res \<times> 's) option" and height :: "'s \<Rightarrow> u64"
    and emitted :: "'s \<Rightarrow> 'e list" and emit :: "u64 \<Rightarrow> 'e list" and ready :: "'s \<Rightarrow> bool"
  assumes start: "ready s \<Longrightarrow> height s = 0 \<Longrightarrow> unat cur \<le> 2 ^ 53 \<Longrightarrow>
      \<exists>s'. job cur s = Some (Ok (), s') \<and> ready s' \<and> height s' = cur \<and> emitted s' = emitted s"
    and advance: "ready s \<Longrightarrow> height s \<noteq> 0 \<Longrightarrow> height s < cur \<Longrightarrow> unat cur \<le> 2 ^ 53 \<Longrightarrow>
      \<exists>s'. job cur s = Some (Ok (), s') \<and> ready s' \<and> height s' = cur
         \<and> emitted s' = emitted s @ concat (map emit (heights_after (height s) cur))"
    and idle: "ready s \<Longrightarrow> height s \<noteq> 0 \<Longrightarrow> cur \<le> height s \<Longrightarrow>
      \<exists>s'. job cur s = Some (Ok (), s') \<and> ready s' \<and> height s' = height s \<and> emitted s' = emitted s"
begin

text \<open>One job, whatever the height reported.\<close>

lemma one_job:
  assumes "ready s" "height s \<noteq> 0" "unat cur \<le> 2 ^ 53"
  shows "\<exists>s'. job cur s = Some (Ok (), s') \<and> ready s' \<and> height s' = max (height s) cur
    \<and> emitted s' = emitted s @ concat (map emit (heights_after (height s) (max (height s) cur)))"
proof (cases "height s < cur")
  case True
  then have "max (height s) cur = cur" by simp
  with advance [OF assms(1,2) True assms(3)] show ?thesis by simp
next
  case False
  then have "cur \<le> height s" "max (height s) cur = height s" by (simp_all add: max_def)
  with idle [OF assms(1,2) this(1)] show ?thesis by simp
qed

text \<open>
  However the reported heights vary over a sequence of jobs, every block between the first
  height and the highest one reported is emitted once, in order.
\<close>

lemma session:
  assumes "ready s" "height s \<noteq> 0" "\<forall>cur \<in> set curs. unat cur \<le> 2 ^ 53"
  shows "\<exists>s'. run_jobs job curs s = Some s' \<and> ready s' \<and> height s' = fold max curs (height s)
    \<and> emitted s' = emitted s
        @ concat (map emit (heights_after (height s) (fold max curs (height s))))"
  using assms
proof (induction curs arbitrary: s)
  case (Cons cur curs)
  from Cons.prems one_job obtain s1 where s1: "job cur s = Some (Ok (), s1)" "ready s1"
    "height s1 = max (height s) cur"
    "emitted s1 = emitted s @ concat (map emit (heights_after (height s) (height s1)))"
    by (metis list.set_intros(1))
  have le: "height s \<le> height s1" by (simp add: s1(3))
  with Cons.prems(2) have "height s1 \<noteq> 0" by (metis word_le_0_iff)
  with Cons.IH [OF s1(2)] Cons.prems(3) obtain s' where s': "run_jobs job curs s1 = Some s'"
    "ready s'" "height s' = fold max curs (height s1)"
    "emitted s' = emitted s1 @ concat (map emit (heights_after (height s1) (height s')))" by auto
  have "fold max curs h \<ge> h" for h :: u64
    by (induction curs arbitrary: h) (auto intro: order_trans [OF max.cobounded2])
  with s'(3) have "height s1 \<le> height s'" by simp
  with le have "heights_after (height s) (height s')
      = heights_after (height s) (height s1) @ heights_after (height s1) (height s')"
    by (simp add: heights_after_append)
  with s1 s' show ?case by (simp add: max.commute)
qed auto

end

section \<open>Monitors that fetch the current height over HTTP\<close>

text \<open>
  A whole job: read the cached height, fetch the current one, and either initialise or process the
  new blocks. The Tron monitor is this; the Bitcoin monitor is proved equal to it.
\<close>

definition monitor_run ::
  "'w cache_ops \<Rightarrow> string \<Rightarrow> int \<Rightarrow> (f64 \<Rightarrow> u64) \<Rightarrow> ('w \<Rightarrow> u64 res \<times> 'w)
     \<Rightarrow> (u64 \<Rightarrow> ('h, 'w, 'z) mon_scheme \<Rightarrow> unit res \<times> ('h, 'w, 'z) mon_scheme)
     \<Rightarrow> ('h, 'w, 'z) mon_scheme \<Rightarrow> (unit res \<times> ('h, 'w, 'z) mon_scheme) option" where
  "monitor_run cm key ttl oor current step s =
     (case cm_get cm key (net s) of
        (Err e, w) \<Rightarrow> Some (Err e, s\<lparr>net := w\<rparr>)
      | (Panic p, w) \<Rightarrow> Some (Panic p, s\<lparr>net := w\<rparr>)
      | (Ok v, w) \<Rightarrow>
          (case current w of
             (Err e, w') \<Rightarrow> Some (Err e, s\<lparr>net := w'\<rparr>)
           | (Panic p, w') \<Rightarrow> Some (Panic p, s\<lparr>net := w'\<rparr>)
           | (Ok cur, w') \<Rightarrow>
               if cached_height oor v = 0 then monitor_init cm key cur (s\<lparr>net := w'\<rparr>)
               else monitor_advance cm key ttl (skip_errors step) (cached_height oor v) cur
                      (s\<lparr>net := w'\<rparr>)))"

lemma monitor_run_returns:
  assumes "\<forall>w. fst (current w) \<noteq> Ok (- 1)"
  shows "\<exists>r s'. monitor_run cm key ttl oor current step s = Some (r, s')"
proof -
  obtain r w where g: "cm_get cm key (net s) = (r, w)" by (metis surj_pair)
  obtain b w' where n: "current w = (b, w')" by (metis surj_pair)
  with assms have "b \<noteq> Ok (- 1)" by (metis fst_conv)
  with g n show ?thesis
    by (auto simp: monitor_run_def advance_returns split: res.split)
qed

text \<open>A step that processes a block without a panic and publishes what \<open>blk\<close> says of its height.\<close>

definition step_emits ::
  "('w \<Rightarrow> 'v) \<Rightarrow> (u64 \<Rightarrow> block_data option)
     \<Rightarrow> (u64 \<Rightarrow> ('h, 'w) mon \<Rightarrow> unit res \<times> ('h, 'w) mon) \<Rightarrow> bool" where
  "step_emits view blk step \<longleftrightarrow> (\<forall>h s.
     (\<forall>p. fst (step h s) \<noteq> Panic p)
   \<and> view (net (snd (step h s))) = view (net s)
   \<and> ev (snd (step h s)) =
       (case blk h of Some d \<Rightarrow> publish ''handleBlockFound'' d (ev s) | None \<Rightarrow> ev s))"

definition blk_emit :: "(u64 \<Rightarrow> block_data option) \<Rightarrow> 'h list \<Rightarrow> u64 \<Rightarrow> ('h \<times> block_data) list" where
  "blk_emit blk hs h = (case blk h of Some d \<Rightarrow> map (\<lambda>hd. (hd, d)) hs | None \<Rightarrow> [])"

definition mon_height :: "('w \<Rightarrow> keyspace) \<Rightarrow> (f64 \<Rightarrow> u64) \<Rightarrow> string \<Rightarrow> ('h, 'w, 'z) mon_scheme \<Rightarrow> u64" where
  "mon_height view oor key s = cached_height oor (cache_look (view (net s)) key)"

definition run_ready ::
  "'w redis \<Rightarrow> ('w \<Rightarrow> keyspace) \<Rightarrow> string \<Rightarrow> (u64 \<Rightarrow> 'w \<Rightarrow> u64 res \<times> 'w)
     \<Rightarrow> (u64 \<Rightarrow> u64 \<Rightarrow> ('h, 'w) mon \<Rightarrow> unit res \<times> ('h, 'w) mon) \<Rightarrow> (u64 \<Rightarrow> block_data option)
     \<Rightarrow> 'h list \<Rightarrow> ('h, 'w) mon \<Rightarrow> bool" where
  "run_ready cl view key current step blk hs s \<longleftrightarrow>
     cache_ok cl view {key} (net s)
   \<and> (\<forall>cur w. fst (current cur w) = Ok cur \<and> view (snd (current cur w)) = view w)
   \<and> (\<forall>cur. step_emits view blk (step cur)) \<and> handlers_of (ev s) ''handleBlockFound'' = hs"

lemma step_emits_fold:
  assumes "step_emits view blk step" "handlers_of (ev s) ''handleBlockFound'' = hs"
  shows "view (net (fold (\<lambda>h s. snd (step h s)) ks s)) = view (net s)
    \<and> spawned (ev (fold (\<lambda>h s. snd (step h s)) ks s)) = spawned (ev s) @ concat (map (blk_emit blk hs) ks)
    \<and> handlers_of (ev (fold (\<lambda>h s. snd (step h s)) ks s)) ''handleBlockFound'' = hs"
  using assms
proof (induction ks arbitrary: s)
  case (Cons k ks)
  then have k: "view (net (snd (step k s))) = view (net s)"
    "ev (snd (step k s)) = (case blk k of Some d \<Rightarrow> publish ''handleBlockFound'' d (ev s) | None \<Rightarrow> ev s)"
    by (simp_all add: step_emits_def)
  with Cons.prems(2) have "handlers_of (ev (snd (step k s))) ''handleBlockFound'' = hs"
    by (simp split: option.split)
  from Cons.IH [OF Cons.prems(1) this] k Cons.prems(2) show ?case
    by (auto simp: blk_emit_def split: option.splits)
qed simp

interpretation mon_job: height_job
  "\<lambda>cur. monitor_run (cache_manager cl) key ttl oor (current cur) (step cur)"
  "mon_height view oor key" "\<lambda>s. spawned (ev s)" "blk_emit blk hs"
  "run_ready cl view key current step blk hs"
  for cl view key ttl oor current step blk hs
proof unfold_locales
  let ?cm = "cache_manager cl" and ?ready = "run_ready cl view key current step blk hs"
  let ?job = "\<lambda>cur. monitor_run ?cm key ttl oor (current cur) (step cur)"
  fix s and cur :: u64
  assume r: "?ready s"
  then have ok: "cache_ok cl view {key} (net s)" and em: "step_emits view blk (step cur)"
    and hs: "handlers_of (ev s) ''handleBlockFound'' = hs" by (simp_all add: run_ready_def)
  obtain g w1 where g: "cm_get ?cm key (net s) = (g, w1)" by (metis surj_pair)
  have g2: "g = Ok (cache_look (view (net s)) key)" "cache_ok cl view {key} w1"
    "cache_look (view w1) = cache_look (view (net s))"
    using cache.get_val [OF ok, of key] cache.get_ok [OF ok, of key] cache.get_look [OF ok, of key]
    by (simp_all only: g fst_conv snd_conv insertI1)
  obtain w where c: "current cur w1 = (Ok cur, w)" "view w = view w1"
    using r by (metis run_ready_def prod.collapse snd_conv)
  with g2 have w: "cache_ok cl view {key} (net (s\<lparr>net := w\<rparr>))"
    "cache_look (view w) = cache_look (view (net s))" by (simp_all add: cache_ok_def)
  have job: "?job cur s = (if mon_height view oor key s = 0 then monitor_init ?cm key cur (s\<lparr>net := w\<rparr>)
    else monitor_advance ?cm key ttl (skip_errors (step cur)) (mon_height view oor key s) cur (s\<lparr>net := w\<rparr>))"
    using g by (simp add: monitor_run_def g2(1) c(1) mon_height_def)
  { assume h: "mon_height view oor key s = 0" and cur: "unat cur \<le> 2 ^ 53"
    from cache.init_height [OF w(1) _ cur, where key = key and oor = oor] obtain w' where
      "monitor_init ?cm key cur (s\<lparr>net := w\<rparr>) = Some (Ok (), s\<lparr>net := w'\<rparr>)"
      "cache_ok cl view {key} w'" "cached_height oor (cache_look (view w') key) = cur" by auto
    with h r show "\<exists>s'. ?job cur s = Some (Ok (), s') \<and> ?ready s'
        \<and> mon_height view oor key s' = cur \<and> spawned (ev s') = spawned (ev s)"
      by (intro exI [of _ "s\<lparr>net := w'\<rparr>"]) (simp add: job, simp add: run_ready_def mon_height_def) }
  { assume h: "mon_height view oor key s \<noteq> 0" "mon_height view oor key s < cur"
      and cur: "unat cur \<le> 2 ^ 53"
    let ?ks = "heights_after (mon_height view oor key s) cur"
    let ?t = "fold (\<lambda>h s. snd (step cur h s)) ?ks (s\<lparr>net := w\<rparr>)"
    from hs have "handlers_of (ev (s\<lparr>net := w\<rparr>)) ''handleBlockFound'' = hs" by simp
    note f = step_emits_fold [OF em this, of ?ks]
    from f w(1) have ok': "cache_ok cl view {key} (net ?t)" by (simp add: cache_ok_def)
    have np: "fst (step cur h s) \<noteq> Panic p" for h s p using em by (simp add: step_emits_def)
    from cache.advance_fold [OF _ h(2) cur np ok', where ttl = ttl and oor = oor]
    obtain w' where "monitor_advance ?cm key ttl (skip_errors (step cur)) (mon_height view oor key s)
        cur (s\<lparr>net := w\<rparr>) = Some (Ok (), ?t\<lparr>net := w'\<rparr>)"
      "cache_ok cl view {key} w'" "cached_height oor (cache_look (view w') key) = cur" by auto
    with h f r show "\<exists>s'. ?job cur s = Some (Ok (), s') \<and> ?ready s' \<and> mon_height view oor key s' = cur
        \<and> spawned (ev s') = spawned (ev s) @ concat (map (blk_emit blk hs) ?ks)"
      by (intro exI [of _ "?t\<lparr>net := w'\<rparr>"]) (simp add: job, simp add: run_ready_def mon_height_def) }
  { assume h: "mon_height view oor key s \<noteq> 0" "cur \<le> mon_height view oor key s"
    with w r show "\<exists>s'. ?job cur s = Some (Ok (), s') \<and> ?ready s'
        \<and> mon_height view oor key s' = mon_height view oor key s \<and> spawned (ev s') = spawned (ev s)"
      by (intro exI [of _ "s\<lparr>net := w\<rparr>"])
        (simp add: job advance_idle, simp add: run_ready_def mon_height_def) }
qed

end
