(* ===== verification/SolanaMonitor.thy ===== *)
theory SolanaMonitor
  imports BlockMonitors QueueManager "HOL-Library.Monad_Syntax"
begin

text \<open>
  \<open>managers/workers/solana_block_monitor.go\<close>: the monitor of Solana over a JSON-RPC service. The
  requests are retried, two block formats are understood, and the slots are processed in batches of
  ten under a deadline of 45 seconds. The service, the clock, the text of a response body and the
  environment variable with the API key are parameters (\<open>sol_env\<close>).
\<close>

section \<open>Data\<close>

record sol_tx =
  st_Signature :: string
  st_Successful :: bool
  st_Fee :: int

record sol_block =
  sb_Blockhash :: string
  sb_BlockTime :: int
  sb_BlockHeight :: u64
  sb_Transactions :: "sol_tx list"

record sol_error =
  se_Code :: int
  se_Message :: string

record sol_resp =
  sr_Result :: "json option"
  sr_Error :: "sol_error option"

record 'w sol_env =
  env_http :: "'w httpc"
  env_clock :: "'w clock"
  env_text :: "blob \<Rightarrow> string"
  env_key :: string
  env_url :: string
  env_u64 :: "f64 \<Rightarrow> u64"
  env_i64 :: "f64 \<Rightarrow> int"

definition SolanaBlockIdentifier :: string where
  "SolanaBlockIdentifier = ''solana:last-block-height''"

definition SolanaRpcURL :: string where
  "SolanaRpcURL = ''https://rpc.ankr.com/solana''"

section \<open>The URL and its key\<close>

definition sol_key_of_url :: "string \<Rightarrow> string" where
  "sol_key_of_url url =
     (if contains url ''/solana/'' \<and> count_char (CHR ''/'') url > 3 then
        (let parts = split_on (CHR ''/'') url in
         if length parts > 4 \<and> length (last parts) > 0 then last parts else [])
      else [])"

definition NewSolanaBlockMonitor_url :: "string \<Rightarrow> string \<Rightarrow> string" where
  "NewSolanaBlockMonitor_url envKey rpcURL =
     (let url = (if rpcURL = [] then SolanaRpcURL else rpcURL) in
      if envKey \<noteq> [] \<and> sol_key_of_url url = [] \<and> \<not> contains url envKey
      then (if has_suffix url ''/'' then url else url @ ''/'') @ envKey
      else url)"

text \<open>The key the request header carries: the environment's, else the last part of the URL.\<close>

definition sol_api_key :: "string \<Rightarrow> string \<Rightarrow> string" where
  "sol_api_key envKey url =
     (if envKey \<noteq> [] then envKey
      else if contains url ''/solana/'' \<and> count_char (CHR ''/'') url > 3 then
        (let parts = split_on (CHR ''/'') url in if length parts > 4 then last parts else [])
      else [])"

section \<open>Requests\<close>

definition sol_request :: "string \<Rightarrow> json list \<Rightarrow> json" where
  "sol_request meth params = JObj ([(''jsonrpc'', JStr ''2.0''), (''id'', JNum 1),
     (''method'', JStr meth)] @ (if params = [] then [] else [(''params'', JArr params)]))"

definition sol_slot_request :: json where
  "sol_slot_request = sol_request ''getSlot'' [JObj [(''commitment'', JStr ''confirmed'')]]"

definition sol_block_request :: "u64 \<Rightarrow> json" where
  "sol_block_request slot = sol_request ''getBlock''
     [JNum (of_int (uint slot)),
      JObj [(''commitment'', JStr ''confirmed''), (''encoding'', JStr ''json''),
            (''maxSupportedTransactionVersion'', JNum 0), (''transactionDetails'', JStr ''full'')]]"

text \<open>
  Decoding keeps what the response variable holds: an absent member leaves its field, a member of
  the wrong kind is an error but the other members are still stored.
\<close>

definition merge_str :: "json \<Rightarrow> string \<Rightarrow> string \<Rightarrow> string \<times> bool" where
  "merge_str j k old =
     (case jmember j k of None \<Rightarrow> (old, True) | Some (JStr s) \<Rightarrow> (s, True) | _ \<Rightarrow> (old, False))"

definition merge_int :: "json \<Rightarrow> string \<Rightarrow> int \<Rightarrow> int \<times> bool" where
  "merge_int j k old =
     (case jmember j k of
        None \<Rightarrow> (old, True)
      | Some _ \<Rightarrow> (case ji64 j k of Some i \<Rightarrow> (i, True) | None \<Rightarrow> (old, False)))"

definition merge_error :: "json \<Rightarrow> sol_error option \<Rightarrow> sol_error option \<times> bool" where
  "merge_error j old =
     (case j of
        JObj kjs \<Rightarrow>
          (case json_lookup kjs ''error'' of
             None \<Rightarrow> (old, True)
           | Some JNull \<Rightarrow> (None, True)
           | Some e \<Rightarrow>
               let old' = (case old of Some x \<Rightarrow> x | None \<Rightarrow> \<lparr>se_Code = 0, se_Message = []\<rparr>) in
               if \<not> jstruct e then (Some old', False)
               else
                 (case merge_int e ''code'' (se_Code old') of (c, ok1) \<Rightarrow>
                  case merge_str e ''message'' (se_Message old') of (m, ok2) \<Rightarrow>
                    (Some \<lparr>se_Code = c, se_Message = m\<rparr>, ok1 \<and> ok2)))
      | _ \<Rightarrow> (old, True))"

definition sol_decode :: "blob \<Rightarrow> sol_resp \<Rightarrow> sol_resp \<times> bool" where
  "sol_decode b old =
     (case b of
        Raw _ \<Rightarrow> (old, False)
      | Enc j \<Rightarrow>
          if \<not> jstruct j then (old, False)
          else
            (case merge_error j (sr_Error old) of (e, ok) \<Rightarrow>
               (\<lparr>sr_Result = (case j of
                    JObj kjs \<Rightarrow>
                      (case json_lookup kjs ''result'' of Some r \<Rightarrow> Some r | None \<Rightarrow> sr_Result old)
                  | _ \<Rightarrow> sr_Result old),
                 sr_Error = e\<rparr>,
                ok \<and> snd (merge_str j ''jsonrpc'' []) \<and> snd (merge_int j ''id'' 0))))"

definition rpc_error :: "sol_error \<Rightarrow> goerr" where
  "rpc_error e = EMsg (''RPC error: '' @ se_Message e @ '' (code: '' @ show_int 10 (se_Code e) @ '')'')"

text \<open>What \<open>makeRequest\<close> returns: a response, an error, and for an RPC error both.\<close>

datatype sol_reply = Reply sol_resp | RpcError sol_resp goerr | NoReply goerr

definition retries_text :: "nat \<Rightarrow> string" where
  "retries_text n = '' (after '' @ show_nat 10 n @ '' retries)''"

definition shorten :: "string \<Rightarrow> string" where
  "shorten s = (if length s > 100 then take 100 s @ ''...'' else s)"

text \<open>
  What one attempt makes of an outcome: leave the loop with a reply, or go on with the response
  variable as it is then. \<open>n\<close> is the number of retries made so far.
\<close>

definition sol_attempt ::
  "(blob \<Rightarrow> string) \<Rightarrow> nat \<Rightarrow> http_out \<Rightarrow> sol_resp \<Rightarrow> sol_reply + sol_resp" where
  "sol_attempt txt n out rpc =
     (let stop = (\<lambda>e. if n = 3 then Inl (NoReply e) else Inr rpc) in
      case out of
        HReqErr e \<Rightarrow> Inl (NoReply (EWrap ''error creating request: '' e))
      | HDoErr e \<Rightarrow> stop (EWrap (''error making request'' @ retries_text n @ '': '') e)
      | HBodyErr _ e \<Rightarrow> stop (EWrap (''error reading response'' @ retries_text n @ '': '') e)
      | HResp code b \<Rightarrow>
          if code = 429 then stop (EMsg (''rate limited by Ankr API'' @ retries_text n))
          else if code = 403 \<or> code = 401 then
            stop (EMsg (''authentication error with Ankr API (status '' @ show_int 10 code @ ''): ''
                        @ shorten (txt b)))
          else if code \<noteq> 200 then
            stop (EMsg (''unexpected status code: '' @ show_int 10 code @ retries_text n @ '': ''
                        @ shorten (txt b)))
          else
            (case sol_decode b rpc of (rpc', ok) \<Rightarrow>
               if \<not> ok then
                 (if n = 3 then Inl (NoReply (EWrap ''error decoding response: '' unmarshal_error))
                  else Inr rpc')
               else
                 (case sr_Error rpc' of
                    None \<Rightarrow> Inl (Reply rpc')
                  | Some e \<Rightarrow>
                      if se_Code e = - 32004 \<or> n = 3 then Inl (RpcError rpc' (rpc_error e))
                      else Inr rpc')))"

definition sol_send :: "'w sol_env \<Rightarrow> json \<Rightarrow> 'w \<Rightarrow> http_out \<times> 'w" where
  "sol_send en req w =
     (let key = sol_api_key (env_key en) (env_url en) in
      hdo (env_http en) ''POST'' (env_url en)
        ((''Content-Type'', ''application/json'') # (if key \<noteq> [] then [(''x-api-key'', key)] else []))
        (Some (Enc req)) w)"

fun sol_try :: "'w sol_env \<Rightarrow> json \<Rightarrow> nat \<Rightarrow> sol_resp \<Rightarrow> 'w \<Rightarrow> sol_reply \<times> 'w" where
  "sol_try en req left rpc w =
     (let n = 3 - left;
          w1 = (if n > 0 then sleep_ms (env_clock en) (int (n * n) * 500) w else w)
      in case sol_send en req w1 of
           (out, w2) \<Rightarrow>
             (case sol_attempt (env_text en) n out rpc of
                Inl r \<Rightarrow> (r, w2)
              | Inr rpc' \<Rightarrow> (case left of 0 \<Rightarrow> (Reply rpc', w2) | Suc k \<Rightarrow> sol_try en req k rpc' w2)))"

declare sol_try.simps [simp del]

definition sol_make_request :: "'w sol_env \<Rightarrow> json \<Rightarrow> 'w \<Rightarrow> sol_reply \<times> 'w" where
  "sol_make_request en req w = sol_try en req 3 \<lparr>sr_Result = None, sr_Error = None\<rparr> w"

definition json_u64 :: "json \<Rightarrow> u64 option" where
  "json_u64 j = ju64 (JObj [([], j)]) []"

definition sol_current_slot :: "'w sol_env \<Rightarrow> 'w \<Rightarrow> u64 res \<times> 'w" where
  "sol_current_slot en w =
     (case sol_make_request en sol_slot_request w of
        (NoReply e, w') \<Rightarrow> (Err e, w')
      | (RpcError _ e, w') \<Rightarrow> (Err e, w')
      | (Reply r, w') \<Rightarrow>
          (case Option.bind (sr_Result r) json_u64 of
             Some u \<Rightarrow> (Ok u, w')
           | None \<Rightarrow> (Err (EWrap ''error unmarshaling slot: '' unmarshal_error), w')))"

section \<open>Blocks\<close>

definition merge_bool :: "json \<Rightarrow> string \<Rightarrow> bool \<Rightarrow> bool \<times> bool" where
  "merge_bool j k old =
     (case jmember j k of None \<Rightarrow> (old, True) | Some (JBool b) \<Rightarrow> (b, True) | _ \<Rightarrow> (old, False))"

definition merge_u64 :: "json \<Rightarrow> string \<Rightarrow> u64 \<Rightarrow> u64 \<times> bool" where
  "merge_u64 j k old = (case ju64 j k of Some u \<Rightarrow> (u, True) | None \<Rightarrow> (old, False))"

definition any_ok :: "json \<Rightarrow> string \<Rightarrow> bool" where
  "any_ok j k = (case jmember j k of None \<Rightarrow> True | Some x \<Rightarrow> from_json x \<noteq> None)"

definition dec_sol_tx :: "json \<Rightarrow> sol_tx \<times> bool" where
  "dec_sol_tx j =
     (case merge_str j ''signature'' [] of (sg, ok1) \<Rightarrow>
      case merge_bool j ''successful'' False of (sc, ok2) \<Rightarrow>
      case merge_int j ''fee'' 0 of (fee, ok3) \<Rightarrow>
        (\<lparr>st_Signature = sg, st_Successful = sc, st_Fee = fee\<rparr>,
         jstruct j \<and> ok1 \<and> ok2 \<and> ok3 \<and> any_ok j ''meta'' \<and> any_ok j ''version'' \<and> any_ok j ''transaction''))"

definition dec_sol_txs :: "json \<Rightarrow> sol_tx list \<times> bool" where
  "dec_sol_txs j =
     (case jmember j ''transactions'' of
        None \<Rightarrow> ([], True)
      | Some (JArr js) \<Rightarrow> (map (fst \<circ> dec_sol_tx) js, list_all (snd \<circ> dec_sol_tx) js)
      | _ \<Rightarrow> ([], False))"

definition dec_sol_block :: "json \<Rightarrow> sol_block \<times> bool" where
  "dec_sol_block j =
     (case merge_str j ''blockhash'' [] of (bh, ok1) \<Rightarrow>
      case merge_int j ''blockTime'' 0 of (bt, ok2) \<Rightarrow>
      case merge_u64 j ''blockHeight'' 0 of (ht, ok3) \<Rightarrow>
      case dec_sol_txs j of (txs, ok4) \<Rightarrow>
        (\<lparr>sb_Blockhash = bh, sb_BlockTime = bt, sb_BlockHeight = ht, sb_Transactions = txs\<rparr>,
         jstruct j \<and> ok1 \<and> ok2 \<and> ok3 \<and> ok4))"

text \<open>The other format: hash, time, height and the raw transactions.\<close>

definition dec_custom_block :: "json \<Rightarrow> (string \<times> int \<times> u64 \<times> json list) option" where
  "dec_custom_block j = (if \<not> jstruct j then None else do {
     bh \<leftarrow> jstr j ''blockhash''; bt \<leftarrow> ji64 j ''blockTime''; ht \<leftarrow> ju64 j ''blockHeight'';
     _ \<leftarrow> jstr j ''previousBlockhash''; _ \<leftarrow> ju64 j ''parentSlot'';
     txs \<leftarrow> jlist Some j ''transactions''; _ \<leftarrow> jlist from_json j ''rewards'';
     (if any_ok j ''blockProductionTime'' then Some (bh, bt, ht, txs) else None) })"

definition sol_raw_tx :: "(f64 \<Rightarrow> int) \<Rightarrow> (string \<times> gval) list \<Rightarrow> sol_tx" where
  "sol_raw_tx oor m =
     (let sg = (case map_of m ''transaction'' of
                  Some (VMap t) \<Rightarrow>
                    (case map_of t ''signatures'' of Some (VList (VStr x # _)) \<Rightarrow> x | _ \<Rightarrow> [])
                | _ \<Rightarrow> []);
          fee = (case map_of m ''meta'' of
                   Some (VMap t) \<Rightarrow> (case map_of t ''fee'' of Some (VFloat x) \<Rightarrow> i64_of_f64 oor x | _ \<Rightarrow> 0)
                 | _ \<Rightarrow> 0);
          ok = (case map_of m ''meta'' of
                  Some (VMap t) \<Rightarrow> (case map_of t ''err'' of None \<Rightarrow> True | Some v \<Rightarrow> v = VNil)
                | _ \<Rightarrow> False)
      in \<lparr>st_Signature = sg, st_Successful = ok, st_Fee = fee\<rparr>)"

definition sol_raw_txs :: "(f64 \<Rightarrow> int) \<Rightarrow> json list \<Rightarrow> sol_tx list" where
  "sol_raw_txs oor js =
     concat (map (\<lambda>j. case json_map j of
         None \<Rightarrow> []
       | Some m \<Rightarrow>
           let tx = sol_raw_tx oor (case m of Some kvs \<Rightarrow> kvs | None \<Rightarrow> [])
           in if st_Signature tx \<noteq> [] then [tx] else []) js)"

definition allTransactionsEmpty :: "sol_tx list \<Rightarrow> bool" where
  "allTransactionsEmpty txs \<longleftrightarrow> list_all (\<lambda>tx. st_Signature tx = []) txs \<and> length txs > 0"

text \<open>What a result is read as; an absent result is an empty text, which both formats refuse.\<close>

definition sol_parse_block :: "(f64 \<Rightarrow> int) \<Rightarrow> json option \<Rightarrow> sol_block option res" where
  "sol_parse_block oor result =
     (case result of
        None \<Rightarrow> Err (EWrap ''error unmarshaling block with custom format: '' unmarshal_error)
      | Some JNull \<Rightarrow> Ok None
      | Some j \<Rightarrow>
          (case dec_sol_block j of (block, ok) \<Rightarrow>
             if \<not> ok \<or> (length (sb_Transactions block) > 0 \<and> allTransactionsEmpty (sb_Transactions block))
             then
               (case dec_custom_block j of
                  None \<Rightarrow> Err (EWrap ''error unmarshaling block with custom format: '' unmarshal_error)
                | Some (bh, bt, ht, raws) \<Rightarrow>
                    let txs = sol_raw_txs oor raws;
                        block' = block\<lparr>sb_Blockhash := bh, sb_BlockTime := bt, sb_BlockHeight := ht\<rparr>
                    in Ok (Some (if length txs > 0 then block'\<lparr>sb_Transactions := txs\<rparr> else block')))
             else Ok (Some block)))"

definition sol_get_block :: "'w sol_env \<Rightarrow> u64 \<Rightarrow> 'w \<Rightarrow> sol_block option res \<times> 'w" where
  "sol_get_block en slot w =
     (case sol_make_request en (sol_block_request slot) w of
        (NoReply e, w') \<Rightarrow> (Err e, w')
      | (RpcError r e, w') \<Rightarrow>
          (case sr_Error r of
             Some x \<Rightarrow> if se_Code x = - 32004 then (Ok None, w') else (Err e, w')
           | None \<Rightarrow> (Err e, w'))
      | (Reply r, w') \<Rightarrow> (sol_parse_block (env_i64 en) (sr_Result r), w'))"

section \<open>Slots\<close>

definition sol_tx_data :: "sol_tx \<Rightarrow> gval" where
  "sol_tx_data tx = VMap [(''signature'', VStr (st_Signature tx)),
     (''successful'', VBool (st_Successful tx)), (''fee'', VInt64 (st_Fee tx))]"

definition sol_block_data :: "u64 \<Rightarrow> sol_block \<Rightarrow> block_data" where
  "sol_block_data slot b =
     \<lparr>bd_ChainID = 0, bd_ChainSymbol = ''SOL'', bd_BlockNumber = VUint64 slot,
      bd_BlockHash = sb_Blockhash b, bd_Timestamp = VInt64 (sb_BlockTime b), bd_ParentHash = [],
      bd_Transactions = VList (map sol_tx_data (filter (\<lambda>tx. st_Signature tx \<noteq> []) (sb_Transactions b)))\<rparr>"

definition sol_slot_error :: "u64 \<Rightarrow> goerr \<Rightarrow> goerr" where
  "sol_slot_error slot e =
     (let n = show_int 10 (uint slot) in
      if contains (err_text e) ''context deadline exceeded''
      then EWrap (''timeout fetching block for slot '' @ n @ '': '') e
      else if contains (err_text e) ''429''
      then EWrap (''rate limited when fetching block for slot '' @ n @ '': '') e
      else EWrap (''error fetching block for slot '' @ n @ '': '') e)"

text \<open>The slot has a deadline of its own, 30 seconds from when its processing starts.\<close>

definition sol_process_slot ::
  "'w sol_env \<Rightarrow> u64 \<Rightarrow> ('h, 'w) mon \<Rightarrow> unit res \<times> ('h, 'w) mon" where
  "sol_process_slot en slot s =
     (let (begun, w0) = now_ms (env_clock en) (net s) in
      case sol_get_block en slot w0 of
        (Err e, w) \<Rightarrow> (Err (sol_slot_error slot e), s\<lparr>net := w\<rparr>)
      | (Panic p, w) \<Rightarrow> (Panic p, s\<lparr>net := w\<rparr>)
      | (Ok None, w) \<Rightarrow> (Ok (), s\<lparr>net := w\<rparr>)
      | (Ok (Some b), w) \<Rightarrow>
          (let (t, w') = now_ms (env_clock en) w in
           if begun + 30000 \<le> t then
             (Err (EWrap (''context timeout while processing slot '' @ show_int 10 (uint slot) @ '': '')
                     (EMsg ''context deadline exceeded'')), s\<lparr>net := w'\<rparr>)
           else (Ok (), publish_block (sol_block_data slot b) (s\<lparr>net := w'\<rparr>))))"

section \<open>Batches under a deadline\<close>

text \<open>
  \<open>processCtx.Err() != nil\<close>: has the deadline passed? One slot of a batch that starts at \<open>start\<close>: wait, leave the batch with the new value of
  \<open>currentSlot\<close> if the deadline has passed, else process the slot and go on whatever comes of it.
\<close>

definition sol_expired :: "'w sol_env \<Rightarrow> int \<Rightarrow> ('h, 'w) mon \<Rightarrow> bool \<times> ('h, 'w) mon" where
  "sol_expired en deadline s =
     (case now_ms (env_clock en) (net s) of (t, w) \<Rightarrow> (deadline \<le> t, s\<lparr>net := w\<rparr>))"

definition sol_slot_body ::
  "'w sol_env \<Rightarrow> int \<Rightarrow> u64 \<Rightarrow> u64 \<Rightarrow> u64 \<Rightarrow> ('h, 'w) mon \<Rightarrow> u64 \<times> ('h, 'w) mon + ('h, 'w) mon" where
  "sol_slot_body en deadline prev start slot s =
     (let s1 = (if slot > start then s\<lparr>net := sleep_ms (env_clock en) 100 (net s)\<rparr> else s) in
      case sol_expired en deadline s1 of (late, s2) \<Rightarrow>
        if late then Inl (if slot > start then slot - 1 else prev, s2)
        else Inr (snd (sol_process_slot en slot s2)))"

fun sol_batches ::
  "'w sol_env \<Rightarrow> int \<Rightarrow> u64 \<Rightarrow> u64 list \<Rightarrow> u64 \<Rightarrow> ('h, 'w) mon \<Rightarrow> (u64 \<times> ('h, 'w) mon) option" where
  "sol_batches en deadline prev [] cur s = Some (cur, s)"
| "sol_batches en deadline prev (i # is) cur s =
     (case sol_expired en deadline s of (late, s1) \<Rightarrow>
      if late then Some (cur, s1)
      else
        let start = prev + 1 + i * 10;
            stop = (if start + 10 - 1 > cur then cur else start + 10 - 1)
        in case loop_u64 (sol_slot_body en deadline prev start) start stop s1 of
             None \<Rightarrow> None
           | Some (Inl (cur', s')) \<Rightarrow> sol_batches en deadline prev is cur' s'
           | Some (Inr s') \<Rightarrow> sol_batches en deadline prev is cur s')"

definition sol_batch_count :: "u64 \<Rightarrow> u64 \<Rightarrow> u64" where
  "sol_batch_count prev cur =
     (if (cur - prev) mod 10 > 0 then (cur - prev) div 10 + 1 else (cur - prev) div 10)"

definition sol_advance ::
  "'w sol_env \<Rightarrow> 'w cache_ops \<Rightarrow> u64 \<Rightarrow> u64 \<Rightarrow> ('h, 'w) mon \<Rightarrow> (unit res \<times> ('h, 'w) mon) option" where
  "sol_advance en cm prev cur s =
     (if cur > prev then
        (case now_ms (env_clock en) (net s) of (t, w0) \<Rightarrow>
         case sol_batches en (t + 45000) prev (map of_nat [0..<unat (sol_batch_count prev cur)]) cur
                (s\<lparr>net := w0\<rparr>) of
           None \<Rightarrow> None
         | Some (cur', s') \<Rightarrow>
             (case cm_set cm SolanaBlockIdentifier (VUint64 cur') 120 (net s') of
                (r, w) \<Rightarrow> Some (r, s'\<lparr>net := w\<rparr>)))
      else Some (Ok (), s))"

section \<open>Jobs\<close>

text \<open>
  The backup job: with a queue service in the context it schedules itself again, whatever comes of
  that; without one it does nothing.
\<close>

definition sol_backup_opts :: gomap where
  "sol_backup_opts = Some [(''delay'', VFloat (Fin 30000)), (''removeOnComplete'', VBool False),
     (''removeOnFail'', VBool False)]"

type_synonym 'w scheduler = "string \<Rightarrow> gomap \<Rightarrow> gomap \<Rightarrow> 'w \<Rightarrow> string res \<times> 'w"

definition QueueSolanaBlockMonitor :: string where
  "QueueSolanaBlockMonitor = ''SolanaBlockMonitor''"

definition sol_ensure_job ::
  "'w scheduler option \<Rightarrow> gomap \<Rightarrow> ('h, 'w) mon \<Rightarrow> unit res \<times> ('h, 'w) mon" where
  "sol_ensure_job qs jobData s =
     (case qs of
        None \<Rightarrow> (Ok (), s)
      | Some sched \<Rightarrow>
          (case sched QueueSolanaBlockMonitor jobData sol_backup_opts (net s) of
             (Panic p, w) \<Rightarrow> (Panic p, s\<lparr>net := w\<rparr>)
           | (_, w) \<Rightarrow> (Ok (), s\<lparr>net := w\<rparr>)))"

definition sol_run_job ::
  "'w sol_env \<Rightarrow> 'w cache_ops \<Rightarrow> ('h, 'w) mon \<Rightarrow> (unit res \<times> ('h, 'w) mon) option" where
  "sol_run_job en cm s =
     (case cm_get cm SolanaBlockIdentifier (net s) of
        (Err e, w) \<Rightarrow> Some (Err e, s\<lparr>net := w\<rparr>)
      | (Panic p, w) \<Rightarrow> Some (Panic p, s\<lparr>net := w\<rparr>)
      | (Ok v, w) \<Rightarrow>
          (case sol_current_slot en w of
             (Err e, w') \<Rightarrow> Some (Err e, s\<lparr>net := w'\<rparr>)
           | (Panic p, w') \<Rightarrow> Some (Panic p, s\<lparr>net := w'\<rparr>)
           | (Ok cur, w') \<Rightarrow>
               if cached_height (env_u64 en) v = 0
               then monitor_init cm SolanaBlockIdentifier cur (s\<lparr>net := w'\<rparr>)
               else sol_advance en cm (cached_height (env_u64 en) v) cur (s\<lparr>net := w'\<rparr>)))"

definition sol_process_job ::
  "'w sol_env \<Rightarrow> 'w cache_ops \<Rightarrow> 'w scheduler option \<Rightarrow> gomap \<Rightarrow> ('h, 'w) mon
     \<Rightarrow> (unit res \<times> ('h, 'w) mon) option" where
  "sol_process_job en cm qs jobData s =
     (if Option.bind jobData (\<lambda>kvs. map_of kvs ''action'') = Some (VStr ''ensure_monitor_job'')
      then Some (sol_ensure_job qs jobData s)
      else sol_run_job en cm s)"

end
