(* ===== verification/EvmMonitor.thy ===== *)
theory EvmMonitor
  imports BlockMonitors
begin

text \<open>
  \<open>managers/workers/evm_block_monitor.go\<close>. The Ethereum client library is a parameter
  (\<open>eth_api\<close>): dialling a node, asking for the current block number, fetching a block.
\<close>

record chain_config =
  cc_RpcURL :: string
  cc_ChainID :: int
  cc_Name :: string
  cc_Symbol :: string

definition ChainConfigs :: "(string \<times> chain_config) list" where
  "ChainConfigs = [
     (''matic'', \<lparr>cc_RpcURL = ''https://polygon-rpc.com'', cc_ChainID = 137,
        cc_Name = ''Polygon'', cc_Symbol = ''MATIC''\<rparr>),
     (''op'', \<lparr>cc_RpcURL = ''https://mainnet.optimism.io'', cc_ChainID = 10,
        cc_Name = ''Optimism'', cc_Symbol = ''OP''\<rparr>),
     (''dai'', \<lparr>cc_RpcURL = ''https://rpc.xdaichain.com'', cc_ChainID = 100,
        cc_Name = ''Gnosis Chain'', cc_Symbol = ''DAI''\<rparr>),
     (''bnb'', \<lparr>cc_RpcURL = ''https://bsc-dataseed.binance.org'', cc_ChainID = 56,
        cc_Name = ''BNB Chain'', cc_Symbol = ''BNB''\<rparr>),
     (''arb'', \<lparr>cc_RpcURL = ''https://arb1.arbitrum.io/rpc'', cc_ChainID = 42161,
        cc_Name = ''Arbitrum One'', cc_Symbol = ''ARB''\<rparr>),
     (''eth'', \<lparr>cc_RpcURL = ''https://mainnet.infura.io/v3/9aa3d95b3bc440fa88ea12eaa4456161'',
        cc_ChainID = 1, cc_Name = ''Ethereum'', cc_Symbol = ''ETH''\<rparr>)]"

record eth_block =
  eb_number :: u64
  eb_hash :: string
  eb_time :: u64
  eb_parent :: string
  eb_txs :: "string list"

record ('c, 'w) eth_api =
  dial :: "string \<Rightarrow> 'w \<Rightarrow> (goerr + 'c) \<times> 'w"
  block_number :: "'c \<Rightarrow> 'w \<Rightarrow> (goerr + u64) \<times> 'w"
  block_by_number :: "'c \<Rightarrow> int \<Rightarrow> 'w \<Rightarrow> (goerr + eth_block option) \<times> 'w"

record ('c, 'h, 'w) evm_mon = "('h, 'w) mon" +
  clients :: "int \<rightharpoonup> 'c"

definition EVMBlockIdentifier :: string where
  "EVMBlockIdentifier = ''evm:last-block-height''"

definition evm_cache_key :: "int \<Rightarrow> string" where
  "evm_cache_key chainID = EVMBlockIdentifier @ ''_'' @ show_int 10 chainID"

section \<open>Operations\<close>

text \<open>\<open>Initialize\<close>: dial every configured chain; a chain that fails is logged and left out.\<close>

definition evm_initialize ::
  "('c, 'w) eth_api \<Rightarrow> ('c, 'h, 'w) evm_mon \<Rightarrow> unit res \<times> ('c, 'h, 'w) evm_mon" where
  "evm_initialize api s =
     (Ok (), fold (\<lambda>(_, cc) s.
        case dial api (cc_RpcURL cc) (net s) of
          (Inl e, w) \<Rightarrow> s\<lparr>net := w\<rparr>
        | (Inr c, w) \<Rightarrow> s\<lparr>net := w, clients := (clients s)(cc_ChainID cc \<mapsto> c)\<rparr>) ChainConfigs s)"

text \<open>The chain id and symbol of the job data.\<close>

definition evm_chain_id :: "(f64 \<Rightarrow> int) \<Rightarrow> (string \<times> gval) list \<Rightarrow> int res" where
  "evm_chain_id oori jobData =
     (case map_of jobData ''chainId'' of
        None \<Rightarrow> Ok 0
      | Some (VFloat x) \<Rightarrow> Ok (i64_of_f64 oori x)
      | Some (VInt i) \<Rightarrow> Ok i
      | Some _ \<Rightarrow> Err (EMsg ''invalid chainId type''))"

definition evm_chain_symbol :: "(string \<times> gval) list \<Rightarrow> string" where
  "evm_chain_symbol jobData =
     (case map_of jobData ''chainSymbol'' of Some (VStr cs) \<Rightarrow> cs | _ \<Rightarrow> [])"

definition find_chain :: "int \<Rightarrow> chain_config option" where
  "find_chain chainID = find (\<lambda>cc. cc_ChainID cc = chainID) (map snd ChainConfigs)"

text \<open>The client of a chain; dialled now if it is not there yet.\<close>

definition evm_client ::
  "('c, 'w) eth_api \<Rightarrow> int \<Rightarrow> chain_config \<Rightarrow> ('c, 'h, 'w) evm_mon
     \<Rightarrow> (goerr + 'c) \<times> ('c, 'h, 'w) evm_mon" where
  "evm_client api chainID target s =
     (case clients s chainID of
        Some c \<Rightarrow> (Inr c, s)
      | None \<Rightarrow>
          (case dial api (cc_RpcURL target) (net s) of
             (Inl e, w) \<Rightarrow>
               (Inl (EWrap (''failed to connect to chain '' @ cc_Name target @ '': '') e), s\<lparr>net := w\<rparr>)
           | (Inr c, w) \<Rightarrow> (Inr c, s\<lparr>net := w, clients := (clients s)(chainID \<mapsto> c)\<rparr>)))"

text \<open>\<open>processBlockAtHeight\<close>: the height goes to the client as \<open>big.NewInt(int64(height))\<close>.\<close>

definition evm_block_data :: "int \<Rightarrow> string \<Rightarrow> eth_block \<Rightarrow> block_data" where
  "evm_block_data chainID chainSymbol b =
     \<lparr>bd_ChainID = chainID, bd_ChainSymbol = chainSymbol, bd_BlockNumber = VUint64 (eb_number b),
      bd_BlockHash = eb_hash b, bd_Timestamp = VUint64 (eb_time b), bd_ParentHash = eb_parent b,
      bd_Transactions = VList (map VStr (eb_txs b))\<rparr>"

definition evm_process_block ::
  "('c, 'w) eth_api \<Rightarrow> 'c \<Rightarrow> int \<Rightarrow> string \<Rightarrow> u64 \<Rightarrow> ('c, 'h, 'w) evm_mon
     \<Rightarrow> unit res \<times> ('c, 'h, 'w) evm_mon" where
  "evm_process_block api client chainID chainSymbol height s =
     (case block_by_number api client (sint height) (net s) of
        (Inl e, w) \<Rightarrow> (Err (EWrap ''error fetching block: '' e), s\<lparr>net := w\<rparr>)
      | (Inr None, w) \<Rightarrow>
          (Err (EMsg (''no block returned for height '' @ show_nat 10 (unat height))), s\<lparr>net := w\<rparr>)
      | (Inr (Some b), w) \<Rightarrow>
          (Ok (), publish_block (evm_block_data chainID chainSymbol b) (s\<lparr>net := w\<rparr>)))"

text \<open>The job once the chain and its client are known.\<close>

definition evm_run ::
  "('c, 'w) eth_api \<Rightarrow> 'w cache_ops \<Rightarrow> (f64 \<Rightarrow> u64) \<Rightarrow> int \<Rightarrow> string \<Rightarrow> 'c
     \<Rightarrow> ('c, 'h, 'w) evm_mon \<Rightarrow> (unit res \<times> ('c, 'h, 'w) evm_mon) option" where
  "evm_run api cm oor chainID chainSymbol client s =
     (let key = evm_cache_key chainID in
      case cm_get cm key (net s) of
        (Err e, w) \<Rightarrow> Some (Err e, s\<lparr>net := w\<rparr>)
      | (Panic p, w) \<Rightarrow> Some (Panic p, s\<lparr>net := w\<rparr>)
      | (Ok v, w) \<Rightarrow>
          (case block_number api client w of
             (Inl e, w') \<Rightarrow> Some (Err e, s\<lparr>net := w'\<rparr>)
           | (Inr cur, w') \<Rightarrow>
               if cached_height oor v = 0 then monitor_init cm key cur (s\<lparr>net := w'\<rparr>)
               else monitor_advance cm key 120
                      (skip_errors (evm_process_block api client chainID chainSymbol))
                      (cached_height oor v) cur (s\<lparr>net := w'\<rparr>)))"

definition evm_process_job ::
  "('c, 'w) eth_api \<Rightarrow> 'w cache_ops \<Rightarrow> (f64 \<Rightarrow> u64) \<Rightarrow> (f64 \<Rightarrow> int) \<Rightarrow> (string \<times> gval) list
     \<Rightarrow> ('c, 'h, 'w) evm_mon \<Rightarrow> (unit res \<times> ('c, 'h, 'w) evm_mon) option" where
  "evm_process_job api cm oor oori jobData s =
     (case evm_chain_id oori jobData of
        Err e \<Rightarrow> Some (Err e, s)
      | Panic p \<Rightarrow> Some (Panic p, s)
      | Ok chainID \<Rightarrow>
          if chainID = 0 then Some (Err (EMsg ''no chainId found in job data''), s)
          else
            (case find_chain chainID of
               None \<Rightarrow> Some (Err (EMsg (''unsupported chain ID: '' @ show_int 10 chainID)), s)
             | Some target \<Rightarrow>
                 let chainSymbol = (if evm_chain_symbol jobData = [] then cc_Symbol target
                                    else evm_chain_symbol jobData)
                 in (case evm_client api chainID target s of
                       (Inl e, s') \<Rightarrow> Some (Err e, s')
                     | (Inr client, s') \<Rightarrow> evm_run api cm oor chainID chainSymbol client s')))"

section \<open>Lemmas\<close>

text \<open>A node whose answers leave the cached data alone.\<close>

definition eth_indep :: "('c, 'w) eth_api \<Rightarrow> ('w \<Rightarrow> 'v) \<Rightarrow> bool" where
  "eth_indep api view \<longleftrightarrow>
     (\<forall>u w. view (snd (dial api u w)) = view w)
   \<and> (\<forall>c w. view (snd (block_number api c w)) = view w)
   \<and> (\<forall>c n w. view (snd (block_by_number api c n w)) = view w)"

lemma eth_indepD:
  assumes "eth_indep api view"
  shows "dial api u w = (r, w') \<Longrightarrow> view w' = view w"
    and "block_number api c w = (r2, w') \<Longrightarrow> view w' = view w"
    and "block_by_number api c n w = (r3, w') \<Longrightarrow> view w' = view w"
  using assms unfolding eth_indep_def by (metis snd_conv)+

lemma evm_process_block_not_Panic [simp]:
  "fst (evm_process_block api c cid symb h s) \<noteq> Panic p"
  by (auto simp: evm_process_block_def split: prod.splits sum.splits option.splits)

lemma evm_process_block_view:
  "eth_indep api view \<Longrightarrow>
     view (net (snd (evm_process_block api c cid symb h s))) = view (net s)"
  by (auto simp: evm_process_block_def publish_block_def dest: eth_indepD(3)
      split: prod.splits sum.splits option.splits)

lemma evm_process_block_clients [simp]:
  "clients (snd (evm_process_block api c cid symb h s)) = clients s"
  by (auto simp: evm_process_block_def publish_block_def split: prod.splits sum.splits option.splits)

lemma evm_fold_view:
  "eth_indep api view \<Longrightarrow>
     view (net (fold (\<lambda>h s. snd (evm_process_block api c cid symb h s)) hs s)) = view (net s)"
  by (induction hs arbitrary: s) (simp_all add: evm_process_block_view)

text \<open>The events a run publishes when the node answers each height with \<open>fetch h\<close>.\<close>

definition eth_serves :: "('c, 'w) eth_api \<Rightarrow> 'c \<Rightarrow> (u64 \<Rightarrow> goerr + eth_block option) \<Rightarrow> bool" where
  "eth_serves api c fetch \<longleftrightarrow> (\<forall>h w. fst (block_by_number api c (sint h) w) = fetch h)"

definition fetched_blocks :: "(u64 \<Rightarrow> goerr + eth_block option) \<Rightarrow> u64 list \<Rightarrow> eth_block list" where
  "fetched_blocks fetch hs = List.map_filter (\<lambda>h. case fetch h of Inr b \<Rightarrow> b | Inl _ \<Rightarrow> None) hs"

lemma fetched_blocks_simps [simp]:
  "fetched_blocks fetch [] = []"
  "fetched_blocks fetch (h # hs) =
     (case fetch h of Inr (Some b) \<Rightarrow> b # fetched_blocks fetch hs | _ \<Rightarrow> fetched_blocks fetch hs)"
  "fetched_blocks fetch (hs @ hs') = fetched_blocks fetch hs @ fetched_blocks fetch hs'"
  by (simp_all add: fetched_blocks_def map_filter_simps map_filter_def
      split: sum.splits option.splits)

lemma evm_process_block_ev:
  assumes "eth_serves api c fetch"
  shows "ev (snd (evm_process_block api c cid symb h s)) =
    (case fetch h of
       Inr (Some b) \<Rightarrow> publish ''handleBlockFound'' (evm_block_data cid symb b) (ev s)
     | _ \<Rightarrow> ev s)"
proof -
  obtain r w where c: "block_by_number api c (sint h) (net s) = (r, w)" by (metis surj_pair)
  with assms have "fetch h = r" unfolding eth_serves_def by (metis fst_conv)
  with c show ?thesis
    by (auto simp: evm_process_block_def publish_block_def split: sum.splits option.splits)
qed

lemma evm_fold_ev:
  assumes "eth_serves api c fetch"
  shows "ev (fold (\<lambda>h s. snd (evm_process_block api c cid symb h s)) hs s)
     = fold (publish ''handleBlockFound'') (map (evm_block_data cid symb) (fetched_blocks fetch hs)) (ev s)"
  by (induction hs arbitrary: s)
    (auto simp: evm_process_block_ev [OF assms] split: sum.splits option.splits)

section \<open>Whole jobs\<close>

text \<open>The node with \<open>cur\<close> as its current block number.\<close>

definition at_head :: "('c, 'w) eth_api \<Rightarrow> u64 \<Rightarrow> ('c, 'w) eth_api" where
  "at_head api cur = api\<lparr>block_number := \<lambda>_ w. (Inr cur, w)\<rparr>"

lemma at_head_sel [simp]:
  "block_number (at_head api cur) c w = (Inr cur, w)"
  "block_by_number (at_head api cur) = block_by_number api"
  "dial (at_head api cur) = dial api"
  by (simp_all add: at_head_def)

definition evm_symbol :: "(string \<times> gval) list \<Rightarrow> chain_config \<Rightarrow> string" where
  "evm_symbol jobData target =
     (if evm_chain_symbol jobData = [] then cc_Symbol target else evm_chain_symbol jobData)"

definition evm_height :: "('w \<Rightarrow> keyspace) \<Rightarrow> (f64 \<Rightarrow> u64) \<Rightarrow> int \<Rightarrow> ('c, 'h, 'w) evm_mon \<Rightarrow> u64" where
  "evm_height view oor cid s = cached_height oor (cache_look (view (net s)) (evm_cache_key cid))"

text \<open>
  The chain of the job data is configured and connected, its cache entry can be read, the node
  answers each height with \<open>fetch\<close>, and \<open>hs\<close> are the handlers of the event.
\<close>

definition evm_ready ::
  "('c, 'w) eth_api \<Rightarrow> 'w redis \<Rightarrow> ('w \<Rightarrow> keyspace) \<Rightarrow> (f64 \<Rightarrow> int) \<Rightarrow> (string \<times> gval) list \<Rightarrow> int
     \<Rightarrow> chain_config \<Rightarrow> 'c \<Rightarrow> (u64 \<Rightarrow> goerr + eth_block option) \<Rightarrow> 'h list
     \<Rightarrow> ('c, 'h, 'w) evm_mon \<Rightarrow> bool" where
  "evm_ready api cl view oori jd cid target c fetch hs s \<longleftrightarrow>
     eth_indep api view \<and> eth_serves api c fetch \<and> cache_ok cl view {evm_cache_key cid} (net s)
   \<and> evm_chain_id oori jd = Ok cid \<and> find_chain cid = Some target \<and> clients s cid = Some c
   \<and> handlers_of (ev s) ''handleBlockFound'' = hs"

text \<open>The handler calls a block starts; a height the node does not serve starts none.\<close>

definition evm_emit ::
  "int \<Rightarrow> string \<Rightarrow> (u64 \<Rightarrow> goerr + eth_block option) \<Rightarrow> 'h list \<Rightarrow> u64 \<Rightarrow> ('h \<times> block_data) list" where
  "evm_emit cid symb fetch hs h =
     (case fetch h of Inr (Some b) \<Rightarrow> map (\<lambda>hd. (hd, evm_block_data cid symb b)) hs | _ \<Rightarrow> [])"

lemma find_chain_nonzero: "find_chain cid = Some target \<Longrightarrow> cid \<noteq> 0"
  by (auto simp: find_chain_def ChainConfigs_def split: if_splits)

lemma handlers_of_publish_fold [simp]:
  "handlers_of (fold (publish n) ds em) n' = handlers_of em n'"
  by (induction ds arbitrary: em) simp_all

lemma evm_emit_fetched:
  "concat (map (\<lambda>d. map (\<lambda>hd. (hd, d)) hs) (map (evm_block_data cid symb) (fetched_blocks fetch ks)))
     = concat (map (evm_emit cid symb fetch hs) ks)"
  by (induction ks) (auto simp: evm_emit_def fetched_blocks_def map_filter_simps
      split: sum.splits option.splits)

lemma evm_process_job_ready:
  assumes "evm_ready api cl view oori jd cid target c fetch hs s"
  shows "evm_process_job (at_head api cur) cm oor oori jd s
     = evm_run (at_head api cur) cm oor cid (evm_symbol jd target) c s"
  using assms find_chain_nonzero [of cid target]
  by (simp add: evm_ready_def evm_process_job_def evm_client_def evm_symbol_def Let_def)

text \<open>Reading the height and the head, which changes neither the cache nor the events.\<close>

lemma evm_run_ready:
  assumes "evm_ready api cl view oori jd cid target c fetch hs s"
  obtains w where "evm_ready api cl view oori jd cid target c fetch hs (s\<lparr>net := w\<rparr>)"
    "evm_height view oor cid (s\<lparr>net := w\<rparr>) = evm_height view oor cid s"
    "\<And>cur. evm_run (at_head api cur) (cache_manager cl) oor cid symb c s =
       (if evm_height view oor cid s = 0
        then monitor_init (cache_manager cl) (evm_cache_key cid) cur (s\<lparr>net := w\<rparr>)
        else monitor_advance (cache_manager cl) (evm_cache_key cid) 120
               (skip_errors (evm_process_block api c cid symb))
               (evm_height view oor cid s) cur (s\<lparr>net := w\<rparr>))"
proof -
  let ?k = "evm_cache_key cid"
  have ok: "cache_ok cl view {?k} (net s)" using assms by (simp add: evm_ready_def)
  obtain r w where c: "cm_get (cache_manager cl) ?k (net s) = (r, w)" by (metis surj_pair)
  note cache.get_val [OF ok, of ?k] cache.get_ok [OF ok, of ?k] cache.get_look [OF ok, of ?k]
  then have g: "r = Ok (cache_look (view (net s)) ?k)" "cache_ok cl view {?k} w"
    "cache_look (view w) = cache_look (view (net s))" by (simp_all only: c fst_conv snd_conv insertI1)
  have p: "evm_process_block (at_head api cur) = (evm_process_block api :: _ \<Rightarrow> _)" for cur
    by (simp add: evm_process_block_def fun_eq_iff)
  show ?thesis
  proof (rule that [of w])
    show "evm_ready api cl view oori jd cid target c fetch hs (s\<lparr>net := w\<rparr>)"
      using assms g(2) by (simp add: evm_ready_def)
    show "evm_height view oor cid (s\<lparr>net := w\<rparr>) = evm_height view oor cid s"
      by (simp add: evm_height_def g(3))
    show "evm_run (at_head api cur) (cache_manager cl) oor cid symb c s =
       (if evm_height view oor cid s = 0
        then monitor_init (cache_manager cl) (evm_cache_key cid) cur (s\<lparr>net := w\<rparr>)
        else monitor_advance (cache_manager cl) (evm_cache_key cid) 120
               (skip_errors (evm_process_block api c cid symb))
               (evm_height view oor cid s) cur (s\<lparr>net := w\<rparr>))" for cur
      using c by (simp add: evm_run_def Let_def g(1) evm_height_def p)
  qed
qed

abbreviation evm_job where
  "evm_job api cl oor oori jd cur \<equiv> evm_process_job (at_head api cur) (cache_manager cl) oor oori jd"

lemma evm_fold_clients [simp]:
  "clients (fold (\<lambda>h s. snd (evm_process_block api c cid symb h s)) ks s) = clients s"
  by (induction ks arbitrary: s) simp_all

lemma evm_emit_fold:
  fixes ks symb
  assumes "evm_ready api cl view oori jd cid target c fetch hs s"
  defines "t \<equiv> fold (\<lambda>h s. snd (evm_process_block api c cid symb h s)) ks s"
  shows "spawned (ev t) = spawned (ev s) @ concat (map (evm_emit cid symb fetch hs) ks)"
    and "evm_ready api cl view oori jd cid target c fetch hs (t\<lparr>net := net s\<rparr>)"
    and "view (net t) = view (net s)"
proof -
  from assms(1) have e: "eth_serves api c fetch" and i: "eth_indep api view"
    by (simp_all add: evm_ready_def)
  have ev: "ev t = fold (publish ''handleBlockFound'')
      (map (evm_block_data cid symb) (fetched_blocks fetch ks)) (ev s)"
    by (simp add: t_def evm_fold_ev [OF e])
  show "evm_ready api cl view oori jd cid target c fetch hs (t\<lparr>net := net s\<rparr>)"
    using assms(1) by (simp add: evm_ready_def ev) (simp add: t_def)
  show "spawned (ev t) = spawned (ev s) @ concat (map (evm_emit cid symb fetch hs) ks)"
    using assms(1)
    by (simp add: ev spawned_publish_fold evm_emit_fetched [symmetric] evm_ready_def)
  show "view (net t) = view (net s)" by (simp add: t_def evm_fold_view [OF i])
qed

interpretation evm: height_job
  "evm_job api cl oor oori jd" "evm_height view oor cid" "\<lambda>s. spawned (ev s)"
  "evm_emit cid (evm_symbol jd target) fetch hs" "evm_ready api cl view oori jd cid target c fetch hs"
  for api cl view oor oori jd cid target c fetch hs
proof unfold_locales
  let ?symb = "evm_symbol jd target" and ?k = "evm_cache_key cid"
  let ?ready = "evm_ready api cl view oori jd cid target c fetch hs"
  fix s and cur :: u64
  assume r: "?ready s"
  from evm_run_ready [OF r, where symb = ?symb and oor = oor] obtain w where
    w: "?ready (s\<lparr>net := w\<rparr>)"
      "evm_height view oor cid (s\<lparr>net := w\<rparr>) = evm_height view oor cid s" and
    run: "\<And>cur. evm_run (at_head api cur) (cache_manager cl) oor cid ?symb c s =
       (if evm_height view oor cid s = 0
        then monitor_init (cache_manager cl) ?k cur (s\<lparr>net := w\<rparr>)
        else monitor_advance (cache_manager cl) ?k 120 (skip_errors (evm_process_block api c cid ?symb))
               (evm_height view oor cid s) cur (s\<lparr>net := w\<rparr>))" by metis
  from w(1) have ok: "cache_ok cl view {?k} (net (s\<lparr>net := w\<rparr>))" by (simp add: evm_ready_def)
  note job = evm_process_job_ready [OF r] run
  { assume h: "evm_height view oor cid s = 0" and cur: "unat cur \<le> 2 ^ 53"
    from cache.init_height [OF ok _ cur, where key = ?k and oor = oor] obtain w' where
      "monitor_init (cache_manager cl) ?k cur (s\<lparr>net := w\<rparr>) = Some (Ok (), s\<lparr>net := w'\<rparr>)"
      "cache_ok cl view {?k} w'" "cached_height oor (cache_look (view w') ?k) = cur" by auto
    with h r show "\<exists>s'. evm_job api cl oor oori jd cur s = Some (Ok (), s') \<and> ?ready s'
        \<and> evm_height view oor cid s' = cur \<and> spawned (ev s') = spawned (ev s)"
      by (intro exI [of _ "s\<lparr>net := w'\<rparr>"]) (simp add: job, simp add: evm_ready_def evm_height_def) }
  { assume h: "evm_height view oor cid s \<noteq> 0" "evm_height view oor cid s < cur"
      and cur: "unat cur \<le> 2 ^ 53"
    let ?ks = "heights_after (evm_height view oor cid s) cur"
    let ?t = "fold (\<lambda>h s. snd (evm_process_block api c cid ?symb h s)) ?ks (s\<lparr>net := w\<rparr>)"
    note f = evm_emit_fold [OF w(1), where symb = ?symb and ks = ?ks]
    from f(3) ok have "cache_ok cl view {?k} (net ?t)" by (simp add: cache_ok_def)
    from cache.advance_fold [OF _ h(2) cur evm_process_block_not_Panic this, where ttl = 120 and oor = oor]
    obtain w' where "monitor_advance (cache_manager cl) ?k 120
        (skip_errors (evm_process_block api c cid ?symb)) (evm_height view oor cid s) cur (s\<lparr>net := w\<rparr>)
          = Some (Ok (), ?t\<lparr>net := w'\<rparr>)"
      "cache_ok cl view {?k} w'" "cached_height oor (cache_look (view w') ?k) = cur" by auto
    with h f(1,2) show "\<exists>s'. evm_job api cl oor oori jd cur s = Some (Ok (), s') \<and> ?ready s'
        \<and> evm_height view oor cid s' = cur
        \<and> spawned (ev s') = spawned (ev s) @ concat (map (evm_emit cid ?symb fetch hs) ?ks)"
      by (intro exI [of _ "?t\<lparr>net := w'\<rparr>"]) (simp add: job, simp add: evm_ready_def evm_height_def) }
  { assume h: "evm_height view oor cid s \<noteq> 0" "cur \<le> evm_height view oor cid s"
    with w show "\<exists>s'. evm_job api cl oor oori jd cur s = Some (Ok (), s') \<and> ?ready s'
        \<and> evm_height view oor cid s' = evm_height view oor cid s \<and> spawned (ev s') = spawned (ev s)"
      by (intro exI [of _ "s\<lparr>net := w\<rparr>"]) (simp add: job advance_idle) }
qed

section \<open>Properties\<close>


definition demo_block :: "u64 \<Rightarrow> eth_block" where
  "demo_block h = \<lparr>eb_number = h, eb_hash = ''0xb'', eb_time = 1, eb_parent = ''0xa'', eb_txs = [''0x1'']\<rparr>"

definition demo_fetch :: "u64 \<Rightarrow> goerr + eth_block option" where
  "demo_fetch h = Inr (if h = 6 then None else Some (demo_block h))"

definition demo_api :: "(unit, keyspace) eth_api" where
  "demo_api = \<lparr>dial = (\<lambda>_ w. (Inr (), w)), block_number = (\<lambda>_ w. (Inr 7, w)),
     block_by_number = (\<lambda>_ n w. (demo_fetch (of_int n), w))\<rparr>"

definition demo_cache :: "int \<Rightarrow> keyspace" where
  "demo_cache cid = [evm_cache_key cid \<mapsto> (SV (Enc (JObj [(''data'', JNum 5)])), 120)]"

definition demo_mon :: "(unit, string, keyspace) evm_mon" where
  "demo_mon = \<lparr>net = demo_cache 1, ev = subscribe ''handleBlockFound'' ''h'' new_event_manager,
     clients = [1 \<mapsto> ()]\<rparr>"

lemma demo_ready:
  "evm_ready demo_api mem_redis id (\<lambda>_. 0) [(''chainId'', VInt 1)] 1
     \<lparr>cc_RpcURL = ''https://mainnet.infura.io/v3/9aa3d95b3bc440fa88ea12eaa4456161'',
        cc_ChainID = 1, cc_Name = ''Ethereum'', cc_Symbol = ''ETH''\<rparr>
     () demo_fetch [''h''] demo_mon"
  by (simp add: evm_ready_def eth_indep_def eth_serves_def demo_api_def cache_ok_def mem_redis_ok
      entry_ok_def demo_mon_def demo_cache_def unmarshal_data evm_chain_id_def find_chain_def
      ChainConfigs_def)

lemma demo_height: "evm_height id (\<lambda>_. 0) 1 demo_mon = 5"
  by (simp add: evm_height_def demo_mon_def demo_cache_def cache_look_def unmarshal_data
      cached_height_def u64_of_f64_def trunc_rat_def)


text \<open>
  C13: An EVM monitor job always returns, whatever the job data, the cache and the node do, as long
  as the node never reports the largest \<open>uint64\<close> as its current block number.
\<close>

theorem evm_job_returns:
  assumes "\<forall>c w. fst (block_number api c w) \<noteq> Inr (- 1)"
  shows "\<exists>r s'. evm_process_job api cm oor oori jd s = Some (r, s')"
proof -
  have "\<exists>r s'. evm_run api cm oor cid symb c s = Some (r, s')" for cid symb c s
  proof -
    obtain r w where g: "cm_get cm (evm_cache_key cid) (net s) = (r, w)" by (metis surj_pair)
    obtain b w' where n: "block_number api c w = (b, w')" by (metis surj_pair)
    with assms have "b \<noteq> Inr (- 1)" by (metis fst_conv)
    with g n show ?thesis
      by (auto simp: evm_run_def Let_def advance_returns split: res.split sum.split)
  qed
  then show ?thesis
    by (auto simp: evm_process_job_def Let_def split: res.split option.split prod.split sum.split)
qed

theorem evm_job_returns_witness:
  "\<exists>r s'. evm_process_job demo_api (cache_manager mem_redis) (\<lambda>_. 0) (\<lambda>_. 0)
     [(''chainId'', VInt 1)] demo_mon = Some (r, s')"
  by (rule evm_job_returns) (simp add: demo_api_def)

text \<open>
  With the largest \<open>uint64\<close> as the current block number the loop over the new blocks never
  ends, because its counter wraps around: the job does not return.
\<close>

theorem evm_job_diverges:
  assumes "evm_ready api cl view oori jd cid target c fetch hs s"
    and "evm_height view oor cid s \<noteq> 0" "evm_height view oor cid s \<noteq> - 1"
  shows "evm_process_job (at_head api (- 1)) (cache_manager cl) oor oori jd s = None"
proof -
  from evm_run_ready [OF assms(1), where symb = "evm_symbol jd target" and oor = oor] obtain w where
    "evm_run (at_head api (- 1)) (cache_manager cl) oor cid (evm_symbol jd target) c s =
       monitor_advance (cache_manager cl) (evm_cache_key cid) 120
         (skip_errors (evm_process_block api c cid (evm_symbol jd target)))
         (evm_height view oor cid s) (- 1) (s\<lparr>net := w\<rparr>)"
    using assms(2) by metis
  with advance_max [OF assms(3) evm_process_block_not_Panic] show ?thesis
    by (simp add: evm_process_job_ready [OF assms(1)])
qed

theorem evm_job_diverges_witness:
  "evm_process_job (at_head demo_api (- 1)) (cache_manager mem_redis) (\<lambda>_. 0) (\<lambda>_. 0)
     [(''chainId'', VInt 1)] demo_mon = None"
  by (rule evm_job_diverges [OF demo_ready, where oor = "\<lambda>_. 0"]) (simp_all add: demo_height)

text \<open>
  While no node reports its block number, every EVM monitor job ends with an error, whatever the
  job data and the state: nothing is published, and the connections that were open stay open.
\<close>

theorem evm_job_no_head:
  assumes "\<forall>c w. \<exists>e. fst (block_number api c w) = Inl e"
    and "\<forall>k w p. fst (cm_get cm k w) \<noteq> Panic p" "\<forall>p. evm_chain_id oori jd \<noteq> Panic p"
  shows "\<exists>e s'. evm_process_job api cm oor oori jd s = Some (Err e, s')
    \<and> ev s' = ev s \<and> clients s \<subseteq>\<^sub>m clients s'"
proof -
  have run: "\<exists>e w. evm_run api cm oor cid symb c s = Some (Err e, s\<lparr>net := w\<rparr>)" for cid symb c s
  proof -
    obtain r w where g: "cm_get cm (evm_cache_key cid) (net s) = (r, w)" by (metis surj_pair)
    obtain b w' where n: "block_number api c w = (b, w')" by (metis surj_pair)
    have "\<exists>e. b = Inl e" using assms(1) n by (metis fst_conv)
    moreover have "r \<noteq> Panic p" for p using assms(2) g by (metis fst_conv)
    ultimately show ?thesis using g n
      by (cases r) (auto simp: evm_run_def Let_def)
  qed
  have client: "\<exists>s'. (evm_client api cid t s = (b, s')) \<and> ev s' = ev s \<and> clients s \<subseteq>\<^sub>m clients s'"
    if "evm_client api cid t s = (b, s1)" for cid t b s1
    using that by (auto simp: evm_client_def map_le_def split: option.splits prod.splits sum.splits)
  show ?thesis
  proof (cases "evm_chain_id oori jd")
    case (Ok cid)
    show ?thesis
    proof (cases "cid = 0 \<or> find_chain cid = None")
      case False
      then obtain t where t: "find_chain cid = Some t" "cid \<noteq> 0" by auto
      obtain b s1 where b: "evm_client api cid t s = (b, s1)" by (metis surj_pair)
      with client have s1: "ev s1 = ev s" "clients s \<subseteq>\<^sub>m clients s1" by fastforce+
      show ?thesis
      proof (cases b)
        case (Inr c)
        from run [of cid "evm_symbol jd t" c s1] obtain e w where
          "evm_run api cm oor cid (evm_symbol jd t) c s1 = Some (Err e, s1\<lparr>net := w\<rparr>)" by blast
        with Ok t b Inr s1 show ?thesis by (simp add: evm_process_job_def evm_symbol_def)
      qed (use Ok t b s1 in \<open>simp add: evm_process_job_def\<close>)
    qed (use Ok in \<open>auto simp: evm_process_job_def\<close>)
  qed (use assms(3) in \<open>auto simp: evm_process_job_def\<close>)
qed

theorem evm_job_no_head_witness:
  "\<exists>e s'. evm_process_job (demo_api\<lparr>block_number := \<lambda>_ w. (Inl (EMsg ''timeout''), w)\<rparr>)
       (cache_manager mem_redis) (\<lambda>_. 0) (\<lambda>_. 0) [(''chainId'', VInt 1)] demo_mon = Some (Err e, s')
    \<and> ev s' = ev demo_mon \<and> clients demo_mon \<subseteq>\<^sub>m clients s'"
  by (rule evm_job_no_head)
    (auto simp: cache_get_def evm_chain_id_def split: prod.split redis_reply.split res.split)

end
