(* ===== verification/BtcMonitor.thy ===== *)
theory BtcMonitor
  imports BlockMonitors "HOL-Library.Monad_Syntax"
begin

text \<open>
  \<open>managers/workers/bitcoin_block_monitor.go\<close>: the monitor of the Bitcoin chain over the
  blockchain.info service, which is the HTTP parameter. \<open>None\<close> from a decoder is a decoding error.
\<close>

record btc_block_response =
  bb_Hash :: string
  bb_Height :: u64
  bb_Time :: int
  bb_MainChain :: bool

record btc_latest_response =
  bl_Hash :: string
  bl_Height :: u64
  bl_Time :: int

record btc_raw_response =
  br_Hash :: string
  br_Height :: u64
  br_Time :: int
  br_Transactions :: "string list"

definition dec_btc_block :: "json \<Rightarrow> btc_block_response option" where
  "dec_btc_block j = (if \<not> jstruct j then None else do {
     h \<leftarrow> jstr j ''hash''; n \<leftarrow> ju64 j ''height''; t \<leftarrow> ji64 j ''time''; m \<leftarrow> jbool j ''main_chain'';
     Some \<lparr>bb_Hash = h, bb_Height = n, bb_Time = t, bb_MainChain = m\<rparr> })"

definition dec_btc_latest :: "json \<Rightarrow> btc_latest_response option" where
  "dec_btc_latest j = (if \<not> jstruct j then None else do {
     h \<leftarrow> jstr j ''hash''; n \<leftarrow> ju64 j ''height''; t \<leftarrow> ji64 j ''time'';
     Some \<lparr>bl_Hash = h, bl_Height = n, bl_Time = t\<rparr> })"

definition dec_btc_blocks :: "json \<Rightarrow> btc_block_response list option" where
  "dec_btc_blocks j = (if \<not> jstruct j then None else jlist dec_btc_block j ''blocks'')"

definition dec_btc_tx :: "json \<Rightarrow> string option" where
  "dec_btc_tx j = (if \<not> jstruct j then None else jstr j ''hash'')"

definition dec_btc_raw :: "json \<Rightarrow> btc_raw_response option" where
  "dec_btc_raw j = (if \<not> jstruct j then None else do {
     h \<leftarrow> jstr j ''hash''; n \<leftarrow> ju64 j ''height''; t \<leftarrow> ji64 j ''time''; txs \<leftarrow> jlist dec_btc_tx j ''tx'';
     Some \<lparr>br_Hash = h, br_Height = n, br_Time = t, br_Transactions = txs\<rparr> })"

definition BitcoinExplorerAPI :: string where
  "BitcoinExplorerAPI = ''https://blockchain.info''"

definition BitcoinBlockIdentifier :: string where
  "BitcoinBlockIdentifier = ''bitcoin:last-block-height''"

definition btc_fetch_latest :: "'w httpc \<Rightarrow> 'w \<Rightarrow> btc_latest_response res \<times> 'w" where
  "btc_fetch_latest hc w =
     fetch_json hc ''GET'' (BitcoinExplorerAPI @ ''/latestblock'') [] None dec_btc_latest w"

definition btc_height_url :: "u64 \<Rightarrow> string" where
  "btc_height_url height =
     BitcoinExplorerAPI @ ''/block-height/'' @ show_nat 10 (unat height) @ ''?format=json''"

definition btc_fetch_details :: "'w httpc \<Rightarrow> string \<Rightarrow> 'w \<Rightarrow> btc_raw_response res \<times> 'w" where
  "btc_fetch_details hc blockHash w =
     fetch_json hc ''GET'' (BitcoinExplorerAPI @ ''/rawblock/'' @ blockHash) [] None dec_btc_raw w"

definition btc_block_data :: "btc_raw_response \<Rightarrow> block_data" where
  "btc_block_data b =
     \<lparr>bd_ChainID = 0, bd_ChainSymbol = ''BTC'', bd_BlockNumber = VUint64 (br_Height b),
      bd_BlockHash = br_Hash b, bd_Timestamp = VInt64 (br_Time b), bd_ParentHash = [],
      bd_Transactions = VList (map VStr (br_Transactions b))\<rparr>"

definition btc_process_block ::
  "'w httpc \<Rightarrow> u64 \<Rightarrow> ('h, 'w) mon \<Rightarrow> unit res \<times> ('h, 'w) mon" where
  "btc_process_block hc height s =
     (case fetch_json hc ''GET'' (btc_height_url height) [] None dec_btc_blocks (net s) of
        (Err e, w) \<Rightarrow> (Err e, s\<lparr>net := w\<rparr>)
      | (Panic p, w) \<Rightarrow> (Panic p, s\<lparr>net := w\<rparr>)
      | (Ok blocks, w) \<Rightarrow>
          (case find bb_MainChain blocks of
             None \<Rightarrow>
               (Err (EMsg (''no main chain block found for height '' @ show_nat 10 (unat height))),
                s\<lparr>net := w\<rparr>)
           | Some mainBlock \<Rightarrow>
               (case btc_fetch_details hc (bb_Hash mainBlock) w of
                  (Err e, w') \<Rightarrow> (Err (EWrap ''error fetching block details: '' e), s\<lparr>net := w'\<rparr>)
                | (Panic p, w') \<Rightarrow> (Panic p, s\<lparr>net := w'\<rparr>)
                | (Ok raw, w') \<Rightarrow> (Ok (), publish_block (btc_block_data raw) (s\<lparr>net := w'\<rparr>)))))"

text \<open>The job: with no cached height the latest block is fetched and stored.\<close>

definition btc_process_job ::
  "'w httpc \<Rightarrow> 'w cache_ops \<Rightarrow> (f64 \<Rightarrow> u64) \<Rightarrow> ('h, 'w) mon \<Rightarrow> (unit res \<times> ('h, 'w) mon) option" where
  "btc_process_job hc cm oor s =
     (case cm_get cm BitcoinBlockIdentifier (net s) of
        (Err e, w) \<Rightarrow> Some (Err e, s\<lparr>net := w\<rparr>)
      | (Panic p, w) \<Rightarrow> Some (Panic p, s\<lparr>net := w\<rparr>)
      | (Ok v, w) \<Rightarrow>
          if cached_height oor v = 0 then
            (case btc_fetch_latest hc w of
               (Err e, w') \<Rightarrow> Some (Err e, s\<lparr>net := w'\<rparr>)
             | (Panic p, w') \<Rightarrow> Some (Panic p, s\<lparr>net := w'\<rparr>)
             | (Ok b, w') \<Rightarrow> monitor_init cm BitcoinBlockIdentifier (bl_Height b) (s\<lparr>net := w'\<rparr>))
          else
            (case btc_fetch_latest hc w of
               (Err e, w') \<Rightarrow> Some (Err e, s\<lparr>net := w'\<rparr>)
             | (Panic p, w') \<Rightarrow> Some (Panic p, s\<lparr>net := w'\<rparr>)
             | (Ok b, w') \<Rightarrow>
                 monitor_advance cm BitcoinBlockIdentifier 120 (skip_errors (btc_process_block hc))
                   (cached_height oor v) (bl_Height b) (s\<lparr>net := w'\<rparr>)))"

section \<open>Lemmas\<close>

definition btc_current :: "'w httpc \<Rightarrow> 'w \<Rightarrow> u64 res \<times> 'w" where
  "btc_current hc w = (case btc_fetch_latest hc w of
     (Ok b, w') \<Rightarrow> (Ok (bl_Height b), w') | (Err e, w') \<Rightarrow> (Err e, w') | (Panic p, w') \<Rightarrow> (Panic p, w'))"

lemma btc_process_job_run:
  "btc_process_job hc cm oor s
     = monitor_run cm BitcoinBlockIdentifier 120 oor (btc_current hc) (btc_process_block hc) s"
  by (auto simp: btc_process_job_def monitor_run_def btc_current_def split: prod.splits res.splits)

text \<open>
  What a service says of the block at a height: the first block of that height on the main chain,
  with its details.
\<close>

definition btc_block_at :: "(string \<Rightarrow> string \<Rightarrow> blob option \<Rightarrow> http_out) \<Rightarrow> u64 \<Rightarrow> block_data option" where
  "btc_block_at f h = do {
     blocks \<leftarrow> answer dec_btc_blocks (f ''GET'' (btc_height_url h) None);
     b \<leftarrow> find bb_MainChain blocks;
     raw \<leftarrow> answer dec_btc_raw (f ''GET'' (BitcoinExplorerAPI @ ''/rawblock/'' @ bb_Hash b) None);
     Some (btc_block_data raw) }"

lemma btc_step_emits:
  fixes hc :: "'w httpc"
  assumes "http_serves hc f" "http_indep hc view"
  shows "step_emits view (btc_block_at f) (btc_process_block hc)"
  unfolding step_emits_def
proof (intro allI)
  fix h and s :: "('h, 'w) mon"
  obtain r w where r: "fetch_json hc ''GET'' (btc_height_url h) [] None dec_btc_blocks (net s) = (r, w)"
    by (metis surj_pair)
  note a = fetch_json_answer [OF assms(1), where dec = dec_btc_blocks and m = "''GET''" and u = "btc_height_url h"
      and b = None and h = "[]" and w = "net s"]
  have v: "view w = view (net s)" using fetch_json_view [OF assms(2)] r by (metis snd_conv)
  show "(\<forall>p. fst (btc_process_block hc h s) \<noteq> Panic p)
     \<and> view (net (snd (btc_process_block hc h s))) = view (net s)
     \<and> ev (snd (btc_process_block hc h s)) =
         (case btc_block_at f h of Some d \<Rightarrow> publish ''handleBlockFound'' d (ev s) | None \<Rightarrow> ev s)"
  proof (cases "answer dec_btc_blocks (f ''GET'' (btc_height_url h) None)")
    case None
    with a r v show ?thesis by (auto simp: btc_process_block_def btc_block_at_def)
  next
    case (Some blocks)
    with a r have ok: "r = Ok blocks" by simp
    show ?thesis
    proof (cases "find bb_MainChain blocks")
      case None
      with Some r ok v show ?thesis by (simp add: btc_process_block_def btc_block_at_def)
    next
      case (Some b)
      let ?u = "BitcoinExplorerAPI @ ''/rawblock/'' @ bb_Hash b"
      obtain r' w' where r': "fetch_json hc ''GET'' ?u [] None dec_btc_raw w = (r', w')"
        by (metis surj_pair)
      have v': "view w' = view w" using fetch_json_view [OF assms(2)] r' by (metis snd_conv)
      note a' = fetch_json_answer [OF assms(1), where dec = dec_btc_raw and m = "''GET''" and u = ?u
          and b = None and h = "[]" and w = w]
      with r' Some r ok v v' \<open>answer dec_btc_blocks _ = Some blocks\<close> show ?thesis
        by (auto simp: btc_process_block_def btc_block_at_def btc_fetch_details_def publish_block_def
            split: option.splits)
    qed
  qed
qed

lemma btc_current_ok:
  assumes "http_serves hc f" "http_indep hc view"
    and "answer dec_btc_latest (f ''GET'' (BitcoinExplorerAPI @ ''/latestblock'') None) = Some b"
  shows "fst (btc_current hc w) = Ok (bl_Height b) \<and> view (snd (btc_current hc w)) = view w"
proof -
  obtain r w' where r: "btc_fetch_latest hc w = (r, w')" by (metis surj_pair)
  with fetch_json_answer [OF assms(1), where dec = dec_btc_latest and m = "''GET''"
      and u = "BitcoinExplorerAPI @ ''/latestblock''" and b = None and h = "[]" and w = w] assms(3)
  have "r = Ok b" by (simp add: btc_fetch_latest_def)
  moreover have "view w' = view w" using fetch_json_view [OF assms(2)] r
    by (metis btc_fetch_latest_def snd_conv)
  ultimately show ?thesis using r by (simp add: btc_current_def)
qed

section \<open>Properties\<close>

text \<open>
  The service over time: with \<open>cur\<close> as the latest height it answers as \<open>f cur\<close>, and what it says of
  each block, \<open>blk\<close>, does not change.
\<close>

definition btc_chain ::
  "(u64 \<Rightarrow> 'w httpc) \<Rightarrow> (u64 \<Rightarrow> string \<Rightarrow> string \<Rightarrow> blob option \<Rightarrow> http_out) \<Rightarrow> ('w \<Rightarrow> 'v)
     \<Rightarrow> (u64 \<Rightarrow> block_data option) \<Rightarrow> bool" where
  "btc_chain hc f view blk \<longleftrightarrow> (\<forall>cur. http_serves (hc cur) (f cur) \<and> http_indep (hc cur) view
     \<and> btc_block_at (f cur) = blk
     \<and> map_option bl_Height (answer dec_btc_latest
          (f cur ''GET'' (BitcoinExplorerAPI @ ''/latestblock'') None)) = Some cur)"

lemma btc_run_ready:
  fixes s :: "('h, 'w) mon"
  assumes "btc_chain hc f view blk" "cache_ok cl view {BitcoinBlockIdentifier} (net s)"
  shows "run_ready cl view BitcoinBlockIdentifier (\<lambda>cur. btc_current (hc cur))
    (\<lambda>cur. btc_process_block (hc cur)) blk (handlers_of (ev s) ''handleBlockFound'') s"
proof -
  have "fst (btc_current (hc cur) w) = Ok cur \<and> view (snd (btc_current (hc cur) w)) = view w" for cur w
    using assms(1) btc_current_ok [of "hc cur" "f cur" view] unfolding btc_chain_def map_option_eq_Some
    by metis
  moreover have "step_emits view blk (btc_process_block (hc cur) :: u64 \<Rightarrow> ('h, 'w) mon \<Rightarrow> _)" for cur
    using assms(1) btc_step_emits [of "hc cur" "f cur" view] unfolding btc_chain_def by metis
  ultimately show ?thesis using assms(2) by (simp add: run_ready_def)
qed


definition demo_btc :: "u64 \<Rightarrow> string \<Rightarrow> string \<Rightarrow> blob option \<Rightarrow> http_out" where
  "demo_btc cur m u b =
     (if u = BitcoinExplorerAPI @ ''/latestblock''
      then HResp 200 (Enc (JObj [(''height'', JNum (of_int (uint cur)))]))
      else if u = btc_height_url 6
      then HResp 200 (Enc (JObj [(''blocks'', JArr [JObj [(''hash'', JStr ''x'')],
             JObj [(''hash'', JStr ''y''), (''main_chain'', JBool True)]])]))
      else if u = BitcoinExplorerAPI @ ''/rawblock/y''
      then HResp 200 (Enc (JObj [(''height'', JNum 6), (''hash'', JStr ''y''),
             (''tx'', JArr [JObj [(''hash'', JStr ''t1'')]])]))
      else HResp 404 (Raw []))"

definition demo_btc_hc :: "u64 \<Rightarrow> keyspace httpc" where
  "demo_btc_hc cur = \<lparr>hdo = \<lambda>m u h b w. (demo_btc cur m u b, w)\<rparr>"

definition demo_btc_mon :: "(string, keyspace) mon" where
  "demo_btc_mon = \<lparr>net = [BitcoinBlockIdentifier \<mapsto> (SV (Enc (JObj [(''data'', JNum 5)])), 120)],
     ev = subscribe ''handleBlockFound'' ''h'' new_event_manager\<rparr>"

definition demo_btc_blk :: "u64 \<Rightarrow> block_data option" where
  "demo_btc_blk h = (if h = 6 then Some (btc_block_data
     \<lparr>br_Hash = ''y'', br_Height = 6, br_Time = 0, br_Transactions = [''t1'']\<rparr>) else None)"

lemma btc_height_url_eq [simp]: "btc_height_url h = btc_height_url k \<longleftrightarrow> h = k"
  using show_nat_inj [of 10 "unat h" "unat k"] by (auto simp: btc_height_url_def word_unat_eq_iff)

lemma demo_btc_chain: "btc_chain demo_btc_hc demo_btc id demo_btc_blk"
proof -
  have n: "answer dec_btc_latest (demo_btc cur ''GET'' (BitcoinExplorerAPI @ ''/latestblock'') None)
      = Some \<lparr>bl_Hash = [], bl_Height = cur, bl_Time = 0\<rparr>" for cur
    using uint_lt2p [of cur]
    by (simp add: answer_def demo_btc_def dec_btc_latest_def jstruct_def jstr_def ju64_def ji64_def
        jint_def jmember_def json_lookup_def)
  have url: "btc_height_url h \<noteq> BitcoinExplorerAPI @ ''/latestblock''"
    "BitcoinExplorerAPI @ ''/rawblock/y'' \<noteq> BitcoinExplorerAPI @ ''/latestblock''"
    "BitcoinExplorerAPI @ ''/rawblock/y'' \<noteq> btc_height_url h" for h
    by (simp_all add: btc_height_url_def)
  have "btc_block_at (demo_btc cur) = demo_btc_blk" for cur
    by (auto simp: fun_eq_iff btc_block_at_def demo_btc_def demo_btc_blk_def answer_def
        dec_btc_blocks_def dec_btc_block_def dec_btc_raw_def dec_btc_tx_def jlist_def jbool_def
        jstruct_def jstr_def ju64_def ji64_def jint_def jmember_def json_lookup_def int_of_rat_def
        url)
  with n show ?thesis
    by (simp add: btc_chain_def http_serves_def http_indep_def demo_btc_hc_def)
qed


end
