(* ===== verification/TronMonitor.thy ===== *)
theory TronMonitor
  imports BlockMonitors "HOL-Library.Monad_Syntax"
begin

text \<open>
  \<open>managers/workers/tron_block_monitor.go\<close>: the monitor of the Tron chain over TronGrid, which is
  the HTTP parameter. A contract's parameter is kept as the raw JSON it came with.
\<close>

record tron_contract =
  tc_Type :: string
  tc_Parameter :: "json option"
  tc_OwnerAddress :: string
  tc_ToAddress :: string
  tc_Amount :: u64

record tron_transaction =
  tt_TxID :: string
  tt_Contract :: "tron_contract list"
  tt_Timestamp :: int

record tron_block =
  tb_BlockID :: string
  tb_Number :: u64
  tb_ParentHash :: string
  tb_Timestamp :: int
  tb_Transactions :: "tron_transaction list"

definition dec_tron_contract :: "json \<Rightarrow> tron_contract option" where
  "dec_tron_contract j = (if \<not> jstruct j then None else do {
     ty \<leftarrow> jstr j ''type'';
     Some \<lparr>tc_Type = ty, tc_Parameter = (case j of JObj kjs \<Rightarrow> json_lookup kjs ''parameter'' | _ \<Rightarrow> None),
       tc_OwnerAddress = [], tc_ToAddress = [], tc_Amount = 0\<rparr> })"

definition dec_tron_transaction :: "json \<Rightarrow> tron_transaction option" where
  "dec_tron_transaction j = (if \<not> jstruct j then None else do {
     txid \<leftarrow> jstr j ''txID''; raw \<leftarrow> jmember_struct j ''raw_data'';
     cs \<leftarrow> jlist dec_tron_contract raw ''contract'';
     _ \<leftarrow> jstr raw ''ref_block_bytes''; _ \<leftarrow> jstr raw ''ref_block_hash''; _ \<leftarrow> ji64 raw ''expiration'';
     ts \<leftarrow> ji64 raw ''timestamp''; _ \<leftarrow> jlist dec_json_str j ''signature'';
     Some \<lparr>tt_TxID = txid, tt_Contract = cs, tt_Timestamp = ts\<rparr> })"

definition dec_tron_block :: "json \<Rightarrow> tron_block option" where
  "dec_tron_block j = (if \<not> jstruct j then None else do {
     bid \<leftarrow> jstr j ''blockID''; hdr \<leftarrow> jmember_struct j ''block_header'';
     raw \<leftarrow> jmember_struct hdr ''raw_data''; _ \<leftarrow> jstr hdr ''witness_signature'';
     n \<leftarrow> ju64 raw ''number''; _ \<leftarrow> jstr raw ''txTrieRoot''; _ \<leftarrow> jstr raw ''witness_address'';
     ph \<leftarrow> jstr raw ''parentHash''; _ \<leftarrow> ji64 raw ''version''; ts \<leftarrow> ji64 raw ''timestamp'';
     txs \<leftarrow> jlist dec_tron_transaction j ''transactions'';
     Some \<lparr>tb_BlockID = bid, tb_Number = n, tb_ParentHash = ph, tb_Timestamp = ts,
       tb_Transactions = txs\<rparr> })"

definition TronBlockIdentifier :: string where
  "TronBlockIdentifier = ''tron:last-block-height''"

definition tron_headers :: "string \<Rightarrow> (string \<times> string) list" where
  "tron_headers apiKey = (if apiKey \<noteq> [] then [(''TRON-PRO-API-KEY'', apiKey)] else [])"

definition tron_current_block :: "'w httpc \<Rightarrow> string \<Rightarrow> string \<Rightarrow> 'w \<Rightarrow> tron_block res \<times> 'w" where
  "tron_current_block hc apiURL apiKey w =
     fetch_json hc ''GET'' (apiURL @ ''/wallet/getnowblock'') (tron_headers apiKey) None dec_tron_block w"

definition tron_num_body :: "u64 \<Rightarrow> blob" where
  "tron_num_body height = Enc (JObj [(''num'', JNum (of_int (uint height)))])"

definition tron_block_by_number ::
  "'w httpc \<Rightarrow> string \<Rightarrow> string \<Rightarrow> u64 \<Rightarrow> 'w \<Rightarrow> tron_block res \<times> 'w" where
  "tron_block_by_number hc apiURL apiKey height w =
     fetch_json hc ''POST'' (apiURL @ ''/wallet/getblockbynum'')
       ((''Content-Type'', ''application/json'') # tron_headers apiKey)
       (Some (tron_num_body height)) dec_tron_block w"

text \<open>The slice \<open>hexAddress[2:]\<close> panics on an address of one character.\<close>

definition hexToTronAddress :: "string \<Rightarrow> string res" where
  "hexToTronAddress hexAddress =
     (if length hexAddress < 2 then Panic ''slice bounds out of range''
      else Ok (''T'' @ drop 2 hexAddress))"

text \<open>
  The parameter of a contract: its \<open>value\<close> member if it is there, else the whole, is decoded into
  the parameter value; a member of the wrong kind is left at its zero value, the error is ignored.
\<close>

definition tron_parameter :: "tron_contract \<Rightarrow> tron_contract" where
  "tron_parameter c =
     (case tc_Parameter c of
        None \<Rightarrow> c
      | Some p \<Rightarrow>
          if \<not> jstruct p then c
          else
            let v = (case jmember p ''value'' of Some v \<Rightarrow> v | None \<Rightarrow> p);
                str = (\<lambda>k. case jstr v k of Some s \<Rightarrow> s | None \<Rightarrow> [])
            in c\<lparr>tc_OwnerAddress := str ''owner_address'', tc_ToAddress := str ''to_address'',
                 tc_Amount := (case ju64 v ''amount'' of Some n \<Rightarrow> n | None \<Rightarrow> 0)\<rparr>)"

definition tron_address_entry :: "string \<Rightarrow> string \<Rightarrow> (string \<times> gval) list res" where
  "tron_address_entry k a =
     (if a = [] then Ok []
      else case hexToTronAddress a of
        Ok t \<Rightarrow> Ok [(k, VStr t)] | Err e \<Rightarrow> Err e | Panic p \<Rightarrow> Panic p)"

definition tron_tx_data :: "tron_transaction \<Rightarrow> gval res" where
  "tron_tx_data tx =
     (let base = [(''txID'', VStr (tt_TxID tx)), (''timestamp'', VInt64 (tt_Timestamp tx))] in
      case tt_Contract tx of
        [] \<Rightarrow> Ok (VMap base)
      | c # _ \<Rightarrow>
          (case tron_address_entry ''from'' (tc_OwnerAddress c) of
             Err e \<Rightarrow> Err e | Panic p \<Rightarrow> Panic p
           | Ok from_e \<Rightarrow>
               (case tron_address_entry ''to'' (tc_ToAddress c) of
                  Err e \<Rightarrow> Err e | Panic p \<Rightarrow> Panic p
                | Ok to_e \<Rightarrow>
                    Ok (VMap (base @ [(''contractType'', VStr (tc_Type c))] @ from_e @ to_e
                          @ (if tc_Amount c > 0 then [(''amount'', VUint64 (tc_Amount c))] else []))))))"

fun tron_txs :: "tron_transaction list \<Rightarrow> gval list res" where
  "tron_txs [] = Ok []"
| "tron_txs (tx # txs) =
     (case tron_tx_data tx of
        Err e \<Rightarrow> Err e | Panic p \<Rightarrow> Panic p
      | Ok v \<Rightarrow> (case tron_txs txs of Ok vs \<Rightarrow> Ok (v # vs) | r \<Rightarrow> r))"

definition tron_parse_contracts :: "tron_transaction \<Rightarrow> tron_transaction" where
  "tron_parse_contracts tx = tx\<lparr>tt_Contract := map tron_parameter (tt_Contract tx)\<rparr>"

definition tron_block_data :: "u64 \<Rightarrow> tron_block \<Rightarrow> gval list \<Rightarrow> block_data" where
  "tron_block_data height b txs =
     \<lparr>bd_ChainID = 0, bd_ChainSymbol = ''TRX'', bd_BlockNumber = VUint64 height,
      bd_BlockHash = tb_BlockID b, bd_Timestamp = VInt64 (tb_Timestamp b),
      bd_ParentHash = tb_ParentHash b, bd_Transactions = VList txs\<rparr>"

definition tron_process_block ::
  "'w httpc \<Rightarrow> string \<Rightarrow> string \<Rightarrow> u64 \<Rightarrow> ('h, 'w) mon \<Rightarrow> unit res \<times> ('h, 'w) mon" where
  "tron_process_block hc apiURL apiKey height s =
     (case tron_block_by_number hc apiURL apiKey height (net s) of
        (Err e, w) \<Rightarrow> (Err (EWrap ''error fetching block: '' e), s\<lparr>net := w\<rparr>)
      | (Panic p, w) \<Rightarrow> (Panic p, s\<lparr>net := w\<rparr>)
      | (Ok b, w) \<Rightarrow>
          (case tron_txs (map tron_parse_contracts (tb_Transactions b)) of
             Err e \<Rightarrow> (Err e, s\<lparr>net := w\<rparr>)
           | Panic p \<Rightarrow> (Panic p, s\<lparr>net := w\<rparr>)
           | Ok txs \<Rightarrow> (Ok (), publish_block (tron_block_data height b txs) (s\<lparr>net := w\<rparr>))))"

definition tron_current :: "'w httpc \<Rightarrow> string \<Rightarrow> string \<Rightarrow> 'w \<Rightarrow> u64 res \<times> 'w" where
  "tron_current hc apiURL apiKey w =
     (case tron_current_block hc apiURL apiKey w of
        (Ok b, w') \<Rightarrow> (Ok (tb_Number b), w') | (Err e, w') \<Rightarrow> (Err e, w') | (Panic p, w') \<Rightarrow> (Panic p, w'))"

definition tron_process_job ::
  "'w httpc \<Rightarrow> string \<Rightarrow> string \<Rightarrow> 'w cache_ops \<Rightarrow> (f64 \<Rightarrow> u64) \<Rightarrow> ('h, 'w) mon
     \<Rightarrow> (unit res \<times> ('h, 'w) mon) option" where
  "tron_process_job hc apiURL apiKey cm oor s =
     monitor_run cm TronBlockIdentifier 3600 oor (tron_current hc apiURL apiKey)
       (tron_process_block hc apiURL apiKey) s"

section \<open>Lemmas\<close>

text \<open>What the service says of a height, provided no address in it makes the conversion panic.\<close>

definition tron_block_at ::
  "(string \<Rightarrow> string \<Rightarrow> blob option \<Rightarrow> http_out) \<Rightarrow> string \<Rightarrow> u64 \<Rightarrow> block_data option" where
  "tron_block_at f apiURL h = do {
     b \<leftarrow> answer dec_tron_block (f ''POST'' (apiURL @ ''/wallet/getblockbynum'') (Some (tron_num_body h)));
     (case tron_txs (map tron_parse_contracts (tb_Transactions b)) of
        Ok txs \<Rightarrow> Some (tron_block_data h b txs) | _ \<Rightarrow> None) }"

text \<open>An address the contracts of a transaction name is empty or has at least two characters.\<close>

definition tron_addresses_ok :: "tron_transaction \<Rightarrow> bool" where
  "tron_addresses_ok tx = (case tt_Contract tx of [] \<Rightarrow> True
     | c # _ \<Rightarrow> length (tc_OwnerAddress c) \<noteq> 1 \<and> length (tc_ToAddress c) \<noteq> 1)"

lemma hexToTronAddress_Ok_iff [simp]:
  "(\<exists>t. hexToTronAddress a = Ok t) \<longleftrightarrow> 2 \<le> length a"
  by (auto simp: hexToTronAddress_def)

lemma tron_address_entry_cases:
  "tron_address_entry k a = (if length a = 1 then Panic ''slice bounds out of range''
     else if a = [] then Ok [] else Ok [(k, VStr (''T'' @ drop 2 a))])"
  by (cases a; cases "tl a") (auto simp: tron_address_entry_def hexToTronAddress_def)

lemma tron_tx_data_ok_iff: "is_ok (tron_tx_data tx) \<longleftrightarrow> tron_addresses_ok tx"
  by (auto simp: tron_tx_data_def tron_addresses_ok_def tron_address_entry_cases Let_def
      split: list.split)

lemma tron_tx_data_bad: "\<not> tron_addresses_ok tx \<Longrightarrow> \<exists>p. tron_tx_data tx = Panic p"
  by (auto simp: tron_tx_data_def tron_addresses_ok_def tron_address_entry_cases Let_def
      split: list.splits)

lemma tron_txs_cases:
  "(if \<forall>tx \<in> set txs. tron_addresses_ok tx
    then \<exists>vs. tron_txs txs = Ok vs \<and> length vs = length txs
      \<and> (\<forall>i < length txs. tron_tx_data (txs ! i) = Ok (vs ! i))
    else \<exists>p. tron_txs txs = Panic p)"
proof (induction txs)
  case (Cons tx txs)
  show ?case
  proof (cases "tron_addresses_ok tx")
    case True
    then obtain v where v: "tron_tx_data tx = Ok v" using tron_tx_data_ok_iff is_okE by blast
    show ?thesis
    proof (cases "\<forall>tx \<in> set txs. tron_addresses_ok tx")
      case ok: True
      with Cons.IH obtain vs where "tron_txs txs = Ok vs" "length vs = length txs"
        "\<forall>i < length txs. tron_tx_data (txs ! i) = Ok (vs ! i)" by auto
      with v True ok show ?thesis
        by (auto simp: nth_Cons split: nat.split intro: exI [of _ "v # vs"])
    next
      case False
      with Cons.IH v show ?thesis by auto
    qed
  next
    case False
    with tron_tx_data_bad [OF False] show ?thesis by auto
  qed
qed simp

lemma tron_txs_no_error: "tron_txs txs \<noteq> Err e"
proof
  assume "tron_txs txs = Err e"
  with tron_txs_cases [of txs] show False by (auto split: if_splits)
qed

text \<open>
  The service over time: with \<open>cur\<close> as the current height it answers as \<open>f cur\<close>; what it says of
  each block, \<open>blk\<close>, does not change, and no block it serves has an address of one character.
\<close>

definition tron_chain ::
  "(u64 \<Rightarrow> 'w httpc) \<Rightarrow> string \<Rightarrow> (u64 \<Rightarrow> string \<Rightarrow> string \<Rightarrow> blob option \<Rightarrow> http_out) \<Rightarrow> ('w \<Rightarrow> 'v)
     \<Rightarrow> (u64 \<Rightarrow> block_data option) \<Rightarrow> bool" where
  "tron_chain hc apiURL f view blk \<longleftrightarrow> (\<forall>cur. http_serves (hc cur) (f cur) \<and> http_indep (hc cur) view
     \<and> tron_block_at (f cur) apiURL = blk
     \<and> map_option tb_Number (answer dec_tron_block
          (f cur ''GET'' (apiURL @ ''/wallet/getnowblock'') None)) = Some cur
     \<and> (\<forall>h b. answer dec_tron_block (f cur ''POST'' (apiURL @ ''/wallet/getblockbynum'')
                 (Some (tron_num_body h))) = Some b
          \<longrightarrow> (\<forall>tx \<in> set (tb_Transactions b). tron_addresses_ok (tron_parse_contracts tx))))"

lemma tron_step_emits:
  fixes hc :: "'w httpc"
  assumes "http_serves hc f" "http_indep hc view"
    and "\<forall>h b. answer dec_tron_block (f ''POST'' (apiURL @ ''/wallet/getblockbynum'')
                 (Some (tron_num_body h))) = Some b
          \<longrightarrow> (\<forall>tx \<in> set (tb_Transactions b). tron_addresses_ok (tron_parse_contracts tx))"
  shows "step_emits view (tron_block_at f apiURL) (tron_process_block hc apiURL apiKey)"
  unfolding step_emits_def
proof (intro allI)
  fix h and s :: "('h, 'w) mon"
  let ?u = "apiURL @ ''/wallet/getblockbynum''" and ?b = "Some (tron_num_body h)"
  obtain r w where r: "tron_block_by_number hc apiURL apiKey h (net s) = (r, w)" by (metis surj_pair)
  have v: "view w = view (net s)" using fetch_json_view [OF assms(2)] r
    by (metis snd_conv tron_block_by_number_def)
  note a = fetch_json_answer [OF assms(1), where dec = dec_tron_block and m = "''POST''" and u = ?u
      and b = ?b and h = "(''Content-Type'', ''application/json'') # tron_headers apiKey" and w = "net s"]
  show "(\<forall>p. fst (tron_process_block hc apiURL apiKey h s) \<noteq> Panic p)
     \<and> view (net (snd (tron_process_block hc apiURL apiKey h s))) = view (net s)
     \<and> ev (snd (tron_process_block hc apiURL apiKey h s)) =
         (case tron_block_at f apiURL h of
            Some d \<Rightarrow> publish ''handleBlockFound'' d (ev s) | None \<Rightarrow> ev s)"
  proof (cases "answer dec_tron_block (f ''POST'' ?u ?b)")
    case None
    with a r v show ?thesis
      by (auto simp: tron_process_block_def tron_block_at_def tron_block_by_number_def)
  next
    case (Some b)
    with a r have ok: "r = Ok b" by (simp add: tron_block_by_number_def)
    have "\<forall>tx \<in> set (map tron_parse_contracts (tb_Transactions b)). tron_addresses_ok tx"
      using assms(3) Some by simp
    with tron_txs_cases [of "map tron_parse_contracts (tb_Transactions b)"] obtain vs where
      "tron_txs (map tron_parse_contracts (tb_Transactions b)) = Ok vs" by auto
    with Some r ok v show ?thesis
      by (simp add: tron_process_block_def tron_block_at_def publish_block_def)
  qed
qed

lemma tron_current_ok:
  assumes "http_serves hc f" "http_indep hc view"
    and "answer dec_tron_block (f ''GET'' (apiURL @ ''/wallet/getnowblock'') None) = Some b"
  shows "fst (tron_current hc apiURL apiKey w) = Ok (tb_Number b)
    \<and> view (snd (tron_current hc apiURL apiKey w)) = view w"
proof -
  obtain r w' where r: "tron_current_block hc apiURL apiKey w = (r, w')" by (metis surj_pair)
  with fetch_json_answer [OF assms(1), where dec = dec_tron_block and m = "''GET''"
      and u = "apiURL @ ''/wallet/getnowblock''" and b = None and h = "tron_headers apiKey" and w = w]
    assms(3)
  have "r = Ok b" by (simp add: tron_current_block_def)
  moreover have "view w' = view w" using fetch_json_view [OF assms(2)] r
    by (metis tron_current_block_def snd_conv)
  ultimately show ?thesis using r by (simp add: tron_current_def)
qed

lemma tron_run_ready:
  fixes s :: "('h, 'w) mon"
  assumes "tron_chain hc apiURL f view blk" "cache_ok cl view {TronBlockIdentifier} (net s)"
  shows "run_ready cl view TronBlockIdentifier (\<lambda>cur. tron_current (hc cur) apiURL apiKey)
    (\<lambda>cur. tron_process_block (hc cur) apiURL apiKey) blk (handlers_of (ev s) ''handleBlockFound'') s"
proof -
  have "fst (tron_current (hc cur) apiURL apiKey w) = Ok cur
      \<and> view (snd (tron_current (hc cur) apiURL apiKey w)) = view w" for cur w
    using assms(1) tron_current_ok [of "hc cur" "f cur" view]
    unfolding tron_chain_def map_option_eq_Some by metis
  moreover have "step_emits view blk
      (tron_process_block (hc cur) apiURL apiKey :: u64 \<Rightarrow> ('h, 'w) mon \<Rightarrow> _)" for cur
    using assms(1) tron_step_emits [of "hc cur" "f cur" view apiURL apiKey]
    unfolding tron_chain_def by metis
  ultimately show ?thesis using assms(2) by (simp add: run_ready_def)
qed

section \<open>Properties\<close>

text \<open>
  Turning the transactions of a block into event data succeeds, with one entry per transaction in
  order, exactly when no owner or recipient address of a first contract has a single character; with
  such an address in any transaction the processing panics.
\<close>

theorem tron_txs_outcome:
  "(if \<forall>tx \<in> set txs. tron_addresses_ok tx
    then \<exists>vs. tron_txs txs = Ok vs \<and> length vs = length txs
      \<and> (\<forall>i < length txs. tron_tx_data (txs ! i) = Ok (vs ! i))
    else \<exists>p. tron_txs txs = Panic p)"
  by (rule tron_txs_cases)

theorem tron_txs_outcome_witness:
  "(\<exists>vs. tron_txs [\<lparr>tt_TxID = ''a'', tt_Contract = [], tt_Timestamp = 1\<rparr>] = Ok vs \<and> length vs = 1)
   \<and> (\<exists>p. tron_txs [\<lparr>tt_TxID = ''a'', tt_Contract = [], tt_Timestamp = 1\<rparr>,
        \<lparr>tt_TxID = ''b'', tt_Contract = [\<lparr>tc_Type = ''t'', tc_Parameter = None,
           tc_OwnerAddress = ''4'', tc_ToAddress = [], tc_Amount = 0\<rparr>], tt_Timestamp = 2\<rparr>] = Panic p)"
  using tron_txs_outcome [of "[\<lparr>tt_TxID = ''a'', tt_Contract = [], tt_Timestamp = 1\<rparr>]"]
    tron_txs_outcome [of "[\<lparr>tt_TxID = ''a'', tt_Contract = [], tt_Timestamp = 1\<rparr>,
        \<lparr>tt_TxID = ''b'', tt_Contract = [\<lparr>tc_Type = ''t'', tc_Parameter = None,
           tc_OwnerAddress = ''4'', tc_ToAddress = [], tc_Amount = 0\<rparr>], tt_Timestamp = 2\<rparr>]"]
  by (simp add: tron_addresses_ok_def del: tron_txs.simps) blast

text \<open>
  Over a sequence of Tron monitor jobs, however the current height varies, each block the
  service has between the first cached height and the highest one reported is published exactly
  once, in ascending order, and the cache ends at that height.
\<close>

theorem tron_jobs_exactly_once:
  assumes "tron_chain hc apiURL f view blk" "cache_ok cl view {TronBlockIdentifier} (net s)"
    and "mon_height view oor TronBlockIdentifier s = h" "h \<noteq> 0"
    and "\<forall>cur \<in> set curs. unat cur \<le> 2 ^ 53"
  shows "\<exists>s'. run_jobs (\<lambda>cur. tron_process_job (hc cur) apiURL apiKey (cache_manager cl) oor) curs s
           = Some s'
      \<and> mon_height view oor TronBlockIdentifier s' = fold max curs h
      \<and> spawned (ev s') = spawned (ev s) @ concat (map (\<lambda>k. case blk k of None \<Rightarrow> []
            | Some d \<Rightarrow> map (\<lambda>hd. (hd, d)) (handlers_of (ev s) ''handleBlockFound''))
          (heights_after h (fold max curs h)))"
proof -
  have job: "(\<lambda>cur. tron_process_job (hc cur) apiURL apiKey (cache_manager cl) oor)
      = (\<lambda>cur. monitor_run (cache_manager cl) TronBlockIdentifier 3600 oor
          (tron_current (hc cur) apiURL apiKey) (tron_process_block (hc cur) apiURL apiKey))"
    by (simp add: fun_eq_iff tron_process_job_def)
  have e: "(\<lambda>k. case blk k of None \<Rightarrow> [] | Some d \<Rightarrow> map (\<lambda>hd. (hd, d)) hs) = blk_emit blk hs" for hs
    by (auto simp: fun_eq_iff blk_emit_def split: option.split)
  from mon_job.session [OF tron_run_ready [OF assms(1,2)], of oor curs 3600] assms(3-5)
  show ?thesis unfolding job e by blast
qed

text \<open>A service at which only block 6 exists, with one transaction without contracts.\<close>

definition demo_tron :: "u64 \<Rightarrow> string \<Rightarrow> string \<Rightarrow> blob option \<Rightarrow> http_out" where
  "demo_tron cur m u b =
     (if m = ''GET'' then HResp 200 (Enc (JObj [(''block_header'', JObj [(''raw_data'',
           JObj [(''number'', JNum (of_int (uint cur)))])])]))
      else if b = Some (tron_num_body 6)
      then HResp 200 (Enc (JObj [(''blockID'', JStr ''b''), (''transactions'', JArr [JObj [(''txID'', JStr ''t'')]])]))
      else HResp 404 (Raw []))"

definition demo_tron_blk :: "u64 \<Rightarrow> block_data option" where
  "demo_tron_blk h = (if h = 6 then Some
     \<lparr>bd_ChainID = 0, bd_ChainSymbol = ''TRX'', bd_BlockNumber = VUint64 6, bd_BlockHash = ''b'',
      bd_Timestamp = VInt64 0, bd_ParentHash = [],
      bd_Transactions = VList [VMap [(''txID'', VStr ''t''), (''timestamp'', VInt64 0)]]\<rparr> else None)"

lemmas dec_defs = dec_tron_block_def dec_tron_transaction_def dec_tron_contract_def
  jstruct_def jstr_def ju64_def ji64_def jint_def jlist_def jmember_struct_def jmember_def
  json_lookup_def

lemma tron_num_body_eq [simp]: "tron_num_body h = tron_num_body k \<longleftrightarrow> h = k"
proof -
  have "rat_of_int (uint h) = rat_of_int (uint k) \<longleftrightarrow> h = k" by (simp only: of_int_eq_iff word_uint_eq_iff)
  then show ?thesis by (simp only: tron_num_body_def blob.inject json.inject list.inject prod.inject)
      blast
qed

lemma demo_tron_chain:
  "tron_chain (\<lambda>cur. \<lparr>hdo = \<lambda>m u h b w. (demo_tron cur m u b, w)\<rparr>) url demo_tron id demo_tron_blk"
proof -
  have n: "answer dec_tron_block (demo_tron cur ''GET'' u None)
      = Some \<lparr>tb_BlockID = [], tb_Number = cur, tb_ParentHash = [], tb_Timestamp = 0,
          tb_Transactions = []\<rparr>" for cur u
    using uint_lt2p [of cur] by (simp add: answer_def demo_tron_def dec_defs)
  have b: "answer dec_tron_block (demo_tron cur ''POST'' u (Some (tron_num_body h)))
      = (if h = 6 then Some \<lparr>tb_BlockID = ''b'', tb_Number = 0, tb_ParentHash = [], tb_Timestamp = 0,
          tb_Transactions = [\<lparr>tt_TxID = ''t'', tt_Contract = [], tt_Timestamp = 0\<rparr>]\<rparr> else None)" for cur u h
    by (simp add: answer_def demo_tron_def dec_defs)
  have "tron_block_at (demo_tron cur) url = demo_tron_blk" for cur
    by (auto simp: fun_eq_iff tron_block_at_def b demo_tron_blk_def tron_parse_contracts_def
        tron_tx_data_def tron_block_data_def)
  with n b show ?thesis
    by (simp add: tron_chain_def http_serves_def http_indep_def tron_addresses_ok_def
        tron_parse_contracts_def)
qed

theorem tron_jobs_exactly_once_witness:
  "\<exists>s'. run_jobs (\<lambda>cur. tron_process_job \<lparr>hdo = \<lambda>m u h b w. (demo_tron cur m u b, w)\<rparr> ''u'' []
            (cache_manager mem_redis) (\<lambda>_. 0)) [6, 7]
          \<lparr>net = [TronBlockIdentifier \<mapsto> (SV (Enc (JObj [(''data'', JNum 5)])), 120)],
           ev = subscribe ''handleBlockFound'' ''h'' new_event_manager\<rparr> = Some s'
      \<and> mon_height id (\<lambda>_. 0) TronBlockIdentifier s' = 7
      \<and> spawned (ev s') = [(''h'', the (demo_tron_blk 6))]"
proof -
  let ?s = "\<lparr>net = [TronBlockIdentifier \<mapsto> (SV (Enc (JObj [(''data'', JNum 5)])), 120)],
           ev = subscribe ''handleBlockFound'' ''h'' new_event_manager\<rparr>"
  have 1: "cache_ok mem_redis id {TronBlockIdentifier} (net ?s)"
    by (simp add: cache_ok_def mem_redis_ok entry_ok_def unmarshal_data)
  have 2: "mon_height id (\<lambda>_. 0) TronBlockIdentifier ?s = 5"
    by (simp add: mon_height_def cache_look_def unmarshal_data cached_height_def
        u64_of_f64_def trunc_rat_def)
  have 3: "heights_after 5 7 = [6, 7]" by (simp add: heights_after_def upto_u64_def upt_rec)
  from tron_jobs_exactly_once [OF demo_tron_chain 1 2, of "[6, 7]" "''u''" "[]"] 3 show ?thesis
    by (simp add: demo_tron_blk_def max_def del: run_jobs.simps)
qed

end
