(* ===== verification/Registration.thy ===== *)
theory Registration
  imports SolanaMonitor EvmMonitor BtcMonitor TronMonitor "HOL-Library.Multiset"
begin

text \<open>
  How the block monitors meet the queue: \<open>RegisterBlockchainWorkers\<close> of
  \<open>managers/workers/register_workers.go\<close> with the four \<open>Register...BlockMonitor\<close> functions, and the
  \<open>StartBlockMonitor\<close> functions that schedule the repeated jobs.
\<close>

section \<open>Registration\<close>

definition QueueBitcoinBlockMonitor :: string where
  "QueueBitcoinBlockMonitor = ''BitcoinBlockQueue''"

definition QueueEVMBlockMonitor :: string where
  "QueueEVMBlockMonitor = ''EVMBlockQueue''"

definition QueueTronBlockMonitor :: string where
  "QueueTronBlockMonitor = ''TronBlockMonitor''"

definition RegisterBitcoinBlockMonitor :: "'w job_handler \<Rightarrow> 'w queue_manager \<Rightarrow> 'w queue_manager" where
  "RegisterBitcoinBlockMonitor h qm =
     ProcessJobs QueueBitcoinBlockMonitor 1 (RegisterHandler QueueBitcoinBlockMonitor h qm)"

definition RegisterEVMBlockMonitor :: "'w job_handler \<Rightarrow> 'w queue_manager \<Rightarrow> 'w queue_manager" where
  "RegisterEVMBlockMonitor h qm =
     ProcessJobs QueueEVMBlockMonitor 3 (RegisterHandler QueueEVMBlockMonitor h qm)"

definition RegisterSolanaBlockMonitor :: "'w job_handler \<Rightarrow> 'w queue_manager \<Rightarrow> 'w queue_manager" where
  "RegisterSolanaBlockMonitor h qm = RegisterHandler QueueSolanaBlockMonitor h qm"

definition RegisterTronBlockMonitor :: "'w job_handler \<Rightarrow> 'w queue_manager \<Rightarrow> 'w queue_manager" where
  "RegisterTronBlockMonitor h qm =
     ProcessJobs QueueTronBlockMonitor 1 (RegisterHandler QueueTronBlockMonitor h qm)"

datatype chain_worker = WBitcoin | WEVM | WSolana | WTron

record workers_config =
  EnableBitcoin :: bool
  EnableEVM :: bool
  EnableSolana :: bool
  EnableTron :: bool

fun register_worker ::
  "(chain_worker \<Rightarrow> 'w job_handler) \<Rightarrow> chain_worker \<Rightarrow> 'w queue_manager \<Rightarrow> 'w queue_manager" where
  "register_worker h WBitcoin qm = RegisterBitcoinBlockMonitor (h WBitcoin) qm"
| "register_worker h WEVM qm = RegisterEVMBlockMonitor (h WEVM) qm"
| "register_worker h WSolana qm = RegisterSolanaBlockMonitor (h WSolana) qm"
| "register_worker h WTron qm = RegisterTronBlockMonitor (h WTron) qm"

definition enabled_workers :: "workers_config \<Rightarrow> chain_worker list" where
  "enabled_workers cfg = (if EnableBitcoin cfg then [WBitcoin] else [])
     @ (if EnableEVM cfg then [WEVM] else []) @ (if EnableSolana cfg then [WSolana] else [])
     @ (if EnableTron cfg then [WTron] else [])"

text \<open>Each enabled worker registers in a goroutine of its own: \<open>order\<close> is the order they run in.\<close>

definition RegisterBlockchainWorkers ::
  "(chain_worker \<Rightarrow> 'w job_handler) \<Rightarrow> chain_worker list \<Rightarrow> 'w queue_manager \<Rightarrow> 'w queue_manager" where
  "RegisterBlockchainWorkers h order qm = fold (register_worker h) order qm"

fun worker_queue :: "chain_worker \<Rightarrow> string" where
  "worker_queue WBitcoin = QueueBitcoinBlockMonitor"
| "worker_queue WEVM = QueueEVMBlockMonitor"
| "worker_queue WSolana = QueueSolanaBlockMonitor"
| "worker_queue WTron = QueueTronBlockMonitor"

fun worker_threads :: "chain_worker \<Rightarrow> nat" where
  "worker_threads WEVM = 3"
| "worker_threads WSolana = 0"
| "worker_threads _ = 1"

section \<open>Starting\<close>

definition repeat_options :: "string \<Rightarrow> gval \<Rightarrow> (string \<times> gval) list" where
  "repeat_options jobId interval =
     [(''jobId'', VStr jobId), (''repeat'', VMap [(''every'', interval)]),
      (''removeOnComplete'', VBool False), (''removeOnFail'', VBool False)]"

fun evm_start_chains :: "'w scheduler \<Rightarrow> chain_config list \<Rightarrow> 'w \<Rightarrow> unit res \<times> 'w" where
  "evm_start_chains sched [] w = (Ok (), w)"
| "evm_start_chains sched (c # cs) w =
     (case sched QueueEVMBlockMonitor
             (Some [(''chainId'', VInt64 (cc_ChainID c)), (''chainSymbol'', VStr (cc_Symbol c))])
             (Some (repeat_options (''evm-block-monitor-'' @ to_lower (cc_Symbol c)) (VInt 15000))) w of
        (Panic p, w') \<Rightarrow> (Panic p, w')
      | (_, w') \<Rightarrow> evm_start_chains sched cs w')"

text \<open>\<open>ChainConfigs\<close> is a Go map: \<open>order\<close> is the order in which a run visits its chains.\<close>

definition evm_StartBlockMonitor :: "chain_config list \<Rightarrow> 'w scheduler \<Rightarrow> 'w \<Rightarrow> unit res \<times> 'w" where
  "evm_StartBlockMonitor order sched w = evm_start_chains sched order w"

definition tron_StartBlockMonitor ::
  "'w httpc \<Rightarrow> string \<Rightarrow> string \<Rightarrow> 'w cache_ops \<Rightarrow> 'w scheduler \<Rightarrow> 'w \<Rightarrow> unit res \<times> 'w" where
  "tron_StartBlockMonitor hc apiURL apiKey cm sched w =
     (case tron_current_block hc apiURL apiKey w of
        (Err e, w1) \<Rightarrow> (Err e, w1)
      | (Panic p, w1) \<Rightarrow> (Panic p, w1)
      | (Ok b, w1) \<Rightarrow>
          (case cm_set cm TronBlockIdentifier (VUint64 (tb_Number b)) 3600 w1 of
             (Err e, w2) \<Rightarrow> (Err e, w2)
           | (Panic p, w2) \<Rightarrow> (Panic p, w2)
           | (Ok _, w2) \<Rightarrow>
               (case sched QueueTronBlockMonitor
                       (Some [(''lastProcessedBlockHeight'', VUint64 (tb_Number b))])
                       (Some (repeat_options ''tron-block-monitor'' (VInt 10000))) w2 of
                  (Err e, w3) \<Rightarrow> (Err e, w3)
                | (Panic p, w3) \<Rightarrow> (Panic p, w3)
                | (Ok _, w3) \<Rightarrow> (Ok (), w3))))"

definition sol_job_data :: "string \<Rightarrow> u64 \<Rightarrow> gomap" where
  "sol_job_data rpcURL cur = Some
     [(''lastProcessedBlockHeight'', VUint64 cur),
      (''monitorConfig'', VMap
         [(''interval'', VFloat (Fin 5000)), (''rpcUrl'', VStr rpcURL),
          (''processingBatch'', VFloat (Fin 10)), (''cacheExpiry'', VFloat (Fin 3600)),
          (''cacheKey'', VStr SolanaBlockIdentifier), (''isRepeatingJob'', VBool True)])]"

definition sol_job_options :: gomap where
  "sol_job_options = Some (repeat_options ''solana-block-monitor'' (VFloat (Fin 5000))
     @ [(''attempts'', VFloat (Fin 5)),
        (''backoff'', VMap [(''type'', VStr ''exponential''), (''delay'', VFloat (Fin 1000))])])"

text \<open>The backup job is scheduled after the main one; an error of it is only logged.\<close>

definition sol_StartBlockMonitor ::
  "'w sol_env \<Rightarrow> 'w cache_ops \<Rightarrow> 'w scheduler \<Rightarrow> 'w \<Rightarrow> unit res \<times> 'w" where
  "sol_StartBlockMonitor en cm sched w =
     (case sol_current_slot en w of
        (Err e, w1) \<Rightarrow> (Err e, w1)
      | (Panic p, w1) \<Rightarrow> (Panic p, w1)
      | (Ok cur, w1) \<Rightarrow>
          (case cm_set cm SolanaBlockIdentifier (VUint64 cur) 120 w1 of
             (Err e, w2) \<Rightarrow> (Err e, w2)
           | (Panic p, w2) \<Rightarrow> (Panic p, w2)
           | (Ok _, w2) \<Rightarrow>
               (case sched QueueSolanaBlockMonitor (sol_job_data (env_url en) cur) sol_job_options w2 of
                  (Err e, w3) \<Rightarrow> (Err e, w3)
                | (Panic p, w3) \<Rightarrow> (Panic p, w3)
                | (Ok jobID, w3) \<Rightarrow>
                    (case sched QueueSolanaBlockMonitor
                            (Some [(''action'', VStr ''ensure_monitor_job''), (''originalJobId'', VStr jobID),
                                   (''targetQueue'', VStr QueueSolanaBlockMonitor)])
                            (Some [(''jobId'', VStr (jobID @ ''-backup'')), (''delay'', VFloat (Fin 30000)),
                                   (''removeOnComplete'', VBool False), (''removeOnFail'', VBool False)]) w3 of
                       (Panic p, w4) \<Rightarrow> (Panic p, w4)
                     | (_, w4) \<Rightarrow> (Ok (), w4)))))"

section \<open>Properties\<close>

lemma register_worker_handlers:
  "qm_handlers (register_worker h k qm) = (qm_handlers qm)(worker_queue k \<mapsto> h k)"
  by (cases k) (simp_all add: RegisterBitcoinBlockMonitor_def RegisterEVMBlockMonitor_def
      RegisterSolanaBlockMonitor_def RegisterTronBlockMonitor_def ProcessJobs_def RegisterHandler_def)

lemma register_worker_workers:
  "qm_workers (register_worker h k qm)
     = qm_workers qm @ map (Pair (worker_queue k)) [0..<worker_threads k]"
  by (cases k) (simp_all add: RegisterBitcoinBlockMonitor_def RegisterEVMBlockMonitor_def
      RegisterSolanaBlockMonitor_def RegisterTronBlockMonitor_def ProcessJobs_def RegisterHandler_def)

lemma worker_queue_inj [simp]: "worker_queue j = worker_queue k \<longleftrightarrow> j = k"
  by (cases j; cases k) (simp_all add: QueueBitcoinBlockMonitor_def QueueEVMBlockMonitor_def
      QueueSolanaBlockMonitor_def QueueTronBlockMonitor_def)

lemma fold_register:
  "qm_handlers (fold (register_worker h) ks qm) q
     = (if q \<in> worker_queue ` set ks then Some (h (inv worker_queue q)) else qm_handlers qm q)"
  "qm_workers (fold (register_worker h) ks qm)
     = qm_workers qm @ concat (map (\<lambda>k. map (Pair (worker_queue k)) [0..<worker_threads k]) ks)"
proof -
  have i: "inv worker_queue (worker_queue k) = k" for k
    by (rule inv_f_f) (simp add: inj_on_def)
  show "qm_handlers (fold (register_worker h) ks qm) q
     = (if q \<in> worker_queue ` set ks then Some (h (inv worker_queue q)) else qm_handlers qm q)"
    by (induction ks arbitrary: qm) (auto simp: register_worker_handlers i)
  show "qm_workers (fold (register_worker h) ks qm)
     = qm_workers qm @ concat (map (\<lambda>k. map (Pair (worker_queue k)) [0..<worker_threads k]) ks)"
    by (induction ks arbitrary: qm) (simp_all add: register_worker_workers)
qed

text \<open>
  C17: In whatever order the goroutines of the enabled monitors run, registration leaves each
  enabled monitor's handler on its own queue and no other queue changed, and starts three workers for
  the EVM queue, one each for Bitcoin and Tron, and none for Solana, whose queue therefore has a
  handler that nothing runs.
\<close>

theorem register_workers_any_order:
  assumes "mset order = mset (enabled_workers cfg)"
  shows "(\<forall>k. qm_handlers (RegisterBlockchainWorkers h order qm) (worker_queue k)
        = (if k \<in> set (enabled_workers cfg) then Some (h k) else qm_handlers qm (worker_queue k)))
    \<and> (\<forall>q. q \<notin> range worker_queue \<longrightarrow>
        qm_handlers (RegisterBlockchainWorkers h order qm) q = qm_handlers qm q)
    \<and> mset (qm_workers (RegisterBlockchainWorkers h order qm)) = mset (qm_workers qm)
        + (if EnableBitcoin cfg then {#(QueueBitcoinBlockMonitor, 0)#} else {#})
        + (if EnableEVM cfg then {#(QueueEVMBlockMonitor, 0), (QueueEVMBlockMonitor, 1), (QueueEVMBlockMonitor, 2)#}
           else {#})
        + (if EnableTron cfg then {#(QueueTronBlockMonitor, 0)#} else {#})"
proof (intro conjI allI impI)
  have s: "set order = set (enabled_workers cfg)" using assms by (metis set_mset_mset)
  have i: "inv worker_queue (worker_queue k) = k" for k
    by (rule inv_f_f) (simp add: inj_on_def)
  have e: "worker_queue k \<in> worker_queue ` K \<longleftrightarrow> k \<in> K" for k K by auto
  show "qm_handlers (RegisterBlockchainWorkers h order qm) (worker_queue k)
        = (if k \<in> set (enabled_workers cfg) then Some (h k) else qm_handlers qm (worker_queue k))" for k
    by (simp add: RegisterBlockchainWorkers_def fold_register i e s)
  show "qm_handlers (RegisterBlockchainWorkers h order qm) q = qm_handlers qm q"
    if "q \<notin> range worker_queue" for q
    using that by (auto simp: RegisterBlockchainWorkers_def fold_register)
  let ?f = "\<lambda>k. mset (map (Pair (worker_queue k)) [0..<worker_threads k])"
  have "mset (concat (map (\<lambda>k. map (Pair (worker_queue k)) [0..<worker_threads k]) ks))
      = sum_mset (image_mset ?f (mset ks))" for ks
    by (induction ks) simp_all
  then show "mset (qm_workers (RegisterBlockchainWorkers h order qm)) = mset (qm_workers qm)
        + (if EnableBitcoin cfg then {#(QueueBitcoinBlockMonitor, 0)#} else {#})
        + (if EnableEVM cfg then {#(QueueEVMBlockMonitor, 0), (QueueEVMBlockMonitor, 1), (QueueEVMBlockMonitor, 2)#}
           else {#})
        + (if EnableTron cfg then {#(QueueTronBlockMonitor, 0)#} else {#})"
    by (simp add: RegisterBlockchainWorkers_def fold_register assms enabled_workers_def upt_rec)
qed

theorem register_workers_any_order_witness:
  "mset (qm_workers (RegisterBlockchainWorkers (\<lambda>k d w. (Ok (), w)) [WTron, WSolana]
      \<lparr>qm_net = (), qm_handlers = Map.empty, qm_workers = []\<rparr>)) = {#(''TronBlockMonitor'', 0)#}"
  using register_workers_any_order [of "[WTron, WSolana]"
      "\<lparr>EnableBitcoin = False, EnableEVM = False, EnableSolana = True, EnableTron = True\<rparr>"
      "\<lambda>k d w. (Ok (), w)" "\<lparr>qm_net = (), qm_handlers = Map.empty, qm_workers = []\<rparr>"]
  by (simp add: enabled_workers_def QueueTronBlockMonitor_def)

text \<open>
  C18: The EVM monitors are never scheduled: they give their interval as a Go \<open>int\<close>, on which the
  queue's \<open>AddJob\<close> panics at the first chain; the Tron monitor, once it has stored the current
  height, panics for the same reason.
\<close>

theorem start_monitors_panic:
  assumes "fst (tron_current_block hc u k w) = Ok b"
    and "fst (cm_set cm TronBlockIdentifier (VUint64 (tb_Number b)) 3600 (snd (tron_current_block hc u k w))) = Ok ()"
    and "mset order = mset (map snd ChainConfigs)"
  shows "(\<exists>p. evm_StartBlockMonitor order (ScheduleJob env) w = (Panic p, snd (qe_clock env w)))
    \<and> (\<exists>p. fst (tron_StartBlockMonitor hc u k cm (ScheduleJob env) w) = Panic p)"
proof
  have "\<exists>p. ScheduleJob env q d (Some (repeat_options j (VInt n))) v = (Panic p, snd (qe_clock env v))"
    for q d j n v
    unfolding ScheduleJob_def by (rule AddJob_bad_every [OF refl, of _ "[(''every'', VInt n)]"])
      (simp_all add: repeat_options_def)
  note panics = this
  have "order \<noteq> []" using assms(3) by (auto simp: ChainConfigs_def)
  then obtain c cs where c: "order = c # cs" by (cases order) auto
  show "\<exists>p. evm_StartBlockMonitor order (ScheduleJob env) w = (Panic p, snd (qe_clock env w))"
    using panics [of QueueEVMBlockMonitor
        "Some [(''chainId'', VInt64 (cc_ChainID c)), (''chainSymbol'', VStr (cc_Symbol c))]"
        "''evm-block-monitor-'' @ to_lower (cc_Symbol c)" 15000 w]
    by (auto simp: evm_StartBlockMonitor_def c)
  obtain w1 where w1: "tron_current_block hc u k w = (Ok b, w1)" using assms(1) by (metis prod.collapse)
  obtain w2 where w2: "cm_set cm TronBlockIdentifier (VUint64 (tb_Number b)) 3600 w1 = (Ok (), w2)"
    using assms(2) w1 by (metis prod.collapse snd_conv)
  show "\<exists>p. fst (tron_StartBlockMonitor hc u k cm (ScheduleJob env) w) = Panic p"
    using panics [of QueueTronBlockMonitor "Some [(''lastProcessedBlockHeight'', VUint64 (tb_Number b))]"
        "''tron-block-monitor''" 10000 w2]
    by (auto simp: tron_StartBlockMonitor_def w1 w2)
qed

theorem start_monitors_panic_witness:
  "(\<exists>p. evm_StartBlockMonitor (map snd ChainConfigs) (ScheduleJob demo_env) Map.empty = (Panic p, Map.empty))
   \<and> (\<exists>p. fst (tron_StartBlockMonitor \<lparr>hdo = \<lambda>m u h b w. (demo_tron 6 m u b, w)\<rparr> ''u'' []
        (cache_manager mem_redis) (ScheduleJob demo_env) Map.empty) = Panic p)"
proof -
  let ?hc = "\<lparr>hdo = \<lambda>m u h b w. (demo_tron 6 m u b, w :: keyspace)\<rparr>"
  let ?b = "\<lparr>tb_BlockID = [], tb_Number = 6, tb_ParentHash = [], tb_Timestamp = 0, tb_Transactions = []\<rparr>"
  have i: "int_of_rat 6 = Some 6" by (simp add: int_of_rat_def Let_def)
  have 1: "tron_current_block ?hc ''u'' [] w = (Ok ?b, w)" for w
    by (simp add: tron_current_block_def fetch_json_def demo_tron_def decode_body_def dec_defs i)
  have 2: "fst (cm_set (cache_manager mem_redis) TronBlockIdentifier (VUint64 6) 3600 Map.empty) = Ok ()"
    using cache_set_ok(1) [OF mem_redis_ok, of "VUint64 6"] by simp
  have "snd (qe_clock demo_env Map.empty) = Map.empty" by (simp add: demo_env_def)
  with start_monitors_panic [of ?hc "''u''" "[]" Map.empty ?b "cache_manager mem_redis"
      "map snd ChainConfigs" demo_env] 1 2 show ?thesis by simp
qed

end
