(* ===== verification/BitcoinProvider.thy ===== *)
theory BitcoinProvider
  imports Providers QueueManager Registration HttpClient Times
begin

text \<open>
  The Bitcoin provider, \<open>providers/blockchain/bitcoin/provider.go\<close>: its requests to the explorer, the choice of
  the outputs to spend, and the job of its block monitor. The environment variables and the queue manager
  of the context are arguments.
\<close>

record 'w btc_provider =
  bp_rpcURL :: string
  bp_network :: string
  bp_explorerAPI :: string
  bp_treasuryAddress :: string
  bp_privateKeyEnc :: string
  bp_http :: "'w httpc"
  bp_now :: "'w \<Rightarrow> int \<times> 'w"
  bp_queue :: "'w queue_env option"
  bp_u64 :: "f64 \<Rightarrow> u64"

record bitcoin_config =
  bg_RPCEndpoint :: string
  bg_Network :: string

definition btc_NewProvider ::
  "(string \<Rightarrow> string) \<Rightarrow> 'w httpc \<Rightarrow> ('w \<Rightarrow> int \<times> 'w) \<Rightarrow> 'w queue_env option \<Rightarrow> (f64 \<Rightarrow> u64) \<Rightarrow> bitcoin_config
     \<Rightarrow> 'w btc_provider" where
  "btc_NewProvider getenv hc now qm oor cfg =
     \<lparr>bp_rpcURL = bg_RPCEndpoint cfg, bp_network = bg_Network cfg,
      bp_explorerAPI = (if to_lower (bg_Network cfg) = ''testnet'' then ''https://api.blockcypher.com/v1/btc/test3''
        else ''https://api.blockcypher.com/v1/btc/main''),
      bp_treasuryAddress = getenv ''BITCOIN_TREASURY_ADDRESS'', bp_privateKeyEnc = getenv ''BITCOIN_PRIVATE_KEY'',
      bp_http = hc, bp_now = now, bp_queue = qm, bp_u64 = oor\<rparr>"

text \<open>The pattern of its requests; \<open>what\<close> names what is fetched in the messages.\<close>

definition btc_fetch ::
  "'w btc_provider \<Rightarrow> string \<Rightarrow> (json \<Rightarrow> 'a option) \<Rightarrow> string \<Rightarrow> 'w \<Rightarrow> 'a res \<times> 'w" where
  "btc_fetch p what dec url w =
     (let bad = (\<lambda>code. Err (EMsg (''failed to fetch '' @ what @ '', status code: '' @ show_int 10 code)));
          undecoded = (\<lambda>e. Err (EWrap (''failed to decode '' @ what @ '' response: '') e))
      in case hdo (bp_http p) ''GET'' url [] None w of
           (HReqErr e, w1) \<Rightarrow> (Err (EWrap ''failed to create HTTP request: '' e), w1)
         | (HDoErr e, w1) \<Rightarrow> (Err (EWrap (''failed to fetch '' @ what @ '': '') e), w1)
         | (HBodyErr code e, w1) \<Rightarrow> ((if code \<noteq> 200 then bad code else undecoded e), w1)
         | (HResp code b, w1) \<Rightarrow>
             ((if code \<noteq> 200 then bad code
               else case b of
                 Enc j \<Rightarrow> (case dec j of Some a \<Rightarrow> Ok a | None \<Rightarrow> undecoded (EMsg ''json: cannot unmarshal''))
               | Raw _ \<Rightarrow> undecoded (EMsg ''invalid character'')), w1))"

definition dec_final_balance :: "json \<Rightarrow> int option" where
  "dec_final_balance j = (if \<not> jstruct j then None else ji64 j ''final_balance'')"

definition btc_provider_GetBalance :: "'w btc_provider \<Rightarrow> string \<Rightarrow> 'w \<Rightarrow> f64 res \<times> 'w" where
  "btc_provider_GetBalance p address w =
     (case btc_fetch p ''balance'' dec_final_balance (bp_explorerAPI p @ ''/addrs/'' @ address @ ''/balance'') w of
        (r, w1) \<Rightarrow> (map_res (\<lambda>n. f64_div False (f64_of_int n) (Fin 100000000)) r, w1))"

definition btc_ValidateAddress :: "string \<Rightarrow> bool" where
  "btc_ValidateAddress address =
     (if length address = 0 then False
      else if has_prefix ''1'' address then length address \<ge> 26 \<and> length address \<le> 34
      else if has_prefix ''3'' address then length address \<ge> 26 \<and> length address \<le> 34
      else if has_prefix ''bc1'' address \<and> length address = 42 then True
      else if has_prefix ''bc1'' address \<and> length address \<ge> 62 \<and> length address \<le> 64 then True
      else length address \<ge> 26 \<and> length address \<le> 64)"

section \<open>Tokens\<close>

definition isNumeric :: "string \<Rightarrow> bool" where
  "isNumeric s \<longleftrightarrow> list_all (\<lambda>c. is_digit c) s \<and> s \<noteq> []"

definition dec_omni :: "json \<Rightarrow> (string \<times> string \<times> int) option" where
  "dec_omni j = (if \<not> jstruct j then None else do {
     n \<leftarrow> jstr j ''name''; s \<leftarrow> jstr j ''symbol''; d \<leftarrow> ji64 j ''precision''; Some (n, s, d) })"

definition btc_token :: "string \<Rightarrow> string \<Rightarrow> int \<Rightarrow> string \<Rightarrow> string \<Rightarrow> token_details" where
  "btc_token name symbol decimals address icon =
     \<lparr>td_Name = name, td_Symbol = symbol, td_Decimals = decimals, td_TotalSupply = [], td_TokenAddress = address,
      td_IconURL = icon, td_Website = [], td_ChainID = ''1''\<rparr>"

definition unknown_btc_token :: "string \<Rightarrow> token_details" where
  "unknown_btc_token tokenAddress = btc_token ''Unknown Bitcoin Asset'' ''UNKNOWN'' 8 tokenAddress []"

definition btc_GetTokenDetails :: "'w btc_provider \<Rightarrow> string \<Rightarrow> 'w \<Rightarrow> token_details res \<times> 'w" where
  "btc_GetTokenDetails p tokenAddress w =
     (if to_lower tokenAddress = ''btc'' \<or> to_lower tokenAddress = ''bitcoin''
      then (Ok (btc_token ''Bitcoin'' ''BTC'' 8 ''bitcoin'' ''https://assets.coingecko.com/coins/images/1/large/bitcoin.png''), w)
      else if isNumeric tokenAddress
      then (case hdo (bp_http p) ''GET'' (''https://api.omniexplorer.info/v1/property/'' @ tokenAddress) [] None w of
              (HReqErr e, w1) \<Rightarrow> (Err (EWrap ''failed to create Omni HTTP request: '' e), w1)
            | (HResp code (Enc j), w1) \<Rightarrow>
                (case (if code = 200 then dec_omni j else None) of
                   Some (n, s, d) \<Rightarrow> (Ok (btc_token n s d tokenAddress []), w1)
                 | None \<Rightarrow> (Ok (unknown_btc_token tokenAddress), w1))
            | (_, w1) \<Rightarrow> (Ok (unknown_btc_token tokenAddress), w1))
      else (Ok (unknown_btc_token tokenAddress), w))"

section \<open>Transactions\<close>

record utxo =
  ut_TxHash :: string
  ut_OutputIdx :: nat
  ut_Value :: u64
  ut_ScriptPubKey :: string

definition dec_txref :: "json \<Rightarrow> utxo option" where
  "dec_txref j = (if \<not> jstruct j then None else do {
     h \<leftarrow> jstr j ''tx_hash''; n \<leftarrow> jint 0 (2 ^ 32) j ''tx_output_n''; v \<leftarrow> ju64 j ''value''; s \<leftarrow> jstr j ''script'';
     Some \<lparr>ut_TxHash = h, ut_OutputIdx = nat n, ut_Value = v, ut_ScriptPubKey = s\<rparr> })"

definition dec_txrefs :: "json \<Rightarrow> utxo list option" where
  "dec_txrefs j = (if \<not> jstruct j then None else jlist dec_txref j ''txrefs'')"

definition getUTXOs :: "'w btc_provider \<Rightarrow> string \<Rightarrow> 'w \<Rightarrow> utxo list res \<times> 'w" where
  "getUTXOs p address w =
     btc_fetch p ''UTXOs'' dec_txrefs (bp_explorerAPI p @ ''/addrs/'' @ address @ ''?unspentOnly=true'') w"

text \<open>The loop: outputs are added, in order, until the total covers what is required; sums wrap around.\<close>

fun select_loop :: "utxo list \<Rightarrow> u64 \<Rightarrow> utxo list \<Rightarrow> u64 \<Rightarrow> utxo list \<times> u64" where
  "select_loop [] req selected acc = (selected, acc)"
| "select_loop (u # us) req selected acc =
     (let selected' = selected @ [u]; acc' = acc + ut_Value u
      in if acc' \<ge> req then (selected', acc') else select_loop us req selected' acc')"

definition selectUTXOs :: "utxo list \<Rightarrow> u64 \<Rightarrow> (utxo list \<times> u64) res" where
  "selectUTXOs utxos req =
     (case select_loop utxos req [] 0 of (selected, acc) \<Rightarrow>
        if acc < req
        then Err (EMsg (''insufficient funds: required '' @ show_nat 10 (unat req) @ '' satoshis, available ''
               @ show_nat 10 (unat acc) @ '' satoshis''))
        else Ok (selected, acc))"

definition btc_GetTreasuryAddress :: "'w btc_provider \<Rightarrow> string res" where
  "btc_GetTreasuryAddress p =
     (if bp_treasuryAddress p = [] then Err (EMsg ''treasury address is not configured'') else Ok (bp_treasuryAddress p))"

definition btc_fee :: u64 where "btc_fee = 10000"

definition sats_needed :: "'w btc_provider \<Rightarrow> f64 \<Rightarrow> u64" where
  "sats_needed p amount = u64_of_f64 (bp_u64 p) (f64_mul amount (Fin 100000000))"

text \<open>\<open>time.RFC3339\<close>, without a fraction; a year of more than four digits has no text here.\<close>

definition rfc3339 :: "int \<Rightarrow> string" where
  "rfc3339 now = (case show_civil (now div 10 ^ 9) 0 0 of Some s \<Rightarrow> s | None \<Rightarrow> [])"

text \<open>Nothing is built or broadcast: the transaction identifier is a mock.\<close>

definition btc_CreateTransaction :: "'w btc_provider \<Rightarrow> tx_params \<Rightarrow> 'w \<Rightarrow> string res \<times> 'w" where
  "btc_CreateTransaction p params w =
     (case (if tp_UseTreasury params then btc_GetTreasuryAddress p else Ok (tp_FromAddress params)) of
        Err e \<Rightarrow> (Err (EWrap ''failed to get treasury address: '' e), w)
      | Panic x \<Rightarrow> (Panic x, w)
      | Ok address \<Rightarrow>
          (case getUTXOs p address w of
             (Err e, w1) \<Rightarrow> (Err (EWrap ''failed to get UTXOs: '' e), w1)
           | (Panic x, w1) \<Rightarrow> (Panic x, w1)
           | (Ok utxos, w1) \<Rightarrow>
               (case selectUTXOs utxos (sats_needed p (tp_Amount params) + btc_fee) of
                  Err e \<Rightarrow> (Err e, w1)
                | Panic x \<Rightarrow> (Panic x, w1)
                | Ok _ \<Rightarrow> (case bp_now p w1 of (now, w2) \<Rightarrow> (Ok (''mock_tx_id_'' @ rfc3339 now), w2)))))"

definition btc_CreateDepositAddress :: deposit_address where
  "btc_CreateDepositAddress = \<lparr>da_Address = ''bc1qxy2kgdygjrsqtzq2n0yrf2493p83kkfjhx0wlh'',
     da_PrivateKey = ''encrypted_private_key_mock'',
     da_DerivationPath = ''m/44'' @ [CHR 0x27] @ ''/0'' @ [CHR 0x27] @ ''/0'' @ [CHR 0x27] @ ''/0/0''\<rparr>"

section \<open>Blocks\<close>

text \<open>A time that does not parse is replaced by the current one.\<close>

definition time_or_now :: "'w btc_provider \<Rightarrow> string \<Rightarrow> 'w \<Rightarrow> int \<times> 'w" where
  "time_or_now p s w = (case parse_time s of Some t \<Rightarrow> (t_ns t, w) | None \<Rightarrow> bp_now p w)"

definition dec_chain_head :: "json \<Rightarrow> (u64 \<times> string \<times> string) option" where
  "dec_chain_head j = (if \<not> jstruct j then None else do {
     n \<leftarrow> ju64 j ''height''; h \<leftarrow> jstr j ''hash''; t \<leftarrow> jstr j ''time''; Some (n, h, t) })"

definition btc_GetChainInfo :: "'w btc_provider \<Rightarrow> 'w \<Rightarrow> chain_info res \<times> 'w" where
  "btc_GetChainInfo p w =
     (case btc_fetch p ''chain info'' dec_chain_head (bp_explorerAPI p) w of
        (Err e, w1) \<Rightarrow> (Err e, w1)
      | (Panic x, w1) \<Rightarrow> (Panic x, w1)
      | (Ok (n, h, t), w1) \<Rightarrow>
          (case time_or_now p t w1 of (now, w2) \<Rightarrow>
             (Ok \<lparr>ci_Height = n, ci_Hash = h, ci_Time = now, ci_Chain = ''bitcoin''\<rparr>, w2)))"

definition dec_block_details :: "json \<Rightarrow> (string \<times> u64 \<times> string \<times> string \<times> string list) option" where
  "dec_block_details j = (if \<not> jstruct j then None else do {
     h \<leftarrow> jstr j ''hash''; n \<leftarrow> ju64 j ''height''; t \<leftarrow> jstr j ''time''; pr \<leftarrow> jstr j ''prev_block'';
     ids \<leftarrow> jlist dec_json_str j ''txids''; Some (h, n, t, pr, ids) })"

definition btc_GetBlockDetails :: "'w btc_provider \<Rightarrow> string \<Rightarrow> 'w \<Rightarrow> block_details res \<times> 'w" where
  "btc_GetBlockDetails p blockHash w =
     (case btc_fetch p ''block details'' dec_block_details (bp_explorerAPI p @ ''/blocks/'' @ blockHash) w of
        (Err e, w1) \<Rightarrow> (Err e, w1)
      | (Panic x, w1) \<Rightarrow> (Panic x, w1)
      | (Ok (h, n, t, pr, ids), w1) \<Rightarrow>
          (case time_or_now p t w1 of (now, w2) \<Rightarrow>
             (Ok \<lparr>bd_Hash = h, bd_Height = n, bd_Time = now, bd_PreviousBlockHash = pr, bd_Transactions = ids\<rparr>, w2)))"

definition btc_monitor_options :: "(string \<times> gval) list" where
  "btc_monitor_options = [(''repeat'', VMap [(''every'', VInt 60000)]), (''jobId'', VStr ''btc-block-monitor''),
     (''removeOnComplete'', VBool False), (''removeOnFail'', VBool False)]"

definition btc_StartBlockMonitor :: "'w btc_provider \<Rightarrow> 'w \<Rightarrow> unit res \<times> 'w" where
  "btc_StartBlockMonitor p w =
     (case btc_GetChainInfo p w of
        (Err e, w1) \<Rightarrow> (Err (EWrap ''failed to get chain info: '' e), w1)
      | (Panic x, w1) \<Rightarrow> (Panic x, w1)
      | (Ok info, w1) \<Rightarrow>
          (case bp_queue p of
             None \<Rightarrow> (Err (EMsg ''queue manager not found in context''), w1)
           | Some env \<Rightarrow>
               (case AddJob env QueueBitcoinBlockMonitor
                       (Some [(''lastProcessedBlockHeight'', VUint64 (ci_Height info)), (''chainSymbol'', VStr ''btc'')])
                       (Some btc_monitor_options) w1 of
                  (Err e, w2) \<Rightarrow> (Err (EWrap ''failed to schedule Bitcoin block monitor job: '' e), w2)
                | (Panic x, w2) \<Rightarrow> (Panic x, w2)
                | (Ok _, w2) \<Rightarrow> (Ok (), w2))))"

text \<open>The status of the queue is only logged.\<close>

definition btc_StopBlockMonitor :: "'w btc_provider \<Rightarrow> 'w \<Rightarrow> unit res \<times> 'w" where
  "btc_StopBlockMonitor p w =
     (case bp_queue p of
        None \<Rightarrow> (Err (EMsg ''queue manager not found in context''), w)
      | Some env \<Rightarrow>
          (case GetQueueStatus env QueueBitcoinBlockMonitor w of
             (Panic x, w1) \<Rightarrow> (Panic x, w1)
           | (_, w1) \<Rightarrow>
               (case ClearQueue env QueueBitcoinBlockMonitor w1 of
                  (Err e, w2) \<Rightarrow> (Err (EWrap ''failed to clear Bitcoin block monitor queue: '' e), w2)
                | r \<Rightarrow> r)))"

definition btc_chain_provider :: "'w btc_provider \<Rightarrow> 'w chain_provider" where
  "btc_chain_provider p =
     \<lparr>pv_type = BTCProvider, pv_GetBalance = (\<lambda>_ a _. btc_provider_GetBalance p a),
      pv_ValidateAddress = btc_ValidateAddress, pv_GetTokenDetails = btc_GetTokenDetails p,
      pv_WatchAddress = (\<lambda>_ w. w), pv_CreateTransaction = btc_CreateTransaction p,
      pv_CreateDepositAddress = Pair (Ok btc_CreateDepositAddress),
      pv_StartBlockMonitor = btc_StartBlockMonitor p, pv_StopBlockMonitor = btc_StopBlockMonitor p,
      pv_GetChainInfo = btc_GetChainInfo p, pv_GetBlockDetails = btc_GetBlockDetails p,
      pv_GetTreasuryAddress = btc_GetTreasuryAddress p\<rparr>"

end
