(* ===== verification/ProviderProperties.thy ===== *)
theory ProviderProperties
  imports BitcoinProvider
begin

text \<open>
  The theorems on the providers: the two ways to a balance, the choice of the outputs of a Bitcoin
  transaction, and the block monitor that cannot be started.
\<close>

section \<open>Two ways to a balance\<close>

lemma bare_sel [simp]:
  "cu_Symbol (bare_currency a) = a" "ch_Symbol (bare_chain a n) = a" "ch_NetworkType (bare_chain a n) = n"
  by (simp_all add: bare_currency_def bare_chain_def)

lemma gap_symbols:
  "\<forall>s \<in> {''ARB'', ''OP'', ''AVAX'', ''FTM'', ''BASE'', ''GNOSIS''}. to_lower s \<in> set evm_symbols \<and> to_lower s \<noteq> ''btc''"
  by code_simp

text \<open>For a chain both know, stored with the network type of its symbol, \<open>GetBalance\<close> by symbols does what
  \<open>FetchAccountBalance\<close> does, with the same provider, except that it refuses an address the provider does
  not accept; for a symbol it does not know (among them ARB, OP, AVAX, FTM, BASE and GNOSIS) it fails, where
  \<open>FetchAccountBalance\<close> has a provider.\<close>

theorem balance_by_symbols:
  fixes fa :: "'w provider_factory"
  assumes "symbol_network (ch_Symbol ch) = None \<or> symbol_network (ch_Symbol ch) = Some (ch_NetworkType ch)"
  shows "case symbol_network (ch_Symbol ch) of
      None \<Rightarrow> svc_GetBalance fa ctx (ch_Symbol ch) a k sc s
          = (Err (EWrap ''failed to get provider: '' (EMsg (''unsupported chain symbol: '' @ ch_Symbol ch))), s)
        \<and> (ch_Symbol ch \<in> {''ARB'', ''OP'', ''AVAX'', ''FTM'', ''BASE'', ''GNOSIS''} \<and> ch_NetworkType ch \<noteq> ''BITCOIN'' \<longrightarrow> select_provider ch = Some EVMProvider)
    | Some _ \<Rightarrow> (case GetProviderForCurrency fa k ch s of
        (Ok p, s1) \<Rightarrow> (if pv_ValidateAddress p a then svc_GetBalance fa ctx (ch_Symbol ch) a k sc s = FetchAccountBalance fa ctx a k ch sc s
            else svc_GetBalance fa ctx (ch_Symbol ch) a k sc s = (Err (EMsg (''invalid wallet address: '' @ a)), s1))
      | _ \<Rightarrow> svc_GetBalance fa ctx (ch_Symbol ch) a k sc s = FetchAccountBalance fa ctx a k ch sc s)"
proof (cases "symbol_network (ch_Symbol ch)")
  case None
  have "select_provider ch = Some EVMProvider" if "ch_Symbol ch \<in> {''ARB'', ''OP'', ''AVAX'', ''FTM'', ''BASE'', ''GNOSIS''}"
      "ch_NetworkType ch \<noteq> ''BITCOIN''"
  proof -
    have "to_lower (ch_Symbol ch) \<in> set evm_symbols" "to_lower (ch_Symbol ch) \<noteq> ''btc''"
      using that(1) gap_symbols by auto
    with that(2) show ?thesis by (simp add: select_provider_def)
  qed
  with None show ?thesis by (simp add: svc_GetBalance_def GetProviderForSymbols_def)
next
  case (Some nt)
  then have "select_provider (bare_chain (ch_Symbol ch) nt) = select_provider ch" "ch_NetworkType ch = nt"
    using assms by (simp_all add: select_provider_def)
  then have "GetProviderForCurrency fa (bare_currency (cu_Symbol k)) (bare_chain (ch_Symbol ch) nt) s
      = GetProviderForCurrency fa k ch s"
    by (cases "fst s (provider_key (cu_Symbol k) (ch_Symbol ch))"; cases "select_provider ch")
      (simp_all add: GetProviderForCurrency_def Let_def)
  moreover obtain r m w where "GetProviderForCurrency fa k ch s = (r, m, w)" by (metis surj_pair)
  ultimately show ?thesis
    using Some by (cases r) (simp_all add: svc_GetBalance_def FetchAccountBalance_def GetProviderForSymbols_def)
qed

definition demo_factory :: "mstore provider_factory" where
  "demo_factory = (let mk = (\<lambda>w. (Ok (mock_provider mem_db ''ETH''), w))
     in \<lparr>fa_bitcoin = mk, fa_evm = (\<lambda>_. mk), fa_solana = mk, fa_tron = mk, fa_changenow = mk\<rparr>)"

theorem balance_by_symbols_witness:
  "svc_GetBalance demo_factory Map.empty ''ETH'' ''0x'' (bare_currency ''ETH'') None (Map.empty, \<lambda>_. [])
     = (Err (EMsg (''invalid wallet address: 0x'')), [''ETH_ETH'' \<mapsto> mock_provider mem_db ''ETH''], \<lambda>_. [])
   \<and> fst (svc_GetBalance demo_factory Map.empty ''ARB'' ''0x'' (bare_currency ''ETH'') None (Map.empty, \<lambda>_. []))
     = Err (EWrap ''failed to get provider: '' (EMsg ''unsupported chain symbol: ARB''))"
proof -
  have p: "GetProviderForCurrency demo_factory (bare_currency ''ETH'') (bare_chain ''ETH'' ''EVM'') (Map.empty, \<lambda>_. [])
      = (Ok (mock_provider mem_db ''ETH''), [''ETH_ETH'' \<mapsto> mock_provider mem_db ''ETH''], \<lambda>_. [])"
    by (simp add: GetProviderForCurrency_def provider_key_def demo_factory_def new_provider_def select_provider_def Let_def)
  have n: "symbol_network ''ETH'' = Some ''EVM''" "symbol_network ''ARB'' = None" by (simp_all add: symbol_network_def)
  have v: "pv_ValidateAddress (mock_provider mem_db ''ETH'') ''0x'' = False"
    by (simp add: mock_provider_def mock_ValidateAddress_def mock_evm_def)
  from balance_by_symbols [of "bare_chain ''ETH'' ''EVM''" demo_factory Map.empty "''0x''" "bare_currency ''ETH''" None "(Map.empty, \<lambda>_. [])"]
    balance_by_symbols [of "bare_chain ''ARB'' ''EVM''" demo_factory Map.empty "''0x''" "bare_currency ''ETH''" None "(Map.empty, \<lambda>_. [])"]
  show ?thesis by (simp add: p n v)
qed

section \<open>Outputs\<close>

definition value_of_utxos :: "utxo list \<Rightarrow> nat" where
  "value_of_utxos us = sum_list (map (\<lambda>u. unat (ut_Value u)) us)"

lemma value_of_utxos_simps [simp]:
  "value_of_utxos [] = 0" "value_of_utxos (u # us) = unat (ut_Value u) + value_of_utxos us"
  "value_of_utxos (us @ vs) = value_of_utxos us + value_of_utxos vs"
  by (simp_all add: value_of_utxos_def)

lemma select_loop_covers:
  assumes "unat acc + value_of_utxos us < 2 ^ 64" "select_loop us req sel acc = (sel', acc')"
    and "unat acc < unat req \<or> sel = []"
  shows "\<exists>k \<le> length us. sel' = sel @ take k us \<and> unat acc' = unat acc + value_of_utxos (take k us)
    \<and> (\<forall>j < k. 0 < j \<longrightarrow> unat acc + value_of_utxos (take j us) < unat req) \<and> (acc' < req \<longrightarrow> k = length us)"
  using assms
proof (induction us arbitrary: sel acc)
  case (Cons u us)
  have s: "unat (acc + ut_Value u) = unat acc + unat (ut_Value u)"
    using Cons.prems(1) by (intro unat_add_lem [THEN iffD1]) simp
  show ?case
  proof (cases "req \<le> acc + ut_Value u")
    case True
    with Cons.prems(2) have "sel' = sel @ [u]" "acc' = acc + ut_Value u" by (simp_all add: Let_def)
    with True s show ?thesis by (intro exI [of _ 1]) auto
  next
    case False
    then have lt: "unat (acc + ut_Value u) < unat req" by (simp add: word_less_nat_alt not_le)
    from Cons.IH [of "acc + ut_Value u" "sel @ [u]"] Cons.prems False s lt obtain k where
      k: "k \<le> length us" "sel' = sel @ [u] @ take k us" "unat acc' = unat (acc + ut_Value u) + value_of_utxos (take k us)"
      "\<forall>j < k. 0 < j \<longrightarrow> unat (acc + ut_Value u) + value_of_utxos (take j us) < unat req" "acc' < req \<longrightarrow> k = length us"
      by (auto simp: Let_def)
    have "unat acc + value_of_utxos (take j (u # us)) < unat req" if "j < Suc k" "0 < j" for j
      using that k(4) lt s by (cases j; cases "j = 1") auto
    with k s show ?thesis by (intro exI [of _ "Suc k"]) auto
  qed
qed (auto intro: exI [of _ 0])

text \<open>C40: As long as the values of the outputs do not add up to \<open>2\<^sup>6\<^sup>4\<close> satoshis, the outputs selected are the shortest
  non-empty prefix whose total covers what is required, the total returned is their sum, and selection fails exactly
  if all outputs together do not cover it.\<close>

theorem select_utxos_minimal:
  assumes "value_of_utxos us < 2 ^ 64"
  shows "case selectUTXOs us req of
      Ok (sel, acc) \<Rightarrow> \<exists>k \<le> length us. sel = take k us \<and> unat acc = value_of_utxos (take k us) \<and> req \<le> acc
        \<and> (\<forall>j < k. 0 < j \<longrightarrow> value_of_utxos (take j us) < unat req)
    | Err _ \<Rightarrow> value_of_utxos us < unat req
    | Panic _ \<Rightarrow> False"
proof -
  obtain sel acc where l: "select_loop us req [] 0 = (sel, acc)" by (rule prod.exhaust)
  have "unat (0 :: u64) + value_of_utxos us < 2 ^ 64" using assms by simp
  from select_loop_covers [OF this l] obtain k where k: "k \<le> length us" "sel = [] @ take k us"
    "unat acc = unat (0 :: u64) + value_of_utxos (take k us)"
    "\<forall>j < k. 0 < j \<longrightarrow> unat (0 :: u64) + value_of_utxos (take j us) < unat req" "acc < req \<longrightarrow> k = length us"
    by blast
  show ?thesis
  proof (cases "acc < req")
    case True
    with k(3,5) have "value_of_utxos us < unat req" by (simp add: word_less_nat_alt)
    with True l show ?thesis by (simp add: selectUTXOs_def)
  next
    case False
    then have "req \<le> acc" by simp
    with k have "\<exists>k \<le> length us. sel = take k us \<and> unat acc = value_of_utxos (take k us) \<and> req \<le> acc
        \<and> (\<forall>j < k. 0 < j \<longrightarrow> value_of_utxos (take j us) < unat req)" by (metis add_0 append_Nil unat_0)
    with False l show ?thesis by (simp add: selectUTXOs_def)
  qed
qed

theorem select_utxos_minimal_witness:
  "case selectUTXOs [\<lparr>ut_TxHash = ''a'', ut_OutputIdx = 0, ut_Value = 3, ut_ScriptPubKey = []\<rparr>,
       \<lparr>ut_TxHash = ''b'', ut_OutputIdx = 1, ut_Value = 4, ut_ScriptPubKey = []\<rparr>,
       \<lparr>ut_TxHash = ''c'', ut_OutputIdx = 0, ut_Value = 9, ut_ScriptPubKey = []\<rparr>] 6 of
     Ok (sel, acc) \<Rightarrow> length sel = 2 \<and> acc = 7 | _ \<Rightarrow> False"
proof -
  let ?us = "[\<lparr>ut_TxHash = ''a'', ut_OutputIdx = 0, ut_Value = 3, ut_ScriptPubKey = []\<rparr>,
       \<lparr>ut_TxHash = ''b'', ut_OutputIdx = 1, ut_Value = 4, ut_ScriptPubKey = []\<rparr>,
       \<lparr>ut_TxHash = ''c'', ut_OutputIdx = 0, ut_Value = 9, ut_ScriptPubKey = []\<rparr>]"
  have "value_of_utxos ?us < 2 ^ 64" by (simp add: value_of_utxos_def)
  from select_utxos_minimal [OF this, of 6] show ?thesis by (simp add: selectUTXOs_def)
qed

section \<open>The block monitor\<close>

text \<open>Starting the Bitcoin block monitor panics whenever the explorer answers and the context has a queue manager:
  the repeat interval is an \<open>int\<close>; no job is stored.\<close>

theorem bitcoin_monitor_panics:
  assumes "btc_GetChainInfo p w = (Ok info, w1)" "bp_queue p = Some env"
  shows "\<exists>x. btc_StartBlockMonitor p w = (Panic x, snd (qe_clock env w1))"
proof -
  let ?d = "Some [(''lastProcessedBlockHeight'', VUint64 (ci_Height info)), (''chainSymbol'', VStr ''btc'')]"
  obtain x where "AddJob env QueueBitcoinBlockMonitor ?d (Some btc_monitor_options) w1 = (Panic x, snd (qe_clock env w1))"
    using AddJob_bad_every [of "Some btc_monitor_options" btc_monitor_options "[(''every'', VInt 60000)]" env
      QueueBitcoinBlockMonitor ?d w1] by (auto simp: btc_monitor_options_def)
  with assms show ?thesis by (simp add: btc_StartBlockMonitor_def)
qed

theorem bitcoin_monitor_panics_witness:
  "\<exists>x w. btc_StartBlockMonitor (btc_NewProvider (\<lambda>_. []) \<lparr>hdo = (\<lambda>_ _ _ _ m. (HResp 200 (Enc (JObj [])), m))\<rparr> (Pair 0)
      (Some demo_env) (\<lambda>_. 0) \<lparr>bg_RPCEndpoint = [], bg_Network = ''mainnet''\<rparr>) Map.empty = (Panic x, w)"
proof -
  let ?p = "btc_NewProvider (\<lambda>_. []) \<lparr>hdo = (\<lambda>_ _ _ _ m. (HResp 200 (Enc (JObj [])), m))\<rparr> (Pair 0)
      (Some demo_env) (\<lambda>_. 0) \<lparr>bg_RPCEndpoint = [], bg_Network = ''mainnet''\<rparr> :: keyspace btc_provider"
  obtain r w1 where i: "btc_GetChainInfo ?p Map.empty = (r, w1)" by (rule prod.exhaust)
  moreover have "is_ok (fst (btc_GetChainInfo ?p Map.empty))"
    by (simp add: btc_GetChainInfo_def btc_fetch_def btc_NewProvider_def dec_chain_head_def jstruct_def ju64_def jint_def
        jstr_def jmember_def json_lookup_def time_or_now_def split: option.splits prod.splits)
  ultimately obtain info where "r = Ok info" by (cases r) auto
  with i bitcoin_monitor_panics [of ?p Map.empty info w1 demo_env] show ?thesis
    by (auto simp: btc_NewProvider_def)
qed

end
