(* ===== verification/AnkrUrls.thy ===== *)
theory AnkrUrls
  imports GoStrings
begin

text \<open>
  \<open>internal/utils/ankr_api_helper.go\<close>: the API key as the last part of an Ankr URL, put there, taken
  out again, and masked for the log.
\<close>

definition mask_key :: "string \<Rightarrow> string" where
  "mask_key key =
     (if length key > 8 then take 4 key @ ''...'' @ drop (length key - 4) key
      else if length key > 0 then ''***'' else key)"

definition MaskAPIKey :: "string \<Rightarrow> string" where
  "MaskAPIKey url =
     (if \<not> contains url ''ankr.com'' then url
      else
        let parts = split_on (CHR ''/'') url in
        if length parts > 4 \<and> last parts \<noteq> []
        then join_with (CHR ''/'') (butlast parts @ [mask_key (last parts)])
        else url)"

definition AddAPIKeyToURL :: "string \<Rightarrow> string \<Rightarrow> string" where
  "AddAPIKeyToURL url apiKey =
     (if apiKey = [] \<or> \<not> contains url ''ankr.com'' then url
      else if contains url apiKey then url
      else if has_suffix url ''/'' then url @ apiKey
      else url @ ''/'' @ apiKey)"

definition ExtractAPIKeyFromURL :: "string \<Rightarrow> string \<times> string" where
  "ExtractAPIKeyFromURL url =
     (if \<not> contains url ''ankr.com'' \<or> \<not> contains url ''/'' then ([], url)
      else
        let parts = split_on (CHR ''/'') url in
        if length parts > 4 \<and> last parts \<noteq> []
        then (last parts, join_with (CHR ''/'') (butlast parts))
        else ([], url))"

text \<open>The URL without a slash at its end.\<close>

definition trim_slash :: "string \<Rightarrow> string" where
  "trim_slash url = (if has_suffix url ''/'' then butlast url else url)"

lemma has_suffix_slash: "has_suffix url ''/'' \<Longrightarrow> url = butlast url @ ''/''"
  by (cases url rule: rev_cases) (auto simp: has_suffix_def)

lemma add_key_eq:
  assumes "apiKey \<noteq> []" "contains url ''ankr.com''" "\<not> contains url apiKey"
  shows "AddAPIKeyToURL url apiKey = trim_slash url @ CHR ''/'' # apiKey"
  using assms has_suffix_slash [of url] by (auto simp: AddAPIKeyToURL_def trim_slash_def)

lemma contains_trim: "contains url p \<Longrightarrow> contains (trim_slash url @ CHR ''/'' # k) p"
proof (cases "has_suffix url ''/''")
  case True
  moreover assume "contains url p"
  ultimately show ?thesis using contains_mono [of url p "[]" k] has_suffix_slash [OF True]
    by (simp add: trim_slash_def) (metis append.assoc append_Cons append_Nil)
next
  case False
  moreover assume "contains url p"
  ultimately show ?thesis using contains_mono [of url p "[]" "CHR ''/'' # k"] by (simp add: trim_slash_def)
qed

text \<open>
  A key added to an Ankr URL of at least four parts can be taken out again, with the URL it was
  added to, and masking the result replaces the key, and only it, by its first and last four
  characters, or by asterisks.
\<close>

theorem api_key_roundtrip:
  assumes "contains url ''ankr.com''" "count_char (CHR ''/'') (trim_slash url) \<ge> 3"
    and "apiKey \<noteq> []" "CHR ''/'' \<notin> set apiKey" "\<not> contains url apiKey"
  shows "ExtractAPIKeyFromURL (AddAPIKeyToURL url apiKey) = (apiKey, trim_slash url)
    \<and> MaskAPIKey (AddAPIKeyToURL url apiKey) = trim_slash url @ CHR ''/'' # mask_key apiKey"
proof -
  let ?u = "trim_slash url @ CHR ''/'' # apiKey"
  have parts: "split_on (CHR ''/'') ?u = split_on (CHR ''/'') (trim_slash url) @ [apiKey]"
    using assms(4) by (rule split_on_snoc)
  have len: "length (split_on (CHR ''/'') (trim_slash url)) \<ge> 4" using assms(2)
    by (simp add: length_split_on)
  have c: "contains ?u ''ankr.com''" by (rule contains_trim [OF assms(1)])
  have s: "contains ?u ''/''" unfolding contains_iff by auto
  have "AddAPIKeyToURL url apiKey = ?u" by (rule add_key_eq [OF assms(3,1,5)])
  then show ?thesis using parts len c s assms(3)
    by (simp add: ExtractAPIKeyFromURL_def MaskAPIKey_def Let_def join_with_snoc del: contains.simps)
qed

theorem api_key_roundtrip_witness:
  "ExtractAPIKeyFromURL (AddAPIKeyToURL ''https://rpc.ankr.com/eth'' ''0123456789abcdef'')
     = (''0123456789abcdef'', ''https://rpc.ankr.com/eth'')
   \<and> MaskAPIKey (AddAPIKeyToURL ''https://rpc.ankr.com/eth'' ''0123456789abcdef'')
     = ''https://rpc.ankr.com/eth/0123...cdef''"
proof -
  have 1: "contains ''https://rpc.ankr.com/eth'' ''ankr.com''" by code_simp
  have 2: "count_char (CHR ''/'') (trim_slash ''https://rpc.ankr.com/eth'') \<ge> 3" by code_simp
  have 3: "\<not> contains ''https://rpc.ankr.com/eth'' ''0123456789abcdef''" by code_simp
  have 4: "trim_slash ''https://rpc.ankr.com/eth'' = ''https://rpc.ankr.com/eth''" by code_simp
  show ?thesis using api_key_roundtrip [OF 1 2 _ _ 3] unfolding 4 by (simp add: mask_key_def)
qed

end
