(* ===== verification/ChangeNowWorker.thy ===== *)
theory ChangeNowWorker
  imports ChangeNowProvider AccountWorkers
begin

text \<open>
  \<open>internal/worker/changenow/worker.go\<close>: the orders that are filled through ChangeNow. Every two minutes
  the worker asks the exchange for the state of each order that is not settled: a failed exchange marks
  the order as failed, a finished one is reported to the Node.js server, which settles the order. The
  handler of the queue does the same for the order of a job. A document is written to JSON by
  \<open>gval_of_bval\<close>, with the text of its times as a parameter (\<open>cw_time_text\<close>). The amount of a transaction
  is extracted for the log only.
\<close>

record 'w cn_worker =
  cw_db :: "'w db"
  cw_provider :: "'w cn_provider"
  cw_rm :: "'w request_manager"
  cw_time_text :: "int \<Rightarrow> string"

section \<open>The state of a transaction\<close>

text \<open>The response as the map that the rest of the worker reads: marshalled and unmarshalled again.\<close>

definition cn_status_gval :: "cn_status \<Rightarrow> gval option" where
  "cn_status_gval s = do {
     created \<leftarrow> show_time (cs_CreatedAt s);
     updated \<leftarrow> show_time (cs_UpdatedAt s);
     Some (VMap [
       (''id'', VStr (cs_ID s)),
       (''status'', VStr (cs_Status s)),
       (''amountFrom'', VFloat (cs_AmountFrom s)),
       (''amountTo'', VFloat (cs_AmountTo s)),
       (''expectedAmountFrom'', VFloat (cs_ExpectedFrom s)),
       (''expectedAmountTo'', VFloat (cs_ExpectedTo s)),
       (''createdAt'', VStr created),
       (''updatedAt'', VStr updated),
       (''payinHash'', VStr (cs_PayinHash s)),
       (''payoutHash'', VStr (cs_PayoutHash s)),
       (''payinExplorerLink'', VStr (cs_PayinExplorerURL s)),
       (''payoutExplorerLink'', VStr (cs_PayoutExplorerURL s)),
       (''refundHash'', VStr (cs_RefundHash s)),
       (''refundExplorerLink'', VStr (cs_RefundExplorerURL s)),
       (''fromCurrency'', VStr (cs_FromCurrency s)),
       (''toCurrency'', VStr (cs_ToCurrency s)),
       (''fromNetwork'', VStr (cs_FromNetwork s)),
       (''toNetwork'', VStr (cs_ToNetwork s))]) }"

definition structToMap :: "cn_status \<Rightarrow> (string \<times> gval) list option" where
  "structToMap s = do {
     v \<leftarrow> cn_status_gval s;
     m \<leftarrow> json_norm v;
     (case m of VMap kvs \<Rightarrow> Some kvs | _ \<Rightarrow> None) }"

definition text_member :: "(string \<times> gval) list \<Rightarrow> string \<Rightarrow> string" where
  "text_member m k = (case map_of m k of Some (VStr s) \<Rightarrow> s | _ \<Rightarrow> [])"

definition positive_amount :: "gval \<Rightarrow> f64 option" where
  "positive_amount v =
     (let positive = (\<lambda>x. if f64_lt (Fin 0) x then Some x else None)
      in case v of
        VFloat x \<Rightarrow> positive x
      | VInt i \<Rightarrow> if 0 < i then Some (f64_of_int i) else None
      | VInt64 i \<Rightarrow> if 0 < i then Some (f64_of_int i) else None
      | VStr s \<Rightarrow> if s = [] then None else Option.bind (parse_float s) positive
      | VNumber s \<Rightarrow> Option.bind (parse_float s) positive
      | _ \<Rightarrow> None)"

definition extractTransactionAmount :: "(string \<times> gval) list \<Rightarrow> f64" where
  "extractTransactionAmount txStatus =
     (case List.map_filter (\<lambda>k. Option.bind (map_of txStatus k) positive_amount) [''amountFrom'', ''expectedAmountFrom''] of
        [] \<Rightarrow> Fin 0 | x # _ \<Rightarrow> x)"

text \<open>A transaction that has been waiting for more than two hours; the clock is read only if its time is known.\<close>

definition waited_too_long :: "'w cn_worker \<Rightarrow> (string \<times> gval) list \<Rightarrow> 'w \<Rightarrow> bool \<times> 'w" where
  "waited_too_long wk txStatus w =
     (case parse_time (text_member txStatus ''createdAt'') of
        None \<Rightarrow> (False, w)
      | Some t \<Rightarrow>
          if IsZero t then (False, w)
          else (case db_now (cw_db wk) w of (now, w1) \<Rightarrow> (2 * 3600 * 10 ^ 9 < now - t_ns t, w1)))"

section \<open>Orders\<close>

definition failed_update :: "int \<Rightarrow> string \<Rightarrow> bdoc" where
  "failed_update now reason =
     [(''status'', BStr ''FAILED''), (''updatedAt'', bson_time now), (''error'', BStr reason)]"

text \<open>The answer to an update is only logged.\<close>

definition fail_order :: "'w cn_worker \<Rightarrow> string \<Rightarrow> string \<Rightarrow> 'w \<Rightarrow> 'w" where
  "fail_order wk orderId reason w =
     (case db_now (cw_db wk) w of (now, w1) \<Rightarrow>
        snd (mdo (db_mongo (cw_db wk)) (MUpdateOne ''orders'' (FEq ''_id'' (BId orderId)) (failed_update now reason)) w1))"

definition report_order :: "'w cn_worker \<Rightarrow> bdoc \<Rightarrow> (string \<times> gval) list \<Rightarrow> 'w \<Rightarrow> 'w" where
  "report_order wk order txStatus w =
     snd (rq_Post (cw_rm wk) ''NODE_SERVER'' ''/orders/webhooks/watchAddress''
       (VMap [(''order'', gval_of_bval (cw_time_text wk) (BDoc order)), (''goWorkerType'', VStr ''changeNow''),
              (''txData'', VMap txStatus)]) None w)"

definition cn_finished :: "string \<Rightarrow> bool" where
  "cn_finished s \<longleftrightarrow> s = ''finished'' \<or> s = ''completed''"

definition cn_failed :: "string \<Rightarrow> bool" where
  "cn_failed s \<longleftrightarrow> s = ''failed'' \<or> s = ''refunded'' \<or> s = ''expired''"

definition timeout_reason :: string where
  "timeout_reason = ''ChangeNow transaction timed out in waiting status''"

definition processOrderStatus :: "'w cn_worker \<Rightarrow> bdoc \<Rightarrow> (string \<times> gval) list \<Rightarrow> 'w \<Rightarrow> 'w" where
  "processOrderStatus wk order txStatus w =
     (let orderId = (case map_of order ''_id'' of Some (BId i) \<Rightarrow> i | _ \<Rightarrow> nil_id);
          status = text_member txStatus ''status''
      in if cn_finished status then report_order wk order txStatus w
         else if cn_failed status then fail_order wk orderId (''ChangeNow transaction '' @ status) w
         else if status = ''waiting'' then
           (case waited_too_long wk txStatus w of
              (late, w1) \<Rightarrow> if late then fail_order wk orderId timeout_reason w1 else w1)
         else w)"

section \<open>The periodic check\<close>

text \<open>The orders that are looked at: bought through ChangeNow and not settled.\<close>

definition open_orders_filter :: mfilter where
  "open_orders_filter =
     FAll [FEq ''flow'' (BStr ''BUY''), FEq ''provider'' (BStr ''ChangeNow''),
       FAll [FExists ''providerOrderId'' True, FNot (FEq ''providerOrderId'' (BStr []))],
       FIn ''status'' [BStr ''PENDING'', BStr ''PROCESSING'', BStr ''PENDING'', BStr ''DEPOSIT_CONFIRMING'']]"

fun check_orders :: "'w cn_worker \<Rightarrow> bdoc list \<Rightarrow> 'w \<Rightarrow> unit res \<times> 'w" where
  "check_orders wk [] w = (Ok (), w)"
| "check_orders wk (order # orders) w =
     (case map_of order ''providerOrderId'' of
        Some (BStr i) \<Rightarrow>
          if i = [] then check_orders wk orders w
          else (case GetTransactionStatus (cw_provider wk) i w of
                  (Panic x, w1) \<Rightarrow> (Panic x, w1)
                | (Err e, w1) \<Rightarrow> check_orders wk orders w1
                | (Ok s, w1) \<Rightarrow>
                    (case structToMap s of
                       None \<Rightarrow> check_orders wk orders w1
                     | Some txStatus \<Rightarrow> check_orders wk orders (processOrderStatus wk order txStatus w1)))
      | _ \<Rightarrow> check_orders wk orders w)"

text \<open>The currency is looked up first and not used; without it nothing is checked.\<close>

definition checkBTCBuyOrders :: "'w cn_worker \<Rightarrow> 'w \<Rightarrow> unit res \<times> 'w" where
  "checkBTCBuyOrders wk w =
     (case mongo_find_one (db_mongo (cw_db wk)) ''currencies'' (FEq ''code'' (BStr ''BTC'')) w of
        (Ok d, w1) \<Rightarrow>
          (if get_id d ''_id'' = None then (Ok (), w1)
           else case mongo_find (db_mongo (cw_db wk)) ''orders'' open_orders_filter w1 of
             (Ok ds, w2) \<Rightarrow> check_orders wk ds w2
           | (Err e, w2) \<Rightarrow> (Ok (), w2)
           | (Panic x, w2) \<Rightarrow> (Panic x, w2))
      | (Err e, w1) \<Rightarrow> (Ok (), w1)
      | (Panic x, w1) \<Rightarrow> (Panic x, w1))"

text \<open>One check at once and one at every tick.\<close>

fun runPeriodicCheck :: "'w cn_worker \<Rightarrow> nat \<Rightarrow> 'w \<Rightarrow> unit res \<times> 'w" where
  "runPeriodicCheck wk 0 w = checkBTCBuyOrders wk w"
| "runPeriodicCheck wk (Suc ticks) w =
     (case runPeriodicCheck wk ticks w of
        (Panic x, w1) \<Rightarrow> (Panic x, w1) | (_, w1) \<Rightarrow> checkBTCBuyOrders wk w1)"

section \<open>The handler of the queue\<close>

definition job_completed :: goerr where "job_completed = EMsg ''job completed''"

definition handle_status :: "'w cn_worker \<Rightarrow> string \<Rightarrow> bdoc \<Rightarrow> (string \<times> gval) list \<Rightarrow> 'w \<Rightarrow> unit res \<times> 'w" where
  "handle_status wk orderId order txStatus w =
     (let status = text_member txStatus ''status''
      in if cn_finished status then (Err job_completed, report_order wk order txStatus w)
         else if cn_failed status then
           (Err job_completed, fail_order wk orderId (''ChangeNow transaction '' @ status) w)
         else if status = ''waiting'' then
           (case waited_too_long wk txStatus w of
              (late, w1) \<Rightarrow>
                if late then (Err (EMsg ''job completed due to timeout''), fail_order wk orderId timeout_reason w1)
                else (Ok (), w1))
         else (Ok (), w))"

definition processChangeNowTransaction :: "'w cn_worker \<Rightarrow> 'w job_handler" where
  "processChangeNowTransaction wk data w =
     (case Option.bind data (\<lambda>kvs. map_of kvs ''order'') of
        Some (VMap orderData) \<Rightarrow>
          (case map_of orderData ''id'' of
             Some (VStr orderID) \<Rightarrow>
               (case GetTransactionStatus (cw_provider wk) orderID w of
                  (Panic x, w1) \<Rightarrow> (Panic x, w1)
                | (Err e, w1) \<Rightarrow> (Ok (), w1)
                | (Ok s, w1) \<Rightarrow>
                    (case structToMap s of
                       None \<Rightarrow> (Ok (), w1)
                     | Some txStatus \<Rightarrow>
                         (case ObjectIDFromHex orderID of
                            None \<Rightarrow> (Err (EWrap ''failed to convert order ID to ObjectID: ''
                                       (EMsg ''the provided hex string is not a valid ObjectID'')), w1)
                          | Some i \<Rightarrow>
                              (case mongo_find_one (db_mongo (cw_db wk)) ''orders'' (FEq ''_id'' (BId i)) w1 of
                                 (Ok order, w2) \<Rightarrow> handle_status wk i order txStatus w2
                               | (Err e, w2) \<Rightarrow>
                                   (if e = no_docs then Err (EMsg (''order not found: '' @ orderID))
                                    else Err (EWrap ''failed to get order: '' e), w2)
                               | (Panic x, w2) \<Rightarrow> (Panic x, w2)))))
           | _ \<Rightarrow> (Err (EMsg ''invalid order ID format''), w))
      | _ \<Rightarrow> (Err (EMsg ''missing or invalid order data in job data''), w))"

text \<open>\<open>Start\<close>: the provider, the handler, the workers of the queue. The periodic check runs in a goroutine of its own.\<close>

definition cn_Start ::
  "'w cn_worker \<Rightarrow> int \<Rightarrow> 'w httpc \<Rightarrow> (string \<Rightarrow> string) \<Rightarrow> (blob \<Rightarrow> string) \<Rightarrow> ((string \<times> string) list \<Rightarrow> (string \<times> string) list)
     \<Rightarrow> string \<Rightarrow> string \<Rightarrow> 'w queue_env \<Rightarrow> 'w queue_manager \<Rightarrow> 'w cn_worker \<times> 'w queue_manager" where
  "cn_Start wk concurrency client getenv txt iter apiKey apiURL queue qm =
     (let cfg = \<lparr>cf_APIKey = apiKey, cf_APIURL = apiURL, cf_OrderMinAmount = Fin 0, cf_OrderMaxAmount = Fin 0\<rparr>;
          wk1 = wk\<lparr>cw_provider := cn_NewProvider client getenv txt iter cfg (Some queue)\<rparr>;
          queueName = ''ChangeNowWatcherQueue''
      in (wk1, ProcessJobs queueName concurrency
                 (RegisterHandler queueName (processChangeNowTransaction wk1) qm)))"

end
