(* ===== verification/ChangeNowOrders.thy ===== *)
theory ChangeNowOrders
  imports ChangeNowWorker
begin

text \<open>
  What the ChangeNow worker does to the orders: the state of an exchange as the service reports it
  decides what becomes of an order, whatever form the response takes on its way through the worker;
  any number of checks has the effect of one.
\<close>

section \<open>The response as a map\<close>

lemma jtime_writable: "jtime j k = Some t \<Longrightarrow> show_time t \<noteq> None \<and> t_off t mod 60 = 0"
  using show_zero_time show_parsed_time
  by (auto simp: jtime_def zero_gtime_def split: option.splits json.splits)

lemma jf64_again:
  assumes "jf64 j k = Some x"
  shows "\<exists>q. x = Fin q \<and> f64_of_rat q = Fin q"
proof -
  from assms have "x = Fin 0 \<or> (\<exists>r q. f64_of_rat r = Fin q \<and> x = Fin q)"
    by (auto simp: jf64_def split: option.splits json.splits f64.splits) metis
  moreover have "f64_of_rat 0 = Fin 0" by (simp add: f64_of_rat_def round_prec_def)
  ultimately show ?thesis using f64_of_rat_idem by blast
qed

text \<open>Every response that can be decoded becomes a map, with the status and the time of the response.\<close>

lemma structToMap_decoded:
  assumes "dec_cn_status j = Some s"
  obtains tx where "structToMap s = Some tx" "text_member tx ''status'' = cs_Status s"
    "parse_time (text_member tx ''createdAt'') = Some (cs_CreatedAt s)"
proof -
  from assms obtain a b c d where
    t: "jtime j ''createdAt'' = Some (cs_CreatedAt s)" "jtime j ''updatedAt'' = Some (cs_UpdatedAt s)"
    and f: "jf64 j ''amountFrom'' = Some (cs_AmountFrom s)" "jf64 j ''amountTo'' = Some (cs_AmountTo s)"
      "jf64 j ''expectedAmountFrom'' = Some (cs_ExpectedFrom s)" "jf64 j ''expectedAmountTo'' = Some (cs_ExpectedTo s)"
    by (auto simp: dec_cn_status_def bind_eq_Some_conv split: if_splits)
  from jtime_writable [OF t(1)] jtime_writable [OF t(2)] obtain cr up where
    sh: "show_time (cs_CreatedAt s) = Some cr" "show_time (cs_UpdatedAt s) = Some up" by blast
  from f [THEN jf64_again] obtain q1 q2 q3 q4 where q:
    "cs_AmountFrom s = Fin q1" "f64_of_rat q1 = Fin q1" "cs_AmountTo s = Fin q2" "f64_of_rat q2 = Fin q2"
    "cs_ExpectedFrom s = Fin q3" "f64_of_rat q3 = Fin q3" "cs_ExpectedTo s = Fin q4" "f64_of_rat q4 = Fin q4"
    by blast
  obtain v where v: "cn_status_gval s = Some (VMap v)" "map_of v ''status'' = Some (VStr (cs_Status s))"
    "map_of v ''createdAt'' = Some (VStr cr)" "json_norm (VMap v) = Some (VMap v)"
    using sh by (simp add: cn_status_gval_def json_norm_def q)
  have "structToMap s = Some v" by (simp add: structToMap_def v)
  moreover have "parse_time cr = Some (cs_CreatedAt s)"
    using parse_show_time [OF sh(1)] jtime_writable [OF t(1)] by simp
  ultimately show thesis using v by (intro that [of v]) (simp_all add: text_member_def)
qed

section \<open>The state of an exchange\<close>

datatype verdict = VFinished | VFailed string | VWaiting int | VOpen

definition status_url :: "'w cn_provider \<Rightarrow> string \<Rightarrow> string" where
  "status_url p i = cn_baseURL p @ ''/v2/exchange/by-id?id='' @ i"

definition status_verdict :: "cn_status \<Rightarrow> verdict" where
  "status_verdict s =
     (if cs_Status s \<in> {''finished'', ''completed''} then VFinished
      else if cs_Status s \<in> {''failed'', ''refunded'', ''expired''} then VFailed (''ChangeNow transaction '' @ cs_Status s)
      else if cs_Status s = ''waiting'' \<and> \<not> IsZero (cs_CreatedAt s) then VWaiting (t_ns (cs_CreatedAt s))
      else VOpen)"

lemma status_verdict_alt:
  "status_verdict s =
     (if cn_finished (cs_Status s) then VFinished
      else if cn_failed (cs_Status s) then VFailed (''ChangeNow transaction '' @ cs_Status s)
      else if cs_Status s = ''waiting'' \<and> \<not> IsZero (cs_CreatedAt s) then VWaiting (t_ns (cs_CreatedAt s))
      else VOpen)"
  by (simp add: status_verdict_def cn_finished_def cn_failed_def)

text \<open>What the service \<open>f\<close> says of the transaction \<open>i\<close>: nothing, if its answer cannot be used.\<close>

definition cn_verdict :: "(string \<Rightarrow> string \<Rightarrow> blob option \<Rightarrow> http_out) \<Rightarrow> 'w cn_provider \<Rightarrow> string \<Rightarrow> verdict" where
  "cn_verdict f p i =
     (case answer dec_cn_status (f ''GET'' (status_url p i) None) of None \<Rightarrow> VOpen | Some s \<Rightarrow> status_verdict s)"

definition two_hours :: int where "two_hours = 2 * 3600 * 10 ^ 9"

text \<open>
  What may become of an order in the time from \<open>lo\<close> to \<open>hi\<close>: a failed exchange fails it, one that has been waiting
  for more than two hours when the clock is read fails it, any other leaves it as it is.
\<close>

definition order_after :: "int \<Rightarrow> int \<Rightarrow> verdict \<Rightarrow> bdoc \<Rightarrow> bdoc \<Rightarrow> bool" where
  "order_after lo hi v d d' \<longleftrightarrow>
     (let failed = (\<lambda>reason. \<exists>t. lo \<le> t \<and> t \<le> hi \<and> d' = set_fields (failed_update t reason) d)
      in case v of
        VFailed reason \<Rightarrow> failed reason
      | VWaiting c \<Rightarrow> \<exists>now. lo \<le> now \<and> now \<le> hi \<and> (if two_hours < now - c then failed timeout_reason else d' = d)
      | _ \<Rightarrow> d' = d)"

definition watched :: "(string \<Rightarrow> string \<Rightarrow> bool) \<Rightarrow> bdoc \<Rightarrow> string option" where
  "watched re d =
     (case map_of d ''providerOrderId'' of
        Some (BStr i) \<Rightarrow> if i \<noteq> [] \<and> matches re open_orders_filter (map_of d) then Some i else None
      | _ \<Rightarrow> None)"

definition order_step_ok ::
  "(string \<Rightarrow> string \<Rightarrow> bool) \<Rightarrow> (string \<Rightarrow> string \<Rightarrow> blob option \<Rightarrow> http_out) \<Rightarrow> 'w cn_provider \<Rightarrow> int \<Rightarrow> int
     \<Rightarrow> bdoc \<Rightarrow> bdoc \<Rightarrow> bool" where
  "order_step_ok re f p lo hi d d' \<longleftrightarrow>
     (case watched re d of None \<Rightarrow> d' = d | Some i \<Rightarrow> order_after lo hi (cn_verdict f p i) d d')"

section \<open>What is relied on\<close>

definition ids_ok :: "bdoc list \<Rightarrow> bool" where
  "ids_ok ds \<longleftrightarrow> (\<forall>d \<in> set ds. \<exists>i. map_of d ''_id'' = Some (BId i)) \<and> distinct (map (\<lambda>d. map_of d ''_id'') ds)"

definition cn_ok ::
  "(string \<Rightarrow> string \<Rightarrow> bool) \<Rightarrow> ('w \<Rightarrow> mstore) \<Rightarrow> (string \<Rightarrow> string \<Rightarrow> blob option \<Rightarrow> http_out) \<Rightarrow> int \<Rightarrow> int
     \<Rightarrow> 'w cn_worker \<Rightarrow> bool" where
  "cn_ok re view f lo hi wk \<longleftrightarrow>
     mongo_ok re (db_mongo (cw_db wk)) view \<and> rq_indep (cw_rm wk) view
     \<and> http_indep (cn_http (cw_provider wk)) view \<and> http_serves (cn_http (cw_provider wk)) f
     \<and> (\<forall>w. view (snd (db_now (cw_db wk) w)) = view w
            \<and> lo \<le> fst (db_now (cw_db wk) w) \<and> fst (db_now (cw_db wk) w) \<le> hi)"

lemma cn_okD:
  assumes "cn_ok re view f lo hi wk"
  shows "mongo_ok re (db_mongo (cw_db wk)) view" "rq_indep (cw_rm wk) view"
    "http_indep (cn_http (cw_provider wk)) view" "http_serves (cn_http (cw_provider wk)) f"
    "db_now (cw_db wk) w = (t, w1) \<Longrightarrow> view w1 = view w \<and> lo \<le> t \<and> t \<le> hi"
proof -
  note c = assms [unfolded cn_ok_def]
  from c show "mongo_ok re (db_mongo (cw_db wk)) view" "rq_indep (cw_rm wk) view"
      "http_indep (cn_http (cw_provider wk)) view" "http_serves (cn_http (cw_provider wk)) f" by blast+
  assume "db_now (cw_db wk) w = (t, w1)"
  with c show "view w1 = view w \<and> lo \<le> t \<and> t \<le> hi" by (metis fst_conv snd_conv)
qed

text \<open>A request has no effect on the database, and its result is what the service answers.\<close>

lemma cn_call_answer:
  assumes "http_indep (cn_http p) view" "http_serves (cn_http p) f"
    and "cn_call p what m u b [200] dec w = (r, w')"
  shows "view w' = view w"
    "case answer dec (f m u b) of Some a \<Rightarrow> r = Ok a | None \<Rightarrow> \<exists>e. r = Err e"
proof -
  let ?hs = "fold (\<lambda>(k, v). set_header k v) (cn_getHeaders p) []"
  obtain q w1 where c: "hdo (cn_http p) m u ?hs b w = (q, w1)" by (metis surj_pair)
  with assms(1,2) have q: "q = f m u b" "view w1 = view w"
    unfolding http_indep_def http_serves_def by (metis fst_conv, metis snd_conv)
  from assms(3) c have "w' = w1" by (auto simp: cn_call_def Let_def split: http_out.splits)
  with q show "view w' = view w" by simp
  from assms(3) c q(1) show "case answer dec (f m u b) of Some a \<Rightarrow> r = Ok a | None \<Rightarrow> \<exists>e. r = Err e"
    by (auto simp: cn_call_def answer_def Let_def split: http_out.splits blob.splits option.splits)
qed

section \<open>One order\<close>

lemma update_first_unique:
  assumes "distinct (map key xs)" "x \<in> set xs"
  shows "update_first (\<lambda>y. key y = key x) f xs = map (\<lambda>y. if y = x then f x else y) xs"
  using assms
proof (induction xs)
  case (Cons z zs)
  show ?case
  proof (cases "z = x")
    case True
    with Cons.prems(1) have "\<forall>y \<in> set zs. y \<noteq> x" by auto
    then have "map (\<lambda>y. if y = x then f x else y) zs = zs" by (intro map_idI) auto
    with True show ?thesis by simp
  next
    case False
    with Cons.prems have "x \<in> set zs" by simp
    with Cons.prems(1) have "key z \<noteq> key x" by auto
    with False Cons \<open>x \<in> set zs\<close> show ?thesis by simp
  qed
qed simp

lemma fail_order_effect:
  assumes ok: "cn_ok re view f lo hi wk" and ids: "ids_ok (view w ''orders'')"
    and d: "d \<in> set (view w ''orders'')" "map_of d ''_id'' = Some (BId i)"
  obtains t where "lo \<le> t" "t \<le> hi"
    "view (fail_order wk i reason w) = (view w)(''orders'' :=
       map (\<lambda>x. if x = d then set_fields (failed_update t reason) d else x) (view w ''orders''))"
proof -
  obtain t w1 where n: "db_now (cw_db wk) w = (t, w1)" by (metis surj_pair)
  note v1 = cn_okD(5) [OF ok n]
  let ?c = "MUpdateOne ''orders'' (FEq ''_id'' (BId i)) (failed_update t reason)" and ?os = "view w ''orders''"
  obtain r w2 where m: "mdo (db_mongo (cw_db wk)) ?c w1 = (r, w2)" by (metis surj_pair)
  from mongo_okD [OF cn_okD(1) [OF ok] m] v1 have "view w2 = (view w)(''orders'' :=
      update_first (\<lambda>x. matches re (FEq ''_id'' (BId i)) (map_of x)) (set_fields (failed_update t reason)) ?os)"
    by auto
  also have "update_first (\<lambda>x. matches re (FEq ''_id'' (BId i)) (map_of x)) (set_fields (failed_update t reason)) ?os
      = update_first (\<lambda>x. map_of x ''_id'' = map_of d ''_id'') (set_fields (failed_update t reason)) ?os"
    by (rule update_first_cong) (use ids d in \<open>auto simp: ids_ok_def field_vals_def\<close>)
  also have "\<dots> = map (\<lambda>x. if x = d then set_fields (failed_update t reason) d else x) ?os"
    by (rule update_first_unique) (use ids d in \<open>simp_all add: ids_ok_def\<close>)
  finally have "view w2 = (view w)(''orders'' := map (\<lambda>x. if x = d then set_fields (failed_update t reason) d else x) ?os)" .
  moreover have "fail_order wk i reason w = w2" using n m by (simp add: fail_order_def)
  ultimately show ?thesis using v1 that [of t] by simp
qed

lemma map_of_failed:
  "map_of (set_fields (failed_update t reason) d) =
     (map_of d)(''status'' \<mapsto> BStr ''FAILED'', ''updatedAt'' \<mapsto> bson_time t, ''error'' \<mapsto> BStr reason)"
  by (simp add: map_of_set_fields failed_update_def)

lemma order_after_id: "order_after lo hi v d d' \<Longrightarrow> map_of d' ''_id'' = map_of d ''_id''"
  by (auto simp: order_after_def Let_def map_of_failed split: verdict.splits if_splits)

lemma order_after_intros:
  "v = VFinished \<or> v = VOpen \<Longrightarrow> order_after lo hi v d d"
  "lo \<le> t \<Longrightarrow> t \<le> hi \<Longrightarrow> order_after lo hi (VFailed r) d (set_fields (failed_update t r) d)"
  "lo \<le> now \<Longrightarrow> now \<le> hi \<Longrightarrow> two_hours < now - c \<Longrightarrow> lo \<le> t \<Longrightarrow> t \<le> hi
     \<Longrightarrow> order_after lo hi (VWaiting c) d (set_fields (failed_update t timeout_reason) d)"
  "lo \<le> now \<Longrightarrow> now \<le> hi \<Longrightarrow> \<not> two_hours < now - c \<Longrightarrow> order_after lo hi (VWaiting c) d d"
proof -
  show "v = VFinished \<or> v = VOpen \<Longrightarrow> order_after lo hi v d d" by (auto simp: order_after_def)
  show "lo \<le> t \<Longrightarrow> t \<le> hi \<Longrightarrow> order_after lo hi (VFailed r) d (set_fields (failed_update t r) d)"
    unfolding order_after_def Let_def verdict.case by blast
  show "lo \<le> now \<Longrightarrow> now \<le> hi \<Longrightarrow> two_hours < now - c \<Longrightarrow> lo \<le> t \<Longrightarrow> t \<le> hi
      \<Longrightarrow> order_after lo hi (VWaiting c) d (set_fields (failed_update t timeout_reason) d)"
    unfolding order_after_def Let_def verdict.case by (rule exI [of _ now]) (auto simp only: if_True)
  show "lo \<le> now \<Longrightarrow> now \<le> hi \<Longrightarrow> \<not> two_hours < now - c \<Longrightarrow> order_after lo hi (VWaiting c) d d"
    unfolding order_after_def Let_def verdict.case by (rule exI [of _ now]) (simp only: if_False simp_thms)
qed

lemma same_orders: "(m :: mstore)(''orders'' := map (\<lambda>x. if x = d then d else x) (m ''orders'')) = m"
proof -
  have "map (\<lambda>x. if x = d then d else x) xs = xs" for xs :: "bdoc list" by (intro map_idI) simp
  then show ?thesis by simp
qed

lemma processOrderStatus_effect:
  assumes ok: "cn_ok re view f lo hi wk" and ids: "ids_ok (view w ''orders'')"
    and d: "d \<in> set (view w ''orders'')"
    and s: "structToMap s = Some tx" "text_member tx ''status'' = cs_Status s"
      "parse_time (text_member tx ''createdAt'') = Some (cs_CreatedAt s)"
  obtains d' where "order_after lo hi (status_verdict s) d d'"
    "view (processOrderStatus wk d tx w) = (view w)(''orders'' := map (\<lambda>x. if x = d then d' else x) (view w ''orders''))"
proof -
  from ids d obtain i where i: "map_of d ''_id'' = Some (BId i)" unfolding ids_ok_def by blast
  let ?after = "\<lambda>v w'. \<exists>d'. order_after lo hi v d d'
      \<and> view w' = (view w)(''orders'' := map (\<lambda>x. if x = d then d' else x) (view w ''orders''))"
  have keep: "?after v w'" if "v = VFinished \<or> v = VOpen" "view w' = view w" for v w'
    using that same_orders [of "view w" d] by (intro exI [of _ d]) (simp add: order_after_intros(1))
  have "?after (status_verdict s) (processOrderStatus wk d tx w)"
  proof (cases "cn_finished (cs_Status s)")
    case True
    have "view (report_order wk d tx w) = view w"
      unfolding report_order_def by (rule rq_Post_view [OF cn_okD(2) [OF ok]])
    with True s(2) show ?thesis
      by (intro keep) (simp_all add: status_verdict_alt processOrderStatus_def)
  next
    case nf: False
    show ?thesis
    proof (cases "cn_failed (cs_Status s)")
      case True
      define r where "r = ''ChangeNow transaction '' @ cs_Status s"
      obtain t where t: "lo \<le> t" "t \<le> hi" and
        v: "view (fail_order wk i r w) = (view w)(''orders'' :=
          map (\<lambda>x. if x = d then set_fields (failed_update t r) d else x) (view w ''orders''))"
        by (rule fail_order_effect [where reason = r, OF ok, OF ids d i])
      have "order_after lo hi (VFailed r) d (set_fields (failed_update t r) d)"
        by (rule order_after_intros(2) [OF t])
      moreover have "processOrderStatus wk d tx w = fail_order wk i r w" "status_verdict s = VFailed r"
        using nf True s(2) i by (simp_all add: processOrderStatus_def status_verdict_alt r_def)
      ultimately show ?thesis using v by (intro exI [of _ "set_fields (failed_update t r) d"]) simp
    next
      case nt: False
      show ?thesis
      proof (cases "cs_Status s = ''waiting'' \<and> \<not> IsZero (cs_CreatedAt s)")
        case True
        let ?c = "t_ns (cs_CreatedAt s)"
        obtain now w1 where n: "db_now (cw_db wk) w = (now, w1)" by (metis surj_pair)
        note v1 = cn_okD(5) [OF ok n]
        from nf nt True s(2,3) i n have p: "processOrderStatus wk d tx w
            = (if two_hours < now - ?c then fail_order wk i timeout_reason w1 else w1)"
          "status_verdict s = VWaiting ?c"
          by (simp_all add: processOrderStatus_def waited_too_long_def two_hours_def status_verdict_alt)
        show ?thesis
        proof (cases "two_hours < now - ?c")
          case late: True
          have vw: "view w1 = view w" using v1 by simp
          obtain t where "lo \<le> t" "t \<le> hi" and
            v: "view (fail_order wk i timeout_reason w1) = (view w)(''orders'' :=
              map (\<lambda>x. if x = d then set_fields (failed_update t timeout_reason) d else x) (view w ''orders''))"
            by (rule fail_order_effect [OF ok, of w1 d i timeout_reason, unfolded vw, OF ids d i])
          with late v1 have "order_after lo hi (VWaiting ?c) d (set_fields (failed_update t timeout_reason) d)"
            by (intro order_after_intros(3) [of lo now hi]) simp_all
          with v late show ?thesis unfolding p
            by (intro exI [of _ "set_fields (failed_update t timeout_reason) d"]) simp
        next
          case False
          with v1 have "order_after lo hi (VWaiting ?c) d d"
            by (intro order_after_intros(4) [of lo now hi]) simp_all
          with False v1 same_orders [of "view w" d] show ?thesis unfolding p by (intro exI [of _ d]) simp
        qed
      next
        case False
        with nf nt s(2,3) have "view (processOrderStatus wk d tx w) = view w" "status_verdict s = VOpen"
          by (auto simp: processOrderStatus_def waited_too_long_def status_verdict_alt)
        then show ?thesis by (intro keep) simp_all
      qed
    qed
  qed
  with that show thesis by blast
qed

section \<open>The orders of a check\<close>

text \<open>What a check makes of an order it looks at.\<close>

definition order_checked ::
  "(string \<Rightarrow> string \<Rightarrow> blob option \<Rightarrow> http_out) \<Rightarrow> 'w cn_provider \<Rightarrow> int \<Rightarrow> int \<Rightarrow> bdoc \<Rightarrow> bdoc \<Rightarrow> bool" where
  "order_checked f p lo hi d d' \<longleftrightarrow>
     (case map_of d ''providerOrderId'' of
        Some (BStr i) \<Rightarrow> if i = [] then d' = d else order_after lo hi (cn_verdict f p i) d d'
      | _ \<Rightarrow> d' = d)"

lemma order_checked_id: "order_checked f p lo hi d d' \<Longrightarrow> map_of d' ''_id'' = map_of d ''_id''"
  by (auto simp: order_checked_def order_after_id split: option.splits bval.splits if_splits)

lemma ids_ok_pointwise:
  assumes "list_all2 (\<lambda>x y. map_of y ''_id'' = map_of x ''_id'') xs ys" "ids_ok xs"
  shows "ids_ok ys"
proof -
  from assms(1) have m: "map (\<lambda>d. map_of d ''_id'') ys = map (\<lambda>d. map_of d ''_id'') xs"
    by (induction rule: list_all2_induct) simp_all
  then have "(\<lambda>d. map_of d ''_id'') ` set ys = (\<lambda>d. map_of d ''_id'') ` set xs" by (metis set_map)
  with assms(2) m show ?thesis by (auto simp: ids_ok_def) (metis (mono_tags, lifting) imageE imageI)
qed

lemma ids_ok_inj: "ids_ok xs \<Longrightarrow> x \<in> set xs \<Longrightarrow> y \<in> set xs \<Longrightarrow> map_of x ''_id'' = map_of y ''_id'' \<Longrightarrow> x = y"
  unfolding ids_ok_def distinct_map by (meson inj_onD)

lemma filter_eq_one: "distinct xs \<Longrightarrow> x \<in> set xs \<Longrightarrow> filter (\<lambda>y. y = x) xs = [x]"
  by (induction xs) (auto simp: filter_empty_conv)

lemma list_all2_map_one:
  "list_all2 (\<lambda>x y. if x = d then y = d' else y = x) xs (map (\<lambda>x. if x = d then d' else x) xs)"
  by (induction xs) auto

lemma check_one:
  assumes ok: "cn_ok re view f lo hi wk" and ids: "ids_ok (view w ''orders'')" and d: "d \<in> set (view w ''orders'')"
  obtains d' w' where "check_orders wk (d # ds) w = check_orders wk ds w'" "order_checked f (cw_provider wk) lo hi d d'"
    "view w' = (view w)(''orders'' := map (\<lambda>x. if x = d then d' else x) (view w ''orders''))"
proof (cases "\<exists>i. map_of d ''providerOrderId'' = Some (BStr i) \<and> i \<noteq> []")
  case False
  then have "check_orders wk (d # ds) w = check_orders wk ds w" "order_checked f (cw_provider wk) lo hi d d"
    by (auto simp: order_checked_def split: option.splits bval.splits)
  with same_orders [of "view w" d] show thesis by (intro that [of w d]) simp_all
next
  case True
  then obtain i where i: "map_of d ''providerOrderId'' = Some (BStr i)" "i \<noteq> []" by blast
  obtain r w1 where g: "GetTransactionStatus (cw_provider wk) i w = (r, w1)" by (metis surj_pair)
  from cn_call_answer [OF cn_okD(3,4) [OF ok] g [unfolded GetTransactionStatus_def]]
  have v1: "view w1 = view w" and
    a: "case answer dec_cn_status (f ''GET'' (status_url (cw_provider wk) i) None) of Some a \<Rightarrow> r = Ok a | None \<Rightarrow> \<exists>e. r = Err e"
    by (simp_all add: status_url_def)
  show thesis
  proof (cases "answer dec_cn_status (f ''GET'' (status_url (cw_provider wk) i) None)")
    case None
    with a obtain e where "r = Err e" by auto
    with g i have "check_orders wk (d # ds) w = check_orders wk ds w1" by simp
    moreover have "order_checked f (cw_provider wk) lo hi d d"
      using i None by (simp add: order_checked_def cn_verdict_def order_after_intros(1))
    ultimately show thesis using that [of w1 d] same_orders [of "view w" d] v1 by simp
  next
    case (Some s)
    with a have r: "r = Ok s" by simp
    from Some obtain j where "dec_cn_status j = Some s"
      by (auto simp: answer_def split: http_out.splits blob.splits if_splits)
    from structToMap_decoded [OF this] obtain tx where tx: "structToMap s = Some tx"
      "text_member tx ''status'' = cs_Status s" "parse_time (text_member tx ''createdAt'') = Some (cs_CreatedAt s)" .
    obtain d' where d': "order_after lo hi (status_verdict s) d d'"
      "view (processOrderStatus wk d tx w1) = (view w)(''orders'' := map (\<lambda>x. if x = d then d' else x) (view w ''orders''))"
      by (rule processOrderStatus_effect [where w = w1, OF ok, unfolded v1, OF ids d tx])
    have "check_orders wk (d # ds) w = check_orders wk ds (processOrderStatus wk d tx w1)"
      using g i r tx by simp
    moreover have "order_checked f (cw_provider wk) lo hi d d'"
      using i Some d' by (simp add: order_checked_def cn_verdict_def)
    ultimately show thesis using d'(2) by (rule that)
  qed
qed

lemma check_orders_effect:
  assumes "cn_ok re view f lo hi wk" "ids_ok (view w ''orders'')" "set ds \<subseteq> set (view w ''orders'')" "distinct ds"
  shows "\<exists>w'. check_orders wk ds w = (Ok (), w') \<and> (\<forall>c. c \<noteq> ''orders'' \<longrightarrow> view w' c = view w c)
    \<and> list_all2 (\<lambda>d d'. if d \<in> set ds then order_checked f (cw_provider wk) lo hi d d' else d' = d)
        (view w ''orders'') (view w' ''orders'')"
  using assms
proof (induction ds arbitrary: w)
  case Nil
  then show ?case by (auto intro!: list_all2_refl)
next
  case (Cons d ds)
  let ?os = "view w ''orders''" and ?P = "order_checked f (cw_provider wk) lo hi"
  from Cons.prems have d: "d \<in> set ?os" "d \<notin> set ds" by simp_all
  obtain d' w1 where c: "check_orders wk (d # ds) w = check_orders wk ds w1" "?P d d'"
    "view w1 = (view w)(''orders'' := map (\<lambda>x. if x = d then d' else x) ?os)"
    by (rule check_one [OF Cons.prems(1), OF Cons.prems(2) d(1)])
  let ?os1 = "map (\<lambda>x. if x = d then d' else x) ?os"
  have os1: "view w1 ''orders'' = ?os1" using c(3) by simp
  have r1: "list_all2 (\<lambda>x y. if x = d then y = d' else y = x) ?os ?os1" by (rule list_all2_map_one)
  have "list_all2 (\<lambda>x y. map_of y ''_id'' = map_of x ''_id'') ?os ?os1"
    by (rule list_all2_mono [OF r1]) (use order_checked_id [OF c(2)] in \<open>auto split: if_splits\<close>)
  from ids_ok_pointwise [OF this Cons.prems(2)] have ids1: "ids_ok (view w1 ''orders'')" by (simp add: os1)
  have sub: "set ds \<subseteq> set (view w1 ''orders'')" using Cons.prems(3) d(2) by (auto simp: os1)
  from Cons.IH [OF Cons.prems(1) ids1 sub] Cons.prems(4) obtain w' where
    w': "check_orders wk ds w1 = (Ok (), w')" "\<forall>c. c \<noteq> ''orders'' \<longrightarrow> view w' c = view w1 c"
    "list_all2 (\<lambda>d d'. if d \<in> set ds then ?P d d' else d' = d) ?os1 (view w' ''orders'')"
    by (auto simp: os1)
  have nd: "d' \<notin> set ds"
  proof
    assume "d' \<in> set ds"
    with Cons.prems(3) have "d' \<in> set ?os" by auto
    from ids_ok_inj [OF Cons.prems(2) this d(1)] order_checked_id [OF c(2)] have "d' = d" by simp
    with \<open>d' \<in> set ds\<close> d(2) show False by simp
  qed
  have "list_all2 (\<lambda>x y. if x \<in> set (d # ds) then ?P x y else y = x) ?os (view w' ''orders'')"
    by (rule list_all2_trans [OF _ r1 w'(3)]) (use c(2) nd d(2) in \<open>auto split: if_splits\<close>)
  with c w' show ?case by (intro exI [of _ w']) simp
qed

section \<open>Checks\<close>

text \<open>The database has a currency with the code BTC whose document can be read.\<close>

definition btc_known :: "mstore \<Rightarrow> bool" where
  "btc_known m \<longleftrightarrow>
     (case filter (\<lambda>d. BStr ''BTC'' \<in> set (field_vals (map_of d) ''code'')) (m ''currencies'') of
        d # _ \<Rightarrow> get_id d ''_id'' \<noteq> None | [] \<Rightarrow> False)"

lemma watched_failed: "watched re (set_fields (failed_update t r) d) = None"
  by (simp add: watched_def open_orders_filter_def map_of_failed field_vals_def split: option.split bval.split)

lemma order_after_cases: "order_after lo hi v d d' \<Longrightarrow> d' = d \<or> (\<exists>t r. d' = set_fields (failed_update t r) d)"
  unfolding order_after_def Let_def by (cases v) (auto split: if_splits)

lemma order_step_trans:
  assumes "order_step_ok re f p lo hi d d1" "order_step_ok re f p lo hi d1 d2"
  shows "order_step_ok re f p lo hi d d2"
proof (cases "d1 = d")
  case False
  with assms(1) obtain i where i: "watched re d = Some i" "order_after lo hi (cn_verdict f p i) d d1"
    by (auto simp: order_step_ok_def split: option.splits)
  from order_after_cases [OF i(2)] False have "watched re d1 = None" using watched_failed by auto
  with assms(2) have "d2 = d1" by (simp add: order_step_ok_def)
  with assms(1) show ?thesis by simp
qed (use assms in simp)

lemma order_step_id: "order_step_ok re f p lo hi d d' \<Longrightarrow> map_of d' ''_id'' = map_of d ''_id''"
  by (auto simp: order_step_ok_def order_after_id split: option.splits)

lemma check_effect:
  assumes ok: "cn_ok re view f lo hi wk" and ids: "ids_ok (view w ''orders'')" and btc: "btc_known (view w)"
  shows "\<exists>w'. checkBTCBuyOrders wk w = (Ok (), w') \<and> (\<forall>c. c \<noteq> ''orders'' \<longrightarrow> view w' c = view w c)
    \<and> list_all2 (order_step_ok re f (cw_provider wk) lo hi) (view w ''orders'') (view w' ''orders'')"
proof -
  let ?F = "FEq ''code'' (BStr ''BTC'')" and ?os = "view w ''orders''"
  obtain r w1 where m1: "mdo (db_mongo (cw_db wk)) (MFindOne ''currencies'' ?F) w = (r, w1)" by (metis surj_pair)
  from btc obtain c cs where
    c: "filter (\<lambda>d. BStr ''BTC'' \<in> set (field_vals (map_of d) ''code'')) (view w ''currencies'') = c # cs" "get_id c ''_id'' \<noteq> None"
    by (auto simp: btc_known_def split: list.splits)
  from mongo_okD [OF cn_okD(1) [OF ok] m1] c(1) have v1: "r = MDocs [c]" "view w1 = view w" by auto
  from c(2) obtain ci where ci: "get_id c ''_id'' = Some ci" by blast
  obtain q w2 where m2: "mdo (db_mongo (cw_db wk)) (MFind ''orders'' open_orders_filter) w1 = (q, w2)" by (metis surj_pair)
  let ?ds = "filter (\<lambda>d. matches re open_orders_filter (map_of d)) ?os"
  from mongo_okD [OF cn_okD(1) [OF ok] m2] v1 have v2: "q = MDocs ?ds" "view w2 = view w" by auto
  have e: "checkBTCBuyOrders wk w = check_orders wk ?ds w2"
    using m1 v1 m2 v2 by (simp add: ci checkBTCBuyOrders_def mongo_find_one_def mongo_find_def)
  have "distinct ?ds" using ids by (simp add: ids_ok_def distinct_map)
  from check_orders_effect [OF ok, of w2 ?ds] ids v2(2) this obtain w' where
    w': "check_orders wk ?ds w2 = (Ok (), w')" "\<forall>c. c \<noteq> ''orders'' \<longrightarrow> view w' c = view w c"
    "list_all2 (\<lambda>d d'. if d \<in> set ?ds then order_checked f (cw_provider wk) lo hi d d' else d' = d) ?os (view w' ''orders'')"
    by auto
  have "list_all2 (order_step_ok re f (cw_provider wk) lo hi) ?os (view w' ''orders'')"
    unfolding list_all2_conv_all_nth
  proof (intro conjI allI impI)
    show "length ?os = length (view w' ''orders'')" by (rule list_all2_lengthD [OF w'(3)])
    fix k assume k: "k < length ?os"
    let ?d = "?os ! k" and ?d' = "view w' ''orders'' ! k"
    from list_all2_nthD [OF w'(3) k] have
      "if ?d \<in> set ?ds then order_checked f (cw_provider wk) lo hi ?d ?d' else ?d' = ?d" .
    moreover have "?d \<in> set ?ds \<longleftrightarrow> matches re open_orders_filter (map_of ?d)" using k by simp
    ultimately have "if matches re open_orders_filter (map_of ?d)
      then order_checked f (cw_provider wk) lo hi ?d ?d' else ?d' = ?d" by (simp only:)
    then show "order_step_ok re f (cw_provider wk) lo hi ?d ?d'"
      by (auto simp: order_step_ok_def order_checked_def watched_def split: if_splits option.split bval.split)
  qed
  with e w' show ?thesis by auto
qed


text \<open>An order whose exchange has failed, next to one that is filled elsewhere.\<close>

definition demo_exchange :: "string \<Rightarrow> string \<Rightarrow> blob option \<Rightarrow> http_out" where
  "demo_exchange m u b = HResp 200 (Enc (JObj [(''id'', JStr ''tx''), (''status'', JStr ''refunded'')]))"

definition demo_cn :: "mstore cn_worker" where
  "demo_cn =
     \<lparr>cw_db = \<lparr>db_mongo = mem_mongo (\<lambda>_ _. False), db_now = (\<lambda>w. (0, w)), db_new_id = (\<lambda>w. (nil_id, w))\<rparr>,
      cw_provider = \<lparr>cn_http = \<lparr>hdo = (\<lambda>m u h b w. (demo_exchange m u b, w))\<rparr>, cn_baseURL = ''u'', cn_apiKey = [],
        cn_orderMin = Fin 10, cn_orderMax = Fin 5000, cn_currencies = [], cn_queue = None, cn_text = (\<lambda>_. []), cn_iter = id\<rparr>,
      cw_rm = \<lparr>rq_client = (\<lambda>_. \<lparr>hdo = (\<lambda>m u h b w. (HResp 200 (Enc JNull), w)), hrest = (\<lambda>_ _. None)\<rparr>),
        rq_sleep = (\<lambda>_ w. w), rq_node = Ok None, rq_status = (\<lambda>_. [])\<rparr>,
      cw_time_text = (\<lambda>_. [])\<rparr>"

definition demo_cn_order :: bdoc where
  "demo_cn_order = [(''_id'', BId ''1''), (''flow'', BStr ''BUY''), (''provider'', BStr ''ChangeNow''),
     (''providerOrderId'', BStr ''tx''), (''status'', BStr ''PENDING'')]"

definition demo_cn_store :: mstore where
  "demo_cn_store = (\<lambda>_. [])(''currencies'' := [[(''_id'', BId ''c''), (''code'', BStr ''BTC'')]],
     ''orders'' := [demo_cn_order, [(''_id'', BId ''2''), (''flow'', BStr ''BUY''), (''provider'', BStr ''Other'')]])"

lemma demo_cn_ok: "cn_ok (\<lambda>_ _. False) id demo_exchange 0 0 demo_cn"
  using mem_mongo_ok
  by (simp add: cn_ok_def demo_cn_def mongo_ok_def rq_indep_def http_indep_def http_serves_def)

lemma demo_cn_watched: "watched re demo_cn_order = Some ''tx''"
  by (simp add: watched_def demo_cn_order_def open_orders_filter_def field_vals_def)

lemma demo_cn_verdict: "cn_verdict demo_exchange (cw_provider demo_cn) ''tx'' = VFailed ''ChangeNow transaction refunded''"
  by (simp add: cn_verdict_def demo_exchange_def answer_def dec_cn_status_def jstruct_def jstr_def jf64_def jtime_def
      jmember_def json_lookup_def status_verdict_alt cn_finished_def cn_failed_def)


section \<open>The handler\<close>

lemma handle_status_order:
  assumes "map_of d ''_id'' = Some (BId i)"
  shows "snd (handle_status wk i d tx w) = processOrderStatus wk d tx w"
  using assms by (simp add: handle_status_def processOrderStatus_def Let_def split: prod.split)

definition timed_out :: goerr where "timed_out = EMsg ''job completed due to timeout''"

lemma handle_status_result:
  assumes "cn_ok re view f lo hi wk"
    and "text_member tx ''status'' = cs_Status s" "parse_time (text_member tx ''createdAt'') = Some (cs_CreatedAt s)"
  shows "case status_verdict s of
      VFinished \<Rightarrow> fst (handle_status wk i d tx w) = Err job_completed
    | VFailed reason \<Rightarrow> fst (handle_status wk i d tx w) = Err job_completed
    | VWaiting c \<Rightarrow> \<exists>now. lo \<le> now \<and> now \<le> hi
        \<and> fst (handle_status wk i d tx w) = (if two_hours < now - c then Err timed_out else Ok ())
    | VOpen \<Rightarrow> fst (handle_status wk i d tx w) = Ok ()"
proof -
  obtain now w1 where n: "db_now (cw_db wk) w = (now, w1)" by (metis surj_pair)
  note v = cn_okD(5) [OF assms(1) n]
  show ?thesis
    using assms(2,3) n v
    by (auto simp: handle_status_def status_verdict_alt waited_too_long_def two_hours_def timed_out_def
        cn_finished_def cn_failed_def Let_def)
qed

text \<open>
  C25: The handler of the queue asks the exchange for the transaction whose identifier is that of the order itself
  (not the one the exchange gave it). Its answer decides the order as in a check, and nothing else
  changes. The handler reports an error when the transaction is settled or waited for too long, and
  none while it is open.
\<close>

theorem handler_settles_order:
  assumes "cn_ok re view f lo hi wk" "ids_ok (view w ''orders'')"
    and "map_of kvs ''order'' = Some (VMap od)" "map_of od ''id'' = Some (VStr h)" "ObjectIDFromHex h = Some i"
    and "d \<in> set (view w ''orders'')" "map_of d ''_id'' = Some (BId i)"
  shows "\<exists>r w' d'. processChangeNowTransaction wk (Some kvs) w = (r, w')
    \<and> view w' = (view w)(''orders'' := map (\<lambda>x. if x = d then d' else x) (view w ''orders''))
    \<and> order_after lo hi (cn_verdict f (cw_provider wk) h) d d'
    \<and> (case cn_verdict f (cw_provider wk) h of
         VFinished \<Rightarrow> r = Err job_completed
       | VFailed reason \<Rightarrow> r = Err job_completed
       | VWaiting c \<Rightarrow> \<exists>now. lo \<le> now \<and> now \<le> hi \<and> r = (if two_hours < now - c then Err timed_out else Ok ())
       | VOpen \<Rightarrow> r = Ok ())"
proof -
  obtain r w1 where g: "GetTransactionStatus (cw_provider wk) h w = (r, w1)" by (metis surj_pair)
  from cn_call_answer [OF cn_okD(3,4) [OF assms(1)] g [unfolded GetTransactionStatus_def]]
  have v1: "view w1 = view w" and
    a: "case answer dec_cn_status (f ''GET'' (status_url (cw_provider wk) h) None) of Some a \<Rightarrow> r = Ok a | None \<Rightarrow> \<exists>e. r = Err e"
    by (simp_all add: status_url_def)
  show ?thesis
  proof (cases "answer dec_cn_status (f ''GET'' (status_url (cw_provider wk) h) None)")
    case None
    with a obtain e where "r = Err e" by auto
    with g assms(3,4) have "processChangeNowTransaction wk (Some kvs) w = (Ok (), w1)"
      by (simp add: processChangeNowTransaction_def)
    moreover have "cn_verdict f (cw_provider wk) h = VOpen" using None by (simp add: cn_verdict_def)
    ultimately show ?thesis
      using same_orders [of "view w" d] v1 by (intro exI [of _ "Ok ()"] exI [of _ w1] exI [of _ d]) (simp add: order_after_intros(1))
  next
    case (Some s)
    with a have r: "r = Ok s" by simp
    have vd: "cn_verdict f (cw_provider wk) h = status_verdict s" using Some by (simp add: cn_verdict_def)
    from Some obtain j where "dec_cn_status j = Some s"
      by (auto simp: answer_def split: http_out.splits blob.splits if_splits)
    from structToMap_decoded [OF this] obtain tx where tx: "structToMap s = Some tx"
      "text_member tx ''status'' = cs_Status s" "parse_time (text_member tx ''createdAt'') = Some (cs_CreatedAt s)" .
    let ?F = "FEq ''_id'' (BId i)"
    obtain q w2 where m: "mdo (db_mongo (cw_db wk)) (MFindOne ''orders'' ?F) w1 = (q, w2)" by (metis surj_pair)
    have "filter (\<lambda>x. matches re ?F (map_of x)) (view w ''orders'') = [d]"
    proof -
      have "matches re ?F (map_of x) \<longleftrightarrow> x = d" if x: "x \<in> set (view w ''orders'')" for x
      proof -
        from assms(2) x obtain j where j: "map_of x ''_id'' = Some (BId j)" unfolding ids_ok_def by blast
        then have "matches re ?F (map_of x) \<longleftrightarrow> j = i" by (auto simp: field_vals_def)
        also have "\<dots> \<longleftrightarrow> x = d" using ids_ok_inj [OF assms(2) x assms(6)] j assms(7) by auto
        finally show ?thesis .
      qed
      then have "filter (\<lambda>x. matches re ?F (map_of x)) (view w ''orders'') = filter (\<lambda>x. x = d) (view w ''orders'')"
        by (rule filter_cong [OF refl])
      also have "\<dots> = [d]" using assms(2,6) by (intro filter_eq_one) (simp_all add: ids_ok_def distinct_map)
      finally show ?thesis .
    qed
    with mongo_okD [OF cn_okD(1) [OF assms(1)] m] v1 have v2: "q = MDocs [d]" "view w2 = view w" by auto
    have p: "processChangeNowTransaction wk (Some kvs) w = handle_status wk i d tx w2"
      using g r tx(1) assms(3-5) m v2(1) by (simp add: processChangeNowTransaction_def mongo_find_one_def)
    obtain d' where d': "order_after lo hi (status_verdict s) d d'"
      "view (processOrderStatus wk d tx w2) = (view w)(''orders'' := map (\<lambda>x. if x = d then d' else x) (view w ''orders''))"
      by (rule processOrderStatus_effect [where w = w2, OF assms(1), unfolded v2(2), OF assms(2,6) tx])
    obtain r2 w3 where hs: "handle_status wk i d tx w2 = (r2, w3)" by (metis surj_pair)
    from handle_status_order [OF assms(7), of wk tx w2] d'(2) hs
    have "view w3 = (view w)(''orders'' := map (\<lambda>x. if x = d then d' else x) (view w ''orders''))" by simp
    then show ?thesis
      unfolding p vd hs
      using d'(1) handle_status_result [OF assms(1) tx(2,3), of i d w2, unfolded hs fst_conv]
      by (intro exI [of _ r2] exI [of _ w3] exI [of _ d'] conjI refl)
  qed
qed

theorem handler_settles_order_witness:
  "\<exists>r w' d'. processChangeNowTransaction demo_cn
       (Some [(''order'', VMap [(''id'', VStr ''aaaaaaaaaaaaaaaaaaaaaaaa'')])])
       ((\<lambda>_. [])(''orders'' := [[(''_id'', BId ''aaaaaaaaaaaaaaaaaaaaaaaa'')]])) = (r, w')
    \<and> w' = ((\<lambda>_. [])(''orders'' := [d'])) \<and> r = Err job_completed"
proof -
  let ?h = "''aaaaaaaaaaaaaaaaaaaaaaaa''" and ?m = "(\<lambda>_. [])(''orders'' := [[(''_id'', BId ''aaaaaaaaaaaaaaaaaaaaaaaa'')]])"
  have h: "ObjectIDFromHex ?h = Some ?h"
    by (simp add: ObjectIDFromHex_def char_digit_def to_lower_def lower_char_def)
  have v: "cn_verdict demo_exchange (cw_provider demo_cn) ?h = VFailed ''ChangeNow transaction refunded''"
    by (simp add: cn_verdict_def demo_exchange_def answer_def dec_cn_status_def jstruct_def jstr_def jf64_def jtime_def
        jmember_def json_lookup_def status_verdict_alt cn_finished_def cn_failed_def)
  have "ids_ok (id ?m ''orders'')" by (simp add: ids_ok_def)
  from handler_settles_order [OF demo_cn_ok, where w = ?m and kvs = "[(''order'', VMap [(''id'', VStr ?h)])]"
      and od = "[(''id'', VStr ?h)]" and h = ?h and i = ?h and d = "[(''_id'', BId ?h)]", OF this _ _ h]
  obtain r w' d' where "processChangeNowTransaction demo_cn (Some [(''order'', VMap [(''id'', VStr ?h)])]) ?m = (r, w')"
    "w' = ?m(''orders'' := map (\<lambda>x. if x = [(''_id'', BId ?h)] then d' else x) (?m ''orders''))"
    "r = Err job_completed"
    unfolding v by auto
  then show ?thesis by auto
qed

end
