(* ===== verification/ChangeNowRates.thy ===== *)
theory ChangeNowRates
  imports ChangeNowOrders
begin

text \<open>
  What the callers of the ChangeNow provider get: rates and limits, and what becomes of a request to
  watch a transaction.
\<close>

section \<open>Rates\<close>

lemma f64_lt_irrefl: "\<not> f64_lt x x"
  by (cases x) simp_all

lemma f64_lt_asym: "f64_lt x y \<Longrightarrow> \<not> f64_lt y x"
  by (cases x; cases y) auto

lemma f64_max_ge: "\<not> f64_lt (f64_max a b) b"
  by (auto simp: f64_max_def f64_lt_irrefl f64_lt_asym)

lemma f64_min_le: "\<not> f64_lt b (f64_min a b)"
  by (auto simp: f64_min_def f64_lt_irrefl f64_lt_asym)

text \<open>The market of every request.\<close>

definition default_market :: cn_market where
  "default_market =
     \<lparr>mk_From = \<lparr>mp_Currency = ''usdt'', mp_Chain = ''bsc''\<rparr>, mk_To = \<lparr>mp_Currency = ''usdt'', mp_Chain = ''bsc''\<rparr>,
      mk_BuyCurrency = ''usdt'', mk_SellCurrency = ''usdt'', mk_BuyChain = ''bsc'', mk_SellChain = ''bsc''\<rparr>"

lemma extractMarket_default: "extractMarketFromCurrency params = default_market"
  by (simp add: extractMarketFromCurrency_def default_market_def Let_def currency_alias_def chain_alias_def
      to_lower_def lower_char_def)

lemma default_market_usdt: "to_lower (mk_BuyCurrency default_market) = ''usdt''"
  by (simp add: default_market_def to_lower_def lower_char_def)

lemma rate_result_limits:
  assumes "r = rate_result p default_market a b x"
  shows "\<not> f64_lt (mm_Min (orp_MinMax r)) (cn_orderMin p)" "\<not> f64_lt (cn_orderMax p) (mm_Max (orp_MinMax r))"
    "orp_USDChain r = ''bsc''"
  using f64_max_ge f64_min_le unfolding assms rate_result_def Let_def default_market_usdt
  by (auto simp: usd_chain_def default_market_usdt split: prod.split) (simp_all add: default_market_def)

lemma loadAvailableCurrencies_keeps:
  "loadAvailableCurrencies p w = (r, p', w')
     \<Longrightarrow> cn_orderMin p' = cn_orderMin p \<and> cn_orderMax p' = cn_orderMax p \<and> (r = Ok () \<longrightarrow> p' = p \<or> cn_currencies p = [])"
  by (auto simp: loadAvailableCurrencies_def split: if_splits prod.splits res.splits)

text \<open>
  C26: A rate is always one for USDT on BSC, bought with USDT on BSC: neither the supported currency
  nor the direction of the order has any influence on the result. The limits reported with a rate
  are never wider than those configured, and the chain is BSC.
\<close>

theorem rates_ignore_currency:
  assumes "GetOrderRates p params w = (res, p', w')"
  shows "GetOrderRates p (params\<lparr>gp_SupportedCurrency := c, gp_OrderFlow := flow\<rparr>) w = (res, p', w')
    \<and> (\<forall>r. res = Ok r \<longrightarrow> \<not> f64_lt (mm_Min (orp_MinMax r)) (cn_orderMin p)
          \<and> \<not> f64_lt (cn_orderMax p) (mm_Max (orp_MinMax r)) \<and> orp_USDChain r = ''bsc'')"
proof -
  have "GetOrderRates p (params\<lparr>gp_SupportedCurrency := c, gp_OrderFlow := flow\<rparr>) w = GetOrderRates p params w"
    by (simp add: GetOrderRates_def order_rates_def used_amount_def extractMarket_default cong: res.case_cong)
  moreover have "\<not> f64_lt (mm_Min (orp_MinMax r)) (cn_orderMin p) \<and> \<not> f64_lt (cn_orderMax p) (mm_Max (orp_MinMax r))
      \<and> orp_USDChain r = ''bsc''" if r: "res = Ok r" for r
  proof -
    obtain q p1 w1 where l: "loadAvailableCurrencies p w = (q, p1, w1)" by (metis prod_cases3)
    with assms r obtain w2 where o: "order_rates p1 params w1 = (Ok r, w2)"
      by (auto simp: GetOrderRates_def split: res.splits prod.splits)
    then obtain a b x where "r = rate_result p1 default_market a b x"
      by (auto simp: order_rates_def Let_def extractMarket_default split: prod.splits res.splits)
    from rate_result_limits [OF this] loadAvailableCurrencies_keeps [OF l] show ?thesis by simp
  qed
  ultimately show ?thesis using assms by simp
qed

text \<open>A service that answers every request with \<open>null\<close>: an empty list, structs of zeros.\<close>

definition demo_rates :: "unit cn_provider" where
  "demo_rates = cn_NewProvider \<lparr>hdo = (\<lambda>m u h b w. (HResp 200 (Enc JNull), w))\<rparr> (\<lambda>_. []) (\<lambda>_. []) id
     \<lparr>cf_APIKey = [], cf_APIURL = [], cf_OrderMinAmount = Fin 0, cf_OrderMaxAmount = Fin 0\<rparr> None"

definition demo_rate_params :: rate_params where
  "demo_rate_params = \<lparr>gp_SupportedCurrency = None, gp_Amount = Fin 100, gp_IsReversed = False, gp_OrderFlow = ''BUY''\<rparr>"

theorem rates_ignore_currency_witness:
  "\<exists>r p' w'. GetOrderRates demo_rates demo_rate_params () = (Ok r, p', w')
    \<and> GetOrderRates demo_rates (demo_rate_params\<lparr>gp_SupportedCurrency := None, gp_OrderFlow := ''SELL''\<rparr>) () = (Ok r, p', w')
    \<and> \<not> f64_lt (mm_Min (orp_MinMax r)) (Fin 10) \<and> orp_USDChain r = ''bsc''"
proof -
  obtain r p' w' where g: "GetOrderRates demo_rates demo_rate_params () = (Ok r, p', w')"
    by (simp add: GetOrderRates_def loadAvailableCurrencies_def demo_rates_def cn_NewProvider_def cn_call_def Let_def
        dec_cn_currencies_def order_rates_def used_amount_def demo_rate_params_def extractMarket_default
        default_market_usdt dec_cn_range_def dec_cn_rate_def jstruct_def jf64_def jstr_def jtime_def jlist_def
        jmember_def)
  from rates_ignore_currency [OF g, where c = None and flow = "''SELL''"] g show ?thesis
    by (auto simp: demo_rates_def cn_NewProvider_def)
qed

section \<open>Watching a transaction\<close>

text \<open>
  C27: \<open>WatchTransactionStatus\<close> panics whenever there is a queue manager. A job with its data would not be watched
  either: what the handler does does not depend on the identifier the exchange gave the transaction,
  and an order whose \<open>id\<close> is no string (the provider itself looks for \<open>_id\<close>) is rejected.
\<close>

theorem watch_is_lost:
  assumes "cn_queue p = Some q"
  shows "(\<exists>x w'. WatchTransactionStatus p sc address order providerId w = (Panic x, w'))
    \<and> processChangeNowTransaction wk (Some (watch_job_data sc address order providerId))
        = processChangeNowTransaction wk (Some (watch_job_data sc' address' order providerId'))
    \<and> ((\<forall>i. Option.bind order (\<lambda>kvs. map_of kvs ''id'') \<noteq> Some (VStr i)) \<longrightarrow>
        (\<exists>e. processChangeNowTransaction wk (Some (watch_job_data sc address order providerId)) w = (Err e, w)))"
proof (intro conjI impI)
  show "\<exists>x w'. WatchTransactionStatus p sc address order providerId w = (Panic x, w')"
    using assms by (simp add: WatchTransactionStatus_def Let_def ScheduleJob_def AddJob_def add_repeat_def split: prod.split)
  show "processChangeNowTransaction wk (Some (watch_job_data sc address order providerId))
      = processChangeNowTransaction wk (Some (watch_job_data sc' address' order providerId'))"
    by (rule ext) (simp add: processChangeNowTransaction_def watch_job_data_def)
  assume "\<forall>i. Option.bind order (\<lambda>kvs. map_of kvs ''id'') \<noteq> Some (VStr i)"
  then show "\<exists>e. processChangeNowTransaction wk (Some (watch_job_data sc address order providerId)) w = (Err e, w)"
    by (auto simp: processChangeNowTransaction_def watch_job_data_def split: option.split gval.split)
qed

theorem watch_is_lost_witness:
  "(\<exists>x w'. WatchTransactionStatus (cw_provider demo_cn\<lparr>cn_queue :=
        Some \<lparr>qe_redis = \<lparr>rdo = (\<lambda>_ w. (RDone, w)), rexec = (\<lambda>_ w. (([], None), w))\<rparr>, qe_clock = (\<lambda>w. (0, w)),
          qe_text = (\<lambda>_. []), qe_fmt = (\<lambda>_. []), qe_oori = (\<lambda>_. 0)\<rparr>\<rparr>)
      None ''address'' (Some [(''_id'', VStr ''order'')]) ''tx'' demo_cn_store = (Panic x, w'))
    \<and> (\<exists>e. processChangeNowTransaction demo_cn (Some (watch_job_data None ''address'' (Some [(''_id'', VStr ''order'')]) ''tx''))
          demo_cn_store = (Err e, demo_cn_store))"
proof -
  let ?q = "\<lparr>qe_redis = \<lparr>rdo = (\<lambda>_ w. (RDone, w)), rexec = (\<lambda>_ w. (([], None), w))\<rparr>, qe_clock = (\<lambda>w. (0, w)),
          qe_text = (\<lambda>_. []), qe_fmt = (\<lambda>_. []), qe_oori = (\<lambda>_. 0)\<rparr>"
  have "cn_queue (cw_provider demo_cn\<lparr>cn_queue := Some ?q\<rparr>) = Some ?q" by simp
  from watch_is_lost [OF this, of None "''address''" "Some [(''_id'', VStr ''order'')]" "''tx''" demo_cn_store demo_cn]
  show ?thesis by simp
qed

end
