(* ===== verification/OrderUseCase.thy ===== *)
theory OrderUseCase
  imports OrderModel
begin

text \<open>
  Orders: \<open>types/order.go\<close>, the order repository of \<open>config/mongodb/repositories.go\<close>, its adapter
  (\<open>adapters/order_adapter.go\<close>) and \<open>usecases/order_usecase.go\<close>. The locale is what the use cases
  rely on of a repository, seen as a map from identifiers to orders that are not deleted; the adapter
  over the database provides it.
\<close>

section \<open>The domain struct\<close>

definition ORDER_STATUS_CREATED :: string where
  "ORDER_STATUS_CREATED = ''CREATED''"

definition NewOrder ::
  "'w db \<Rightarrow> string \<Rightarrow> string \<Rightarrow> string \<Rightarrow> f64 \<Rightarrow> f64 \<Rightarrow> 'w \<Rightarrow> order_t \<times> 'w" where
  "NewOrder db userID currencyID flow amount rate w =
     (case db_now db w of (now, w1) \<Rightarrow> case db_new_id db w1 of (i, w2) \<Rightarrow>
        (\<lparr>or_ID = i, or_Platform = ''APP'', or_V1UserID = nil_id, or_UserID = userID,
          or_Type = [], or_Flow = flow, or_CurrencyID = currencyID, or_BuyChain = nil_id,
          or_SellChain = nil_id, or_OpenAmount = amount, or_Amount = amount,
          or_RefundAmount = Fin 0, or_CalculatedAmount = Fin 0, or_OpenRate = rate, or_Rate = rate,
          or_CalculatedRate = Fin 0, or_ProviderFeesPaid = Fin 0, or_BlockchainFeesPaid = Fin 0,
          or_FeesGained = Fin 0, or_ProviderFeesToPay = Fin 0, or_BlockchainFeesToPay = Fin 0,
          or_FeesToGain = Fin 0, or_CalculatedProviderFeesPaid = Fin 0,
          or_CalculatedBlockchainFeesPaid = Fin 0, or_CalculatedFeesGained = Fin 0,
          or_Status = ORDER_STATUS_CREATED,
          or_StatusTimestamps = Some [(ORDER_STATUS_CREATED, BInt (now div 10 ^ 9))], or_V1ID = [],
          or_DepositAccountIDs = Some [], or_WithdrawalAccountIDs = Some [],
          or_RefundAccountID = nil_id, or_TransactionIDs = Some [], or_TransactionTypes = Some [],
          or_ParentOrderID = nil_id, or_ChildOrderID = nil_id, or_Provider = [],
          or_ProviderOrderID = [], or_BuyProvider = [], or_SellProvider = [], or_Margin = Fin 0,
          or_RateID = [], or_ExpiresAt = zero_time, or_DeletedAt = None, or_CreatedAt = now,
          or_UpdatedAt = now\<rparr>, w2))"

text \<open>\<open>MarkAsDeleted\<close> takes \<open>time.Time\{\}\<close>, not the current time.\<close>

definition order_MarkAsDeleted :: "order_t \<Rightarrow> order_t" where
  "order_MarkAsDeleted x = x\<lparr>or_DeletedAt := Some zero_time, or_UpdatedAt := zero_time\<rparr>"

definition order_UpdateStatus :: "int \<Rightarrow> string \<Rightarrow> order_t \<Rightarrow> order_t" where
  "order_UpdateStatus now status x =
     x\<lparr>or_Status := status,
       or_StatusTimestamps := Some (AList.update status (BInt (now div 10 ^ 9))
         (case or_StatusTimestamps x of None \<Rightarrow> [] | Some m \<Rightarrow> m)),
       or_UpdatedAt := now\<rparr>"

section \<open>The repository\<close>

definition GetOrderByID :: "'w db \<Rightarrow> string \<Rightarrow> 'w \<Rightarrow> order_model res \<times> 'w" where
  "GetOrderByID db i w =
     repo_find_one (db_mongo db) ''orders'' dec_order_model (FAll [FEq ''_id'' (BId i), not_deleted]) w"

definition GetOrdersByUserID :: "'w db \<Rightarrow> string \<Rightarrow> 'w \<Rightarrow> order_model list res \<times> 'w" where
  "GetOrdersByUserID db userID w =
     repo_find_all (db_mongo db) ''orders'' dec_order_model (FAll [FEq ''userId'' (BId userID), not_deleted]) w"

text \<open>The account is looked up whether it is deleted or not.\<close>

definition GetOrderByDepositAddress :: "'w db \<Rightarrow> string \<Rightarrow> 'w \<Rightarrow> order_model res \<times> 'w" where
  "GetOrderByDepositAddress db depositAddress w =
     (case repo_find_one (db_mongo db) ''accounts'' dec_account_model
             (FEq ''walletAddress'' (BStr depositAddress)) w of
        (Err e, w1) \<Rightarrow> (Err e, w1)
      | (Panic p, w1) \<Rightarrow> (Panic p, w1)
      | (Ok account, w1) \<Rightarrow>
          repo_find_one (db_mongo db) ''orders'' dec_order_model
            (FAll [FEq ''depositAccountIds'' (BId (am_ID account)), not_deleted]) w1)"

definition repo_CreateOrder :: "'w db \<Rightarrow> order_model \<Rightarrow> 'w \<Rightarrow> order_model res \<times> 'w" where
  "repo_CreateOrder db x w =
     (case db_now db w of (now, w1) \<Rightarrow> case fresh_id db (om_ID x) w1 of (i, w2) \<Rightarrow>
        let x' = x\<lparr>om_CreatedAt := now, om_UpdatedAt := now, om_ID := i\<rparr>
        in case repo_insert (db_mongo db) ''orders'' (enc_order_model x') w2 of
             (r, w3) \<Rightarrow> (map_res (\<lambda>_. x') r, w3))"

definition repo_UpdateOrder :: "'w db \<Rightarrow> order_model \<Rightarrow> 'w \<Rightarrow> unit res \<times> 'w" where
  "repo_UpdateOrder db x w =
     (if om_ID x = nil_id then (Err ErrInvalidID, w)
      else case db_now db w of (now, w1) \<Rightarrow>
        repo_update (db_mongo db) ''orders'' (om_ID x) (enc_order_model (x\<lparr>om_UpdatedAt := now\<rparr>)) w1)"

definition repo_DeleteOrder :: "'w db \<Rightarrow> string \<Rightarrow> 'w \<Rightarrow> unit res \<times> 'w" where
  "repo_DeleteOrder db i w =
     (case db_now db w of (now, w1) \<Rightarrow>
        repo_update (db_mongo db) ''orders'' i (soft_delete now) w1)"

section \<open>The adapter\<close>

record 'w order_repo =
  orr_GetByID :: "string \<Rightarrow> 'w \<Rightarrow> order_t option res \<times> 'w"
  orr_GetByUserID :: "string \<Rightarrow> 'w \<Rightarrow> order_t list res \<times> 'w"
  orr_GetByDepositAddress :: "string \<Rightarrow> 'w \<Rightarrow> order_t option res \<times> 'w"
  orr_Create :: "order_t \<Rightarrow> 'w \<Rightarrow> order_t res \<times> 'w"
  orr_Update :: "order_t \<Rightarrow> 'w \<Rightarrow> unit res \<times> 'w"
  orr_Delete :: "string \<Rightarrow> 'w \<Rightarrow> unit res \<times> 'w"

definition order_GetByID :: "'w db \<Rightarrow> string \<Rightarrow> 'w \<Rightarrow> order_t option res \<times> 'w" where
  "order_GetByID db i w = via (Some \<circ> convertOrderModelToDomain) (GetOrderByID db i w)"

definition order_GetByUserID :: "'w db \<Rightarrow> string \<Rightarrow> 'w \<Rightarrow> order_t list res \<times> 'w" where
  "order_GetByUserID db userID w = via (map convertOrderModelToDomain) (GetOrdersByUserID db userID w)"

definition order_GetByDepositAddress :: "'w db \<Rightarrow> string \<Rightarrow> 'w \<Rightarrow> order_t option res \<times> 'w" where
  "order_GetByDepositAddress db depositAddress w =
     via (Some \<circ> convertOrderModelToDomain) (GetOrderByDepositAddress db depositAddress w)"

definition order_Create :: "'w db \<Rightarrow> order_t \<Rightarrow> 'w \<Rightarrow> order_t res \<times> 'w" where
  "order_Create db x w =
     via (\<lambda>m. x\<lparr>or_ID := om_ID m\<rparr>) (repo_CreateOrder db (convertOrderDomainToModel x) w)"

definition order_Update :: "'w db \<Rightarrow> order_t \<Rightarrow> 'w \<Rightarrow> unit res \<times> 'w" where
  "order_Update db x w = repo_UpdateOrder db (convertOrderDomainToModel x) w"

definition order_Delete :: "'w db \<Rightarrow> string \<Rightarrow> 'w \<Rightarrow> unit res \<times> 'w" where
  "order_Delete db i w = repo_DeleteOrder db i w"

definition OrderRepositoryAdapter :: "'w db \<Rightarrow> 'w order_repo" where
  "OrderRepositoryAdapter db =
     \<lparr>orr_GetByID = order_GetByID db, orr_GetByUserID = order_GetByUserID db,
      orr_GetByDepositAddress = order_GetByDepositAddress db, orr_Create = order_Create db,
      orr_Update = order_Update db, orr_Delete = order_Delete db\<rparr>"

section \<open>The use cases\<close>

text \<open>The repositories and services of the struct that no operation uses are left out.\<close>

record 'w order_uc =
  ou_orderRepo :: "'w order_repo"
  ou_currency_GetByID :: "string \<Rightarrow> 'w \<Rightarrow> currency_model option res \<times> 'w"
  ou_db :: "'w db"

definition ErrOrderNotFound :: goerr where "ErrOrderNotFound = EMsg ''order not found''"
definition ErrOrderCurrencyNotFound :: goerr where "ErrOrderCurrencyNotFound = EMsg ''currency not found''"

text \<open>What the use cases that look an order up first have in common.\<close>

definition with_order ::
  "'w order_uc \<Rightarrow> string \<Rightarrow> (order_t \<Rightarrow> 'w \<Rightarrow> 'a res \<times> 'w) \<Rightarrow> 'w \<Rightarrow> 'a res \<times> 'w" where
  "with_order uc i f w =
     (case orr_GetByID (ou_orderRepo uc) i w of
        (Err e, w1) \<Rightarrow> (Err e, w1)
      | (Panic p, w1) \<Rightarrow> (Panic p, w1)
      | (Ok None, w1) \<Rightarrow> (Err ErrOrderNotFound, w1)
      | (Ok (Some x), w1) \<Rightarrow> f x w1)"

definition uc_CreateOrder ::
  "'w order_uc \<Rightarrow> string \<Rightarrow> string \<Rightarrow> string \<Rightarrow> f64 \<Rightarrow> f64 \<Rightarrow> string list option \<Rightarrow> string list option
     \<Rightarrow> string \<Rightarrow> string \<Rightarrow> string \<Rightarrow> 'w \<Rightarrow> order_t res \<times> 'w" where
  "uc_CreateOrder uc userID currencyID flow amount rate depositAccountIDs withdrawalAccountIDs
       buyChain sellChain provider w =
     (case ou_currency_GetByID uc currencyID w of
        (Err e, w1) \<Rightarrow> (Err e, w1)
      | (Panic p, w1) \<Rightarrow> (Panic p, w1)
      | (Ok None, w1) \<Rightarrow> (Err ErrOrderCurrencyNotFound, w1)
      | (Ok (Some _), w1) \<Rightarrow>
          (case NewOrder (ou_db uc) userID currencyID flow amount rate w1 of (x, w2) \<Rightarrow>
           case db_now (ou_db uc) w2 of (now, w3) \<Rightarrow>
             orr_Create (ou_orderRepo uc)
               (x\<lparr>or_DepositAccountIDs := (case depositAccountIDs of Some (_ # _) \<Rightarrow> depositAccountIDs
                    | _ \<Rightarrow> or_DepositAccountIDs x),
                  or_WithdrawalAccountIDs := (case withdrawalAccountIDs of Some (_ # _) \<Rightarrow> withdrawalAccountIDs
                    | _ \<Rightarrow> or_WithdrawalAccountIDs x),
                  or_BuyChain := buyChain, or_SellChain := sellChain, or_Provider := provider,
                  or_ExpiresAt := now + 24 * 3600 * 10 ^ 9\<rparr>) w3))"

definition uc_GetOrderByID :: "'w order_uc \<Rightarrow> string \<Rightarrow> 'w \<Rightarrow> order_t res \<times> 'w" where
  "uc_GetOrderByID uc i w = with_order uc i (\<lambda>x w1. (Ok x, w1)) w"

definition uc_GetOrdersByUserID :: "'w order_uc \<Rightarrow> string \<Rightarrow> 'w \<Rightarrow> order_t list res \<times> 'w" where
  "uc_GetOrdersByUserID uc userID w = orr_GetByUserID (ou_orderRepo uc) userID w"

definition uc_GetOrderByDepositAddress :: "'w order_uc \<Rightarrow> string \<Rightarrow> 'w \<Rightarrow> order_t res \<times> 'w" where
  "uc_GetOrderByDepositAddress uc depositAddress w =
     (case orr_GetByDepositAddress (ou_orderRepo uc) depositAddress w of
        (Err e, w1) \<Rightarrow> (Err e, w1)
      | (Panic p, w1) \<Rightarrow> (Panic p, w1)
      | (Ok None, w1) \<Rightarrow> (Err ErrOrderNotFound, w1)
      | (Ok (Some x), w1) \<Rightarrow> (Ok x, w1))"

text \<open>Only values that are not zero are taken over; the type, the V1 fields and the times are not.\<close>

definition new_str :: "string \<Rightarrow> string \<Rightarrow> string" where "new_str a b = (if a = [] then b else a)"
definition new_id :: "string \<Rightarrow> string \<Rightarrow> string" where "new_id a b = (if a = nil_id then b else a)"
definition new_dbl :: "f64 \<Rightarrow> f64 \<Rightarrow> f64" where "new_dbl a b = (if f64_eq a (Fin 0) then b else a)"
definition new_list :: "'a list option \<Rightarrow> 'a list option \<Rightarrow> 'a list option" where
  "new_list a b = (case a of Some (_ # _) \<Rightarrow> a | _ \<Rightarrow> b)"

definition merge_order :: "order_t \<Rightarrow> order_t \<Rightarrow> order_t" where
  "merge_order x y =
     x\<lparr>or_Status := new_str (or_Status y) (or_Status x),
       or_Amount := new_dbl (or_Amount y) (or_Amount x),
       or_Rate := new_dbl (or_Rate y) (or_Rate x),
       or_UserID := new_id (or_UserID y) (or_UserID x),
       or_CurrencyID := new_id (or_CurrencyID y) (or_CurrencyID x),
       or_Flow := new_str (or_Flow y) (or_Flow x),
       or_Platform := new_str (or_Platform y) (or_Platform x),
       or_Provider := new_str (or_Provider y) (or_Provider x),
       or_ProviderOrderID := new_str (or_ProviderOrderID y) (or_ProviderOrderID x),
       or_BuyChain := new_id (or_BuyChain y) (or_BuyChain x),
       or_SellChain := new_id (or_SellChain y) (or_SellChain x),
       or_OpenAmount := new_dbl (or_OpenAmount y) (or_OpenAmount x),
       or_RefundAmount := new_dbl (or_RefundAmount y) (or_RefundAmount x),
       or_CalculatedAmount := new_dbl (or_CalculatedAmount y) (or_CalculatedAmount x),
       or_OpenRate := new_dbl (or_OpenRate y) (or_OpenRate x),
       or_CalculatedRate := new_dbl (or_CalculatedRate y) (or_CalculatedRate x),
       or_ProviderFeesPaid := new_dbl (or_ProviderFeesPaid y) (or_ProviderFeesPaid x),
       or_BlockchainFeesPaid := new_dbl (or_BlockchainFeesPaid y) (or_BlockchainFeesPaid x),
       or_FeesGained := new_dbl (or_FeesGained y) (or_FeesGained x),
       or_ProviderFeesToPay := new_dbl (or_ProviderFeesToPay y) (or_ProviderFeesToPay x),
       or_BlockchainFeesToPay := new_dbl (or_BlockchainFeesToPay y) (or_BlockchainFeesToPay x),
       or_FeesToGain := new_dbl (or_FeesToGain y) (or_FeesToGain x),
       or_CalculatedProviderFeesPaid := new_dbl (or_CalculatedProviderFeesPaid y) (or_CalculatedProviderFeesPaid x),
       or_CalculatedBlockchainFeesPaid := new_dbl (or_CalculatedBlockchainFeesPaid y) (or_CalculatedBlockchainFeesPaid x),
       or_CalculatedFeesGained := new_dbl (or_CalculatedFeesGained y) (or_CalculatedFeesGained x),
       or_Margin := new_dbl (or_Margin y) (or_Margin x),
       or_DepositAccountIDs := new_list (or_DepositAccountIDs y) (or_DepositAccountIDs x),
       or_WithdrawalAccountIDs := new_list (or_WithdrawalAccountIDs y) (or_WithdrawalAccountIDs x),
       or_RefundAccountID := new_id (or_RefundAccountID y) (or_RefundAccountID x),
       or_TransactionIDs := new_list (or_TransactionIDs y) (or_TransactionIDs x),
       or_TransactionTypes := new_list (or_TransactionTypes y) (or_TransactionTypes x),
       or_ParentOrderID := new_id (or_ParentOrderID y) (or_ParentOrderID x),
       or_ChildOrderID := new_id (or_ChildOrderID y) (or_ChildOrderID x),
       or_BuyProvider := new_str (or_BuyProvider y) (or_BuyProvider x),
       or_SellProvider := new_str (or_SellProvider y) (or_SellProvider x),
       or_RateID := new_str (or_RateID y) (or_RateID x),
       or_ExpiresAt := (if or_ExpiresAt y = zero_time then or_ExpiresAt x else or_ExpiresAt y),
       or_StatusTimestamps := (case or_StatusTimestamps y of None \<Rightarrow> or_StatusTimestamps x | m \<Rightarrow> m)\<rparr>"

definition uc_UpdateOrder :: "'w order_uc \<Rightarrow> order_t \<Rightarrow> 'w \<Rightarrow> unit res \<times> 'w" where
  "uc_UpdateOrder uc y w =
     (if or_ID y = nil_id then (Err (EMsg ''order ID is required''), w)
      else with_order uc (or_ID y) (\<lambda>x. orr_Update (ou_orderRepo uc) (merge_order x y)) w)"

text \<open>
  Fields of the wrong type and unknown fields are skipped. The map of the updates is read in any
  order, which does not matter, as each key changes a field of its own.
\<close>

definition update_field :: "string \<times> gval \<Rightarrow> order_t \<Rightarrow> order_t" where
  "update_field u x =
     (case u of (field, v) \<Rightarrow>
        if field = ''status'' then (case v of VStr s \<Rightarrow> x\<lparr>or_Status := s\<rparr> | _ \<Rightarrow> x)
        else if field = ''amount'' then (case v of VFloat a \<Rightarrow> x\<lparr>or_Amount := a\<rparr> | _ \<Rightarrow> x)
        else if field = ''rate'' then (case v of VFloat a \<Rightarrow> x\<lparr>or_Rate := a\<rparr> | _ \<Rightarrow> x)
        else if field = ''providerOrderId'' then (case v of VStr s \<Rightarrow> x\<lparr>or_ProviderOrderID := s\<rparr> | _ \<Rightarrow> x)
        else if field = ''provider'' then (case v of VStr s \<Rightarrow> x\<lparr>or_Provider := s\<rparr> | _ \<Rightarrow> x)
        else x)"

definition uc_UpdateOrderFields ::
  "'w order_uc \<Rightarrow> string \<Rightarrow> (string \<times> gval) list \<Rightarrow> 'w \<Rightarrow> unit res \<times> 'w" where
  "uc_UpdateOrderFields uc i updates w =
     (if i = nil_id then (Err (EMsg ''order ID is required''), w)
      else with_order uc i (\<lambda>x. orr_Update (ou_orderRepo uc) (fold update_field updates x)) w)"

definition uc_DeleteOrder :: "'w order_uc \<Rightarrow> string \<Rightarrow> 'w \<Rightarrow> unit res \<times> 'w" where
  "uc_DeleteOrder uc i w = with_order uc i (\<lambda>x. orr_Update (ou_orderRepo uc) (order_MarkAsDeleted x)) w"

definition uc_UpdateOrderStatus :: "'w order_uc \<Rightarrow> string \<Rightarrow> string \<Rightarrow> 'w \<Rightarrow> order_t res \<times> 'w" where
  "uc_UpdateOrderStatus uc i status w =
     with_order uc i (\<lambda>x w1.
       case db_now (ou_db uc) w1 of (now, w2) \<Rightarrow>
         (case orr_Update (ou_orderRepo uc) (order_UpdateStatus now status x) w2 of
            (Err e, w3) \<Rightarrow> (Err e, w3)
          | (Panic p, w3) \<Rightarrow> (Panic p, w3)
          | (Ok _, w3) \<Rightarrow> (Ok (order_UpdateStatus now status x), w3))) w"

end
