(* ===== verification/OrderStore.thy ===== *)
theory OrderStore
  imports OrderUseCase
begin

text \<open>
  The order use cases against an abstract store: a map from identifiers to the orders that are not
  deleted. The locale \<open>order_store\<close> holds what the use cases rely on of a repository and of the clock;
  the adapter over the database provides it, for databases whose order documents can be decoded and
  have distinct identifiers.
\<close>

section \<open>Operations on the abstract store\<close>

datatype order_op =
    OUpdate order_t
  | OFields string "(string \<times> gval) list"
  | OStatus string string
  | ODelete string

fun op_id :: "order_op \<Rightarrow> string" where
  "op_id (OUpdate y) = or_ID y"
| "op_id (OFields i us) = i"
| "op_id (OStatus i s) = i"
| "op_id (ODelete i) = i"

fun order_edit :: "order_op \<Rightarrow> int \<Rightarrow> order_t \<Rightarrow> order_t" where
  "order_edit (OUpdate y) now x = merge_order x y"
| "order_edit (OFields i us) now x = fold update_field us x"
| "order_edit (OStatus i s) now x = order_UpdateStatus now s x"
| "order_edit (ODelete i) now x = order_MarkAsDeleted x"

fun run_order_op :: "'w order_uc \<Rightarrow> order_op \<Rightarrow> 'w \<Rightarrow> unit res \<times> 'w" where
  "run_order_op uc (OUpdate y) w = uc_UpdateOrder uc y w"
| "run_order_op uc (OFields i us) w = uc_UpdateOrderFields uc i us w"
| "run_order_op uc (OStatus i s) w = via (\<lambda>_. ()) (uc_UpdateOrderStatus uc i s w)"
| "run_order_op uc (ODelete i) w = uc_DeleteOrder uc i w"

text \<open>
  What is read back after \<open>y\<close> is written over the document of \<open>x\<close>: the fields that are zero in \<open>y\<close>
  and left out of documents stay, times have the precision of the database; a deleted order is gone.
\<close>

definition read_back :: "int \<Rightarrow> order_t \<Rightarrow> order_t \<Rightarrow> order_t option" where
  "read_back t x y =
     (if or_DeletedAt y \<noteq> None then None
      else Some (convertOrderModelToDomain (stored_order (written_over (convertOrderDomainToModel x)
             (convertOrderDomainToModel y\<lparr>om_UpdatedAt := t\<rparr>)))))"

definition needs_id :: "order_op \<Rightarrow> bool" where
  "needs_id op = (case op of OUpdate _ \<Rightarrow> True | OFields _ _ \<Rightarrow> True | _ \<Rightarrow> False)"

definition order_step ::
  "order_op \<Rightarrow> int \<times> int \<Rightarrow> (string \<Rightarrow> order_t option) \<Rightarrow> unit res \<times> (string \<Rightarrow> order_t option)" where
  "order_step op ts m =
     (let i = op_id op in
      if needs_id op \<and> i = nil_id then (Err (EMsg ''order ID is required''), m)
      else
        (case m i of
           None \<Rightarrow> (Err ErrNotFound, m)
         | Some x \<Rightarrow> (Ok (), m(i := read_back (snd ts) x (order_edit op (fst ts) x)))))"

fun run_ops :: "('o \<Rightarrow> 'w \<Rightarrow> unit res \<times> 'w) \<Rightarrow> 'o list \<Rightarrow> 'w \<Rightarrow> unit res list \<times> 'w" where
  "run_ops f [] w = ([], w)"
| "run_ops f (p # ps) w =
     (case f p w of (r, w1) \<Rightarrow> case run_ops f ps w1 of (rs, w2) \<Rightarrow> (r # rs, w2))"

lemma edit_id [simp]: "or_ID (order_edit op now x) = or_ID x"
proof (cases op)
  case (OFields i us)
  have "or_ID (fold update_field us x) = or_ID x"
    by (induction us arbitrary: x) (auto simp: update_field_def split: gval.split)
  with OFields show ?thesis by simp
qed (simp_all add: merge_order_def order_UpdateStatus_def order_MarkAsDeleted_def)

section \<open>The interface\<close>

locale order_store =
  fixes repo :: "'w order_repo" and now :: "'w \<Rightarrow> int \<times> 'w"
    and ok :: "'w \<Rightarrow> bool" and orders :: "'w \<Rightarrow> string \<Rightarrow> order_t option"
  assumes get: "ok w \<Longrightarrow> \<exists>w'. orr_GetByID repo i w
        = ((case orders w i of Some x \<Rightarrow> Ok (Some x) | None \<Rightarrow> Err ErrNotFound), w') \<and> ok w' \<and> orders w' = orders w"
    and update: "ok w \<Longrightarrow> orders w (or_ID y) = Some x \<Longrightarrow> \<exists>w' t. orr_Update repo y w = (Ok (), w')
        \<and> ok w' \<and> orders w' = (orders w)(or_ID y := read_back t x y)"
    and known: "ok w \<Longrightarrow> orders w i = Some x \<Longrightarrow> or_ID x = i"
    and clock: "ok w \<Longrightarrow> now w = (t, w') \<Longrightarrow> ok w' \<and> orders w' = orders w"
begin

lemma with_order_cases:
  assumes "ok w" "ou_orderRepo uc = repo"
  shows "\<exists>w1. with_order uc i f w = (case orders w i of None \<Rightarrow> (Err ErrNotFound, w1) | Some x \<Rightarrow> f x w1)
    \<and> ok w1 \<and> orders w1 = orders w"
proof -
  obtain w1 where "orr_GetByID repo i w = ((case orders w i of Some x \<Rightarrow> Ok (Some x) | None \<Rightarrow> Err ErrNotFound), w1)"
    "ok w1" "orders w1 = orders w" using get [OF assms(1)] by blast
  with assms(2) show ?thesis by (auto simp: with_order_def split: option.split)
qed

text \<open>The operations whose effect does not depend on the time.\<close>

lemma edit_refines:
  assumes "ok w" "ou_orderRepo uc = repo"
    and "run_order_op uc op w = with_order uc (op_id op) (\<lambda>x. orr_Update repo (order_edit op tm x)) w"
    and "\<not> (needs_id op \<and> op_id op = nil_id)"
  shows "\<exists>ts w'. run_order_op uc op w = (fst (order_step op ts (orders w)), w') \<and> ok w'
    \<and> orders w' = snd (order_step op ts (orders w))"
proof -
  from with_order_cases [OF assms(1,2), of "op_id op" "\<lambda>x. orr_Update repo (order_edit op tm x)"] obtain w1 where
    1: "run_order_op uc op w = (case orders w (op_id op) of None \<Rightarrow> (Err ErrNotFound, w1)
        | Some x \<Rightarrow> orr_Update repo (order_edit op tm x) w1)" "ok w1" "orders w1 = orders w"
    using assms(3) by auto
  show ?thesis
  proof (cases "orders w (op_id op)")
    case None
    with 1 assms(4) show ?thesis by (auto simp: order_step_def)
  next
    case (Some x)
    have x: "or_ID (order_edit op tm x) = op_id op" using known [OF assms(1) Some] by simp
    obtain w2 t where 2: "orr_Update repo (order_edit op tm x) w1 = (Ok (), w2)" "ok w2"
      "orders w2 = (orders w1)(op_id op := read_back t x (order_edit op tm x))"
      using update [OF 1(2), of "order_edit op tm x" x] Some 1(3) unfolding x by auto
    from 1(1) 2 Some 1(3) assms(4) show ?thesis
      by (intro exI [of _ "(tm, t)"] exI [of _ w2]) (auto simp: order_step_def)
  qed
qed

lemma op_refines:
  assumes "ok w" "ou_orderRepo uc = repo" "db_now (ou_db uc) = now"
  shows "\<exists>ts w'. run_order_op uc op w = (fst (order_step op ts (orders w)), w') \<and> ok w'
    \<and> orders w' = snd (order_step op ts (orders w))"
proof (cases "needs_id op \<and> op_id op = nil_id")
  case True
  then have "run_order_op uc op w = (Err (EMsg ''order ID is required''), w)"
    by (cases op) (auto simp: needs_id_def uc_UpdateOrder_def uc_UpdateOrderFields_def)
  with True assms(1) show ?thesis by (auto simp: order_step_def)
next
  case False
  show ?thesis
  proof (cases op)
    case (OStatus i s)
    let ?f = "\<lambda>x w1. case now w1 of (t, w2) \<Rightarrow>
      (case orr_Update repo (order_UpdateStatus t s x) w2 of
         (Err e, w3) \<Rightarrow> (Err e, w3) | (Panic p, w3) \<Rightarrow> (Panic p, w3)
       | (Ok _, w3) \<Rightarrow> (Ok (order_UpdateStatus t s x), w3))"
    obtain w1 where 1: "uc_UpdateOrderStatus uc i s w = (case orders w i of None \<Rightarrow> (Err ErrNotFound, w1)
        | Some x \<Rightarrow> ?f x w1)" "ok w1" "orders w1 = orders w"
      using with_order_cases [OF assms(1,2), of i ?f] assms(2,3) by (auto simp: uc_UpdateOrderStatus_def)
    show ?thesis
    proof (cases "orders w i")
      case None
      with 1 OStatus show ?thesis by (auto simp: order_step_def needs_id_def via_def)
    next
      case (Some x)
      obtain t w2 where 2: "now w1 = (t, w2)" by (metis surj_pair)
      have v2: "ok w2" "orders w2 = orders w" using clock [OF 1(2) 2] 1(3) by simp_all
      let ?y = "order_edit op t x"
      have y: "or_ID ?y = i" using known [OF assms(1) Some] by simp
      obtain w3 u where 3: "orr_Update repo ?y w2 = (Ok (), w3)" "ok w3"
        "orders w3 = (orders w2)(i := read_back u x ?y)"
        using update [OF v2(1), of ?y x] Some v2(2) unfolding y by auto
      then have "run_order_op uc op w = (Ok (), w3)"
        using 1(1) 2 Some OStatus by (simp add: via_def)
      with 3 v2 Some OStatus show ?thesis
        by (intro exI [of _ "(t, u)"] exI [of _ w3]) (simp add: order_step_def needs_id_def)
    qed
  next
    case (OUpdate y)
    show ?thesis
      by (rule edit_refines [OF assms(1,2) _ False, where tm = 0])
        (use OUpdate False assms(2) in \<open>simp add: uc_UpdateOrder_def needs_id_def\<close>)
  next
    case (OFields i us)
    show ?thesis
      by (rule edit_refines [OF assms(1,2) _ False, where tm = 0])
        (use OFields False assms(2) in \<open>simp add: uc_UpdateOrderFields_def needs_id_def\<close>)
  next
    case (ODelete i)
    show ?thesis
      by (rule edit_refines [OF assms(1,2) _ False, where tm = 0])
        (use ODelete assms(2) in \<open>simp add: uc_DeleteOrder_def\<close>)
  qed
qed

lemma ops_refine:
  assumes "ok w" "ou_orderRepo uc = repo" "db_now (ou_db uc) = now"
  shows "\<exists>ts. length ts = length ops
    \<and> run_ops (\<lambda>(op, t). order_step op t) (zip ops ts) (orders w)
        = (fst (run_ops (run_order_op uc) ops w), orders (snd (run_ops (run_order_op uc) ops w)))"
  using assms(1)
proof (induction ops arbitrary: w)
  case (Cons op ops)
  obtain t w1 where 1: "run_order_op uc op w = (fst (order_step op t (orders w)), w1)" "ok w1"
    "orders w1 = snd (order_step op t (orders w))" using op_refines [OF Cons.prems assms(2,3)] by blast
  obtain ts where 2: "length ts = length ops" "run_ops (\<lambda>(op, t). order_step op t) (zip ops ts) (orders w1)
      = (fst (run_ops (run_order_op uc) ops w1), orders (snd (run_ops (run_order_op uc) ops w1)))"
    using Cons.IH [OF 1(2)] by blast
  show ?case
    by (rule exI [of _ "t # ts"], cases "order_step op t (orders w)") (use 1 2 in \<open>simp split: prod.split\<close>)
qed simp

end

section \<open>The adapter over the database\<close>

definition doc_id :: "bdoc \<Rightarrow> bval option" where
  "doc_id d = map_of d ''_id''"

definition order_docs_ok :: "mstore \<Rightarrow> bool" where
  "order_docs_ok m \<longleftrightarrow> distinct (map doc_id (m ''orders''))
     \<and> (\<forall>d \<in> set (m ''orders''). \<exists>x. dec_order_model d = Some x \<and> doc_id d = Some (BId (om_ID x)) \<and> om_ID x \<noteq> nil_id)"

definition stored_orders :: "mstore \<Rightarrow> string \<Rightarrow> order_t option" where
  "stored_orders m i =
     (case map_of (map (\<lambda>d. (doc_id d, d)) (m ''orders'')) (Some (BId i)) of
        Some d \<Rightarrow> if live d then map_option convertOrderModelToDomain (dec_order_model d) else None
      | None \<Rightarrow> None)"

definition order_coll_ok :: "(string \<Rightarrow> string \<Rightarrow> bool) \<Rightarrow> 'w db \<Rightarrow> ('w \<Rightarrow> mstore) \<Rightarrow> 'w \<Rightarrow> bool" where
  "order_coll_ok re db view w \<longleftrightarrow> db_ok re db view \<and> order_docs_ok (view w)"

lemma keyed_filter:
  "distinct (map key xs) \<Longrightarrow> filter (\<lambda>x. key x = k \<and> L x) xs
     = (case map_of (map (\<lambda>x. (key x, x)) xs) k of Some x \<Rightarrow> if L x then [x] else [] | None \<Rightarrow> [])"
proof (induction xs)
  case (Cons x xs)
  show ?case
  proof (cases "key x = k")
    case True
    have "filter (\<lambda>y. key y = k \<and> L y) xs = []" using Cons.prems True
      by (auto simp: filter_empty_conv) (metis imageI)
    with True show ?thesis by simp
  qed (use Cons in simp)
qed simp

lemma keyed_update:
  assumes "\<And>x. key x = k \<Longrightarrow> key (f x) = k"
  shows "map_of (map (\<lambda>x. (key x, x)) (update_first (\<lambda>x. key x = k) f xs)) j
    = (if j = k then map_option f (map_of (map (\<lambda>x. (key x, x)) xs) k) else map_of (map (\<lambda>x. (key x, x)) xs) j)"
  using assms by (induction xs) auto

lemma keyed_SomeD: "map_of (map (\<lambda>x. (key x, x)) xs) k = Some x \<Longrightarrow> x \<in> set xs \<and> key x = k"
  by (induction xs) (auto split: if_splits)

lemma id_matches:
  assumes "doc_id d = Some (BId j)"
  shows "matches re (FEq ''_id'' (BId i)) (map_of d) \<longleftrightarrow> doc_id d = Some (BId i)"
    "matches re (FAll [FEq ''_id'' (BId i), not_deleted]) (map_of d) \<longleftrightarrow> doc_id d = Some (BId i) \<and> live d"
  using assms by (auto simp: field_vals_def doc_id_def live_def not_deleted_def)

lemma order_docD:
  assumes "order_docs_ok m" "d \<in> set (m ''orders'')"
  shows "\<exists>j. doc_id d = Some (BId j)" "\<exists>x. dec_order_model d = Some x \<and> doc_id d = Some (BId (om_ID x)) \<and> om_ID x \<noteq> nil_id"
  using assms unfolding order_docs_ok_def by blast+

lemma stored_orders_filter:
  assumes "order_docs_ok m"
  shows "(case filter (\<lambda>d. matches re (FAll [FEq ''_id'' (BId i), not_deleted]) (map_of d)) (m ''orders'') of
      [] \<Rightarrow> Err ErrNotFound | d # _ \<Rightarrow> map_res (Some \<circ> convertOrderModelToDomain) (decode_doc dec_order_model d))
    = (case stored_orders m i of Some x \<Rightarrow> Ok (Some x) | None \<Rightarrow> Err ErrNotFound)"
proof -
  have "filter (\<lambda>d. matches re (FAll [FEq ''_id'' (BId i), not_deleted]) (map_of d)) (m ''orders'')
      = filter (\<lambda>d. doc_id d = Some (BId i) \<and> live d) (m ''orders'')"
  proof (rule filter_cong [OF refl])
    fix d assume "d \<in> set (m ''orders'')"
    then obtain j where "doc_id d = Some (BId j)" using order_docD(1) [OF assms] by blast
    then show "matches re (FAll [FEq ''_id'' (BId i), not_deleted]) (map_of d) \<longleftrightarrow> doc_id d = Some (BId i) \<and> live d"
      by (rule id_matches(2))
  qed
  also have "\<dots> = (case map_of (map (\<lambda>d. (doc_id d, d)) (m ''orders'')) (Some (BId i)) of
      Some d \<Rightarrow> if live d then [d] else [] | None \<Rightarrow> [])"
    using assms by (intro keyed_filter) (simp add: order_docs_ok_def)
  finally show ?thesis
    using order_docD(2) [OF assms] by (force simp: stored_orders_def decode_doc_def split: option.split dest: keyed_SomeD)
qed

lemma stored_orders_id:
  assumes "order_docs_ok m" "stored_orders m i = Some x" shows "or_ID x = i"
proof -
  from assms(2) obtain d where d: "map_of (map (\<lambda>d. (doc_id d, d)) (m ''orders'')) (Some (BId i)) = Some d"
    "map_option convertOrderModelToDomain (dec_order_model d) = Some x"
    by (auto simp: stored_orders_def split: option.splits if_splits)
  from keyed_SomeD [OF d(1)] order_docD(2) [OF assms(1)] d(2) show ?thesis
    by (fastforce simp: convertOrderModelToDomain_def)
qed

lemma order_doc_written:
  assumes "dec_order_model d = Some x" "om_ID y \<noteq> nil_id"
  shows "doc_id (set_fields (enc_order_model y) d) = Some (BId (om_ID y))"
    "live d \<Longrightarrow> live (set_fields (enc_order_model y) d) \<longleftrightarrow> om_DeletedAt y = None"
  using assms by (auto simp: doc_id_def live_def not_deleted_def field_vals_def enc_order_model_def set_fields_put
      doc_simps bson_time_def simp del: map_of_append)

lemma keyed_map:
  "(\<And>x. key x = k \<Longrightarrow> key (f x) = k) \<Longrightarrow> map key (update_first (\<lambda>x. key x = k) f xs) = map key xs"
  by (induction xs) auto

lemma keyed_set:
  "set (update_first (\<lambda>x. key x = k) f xs) \<subseteq> set xs \<union> f ` {x \<in> set xs. key x = k}"
  by (induction xs) auto

lemma order_written_over:
  assumes O: "order_docs_ok m"
    and d: "map_of (map (\<lambda>d. (doc_id d, d)) (m ''orders'')) (Some (BId i)) = Some d" "live d"
      "dec_order_model d = Some e"
    and z: "om_ID z = i"
    and m': "m' ''orders'' = update_first (\<lambda>d. doc_id d = Some (BId i)) (set_fields (enc_order_model z)) (m ''orders'')"
  shows "order_docs_ok m'"
    "stored_orders m' = (stored_orders m)(i := if om_DeletedAt z \<noteq> None then None
       else Some (convertOrderModelToDomain (stored_order (written_over e z))))"
proof -
  let ?f = "set_fields (enc_order_model z)" and ?P = "\<lambda>d. doc_id d = Some (BId i)" and ?ds = "m ''orders''"
  have i: "i \<noteq> nil_id" using order_docD(2) [OF O, of d] keyed_SomeD [OF d(1)] by force
  have dec: "dec_order_model (?f c) = Some (stored_order (written_over c' z))" if "dec_order_model c = Some c'" for c c'
    by (rule set_fields_order [OF that])
  have key: "doc_id c = Some (BId i) \<Longrightarrow> doc_id (?f c) = Some (BId i)" for c
    using z i by (simp add: doc_id_def enc_order_model_def set_fields_put doc_simps del: map_of_append)
  have id: "om_ID (stored_order (written_over c z)) = i" for c
    using z i by (simp add: stored_order_def written_over_def)
  have "map doc_id (update_first ?P ?f ?ds) = map doc_id ?ds" by (rule keyed_map [where key = doc_id]) (rule key)
  then have "distinct (map doc_id (update_first ?P ?f ?ds))" using O by (simp add: order_docs_ok_def)
  then show "order_docs_ok m'"
    unfolding order_docs_ok_def m'
  proof (intro conjI ballI)
    fix c assume "c \<in> set (update_first ?P ?f ?ds)"
    then consider "c \<in> set ?ds" | c' where "c' \<in> set ?ds" "doc_id c' = Some (BId i)" "c = ?f c'"
      using keyed_set [where key = doc_id and f = ?f] by blast
    then show "\<exists>x. dec_order_model c = Some x \<and> doc_id c = Some (BId (om_ID x)) \<and> om_ID x \<noteq> nil_id"
    proof cases
      case 2
      with order_docD(2) [OF O 2(1)] dec key id i show ?thesis by auto
    qed (use order_docD(2) [OF O] in blast)
  qed
  have live: "live (?f d) \<longleftrightarrow> om_DeletedAt z = None"
    using order_doc_written(2) [OF d(3), of z] d(2) z i by simp
  have ku: "map_of (map (\<lambda>x. (doc_id x, x)) (update_first ?P ?f ?ds)) q
      = (if q = Some (BId i) then map_option ?f (map_of (map (\<lambda>x. (doc_id x, x)) ?ds) (Some (BId i)))
         else map_of (map (\<lambda>x. (doc_id x, x)) ?ds) q)" for q
    by (rule keyed_update [where key = doc_id]) (rule key)
  show "stored_orders m' = (stored_orders m)(i := if om_DeletedAt z \<noteq> None then None
       else Some (convertOrderModelToDomain (stored_order (written_over e z))))"
    by (rule ext) (use d(1) dec [OF d(3)] live in \<open>simp add: stored_orders_def m' ku\<close>)
qed

lemma adapter_order_update:
  assumes "order_coll_ok re db view w" "stored_orders (view w) (or_ID y) = Some x"
  shows "\<exists>w' t. orr_Update (OrderRepositoryAdapter db) y w = (Ok (), w') \<and> order_coll_ok re db view w'
    \<and> stored_orders (view w') = (stored_orders (view w))(or_ID y := read_back t x y)"
proof -
  from assms(1) have D: "db_ok re db view" and O: "order_docs_ok (view w)" by (simp_all add: order_coll_ok_def)
  let ?i = "or_ID y" and ?ds = "view w ''orders''"
  from assms(2) obtain d m where d: "map_of (map (\<lambda>d. (doc_id d, d)) ?ds) (Some (BId ?i)) = Some d" "live d"
    "dec_order_model d = Some m" "x = convertOrderModelToDomain m"
    by (auto simp: stored_orders_def split: option.splits if_splits)
  note k = keyed_SomeD [OF d(1)]
  have i: "?i \<noteq> nil_id" using order_docD(2) [OF O, of d] k by force
  obtain n w1 where n: "db_now db w = (n, w1)" by (metis surj_pair)
  define z where "z = convertOrderDomainToModel y\<lparr>om_UpdatedAt := n\<rparr>"
  have z: "om_ID z = ?i" "om_DeletedAt z = or_DeletedAt y"
    by (simp_all add: z_def convertOrderDomainToModel_def)
  let ?P = "\<lambda>d. doc_id d = Some (BId ?i)"
  obtain r w2 where u: "repo_update (db_mongo db) ''orders'' ?i (enc_order_model z) w1 = (r, w2)" by (metis surj_pair)
  have m: "matches re (FEq ''_id'' (BId ?i)) (map_of e) = ?P e" if "e \<in> set ?ds" for e
    using order_docD(1) [OF O that] id_matches(1) by blast
  have "filter (\<lambda>e. matches re (FEq ''_id'' (BId ?i)) (map_of e)) ?ds \<noteq> []"
    using k m by (auto simp: filter_empty_conv)
  with repo_update_ok [OF db_okD(1) [OF D], of "''orders''" ?i "enc_order_model z" w1] u db_okD(2) [OF D n]
  have r: "r = Ok ()" "view w2 = (view w)(''orders'' :=
      update_first (\<lambda>e. matches re (FEq ''_id'' (BId ?i)) (map_of e)) (set_fields (enc_order_model z)) ?ds)"
    by auto
  have ds: "view w2 ''orders'' = update_first ?P (set_fields (enc_order_model z)) ?ds"
    using update_first_cong [of ?ds, OF m] unfolding r(2) by (simp del: matches.simps)
  note store = order_written_over [where m' = "view w2", OF O d(1-3) z(1) ds]
  have "stored_orders (view w2) = (stored_orders (view w))(?i := read_back n x y)"
    unfolding store(2) z(2) by (simp add: read_back_def d(4) flip: z_def)
  moreover have "orr_Update (OrderRepositoryAdapter db) y w = (Ok (), w2)"
    using n u r(1) i by (simp add: OrderRepositoryAdapter_def order_Update_def repo_UpdateOrder_def z_def
        convertOrderDomainToModel_def)
  ultimately show ?thesis using D store(1) by (auto simp: order_coll_ok_def)
qed

lemma adapter_order_get:
  assumes "order_coll_ok re db view w"
  shows "\<exists>w'. orr_GetByID (OrderRepositoryAdapter db) i w
      = ((case stored_orders (view w) i of Some x \<Rightarrow> Ok (Some x) | None \<Rightarrow> Err ErrNotFound), w')
    \<and> order_coll_ok re db view w' \<and> stored_orders (view w') = stored_orders (view w)"
proof -
  from assms have D: "db_ok re db view" and O: "order_docs_ok (view w)" by (simp_all add: order_coll_ok_def)
  let ?f = "FAll [FEq ''_id'' (BId i), not_deleted]"
  obtain r w1 where 1: "repo_find_one (db_mongo db) ''orders'' dec_order_model ?f w = (r, w1)" by (metis surj_pair)
  from repo_find_one_ok [OF db_okD(1) [OF D], of "''orders''" dec_order_model ?f w] 1
  have r: "r = (case filter (\<lambda>d. matches re ?f (map_of d)) (view w ''orders'') of
      [] \<Rightarrow> Err ErrNotFound | d # _ \<Rightarrow> decode_doc dec_order_model d)" "view w1 = view w" by auto
  have "map_res (Some \<circ> convertOrderModelToDomain) r
      = (case stored_orders (view w) i of Some x \<Rightarrow> Ok (Some x) | None \<Rightarrow> Err ErrNotFound)"
    unfolding stored_orders_filter [OF O, of re i, symmetric] r(1) by (simp split: list.split)
  with 1 r(2) assms show ?thesis
    by (auto simp: OrderRepositoryAdapter_def order_GetByID_def GetOrderByID_def via_def order_coll_ok_def)
qed

interpretation orders: order_store "OrderRepositoryAdapter db" "db_now db" "order_coll_ok re db view"
  "\<lambda>w. stored_orders (view w)" for db re view
proof
  fix w i x assume "order_coll_ok re db view w" "stored_orders (view w) i = Some x"
  then show "or_ID x = i" by (auto simp: order_coll_ok_def intro: stored_orders_id)
next
  fix w t w' assume "order_coll_ok re db view w" "db_now db w = (t, w')"
  then show "order_coll_ok re db view w' \<and> stored_orders (view w') = stored_orders (view w)"
    using db_okD(2) [of re db view w t w'] by (auto simp: order_coll_ok_def)
qed (rule adapter_order_get adapter_order_update; assumption)+

section \<open>Properties\<close>


definition demo_order :: order_model where
  "demo_order = convertOrderDomainToModel (fst (NewOrder (mem_db\<lparr>db_new_id := Pair ''o1''\<rparr>)
     ''u1'' ''k1'' ''BUY'' (Fin 2) (Fin 3) (\<lambda>_. [])))"

definition order_demo_store :: mstore where
  "order_demo_store = (\<lambda>c. if c = ''orders'' then [enc_order_model demo_order] else [])"

definition order_demo_uc :: "mstore order_uc" where
  "order_demo_uc = \<lparr>ou_orderRepo = OrderRepositoryAdapter mem_db, ou_currency_GetByID = currency_GetByID mem_db,
     ou_db = mem_db\<rparr>"

lemma demo_order_ids: "om_ID demo_order = ''o1''" "om_DeletedAt demo_order = None" "''o1'' \<noteq> nil_id"
  by (simp_all add: demo_order_def NewOrder_def convertOrderDomainToModel_def mem_db_def nil_id_def)

lemma demo_orders_ok: "order_docs_ok order_demo_store"
proof -
  have "doc_id (enc_order_model demo_order) = Some (BId ''o1'')"
    using demo_order_ids by (simp add: doc_id_def enc_order_model_def doc_simps del: map_of_append)
  moreover have "om_ID (stored_order demo_order) = ''o1''" using demo_order_ids by (simp add: stored_order_def)
  ultimately show ?thesis
    using demo_order_ids by (simp add: order_docs_ok_def order_demo_store_def dec_enc_order)
qed


text \<open>Creating an order.\<close>

definition order_read :: "int \<Rightarrow> order_t \<Rightarrow> order_t" where
  "order_read t x = x\<lparr>or_ExpiresAt := ms_trunc (or_ExpiresAt x), or_CreatedAt := t, or_UpdatedAt := t\<rparr>"

lemma adapter_order_create:
  assumes "order_coll_ok re db view w" "or_ID y \<noteq> nil_id" "or_DeletedAt y = None"
    and new: "\<forall>d \<in> set (view w ''orders''). doc_id d \<noteq> Some (BId (or_ID y))"
  shows "\<exists>w' t. orr_Create (OrderRepositoryAdapter db) y w = (Ok y, w') \<and> order_coll_ok re db view w'
    \<and> stored_orders (view w') = (stored_orders (view w))(or_ID y \<mapsto> order_read t y)"
proof -
  from assms(1) have D: "db_ok re db view" and O: "order_docs_ok (view w)" by (simp_all add: order_coll_ok_def)
  obtain n w1 where n: "db_now db w = (n, w1)" by (metis surj_pair)
  have v1: "view w1 = view w" by (rule db_okD(2) [OF D n])
  define z where "z = convertOrderDomainToModel y\<lparr>om_CreatedAt := n, om_UpdatedAt := n, om_ID := or_ID y\<rparr>"
  let ?d = "enc_order_model z"
  have z: "om_ID z = or_ID y" "om_ID (convertOrderDomainToModel y) = or_ID y" "om_DeletedAt z = None"
    using assms(3) by (simp_all add: z_def convertOrderDomainToModel_def)
  have id: "doc_id ?d = Some (BId (or_ID y))"
    using z(1) assms(2) by (simp add: doc_id_def enc_order_model_def doc_simps del: map_of_append)
  have live: "live ?d"
    using z(3) by (simp add: live_def not_deleted_def field_vals_def enc_order_model_def doc_simps del: map_of_append)
  obtain r w2 where r: "repo_insert (db_mongo db) ''orders'' ?d w1 = (r, w2)" by (metis surj_pair)
  have "\<not> (\<exists>e \<in> set (view w1 ''orders''). map_of e ''_id'' = map_of ?d ''_id'')"
    using new id by (auto simp: v1 doc_id_def)
  with repo_insert_ok [OF db_okD(1) [OF D], of "''orders''" ?d w1] r v1
  have r2: "r = Ok ()" "view w2 = (view w)(''orders'' := view w ''orders'' @ [?d])" by auto
  have "om_ID (stored_order z) = or_ID y" using z(1) by (simp add: stored_order_def)
  then have "order_docs_ok (view w2)"
    using O new id assms(2) by (auto simp: order_docs_ok_def r2(2) dec_enc_order)
  moreover have "convertOrderModelToDomain (stored_order z) = order_read (ms_trunc n) y"
    using assms(3) by (simp add: convertOrderModelToDomain_def stored_order_def z_def convertOrderDomainToModel_def
        order_read_def)
  moreover have "map_of (map (\<lambda>d. (doc_id d, d)) (view w ''orders'')) (Some (BId (or_ID y))) = None"
    using new by (auto simp: map_of_eq_None_iff)
  ultimately have "stored_orders (view w2) = (stored_orders (view w))(or_ID y \<mapsto> order_read (ms_trunc n) y)"
    "order_coll_ok re db view w2"
    using live id D by (auto simp: stored_orders_def r2(2) dec_enc_order order_coll_ok_def fun_eq_iff map_add_def
        split: option.split)
  moreover have "orr_Create (OrderRepositoryAdapter db) y w = (Ok y, w2)"
    using n r r2(1) assms(2) z(2) by (simp add: OrderRepositoryAdapter_def order_Create_def repo_CreateOrder_def
        fresh_id_def via_def Let_def flip: z_def) (simp add: z_def)
  ultimately show ?thesis by blast
qed

text \<open>
  A created order can be read back. If the currency is there and identifiers are new, creating
  an order succeeds; the order has the given user, currency, flow, amount and rate, expires 24 hours
  later and is the only change of the store; looking it up by its identifier returns it, except
  that its times are those of the repository, to the millisecond.
\<close>

theorem order_create_get:
  assumes "db_ok re db view" "order_docs_ok (view w)"
    and uc: "ou_orderRepo uc = OrderRepositoryAdapter db" "ou_db uc = db" "ou_currency_GetByID uc = currency_GetByID db"
    and cur: "filter (\<lambda>d. matches re (FEq ''_id'' (BId k)) (map_of d)) (view w ''currencies'') = d # ds"
      "dec_currency_model d = Some c"
    and fresh: "\<And>w. fst (db_new_id db w) \<noteq> nil_id"
      "\<And>w d. d \<in> set (view w ''orders'') \<Longrightarrow> doc_id d \<noteq> Some (BId (fst (db_new_id db w)))"
  shows "\<exists>x t now w1 w2. uc_CreateOrder uc u k flow amount rate dep wd bc sc prov w = (Ok x, w1)
    \<and> stored_orders (view w1) = (stored_orders (view w))(or_ID x \<mapsto> order_read t x)
    \<and> uc_GetOrderByID uc (or_ID x) w1 = (Ok (order_read t x), w2)
    \<and> or_UserID x = u \<and> or_CurrencyID x = k \<and> or_Flow x = flow \<and> or_Amount x = amount \<and> or_Rate x = rate
    \<and> or_Status x = ORDER_STATUS_CREATED \<and> or_ExpiresAt x = now + 24 * 3600 * 10 ^ 9"
proof -
  note mg = db_okD(1) [OF assms(1)]
  obtain w1 where 1: "currency_GetByID db k w = (Ok (Some c), w1)" "view w1 = view w"
    using repo_find_one_ok [OF mg, of "''currencies''" dec_currency_model "FEq ''_id'' (BId k)" w] cur
    by (auto simp: currency_GetByID_def GetCurrencyByID_def via_def decode_doc_def)
  obtain n w2 where 2: "db_now db w1 = (n, w2)" by (metis surj_pair)
  obtain i w3 where 3: "db_new_id db w2 = (i, w3)" by (metis surj_pair)
  obtain m w4 where 4: "db_now db w3 = (m, w4)" by (metis surj_pair)
  obtain x0 where x0: "NewOrder db u k flow amount rate w1 = (x0, w3)" "or_ID x0 = i" "or_DeletedAt x0 = None"
    "or_UserID x0 = u" "or_CurrencyID x0 = k" "or_Flow x0 = flow" "or_Amount x0 = amount" "or_Rate x0 = rate"
    "or_Status x0 = ORDER_STATUS_CREATED" using 2 3 by (simp add: NewOrder_def)
  have v: "view w2 = view w" "view w4 = view w"
    using 1(2) db_okD(2) [OF assms(1) 2] db_okD(3) [OF assms(1) 3] db_okD(2) [OF assms(1) 4] by simp_all
  define x where "x = x0\<lparr>or_DepositAccountIDs := (case dep of Some (_ # _) \<Rightarrow> dep | _ \<Rightarrow> or_DepositAccountIDs x0),
    or_WithdrawalAccountIDs := (case wd of Some (_ # _) \<Rightarrow> wd | _ \<Rightarrow> or_WithdrawalAccountIDs x0),
    or_BuyChain := bc, or_SellChain := sc, or_Provider := prov, or_ExpiresAt := m + 24 * 3600 * 10 ^ 9\<rparr>"
  have f: "or_ID x = i" "or_DeletedAt x = None" "or_UserID x = u" "or_CurrencyID x = k" "or_Flow x = flow"
    "or_Amount x = amount" "or_Rate x = rate" "or_Status x = ORDER_STATUS_CREATED"
    "or_ExpiresAt x = m + 24 * 3600 * 10 ^ 9" using x0 by (simp_all add: x_def)
  have i: "i \<noteq> nil_id" "\<forall>d \<in> set (view w4 ''orders''). doc_id d \<noteq> Some (BId i)"
    using fresh(1) [of w2] fresh(2) [of _ w2] 3 v by auto
  have ok: "order_coll_ok re db view w4" using assms(1,2) v(2) by (simp add: order_coll_ok_def)
  from adapter_order_create [OF ok, of x] f(1,2) i obtain w5 t where
    5: "orr_Create (OrderRepositoryAdapter db) x w4 = (Ok x, w5)" "order_coll_ok re db view w5"
    "stored_orders (view w5) = (stored_orders (view w4))(i \<mapsto> order_read t x)" by auto
  obtain w6 where "orr_GetByID (OrderRepositoryAdapter db) i w5 = (Ok (Some (order_read t x)), w6)"
    using adapter_order_get [OF 5(2), of i] 5(3) by auto
  then have "uc_GetOrderByID uc i w5 = (Ok (order_read t x), w6)"
    by (simp add: uc_GetOrderByID_def with_order_def uc)
  moreover have "uc_CreateOrder uc u k flow amount rate dep wd bc sc prov w = (Ok x, w5)"
    using 1(1) x0(1) 4 5(1) by (simp add: uc_CreateOrder_def uc) (simp add: x_def)
  ultimately show ?thesis using 5(3) v(2) f by metis
qed

definition order_db :: "mstore db" where
  "order_db = mem_db\<lparr>db_new_id := (\<lambda>m. (fresh_name ''orders'' m, m))\<rparr>"

lemma order_db_ok:
  "db_ok (\<lambda>_ _. False) order_db id" "fst (db_new_id order_db w) \<noteq> nil_id"
  "d \<in> set (id w ''orders'') \<Longrightarrow> doc_id d \<noteq> Some (BId (fst (db_new_id order_db w)))"
proof -
  show "db_ok (\<lambda>_ _. False) order_db id" using mem_db_ok by (simp add: db_ok_def order_db_def)
  have "fresh_name ''orders'' w \<noteq> nil_id"
  proof
    assume "fresh_name ''orders'' w = nil_id"
    then have "length (fresh_name ''orders'' w) = 24" by (simp only:) (simp add: nil_id_def)
    with fresh_name_long [of "''orders''" w] show False by simp
  qed
  then show "fst (db_new_id order_db w) \<noteq> nil_id" by (simp add: order_db_def)
  show "doc_id d \<noteq> Some (BId (fst (db_new_id order_db w)))" if "d \<in> set (id w ''orders'')"
    using id_length [of d w "''orders''"] that by (auto simp: order_db_def doc_id_def)
qed

definition demo_currency :: bdoc where
  "demo_currency = [(''_id'', BId ''k1''), (''symbol'', BStr ''BTC'')]"

theorem order_create_get_witness:
  "\<exists>x t w1 w2. uc_CreateOrder (order_demo_uc\<lparr>ou_orderRepo := OrderRepositoryAdapter order_db, ou_db := order_db,
        ou_currency_GetByID := currency_GetByID order_db\<rparr>) ''u1'' ''k1'' ''BUY'' (Fin 2) (Fin 3) None None
      nil_id nil_id [] (\<lambda>c. if c = ''currencies'' then [demo_currency] else []) = (Ok x, w1)
    \<and> stored_orders w1 = [or_ID x \<mapsto> order_read t x] \<and> or_Amount x = Fin 2"
proof -
  let ?w = "\<lambda>c. if c = ''currencies'' then [demo_currency] else []"
  let ?uc = "order_demo_uc\<lparr>ou_orderRepo := OrderRepositoryAdapter order_db, ou_db := order_db,
        ou_currency_GetByID := currency_GetByID order_db\<rparr>"
  have 1: "order_docs_ok (id ?w)" "stored_orders ?w = Map.empty"
    by (simp_all add: order_docs_ok_def stored_orders_def fun_eq_iff)
  have 2: "filter (\<lambda>d. matches (\<lambda>_ _. False) (FEq ''_id'' (BId ''k1'')) (map_of d)) (id ?w ''currencies'') = [demo_currency]"
    by (simp add: demo_currency_def field_vals_def)
  obtain c where 3: "dec_currency_model demo_currency = Some c"
    by (simp add: dec_currency_model_def demo_currency_def get_defs id_of_def str_of_def bool_of_def dbl_of_def
        time_val_of_def time_ptr_of_def int_val_of_def)
  show ?thesis
    using order_create_get [where view = id and w = ?w and uc = ?uc, OF order_db_ok(1) 1(1) _ _ _ 2 3 order_db_ok(2,3),
        of "''u1''" "''BUY''" "Fin 2" "Fin 3" None None nil_id nil_id "[]"] 1(2)
    by auto
qed

end
