(* ===== verification/AnkrClient.thy ===== *)
theory AnkrClient
  imports HttpClient "HOL-Library.Monad_Syntax"
begin

text \<open>
  \<open>internal/worker/evm/ankr_types.go\<close> and \<open>ankr_client.go\<close>: the JSON-RPC client of the EVM worker and
  the conversions of hexadecimal numbers. The service is the HTTP parameter; \<open>txt\<close> is the text of a
  body, \<open>slp\<close> what waiting does to the world.
\<close>

section \<open>Types\<close>

record ankr_block =
  ab_Number :: string
  ab_Hash :: string
  ab_ParentHash :: string
  ab_Timestamp :: string
  ab_Transactions :: "gval list"

record ankr_tx =
  at_BlockHash :: string
  at_BlockNumber :: string
  at_From :: string
  at_Hash :: string
  at_To :: string
  at_Value :: string

record ankr_chain =
  ac_RpcURL :: string
  ac_ChainID :: int
  ac_Name :: string
  ac_Symbol :: string
  ac_NativeSymbol :: string
  ac_Decimals :: int

definition SupportedChains :: "(string \<times> ankr_chain) list" where
  "SupportedChains =
     [(''eth'', \<lparr>ac_RpcURL = ''https://rpc.ankr.com/eth'', ac_ChainID = 1, ac_Name = ''Ethereum'',
         ac_Symbol = ''ETH'', ac_NativeSymbol = ''ETH'', ac_Decimals = 18\<rparr>),
      (''matic'', \<lparr>ac_RpcURL = ''https://rpc.ankr.com/polygon'', ac_ChainID = 137, ac_Name = ''Polygon'',
         ac_Symbol = ''MATIC'', ac_NativeSymbol = ''MATIC'', ac_Decimals = 18\<rparr>),
      (''op'', \<lparr>ac_RpcURL = ''https://rpc.ankr.com/optimism'', ac_ChainID = 10, ac_Name = ''Optimism'',
         ac_Symbol = ''OP'', ac_NativeSymbol = ''ETH'', ac_Decimals = 18\<rparr>),
      (''bsc'', \<lparr>ac_RpcURL = ''https://rpc.ankr.com/bsc'', ac_ChainID = 56, ac_Name = ''BNB Chain'',
         ac_Symbol = ''BSC'', ac_NativeSymbol = ''BSC'', ac_Decimals = 18\<rparr>)]"

text \<open>Decoding a block: all its members are text, but for the transactions and the uncles.\<close>

definition text_members :: "string list \<Rightarrow> json \<Rightarrow> bool" where
  "text_members ks j = list_all (\<lambda>k. jstr j k \<noteq> None) ks"

definition dec_ankr_block :: "json \<Rightarrow> ankr_block option" where
  "dec_ankr_block j =
     (if \<not> jstruct j \<or> \<not> text_members [''nonce'', ''sha3Uncles'', ''logsBloom'', ''transactionsRoot'',
           ''stateRoot'', ''receiptsRoot'', ''miner'', ''difficulty'', ''totalDifficulty'', ''extraData'',
           ''size'', ''gasLimit'', ''gasUsed'', ''baseFeePerGas''] j then None
      else do {
        n \<leftarrow> jstr j ''number''; h \<leftarrow> jstr j ''hash''; ph \<leftarrow> jstr j ''parentHash''; ts \<leftarrow> jstr j ''timestamp'';
        txs \<leftarrow> jlist from_json j ''transactions''; _ \<leftarrow> jlist dec_json_str j ''uncles'';
        Some \<lparr>ab_Number = n, ab_Hash = h, ab_ParentHash = ph, ab_Timestamp = ts, ab_Transactions = txs\<rparr> })"

definition dec_ankr_tx :: "json \<Rightarrow> ankr_tx option" where
  "dec_ankr_tx j =
     (if \<not> jstruct j \<or> \<not> text_members [''gas'', ''gasPrice'', ''input'', ''nonce'', ''transactionIndex'',
           ''type'', ''chainId'', ''v'', ''r'', ''s'', ''maxFeePerGas'', ''maxPriorityFeePerGas''] j then None
      else do {
        bh \<leftarrow> jstr j ''blockHash''; bn \<leftarrow> jstr j ''blockNumber''; f \<leftarrow> jstr j ''from'';
        h \<leftarrow> jstr j ''hash''; t \<leftarrow> jstr j ''to''; v \<leftarrow> jstr j ''value'';
        Some \<lparr>at_BlockHash = bh, at_BlockNumber = bn, at_From = f, at_Hash = h, at_To = t, at_Value = v\<rparr> })"

definition dec_any_list :: "json \<Rightarrow> gval list option" where
  "dec_any_list j =
     (case j of JNull \<Rightarrow> Some [] | JArr js \<Rightarrow> those (map from_json js) | _ \<Rightarrow> None)"

section \<open>Requests\<close>

record 'w ankr =
  ak_http :: "'w http_client"
  ak_url :: string
  ak_key :: string
  ak_text :: "blob \<Rightarrow> string"
  ak_sleep :: "int \<Rightarrow> 'w \<Rightarrow> 'w"

definition ankr_url :: "string \<Rightarrow> string \<Rightarrow> string" where
  "ankr_url url key =
     (if key \<noteq> [] \<and> \<not> contains url key \<and> contains url ''ankr.com''
      then (if has_suffix url ''/'' then url else url @ ''/'') @ key else url)"

definition ankr_request :: "string \<Rightarrow> json list \<Rightarrow> json" where
  "ankr_request meth params = JObj [(''jsonrpc'', JStr ''2.0''), (''method'', JStr meth),
     (''params'', JArr params), (''id'', JNum 1)]"

text \<open>Three attempts; only an error of the transport is retried. \<open>i\<close> attempts are left after this one.\<close>

fun ankr_send :: "'w ankr \<Rightarrow> blob option \<Rightarrow> nat \<Rightarrow> 'w \<Rightarrow> http_out \<times> 'w" where
  "ankr_send c body i w =
     (case hdo (ak_http c) ''POST'' (ankr_url (ak_url c) (ak_key c))
              [(''Content-Type'', ''application/json'')] body w of
        (HDoErr e, w') \<Rightarrow>
          (case i of 0 \<Rightarrow> (HDoErr e, w') | Suc k \<Rightarrow>
             ankr_send c (resend (ak_http c) body w') k (ak_sleep c (int (2 - k) * 500) w'))
      | r \<Rightarrow> r)"

declare ankr_send.simps [simp del]

text \<open>What a response says: an RPC error, or the result, if it has one.\<close>

definition ankr_result :: "json \<Rightarrow> json res" where
  "ankr_result j =
     (let bad = Err (EWrap ''error unmarshaling response: '' (EMsg ''json: cannot unmarshal'')) in
      if \<not> jstruct j \<or> jstr j ''jsonrpc'' = None \<or> ji64 j ''id'' = None then bad
      else
        (case jmember j ''error'' of
           Some e \<Rightarrow>
             (case (if jstruct e then (ji64 e ''code'', jstr e ''message'') else (None, None)) of
                (Some c, Some m) \<Rightarrow> Err (EMsg (''RPC error '' @ show_int 10 c @ '': '' @ m))
              | _ \<Rightarrow> bad)
         | None \<Rightarrow>
             (case j of
                JObj kjs \<Rightarrow>
                  (case json_lookup kjs ''result'' of
                     Some r \<Rightarrow> Ok r
                   | None \<Rightarrow> Err (EWrap ''error unmarshaling result: '' (EMsg ''unexpected end of JSON input'')))
              | _ \<Rightarrow> Err (EWrap ''error unmarshaling result: '' (EMsg ''unexpected end of JSON input'')))))"

definition ankr_do :: "'w ankr \<Rightarrow> json \<Rightarrow> (json \<Rightarrow> 'a option) \<Rightarrow> 'w \<Rightarrow> 'a res \<times> 'w" where
  "ankr_do c req dec w =
     (case ankr_send c (Some (Enc req)) 2 w of
        (HReqErr e, w') \<Rightarrow> (Err (EWrap ''error creating request: '' e), w')
      | (HDoErr e, w') \<Rightarrow> (Err (EWrap ''error making request: '' e), w')
      | (HBodyErr code e, w') \<Rightarrow>
          (if code \<noteq> 200 then (Err (EMsg (''HTTP error '' @ show_int 10 code @ '': '')), w')
           else (Err (EWrap ''error reading response body: '' e), w'))
      | (HResp code b, w') \<Rightarrow>
          (if code \<noteq> 200 then (Err (EMsg (''HTTP error '' @ show_int 10 code @ '': '' @ ak_text c b)), w')
           else
             (case b of
                Raw _ \<Rightarrow> (Err (EWrap ''error unmarshaling response: '' (EMsg ''invalid character'')), w')
              | Enc j \<Rightarrow>
                  (case ankr_result j of
                     Err e \<Rightarrow> (Err e, w')
                   | Panic p \<Rightarrow> (Panic p, w')
                   | Ok r \<Rightarrow>
                       (case dec r of
                          Some a \<Rightarrow> (Ok a, w')
                        | None \<Rightarrow> (Err (EWrap ''error unmarshaling result: '' (EMsg ''json: cannot unmarshal'')), w'))))))"

definition hex_of :: "int \<Rightarrow> string" where
  "hex_of n = ''0x'' @ show_int 16 n"

definition wrap_err :: "string \<Rightarrow> 'a res \<times> 'w \<Rightarrow> 'a res \<times> 'w" where
  "wrap_err m r = (case r of (Err e, w) \<Rightarrow> (Err (EWrap m e), w) | _ \<Rightarrow> r)"

definition GetBlockByNumber :: "'w ankr \<Rightarrow> int \<Rightarrow> bool \<Rightarrow> 'w \<Rightarrow> ankr_block res \<times> 'w" where
  "GetBlockByNumber c n full w = wrap_err ''error getting block by number: ''
     (ankr_do c (ankr_request ''eth_getBlockByNumber'' [JStr (hex_of n), JBool full]) dec_ankr_block w)"

text \<open>The slice \<open>result[2:]\<close> panics on a result of less than two characters.\<close>

definition parse_hex_result :: "string \<Rightarrow> string \<Rightarrow> int res" where
  "parse_hex_result what result =
     (if length result < 2 then Panic ''slice bounds out of range''
      else case big_set_string (drop 2 result) 16 of
             Some n \<Rightarrow> Ok n
           | None \<Rightarrow> Err (EMsg (''failed to parse '' @ what @ '': '' @ result)))"

definition GetLatestBlockNumber :: "'w ankr \<Rightarrow> 'w \<Rightarrow> int res \<times> 'w" where
  "GetLatestBlockNumber c w =
     (case ankr_do c (ankr_request ''eth_blockNumber'' []) dec_json_str w of
        (Err e, w') \<Rightarrow> (Err (EWrap ''error getting latest block number: '' e), w')
      | (Panic p, w') \<Rightarrow> (Panic p, w')
      | (Ok s, w') \<Rightarrow> (parse_hex_result ''block number'' s, w'))"

definition block_tag :: "int option \<Rightarrow> string" where
  "block_tag n = (case n of None \<Rightarrow> ''latest'' | Some i \<Rightarrow> hex_of i)"

definition ankr_GetBalance :: "'w ankr \<Rightarrow> string \<Rightarrow> int option \<Rightarrow> 'w \<Rightarrow> int res \<times> 'w" where
  "ankr_GetBalance c address n w =
     (case ankr_do c (ankr_request ''eth_getBalance'' [JStr address, JStr (block_tag n)]) dec_json_str w of
        (Err e, w') \<Rightarrow> (Err (EWrap ''error getting balance: '' e), w')
      | (Panic p, w') \<Rightarrow> (Panic p, w')
      | (Ok s, w') \<Rightarrow> (parse_hex_result ''balance'' s, w'))"

definition GetTransactionByHash :: "'w ankr \<Rightarrow> string \<Rightarrow> 'w \<Rightarrow> ankr_tx res \<times> 'w" where
  "GetTransactionByHash c h w = wrap_err ''error getting transaction by hash: ''
     (ankr_do c (ankr_request ''eth_getTransactionByHash'' [JStr h]) dec_ankr_tx w)"

definition log_filter :: "int option \<Rightarrow> int option \<Rightarrow> string list \<Rightarrow> string list list \<Rightarrow> json" where
  "log_filter f t addresses topics = JObj
     ((if addresses = [] then [] else [(''address'', JArr (map JStr addresses))])
      @ [(''fromBlock'', JStr (block_tag f)), (''toBlock'', JStr (block_tag t))]
      @ (if topics = [] then [] else [(''topics'', JArr (map (\<lambda>ts. JArr (map JStr ts)) topics))]))"

definition GetPastLogs ::
  "'w ankr \<Rightarrow> int option \<Rightarrow> int option \<Rightarrow> string list \<Rightarrow> string list list \<Rightarrow> 'w \<Rightarrow> gval list res \<times> 'w" where
  "GetPastLogs c f t addresses topics w = wrap_err ''error getting past logs: ''
     (ankr_do c (ankr_request ''eth_getLogs'' [log_filter f t addresses topics]) dec_any_list w)"

section \<open>Hexadecimal numbers\<close>

definition hex_prefixed :: "string \<Rightarrow> bool" where
  "hex_prefixed hex \<longleftrightarrow> \<not> (length hex < 3 \<or> take 2 hex \<noteq> ''0x'')"

text \<open>\<open>strconv.ParseUint(s, 16, 64)\<close>: digits only, and the value fits.\<close>

definition HexToUint64 :: "string \<Rightarrow> u64 res" where
  "HexToUint64 hex =
     (if \<not> hex_prefixed hex then Err (EMsg (''invalid hex string: '' @ hex))
      else case parse_nat 16 (drop 2 hex) of
             Some n \<Rightarrow> if n < 2 ^ 64 then Ok (of_nat n)
                       else Err (EMsg ''strconv.ParseUint: value out of range'')
           | None \<Rightarrow> Err (EMsg ''strconv.ParseUint: invalid syntax''))"

definition HexToBigInt :: "string \<Rightarrow> int res" where
  "HexToBigInt hex =
     (if \<not> hex_prefixed hex then Err (EMsg (''invalid hex string: '' @ hex))
      else case big_set_string (drop 2 hex) 16 of
             Some n \<Rightarrow> Ok n
           | None \<Rightarrow> Err (EMsg (''failed to parse hex string: '' @ hex)))"

section \<open>Properties\<close>

lemma hex_prefixed_of: "hex_prefixed (''0x'' @ s) \<longleftrightarrow> s \<noteq> []"
  by (cases s) (auto simp: hex_prefixed_def)

lemma parse_hex_result_of: "parse_hex_result what (hex_of n) = Ok n"
  by (simp add: parse_hex_result_def hex_of_def big_set_string_show_int)

text \<open>
  The hexadecimal form of a number that the client sends is the one it reads: \<open>HexToBigInt\<close>
  inverts it for every integer, \<open>HexToUint64\<close> for those below \<open>2\<^sup>6\<^sup>4\<close>, and larger ones it refuses.
\<close>

theorem hex_roundtrip:
  "HexToBigInt (hex_of n) = Ok n
   \<and> (0 \<le> n \<longrightarrow> (if n < 2 ^ 64 then \<exists>u. HexToUint64 (hex_of n) = Ok u \<and> uint u = n
                 else \<exists>e. HexToUint64 (hex_of n) = Err e))"
proof (intro conjI impI)
  have ne: "show_int 16 n \<noteq> []" by (simp add: show_int_def)
  show "HexToBigInt (hex_of n) = Ok n"
    using hex_prefixed_of [of "show_int 16 n"] ne
    by (simp add: HexToBigInt_def hex_of_def big_set_string_show_int)
  assume n: "0 \<le> n"
  then have p: "parse_nat 16 (show_int 16 n) = Some (nat n)"
    by (simp add: show_int_def parse_show_nat)
  show "if n < 2 ^ 64 then \<exists>u. HexToUint64 (hex_of n) = Ok u \<and> uint u = n
        else \<exists>e. HexToUint64 (hex_of n) = Err e"
  proof (cases "n < 2 ^ 64")
    case True
    with n have "nat n < 2 ^ 64" by (simp add: nat_less_iff)
    moreover have "uint (of_nat (nat n) :: u64) = n" using n True
      by (simp add: of_nat_nat uint_word_of_int)
    ultimately show ?thesis using True p hex_prefixed_of [of "show_int 16 n"] ne
      by (auto simp: HexToUint64_def hex_of_def)
  next
    case False
    then have "\<not> nat n < 2 ^ 64" using n by (simp add: nat_less_iff)
    with False p hex_prefixed_of [of "show_int 16 n"] ne show ?thesis
      by (auto simp: HexToUint64_def hex_of_def)
  qed
qed

theorem hex_roundtrip_witness:
  "\<exists>u. HexToUint64 (hex_of 255) = Ok u \<and> uint u = 255"
  using hex_roundtrip [of 255] by simp

end
