(* ===== verification/EvmProcessor.thy ===== *)
theory EvmProcessor
  imports AnkrClient CacheManager Mongo
begin

text \<open>
  \<open>internal/worker/evm/processor.go\<close>: the deposits of an EVM chain. A job reads the last processed
  block number from the cache and processes every newer block: the recipients of its native
  transactions and ERC-20 transfer logs are looked up among the deposit accounts, and the pending
  order of a deposit account that was paid becomes \<open>DEPOSIT_CONFIRMING\<close> with the amount paid. Block
  numbers are \<open>big.Int\<close>; amounts are divided as \<open>big.Float\<close> and then rounded to \<open>float64\<close>.
\<close>

record 'w evm_proc =
  ep_client :: "'w ankr"
  ep_mongo :: "'w mongo"
  ep_cache :: "'w cache_ops"
  ep_now :: "'w \<Rightarrow> int \<times> 'w"
  ep_oor :: "f64 \<Rightarrow> int"
  ep_symbol :: string

definition ORDER_STATUS_PENDING :: string where
  "ORDER_STATUS_PENDING = ''PENDING''"

definition ORDER_STATUS_DEPOSIT_CONFIRMING :: string where
  "ORDER_STATUS_DEPOSIT_CONFIRMING = ''DEPOSIT_CONFIRMING''"

section \<open>Amounts\<close>

text \<open>
  \<open>big.Float\<close>: \<open>SetInt\<close> is exact with as many bits as the integer needs, at least 64; \<open>Quo\<close> rounds
  to the larger precision of its operands. The exponent range is never left here.
\<close>

definition bit_len :: "int \<Rightarrow> nat" where
  "bit_len i = (if i = 0 then 0 else Suc (nlog2 (nat \<bar>i\<bar>)))"

definition big_quo :: "int \<Rightarrow> int \<Rightarrow> f64" where
  "big_quo a b = f64_of_rat (round_prec (max (max (bit_len a) 64) (max (bit_len b) 64)) (- (2 ^ 31))
                              (of_int a / of_int b))"

definition parseTransactionAmount :: "string \<Rightarrow> f64 res" where
  "parseTransactionAmount hexValue =
     (if hexValue = [] \<or> hexValue = ''0x0'' then Ok (Fin 0)
      else
        let hx = (if length hexValue > 2 \<and> take 2 hexValue = ''0x'' then drop 2 hexValue else hexValue)
        in case big_set_string hx 16 of
             None \<Rightarrow> Err (EMsg (''failed to parse hex amount: '' @ hx))
           | Some n \<Rightarrow> Ok (big_quo n (10 ^ 18)))"

section \<open>Transactions and logs\<close>

definition str_member :: "(string \<times> gval) list \<Rightarrow> string \<Rightarrow> string" where
  "str_member m k = (case map_of m k of Some (VStr s) \<Rightarrow> s | _ \<Rightarrow> [])"

definition convertToAnkrTransaction :: "(string \<times> gval) list \<Rightarrow> ankr_tx" where
  "convertToAnkrTransaction m =
     \<lparr>at_BlockHash = str_member m ''blockHash'', at_BlockNumber = str_member m ''blockNumber'',
      at_From = str_member m ''from'', at_Hash = str_member m ''hash'', at_To = str_member m ''to'',
      at_Value = str_member m ''value''\<rparr>"

record token_transfer =
  tr_TransactionHash :: string
  tr_BlockNumber :: string
  tr_TokenAddress :: string
  tr_From :: string
  tr_To :: string
  tr_Amount :: string
  tr_LogIndex :: string

text \<open>An address in a topic: the last 20 of 32 bytes.\<close>

definition topic_address :: "gval \<Rightarrow> string" where
  "topic_address v = (case v of VStr s \<Rightarrow> if length s \<ge> 66 then ''0x'' @ drop 26 s else [] | _ \<Rightarrow> [])"

definition parseTokenTransferLog :: "gval \<Rightarrow> token_transfer res" where
  "parseTokenTransferLog v =
     (case v of
        VMap m \<Rightarrow>
          let (f, t) = (case map_of m ''topics'' of
                 Some (VList (_ # t1 # t2 # _)) \<Rightarrow> (topic_address t1, topic_address t2)
               | _ \<Rightarrow> ([], []))
          in Ok \<lparr>tr_TransactionHash = str_member m ''transactionHash'',
                 tr_BlockNumber = str_member m ''blockNumber'', tr_TokenAddress = str_member m ''address'',
                 tr_From = f, tr_To = t,
                 tr_Amount = (let d = str_member m ''data'' in if length d > 2 then d else []),
                 tr_LogIndex = str_member m ''logIndex''\<rparr>
      | _ \<Rightarrow> Err (EMsg ''invalid log data format''))"

definition native_transactions :: "gval list \<Rightarrow> ankr_tx list" where
  "native_transactions vs = filter (\<lambda>tx. at_To tx \<noteq> [])
     (concat (map (\<lambda>v. case v of VMap m \<Rightarrow> [convertToAnkrTransaction m] | _ \<Rightarrow> []) vs))"

definition token_transfers :: "gval list \<Rightarrow> token_transfer list" where
  "token_transfers vs = filter (\<lambda>t. tr_To t \<noteq> [])
     (concat (map (\<lambda>v. case parseTokenTransferLog v of Ok t \<Rightarrow> [t] | _ \<Rightarrow> []) vs))"

definition transfer_tx :: "token_transfer \<Rightarrow> ankr_tx" where
  "transfer_tx t = \<lparr>at_BlockHash = [], at_BlockNumber = tr_BlockNumber t, at_From = tr_From t,
     at_Hash = tr_TransactionHash t, at_To = tr_To t, at_Value = tr_Amount t\<rparr>"

definition transfer_topic :: string where
  "transfer_topic = ''0xddf252ad1be2c89b69c2b068fc378daa952ba7f163c4a11628f55a4df523b3ef''"

definition getTokenTransferLogs :: "'w ankr \<Rightarrow> int \<Rightarrow> int \<Rightarrow> 'w \<Rightarrow> gval list res \<times> 'w" where
  "getTokenTransferLogs c f t w = wrap_err ''failed to get token transfer logs: ''
     (GetPastLogs c (Some f) (Some t) [] [[transfer_topic]] w)"

section \<open>The database\<close>

definition findDepositAccountsByAddresses ::
  "'w mongo \<Rightarrow> string list \<Rightarrow> 'w \<Rightarrow> bdoc list res \<times> 'w" where
  "findDepositAccountsByAddresses mg addresses w =
     (if addresses = [] then (Ok [], w)
      else
        (case mongo_find mg ''accounts''
                (FAll [FIn ''walletAddress'' (map (\<lambda>a. BStr (to_lower a)) addresses),
                       FExists ''deletedAt'' False]) w of
           (Ok [], w1) \<Rightarrow>
             mongo_find mg ''accounts''
               (FAll [FAny (map (\<lambda>a. FRegex ''walletAddress'' (''^'' @ a @ ''$'')) addresses),
                      FExists ''deletedAt'' False]) w1
         | r \<Rightarrow> r))"

definition pending_order_filter :: "string \<Rightarrow> mfilter" where
  "pending_order_filter accountId =
     FAll [FIn ''depositAccountIds'' [BId accountId], FEq ''status'' (BStr ''PENDING'')]"

definition findOrderByDepositAccount :: "'w mongo \<Rightarrow> string \<Rightarrow> 'w \<Rightarrow> bdoc res \<times> 'w" where
  "findOrderByDepositAccount mg accountId w =
     mongo_find_one mg ''orders'' (pending_order_filter accountId) w"

definition processOrderTransaction ::
  "'w evm_proc \<Rightarrow> bdoc \<Rightarrow> ankr_tx \<Rightarrow> 'w \<Rightarrow> bool \<times> 'w" where
  "processOrderTransaction p order tx w =
     (case map_of order ''_id'' of
        Some (BId orderId) \<Rightarrow>
          (case parseTransactionAmount (at_Value tx) of
             Ok amount \<Rightarrow>
               (case ep_now p w of (t, w1) \<Rightarrow>
                (case mdo (ep_mongo p)
                        (MUpdateOne ''orders'' (FEq ''_id'' (BId orderId))
                           [(''status'', BStr ORDER_STATUS_DEPOSIT_CONFIRMING), (''amount'', BDbl amount),
                            (''updatedAt'', bson_time t), (''latestTxHash'', BStr (at_Hash tx))]) w1 of
                   (MNum n, w2) \<Rightarrow> (n \<noteq> 0, w2)
                 | (_, w2) \<Rightarrow> (False, w2)))
           | _ \<Rightarrow> (False, w))
      | _ \<Rightarrow> (False, w))"

text \<open>A transaction whose recipient is a deposit account: find the account's pending order.\<close>

definition processMatchedTransaction ::
  "'w evm_proc \<Rightarrow> ankr_tx \<Rightarrow> bdoc \<Rightarrow> 'w \<Rightarrow> bool \<times> 'w" where
  "processMatchedTransaction p tx account w =
     (case map_of account ''_id'' of
        Some (BId accountId) \<Rightarrow>
          (case findOrderByDepositAccount (ep_mongo p) accountId w of
             (Ok order, w1) \<Rightarrow> processOrderTransaction p order tx w1
           | (_, w1) \<Rightarrow> (False, w1))
      | _ \<Rightarrow> (False, w))"

definition processMatchedTokenTransfer ::
  "'w evm_proc \<Rightarrow> token_transfer \<Rightarrow> bdoc \<Rightarrow> 'w \<Rightarrow> bool \<times> 'w" where
  "processMatchedTokenTransfer p transfer account w =
     (case map_of account ''_id'' of
        Some (BId accountId) \<Rightarrow>
          (case findOrderByDepositAccount (ep_mongo p) accountId w of
             (Ok order, w1) \<Rightarrow> processOrderTransaction p order (transfer_tx transfer) w1
           | (_, w1) \<Rightarrow> (False, w1))
      | _ \<Rightarrow> (False, w))"

section \<open>Blocks\<close>

text \<open>The accounts found, by lower-case address; of several, the last.\<close>

definition account_map :: "bdoc list \<Rightarrow> string \<rightharpoonup> bdoc" where
  "account_map accounts = fold (\<lambda>a m. case map_of a ''walletAddress'' of
     Some (BStr s) \<Rightarrow> m(to_lower s \<mapsto> a) | _ \<Rightarrow> m) accounts Map.empty"

fun process_native :: "'w evm_proc \<Rightarrow> (string \<rightharpoonup> bdoc) \<Rightarrow> ankr_tx list \<Rightarrow> 'w \<Rightarrow> nat \<times> 'w" where
  "process_native p am [] w = (0, w)"
| "process_native p am (tx # txs) w =
     (case am (to_lower (at_To tx)) of
        None \<Rightarrow> process_native p am txs w
      | Some a \<Rightarrow>
          (case processMatchedTransaction p tx a w of (ok, w1) \<Rightarrow>
           case process_native p am txs w1 of (n, w2) \<Rightarrow> (n + (if ok then 1 else 0), w2)))"

fun process_transfers :: "'w evm_proc \<Rightarrow> (string \<rightharpoonup> bdoc) \<Rightarrow> token_transfer list \<Rightarrow> 'w \<Rightarrow> nat \<times> 'w" where
  "process_transfers p am [] w = (0, w)"
| "process_transfers p am (t # ts) w =
     (case am (to_lower (tr_To t)) of
        None \<Rightarrow> process_transfers p am ts w
      | Some a \<Rightarrow>
          (case processMatchedTokenTransfer p t a w of (ok, w1) \<Rightarrow>
           case process_transfers p am ts w1 of (n, w2) \<Rightarrow> (n + (if ok then 1 else 0), w2)))"

text \<open>
  A block: the addresses are collected in a set, here in one order (Go leaves the
  order open, and the database does not depend on it).
\<close>

definition processBlock :: "'w evm_proc \<Rightarrow> int \<Rightarrow> 'w \<Rightarrow> unit res \<times> 'w" where
  "processBlock p n w =
     (case GetBlockByNumber (ep_client p) n True w of
        (Err e, w1) \<Rightarrow> (Err (EWrap ''error getting block by number: '' e), w1)
      | (Panic m, w1) \<Rightarrow> (Panic m, w1)
      | (Ok b, w1) \<Rightarrow>
          if ab_Transactions b = [] then (Ok (), w1)
          else
            (case getTokenTransferLogs (ep_client p) n n w1 of
               (Panic m, w2) \<Rightarrow> (Panic m, w2)
             | (r, w2) \<Rightarrow>
                 let logs = (case r of Ok ls \<Rightarrow> ls | _ \<Rightarrow> []);
                     natives = native_transactions (ab_Transactions b);
                     tokens = token_transfers logs;
                     addresses = remdups (map (\<lambda>tx. to_lower (at_To tx)) natives
                                          @ map (\<lambda>t. to_lower (tr_To t)) tokens)
                 in case findDepositAccountsByAddresses (ep_mongo p) addresses w2 of
                      (Err e, w3) \<Rightarrow> (Err (EWrap ''failed to batch lookup deposit accounts: '' e), w3)
                    | (Panic m, w3) \<Rightarrow> (Panic m, w3)
                    | (Ok accounts, w3) \<Rightarrow>
                        let am = account_map accounts in
                        (Ok (), snd (process_transfers p am tokens (snd (process_native p am natives w3))))))"

section \<open>Chains\<close>

definition chain_cache_key :: "string \<Rightarrow> string" where
  "chain_cache_key symbol = ''evm:'' @ to_lower symbol @ '':last-block-height''"

definition cached_block_number :: "(f64 \<Rightarrow> int) \<Rightarrow> gval \<Rightarrow> int" where
  "cached_block_number oor v =
     (case v of
        VFloat x \<Rightarrow> i64_of_f64 oor x
      | VInt i \<Rightarrow> i
      | VInt64 i \<Rightarrow> i
      | VStr s \<Rightarrow> (case big_set_string s 10 of Some i \<Rightarrow> i | None \<Rightarrow> 0)
      | _ \<Rightarrow> 0)"

text \<open>The blocks after \<open>last\<close> up to \<open>latest\<close>; a block that fails is skipped, a panic ends the job.\<close>

fun process_blocks :: "'w evm_proc \<Rightarrow> int list \<Rightarrow> 'w \<Rightarrow> unit res \<times> 'w" where
  "process_blocks p [] w = (Ok (), w)"
| "process_blocks p (n # ns) w =
     (case processBlock p n w of
        (Panic m, w1) \<Rightarrow> (Panic m, w1)
      | (_, w1) \<Rightarrow> process_blocks p ns w1)"

definition set_last_block :: "'w evm_proc \<Rightarrow> int \<Rightarrow> int \<Rightarrow> 'w \<Rightarrow> unit res \<times> 'w" where
  "set_last_block p n ttl w =
     wrap_err ''error setting last processed block in cache: ''
       (cm_set (ep_cache p) (chain_cache_key (ep_symbol p)) (VStr (show_int 10 n)) ttl w)"

definition ProcessChain :: "'w evm_proc \<Rightarrow> 'w \<Rightarrow> unit res \<times> 'w" where
  "ProcessChain p w =
     (case GetLatestBlockNumber (ep_client p) w of
        (Err e, w1) \<Rightarrow> (Err (EWrap ''error getting latest block number: '' e), w1)
      | (Panic m, w1) \<Rightarrow> (Panic m, w1)
      | (Ok latest, w1) \<Rightarrow>
          (case cm_get (ep_cache p) (chain_cache_key (ep_symbol p)) w1 of
             (Err e, w2) \<Rightarrow> (Err (EWrap ''error getting last processed block from cache: '' e), w2)
           | (Panic m, w2) \<Rightarrow> (Panic m, w2)
           | (Ok v, w2) \<Rightarrow>
               (let prev = cached_block_number (ep_oor p) v in
                if prev = 0 then
                  (case processBlock p latest w2 of
                     (Err e, w3) \<Rightarrow> (Err (EWrap ''error processing block: '' e), w3)
                   | (Panic m, w3) \<Rightarrow> (Panic m, w3)
                   | (Ok _, w3) \<Rightarrow> set_last_block p latest 3600 w3)
                else if latest > prev then
                  (case process_blocks p [prev + 1..latest] w2 of
                     (Panic m, w3) \<Rightarrow> (Panic m, w3)
                   | (_, w3) \<Rightarrow> set_last_block p latest 60 w3)
                else (Ok (), w2))))"

section \<open>Scheduling\<close>

text \<open>\<open>enqueueEVMJob\<close>: the job is pushed on the list the queue's workers pop from.\<close>

definition enqueueEVMJob :: "'w redis \<Rightarrow> ('w \<Rightarrow> int \<times> 'w) \<Rightarrow> string \<Rightarrow> 'w \<Rightarrow> unit res \<times> 'w" where
  "enqueueEVMJob cl now queueName w =
     (case now w of (t, w1) \<Rightarrow>
      case rdo cl (CLPush queueName
             (Enc (JObj [(''timestamp'', JNum (of_int t)), (''type'', JStr ''block_processing'')]))) w1 of
        (RErr e, w2) \<Rightarrow> (Err e, w2)
      | (_, w2) \<Rightarrow> (Ok (), w2))"

end
