(* ===== verification/EvmWorker.thy ===== *)
theory EvmWorker
  imports EvmProcessor Documents Registration
begin

text \<open>
  \<open>internal/worker/evm/worker.go\<close>: once a minute the worker looks up the chains that have pending buy
  orders, stops the chain workers that are no longer needed and starts those that are missing. A
  chain worker is a goroutine that registers the chain's job handler, starts the workers of its
  queue and enqueues a job at every tick until its context is cancelled. \<open>stopChainWorker\<close> waits at
  most 30 seconds for the goroutine, so here the goroutine may end at any time after it was
  cancelled. The loops over the map of active chains run in the order of the list that models it.
\<close>

definition ORDER_FLOW_BUY :: string where
  "ORDER_FLOW_BUY = ''BUY''"

record 'w evm_worker =
  ew_http :: "'w http_client"
  ew_key :: string
  ew_text :: "blob \<Rightarrow> string"
  ew_sleep :: "int \<Rightarrow> 'w \<Rightarrow> 'w"
  ew_mongo :: "'w mongo"
  ew_cache :: "'w cache_ops"
  ew_queue :: "'w queue_env"
  ew_oor :: "f64 \<Rightarrow> int"
  ew_concurrency :: int

text \<open>A started chain: the goroutine (its context and wait group) and the counters.\<close>

record evm_chain_worker =
  cw_chainSymbol :: string
  cw_task :: nat
  cw_startTime :: int
  cw_requestCount :: int
  cw_errorCount :: int

record chain_task =
  ct_id :: nat
  ct_symbol :: string
  ct_cancelled :: bool
  ct_running :: bool

record 'w evm_state =
  es_active :: "(string \<times> evm_chain_worker) list"
  es_tasks :: "chain_task list"
  es_next :: nat
  es_qm :: "'w queue_manager"

section \<open>Chains with pending orders\<close>

definition pending_chains_pipeline :: "mstage list" where
  "pending_chains_pipeline =
     [SMatch (FAll [FEq ''flow'' (BStr ORDER_FLOW_BUY), FEq ''status'' (BStr ORDER_STATUS_PENDING)]),
      SLookup ''chains'' ''buyChain'' ''_id'' ''chain'',
      SUnwind ''chain'',
      SGroupCount [''chain'', ''symbol'']]"

definition dec_chain_count :: "bdoc \<Rightarrow> (string \<times> int) option" where
  "dec_chain_count d = do { s \<leftarrow> get_str d ''_id''; n \<leftarrow> get_int d ''count''; Some (s, n) }"

definition getChainsWithPendingOrders :: "'w mongo \<Rightarrow> 'w \<Rightarrow> string list res \<times> 'w" where
  "getChainsWithPendingOrders mg w =
     (case mdo mg (MAggregate ''orders'' pending_chains_pipeline) w of
        (MErr e, w1) \<Rightarrow> (Err (EWrap ''failed to aggregate pending orders by chain: '' e), w1)
      | (MNum _, w1) \<Rightarrow> (Err (EMsg ''unexpected reply''), w1)
      | (MDocs ds, w1) \<Rightarrow>
          (case those (map dec_chain_count ds) of
             None \<Rightarrow> (Err (EWrap ''failed to decode aggregation results: ''
                              (EMsg ''error decoding document'')), w1)
           | Some rs \<Rightarrow>
               (Ok (filter (\<lambda>c. map_of SupportedChains c \<noteq> None) (map (to_lower \<circ> fst) rs)), w1)))"

section \<open>Starting and stopping\<close>

definition chainsMatchCurrentState :: "string list \<Rightarrow> (string \<times> evm_chain_worker) list \<Rightarrow> bool" where
  "chainsMatchCurrentState requiredChains active \<longleftrightarrow>
     length requiredChains = length active \<and> list_all (\<lambda>(c, _). c \<in> set requiredChains) active"

definition active_key :: "string \<Rightarrow> string" where
  "active_key chainSymbol = ''evm:chain:'' @ chainSymbol @ '':active''"

definition chain_queue :: "string \<Rightarrow> string" where
  "chain_queue chainSymbol = QueueEVMBlockMonitor @ '':'' @ chainSymbol"

text \<open>\<open>NewAnkrClient\<close> and \<open>NewChainProcessor\<close> with the worker's dependencies.\<close>

definition chain_processor :: "'w evm_worker \<Rightarrow> string \<Rightarrow> ankr_chain \<Rightarrow> 'w evm_proc" where
  "chain_processor wk chainSymbol cfg =
     \<lparr>ep_client = \<lparr>ak_http = ew_http wk, ak_url = ac_RpcURL cfg, ak_key = ew_key wk,
                   ak_text = ew_text wk, ak_sleep = ew_sleep wk\<rparr>,
      ep_mongo = ew_mongo wk, ep_cache = ew_cache wk, ep_now = qe_clock (ew_queue wk),
      ep_oor = ew_oor wk, ep_symbol = chainSymbol\<rparr>"

definition on_net :: "('w \<Rightarrow> 'a \<times> 'w) \<Rightarrow> 'w evm_state \<Rightarrow> 'a \<times> 'w evm_state" where
  "on_net f st =
     (case f (qm_net (es_qm st)) of (a, w) \<Rightarrow> (a, st\<lparr>es_qm := (es_qm st)\<lparr>qm_net := w\<rparr>\<rparr>))"

definition startChainWorker ::
  "'w evm_worker \<Rightarrow> string \<Rightarrow> 'w evm_state \<Rightarrow> evm_chain_worker option \<times> 'w evm_state" where
  "startChainWorker wk symbol st =
     (let chainSymbol = to_lower symbol in
      case map_of SupportedChains chainSymbol of
        None \<Rightarrow> (None, st)
      | Some cfg \<Rightarrow>
          (case on_net (cm_set (ew_cache wk) (active_key chainSymbol) (VBool True) 60) st of (_, st1) \<Rightarrow>
           case on_net (qe_clock (ew_queue wk)) st1 of (t, st2) \<Rightarrow>
             (Some \<lparr>cw_chainSymbol = chainSymbol, cw_task = es_next st2, cw_startTime = t,
                    cw_requestCount = 0, cw_errorCount = 0\<rparr>,
              st2\<lparr>es_tasks := es_tasks st2 @ [\<lparr>ct_id = es_next st2, ct_symbol = chainSymbol,
                                    ct_cancelled = False, ct_running = False\<rparr>],
                  es_next := Suc (es_next st2)\<rparr>)))"

definition stopChainWorker :: "evm_chain_worker \<Rightarrow> 'w evm_state \<Rightarrow> 'w evm_state" where
  "stopChainWorker cw st =
     st\<lparr>es_tasks := map (\<lambda>t. if ct_id t = cw_task cw then t\<lparr>ct_cancelled := True\<rparr> else t) (es_tasks st)\<rparr>"

text \<open>The two loops: stop and remove what is active but not required, start what is missing.\<close>

definition stop_step :: "string list \<Rightarrow> string \<times> evm_chain_worker \<Rightarrow> 'w evm_state \<Rightarrow> 'w evm_state" where
  "stop_step required p s =
     (case p of (c, cw) \<Rightarrow> if c \<in> set required then s
        else (stopChainWorker cw s)\<lparr>es_active := AList.delete c (es_active s)\<rparr>)"

definition stop_unneeded :: "string list \<Rightarrow> 'w evm_state \<Rightarrow> 'w evm_state" where
  "stop_unneeded required st = fold (stop_step required) (es_active st) st"

definition start_step :: "'w evm_worker \<Rightarrow> string \<Rightarrow> 'w evm_state \<Rightarrow> 'w evm_state" where
  "start_step wk c s =
     (if map_of (es_active s) c \<noteq> None then s
      else case startChainWorker wk c s of
             (None, s1) \<Rightarrow> s1
           | (Some cw, s1) \<Rightarrow> s1\<lparr>es_active := AList.update c cw (es_active s1)\<rparr>)"

definition start_missing :: "'w evm_worker \<Rightarrow> string list \<Rightarrow> 'w evm_state \<Rightarrow> 'w evm_state" where
  "start_missing wk required st = fold (start_step wk) required st"

definition manageChainsBasedOnOrders :: "'w evm_worker \<Rightarrow> string list \<Rightarrow> 'w evm_state \<Rightarrow> 'w evm_state" where
  "manageChainsBasedOnOrders wk chainsWithOrders st =
     (if chainsMatchCurrentState chainsWithOrders (es_active st) then st
      else start_missing wk chainsWithOrders (stop_unneeded chainsWithOrders st))"

definition checkPendingOrdersAndManageChains :: "'w evm_worker \<Rightarrow> 'w evm_state \<Rightarrow> 'w evm_state" where
  "checkPendingOrdersAndManageChains wk st =
     (case on_net (getChainsWithPendingOrders (ew_mongo wk)) st of
        (Ok cs, st1) \<Rightarrow> manageChainsBasedOnOrders wk cs st1
      | (_, st1) \<Rightarrow> st1)"

definition stopAllChains :: "'w evm_state \<Rightarrow> 'w evm_state" where
  "stopAllChains st = (fold (\<lambda>(c, cw). stopChainWorker cw) (es_active st) st)\<lparr>es_active := []\<rparr>"

section \<open>The goroutine of a chain\<close>

definition chain_handler :: "'w evm_worker \<Rightarrow> string \<Rightarrow> 'w job_handler" where
  "chain_handler wk chainSymbol =
     (case map_of SupportedChains chainSymbol of
        Some cfg \<Rightarrow> (\<lambda>_. ProcessChain (chain_processor wk chainSymbol cfg))
      | None \<Rightarrow> (\<lambda>_ w. (Ok (), w)))"

definition find_task :: "nat \<Rightarrow> 'w evm_state \<Rightarrow> chain_task option" where
  "find_task i st = find (\<lambda>t. ct_id t = i) (es_tasks st)"

definition run_chain :: "'w evm_worker \<Rightarrow> chain_task \<Rightarrow> 'w evm_state \<Rightarrow> 'w evm_state" where
  "run_chain wk t st =
     st\<lparr>es_qm := ProcessJobs (chain_queue (ct_symbol t)) (ew_concurrency wk)
          (RegisterHandler (chain_queue (ct_symbol t)) (chain_handler wk (ct_symbol t)) (es_qm st)),
        es_tasks := map (\<lambda>u. if ct_id u = ct_id t then u\<lparr>ct_running := True\<rparr> else u) (es_tasks st)\<rparr>"

text \<open>A tick of \<open>startScheduler\<close>; with a cancelled context the command is not sent.\<close>

definition chain_tick :: "'w evm_worker \<Rightarrow> chain_task \<Rightarrow> 'w evm_state \<Rightarrow> 'w evm_state" where
  "chain_tick wk t st =
     (if ct_cancelled t then st
      else snd (on_net (enqueueEVMJob (qe_redis (ew_queue wk)) (\<lambda>w. apfst unix_of (qe_clock (ew_queue wk) w))
                         (chain_queue (ct_symbol t))) st))"

definition end_chain :: "'w evm_worker \<Rightarrow> chain_task \<Rightarrow> 'w evm_state \<Rightarrow> 'w evm_state" where
  "end_chain wk t st =
     (snd (on_net (cm_del (ew_cache wk) (active_key (ct_symbol t))) st))
       \<lparr>es_tasks := filter (\<lambda>u. ct_id u \<noteq> ct_id t) (es_tasks st)\<rparr>"

text \<open>
  The operations of the running program: a check, the steps of the goroutine with the given number,
  a job taken from a chain's queue, the shutdown.
\<close>

datatype evm_op = OCheck | ORun nat | OTick nat | OEnd nat | OJob string | OStopAll

fun evm_step :: "'w evm_worker \<Rightarrow> evm_op \<Rightarrow> 'w evm_state \<Rightarrow> 'w evm_state" where
  "evm_step wk OCheck st = checkPendingOrdersAndManageChains wk st"
| "evm_step wk (ORun i) st = (case find_task i st of Some t \<Rightarrow> run_chain wk t st | None \<Rightarrow> st)"
| "evm_step wk (OTick i) st = (case find_task i st of Some t \<Rightarrow> chain_tick wk t st | None \<Rightarrow> st)"
| "evm_step wk (OEnd i) st = (case find_task i st of Some t \<Rightarrow> end_chain wk t st | None \<Rightarrow> st)"
| "evm_step wk (OJob q) st = st\<lparr>es_qm := snd (worker_step (ew_queue wk) q (es_qm st))\<rparr>"
| "evm_step wk OStopAll st = stopAllChains st"

fun evm_pre :: "evm_op \<Rightarrow> 'w evm_state \<Rightarrow> bool" where
  "evm_pre (ORun i) st \<longleftrightarrow> (\<exists>t. find_task i st = Some t \<and> \<not> ct_running t)"
| "evm_pre (OTick i) st \<longleftrightarrow> (\<exists>t. find_task i st = Some t \<and> ct_running t)"
| "evm_pre (OEnd i) st \<longleftrightarrow> (\<exists>t. find_task i st = Some t \<and> ct_running t \<and> ct_cancelled t)"
| "evm_pre (OJob q) st \<longleftrightarrow> (\<exists>n. (q, n) \<in> set (qm_workers (es_qm st)))"
| "evm_pre _ _ \<longleftrightarrow> True"

text \<open>\<open>New\<close>, over a queue manager without handlers.\<close>

definition new_evm_state :: "'w \<Rightarrow> 'w evm_state" where
  "new_evm_state w = \<lparr>es_active = [], es_tasks = [], es_next = 0,
     es_qm = \<lparr>qm_net = w, qm_handlers = Map.empty, qm_workers = []\<rparr>\<rparr>"

section \<open>Status\<close>

definition getSupportedChainsList :: "string list" where
  "getSupportedChainsList = map fst SupportedChains"

definition getActiveChainsList :: "'w evm_state \<Rightarrow> string list" where
  "getActiveChainsList st = map fst (es_active st)"

definition IsChainActive :: "string \<Rightarrow> 'w evm_state \<Rightarrow> bool" where
  "IsChainActive chainSymbol st \<longleftrightarrow> map_of (es_active st) chainSymbol \<noteq> None"

definition GetActiveChainCount :: "'w evm_state \<Rightarrow> nat" where
  "GetActiveChainCount st = length (es_active st)"

definition evm_GetStatus :: "string \<Rightarrow> 'w evm_state \<Rightarrow> gval" where
  "evm_GetStatus lastCheck st = VMap
     [(''active'', VBool True), (''totalChains'', VInt (int (length (es_active st)))),
      (''activeChains'', VList (map VStr (getActiveChainsList st))),
      (''supportedChains'', VList (map VStr getSupportedChainsList)), (''lastCheck'', VStr lastCheck),
      (''chainCacheStatus'', VMap (map (\<lambda>(c, _). (c, VBool True)) (es_active st)))]"

definition error_rate :: "int \<Rightarrow> int \<Rightarrow> f64" where
  "error_rate errors requests =
     (if requests > 0
      then (case (f64_of_int errors, f64_of_int requests) of
              (Fin e, Fin r) \<Rightarrow> f64_mul (f64_of_rat (e / r)) (Fin 100)
            | _ \<Rightarrow> Fin 0)
      else Fin 0)"

text \<open>\<open>uptime\<close> is the text of the time since a start.\<close>

definition GetResourceUsage :: "'w evm_worker \<Rightarrow> (int \<Rightarrow> string) \<Rightarrow> string \<Rightarrow> 'w evm_state \<Rightarrow> gval" where
  "GetResourceUsage wk uptime lastCheck st =
     (let per = ew_concurrency wk + 3; cws = es_active st;
          reqs = (\<Sum>(_, cw) \<leftarrow> cws. cw_requestCount cw); errs = (\<Sum>(_, cw) \<leftarrow> cws. cw_errorCount cw)
      in VMap
        [(''summary'', VMap
           [(''totalChains'', VInt (int (length cws))),
            (''estimatedGoroutines'', VInt (per * int (length cws))),
            (''totalRequests'', VInt64 reqs), (''totalErrors'', VInt64 errs),
            (''overallErrorRate'', VFloat (error_rate errs reqs))]),
         (''chains'', VMap (map (\<lambda>(c, cw). (c, VMap
           [(''uptime'', VStr (uptime (cw_startTime cw))), (''estimatedGoroutines'', VInt per),
            (''requestCount'', VInt64 (cw_requestCount cw)), (''errorCount'', VInt64 (cw_errorCount cw)),
            (''errorRate'', VFloat (error_rate (cw_errorCount cw) (cw_requestCount cw)))])) cws)),
         (''lastCheck'', VStr lastCheck)])"

definition getTargetChains :: "string \<Rightarrow> string list" where
  "getTargetChains singleChainFlag = (if singleChainFlag \<noteq> [] then [singleChainFlag] else [])"

end
