(* ===== verification/EvmPending.thy ===== *)
theory EvmPending
  imports EvmWorker
begin

text \<open>
  The aggregation of the EVM worker (\<open>getChainsWithPendingOrders\<close>) against its meaning: the supported
  chains of the pending buy orders.
\<close>

text \<open>The supported chains of the pending buy orders of a database.\<close>

definition pending_chains :: "mstore \<Rightarrow> string set" where
  "pending_chains m = {c. map_of SupportedChains c \<noteq> None \<and>
     (\<exists>d \<in> set (m ''orders''). BStr ''BUY'' \<in> set (field_vals (map_of d) ''flow'')
        \<and> BStr ''PENDING'' \<in> set (field_vals (map_of d) ''status'')
        \<and> (\<exists>e \<in> set (m ''chains''). joined ''buyChain'' ''_id'' d e
             \<and> (\<exists>s. map_of e ''symbol'' = Some (BStr s) \<and> to_lower s = c)))}"

definition symbols_ok :: "mstore \<Rightarrow> bool" where
  "symbols_ok m \<longleftrightarrow> (\<forall>e \<in> set (m ''chains''). \<exists>s. map_of e ''symbol'' = Some (BStr s))"

lemma unwound_key:
  "map_of e ''symbol'' = Some (BStr s)
    \<Longrightarrow> group_key [''chain'', ''symbol''] (AList.update ''chain'' (BDoc e) d) = BStr s"
  by (simp add: group_key_def path_vals_def update_conv')

lemma dec_count: "dec_chain_count [(''_id'', BStr s), (''count'', BInt n)] = Some (s, n)"
  by (simp add: dec_chain_count_def get_str_def get_int_def str_of_def int_val_of_def)

lemma those_map_all: "(\<And>x. x \<in> set xs \<Longrightarrow> f x = Some (g x)) \<Longrightarrow> those (map f xs) = Some (map g xs)"
  by (induction xs) auto

definition str_val :: "bval \<Rightarrow> string" where
  "str_val v = (case v of BStr s \<Rightarrow> s | _ \<Rightarrow> [])"

lemma get_chains_reply:
  assumes "mdo mg (MAggregate ''orders'' pending_chains_pipeline) w
      = (MDocs (map (\<lambda>v. [(''_id'', v), (''count'', BInt (cnt v))]) ks), w1)"
    "\<And>v. v \<in> set ks \<Longrightarrow> \<exists>s. v = BStr s"
  shows "getChainsWithPendingOrders mg w
    = (Ok (filter (\<lambda>c. map_of SupportedChains c \<noteq> None) (map (to_lower \<circ> str_val) ks)), w1)"
proof -
  have "those (map dec_chain_count (map (\<lambda>v. [(''_id'', v), (''count'', BInt (cnt v))]) ks))
      = Some (map (\<lambda>v. (str_val v, cnt v)) ks)"
    unfolding map_map o_def
    by (rule those_map_all) (use assms(2) dec_count in \<open>force simp: str_val_def\<close>)
  with assms(1) show ?thesis by (simp add: getChainsWithPendingOrders_def o_def)
qed

lemma getChains_ok:
  assumes "mongo_ok re mg view" "symbols_ok (view w)"
  obtains cs w1 where "getChainsWithPendingOrders mg w = (Ok cs, w1)" "set cs = pending_chains (view w)"
    "view w1 = view w"
proof -
  obtain r w1 where r: "mdo mg (MAggregate ''orders'' pending_chains_pipeline) w = (r, w1)" by (metis surj_pair)
  let ?m = "view w" and ?key = "group_key [''chain'', ''symbol'']"
  define ds where "ds = filter (\<lambda>d. BStr ''BUY'' \<in> set (field_vals (map_of d) ''flow'')
        \<and> BStr ''PENDING'' \<in> set (field_vals (map_of d) ''status'')) (?m ''orders'')"
  define es where "es = (\<lambda>d. filter (joined ''buyChain'' ''_id'' d) (?m ''chains''))"
  let ?w = "\<lambda>d e. AList.update ''chain'' (BDoc e) (AList.update ''chain'' (BArr (map BDoc (es d))) d)"
  define us where "us = concat (map (\<lambda>d. map (?w d) (es d)) ds)"
  define ks where "ks = remdups (map ?key us)"
  define cnt where "cnt = (\<lambda>v. int (length (filter (\<lambda>d. ?key d = v) us)))"
  have agg: "fold (run_stage re ?m) pending_chains_pipeline (?m ''orders'')
      = map (\<lambda>v. [(''_id'', v), (''count'', BInt (cnt v))]) ks"
    by (simp add: pending_chains_pipeline_def ORDER_FLOW_BUY_def ORDER_STATUS_PENDING_def update_conv' o_def
        ks_def us_def es_def ds_def cnt_def del: remdups_map_remdups)
  have us: "u \<in> set us \<longleftrightarrow> (\<exists>d \<in> set ds. \<exists>e \<in> set (es d). u = ?w d e)" for u
    by (auto simp: us_def)
  have sym: "\<exists>s. map_of e ''symbol'' = Some (BStr s)" if "e \<in> set (es d)" for d e
    using that assms(2) by (auto simp: es_def symbols_ok_def)
  have key: "v = ?key (?w d e) \<longleftrightarrow> (\<exists>s. v = BStr s \<and> map_of e ''symbol'' = Some (BStr s))" if e: "e \<in> set (es d)" for v d e
  proof -
    from sym [OF e] obtain s where s: "map_of e ''symbol'' = Some (BStr s)" ..
    show ?thesis unfolding unwound_key [OF s] s by simp
  qed
  have kset: "v \<in> set ks \<longleftrightarrow> (\<exists>d \<in> set ds. \<exists>e \<in> set (es d). v = ?key (?w d e))" for v
    unfolding ks_def set_remdups set_map image_iff Bex_def us by blast
  have ks: "BStr s \<in> set ks \<longleftrightarrow> (\<exists>d \<in> set ds. \<exists>e \<in> set (es d). map_of e ''symbol'' = Some (BStr s))" for s
    unfolding kset by (intro bex_cong refl) (simp only: key bval.inject simp_thms ex_simps)
  have strs: "\<exists>s. v = BStr s" if v: "v \<in> set ks" for v
    using v key unfolding kset by blast
  from mongo_okD [OF assms(1) r]
  have rr: "MDocs (map (\<lambda>v. [(''_id'', v), (''count'', BInt (cnt v))]) ks) = r \<and> ?m = view w1"
    unfolding mongo_spec.simps agg prod.inject .
  note get = get_chains_reply [OF r [folded conjunct1 [OF rr]] strs]
  have img: "c \<in> set (map (to_lower \<circ> str_val) ks) \<longleftrightarrow> (\<exists>s. BStr s \<in> set ks \<and> to_lower s = c)" for c
  proof
    assume "c \<in> set (map (to_lower \<circ> str_val) ks)"
    then obtain v where v: "v \<in> set ks" "c = to_lower (str_val v)" by auto
    from strs [OF v(1)] obtain s where "v = BStr s" ..
    with v show "\<exists>s. BStr s \<in> set ks \<and> to_lower s = c" by (auto simp: str_val_def)
  next
    assume "\<exists>s. BStr s \<in> set ks \<and> to_lower s = c"
    then obtain s where s: "BStr s \<in> set ks" "to_lower s = c" by blast
    from imageI [OF s(1), of "to_lower \<circ> str_val"] s(2) show "c \<in> set (map (to_lower \<circ> str_val) ks)"
      by (simp add: str_val_def)
  qed
  have "set (filter (\<lambda>c. map_of SupportedChains c \<noteq> None) (map (to_lower \<circ> str_val) ks)) = pending_chains ?m"
  proof (rule set_eqI)
    fix c
    show "c \<in> set (filter (\<lambda>c. map_of SupportedChains c \<noteq> None) (map (to_lower \<circ> str_val) ks))
        \<longleftrightarrow> c \<in> pending_chains ?m"
      unfolding set_filter mem_Collect_eq img ks pending_chains_def ds_def es_def by blast
  qed
  from that [OF get this conjunct2 [OF rr, symmetric]] show ?thesis .
qed

end
