(* ===== verification/EvmChains.thy ===== *)
theory EvmChains
  imports EvmPending
begin

text \<open>
  What the EVM worker guarantees: in every state of the running program the active chains and the
  goroutines that are not cancelled are paired, a check leaves exactly the chains with pending buy
  orders active, and a job that the goroutine of a chain enqueues makes the chain's deposits be
  processed.
\<close>

section \<open>The invariant\<close>

definition live_tasks :: "'w evm_state \<Rightarrow> chain_task list" where
  "live_tasks st = filter (\<lambda>t. \<not> ct_cancelled t) (es_tasks st)"

definition task_pairs :: "'w evm_state \<Rightarrow> (nat \<times> string) list" where
  "task_pairs st = map (\<lambda>t. (ct_id t, ct_symbol t)) (live_tasks st)"

definition active_pairs :: "'w evm_state \<Rightarrow> (nat \<times> string) list" where
  "active_pairs st = map (\<lambda>(c, cw). (cw_task cw, c)) (es_active st)"

text \<open>The queue of a chain has the chain's handler and, if there are to be any, its workers.\<close>

definition served :: "'w evm_worker \<Rightarrow> 'w queue_manager \<Rightarrow> string \<Rightarrow> bool" where
  "served wk qm c \<longleftrightarrow> qm_handlers qm (chain_queue c) = Some (chain_handler wk c)
     \<and> (ew_concurrency wk > 0 \<longrightarrow> (\<exists>n. (chain_queue c, n) \<in> set (qm_workers qm)))"

definition evm_inv :: "'w evm_worker \<Rightarrow> 'w evm_state \<Rightarrow> bool" where
  "evm_inv wk st \<longleftrightarrow>
     distinct (map fst (es_active st)) \<and> distinct (map ct_id (es_tasks st))
   \<and> active_pairs st = task_pairs st
   \<and> (\<forall>c \<in> fst ` set (es_active st). map_of SupportedChains c \<noteq> None)
   \<and> (\<forall>t \<in> set (es_tasks st). ct_id t < es_next st
        \<and> (ct_running t \<longrightarrow> served wk (es_qm st) (ct_symbol t)))"

lemma chain_queue_inject [simp]: "chain_queue a = chain_queue b \<longleftrightarrow> a = b"
  by (simp add: chain_queue_def)

lemma served_run: "served wk (es_qm (run_chain wk t st)) (ct_symbol t)"
  by (auto simp: served_def run_chain_def ProcessJobs_def RegisterHandler_def intro!: exI [of _ 0])

lemma served_mono: "served wk (es_qm st) c \<Longrightarrow> served wk (es_qm (run_chain wk t st)) c"
  by (auto simp: served_def run_chain_def ProcessJobs_def RegisterHandler_def)

lemma served_net [simp]: "served wk (qm\<lparr>qm_net := w\<rparr>) c = served wk qm c"
  by (simp add: served_def)

lemma on_net_snd: "snd (on_net f st) = st\<lparr>es_qm := (es_qm st)\<lparr>qm_net := snd (f (qm_net (es_qm st)))\<rparr>\<rparr>"
  by (simp add: on_net_def split: prod.split)

lemma on_netE:
  assumes "on_net f st = (a, st')"
  obtains w where "st' = st\<lparr>es_qm := (es_qm st)\<lparr>qm_net := w\<rparr>\<rparr>" "f (qm_net (es_qm st)) = (a, w)"
  using assms by (auto simp: on_net_def split: prod.splits)

text \<open>The world is no part of the invariant.\<close>

lemma pairs_net [simp]:
  "active_pairs (st\<lparr>es_qm := q\<rparr>) = active_pairs st" "task_pairs (st\<lparr>es_qm := q\<rparr>) = task_pairs st"
  "live_tasks (st\<lparr>es_qm := q\<rparr>) = live_tasks st"
  by (simp_all add: active_pairs_def task_pairs_def live_tasks_def)

lemma evm_inv_net [simp]: "evm_inv wk (st\<lparr>es_qm := (es_qm st)\<lparr>qm_net := w\<rparr>\<rparr>) = evm_inv wk st"
  by (simp add: evm_inv_def)

lemma evm_inv_init: "evm_inv wk (new_evm_state w)"
  by (simp add: evm_inv_def new_evm_state_def active_pairs_def task_pairs_def live_tasks_def)

section \<open>Stopping\<close>

lemma filter_pairs:
  assumes "distinct (map fst ps)" "distinct (map snd ps)" "(i, c) \<in> set ps"
  shows "filter (\<lambda>p. fst p \<noteq> i) ps = filter (\<lambda>p. snd p \<noteq> c) ps"
proof (rule filter_cong [OF refl])
  fix p assume "p \<in> set ps"
  with assms show "(fst p \<noteq> i) = (snd p \<noteq> c)" by (metis eq_key_imp_eq_value map_of_is_SomeI
        prod.collapse distinct_map inj_on_def snd_conv fst_conv)
qed

lemma live_cancel:
  "map (\<lambda>t. (ct_id t, ct_symbol t))
     (filter (\<lambda>t. \<not> ct_cancelled t) (map (\<lambda>t. if ct_id t = i then t\<lparr>ct_cancelled := True\<rparr> else t) ts))
   = filter (\<lambda>p. fst p \<noteq> i) (map (\<lambda>t. (ct_id t, ct_symbol t)) (filter (\<lambda>t. \<not> ct_cancelled t) ts))"
  by (induction ts) auto

lemma task_pairs_stop: "task_pairs (stopChainWorker cw st) = filter (\<lambda>p. fst p \<noteq> cw_task cw) (task_pairs st)"
  by (simp add: task_pairs_def live_tasks_def stopChainWorker_def live_cancel)

lemma stop_one:
  assumes "evm_inv wk st" "(c, cw) \<in> set (es_active st)"
  shows "evm_inv wk ((stopChainWorker cw st)\<lparr>es_active := AList.delete c (es_active st)\<rparr>)"
proof -
  have a: "distinct (map fst (es_active st))" "distinct (map ct_id (es_tasks st))"
    "active_pairs st = task_pairs st" using assms(1) by (auto simp: evm_inv_def)
  have d: "distinct (map snd (active_pairs st))" using a(1) by (simp add: active_pairs_def comp_def case_prod_unfold)
  have "distinct (map fst (task_pairs st))"
    using a(2) by (simp add: task_pairs_def live_tasks_def comp_def distinct_map_filter)
  moreover have "(cw_task cw, c) \<in> set (active_pairs st)" using assms(2) by (force simp: active_pairs_def)
  ultimately have f: "filter (\<lambda>p. fst p \<noteq> cw_task cw) (task_pairs st) = filter (\<lambda>p. snd p \<noteq> c) (active_pairs st)"
    using filter_pairs [of "active_pairs st" "cw_task cw" c] d a(3) by simp
  have "map (\<lambda>(c, cw). (cw_task cw, c)) (AList.delete c (es_active st)) = filter (\<lambda>p. snd p \<noteq> c) (active_pairs st)"
    by (simp add: active_pairs_def AList.delete_eq filter_map comp_def case_prod_unfold eq_commute [of c])
  with f have "active_pairs ((stopChainWorker cw st)\<lparr>es_active := AList.delete c (es_active st)\<rparr>)
      = task_pairs (stopChainWorker cw st)"
    by (simp add: task_pairs_stop active_pairs_def)
  then have pairs: "active_pairs ((stopChainWorker cw st)\<lparr>es_active := AList.delete c (es_active st)\<rparr>)
      = task_pairs ((stopChainWorker cw st)\<lparr>es_active := AList.delete c (es_active st)\<rparr>)"
    by (simp add: task_pairs_def live_tasks_def)
  have ids: "map ct_id (es_tasks (stopChainWorker cw st)) = map ct_id (es_tasks st)"
    by (simp add: stopChainWorker_def)
  have tasks: "ct_id t < es_next st \<and> (ct_running t \<longrightarrow> served wk (es_qm st) (ct_symbol t))"
    if "t \<in> set (es_tasks (stopChainWorker cw st))" for t
    using that assms(1) unfolding evm_inv_def by (auto simp: stopChainWorker_def)
  have keys: "distinct (map fst (AList.delete c (es_active st)))"
    "fst ` set (AList.delete c (es_active st)) \<subseteq> fst ` set (es_active st)"
    using a(1) by (simp_all add: AList.distinct_delete) (auto simp: AList.delete_eq)
  have sup: "map_of SupportedChains k \<noteq> None" if "k \<in> fst ` set (AList.delete c (es_active st))" for k
    using that keys(2) assms(1) unfolding evm_inv_def by blast
  have sel: "es_active (s\<lparr>es_active := x\<rparr>) = x" "es_tasks (s\<lparr>es_active := x\<rparr>) = es_tasks s"
    "es_next (s\<lparr>es_active := x\<rparr>) = es_next s" "es_qm (s\<lparr>es_active := x\<rparr>) = es_qm s"
    "es_next (stopChainWorker cw s) = es_next s" "es_qm (stopChainWorker cw s) = es_qm s" for s :: "'a evm_state" and x
    by (simp_all add: stopChainWorker_def)
  show ?thesis
    unfolding evm_inv_def pairs sel ids using keys(1) a(2) sup tasks by blast
qed

text \<open>The loop over the active chains leaves the required ones, with their workers.\<close>

lemma stop_fold:
  assumes "evm_inv wk st" "distinct (map fst xs)" "set xs \<subseteq> set (es_active st)"
  shows "evm_inv wk (fold (stop_step req) xs st) \<and> es_qm (fold (stop_step req) xs st) = es_qm st
    \<and> es_active (fold (stop_step req) xs st)
        = filter (\<lambda>p. fst p \<in> set req \<or> fst p \<notin> fst ` set xs) (es_active st)"
  using assms
proof (induction xs arbitrary: st)
  case Nil
  then show ?case by simp
next
  case (Cons x xs)
  obtain c cw where x: "x = (c, cw)" by (cases x)
  show ?case
  proof (cases "c \<in> set req")
    case True
    have "filter (\<lambda>p. fst p \<in> set req \<or> fst p \<notin> fst ` set xs) (es_active st)
        = filter (\<lambda>p. fst p \<in> set req \<or> fst p \<notin> fst ` set (x # xs)) (es_active st)"
      using True x by (intro filter_cong) auto
    with Cons.IH [OF Cons.prems(1)] Cons.prems True x show ?thesis by (simp add: stop_step_def)
  next
    case False
    let ?s = "(stopChainWorker cw st)\<lparr>es_active := AList.delete c (es_active st)\<rparr>"
    have s: "stop_step req x st = ?s" using False x by (simp add: stop_step_def)
    have i: "evm_inv wk ?s" using stop_one [OF Cons.prems(1)] Cons.prems(3) x by simp
    have "set xs \<subseteq> set (es_active ?s)"
      using Cons.prems(2,3) x by (auto simp: AList.delete_eq image_iff)
    note ih = Cons.IH [OF i _ this]
    have "filter (\<lambda>p. fst p \<in> set req \<or> fst p \<notin> fst ` set xs) (es_active ?s)
        = filter (\<lambda>p. fst p \<in> set req \<or> fst p \<notin> fst ` set (x # xs)) (es_active st)"
      using False x by (auto simp: AList.delete_eq case_prod_unfold intro!: filter_cong)
    with ih Cons.prems(2) s show ?thesis by (simp add: stopChainWorker_def)
  qed
qed

lemma stop_unneeded_ok:
  assumes "evm_inv wk st"
  shows "evm_inv wk (stop_unneeded req st)" "es_qm (stop_unneeded req st) = es_qm st"
    "es_active (stop_unneeded req st) = filter (\<lambda>p. fst p \<in> set req) (es_active st)"
proof -
  have "filter (\<lambda>p. fst p \<in> set req \<or> fst p \<notin> fst ` set (es_active st)) (es_active st)
      = filter (\<lambda>p. fst p \<in> set req) (es_active st)" by (intro filter_cong) auto
  moreover have "distinct (map fst (es_active st))" using assms by (simp add: evm_inv_def)
  ultimately show "evm_inv wk (stop_unneeded req st)" "es_qm (stop_unneeded req st) = es_qm st"
    "es_active (stop_unneeded req st) = filter (\<lambda>p. fst p \<in> set req) (es_active st)"
    using stop_fold [OF assms, of "es_active st" req] unfolding stop_unneeded_def by auto
qed

section \<open>Starting\<close>

lemma supported_lower: "map_of SupportedChains c \<noteq> None \<Longrightarrow> to_lower c = c"
  by (auto simp: SupportedChains_def to_lower_def lower_char_def split: if_splits)

lemma update_new: "k \<notin> fst ` set al \<Longrightarrow> AList.update k v al = al @ [(k, v)]"
  by (induction al) auto

lemma start_one:
  assumes "evm_inv wk st" "map_of (es_active st) c = None" "map_of SupportedChains c \<noteq> None"
  obtains cw s1 where "startChainWorker wk c st = (Some cw, s1)" "es_active s1 = es_active st"
    "evm_inv wk (s1\<lparr>es_active := AList.update c cw (es_active st)\<rparr>)"
proof -
  obtain cfg where cfg: "map_of SupportedChains c = Some cfg" using assms(3) by blast
  obtain r st1 where r: "on_net (cm_set (ew_cache wk) (active_key c) (VBool True) 60) st = (r, st1)" by (metis surj_pair)
  from on_netE [OF this] obtain w1 where st1: "st1 = st\<lparr>es_qm := (es_qm st)\<lparr>qm_net := w1\<rparr>\<rparr>" by metis
  obtain t st2 where t: "on_net (qe_clock (ew_queue wk)) st1 = (t, st2)" by (metis surj_pair)
  from on_netE [OF this] obtain w2 where "st2 = st1\<lparr>es_qm := (es_qm st1)\<lparr>qm_net := w2\<rparr>\<rparr>" by metis
  with st1 have st2: "st2 = st\<lparr>es_qm := (es_qm st)\<lparr>qm_net := w2\<rparr>\<rparr>" by simp
  let ?cw = "\<lparr>cw_chainSymbol = c, cw_task = es_next st, cw_startTime = t, cw_requestCount = 0, cw_errorCount = 0\<rparr>"
  let ?s = "st2\<lparr>es_tasks := es_tasks st @ [\<lparr>ct_id = es_next st, ct_symbol = c, ct_cancelled = False, ct_running = False\<rparr>],
      es_next := Suc (es_next st)\<rparr>"
  have s: "startChainWorker wk c st = (Some ?cw, ?s)"
    using supported_lower [OF assms(3)] cfg r t st2 by (simp add: startChainWorker_def)
  have "c \<notin> fst ` set (es_active st)" using assms(2) by (simp add: map_of_eq_None_iff)
  then have u: "AList.update c ?cw (es_active st) = es_active st @ [(c, ?cw)]"
    by (rule update_new)
  have "evm_inv wk (?s\<lparr>es_active := AList.update c ?cw (es_active st)\<rparr>)"
    using assms cfg \<open>c \<notin> fst ` set (es_active st)\<close> unfolding evm_inv_def u st2
    by (auto simp: active_pairs_def task_pairs_def live_tasks_def less_Suc_eq)
  with s st2 that show ?thesis by simp
qed

text \<open>The loop over the required chains adds the missing ones and keeps the rest.\<close>

lemma start_fold:
  assumes "evm_inv wk st" "\<forall>c \<in> set req. map_of SupportedChains c \<noteq> None"
  shows "evm_inv wk (start_missing wk req st)
    \<and> set (map fst (es_active (start_missing wk req st))) = set (map fst (es_active st)) \<union> set req
    \<and> set (es_active st) \<subseteq> set (es_active (start_missing wk req st))"
  using assms unfolding start_missing_def
proof (induction req arbitrary: st)
  case (Cons c cs)
  show ?case
  proof (cases "map_of (es_active st) c")
    case None
    from start_one [OF Cons.prems(1) None] Cons.prems(2) obtain cw s1
      where s: "startChainWorker wk c st = (Some cw, s1)" "es_active s1 = es_active st"
        "evm_inv wk (s1\<lparr>es_active := AList.update c cw (es_active st)\<rparr>)" by auto
    have "start_step wk c st = s1\<lparr>es_active := es_active st @ [(c, cw)]\<rparr>"
      using None s(1,2) update_new [of c "es_active st" cw] by (simp add: start_step_def map_of_eq_None_iff)
    with s(3) update_new [of c "es_active st" cw] None
    have "evm_inv wk (start_step wk c st)" "es_active (start_step wk c st) = es_active st @ [(c, cw)]"
      by (simp_all add: map_of_eq_None_iff)
    with Cons.IH [of "start_step wk c st"] Cons.prems(2) show ?thesis by auto
  next
    case (Some cw)
    then have "start_step wk c st = st" "c \<in> set (map fst (es_active st))"
      by (simp_all add: start_step_def) (force dest: map_of_SomeD)
    with Cons.IH [of st] Cons.prems show ?thesis by auto
  qed
qed simp

lemma manage_ok:
  assumes "evm_inv wk st" "\<forall>c \<in> set req. map_of SupportedChains c \<noteq> None"
  defines "st' \<equiv> manageChainsBasedOnOrders wk req st"
  shows "evm_inv wk st'" "set (map fst (es_active st')) = set req"
    "\<forall>(c, cw) \<in> set (es_active st). c \<in> set req \<longrightarrow> (c, cw) \<in> set (es_active st')"
proof -
  have "evm_inv wk st' \<and> set (map fst (es_active st')) = set req
    \<and> (\<forall>(c, cw) \<in> set (es_active st). c \<in> set req \<longrightarrow> (c, cw) \<in> set (es_active st'))"
  proof (cases "chainsMatchCurrentState req (es_active st)")
    case True
    then have len: "length req = length (es_active st)" and sub: "set (map fst (es_active st)) \<subseteq> set req"
      by (auto simp: chainsMatchCurrentState_def list_all_iff)
    have "distinct (map fst (es_active st))" using assms(1) by (simp add: evm_inv_def)
    then have "card (set (map fst (es_active st))) = length req" using len by (metis distinct_card length_map)
    with sub card_length [of req] have "set (map fst (es_active st)) = set req"
      by (metis List.finite_set card_seteq)
    with assms(1) True show ?thesis by (auto simp: st'_def manageChainsBasedOnOrders_def)
  next
    case False
    note s = stop_unneeded_ok [OF assms(1), of req]
    from start_fold [OF s(1) assms(2)] False s(3) show ?thesis
      unfolding st'_def manageChainsBasedOnOrders_def by auto
  qed
  then show "evm_inv wk st'" "set (map fst (es_active st')) = set req"
    "\<forall>(c, cw) \<in> set (es_active st). c \<in> set req \<longrightarrow> (c, cw) \<in> set (es_active st')" by blast+
qed

section \<open>Every operation keeps the invariant\<close>

lemma get_chains_supported:
  "getChainsWithPendingOrders mg w = (Ok cs, w') \<Longrightarrow> \<forall>c \<in> set cs. map_of SupportedChains c \<noteq> None"
  by (auto simp: getChainsWithPendingOrders_def split: prod.splits mreply.splits option.splits)

lemma check_inv:
  assumes "evm_inv wk st"
  shows "evm_inv wk (checkPendingOrdersAndManageChains wk st)"
proof -
  obtain r st1 where r: "on_net (getChainsWithPendingOrders (ew_mongo wk)) st = (r, st1)" by (metis surj_pair)
  from on_netE [OF r] obtain w where st1: "st1 = st\<lparr>es_qm := (es_qm st)\<lparr>qm_net := w\<rparr>\<rparr>"
    and g: "getChainsWithPendingOrders (ew_mongo wk) (qm_net (es_qm st)) = (r, w)" by metis
  have "evm_inv wk st1" using assms st1 by simp
  then show ?thesis
  proof (cases r)
    case (Ok cs)
    from manage_ok(1) [OF \<open>evm_inv wk st1\<close> get_chains_supported [OF g [unfolded Ok]]] r Ok show ?thesis by (simp add: checkPendingOrdersAndManageChains_def)
  qed (use r in \<open>simp_all add: checkPendingOrdersAndManageChains_def\<close>)
qed

lemma find_task_in:
  assumes "find_task i st = Some t"
  shows "t \<in> set (es_tasks st)" "ct_id t = i"
  using assms by (auto simp: find_task_def find_Some_iff)

lemma worker_step_keeps [simp]: "qm_handlers (snd (worker_step env q qm)) = qm_handlers qm"
  "qm_workers (snd (worker_step env q qm)) = qm_workers qm"
  by (auto simp: worker_step_def split: prod.split redis_reply.split option.split res.split)

lemma step_inv:
  assumes "evm_inv wk st" "evm_pre op st"
  shows "evm_inv wk (evm_step wk op st)"
proof (cases op)
  case OCheck
  with check_inv [OF assms(1)] show ?thesis by simp
next
  case (ORun i)
  with assms(2) obtain t where t: "find_task i st = Some t" by auto
  let ?ts = "map (\<lambda>u. if ct_id u = ct_id t then u\<lparr>ct_running := True\<rparr> else u) (es_tasks st)"
  have pairs: "task_pairs (run_chain wk t st) = task_pairs st"
    unfolding task_pairs_def live_tasks_def run_chain_def
    by (simp, induction "es_tasks st" arbitrary: st) (auto simp: filter_map comp_def)
  have ids: "distinct (map ct_id ?ts) = distinct (map ct_id (es_tasks st))"
    by (intro arg_cong [where f = distinct]) simp
  have same: "ct_symbol u = ct_symbol t" if "u \<in> set (es_tasks st)" "ct_id u = ct_id t" for u
    using that find_task_in [OF t] assms(1) by (auto simp: evm_inv_def distinct_map inj_on_def)
  have "served wk (es_qm (run_chain wk t st)) (ct_symbol u)" if "u \<in> set ?ts" "ct_running u" for u
  proof -
    from that(1) obtain x where x: "x \<in> set (es_tasks st)"
      "u = (if ct_id x = ct_id t then x\<lparr>ct_running := True\<rparr> else x)" by auto
    show ?thesis
    proof (cases "ct_id x = ct_id t")
      case True
      with x same [OF x(1) True] served_run [of wk t st] show ?thesis by simp
    next
      case False
      with x that(2) assms(1) served_mono [of wk st _ t] show ?thesis by (auto simp: evm_inv_def)
    qed
  qed
  moreover have "ct_id u < es_next st" if "u \<in> set ?ts" for u
    using that assms(1) by (auto simp: evm_inv_def)
  moreover have "es_tasks (run_chain wk t st) = ?ts" "es_next (run_chain wk t st) = es_next st"
    "es_active (run_chain wk t st) = es_active st" "active_pairs (run_chain wk t st) = active_pairs st"
    by (simp_all add: run_chain_def active_pairs_def)
  ultimately have "evm_inv wk (run_chain wk t st)"
    using assms(1) pairs ids unfolding evm_inv_def by simp
  with ORun t show ?thesis by simp
next
  case (OTick i)
  with assms show ?thesis by (auto simp: chain_tick_def on_net_snd)
next
  case (OEnd i)
  with assms(2) obtain t where t: "find_task i st = Some t" "ct_cancelled t" by auto
  have "\<not> ct_cancelled u \<longrightarrow> ct_id u \<noteq> ct_id t" if "u \<in> set (es_tasks st)" for u
    using that t find_task_in [OF t(1)] assms(1) by (auto simp: evm_inv_def distinct_map inj_on_def)
  then have "filter (\<lambda>t. \<not> ct_cancelled t) (filter (\<lambda>u. ct_id u \<noteq> ct_id t) (es_tasks st))
      = filter (\<lambda>t. \<not> ct_cancelled t) (es_tasks st)"
    unfolding filter_filter by (intro filter_cong) auto
  then have "task_pairs (end_chain wk t st) = task_pairs st"
    by (simp add: task_pairs_def live_tasks_def end_chain_def on_net_snd)
  then show ?thesis
    using OEnd t(1) assms(1) unfolding evm_inv_def
    by (auto simp: end_chain_def on_net_snd active_pairs_def distinct_map_filter)
next
  case (OJob q)
  with assms show ?thesis by (simp add: evm_inv_def served_def)
next
  case OStopAll
  have "\<exists>as. fold (stop_step []) xs st = (fold (\<lambda>(c, cw). stopChainWorker cw) xs st)\<lparr>es_active := as\<rparr>"
    for xs :: "(string \<times> evm_chain_worker) list" and st :: "'a evm_state"
  proof (induction xs rule: rev_induct)
    case Nil
    show ?case by (rule exI [of _ "es_active st"]) simp
  next
    case (snoc x xs)
    obtain c cw where x: "x = (c, cw)" by (cases x)
    have "stopChainWorker cw (s\<lparr>es_active := a\<rparr>) = (stopChainWorker cw s)\<lparr>es_active := a\<rparr>" for s :: "'a evm_state" and a
      by (simp add: stopChainWorker_def)
    with snoc x show ?case by (auto simp: stop_step_def)
  qed
  from this [of "es_active st" st] stop_unneeded_ok(3) [OF assms(1), of "[]"]
  have "stop_unneeded [] st = stopAllChains st" by (auto simp: stop_unneeded_def stopAllChains_def)
  with stop_unneeded_ok(1) [OF assms(1), of "[]"] OStopAll show ?thesis by simp
qed

interpretation evm_worker: inv_system "evm_step wk" evm_pre "evm_inv wk" for wk
  by unfold_locales (rule step_inv)

section \<open>Properties\<close>

text \<open>
  C20: In every state the running program can reach, a check leaves exactly the supported chains of
  the pending buy orders active, each once. Every active chain has its own goroutine that is not
  cancelled, no other goroutine goes on, and a chain that was active and still has orders keeps its
  worker: it is not restarted.
\<close>

theorem evm_chains_follow_orders:
  assumes "reach (evm_step wk) evm_pre (new_evm_state w0) st" "mongo_ok re (ew_mongo wk) view"
    "symbols_ok (view (qm_net (es_qm st)))"
  defines "st' \<equiv> checkPendingOrdersAndManageChains wk st"
  shows "set (map fst (es_active st')) = pending_chains (view (qm_net (es_qm st)))
    \<and> distinct (map fst (es_active st'))
    \<and> map (\<lambda>(c, cw). (cw_task cw, c)) (es_active st') = map (\<lambda>t. (ct_id t, ct_symbol t)) (live_tasks st')
    \<and> (\<forall>(c, cw) \<in> set (es_active st).
         c \<in> pending_chains (view (qm_net (es_qm st))) \<longrightarrow> (c, cw) \<in> set (es_active st'))"
proof -
  have inv: "evm_inv wk st" by (rule evm_worker.reachable_inv [OF assms(1) evm_inv_init])
  obtain cs w1 where g: "getChainsWithPendingOrders (ew_mongo wk) (qm_net (es_qm st)) = (Ok cs, w1)"
    "set cs = pending_chains (view (qm_net (es_qm st)))" using getChains_ok [OF assms(2,3)] by metis
  let ?st1 = "st\<lparr>es_qm := (es_qm st)\<lparr>qm_net := w1\<rparr>\<rparr>"
  have st': "st' = manageChainsBasedOnOrders wk cs ?st1"
    using g(1) by (simp add: st'_def checkPendingOrdersAndManageChains_def on_net_def)
  have i1: "evm_inv wk ?st1" using inv by simp
  note m = manage_ok [OF i1 get_chains_supported [OF g(1)]]
  from m(1) have "distinct (map fst (es_active st'))" "active_pairs st' = task_pairs st'"
    unfolding st' by (simp_all add: evm_inv_def)
  with m(2,3) g(2) show ?thesis unfolding st' active_pairs_def task_pairs_def by simp
qed

text \<open>
  C21: Once the goroutine of a chain runs and is not cancelled, some worker waits on the queue of the
  chain, and a tick makes the chain's blocks be processed by the next job that is taken from the
  queue, whatever other jobs wait there: the new job is taken first and the others stay.
\<close>

theorem evm_job_runs:
  assumes "reach (evm_step wk) evm_pre (new_evm_state w0) st" "find_task i st = Some t"
    "ct_running t" "\<not> ct_cancelled t" "ew_concurrency wk > 0"
    "queue_env_ok (ew_queue wk) view"
    "is_list_key (view (qm_net (es_qm st))) (chain_queue (ct_symbol t))"
  shows "evm_pre (OJob (chain_queue (ct_symbol t))) (evm_step wk (OTick i) st)
    \<and> (\<exists>cfg w1. map_of SupportedChains (ct_symbol t) = Some cfg
        \<and> list_at (view w1) (chain_queue (ct_symbol t))
            = list_at (view (qm_net (es_qm st))) (chain_queue (ct_symbol t))
        \<and> qm_net (es_qm (evm_step wk (OJob (chain_queue (ct_symbol t))) (evm_step wk (OTick i) st)))
            = snd (ProcessChain (chain_processor wk (ct_symbol t) cfg) w1))"
proof -
  let ?q = "chain_queue (ct_symbol t)" and ?cl = "qe_redis (ew_queue wk)"
  let ?w = "qm_net (es_qm st)"
  have inv: "evm_inv wk st" by (rule evm_worker.reachable_inv [OF assms(1) evm_inv_init])
  have t: "t \<in> set (es_tasks st)" by (rule find_task_in [OF assms(2)])
  have served: "served wk (es_qm st) (ct_symbol t)" using inv t assms(3) by (simp add: evm_inv_def)
  have "(ct_id t, ct_symbol t) \<in> set (active_pairs st)"
    using inv t assms(4) by (auto simp: evm_inv_def task_pairs_def live_tasks_def)
  then have "ct_symbol t \<in> fst ` set (es_active st)" by (force simp: active_pairs_def)
  with inv obtain cfg where cfg: "map_of SupportedChains (ct_symbol t) = Some cfg"
    unfolding evm_inv_def by blast
  obtain c w1 where c: "qe_clock (ew_queue wk) ?w = (c, w1)" by (metis surj_pair)
  note v1 = env_clock(1) [OF assms(6) c]
  have rok: "redis_ok ?cl view" using assms(6) by (simp add: queue_env_ok_def)
  let ?b = "Enc (JObj [(''timestamp'', JNum (of_int (unix_of c))), (''type'', JStr ''block_processing'')])"
  obtain r w2 where p: "rdo ?cl (CLPush ?q ?b) w1 = (r, w2)" by (metis surj_pair)
  from spec_lpush [OF assms(7), of ?b] obtain x where
    x: "redis_spec (CLPush ?q ?b) (view ?w) = (RInt (int (length (list_at (view ?w) ?q)) + 1),
      (view ?w)(?q \<mapsto> (LV (?b # list_at (view ?w) ?q), x)))" by blast
  with redis_ok_rdo [OF rok p] v1 have r: "r = RInt (int (length (list_at (view ?w) ?q)) + 1)"
    "view w2 = (view ?w)(?q \<mapsto> (LV (?b # list_at (view ?w) ?q), x))" by auto
  have tick: "es_qm (evm_step wk (OTick i) st) = (es_qm st)\<lparr>qm_net := w2\<rparr>"
    using assms(2,4) c p r(1) by (simp add: chain_tick_def on_net_snd enqueueEVMJob_def)
  obtain r3 w3 where b: "rdo ?cl (CBLPop ?q 0) w2 = (r3, w3)" by (metis surj_pair)
  have b3: "r3 = RBlob ?b \<and> list_at (view w3) ?q = list_at (view ?w) ?q"
    using arg_cong [OF redis_ok_rdo [OF rok b], of fst, symmetric]
      arg_cong [OF redis_ok_rdo [OF rok b], of snd, symmetric]
    by (cases "list_at (view ?w) ?q") (simp_all add: r(2))
  have "0 \<le> unix_of c" "unix_of c \<le> 2 ^ 53"
    using env_clock(2,3) [OF assms(6) c] by (simp_all add: unix_of_def)
  then have "f64_of_rat (of_int (unix_of c)) = Fin (of_int (unix_of c))"
    using f64_of_int_exact [of "unix_of c"] by (simp add: f64_of_int_def)
  then have data: "unmarshal_map ?b \<noteq> None" by (simp add: unmarshal_map_def json_map_def)
  have "qm_net (es_qm (evm_step wk (OJob ?q) (evm_step wk (OTick i) st)))
      = snd (ProcessChain (chain_processor wk (ct_symbol t) cfg) w3)"
    using data served cfg b b3 unfolding evm_step.simps(5) tick
    by (auto simp: worker_step_def served_def chain_handler_def split: prod.split res.split)
  moreover have "evm_pre (OJob ?q) (evm_step wk (OTick i) st)"
    using served assms(5) tick by (auto simp: served_def)
  ultimately show ?thesis using cfg b3 by blast
qed

text \<open>A worker over a database with one pending order and an empty Redis.\<close>

definition both_mongo :: "(mstore \<times> keyspace) mongo" where
  "both_mongo = \<lparr>mdo = (\<lambda>c (m, k). case mongo_spec (\<lambda>_ _. False) c m of (r, m') \<Rightarrow> (r, (m', k)))\<rparr>"

definition both_redis :: "(mstore \<times> keyspace) redis" where
  "both_redis = \<lparr>rdo = (\<lambda>c (m, k). case redis_spec c k of (r, k') \<Rightarrow> (r, (m, k'))),
     rexec = (\<lambda>cs (m, k). case spec_exec cs k of (rs, k') \<Rightarrow> ((rs, first_err rs), (m, k')))\<rparr>"

lemma both_ok: "mongo_ok (\<lambda>_ _. False) both_mongo fst" "redis_ok both_redis snd"
  by (simp_all add: mongo_ok_def both_mongo_def redis_ok_def both_redis_def split_beta)

definition demo_worker :: "(mstore \<times> keyspace) evm_worker" where
  "demo_worker = \<lparr>ew_http = \<lparr>hdo = (\<lambda>_ _ _ _ w. (HDoErr (EMsg ''offline''), w)), hrest = (\<lambda>b _. Some b)\<rparr>, ew_key = ''k'',
     ew_text = (\<lambda>_. []), ew_sleep = (\<lambda>_ w. w), ew_mongo = both_mongo, ew_cache = cache_manager both_redis,
     ew_queue = \<lparr>qe_redis = both_redis, qe_clock = Pair 0, qe_text = (\<lambda>_. []), qe_fmt = (\<lambda>_. []),
       qe_oori = (\<lambda>_. 0)\<rparr>, ew_oor = (\<lambda>_. 0), ew_concurrency = 2\<rparr>"

definition demo_orders :: mstore where
  "demo_orders = (\<lambda>c. if c = ''orders''
       then [[(''_id'', BId ''o1''), (''flow'', BStr ''BUY''), (''status'', BStr ''PENDING''), (''buyChain'', BId ''c1'')]]
     else if c = ''chains'' then [[(''_id'', BId ''c1''), (''symbol'', BStr ''ETH'')]] else [])"

definition demo_started :: "(mstore \<times> keyspace) evm_state" where
  "demo_started = evm_step demo_worker (ORun 0) (evm_step demo_worker OCheck (new_evm_state (demo_orders, Map.empty)))"

lemma demo_found: "find_task 0 (evm_step demo_worker OCheck (new_evm_state (demo_orders, Map.empty)))
    = Some \<lparr>ct_id = 0, ct_symbol = ''eth'', ct_cancelled = False, ct_running = False\<rparr>"
  by code_simp

theorem evm_chains_follow_orders_witness:
  "set (map fst (es_active (checkPendingOrdersAndManageChains demo_worker
       (new_evm_state (demo_orders, Map.empty))))) = pending_chains demo_orders"
proof -
  have "symbols_ok (fst (qm_net (es_qm (new_evm_state (demo_orders, Map.empty :: keyspace)))))"
    by (simp add: symbols_ok_def new_evm_state_def demo_orders_def)
  moreover have "mongo_ok (\<lambda>_ _. False) (ew_mongo demo_worker) fst" using both_ok by (simp add: demo_worker_def)
  ultimately show ?thesis
    using evm_chains_follow_orders [OF reach_init, of "\<lambda>_ _. False" demo_worker fst "(demo_orders, Map.empty)"]
    by (simp add: new_evm_state_def)
qed

theorem evm_job_runs_witness:
  "\<exists>cfg w1. map_of SupportedChains ''eth'' = Some cfg
     \<and> qm_net (es_qm (evm_step demo_worker (OJob (chain_queue ''eth'')) (evm_step demo_worker (OTick 0) demo_started)))
         = snd (ProcessChain (chain_processor demo_worker ''eth'' cfg) w1)"
proof -
  let ?t = "\<lparr>ct_id = 0, ct_symbol = ''eth'', ct_cancelled = False, ct_running = True\<rparr>"
  have "reach (evm_step demo_worker) evm_pre (new_evm_state (demo_orders, Map.empty)) demo_started"
    unfolding demo_started_def using demo_found by (intro reach_step reach_init) simp_all
  moreover have "find_task 0 demo_started = Some ?t" unfolding demo_started_def by code_simp
  moreover have "is_list_key (snd (qm_net (es_qm demo_started))) (chain_queue ''eth'')"
    unfolding demo_started_def by code_simp
  ultimately show ?thesis
    using evm_job_runs [of demo_worker "(demo_orders, Map.empty)" demo_started 0 ?t snd] both_ok(2)
    by (auto simp: demo_worker_def queue_env_ok_def)
qed

end
