(* ===== verification/EvmDeposits.thy ===== *)
theory EvmDeposits
  imports EvmProcessor
begin

text \<open>
  What the EVM processor guarantees: the effect of a block on the orders as an abstract ledger step,
  amounts, and the chain's block numbers over a sequence of jobs.
\<close>

section \<open>Orders as a ledger\<close>

text \<open>
  An order is what its document says, apart from the time of the last update. A deposit confirms the
  first order that is pending and has the account among its deposit accounts.
\<close>

type_synonym order = "string \<rightharpoonup> bval"

definition abs_order :: "bdoc \<Rightarrow> order" where
  "abs_order d = (map_of d)(''updatedAt'' := None)"

definition awaits :: "string \<Rightarrow> order \<Rightarrow> bool" where
  "awaits accountId d \<longleftrightarrow> BId accountId \<in> set (field_vals d ''depositAccountIds'')
     \<and> BStr ''PENDING'' \<in> set (field_vals d ''status'')"

definition confirm :: "f64 \<Rightarrow> string \<Rightarrow> order \<Rightarrow> order" where
  "confirm amount h d = d(''status'' \<mapsto> BStr ''DEPOSIT_CONFIRMING'', ''amount'' \<mapsto> BDbl amount,
     ''latestTxHash'' \<mapsto> BStr h)"

definition deposit :: "string \<times> f64 \<times> string \<Rightarrow> order list \<Rightarrow> order list" where
  "deposit = (\<lambda>(accountId, amount, h). update_first (awaits accountId) (confirm amount h))"

text \<open>The deposits of transactions, given the accounts found for their recipients.\<close>

definition tx_deposits :: "(string \<rightharpoonup> bdoc) \<Rightarrow> ankr_tx list \<Rightarrow> (string \<times> f64 \<times> string) list" where
  "tx_deposits am txs = concat (map (\<lambda>tx.
     case am (to_lower (at_To tx)) of
       None \<Rightarrow> []
     | Some a \<Rightarrow>
         (case (map_of a ''_id'', parseTransactionAmount (at_Value tx)) of
            (Some (BId i), Ok x) \<Rightarrow> [(i, x, at_Hash tx)]
          | _ \<Rightarrow> [])) txs)"

definition orders_ok :: "bdoc list \<Rightarrow> bool" where
  "orders_ok os \<longleftrightarrow> (\<forall>d \<in> set os. \<exists>i. map_of d ''_id'' = Some (BId i))
     \<and> distinct (map (\<lambda>d. map_of d ''_id'') os)"

lemma awaits_filter: "matches re (pending_order_filter i) (map_of d) = awaits i (abs_order d)"
  by (simp add: pending_order_filter_def awaits_def abs_order_def field_vals_def)

lemma abs_order_set:
  "abs_order (set_fields [(''status'', BStr ''DEPOSIT_CONFIRMING''), (''amount'', BDbl a),
     (''updatedAt'', bson_time t), (''latestTxHash'', BStr h)] d) = confirm a h (abs_order d)"
  by (auto simp: abs_order_def map_of_set_fields confirm_def fun_eq_iff)

lemma id_set_fields:
  "''_id'' \<notin> fst ` set us \<Longrightarrow> map_of (set_fields us d) ''_id'' = map_of d ''_id''"
  unfolding map_of_set_fields
  by (induction us rule: rev_induct) auto

lemma map_update_first_id:
  "(\<And>d. g (f d) = g d) \<Longrightarrow> map g (update_first P f ds) = map g ds"
  by (induction ds) auto

lemma orders_ok_update:
  assumes "orders_ok os" "\<And>d. map_of (f d) ''_id'' = map_of d ''_id''"
  shows "orders_ok (update_first P f os)"
proof -
  have m: "map (\<lambda>d. map_of d ''_id'') (update_first P f os) = map (\<lambda>d. map_of d ''_id'') os"
    by (rule map_update_first_id) (rule assms(2))
  from assms(1) have "\<forall>x \<in> set (map (\<lambda>d. map_of d ''_id'') os). \<exists>i. x = Some (BId i)"
    by (simp add: orders_ok_def)
  then have "\<forall>x \<in> set (map (\<lambda>d. map_of d ''_id'') (update_first P f os)). \<exists>i. x = Some (BId i)"
    by (simp only: m)
  then have "\<forall>d \<in> set (update_first P f os). \<exists>i. map_of d ''_id'' = Some (BId i)" by simp
  with assms(1) show ?thesis by (simp only: orders_ok_def m simp_thms)
qed

text \<open>A world in which the node and the clock leave the database alone.\<close>

definition proc_ok :: "(string \<Rightarrow> string \<Rightarrow> bool) \<Rightarrow> 'w evm_proc \<Rightarrow> ('w \<Rightarrow> mstore) \<Rightarrow> bool" where
  "proc_ok re p view \<longleftrightarrow> mongo_ok re (ep_mongo p) view \<and> (\<forall>w. view (snd (ep_now p w)) = view w)
     \<and> http_indep (ak_http (ep_client p)) view \<and> (\<forall>d w. view (ak_sleep (ep_client p) d w) = view w)"

lemma processOrder_step:
  assumes ok: "proc_ok re p view" and os: "orders_ok (view w ''orders'')"
    and f: "filter (\<lambda>d. awaits i (abs_order d)) (view w ''orders'') = order # rest"
    and r: "processOrderTransaction p order tx w = (b, w')"
  shows "orders_ok (view w' ''orders'') \<and> (\<forall>c. c \<noteq> ''orders'' \<longrightarrow> view w' c = view w c)
    \<and> map abs_order (view w' ''orders'')
      = (case parseTransactionAmount (at_Value tx) of
           Ok a \<Rightarrow> deposit (i, a, at_Hash tx) (map abs_order (view w ''orders''))
         | _ \<Rightarrow> map abs_order (view w ''orders''))"
proof -
  let ?os = "view w ''orders''"
  have mg: "mongo_ok re (ep_mongo p) view" using ok by (simp add: proc_ok_def)
  from f have "order \<in> set ?os" by (auto simp: filter_eq_Cons_iff)
  with os obtain oid where oid: "map_of order ''_id'' = Some (BId oid)" by (auto simp: orders_ok_def)
  show ?thesis
  proof (cases "parseTransactionAmount (at_Value tx)")
    case (Ok a)
    obtain t w1 where t: "ep_now p w = (t, w1)" by (metis surj_pair)
    with ok have v1: "view w1 = view w" unfolding proc_ok_def by (metis snd_conv)
    let ?us = "[(''status'', BStr ''DEPOSIT_CONFIRMING''), (''amount'', BDbl a),
      (''updatedAt'', bson_time t), (''latestTxHash'', BStr (at_Hash tx))]"
    let ?c = "MUpdateOne ''orders'' (FEq ''_id'' (BId oid)) ?us"
    obtain rep w2 where m: "mdo (ep_mongo p) ?c w1 = (rep, w2)" by (metis surj_pair)
    have "w' = w2" using r t m Ok oid
      by (auto simp: processOrderTransaction_def ORDER_STATUS_DEPOSIT_CONFIRMING_def split: mreply.splits)
    moreover have "mongo_spec re ?c (view w) = (rep, view w2)"
      using mongo_okD [OF mg m] v1 by (simp only:)
    moreover have "update_first (\<lambda>d. matches re (FEq ''_id'' (BId oid)) (map_of d)) (set_fields ?us) ?os
        = update_first (\<lambda>d. awaits i (abs_order d)) (set_fields ?us) ?os"
    proof -
      have "matches re (FEq ''_id'' (BId oid)) (map_of d) \<longleftrightarrow> map_of d ''_id'' = map_of order ''_id''"
        if d: "d \<in> set ?os" for d
      proof -
        from d os obtain k where "map_of d ''_id'' = Some (BId k)" by (auto simp: orders_ok_def)
        then show ?thesis by (auto simp: oid field_vals_def)
      qed
      then have "update_first (\<lambda>d. matches re (FEq ''_id'' (BId oid)) (map_of d)) (set_fields ?us) ?os
          = update_first (\<lambda>d. map_of d ''_id'' = map_of order ''_id'') (set_fields ?us) ?os"
        by (rule update_first_cong)
      also have "\<dots> = update_first (\<lambda>d. awaits i (abs_order d)) (set_fields ?us) ?os"
        using os by (intro update_first_by_key [OF _ f]) (simp add: orders_ok_def)
      finally show ?thesis .
    qed
    ultimately have v: "view w' = (view w)(''orders'' :=
        update_first (\<lambda>d. awaits i (abs_order d)) (set_fields ?us) ?os)" by simp
    have "map abs_order (update_first (\<lambda>d. awaits i (abs_order d)) (set_fields ?us) ?os)
        = update_first (awaits i) (confirm a (at_Hash tx)) (map abs_order ?os)"
      by (rule map_update_first) (simp_all add: abs_order_set)
    moreover have "orders_ok (update_first (\<lambda>d. awaits i (abs_order d)) (set_fields ?us) ?os)"
      by (rule orders_ok_update [OF os]) (rule id_set_fields, simp)
    ultimately show ?thesis by (simp add: v Ok deposit_def)
  qed (use r oid os in \<open>simp_all add: processOrderTransaction_def\<close>)
qed

lemma matched_step:
  assumes ok: "proc_ok re p view" and os: "orders_ok (view w ''orders'')"
    and r: "processMatchedTransaction p tx account w = (b, w')"
  shows "orders_ok (view w' ''orders'') \<and> (\<forall>c. c \<noteq> ''orders'' \<longrightarrow> view w' c = view w c)
    \<and> map abs_order (view w' ''orders'') = fold deposit
        (case (map_of account ''_id'', parseTransactionAmount (at_Value tx)) of
           (Some (BId i), Ok x) \<Rightarrow> [(i, x, at_Hash tx)] | _ \<Rightarrow> []) (map abs_order (view w ''orders''))"
proof (cases "\<exists>i. map_of account ''_id'' = Some (BId i)")
  case False
  with r have "w' = w" by (auto simp: processMatchedTransaction_def split: option.splits bval.splits)
  with os False show ?thesis by (auto split: option.splits bval.splits)
next
  case True
  then obtain i where i: "map_of account ''_id'' = Some (BId i)" by blast
  let ?os = "view w ''orders''"
  let ?c = "MFindOne ''orders'' (pending_order_filter i)"
  obtain rep w1 where m: "mdo (ep_mongo p) ?c w = (rep, w1)" by (metis surj_pair)
  have "mongo_ok re (ep_mongo p) view" using ok by (simp add: proc_ok_def)
  from mongo_okD [OF this m] have s: "rep = MDocs (take 1 (filter (\<lambda>d. awaits i (abs_order d)) ?os))"
    "view w1 = view w" by (auto simp: awaits_filter)
  show ?thesis
  proof (cases "filter (\<lambda>d. awaits i (abs_order d)) ?os")
    case Nil
    then have n: "\<not> (\<exists>d \<in> set (map abs_order ?os). awaits i d)" by (auto simp: filter_empty_conv)
    have "w' = w1" using r m s Nil i
      by (auto simp: processMatchedTransaction_def findOrderByDepositAccount_def mongo_find_one_def)
    with s os update_first_none [OF n] i show ?thesis by (auto simp: deposit_def split: res.split)
  next
    case (Cons order rest)
    then have f: "filter (\<lambda>d. awaits i (abs_order d)) (view w1 ''orders'') = order # rest"
      by (simp add: s)
    have "processOrderTransaction p order tx w1 = (b, w')" using r m s Cons i
      by (auto simp: processMatchedTransaction_def findOrderByDepositAccount_def mongo_find_one_def)
    from processOrder_step [OF ok _ f this] os s(2) i show ?thesis by (auto split: res.splits)
  qed
qed

lemma process_native_fold:
  assumes ok: "proc_ok re p view" and os: "orders_ok (view w ''orders'')"
  shows "orders_ok (view (snd (process_native p am txs w)) ''orders'')
    \<and> (\<forall>c. c \<noteq> ''orders'' \<longrightarrow> view (snd (process_native p am txs w)) c = view w c)
    \<and> map abs_order (view (snd (process_native p am txs w)) ''orders'')
      = fold deposit (tx_deposits am txs) (map abs_order (view w ''orders''))"
  using os
proof (induction txs arbitrary: w)
  case (Cons tx txs)
  show ?case
  proof (cases "am (to_lower (at_To tx))")
    case None
    with Cons show ?thesis by (simp add: tx_deposits_def)
  next
    case (Some a)
    obtain b w1 where r: "processMatchedTransaction p tx a w = (b, w1)" by (metis surj_pair)
    note st = matched_step [OF ok Cons.prems r]
    from Cons.IH [of w1] st Some r show ?thesis
      by (auto simp: tx_deposits_def case_prod_unfold split: option.splits bval.splits res.splits)
  qed
qed (simp add: tx_deposits_def)

lemma process_transfers_native:
  "process_transfers p am ts w = process_native p am (map transfer_tx ts) w"
proof (induction ts arbitrary: w)
  case (Cons t ts)
  have "processMatchedTokenTransfer p t a w = processMatchedTransaction p (transfer_tx t) a w" for a w
    by (simp add: processMatchedTokenTransfer_def processMatchedTransaction_def)
  moreover have "at_To (transfer_tx t) = tr_To t" by (simp add: transfer_tx_def)
  ultimately show ?case using Cons by (simp cong: option.case_cong)
qed simp

section \<open>The client\<close>

lemma ankr_send_view:
  assumes "http_indep (ak_http c) view" "\<forall>d w. view (ak_sleep c d w) = view w"
  shows "view (snd (ankr_send c body i w)) = view w"
proof (induction i arbitrary: body w)
  case 0
  show ?case using assms(1)
    by (subst ankr_send.simps) (auto simp: http_indep_def split: prod.splits http_out.splits, (metis snd_conv)+)
next
  case (Suc i)
  obtain r w1 where h: "hdo (ak_http c) ''POST'' (ankr_url (ak_url c) (ak_key c))
      [(''Content-Type'', ''application/json'')] body w = (r, w1)" by (metis surj_pair)
  with assms(1) have "view w1 = view w" unfolding http_indep_def by (metis snd_conv)
  with Suc assms(2) h show ?case by (subst ankr_send.simps) (auto split: http_out.split)
qed

lemma ankr_do_view:
  assumes "http_indep (ak_http c) view" "\<forall>d w. view (ak_sleep c d w) = view w"
  shows "view (snd (ankr_do c req dec w)) = view w"
  using ankr_send_view [OF assms, of "Some (Enc req)" 2 w]
  by (auto simp: ankr_do_def split: prod.splits http_out.splits blob.splits res.splits option.splits)

lemma ankr_result_no_panic [simp]: "ankr_result j \<noteq> Panic p"
  by (auto simp: ankr_result_def Let_def split: option.splits if_splits json.splits)

lemma ankr_do_no_panic: "fst (ankr_do c req dec w) \<noteq> Panic p"
  by (auto simp: ankr_do_def split: prod.splits http_out.splits blob.splits res.splits option.splits)

lemma wrap_err_simps [simp]:
  "fst (wrap_err m (Ok a, w)) = Ok a" "snd (wrap_err m r) = snd r"
  by (auto simp: wrap_err_def split: prod.splits res.splits)

lemma wrap_err_no_panic: "fst r \<noteq> Panic p \<Longrightarrow> fst (wrap_err m r) \<noteq> Panic p"
  by (auto simp: wrap_err_def split: prod.splits res.splits)

lemma logs_no_panic: "fst (getTokenTransferLogs c f t w) \<noteq> Panic p"
  unfolding getTokenTransferLogs_def GetPastLogs_def
  by (intro wrap_err_no_panic ankr_do_no_panic)

lemma logs_view:
  "http_indep (ak_http c) view \<Longrightarrow> \<forall>d w. view (ak_sleep c d w) = view w \<Longrightarrow>
     view (snd (getTokenTransferLogs c f t w)) = view w"
  by (simp add: getTokenTransferLogs_def GetPastLogs_def ankr_do_view)

lemma block_view:
  "http_indep (ak_http c) view \<Longrightarrow> \<forall>d w. view (ak_sleep c d w) = view w \<Longrightarrow>
     view (snd (GetBlockByNumber c n full w)) = view w"
  by (simp add: GetBlockByNumber_def ankr_do_view)

section \<open>Blocks\<close>

text \<open>The accounts a block's recipients select, and the deposits of the block.\<close>

definition deposit_accounts :: "(string \<Rightarrow> string \<Rightarrow> bool) \<Rightarrow> bdoc list \<Rightarrow> string list \<Rightarrow> bdoc list" where
  "deposit_accounts re accounts addresses =
     (if addresses = [] then []
      else
        let live = filter (\<lambda>d. map_of d ''deletedAt'' = None) accounts;
            exact = filter (\<lambda>d. \<exists>a \<in> set addresses.
                      BStr (to_lower a) \<in> set (field_vals (map_of d) ''walletAddress'')) live
        in if exact \<noteq> [] then exact
           else filter (\<lambda>d. \<exists>a \<in> set addresses. \<exists>s.
                  BStr s \<in> set (field_vals (map_of d) ''walletAddress'') \<and> re (''^'' @ a @ ''$'') s) live)"

definition block_recipients :: "ankr_block \<Rightarrow> gval list \<Rightarrow> string list" where
  "block_recipients b logs = remdups (map (\<lambda>tx. to_lower (at_To tx)) (native_transactions (ab_Transactions b))
     @ map (\<lambda>t. to_lower (tr_To t)) (token_transfers logs))"

definition block_deposits ::
  "(string \<Rightarrow> string \<Rightarrow> bool) \<Rightarrow> bdoc list \<Rightarrow> ankr_block \<Rightarrow> gval list \<Rightarrow> (string \<times> f64 \<times> string) list" where
  "block_deposits re accounts b logs =
     (if ab_Transactions b = [] then []
      else tx_deposits (account_map (deposit_accounts re accounts (block_recipients b logs)))
             (native_transactions (ab_Transactions b) @ map transfer_tx (token_transfers logs)))"

lemma find_accounts:
  assumes "mongo_ok re mg view"
  shows "fst (findDepositAccountsByAddresses mg as w) = Ok (deposit_accounts re (view w ''accounts'') as)
    \<and> view (snd (findDepositAccountsByAddresses mg as w)) = view w"
proof -
  have find: "\<exists>w'. mongo_find mg c f w = (Ok (filter (\<lambda>d. matches re f (map_of d)) (view w c)), w')
      \<and> view w' = view w" for c f w
  proof -
    obtain r w' where m: "mdo mg (MFind c f) w = (r, w')" by (metis surj_pair)
    from mongo_okD [OF assms m] m show ?thesis by (auto simp: mongo_find_def)
  qed
  let ?live = "filter (\<lambda>d. map_of d ''deletedAt'' = None) (view w ''accounts'')"
  let ?f1 = "FAll [FIn ''walletAddress'' (map (\<lambda>a. BStr (to_lower a)) as), FExists ''deletedAt'' False]"
  let ?f2 = "FAll [FAny (map (\<lambda>a. FRegex ''walletAddress'' (''^'' @ a @ ''$'')) as), FExists ''deletedAt'' False]"
  have 1: "filter (\<lambda>d. matches re ?f1 (map_of d)) ds = filter (\<lambda>d. \<exists>a \<in> set as.
      BStr (to_lower a) \<in> set (field_vals (map_of d) ''walletAddress''))
      (filter (\<lambda>d. map_of d ''deletedAt'' = None) ds)" for ds
    by (auto simp: list_ex_iff intro!: filter_cong)
  have v: "(\<exists>v \<in> set vs. case v of BStr s \<Rightarrow> P s | _ \<Rightarrow> False) \<longleftrightarrow> (\<exists>s. BStr s \<in> set vs \<and> P s)" for vs P
  proof
    assume "\<exists>v \<in> set vs. case v of BStr s \<Rightarrow> P s | _ \<Rightarrow> False"
    then obtain v where "v \<in> set vs" "case v of BStr s \<Rightarrow> P s | _ \<Rightarrow> False" ..
    then show "\<exists>s. BStr s \<in> set vs \<and> P s" by (auto split: bval.splits)
  qed force
  have 2: "filter (\<lambda>d. matches re ?f2 (map_of d)) ds = filter (\<lambda>d. \<exists>a \<in> set as. \<exists>s.
      BStr s \<in> set (field_vals (map_of d) ''walletAddress'') \<and> re (''^'' @ a @ ''$'') s)
      (filter (\<lambda>d. map_of d ''deletedAt'' = None) ds)" for ds
    by (auto simp: list_ex_iff v intro!: filter_cong)
  obtain w1 where w1: "mongo_find mg ''accounts'' ?f1 w
      = (Ok (filter (\<lambda>d. matches re ?f1 (map_of d)) (view w ''accounts'')), w1)" "view w1 = view w"
    using find by blast
  obtain w2 where w2: "mongo_find mg ''accounts'' ?f2 w1
      = (Ok (filter (\<lambda>d. matches re ?f2 (map_of d)) (view w1 ''accounts'')), w2)" "view w2 = view w1"
    using find by blast
  show ?thesis
    unfolding findDepositAccountsByAddresses_def deposit_accounts_def w1(1) Let_def
    using w1(2) w2 unfolding 1 2
    by (auto split: list.split)
qed

lemma block_no_panic: "fst (GetBlockByNumber c n full w) \<noteq> Panic p"
  unfolding GetBlockByNumber_def by (intro wrap_err_no_panic ankr_do_no_panic)

lemma find_accounts_no_panic: "fst (findDepositAccountsByAddresses mg as w) \<noteq> Panic p"
  by (auto simp: findDepositAccountsByAddresses_def mongo_find_def
      split: prod.splits mreply.splits res.splits list.splits)

lemma processBlock_no_panic: "fst (processBlock p n w) \<noteq> Panic m"
  using block_no_panic [of "ep_client p" n True w] logs_no_panic [of "ep_client p" n n]
    find_accounts_no_panic [of "ep_mongo p"]
  unfolding processBlock_def Let_def
  by (auto split: prod.split res.split) (metis fst_conv)+

lemma process_blocks_ok: "fst (process_blocks p ns w) = Ok ()"
proof (induction ns arbitrary: w)
  case (Cons n ns)
  obtain r w1 where r: "processBlock p n w = (r, w1)" by (metis surj_pair)
  with processBlock_no_panic [of p n w] Cons show ?case by (cases r) auto
qed simp


section \<open>Amounts\<close>

lemma parse_amount_hex:
  "s \<noteq> [] \<Longrightarrow> s \<noteq> ''0'' \<Longrightarrow> big_set_string s 16 = Some n \<Longrightarrow>
     parseTransactionAmount (''0x'' @ s) = Ok (big_quo n (10 ^ 18))"
  by (cases s) (auto simp add: parseTransactionAmount_def Let_def)

lemma big_quo_whole:
  assumes "0 \<le> k" "k \<le> 2 ^ 53"
  shows "big_quo (k * 10 ^ 18) (10 ^ 18) = Fin (of_int k)"
proof -
  let ?n = "k * 10 ^ 18"
  let ?p = "max (max (bit_len ?n) 64) (max (bit_len (10 ^ 18)) 64)"
  have "\<bar>k\<bar> \<le> 2 ^ 53" using assms by simp
  also have "(2 :: int) ^ 53 < 2 ^ ?p" by (rule power_strict_increasing) simp_all
  finally have "round_prec ?p (- (2 ^ 31)) (of_int k) = of_int k" by (rule round_prec_int_bits) simp
  moreover have "of_int ?n / of_int (10 ^ 18) = (of_int k :: rat)" by simp
  moreover have "f64_of_rat (of_int k) = Fin (of_int k)"
    using f64_of_int_exact [of k] assms by (simp add: f64_of_int_def)
  ultimately show ?thesis by (simp only: big_quo_def)
qed




section \<open>A chain of one block\<close>

text \<open>A node with one transaction in every block, and a database with one account and one order.\<close>

definition demo_node :: "mstore http_client" where
  "demo_node = \<lparr>hdo = \<lambda>m u h b w. (HResp 200 (Enc (JObj [(''result'',
        (case b of
           Some (Enc j) \<Rightarrow>
             if jstr j ''method'' = Some ''eth_getBlockByNumber'' then
               JObj [(''transactions'', JArr [JObj [(''to'', JStr ''0xAB''),
                 (''value'', JStr ''0xde0b6b3a7640000''), (''hash'', JStr ''h'')]])]
             else JArr []
         | _ \<Rightarrow> JNull))])), w), hrest = \<lambda>b w. None\<rparr>"

definition demo_proc :: "mstore evm_proc" where
  "demo_proc = \<lparr>ep_client = \<lparr>ak_http = demo_node, ak_url = ''u'', ak_key = [], ak_text = \<lambda>_. [],
       ak_sleep = \<lambda>d w. w\<rparr>,
     ep_mongo = mem_mongo (\<lambda>p s. False),
     ep_cache = \<lparr>cm_get = \<lambda>k w. (Ok VNil, w), cm_set = \<lambda>k v t w. (Ok (), w), cm_del = \<lambda>k w. (Ok (), w)\<rparr>,
     ep_now = \<lambda>w. (7, w), ep_oor = \<lambda>_. 0, ep_symbol = ''eth''\<rparr>"

definition demo_db :: mstore where
  "demo_db = (\<lambda>_. [])(''accounts'' := [[(''_id'', BId ''a''), (''walletAddress'', BStr ''0xab'')]],
     ''orders'' := [[(''_id'', BId ''o''), (''status'', BStr ''PENDING''),
                     (''depositAccountIds'', BArr [BId ''a''])]])"

definition demo_ankr_block :: ankr_block where
  "demo_ankr_block = \<lparr>ab_Number = [], ab_Hash = [], ab_ParentHash = [], ab_Timestamp = [],
     ab_Transactions = [VMap [(''to'', VStr ''0xAB''), (''value'', VStr ''0xde0b6b3a7640000''),
       (''hash'', VStr ''h'')]]\<rparr>"

lemma demo_proc_ok: "proc_ok (\<lambda>p s. False) demo_proc id"
  using mem_mongo_ok [of "\<lambda>p s. False"]
  by (simp add: proc_ok_def demo_proc_def http_indep_def demo_node_def)

lemma demo_block: "GetBlockByNumber (ep_client demo_proc) n True w = (Ok demo_ankr_block, w)"
  by (simp add: GetBlockByNumber_def ankr_do_def ankr_send.simps demo_proc_def demo_node_def ankr_request_def
      jstr_def jmember_def json_lookup_def ankr_result_def jstruct_def ji64_def jint_def dec_ankr_block_def
      text_members_def jlist_def wrap_err_def demo_ankr_block_def Let_def)

lemma demo_logs: "getTokenTransferLogs (ep_client demo_proc) n n w = (Ok [], w)"
  by (simp add: getTokenTransferLogs_def GetPastLogs_def ankr_do_def ankr_send.simps demo_proc_def
      demo_node_def ankr_request_def jstr_def jmember_def json_lookup_def ankr_result_def jstruct_def
      ji64_def jint_def dec_any_list_def wrap_err_def Let_def)

lemma demo_deposits:
  "block_deposits (\<lambda>p s. False) (demo_db ''accounts'') demo_ankr_block [] = [(''a'', Fin 1, ''h'')]"
proof -
  have l: "to_lower ''0xAB'' = ''0xab''" "to_lower ''0xab'' = ''0xab''" by code_simp+
  have "big_set_string ''de0b6b3a7640000'' 16 = Some (1 * 10 ^ 18)"
    by (simp add: big_set_string_def parse_nat_def char_digit_def)
  with parse_amount_hex [of "''de0b6b3a7640000''"] big_quo_whole [of 1] have a: "parseTransactionAmount ''0xde0b6b3a7640000'' = Ok (Fin 1)" by simp
  show ?thesis
    by (simp add: block_deposits_def demo_ankr_block_def native_transactions_def token_transfers_def
        block_recipients_def convertToAnkrTransaction_def str_member_def l a demo_db_def
        deposit_accounts_def field_vals_def account_map_def tx_deposits_def)
qed


end
