(* ===== verification/SolanaProperties.thy ===== *)
theory SolanaProperties
  imports SolanaMonitor
begin

text \<open>
  What the Solana monitor guarantees: the batches against a flat loop over the slots, the outcome
  of a run that meets its deadline, the requests with their retries, and the block formats.
\<close>

section \<open>The batches against a flat loop\<close>

text \<open>
  The flat loop: each slot is preceded by a wait, or, where a batch begins, by another reading of
  the clock.
\<close>

definition sol_wait :: "'w sol_env \<Rightarrow> u64 \<Rightarrow> u64 \<Rightarrow> ('h, 'w) mon \<Rightarrow> ('h, 'w) mon" where
  "sol_wait en prev h s =
     (if (h - (prev + 1)) mod 10 = 0 then snd (sol_expired en 0 s)
      else s\<lparr>net := sleep_ms (env_clock en) 100 (net s)\<rparr>)"

definition sol_flat_step :: "'w sol_env \<Rightarrow> u64 \<Rightarrow> u64 \<Rightarrow> ('h, 'w) mon \<Rightarrow> ('h, 'w) mon" where
  "sol_flat_step en prev h s =
     snd (sol_process_slot en h (snd (sol_expired en 0 (sol_wait en prev h s))))"

fun sol_on_time :: "'w sol_env \<Rightarrow> int \<Rightarrow> u64 \<Rightarrow> u64 list \<Rightarrow> ('h, 'w) mon \<Rightarrow> bool" where
  "sol_on_time en dl prev [] s \<longleftrightarrow> True"
| "sol_on_time en dl prev (h # hs) s \<longleftrightarrow>
     ((h - (prev + 1)) mod 10 = 0 \<longrightarrow> \<not> fst (sol_expired en dl s))
   \<and> \<not> fst (sol_expired en dl (sol_wait en prev h s))
   \<and> sol_on_time en dl prev hs (sol_flat_step en prev h s)"

lemma sol_on_time_append:
  "sol_on_time en dl prev (xs @ ys) s \<longleftrightarrow>
     sol_on_time en dl prev xs s \<and> sol_on_time en dl prev ys (fold (sol_flat_step en prev) xs s)"
  by (induction xs arbitrary: s) auto

lemma sol_expired_snd: "snd (sol_expired en dl s) = snd (sol_expired en 0 s)"
  by (simp add: sol_expired_def split: prod.split)

lemma ev_sol_expired [simp]: "ev (snd (sol_expired en dl s)) = ev s"
  by (simp add: sol_expired_def split: prod.split)

lemma ev_sol_wait [simp]: "ev (sol_wait en prev h s) = ev s"
  by (simp add: sol_wait_def)

lemma sol_expired_again:
  assumes "clock_mono (env_clock en)" "fst (sol_expired en dl s)"
  shows "fst (sol_expired en dl (snd (sol_expired en dl s)))"
proof -
  obtain t w where 1: "now_ms (env_clock en) (net s) = (t, w)" by (metis surj_pair)
  obtain t' w' where 2: "now_ms (env_clock en) w = (t', w')" by (metis surj_pair)
  from assms(1) 1 2 have "t \<le> t'" unfolding clock_mono_def by (metis fst_conv snd_conv)
  with assms(2) 1 2 show ?thesis by (simp add: sol_expired_def)
qed

lemma sol_batches_late:
  "fst (sol_expired en dl s) \<Longrightarrow> \<exists>t. sol_batches en dl prev is cur s = Some (cur, t) \<and> ev t = ev s"
  by (cases "is") (auto simp: case_prod_unfold)

text \<open>The run of a list of slots ends in time, or at slot \<open>k\<close>.\<close>

definition sol_late_at ::
  "'w sol_env \<Rightarrow> int \<Rightarrow> u64 \<Rightarrow> u64 list \<Rightarrow> nat \<Rightarrow> ('h, 'w) mon \<Rightarrow> bool" where
  "sol_late_at en dl prev xs k s \<longleftrightarrow> k < length xs \<and> sol_on_time en dl prev (take k xs) s
     \<and> \<not> sol_on_time en dl prev (take (Suc k) xs) s"

lemma sol_late_at_Cons:
  "sol_on_time en dl prev [x] s \<Longrightarrow> sol_late_at en dl prev xs k (sol_flat_step en prev x s)
     \<Longrightarrow> sol_late_at en dl prev (x # xs) (Suc k) s"
  by (simp add: sol_late_at_def)

lemma sol_late_at_append:
  "sol_on_time en dl prev xs s \<Longrightarrow> sol_late_at en dl prev ys k (fold (sol_flat_step en prev) xs s)
     \<Longrightarrow> sol_late_at en dl prev (xs @ ys) (length xs + k) s"
  by (simp add: sol_late_at_def sol_on_time_append)

text \<open>The slots of a batch after its first one.\<close>

lemma sol_batch_tail:
  assumes "clock_mono (env_clock en)" "\<forall>x \<in> set xs. start < x \<and> (x - (prev + 1)) mod 10 \<noteq> 0"
  shows "each (sol_slot_body en dl prev start) xs s = Inr (fold (sol_flat_step en prev) xs s)
      \<and> sol_on_time en dl prev xs s
    \<or> (\<exists>k t. each (sol_slot_body en dl prev start) xs s = Inl (xs ! k - 1, t)
      \<and> sol_late_at en dl prev xs k s \<and> ev t = ev (fold (sol_flat_step en prev) (take k xs) s)
      \<and> fst (sol_expired en dl t))"
  using assms(2)
proof (induction xs arbitrary: s)
  case (Cons x xs)
  let ?w = "sol_wait en prev x s"
  from Cons.prems have x: "start < x" "(x - (prev + 1)) mod 10 \<noteq> 0" by simp_all
  then have w: "?w = s\<lparr>net := sleep_ms (env_clock en) 100 (net s)\<rparr>" by (simp add: sol_wait_def)
  have body: "sol_slot_body en dl prev start x s = (if fst (sol_expired en dl ?w)
      then Inl (x - 1, snd (sol_expired en dl ?w)) else Inr (sol_flat_step en prev x s))"
    using x(1) by (simp add: sol_slot_body_def w sol_flat_step_def sol_expired_snd [of en dl]
        case_prod_unfold)
  show ?case
  proof (cases "fst (sol_expired en dl ?w)")
    case True
    with x body sol_expired_again [OF assms(1) True] show ?thesis
      by (intro disjI2 exI [of _ 0]) (simp add: sol_late_at_def)
  next
    case False
    with x have one: "sol_on_time en dl prev [x] s" by simp
    have "\<forall>x \<in> set xs. start < x \<and> (x - (prev + 1)) mod 10 \<noteq> 0" using Cons.prems by simp
    from Cons.IH [OF this, of "sol_flat_step en prev x s"] show ?thesis
    proof
      assume "\<exists>k t. each (sol_slot_body en dl prev start) xs (sol_flat_step en prev x s) = Inl (xs ! k - 1, t)
        \<and> sol_late_at en dl prev xs k (sol_flat_step en prev x s)
        \<and> ev t = ev (fold (sol_flat_step en prev) (take k xs) (sol_flat_step en prev x s))
        \<and> fst (sol_expired en dl t)"
      then obtain k t where "each (sol_slot_body en dl prev start) xs (sol_flat_step en prev x s) = Inl (xs ! k - 1, t)"
        "sol_late_at en dl prev xs k (sol_flat_step en prev x s)"
        "ev t = ev (fold (sol_flat_step en prev) (take k xs) (sol_flat_step en prev x s))"
        "fst (sol_expired en dl t)" by blast
      with body False sol_late_at_Cons [OF one] show ?thesis
        by (intro disjI2 exI [of _ "Suc k"]) simp
    qed (use body False one x in simp)
  qed
qed simp

text \<open>A whole batch, after the deadline check that opens it.\<close>

lemma sol_batch:
  assumes "clock_mono (env_clock en)" "(start - (prev + 1)) mod 10 = 0"
    and "\<forall>x \<in> set xs. start < x \<and> (x - (prev + 1)) mod 10 \<noteq> 0" "\<not> fst (sol_expired en dl s)"
  shows "each (sol_slot_body en dl prev start) (start # xs) (snd (sol_expired en dl s))
        = Inr (fold (sol_flat_step en prev) (start # xs) s)
      \<and> sol_on_time en dl prev (start # xs) s
    \<or> (\<exists>k t. each (sol_slot_body en dl prev start) (start # xs) (snd (sol_expired en dl s))
          = Inl (if k = 0 then prev else (start # xs) ! k - 1, t)
      \<and> sol_late_at en dl prev (start # xs) k s
      \<and> ev t = ev (fold (sol_flat_step en prev) (take k (start # xs)) s) \<and> fst (sol_expired en dl t))"
proof -
  let ?w = "sol_wait en prev start s" and ?t = "sol_flat_step en prev start s"
  have w: "?w = snd (sol_expired en dl s)" using assms(2)
    by (simp add: sol_wait_def sol_expired_snd [of en dl])
  have body: "sol_slot_body en dl prev start start (snd (sol_expired en dl s))
      = (if fst (sol_expired en dl ?w) then Inl (prev, snd (sol_expired en dl ?w)) else Inr ?t)"
    by (simp add: sol_slot_body_def sol_flat_step_def w sol_expired_snd [of en dl]
        case_prod_unfold)
  show ?thesis
  proof (cases "fst (sol_expired en dl ?w)")
    case True
    with body sol_expired_again [OF assms(1) True] show ?thesis
      by (intro disjI2 exI [of _ 0]) (simp add: sol_late_at_def)
  next
    case False
    with assms(2,4) have one: "sol_on_time en dl prev [start] s" by simp
    from sol_batch_tail [OF assms(1,3), of dl ?t] show ?thesis
    proof
      assume "\<exists>k t. each (sol_slot_body en dl prev start) xs ?t = Inl (xs ! k - 1, t)
        \<and> sol_late_at en dl prev xs k ?t \<and> ev t = ev (fold (sol_flat_step en prev) (take k xs) ?t)
        \<and> fst (sol_expired en dl t)"
      then obtain k t where "each (sol_slot_body en dl prev start) xs ?t = Inl (xs ! k - 1, t)"
        "sol_late_at en dl prev xs k ?t" "ev t = ev (fold (sol_flat_step en prev) (take k xs) ?t)"
        "fst (sol_expired en dl t)" by blast
      with body False sol_late_at_Cons [OF one] show ?thesis
        by (intro disjI2 exI [of _ "Suc k"]) simp
    qed (use body False one in simp)
  qed
qed

text \<open>The slots by their distance from the last processed one.\<close>

definition sol_slot_at :: "u64 \<Rightarrow> nat \<Rightarrow> u64" where
  "sol_slot_at prev j = prev + 1 + of_nat j"

lemma unat_slot_at:
  assumes "unat prev + 1 + j < 18446744073709551616"
  shows "unat (sol_slot_at prev j) = unat prev + 1 + j"
proof -
  have "sol_slot_at prev j = of_nat (unat prev + 1 + j)" by (simp add: sol_slot_at_def)
  with unat_of_nat64 [OF assms] show ?thesis by simp
qed

lemma slot_at_upto:
  assumes "unat prev + 1 + b < 18446744073709551616" "a \<le> b"
  shows "upto_u64 (sol_slot_at prev a) (sol_slot_at prev b) = map (sol_slot_at prev) [a..<Suc b]"
proof -
  have sh: "[a + d..<n + d] = map (\<lambda>j. j + d) [a..<n]" for a n d :: nat
    by (rule nth_equalityI) simp_all
  have "[unat (sol_slot_at prev a)..<Suc (unat (sol_slot_at prev b))]
      = map (\<lambda>j. j + (unat prev + 1)) [a..<Suc b]"
    using assms unat_slot_at [of prev a] unat_slot_at [of prev b] sh [of a "unat prev + 1" "Suc b"]
    by (simp add: add.commute)
  then show ?thesis by (simp add: upto_u64_def sol_slot_at_def add.commute add.left_commute)
qed

lemma heights_slots:
  assumes "prev < cur"
  shows "heights_after prev cur = map (sol_slot_at prev) [0..<unat cur - unat prev]"
proof -
  let ?d = "unat cur - unat prev"
  have lt: "unat prev < unat cur" using assms by (simp add: word_less_nat_alt)
  have b: "unat prev + 1 + (?d - 1) = unat cur" using lt by simp
  have small: "unat prev + 1 + (?d - 1) < 18446744073709551616" using b unat_lt64 [of cur] by simp
  from unat_slot_at [OF small] b have "unat (sol_slot_at prev (?d - 1)) = unat cur" by simp
  then have "sol_slot_at prev (?d - 1) = cur" by (rule unsigned_word_eqI)
  moreover have "sol_slot_at prev 0 = prev + 1" by (simp add: sol_slot_at_def)
  moreover have "Suc (?d - 1) = ?d" using lt by simp
  ultimately show ?thesis using slot_at_upto [OF small le0] assms by (simp add: heights_after_def)
qed

lemma slot_at_mod:
  assumes "j < 18446744073709551616"
  shows "(sol_slot_at prev j - (prev + 1)) mod 10 = 0 \<longleftrightarrow> j mod 10 = 0"
proof -
  have "unat ((of_nat j :: u64) mod 10) = j mod 10"
    using assms by (simp add: unat_mod_distrib unat_of_nat64)
  moreover have "sol_slot_at prev j - (prev + 1) = of_nat j" by (simp add: sol_slot_at_def)
  ultimately show ?thesis by (metis unat_0 unat_eq_zero)
qed

lemma slot_at_less:
  assumes "unat prev + 1 + b < 18446744073709551616" "a < b"
  shows "sol_slot_at prev a < sol_slot_at prev b"
  using assms unat_slot_at [of prev a] unat_slot_at [of prev b] by (simp add: word_less_nat_alt)

text \<open>The slots of batch \<open>i\<close>: ten, or up to the head.\<close>

lemma batch_slots:
  assumes "unat prev + D = unat cur" "unat cur + 10 < 18446744073709551616" "10 * i < D"
  defines "start \<equiv> prev + 1 + of_nat i * 10" and "n \<equiv> min 10 (D - 10 * i)"
  shows "start = sol_slot_at prev (10 * i)"
    and "upto_u64 start (if start + 10 - 1 > cur then cur else start + 10 - 1)
      = start # map (sol_slot_at prev) [10 * i + 1..<10 * i + n]"
    and "(if start + 10 - 1 > cur then cur else start + 10 - 1) \<noteq> - 1"
proof -
  let ?stop = "if start + 10 - 1 > cur then cur else start + 10 - 1"
  show 1: "start = sol_slot_at prev (10 * i)" by (simp add: start_def sol_slot_at_def mult.commute)
  have "start + 10 - 1 = sol_slot_at prev (10 * i + 9)" unfolding 1 by (simp add: sol_slot_at_def)
  moreover have c: "cur = sol_slot_at prev (D - 1)" using unat_slot_at [of prev "D - 1"] assms(1-3)
    by (simp add: word_unat_eq_iff)
  moreover have "sol_slot_at prev (D - 1) < sol_slot_at prev (10 * i + 9) \<longleftrightarrow> D - 1 < 10 * i + 9"
    using unat_slot_at [of prev "D - 1"] unat_slot_at [of prev "10 * i + 9"] assms(1-3)
    by (simp add: word_less_nat_alt) arith
  ultimately have stop: "?stop = sol_slot_at prev (10 * i + n - 1)"
    using assms(3) by (auto simp: n_def min_def intro!: arg_cong [of _ _ "sol_slot_at prev"])
  have n: "0 < n" "unat prev + 1 + (10 * i + n - 1) \<le> unat cur" using assms(1,3) by (auto simp: n_def)
  with unat_lt64 [of cur] have "unat prev + 1 + (10 * i + n - 1) < 18446744073709551616" by linarith
  from slot_at_upto [OF this, of "10 * i"] n(1) show "upto_u64 start ?stop
      = start # map (sol_slot_at prev) [10 * i + 1..<10 * i + n]"
    unfolding stop unfolding 1 by (simp add: upt_conv_Cons)
  have max: "unat (- 1 :: u64) = 18446744073709551615"
    by (simp add: unsigned_minus_1_eq_mask mask_eq_exp_minus_1)
  have "unat ?stop \<le> unat cur" by (auto simp: word_le_nat_alt not_less)
  with assms(2) have "unat ?stop < unat (- 1 :: u64)" by (simp only: max)
  then show "?stop \<noteq> - 1" by (rule contrapos_pn) (simp only: order_less_irrefl not_False_eq_True)
qed

text \<open>
  The batches from number \<open>m\<close> on, of \<open>D\<close> slots in all. The run ends with all slots processed in
  time, or stops at the first slot at which the deadline is found to have passed.
\<close>

definition sol_outcome ::
  "'w sol_env \<Rightarrow> int \<Rightarrow> u64 \<Rightarrow> u64 list \<Rightarrow> u64 \<Rightarrow> ('h, 'w) mon \<Rightarrow> u64 \<Rightarrow> ('h, 'w) mon \<Rightarrow> bool" where
  "sol_outcome en dl prev xs cur s cur' t \<longleftrightarrow>
     sol_on_time en dl prev xs s \<and> cur' = cur \<and> t = fold (sol_flat_step en prev) xs s
   \<or> (\<exists>k. sol_late_at en dl prev xs k s \<and> ev t = ev (fold (sol_flat_step en prev) (take k xs) s)
        \<and> cur' = (if k mod 10 \<noteq> 0 then xs ! k - 1
             else if fst (sol_expired en dl (fold (sol_flat_step en prev) (take k xs) s)) then cur
             else prev))"

lemma sol_outcome_append:
  assumes "sol_on_time en dl prev xs s" "10 dvd length xs \<or> ys = []"
    and "sol_outcome en dl prev ys cur (fold (sol_flat_step en prev) xs s) cur' t"
  shows "sol_outcome en dl prev (xs @ ys) cur s cur' t"
  using assms(3) unfolding sol_outcome_def
proof
  let ?s = "fold (sol_flat_step en prev) xs s"
  assume "\<exists>k. sol_late_at en dl prev ys k ?s
      \<and> ev t = ev (fold (sol_flat_step en prev) (take k ys) ?s)
      \<and> cur' = (if k mod 10 \<noteq> 0 then ys ! k - 1
          else if fst (sol_expired en dl (fold (sol_flat_step en prev) (take k ys) ?s)) then cur else prev)"
  then obtain k where k: "sol_late_at en dl prev ys k ?s"
    "ev t = ev (fold (sol_flat_step en prev) (take k ys) ?s)"
    "cur' = (if k mod 10 \<noteq> 0 then ys ! k - 1
          else if fst (sol_expired en dl (fold (sol_flat_step en prev) (take k ys) ?s)) then cur else prev)"
    by blast
  from k(1) assms(2) obtain q where "length xs = 10 * q" by (auto simp: sol_late_at_def)
  then have "(length xs + k) mod 10 = k mod 10" by simp
  with k sol_late_at_append [OF assms(1) k(1)]
  show "sol_on_time en dl prev (xs @ ys) s \<and> cur' = cur \<and> t = fold (sol_flat_step en prev) (xs @ ys) s
    \<or> (\<exists>k. sol_late_at en dl prev (xs @ ys) k s
        \<and> ev t = ev (fold (sol_flat_step en prev) (take k (xs @ ys)) s)
        \<and> cur' = (if k mod 10 \<noteq> 0 then (xs @ ys) ! k - 1
             else if fst (sol_expired en dl (fold (sol_flat_step en prev) (take k (xs @ ys)) s)) then cur
             else prev))"
    by (intro disjI2 exI [of _ "length xs + k"]) simp
qed (use assms(1) in \<open>simp add: sol_on_time_append\<close>)

lemma sol_outcome_late:
  "sol_late_at en dl prev xs k s \<Longrightarrow> ev t = ev (fold (sol_flat_step en prev) (take k xs) s) \<Longrightarrow>
     k < 10 \<Longrightarrow> \<not> fst (sol_expired en dl s) \<Longrightarrow> cur' = (if k = 0 then prev else xs ! k - 1) \<Longrightarrow>
     sol_outcome en dl prev (xs @ ys) cur s cur' t"
  unfolding sol_outcome_def
  by (intro disjI2 exI [of _ k]) (auto simp: sol_late_at_def nth_append sol_on_time_append)

lemma sol_batches_Cons:
  assumes "start = prev + 1 + i * 10" "(if start + 10 - 1 > cur then cur else start + 10 - 1) \<noteq> - 1"
  shows "sol_batches en dl prev (i # is) cur s
    = (if fst (sol_expired en dl s) then Some (cur, snd (sol_expired en dl s))
       else case each (sol_slot_body en dl prev start)
           (upto_u64 start (if start + 10 - 1 > cur then cur else start + 10 - 1))
           (snd (sol_expired en dl s)) of
         Inl (cur', s') \<Rightarrow> sol_batches en dl prev is cur' s'
       | Inr s' \<Rightarrow> sol_batches en dl prev is cur s')"
  unfolding sol_batches.simps assms(1) [symmetric] Let_def case_prod_unfold loop_u64_each [OF assms(2)]
  by (simp split: sum.split)

lemma sol_batches_outcome:
  assumes "clock_mono (env_clock en)" "unat prev + D = unat cur"
    "unat cur + 10 < 18446744073709551616" "n = (D + 9) div 10" "m \<le> n"
  shows "\<exists>cur' t. sol_batches en dl prev (map of_nat [m..<n]) cur s = Some (cur', t)
    \<and> sol_outcome en dl prev (map (sol_slot_at prev) [10 * m..<D]) cur s cur' t"
  using assms(5)
proof (induction "n - m" arbitrary: m s)
  case 0
  then have "D \<le> 10 * m" "n \<le> m" using assms(4) by simp_all
  then show ?case by (simp add: sol_outcome_def)
next
  case (Suc d)
  then have mn: "m < n" by simp
  then have D: "10 * m < D" using assms(4) by (simp add: less_eq_div_iff_mult_less_eq)
  let ?start = "prev + 1 + of_nat m * 10" and ?l = "min 10 (D - 10 * m)"
  let ?tl = "map (sol_slot_at prev) [10 * m + 1..<10 * m + ?l]"
  let ?ys = "map (sol_slot_at prev) [10 * Suc m..<D]"
  note b = batch_slots [OF assms(2,3) D]
  have small: "unat prev + 1 + D \<le> 18446744073709551616" using assms(2,3) by simp
  have split: "map (sol_slot_at prev) [10 * m..<D] = (?start # ?tl) @ ?ys"
  proof -
    have "[10 * m..<D] = [10 * m..<10 * m + ?l] @ [10 * m + ?l..<D]" using D
        upt_add_eq_append [of "10 * m" "10 * m + ?l" "D - (10 * m + ?l)"] by simp
    moreover have "[10 * m + ?l..<D] = [10 * Suc m..<D]" by (cases "10 \<le> D - 10 * m") (auto simp: add.commute)
    moreover have "[10 * m..<10 * m + ?l] = 10 * m # [10 * m + 1..<10 * m + ?l]" using D
      by (simp add: upt_conv_Cons)
    ultimately show ?thesis by (simp add: b(1))
  qed
  have tl: "\<forall>x \<in> set ?tl. ?start < x \<and> (x - (prev + 1)) mod 10 \<noteq> 0"
  proof
    fix x assume "x \<in> set ?tl"
    then obtain j where j: "10 * m < j" "j < 10 * m + ?l" "x = sol_slot_at prev j"
      by (auto simp: Suc_le_eq)
    then have jd: "j < D" and "j < 10 * m + 10" by simp_all
    with j(1) have "j mod 10 \<noteq> 0" by presburger
    with jd j small slot_at_less [of prev j "10 * m"] show "?start < x \<and> (x - (prev + 1)) mod 10 \<noteq> 0"
      unfolding b(1) by (simp add: slot_at_mod)
  qed
  have s0: "(?start - (prev + 1)) mod 10 = 0" unfolding b(1) using D small by (subst slot_at_mod) auto
  let ?r = "each (sol_slot_body en dl prev ?start) (?start # ?tl) (snd (sol_expired en dl s))"
  have run: "sol_batches en dl prev (map of_nat [m..<n]) cur s
      = (if fst (sol_expired en dl s) then Some (cur, snd (sol_expired en dl s))
         else case ?r of
             Inl (cur', s') \<Rightarrow> sol_batches en dl prev (map of_nat [Suc m..<n]) cur' s'
           | Inr s' \<Rightarrow> sol_batches en dl prev (map of_nat [Suc m..<n]) cur s')"
    using sol_batches_Cons [OF refl b(3), of en dl "map of_nat [Suc m..<n]" s] mn
    unfolding b(2) by (simp only: upt_conv_Cons list.map)
  show ?case
  proof (cases "fst (sol_expired en dl s)")
    case True
    with s0 have "sol_late_at en dl prev ((?start # ?tl) @ ?ys) 0 s" by (simp add: sol_late_at_def)
    with True run show ?thesis
      by (intro exI [of _ cur] exI [of _ "snd (sol_expired en dl s)"])
        (auto simp: sol_outcome_def split intro!: exI [of _ 0])
  next
    case False
    from sol_batch [OF assms(1) s0 tl False] show ?thesis
    proof
      assume a: "?r = Inr (fold (sol_flat_step en prev) (?start # ?tl) s)
        \<and> sol_on_time en dl prev (?start # ?tl) s"
      from Suc.hyps(2) mn have "d = n - Suc m" "Suc m \<le> n" by simp_all
      from Suc.hyps(1) [OF this] obtain cur' t where IH:
        "sol_batches en dl prev (map of_nat [Suc m..<n]) cur (fold (sol_flat_step en prev) (?start # ?tl) s)
           = Some (cur', t)"
        "sol_outcome en dl prev ?ys cur (fold (sol_flat_step en prev) (?start # ?tl) s) cur' t" by blast
      have "10 dvd length (?start # ?tl) \<or> ?ys = []" by (cases "10 \<le> D - 10 * m") auto
      from sol_outcome_append [OF conjunct2 [OF a] this IH(2)] IH(1) a run False show ?thesis
        unfolding split by (intro exI [of _ cur'] exI [of _ t]) simp
    next
      assume "\<exists>k t. ?r = Inl (if k = 0 then prev else (?start # ?tl) ! k - 1, t)
        \<and> sol_late_at en dl prev (?start # ?tl) k s
        \<and> ev t = ev (fold (sol_flat_step en prev) (take k (?start # ?tl)) s) \<and> fst (sol_expired en dl t)"
      then obtain k t where k: "?r = Inl (if k = 0 then prev else (?start # ?tl) ! k - 1, t)"
        "sol_late_at en dl prev (?start # ?tl) k s"
        "ev t = ev (fold (sol_flat_step en prev) (take k (?start # ?tl)) s)" "fst (sol_expired en dl t)"
        by blast
      let ?c = "if k = 0 then prev else (?start # ?tl) ! k - 1"
      from sol_batches_late [OF k(4)] obtain t' where t':
        "sol_batches en dl prev (map of_nat [Suc m..<n]) ?c t = Some (?c, t')" "ev t' = ev t" by blast
      have "k < length (?start # ?tl)" using k(2) unfolding sol_late_at_def by blast
      also have "\<dots> \<le> 10" by simp
      finally have "k < 10" .
      from sol_outcome_late [OF k(2) trans [OF t'(2) k(3)] this False refl, of ?ys cur]
      show ?thesis unfolding split run k(1)
        by (intro exI [of _ ?c] exI [of _ t']) (simp only: False if_False sum.case prod.case t'(1) simp_thms)
    qed
  qed
qed

lemma sol_on_time_prefix:
  "sol_on_time en dl prev (take a xs) s \<Longrightarrow> b \<le> a \<Longrightarrow> sol_on_time en dl prev (take b xs) s"
  using sol_on_time_append [of en dl prev "take b xs" "take (a - b) (drop b xs)" s]
  by (simp add: take_add [symmetric])

lemma sol_late_at_unique:
  "sol_late_at en dl prev xs k s \<Longrightarrow> sol_late_at en dl prev xs j s \<Longrightarrow> j = k"
  unfolding sol_late_at_def by (metis Suc_leI linorder_neqE_nat sol_on_time_prefix)

lemma sol_on_time_not_late: "sol_on_time en dl prev xs s \<Longrightarrow> \<not> sol_late_at en dl prev xs k s"
  unfolding sol_late_at_def using sol_on_time_prefix [of en dl prev "length xs" xs s "Suc k"] by auto

lemma sol_batch_count_eq:
  assumes "prev < cur"
  shows "unat (sol_batch_count prev cur) = (unat cur - unat prev + 9) div 10"
proof -
  have d: "unat (cur - prev) = unat cur - unat prev" using assms
    by (simp add: unat_sub word_less_nat_alt less_imp_le)
  have lt: "unat cur - unat prev < 18446744073709551616" using unat_lt64 [of cur] by simp
  have "unat ((cur - prev) div 10) = (unat cur - unat prev) div 10"
    "unat ((cur - prev) mod 10) = (unat cur - unat prev) mod 10"
    by (simp_all add: unat_div_distrib unat_mod_distrib d)
  moreover have "(0 < (cur - prev) mod 10) = (0 < unat ((cur - prev) mod 10))"
    by (simp add: word_less_nat_alt)
  moreover have "unat ((cur - prev) div 10 + 1) = unat ((cur - prev) div 10) + 1"
    using lt calculation(1) by (subst unat_add_lem [THEN iffD1]) simp_all
  moreover have "(n + 9) div 10 = (if 0 < n mod 10 then n div 10 + 1 else n div 10)" for n :: nat
    by presburger
  ultimately show ?thesis by (simp add: sol_batch_count_def)
qed

text \<open>The advance of a job, by the outcome of its run.\<close>

lemma sol_advance_outcome:
  assumes "clock_mono (env_clock en)" "prev < cur" "unat cur + 10 < 18446744073709551616"
    and "now_ms (env_clock en) (net s) = (t0, w0)"
  obtains cur' t where "sol_outcome en (t0 + 45000) prev (heights_after prev cur) cur (s\<lparr>net := w0\<rparr>) cur' t"
    and "sol_advance en cm prev cur s
      = (case cm_set cm SolanaBlockIdentifier (VUint64 cur') 120 (net t) of (r, w) \<Rightarrow> Some (r, t\<lparr>net := w\<rparr>))"
proof -
  from assms(2) have D: "unat prev + (unat cur - unat prev) = unat cur" by (simp add: word_less_nat_alt)
  from sol_batches_outcome [OF assms(1) D assms(3) sol_batch_count_eq [OF assms(2)] le0,
      of "t0 + 45000" "s\<lparr>net := w0\<rparr>"] obtain cur' t where
    "sol_batches en (t0 + 45000) prev (map of_nat [0..<unat (sol_batch_count prev cur)]) cur (s\<lparr>net := w0\<rparr>)
       = Some (cur', t)"
    "sol_outcome en (t0 + 45000) prev (heights_after prev cur) cur (s\<lparr>net := w0\<rparr>) cur' t"
    by (auto simp: heights_slots [OF assms(2)])
  with assms(2,4) that show ?thesis by (simp add: sol_advance_def)
qed

section \<open>Properties of a job\<close>

text \<open>
  C8: A Solana job whose deadline is not passed at any of its checks processes every slot above the
  last one up to the head exactly once and in order, as a flat loop would, and caches the head.
\<close>

theorem solana_job_flat:
  assumes "clock_mono (env_clock en)" "prev < cur" "unat cur + 10 < 18446744073709551616"
    and "now_ms (env_clock en) (net s) = (t0, w0)"
    and "sol_on_time en (t0 + 45000) prev (heights_after prev cur) (s\<lparr>net := w0\<rparr>)"
    and "t = fold (sol_flat_step en prev) (heights_after prev cur) (s\<lparr>net := w0\<rparr>)"
  shows "sol_advance en cm prev cur s
    = (case cm_set cm SolanaBlockIdentifier (VUint64 cur) 120 (net t) of (r, w) \<Rightarrow> Some (r, t\<lparr>net := w\<rparr>))"
  using sol_advance_outcome [OF assms(1-4), of cm] sol_on_time_not_late [OF assms(5)] assms(6)
  unfolding sol_outcome_def by metis

text \<open>
  C9: A Solana job that finds its deadline passed at the slot number \<open>k\<close> after the last processed
  one has published the blocks of the first \<open>k\<close> slots only. If \<open>k\<close> is inside a batch it caches the
  last slot processed; where a batch begins it caches the head, so that the remaining slots are
  never processed, or, if only the second of the two checks there notices, the slot the job began
  with, so that all of them are processed again.
\<close>

theorem solana_job_timeout:
  assumes "clock_mono (env_clock en)" "prev < cur" "unat cur + 10 < 18446744073709551616"
    and "now_ms (env_clock en) (net s) = (t0, w0)"
    and "sol_late_at en (t0 + 45000) prev (heights_after prev cur) k (s\<lparr>net := w0\<rparr>)"
    and "done = fold (sol_flat_step en prev) (take k (heights_after prev cur)) (s\<lparr>net := w0\<rparr>)"
  shows "\<exists>t. ev t = ev done \<and> sol_advance en cm prev cur s
    = (case cm_set cm SolanaBlockIdentifier
          (VUint64 (if k mod 10 \<noteq> 0 then heights_after prev cur ! k - 1
                    else if fst (sol_expired en (t0 + 45000) done) then cur else prev)) 120 (net t) of
        (r, w) \<Rightarrow> Some (r, t\<lparr>net := w\<rparr>))"
proof -
  obtain cur' t where o: "sol_outcome en (t0 + 45000) prev (heights_after prev cur) cur (s\<lparr>net := w0\<rparr>) cur' t"
    "sol_advance en cm prev cur s
      = (case cm_set cm SolanaBlockIdentifier (VUint64 cur') 120 (net t) of (r, w) \<Rightarrow> Some (r, t\<lparr>net := w\<rparr>))"
    using sol_advance_outcome [OF assms(1-4), of cm] by metis
  from o(1) sol_on_time_not_late assms(5) obtain j where j:
    "sol_late_at en (t0 + 45000) prev (heights_after prev cur) j (s\<lparr>net := w0\<rparr>)"
    "ev t = ev (fold (sol_flat_step en prev) (take j (heights_after prev cur)) (s\<lparr>net := w0\<rparr>))"
    "cur' = (if j mod 10 \<noteq> 0 then heights_after prev cur ! j - 1
       else if fst (sol_expired en (t0 + 45000)
         (fold (sol_flat_step en prev) (take j (heights_after prev cur)) (s\<lparr>net := w0\<rparr>))) then cur else prev)"
    unfolding sol_outcome_def by metis
  from sol_late_at_unique [OF assms(5) j(1)] j(2,3) o(2) show ?thesis
    unfolding assms(6) by (intro exI [of _ t]) (simp only: simp_thms)
qed

text \<open>
  A world that is a clock and the cached value: a request takes \<open>d\<close> milliseconds and reports a
  skipped slot.
\<close>

definition demo_sol_env :: "int \<Rightarrow> (int \<times> gval) sol_env" where
  "demo_sol_env d = \<lparr>env_http =
       \<lparr>hdo = \<lambda>m u h b w. (HResp 200 (Enc (JObj [(''result'', JNull)])), (fst w + d, snd w))\<rparr>,
     env_clock = \<lparr>now_ms = \<lambda>w. (fst w, w), sleep_ms = \<lambda>d w. (fst w + d, snd w)\<rparr>, env_text = \<lambda>_. [],
     env_key = [], env_url = ''u'', env_u64 = \<lambda>_. 0, env_i64 = \<lambda>_. 0\<rparr>"

definition demo_sol_cache :: "(int \<times> gval) cache_ops" where
  "demo_sol_cache = \<lparr>cm_get = \<lambda>k w. (Ok (snd w), w), cm_set = \<lambda>k v t w. (Ok (), (fst w, v)),
     cm_del = \<lambda>k w. (Ok (), (fst w, VNil))\<rparr>"

definition demo_sol_state :: "(string, int \<times> gval) mon" where
  "demo_sol_state = \<lparr>net = (0, VUint64 5), ev = subscribe ''handleBlockFound'' ''h'' new_event_manager\<rparr>"

lemma demo_sol_clock: "clock_mono (env_clock (demo_sol_env d))"
  by (simp add: clock_mono_def demo_sol_env_def)

lemma demo_sol_now: "now_ms (env_clock (demo_sol_env d)) w = (fst w, w)"
  by (simp add: demo_sol_env_def)

lemma demo_sol_expired: "sol_expired (demo_sol_env d) dl s = (dl \<le> fst (net s), s)"
  by (simp add: sol_expired_def demo_sol_env_def)

lemma demo_sol_wait: "sol_wait (demo_sol_env d) prev h s
  = s\<lparr>net := (fst (net s) + (if (h - (prev + 1)) mod 10 = 0 then 0 else 100), snd (net s))\<rparr>"
  by (simp add: sol_wait_def demo_sol_expired) (simp add: demo_sol_env_def)

lemma demo_sol_slot: "sol_process_slot (demo_sol_env d) h t
  = (Ok (), t\<lparr>net := (fst (net t) + d, snd (net t))\<rparr>)"
proof -
  have c: "contains ''u'' ''/solana/'' = False" by (simp add: has_prefix_def)
  have "sol_make_request (demo_sol_env d) req w
      = (Reply \<lparr>sr_Result = Some JNull, sr_Error = None\<rparr>, (fst w + d, snd w))" for req w
    by (simp add: sol_make_request_def sol_try.simps sol_send_def demo_sol_env_def sol_api_key_def c sol_attempt_def sol_decode_def
        jstruct_def merge_error_def merge_str_def merge_int_def jmember_def json_lookup_def
        eval_nat_numeral Let_def)
  then show ?thesis
    by (simp add: sol_process_slot_def sol_get_block_def sol_parse_block_def) (simp add: demo_sol_env_def)
qed

lemma demo_sol_step: "sol_flat_step (demo_sol_env d) prev h s = s\<lparr>net :=
    (fst (net s) + (if (h - (prev + 1)) mod 10 = 0 then 0 else 100) + d, snd (net s))\<rparr>"
  by (simp add: sol_flat_step_def demo_sol_slot demo_sol_wait demo_sol_expired)

lemmas demo_sol = demo_sol_expired demo_sol_wait demo_sol_step

theorem solana_job_flat_witness:
  "sol_advance (demo_sol_env 12000) demo_sol_cache 5 7 demo_sol_state
     = Some (Ok (), demo_sol_state\<lparr>net := (24100, VUint64 7)\<rparr>)"
proof -
  have h: "heights_after 5 7 = [6, 7]" by (simp add: heights_after_def upto_u64_def upt_rec)
  have t: "sol_on_time (demo_sol_env 12000) (0 + 45000) 5 (heights_after 5 7)
      (demo_sol_state\<lparr>net := net demo_sol_state\<rparr>)"
    unfolding h by (simp add: demo_sol) (simp add: demo_sol_state_def)
  from solana_job_flat [OF demo_sol_clock _ _ _ t refl, of demo_sol_cache] show ?thesis
    unfolding h by (simp add: demo_sol demo_sol_now) (simp add: demo_sol_state_def demo_sol_cache_def)
qed

text \<open>With 4410 milliseconds per request the deadline passes after the tenth of fifteen slots.\<close>

theorem solana_job_timeout_witness:
  "\<exists>t. sol_advance (demo_sol_env 4410) demo_sol_cache 5 20 demo_sol_state = Some (Ok (), t)
     \<and> snd (net t) = VUint64 20
     \<and> sol_late_at (demo_sol_env 4410) 45000 5 (heights_after 5 20) 10 demo_sol_state"
proof -
  have h: "heights_after 5 20 = [6, 7, 8, 9, 10, 11, 12, 13, 14, 15, 16, 17, 18, 19, 20]"
    by (simp add: heights_after_def upto_u64_def upt_rec)
  have l: "sol_late_at (demo_sol_env 4410) (0 + 45000) 5 (heights_after 5 20) 10
      (demo_sol_state\<lparr>net := net demo_sol_state\<rparr>)"
    unfolding h sol_late_at_def by (simp add: demo_sol) (simp add: demo_sol_state_def)
  from solana_job_timeout [OF demo_sol_clock _ _ _ l refl, of demo_sol_cache] l show ?thesis
    unfolding h by (simp add: demo_sol demo_sol_now) (auto simp: demo_sol_state_def demo_sol_cache_def)
qed

section \<open>Requests\<close>

text \<open>A successful answer without an \<open>error\<close> member.\<close>

definition sol_good_answer :: "http_out \<Rightarrow> bool" where
  "sol_good_answer out \<longleftrightarrow> (case out of
     HResp c (Enc (JObj kjs)) \<Rightarrow> c = 200 \<and> json_lookup kjs ''error'' = None
       \<and> snd (merge_str (JObj kjs) ''jsonrpc'' []) \<and> snd (merge_int (JObj kjs) ''id'' 0)
   | _ \<Rightarrow> False)"

lemma sol_decode_good:
  assumes "sol_good_answer out"
  obtains b rpc' where "out = HResp 200 b" "sol_decode b rpc = (rpc', True)" "sr_Error rpc' = sr_Error rpc"
proof -
  from assms obtain kjs where k: "out = HResp 200 (Enc (JObj kjs))" "json_lookup kjs ''error'' = None"
    "snd (merge_str (JObj kjs) ''jsonrpc'' [])" "snd (merge_int (JObj kjs) ''id'' 0)"
    unfolding sol_good_answer_def by (cases out) (simp_all split: blob.splits json.splits)
  then have "sol_decode (Enc (JObj kjs)) rpc = (\<lparr>sr_Result = (case json_lookup kjs ''result'' of
      Some r \<Rightarrow> Some r | None \<Rightarrow> sr_Result rpc), sr_Error = sr_Error rpc\<rparr>, True)"
    by (simp add: sol_decode_def jstruct_def merge_error_def)
  with k(1) that show ?thesis by simp
qed

lemma sol_attempt_sticky:
  assumes "sol_good_answer out" "sr_Error rpc = Some e" "se_Code e \<noteq> - 32004"
  shows "\<exists>rpc'. sr_Error rpc' = Some e
    \<and> sol_attempt txt n out rpc = (if n = 3 then Inl (RpcError rpc' (rpc_error e)) else Inr rpc')"
proof -
  obtain b rpc' where "out = HResp 200 b" "sol_decode b rpc = (rpc', True)" "sr_Error rpc' = sr_Error rpc"
    by (rule sol_decode_good [OF assms(1)])
  with assms(2,3) show ?thesis by (intro exI [of _ rpc']) (simp add: sol_attempt_def)
qed

text \<open>
  A set of worlds the service and waiting stay in, in which every answer is good.
\<close>

definition sol_recovered :: "'w sol_env \<Rightarrow> json \<Rightarrow> 'w set \<Rightarrow> bool" where
  "sol_recovered en req W \<longleftrightarrow> (\<forall>w \<in> W. sol_good_answer (fst (sol_send en req w))
     \<and> snd (sol_send en req w) \<in> W \<and> (\<forall>d. sleep_ms (env_clock en) d w \<in> W))"

lemma sol_try_sticky:
  assumes "sol_recovered en req W" "sr_Error rpc = Some e" "se_Code e \<noteq> - 32004" "w \<in> W" "left < 3"
  shows "\<exists>r w'. sol_try en req left rpc w = (RpcError r (rpc_error e), w')"
  using assms(2,4,5)
proof (induction left arbitrary: rpc w)
  case (0 rpc)
  let ?w = "sleep_ms (env_clock en) 4500 w"
  obtain out w2 where o: "sol_send en req ?w = (out, w2)" by (metis surj_pair)
  from assms(1) 0 have "?w \<in> W" by (simp add: sol_recovered_def)
  with assms(1) o have "sol_good_answer out" unfolding sol_recovered_def by (metis fst_conv)
  from sol_attempt_sticky [OF this 0(1) assms(3), of "env_text en" 3] o show ?case
    by (auto simp: sol_try.simps [of _ _ 0])
next
  case (Suc left)
  let ?n = "3 - Suc left"
  let ?w = "sleep_ms (env_clock en) (int (?n * ?n) * 500) w"
  obtain out w2 where o: "sol_send en req ?w = (out, w2)" by (metis surj_pair)
  from assms(1) Suc.prems have w: "?w \<in> W" by (simp add: sol_recovered_def)
  with assms(1) o have g: "sol_good_answer out" "w2 \<in> W"
    unfolding sol_recovered_def by (metis fst_conv, metis snd_conv)
  from sol_attempt_sticky [OF g(1) Suc.prems(1) assms(3), of "env_text en" ?n] Suc.prems(3)
  obtain rpc' where r: "sr_Error rpc' = Some e" "sol_attempt (env_text en) ?n out rpc = Inr rpc'" by auto
  from Suc.prems(3) have n: "0 < ?n" "left < 3" by auto
  from Suc.IH [OF r(1) g(2) n(2)] show ?case
    using sol_try.simps [of en req "Suc left" rpc w] n(1) o r(2) by simp
qed

text \<open>
  C14: Once an attempt has been answered by a JSON-RPC error that is not the one of a skipped slot,
  the request fails with that error, even if every retry is answered successfully: the response
  variable is not cleared between attempts, and an answer without an \<open>error\<close> member leaves the
  old error in it.
\<close>

theorem solana_request_sticky_error:
  assumes "sol_send en req w = (HResp 200 b, w1)" "sol_decode b \<lparr>sr_Result = None, sr_Error = None\<rparr> = (rpc, True)"
    and "sr_Error rpc = Some e" "se_Code e \<noteq> - 32004" "sol_recovered en req W" "w1 \<in> W"
  shows "\<exists>r w'. sol_make_request en req w = (RpcError r (rpc_error e), w')"
proof -
  have "sol_attempt (env_text en) 0 (HResp 200 b) \<lparr>sr_Result = None, sr_Error = None\<rparr> = Inr rpc"
    using assms(2-4) by (simp add: sol_attempt_def)
  with assms(1) have "sol_make_request en req w = sol_try en req 2 rpc w1"
    using sol_try.simps [of en req 3 "\<lparr>sr_Result = None, sr_Error = None\<rparr>" w]
    by (simp add: sol_make_request_def numeral_3_eq_3 numeral_2_eq_2)
  with sol_try_sticky [OF assms(5,3,4,6), of 2] show ?thesis by simp
qed

definition demo_rpc_env :: "nat sol_env" where
  "demo_rpc_env = \<lparr>env_http = \<lparr>hdo = \<lambda>m u h b w.
       (HResp 200 (Enc (JObj (if w = 0 then [(''error'', JObj [(''code'', JNum 7), (''message'', JStr ''busy'')])]
                              else [(''result'', JNum 5)]))), Suc w)\<rparr>,
     env_clock = \<lparr>now_ms = \<lambda>w. (0, w), sleep_ms = \<lambda>d w. w\<rparr>, env_text = \<lambda>_. [], env_key = ''k'',
     env_url = ''u'', env_u64 = \<lambda>_. 0, env_i64 = \<lambda>_. 0\<rparr>"

theorem solana_request_sticky_error_witness:
  "\<exists>r w'. sol_make_request demo_rpc_env sol_slot_request 0
     = (RpcError r (EMsg ''RPC error: busy (code: 7)''), w')"
proof -
  let ?b = "Enc (JObj [(''error'', JObj [(''code'', JNum 7), (''message'', JStr ''busy'')])])"
  let ?e = "\<lparr>se_Code = 7, se_Message = ''busy''\<rparr>"
  have 1: "sol_send demo_rpc_env sol_slot_request 0 = (HResp 200 ?b, 1)"
    by (simp add: sol_send_def demo_rpc_env_def)
  have i: "int_of_rat 7 = Some 7" by (simp add: int_of_rat_def Let_def)
  have 2: "sol_decode ?b \<lparr>sr_Result = None, sr_Error = None\<rparr> = (\<lparr>sr_Result = None, sr_Error = Some ?e\<rparr>, True)"
    by (simp add: sol_decode_def jstruct_def merge_error_def merge_str_def merge_int_def jmember_def
        json_lookup_def ji64_def jint_def i)
  have 3: "sol_recovered demo_rpc_env sol_slot_request {0<..}"
    by (auto simp: sol_recovered_def sol_send_def demo_rpc_env_def sol_good_answer_def merge_str_def
        merge_int_def jmember_def json_lookup_def)
  have "rpc_error ?e = EMsg ''RPC error: busy (code: 7)''"
    by code_simp
  with solana_request_sticky_error [OF 1 2 _ _ 3, of ?e] show ?thesis by simp
qed

section \<open>Block formats\<close>

text \<open>A transaction and a block as Solana's \<open>getBlock\<close> reports them.\<close>

definition rpc_tx_json :: "sol_tx \<Rightarrow> json" where
  "rpc_tx_json tx = JObj
     [(''transaction'', JObj [(''signatures'', JArr [JStr (st_Signature tx)])]),
      (''meta'', JObj [(''err'', if st_Successful tx then JNull else JStr ''failed''),
                       (''fee'', JNum (of_int (st_Fee tx)))])]"

definition rpc_block_json :: "sol_block \<Rightarrow> json" where
  "rpc_block_json b = JObj
     [(''blockhash'', JStr (sb_Blockhash b)), (''blockTime'', JNum (of_int (sb_BlockTime b))),
      (''blockHeight'', JNum (of_int (uint (sb_BlockHeight b)))),
      (''transactions'', JArr (map rpc_tx_json (sb_Transactions b)))]"

definition sol_block_wf :: "sol_block \<Rightarrow> bool" where
  "sol_block_wf b \<longleftrightarrow> - (2 ^ 63) \<le> sb_BlockTime b \<and> sb_BlockTime b < 2 ^ 63 \<and> sb_Transactions b \<noteq> []
   \<and> (\<forall>tx \<in> set (sb_Transactions b). st_Signature tx \<noteq> [] \<and> 0 \<le> st_Fee tx \<and> st_Fee tx \<le> 2 ^ 53)"

lemma from_json_fee:
  assumes "0 \<le> i" "i \<le> 2 ^ 53"
  shows "from_json (JNum (of_int i)) = Some (VFloat (Fin (of_int i)))"
proof -
  have "f64_of_rat (of_int i) = Fin (of_int i)"
    using f64_of_int_exact [of i] assms by (simp add: f64_of_int_def)
  then show ?thesis by simp
qed

lemma dec_rpc_tx:
  assumes "0 \<le> st_Fee tx" "st_Fee tx \<le> 2 ^ 53"
  shows "dec_sol_tx (rpc_tx_json tx) = (\<lparr>st_Signature = [], st_Successful = False, st_Fee = 0\<rparr>, True)"
  using from_json_fee [OF assms] 
  by (simp add: dec_sol_tx_def rpc_tx_json_def merge_str_def merge_bool_def merge_int_def jmember_def
      json_lookup_def jstruct_def any_ok_def del: from_json.simps(3))

lemma raw_rpc_tx:
  assumes "0 \<le> st_Fee tx" "st_Fee tx \<le> 2 ^ 53" "st_Signature tx \<noteq> []"
  shows "\<exists>kvs. json_map (rpc_tx_json tx) = Some (Some kvs) \<and> sol_raw_tx oor kvs = tx"
proof -
  obtain sg ok fee where tx: "tx = \<lparr>st_Signature = sg, st_Successful = ok, st_Fee = fee\<rparr>" by (cases tx)
  with assms have f: "0 \<le> fee" "fee \<le> 2 ^ 53" "sg \<noteq> []" by simp_all
  from f(2) have "fee < 2 ^ 63" by (rule order_le_less_trans) simp
  then have "i64_of_f64 oor (Fin (of_int fee)) = fee"
    using f(1) by (simp only: i64_of_f64_def f64.case trunc_rat_of_int) simp
  then show ?thesis unfolding tx
    by (simp add: rpc_tx_json_def json_map_def from_json_fee [OF f(1,2)] sol_raw_tx_def Let_def
        del: from_json.simps(3))
qed

lemma those_map_Some: "those (map (\<lambda>x. Some (f x)) xs) = Some (map f xs)"
  by (induction xs) simp_all

text \<open>
  C15: A block in the format Solana's \<open>getBlock\<close> reports (signatures and fees nested in each
  transaction) is read back with its hash, time, height and, in order, every transaction with its
  first signature, its fee and whether it succeeded, although the program's first reading of it
  finds only empty transactions.
\<close>

theorem solana_block_roundtrip:
  assumes "sol_block_wf b"
  shows "sol_parse_block oor (Some (rpc_block_json b)) = Ok (Some b)"
proof -
  let ?j = "rpc_block_json b" and ?txs = "sb_Transactions b"
  from assms have wf: "\<forall>tx \<in> set ?txs. st_Signature tx \<noteq> [] \<and> 0 \<le> st_Fee tx \<and> st_Fee tx \<le> 2 ^ 53"
    and ne: "?txs \<noteq> []" and bt: "- (2 ^ 63) \<le> sb_BlockTime b" "sb_BlockTime b < 2 ^ 63"
    by (simp_all add: sol_block_wf_def)
  have mem: "jmember ?j ''transactions'' = Some (JArr (map rpc_tx_json ?txs))"
    "jmember ?j ''blockhash'' = Some (JStr (sb_Blockhash b))"
    "jmember ?j ''blockTime'' = Some (JNum (of_int (sb_BlockTime b)))"
    "jmember ?j ''blockHeight'' = Some (JNum (of_int (uint (sb_BlockHeight b))))"
    "jmember ?j ''previousBlockhash'' = None" "jmember ?j ''parentSlot'' = None"
    "jmember ?j ''rewards'' = None" "jmember ?j ''blockProductionTime'' = None"
    by (simp_all add: rpc_block_json_def jmember_def json_lookup_def)
  have s: "jstruct ?j" by (simp add: rpc_block_json_def jstruct_def)
  let ?e = "\<lparr>st_Signature = [], st_Successful = False, st_Fee = 0\<rparr>"
  have dec: "dec_sol_tx (rpc_tx_json tx) = (?e, True)" if "tx \<in> set ?txs" for tx
    using dec_rpc_tx wf that by blast
  have std: "dec_sol_txs ?j = (map (\<lambda>_. ?e) ?txs, True)"
    using dec by (simp add: dec_sol_txs_def mem list_all_iff)
  have empty: "allTransactionsEmpty (map (\<lambda>_. ?e) ?txs)" using ne
    by (simp add: allTransactionsEmpty_def list_all_iff)
  have num: "ji64 ?j ''blockTime'' = Some (sb_BlockTime b)" "ju64 ?j ''blockHeight'' = Some (sb_BlockHeight b)"
    "ju64 ?j ''parentSlot'' = Some 0"
    using bt uint_lt2p [of "sb_BlockHeight b"] by (simp_all add: ji64_def ju64_def jint_def mem)
  have custom: "dec_custom_block ?j
      = Some (sb_Blockhash b, sb_BlockTime b, sb_BlockHeight b, map rpc_tx_json ?txs)"
    using those_map_Some [of "\<lambda>x. x" "map rpc_tx_json ?txs"]
    by (simp add: dec_custom_block_def s num jstr_def jlist_def mem any_ok_def
        cong: option.case_cong)
  have raws: "sol_raw_txs oor (map rpc_tx_json txs) = txs" if "set txs \<subseteq> set ?txs" for txs
    using that
  proof (induction txs)
    case (Cons tx txs)
    with wf raw_rpc_tx [of tx oor] obtain kvs where
      "json_map (rpc_tx_json tx) = Some (Some kvs)" "sol_raw_tx oor kvs = tx" "st_Signature tx \<noteq> []" by auto
    with Cons show ?case by (simp add: sol_raw_txs_def)
  qed (simp add: sol_raw_txs_def)
  have "?j \<noteq> JNull" by (simp add: rpc_block_json_def)
  with ne empty custom raws [OF subset_refl] std show ?thesis
    by (cases ?j) (simp_all add: sol_parse_block_def dec_sol_block_def split: prod.split)
qed

theorem solana_block_roundtrip_witness:
  "sol_parse_block (\<lambda>_. 0) (Some (rpc_block_json
      \<lparr>sb_Blockhash = ''h'', sb_BlockTime = 1700000000, sb_BlockHeight = 9, sb_Transactions =
        [\<lparr>st_Signature = ''a'', st_Successful = True, st_Fee = 5000\<rparr>,
         \<lparr>st_Signature = ''b'', st_Successful = False, st_Fee = 7\<rparr>]\<rparr>))
   = Ok (Some \<lparr>sb_Blockhash = ''h'', sb_BlockTime = 1700000000, sb_BlockHeight = 9, sb_Transactions =
        [\<lparr>st_Signature = ''a'', st_Successful = True, st_Fee = 5000\<rparr>,
         \<lparr>st_Signature = ''b'', st_Successful = False, st_Fee = 7\<rparr>]\<rparr>)"
  by (rule solana_block_roundtrip) (simp add: sol_block_wf_def)

end
