(* ===== verification/SocketManager.thy ===== *)
theory SocketManager
  imports GoValue
begin

text \<open>
  \<open>managers/socket/manager.go\<close> and \<open>client.go\<close>: the registry of WebSocket clients, their rooms and
  the event handlers. Clients are objects on a heap (the maps hold pointers to them) and the
  slices of \<open>userRegistry\<close> have backing arrays, because \<open>Unregister\<close> shifts such an array in place
  while \<open>EmitToUser\<close> may be iterating over it. Each operation runs under the manager's mutex and
  is one step; Go's iteration order over a map is the order of its association list. The socket
  itself and the pumps' timing are input and output, not modelled; what the pumps do to a client
  is: taking messages from its buffer, handing on a message, unregistering and closing.
\<close>

record client =
  cl_ID :: string
  cl_UserID :: string
  cl_Send :: "blob list"
  cl_Closed :: bool
  cl_Rooms :: "string list"

record 'h socket_manager =
  sm_heap :: "nat \<Rightarrow> client"
  sm_clients :: "(string \<times> nat) list"
  sm_rooms :: "(string \<times> (string \<times> nat) list) list"
  sm_registry :: "(string \<times> nat \<times> nat) list"
  sm_arrays :: "nat \<Rightarrow> string list"
  sm_next :: nat
  sm_handlers :: "(string \<times> 'h list) list"
  sm_spawned :: "('h \<times> nat \<times> blob) list"

text \<open>Messages the send channel buffers.\<close>

definition send_capacity :: nat where
  "send_capacity = 256"

definition NewClient :: "string \<Rightarrow> string \<Rightarrow> client" where
  "NewClient uuid userID =
     \<lparr>cl_ID = uuid, cl_UserID = userID, cl_Send = [], cl_Closed = False, cl_Rooms = []\<rparr>"

definition empty_client :: client where
  "empty_client = NewClient [] []"

definition new_socket_manager :: "'h socket_manager" where
  "new_socket_manager = \<lparr>sm_heap = (\<lambda>_. empty_client), sm_clients = [], sm_rooms = [], sm_registry = [],
     sm_arrays = (\<lambda>_. []), sm_next = 0, sm_handlers = [], sm_spawned = []\<rparr>"

section \<open>Slices\<close>

text \<open>
  A slice is an array and a length; the capacity is the length of the array. Appending writes in
  place when there is room, else it moves to a new array of capacity \<open>grow n\<close>, which the Go
  runtime chooses.
\<close>

definition slice_elems :: "'h socket_manager \<Rightarrow> nat \<times> nat \<Rightarrow> string list" where
  "slice_elems s sl = take (snd sl) (sm_arrays s (fst sl))"

definition alloc_slice :: "string list \<Rightarrow> nat \<Rightarrow> 'h socket_manager \<Rightarrow> (nat \<times> nat) \<times> 'h socket_manager" where
  "alloc_slice arr n s =
     ((sm_next s, n), s\<lparr>sm_arrays := (sm_arrays s)(sm_next s := arr), sm_next := Suc (sm_next s)\<rparr>)"

definition append_slice ::
  "(nat \<Rightarrow> nat) \<Rightarrow> nat \<times> nat \<Rightarrow> string \<Rightarrow> 'h socket_manager \<Rightarrow> (nat \<times> nat) \<times> 'h socket_manager" where
  "append_slice grow sl x s =
     (case sl of (a, n) \<Rightarrow>
        if n < length (sm_arrays s a)
        then ((a, Suc n), s\<lparr>sm_arrays := (sm_arrays s)(a := (sm_arrays s a)[n := x])\<rparr>)
        else alloc_slice (take n (sm_arrays s a) @ [x] @ replicate (grow n - Suc n) []) (Suc n) s)"

text \<open>\<open>append(ids[:i], ids[i+1:]...)\<close> shifts the rest of the slice within its array.\<close>

definition remove_slice :: "nat \<times> nat \<Rightarrow> nat \<Rightarrow> 'h socket_manager \<Rightarrow> (nat \<times> nat) \<times> 'h socket_manager" where
  "remove_slice sl i s =
     (case sl of (a, n) \<Rightarrow>
        ((a, n - 1),
         s\<lparr>sm_arrays := (sm_arrays s)(a := take i (sm_arrays s a) @ drop (Suc i) (take n (sm_arrays s a))
             @ drop (n - 1) (sm_arrays s a))\<rparr>))"

text \<open>The first index at which a predicate holds.\<close>

fun find_index :: "('a \<Rightarrow> bool) \<Rightarrow> 'a list \<Rightarrow> nat option" where
  "find_index P [] = None"
| "find_index P (x # xs) = (if P x then Some 0 else map_option Suc (find_index P xs))"

section \<open>Registering clients\<close>

definition Register :: "(nat \<Rightarrow> nat) \<Rightarrow> nat \<Rightarrow> 'h socket_manager \<Rightarrow> 'h socket_manager" where
  "Register grow r s =
     (let c = sm_heap s r; s1 = s\<lparr>sm_clients := AList.update (cl_ID c) r (sm_clients s)\<rparr> in
      if cl_UserID c = [] then s1
      else
        let (sl, s2) = (case map_of (sm_registry s1) (cl_UserID c) of
               Some sl \<Rightarrow> (sl, s1) | None \<Rightarrow> alloc_slice [] 0 s1);
            (sl', s3) = append_slice grow sl (cl_ID c) s2
        in s3\<lparr>sm_registry := AList.update (cl_UserID c) sl' (sm_registry s3)\<rparr>)"

text \<open>Take a client out of one room; a room without clients is deleted.\<close>

definition drop_from_room :: "string \<Rightarrow> string \<Rightarrow> 'h socket_manager \<Rightarrow> 'h socket_manager" where
  "drop_from_room cid roomID s =
     (case map_of (sm_rooms s) roomID of
        None \<Rightarrow> s
      | Some cs \<Rightarrow>
          let cs' = AList.delete cid cs
          in s\<lparr>sm_rooms := (if cs' = [] then AList.delete roomID (sm_rooms s)
                            else AList.update roomID cs' (sm_rooms s))\<rparr>)"

definition drop_from_registry :: "string \<Rightarrow> string \<Rightarrow> 'h socket_manager \<Rightarrow> 'h socket_manager" where
  "drop_from_registry cid userID s =
     (if userID = [] then s
      else case map_of (sm_registry s) userID of
        None \<Rightarrow> s
      | Some sl \<Rightarrow>
          let (sl', s1) = (case find_index (\<lambda>x. x = cid) (slice_elems s sl) of
                 None \<Rightarrow> (sl, s) | Some i \<Rightarrow> remove_slice sl i s)
          in s1\<lparr>sm_registry := (if snd sl' = 0 then AList.delete userID (sm_registry s1)
                                else AList.update userID sl' (sm_registry s1))\<rparr>)"

definition Unregister :: "nat \<Rightarrow> 'h socket_manager \<Rightarrow> unit res \<times> 'h socket_manager" where
  "Unregister r s =
     (let c = sm_heap s r in
      if map_of (sm_clients s) (cl_ID c) = None then (Err (EMsg ''client not found''), s)
      else
        let s1 = fold (drop_from_room (cl_ID c)) (cl_Rooms c) s;
            s2 = drop_from_registry (cl_ID c) (cl_UserID c) s1
        in (Ok (), s2\<lparr>sm_clients := AList.delete (cl_ID c) (sm_clients s2)\<rparr>))"

section \<open>Rooms\<close>

definition clientJoinRoom :: "nat \<Rightarrow> string \<Rightarrow> 'h socket_manager \<Rightarrow> 'h socket_manager" where
  "clientJoinRoom r roomID s =
     (let c = sm_heap s r;
          cs = (case map_of (sm_rooms s) roomID of Some cs \<Rightarrow> cs | None \<Rightarrow> [])
      in s\<lparr>sm_rooms := AList.update roomID (AList.update (cl_ID c) r cs) (sm_rooms s),
           sm_heap := (sm_heap s)(r := c\<lparr>cl_Rooms := List.insert roomID (cl_Rooms c)\<rparr>)\<rparr>)"

definition clientLeaveRoom :: "nat \<Rightarrow> string \<Rightarrow> 'h socket_manager \<Rightarrow> 'h socket_manager" where
  "clientLeaveRoom r roomID s =
     (case map_of (sm_rooms s) roomID of
        None \<Rightarrow> s
      | Some _ \<Rightarrow>
          let c = sm_heap s r; s1 = drop_from_room (cl_ID c) roomID s
          in s1\<lparr>sm_heap := (sm_heap s1)(r := c\<lparr>cl_Rooms := removeAll roomID (cl_Rooms c)\<rparr>)\<rparr>)"

definition join_if_registered :: "string \<Rightarrow> string \<Rightarrow> 'h socket_manager \<Rightarrow> 'h socket_manager" where
  "join_if_registered roomID cid s =
     (case map_of (sm_clients s) cid of Some r \<Rightarrow> clientJoinRoom r roomID s | None \<Rightarrow> s)"

definition CreateUserRoom :: "string \<Rightarrow> string \<Rightarrow> 'h socket_manager \<Rightarrow> unit res \<times> 'h socket_manager" where
  "CreateUserRoom userID roomID s =
     (case map_of (sm_registry s) userID of
        None \<Rightarrow> (Err (EMsg ''user not connected''), s)
      | Some sl \<Rightarrow>
          if snd sl = 0 then (Err (EMsg ''user not connected''), s)
          else (Ok (), fold (join_if_registered roomID) (slice_elems s sl) s))"

section \<open>Sending\<close>

definition outbound :: "string \<Rightarrow> gval \<Rightarrow> blob option" where
  "outbound eventName data =
     map_option (\<lambda>j. Enc (JObj [(''event'', JStr eventName), (''data'', j)])) (to_json data)"

text \<open>A full buffer drops the message and unregisters the client, whose result is returned.\<close>

definition SendEvent ::
  "nat \<Rightarrow> string \<Rightarrow> gval \<Rightarrow> 'h socket_manager \<Rightarrow> unit res \<times> 'h socket_manager" where
  "SendEvent r eventName data s =
     (case outbound eventName data of
        None \<Rightarrow> (Err (EMsg ''json: unsupported value''), s)
      | Some msg \<Rightarrow>
          let c = sm_heap s r in
          if cl_Closed c then (Panic ''send on closed channel'', s)
          else if length (cl_Send c) < send_capacity
          then (Ok (), s\<lparr>sm_heap := (sm_heap s)(r := c\<lparr>cl_Send := cl_Send c @ [msg]\<rparr>)\<rparr>)
          else Unregister r s)"

text \<open>Send to a client identifier if it is registered, keeping the last error.\<close>

definition send_to_id ::
  "string \<Rightarrow> gval \<Rightarrow> string \<Rightarrow> unit res \<times> 'h socket_manager
     \<Rightarrow> (unit res \<times> 'h socket_manager) + (unit res \<times> 'h socket_manager)" where
  "send_to_id eventName data cid rs =
     (case rs of (lastErr, s) \<Rightarrow>
        (case map_of (sm_clients s) cid of
           None \<Rightarrow> Inr (lastErr, s)
         | Some r \<Rightarrow>
             (case SendEvent r eventName data s of
                (Ok _, s') \<Rightarrow> Inr (lastErr, s')
              | (Err e, s') \<Rightarrow> Inr (Err e, s')
              | (Panic p, s') \<Rightarrow> Inl (Panic p, s'))))"

definition flat_sum :: "'a + 'a \<Rightarrow> 'a" where
  "flat_sum x = (case x of Inl a \<Rightarrow> a | Inr a \<Rightarrow> a)"

text \<open>
  \<open>EmitToUser\<close> ranges over the slice it read: the length is fixed, the elements are read from the
  array as the loop reaches them.
\<close>

definition EmitToUser ::
  "string \<Rightarrow> string \<Rightarrow> gval \<Rightarrow> 'h socket_manager \<Rightarrow> unit res \<times> 'h socket_manager" where
  "EmitToUser userID eventName data s =
     (case map_of (sm_registry s) userID of
        None \<Rightarrow> (Err (EMsg ''user not connected''), s)
      | Some (a, n) \<Rightarrow>
          if n = 0 then (Err (EMsg ''user not connected''), s)
          else flat_sum (each (\<lambda>i rs. send_to_id eventName data (sm_arrays (snd rs) a ! i) rs)
                 [0..<n] (Ok (), s)))"

text \<open>
  The loop over a room's map visits the clients the room had: sending to one can only remove that
  one from the room.
\<close>

definition EmitToRoom ::
  "string \<Rightarrow> string \<Rightarrow> gval \<Rightarrow> 'h socket_manager \<Rightarrow> unit res \<times> 'h socket_manager" where
  "EmitToRoom roomID eventName data s =
     (case map_of (sm_rooms s) roomID of
        None \<Rightarrow> (Err (EMsg ''room not found''), s)
      | Some cs \<Rightarrow> flat_sum (each (send_to_id eventName data) (map fst cs) (Ok (), s)))"

definition EmitToAll :: "string \<Rightarrow> gval \<Rightarrow> 'h socket_manager \<Rightarrow> unit res \<times> 'h socket_manager" where
  "EmitToAll eventName data s =
     flat_sum (each (\<lambda>r rs. case SendEvent r eventName data (snd rs) of
         (Panic p, s') \<Rightarrow> Inl (Panic p, s') | (_, s') \<Rightarrow> Inr (Ok (), s'))
       (map snd (sm_clients s)) (Ok (), s))"

section \<open>Queries\<close>

definition IsUserConnected :: "string \<Rightarrow> 'h socket_manager \<Rightarrow> bool" where
  "IsUserConnected userID s =
     (case map_of (sm_registry s) userID of Some sl \<Rightarrow> snd sl > 0 | None \<Rightarrow> False)"

definition GetUserClientIDs :: "string \<Rightarrow> 'h socket_manager \<Rightarrow> string list" where
  "GetUserClientIDs userID s =
     (case map_of (sm_registry s) userID of Some sl \<Rightarrow> slice_elems s sl | None \<Rightarrow> [])"

section \<open>Event handlers\<close>

definition AddEventHandler :: "string \<Rightarrow> 'h \<Rightarrow> 'h socket_manager \<Rightarrow> 'h socket_manager" where
  "AddEventHandler eventName h s =
     (let hs = (case map_of (sm_handlers s) eventName of Some hs \<Rightarrow> hs | None \<Rightarrow> [])
      in s\<lparr>sm_handlers := AList.update eventName (hs @ [h]) (sm_handlers s)\<rparr>)"

text \<open>
  The removal compares the addresses of two local variables, the loop's and the parameter, which
  are different objects whatever handlers they hold.
\<close>

definition same_variable :: "'h \<Rightarrow> 'h \<Rightarrow> bool" where
  "same_variable loop_h param_h = False"

definition RemoveEventHandler :: "string \<Rightarrow> 'h \<Rightarrow> 'h socket_manager \<Rightarrow> 'h socket_manager" where
  "RemoveEventHandler eventName h s =
     (case map_of (sm_handlers s) eventName of
        None \<Rightarrow> s
      | Some hs \<Rightarrow>
          let hs' = (case find_index (\<lambda>x. same_variable x h) hs of
                 None \<Rightarrow> hs | Some i \<Rightarrow> take i hs @ drop (Suc i) hs)
          in s\<lparr>sm_handlers := (if hs' = [] then AList.delete eventName (sm_handlers s)
                              else AList.update eventName hs' (sm_handlers s))\<rparr>)"

definition ProcessMessage :: "nat \<Rightarrow> string \<Rightarrow> blob \<Rightarrow> 'h socket_manager \<Rightarrow> 'h socket_manager" where
  "ProcessMessage r eventName message s =
     (case map_of (sm_handlers s) eventName of
        None \<Rightarrow> s
      | Some hs \<Rightarrow> s\<lparr>sm_spawned := sm_spawned s @ map (\<lambda>h. (h, r, message)) hs\<rparr>)"

section \<open>Connections\<close>

text \<open>One message read by \<open>ReadPump\<close>; one that is not an event object is skipped.\<close>

definition read_message :: "nat \<Rightarrow> blob \<Rightarrow> 'h socket_manager \<Rightarrow> 'h socket_manager" where
  "read_message r message s =
     (case message of
        Raw _ \<Rightarrow> s
      | Enc j \<Rightarrow>
          (case (if jstruct j then jstr j ''event'' else None) of
             None \<Rightarrow> s | Some eventName \<Rightarrow> ProcessMessage r eventName message s))"

text \<open>The deferred function of \<open>ReadPump\<close>: unregister, close the send channel.\<close>

definition read_pump_exit :: "nat \<Rightarrow> 'h socket_manager \<Rightarrow> 'h socket_manager" where
  "read_pump_exit r s =
     (let s1 = snd (Unregister r s)
      in s1\<lparr>sm_heap := (sm_heap s1)(r := (sm_heap s1 r)\<lparr>cl_Closed := True\<rparr>)\<rparr>)"

text \<open>One round of \<open>WritePump\<close>: everything queued is written to the socket.\<close>

definition write_pump_flush :: "nat \<Rightarrow> 'h socket_manager \<Rightarrow> blob list \<times> 'h socket_manager" where
  "write_pump_flush r s =
     (cl_Send (sm_heap s r), s\<lparr>sm_heap := (sm_heap s)(r := (sm_heap s r)\<lparr>cl_Send := []\<rparr>)\<rparr>)"

text \<open>
  \<open>HandleWebSocket\<close>: \<open>auth\<close> is the result of the authentication function, \<open>upgraded\<close> whether the
  upgrade succeeds, \<open>uuid\<close> the new identifier and \<open>r\<close> the new object. The result is the HTTP error
  status, if any.
\<close>

definition HandleWebSocket ::
  "(nat \<Rightarrow> nat) \<Rightarrow> goerr + string \<Rightarrow> bool \<Rightarrow> string \<Rightarrow> nat \<Rightarrow> 'h socket_manager
     \<Rightarrow> int option \<times> 'h socket_manager" where
  "HandleWebSocket grow auth upgraded uuid r s =
     (case auth of
        Inl _ \<Rightarrow> (Some 401, s)
      | Inr userID \<Rightarrow>
          if \<not> upgraded then (None, s)
          else
            let s1 = s\<lparr>sm_heap := (sm_heap s)(r := NewClient uuid userID)\<rparr>;
                s2 = Register grow r s1;
                (_, s3) = SendEvent r ''connected''
                   (VMap [(''message'', VStr ''Connected to server''), (''clientId'', VStr uuid)]) s2
            in (None, s3))"

definition Shutdown :: "'h socket_manager \<Rightarrow> 'h socket_manager" where
  "Shutdown s = s\<lparr>sm_clients := [], sm_rooms := [], sm_registry := [], sm_handlers := []\<rparr>"

end
