(* ===== verification/SocketInvariant.thy ===== *)
theory SocketInvariant
  imports SocketManager
begin

text \<open>
  The consistency of the socket manager: its client map, rooms and user registry always tell the
  same story, whatever sequence of operations has run.
\<close>

text \<open>The client map points to clients of those identifiers.\<close>

definition clients_ok :: "'h socket_manager \<Rightarrow> bool" where
  "clients_ok s \<longleftrightarrow> distinct (map fst (sm_clients s))
     \<and> (\<forall>i r. map_of (sm_clients s) i = Some r \<longrightarrow> cl_ID (sm_heap s r) = i)"

text \<open>A room is never empty, and holds exactly the registered clients that have it as a room.\<close>

definition room_ok :: "'h socket_manager \<Rightarrow> bool" where
  "room_ok s \<longleftrightarrow>
     (\<forall>rid cs. map_of (sm_rooms s) rid = Some cs \<longrightarrow> cs \<noteq> [] \<and> distinct (map fst cs)
        \<and> (\<forall>i r. map_of cs i = Some r \<longrightarrow> map_of (sm_clients s) i = Some r
              \<and> rid \<in> set (cl_Rooms (sm_heap s r))))
   \<and> (\<forall>i r rid. map_of (sm_clients s) i = Some r \<longrightarrow> rid \<in> set (cl_Rooms (sm_heap s r))
        \<longrightarrow> (\<exists>cs. map_of (sm_rooms s) rid = Some cs \<and> map_of cs i = Some r))"

text \<open>
  A user's slice is not empty, has an array of its own and lists, once each, the registered clients
  of the user; every registered client with a user identifier is listed.
\<close>

definition slice_ok :: "'h socket_manager \<Rightarrow> string \<Rightarrow> nat \<times> nat \<Rightarrow> bool" where
  "slice_ok s u sl \<longleftrightarrow> u \<noteq> [] \<and> snd sl > 0 \<and> snd sl \<le> length (sm_arrays s (fst sl)) \<and> fst sl < sm_next s
     \<and> distinct (slice_elems s sl)
     \<and> set (slice_elems s sl) = {i. \<exists>r. map_of (sm_clients s) i = Some r \<and> cl_UserID (sm_heap s r) = u}"

definition registry_ok :: "'h socket_manager \<Rightarrow> bool" where
  "registry_ok s \<longleftrightarrow>
     (\<forall>u sl. map_of (sm_registry s) u = Some sl \<longrightarrow> slice_ok s u sl)
   \<and> (\<forall>i r. map_of (sm_clients s) i = Some r \<longrightarrow> cl_UserID (sm_heap s r) \<noteq> []
        \<longrightarrow> map_of (sm_registry s) (cl_UserID (sm_heap s r)) \<noteq> None)
   \<and> (\<forall>u u' sl sl'. map_of (sm_registry s) u = Some sl \<longrightarrow> map_of (sm_registry s) u' = Some sl'
        \<longrightarrow> fst sl = fst sl' \<longrightarrow> u = u')"

definition socket_inv :: "'h socket_manager \<Rightarrow> bool" where
  "socket_inv s \<longleftrightarrow> clients_ok s \<and> room_ok s \<and> registry_ok s"

lemma room_okD:
  assumes "room_ok s" "map_of (sm_rooms s) rid = Some cs"
  shows "cs \<noteq> [] \<and> distinct (map fst cs) \<and> (\<forall>i r. map_of cs i = Some r \<longrightarrow>
    map_of (sm_clients s) i = Some r \<and> rid \<in> set (cl_Rooms (sm_heap s r)))"
  using assms unfolding room_ok_def by blast

lemma room_cong:
  "sm_clients s' = sm_clients s \<Longrightarrow> sm_rooms s' = sm_rooms s \<Longrightarrow> sm_heap s' = sm_heap s \<Longrightarrow>
    room_ok s' = room_ok s"
  by (simp add: room_ok_def)

lemma registry_cong:
  assumes "sm_clients s' = sm_clients s" "sm_registry s' = sm_registry s" "sm_arrays s' = sm_arrays s"
    "sm_next s' = sm_next s" "\<forall>x. cl_UserID (sm_heap s' x) = cl_UserID (sm_heap s x)"
  shows "registry_ok s' = registry_ok s"
  using assms by (simp add: registry_ok_def slice_ok_def slice_elems_def)

lemma registry_okD: "registry_ok s \<Longrightarrow> map_of (sm_registry s) u = Some sl \<Longrightarrow> slice_ok s u sl"
  unfolding registry_ok_def by blast

lemma new_socket_manager_inv: "socket_inv new_socket_manager"
  by (simp add: socket_inv_def clients_ok_def room_ok_def registry_ok_def new_socket_manager_def)

lemma shutdown_inv: "socket_inv (Shutdown s)"
  by (simp add: socket_inv_def clients_ok_def room_ok_def registry_ok_def Shutdown_def)

lemmas alist_simps = AList.update_conv' AList.delete_conv' AList.distinct_update AList.distinct_delete

text \<open>The invariant does not depend on what the clients have in their buffers.\<close>

definition same_identity :: "(nat \<Rightarrow> client) \<Rightarrow> (nat \<Rightarrow> client) \<Rightarrow> bool" where
  "same_identity hp hp' \<longleftrightarrow> (\<forall>r. cl_ID (hp' r) = cl_ID (hp r) \<and> cl_UserID (hp' r) = cl_UserID (hp r)
     \<and> cl_Rooms (hp' r) = cl_Rooms (hp r))"

lemma heap_inv:
  "same_identity (sm_heap s) hp \<Longrightarrow> socket_inv (s\<lparr>sm_heap := hp\<rparr>) = socket_inv s"
  by (simp add: same_identity_def socket_inv_def clients_ok_def room_ok_def registry_ok_def slice_ok_def
      slice_elems_def)

lemma handlers_inv [simp]:
  "socket_inv (s\<lparr>sm_handlers := hs\<rparr>) = socket_inv s" "socket_inv (s\<lparr>sm_spawned := sp\<rparr>) = socket_inv s"
  by (simp_all add: socket_inv_def clients_ok_def room_ok_def registry_ok_def slice_ok_def slice_elems_def)

section \<open>Rooms\<close>

lemma join_inv:
  assumes "socket_inv s" "map_of (sm_clients s) (cl_ID (sm_heap s r)) = Some r"
  shows "socket_inv (clientJoinRoom r rid s)"
proof -
  let ?s = "clientJoinRoom r rid s" and ?i = "cl_ID (sm_heap s r)"
  have c: "clients_ok s" and ro: "room_ok s" and re: "registry_ok s"
    using assms(1) by (simp_all add: socket_inv_def)
  have f: "sm_clients ?s = sm_clients s" "sm_registry ?s = sm_registry s" "sm_arrays ?s = sm_arrays s"
    "sm_next ?s = sm_next s" "cl_ID (sm_heap ?s x) = cl_ID (sm_heap s x)"
    "cl_UserID (sm_heap ?s x) = cl_UserID (sm_heap s x)"
    "set (cl_Rooms (sm_heap ?s x)) = (if x = r then insert rid (set (cl_Rooms (sm_heap s r)))
       else set (cl_Rooms (sm_heap s x)))" for x
    by (simp_all add: clientJoinRoom_def Let_def)
  let ?old = "case map_of (sm_rooms s) rid of Some cs \<Rightarrow> cs | None \<Rightarrow> []"
  have rooms: "map_of (sm_rooms ?s) = (map_of (sm_rooms s))(rid \<mapsto> AList.update ?i r ?old)"
    by (simp add: clientJoinRoom_def Let_def alist_simps)
  have old: "distinct (map fst ?old) \<and> (\<forall>i r'. map_of ?old i = Some r' \<longrightarrow>
      map_of (sm_clients s) i = Some r' \<and> rid \<in> set (cl_Rooms (sm_heap s r')))"
  proof (cases "map_of (sm_rooms s) rid")
    case (Some cs)
    from room_okD [OF ro Some] show ?thesis unfolding Some option.case by blast
  qed simp
  have "clients_ok ?s" using c by (simp add: clients_ok_def f)
  moreover have "registry_ok ?s" using re by (simp add: registry_ok_def slice_ok_def slice_elems_def f)
  moreover have "room_ok ?s"
    unfolding room_ok_def
  proof (intro conjI allI impI)
    fix rd cs assume cs: "map_of (sm_rooms ?s) rd = Some cs"
    show "cs \<noteq> []" "distinct (map fst cs)"
      using cs ro old unfolding rooms by (auto simp: room_ok_def alist_simps split: if_splits)
    fix i x assume "map_of cs i = Some x"
    note i = this
    have "map_of (sm_clients s) i = Some x \<and> (if x = r then rd = rid \<or> rd \<in> set (cl_Rooms (sm_heap s r))
        else rd \<in> set (cl_Rooms (sm_heap s x)))"
    proof (cases "rd = rid")
      case True
      with cs have "cs = AList.update ?i r ?old" by (simp add: rooms)
      with i have "map_of (AList.update ?i r ?old) i = Some x" by simp
      then have "i = ?i \<and> x = r \<or> map_of ?old i = Some x" by (auto simp: AList.update_conv' split: if_splits)
      then show ?thesis
      proof
        assume "map_of ?old i = Some x"
        with old have "map_of (sm_clients s) i = Some x \<and> rid \<in> set (cl_Rooms (sm_heap s x))" by blast
        with True show ?thesis by simp
      qed (use assms(2) True in simp)
    next
      case False
      with cs have "map_of (sm_rooms s) rd = Some cs" by (simp add: rooms)
      with i room_okD [OF ro this] show ?thesis by auto
    qed
    then show "map_of (sm_clients ?s) i = Some x" "rd \<in> set (cl_Rooms (sm_heap ?s x))"
      by (auto simp add: f(1) f(7) split: if_splits)
  next
    fix i x rd assume a: "map_of (sm_clients ?s) i = Some x" "rd \<in> set (cl_Rooms (sm_heap ?s x))"
    have i: "cl_ID (sm_heap s x) = i" using c a(1) by (simp add: clients_ok_def f)
    show "\<exists>cs. map_of (sm_rooms ?s) rd = Some cs \<and> map_of cs i = Some x"
    proof (cases "x = r \<and> rd = rid")
      case True
      with i show ?thesis by (simp add: rooms alist_simps)
    next
      case False
      with a have "rd \<in> set (cl_Rooms (sm_heap s x))" by (auto simp: f split: if_splits)
      with a(1) ro obtain cs where "map_of (sm_rooms s) rd = Some cs" "map_of cs i = Some x"
        unfolding room_ok_def f by blast
      moreover have "i \<noteq> ?i \<or> x = r" using a(1) assms(2) by (auto simp: f)
      ultimately show ?thesis by (auto simp: rooms alist_simps)
    qed
  qed
  ultimately show ?thesis by (simp add: socket_inv_def)
qed

lemma drop_from_room_simps [simp]:
  "sm_clients (drop_from_room i rid s) = sm_clients s" "sm_heap (drop_from_room i rid s) = sm_heap s"
  "sm_registry (drop_from_room i rid s) = sm_registry s" "sm_arrays (drop_from_room i rid s) = sm_arrays s"
  "sm_next (drop_from_room i rid s) = sm_next s" "sm_handlers (drop_from_room i rid s) = sm_handlers s"
  by (simp_all add: drop_from_room_def Let_def split: option.split)

definition room_without :: "string \<Rightarrow> (string \<times> nat) list option \<Rightarrow> (string \<times> nat) list option" where
  "room_without i cs = (case cs of None \<Rightarrow> None
     | Some cs \<Rightarrow> if AList.delete i cs = [] then None else Some (AList.delete i cs))"

lemma room_without_idem [simp]: "room_without i (room_without i cs) = room_without i cs"
  by (auto simp: room_without_def delete_idem split: option.split)

lemma drop_from_room_rooms:
  "map_of (sm_rooms (drop_from_room i rid s))
     = (map_of (sm_rooms s))(rid := room_without i (map_of (sm_rooms s) rid))"
  by (auto simp: drop_from_room_def Let_def room_without_def alist_simps fun_upd_idem split: option.split)

lemma fold_drop_rooms:
  "map_of (sm_rooms (fold (drop_from_room i) rids s)) rid
     = (if rid \<in> set rids then room_without i (map_of (sm_rooms s) rid) else map_of (sm_rooms s) rid)"
  by (induction rids arbitrary: s) (auto simp: drop_from_room_rooms)

lemma fold_drop_simps [simp]:
  "sm_clients (fold (drop_from_room i) rids s) = sm_clients s"
  "sm_heap (fold (drop_from_room i) rids s) = sm_heap s"
  "sm_registry (fold (drop_from_room i) rids s) = sm_registry s"
  "sm_arrays (fold (drop_from_room i) rids s) = sm_arrays s"
  "sm_next (fold (drop_from_room i) rids s) = sm_next s"
  "sm_handlers (fold (drop_from_room i) rids s) = sm_handlers s"
  by (induction rids arbitrary: s) simp_all

lemma room_without_Some:
  assumes "room_without i (Some cs0) = Some cs" "distinct (map fst cs0)"
  shows "cs \<noteq> []" "distinct (map fst cs)" "map_of cs = (map_of cs0)(i := None)"
  using assms by (auto simp: room_without_def alist_simps split: if_splits)

lemma room_without_keeps:
  "map_of cs j = Some r \<Longrightarrow> j \<noteq> i \<Longrightarrow> \<exists>cs'. room_without i (Some cs) = Some cs' \<and> map_of cs' j = Some r"
proof -
  assume "map_of cs j = Some r" "j \<noteq> i"
  then have "map_of (AList.delete i cs) j = Some r" by simp
  then show ?thesis by (auto simp: room_without_def)
qed

text \<open>The effect on the rooms of a client leaving some of its rooms.\<close>

lemma leave_rooms_ok:
  assumes "room_ok s" "clients_ok s" "map_of (sm_clients s) i = Some r"
    and "\<forall>x. x \<noteq> r \<longrightarrow> cl_Rooms (hp x) = cl_Rooms (sm_heap s x)"
    and "set (cl_Rooms (hp r)) = set (cl_Rooms (sm_heap s r)) - set rids"
    and "cm = (if set (cl_Rooms (sm_heap s r)) \<subseteq> set rids then cl else sm_clients s)"
    and "map_of cl = (map_of (sm_clients s))(i := None) \<or> map_of cl = map_of (sm_clients s)"
  shows "room_ok (s'\<lparr>sm_rooms := sm_rooms (fold (drop_from_room i) rids s), sm_heap := hp, sm_clients := cm\<rparr>)"
    (is "room_ok ?s")
  unfolding room_ok_def
proof (intro conjI allI impI)
  have rooms: "map_of (sm_rooms ?s) rid
     = (if rid \<in> set rids then room_without i (map_of (sm_rooms s) rid) else map_of (sm_rooms s) rid)" for rid
    by (simp add: fold_drop_rooms)
  have ptr: "j = i" if "map_of (sm_clients s) j = Some r" for j
    using assms(2,3) that unfolding clients_ok_def by metis
  have cm: "map_of cm j = map_of (sm_clients s) j \<or> (j = i \<and> map_of cm j = None
      \<and> set (cl_Rooms (sm_heap s r)) \<subseteq> set rids)" for j
    using assms(6,7) by (cases "j = i") auto
  {
    fix rid cs assume a: "map_of (sm_rooms ?s) rid = Some cs"
    obtain cs0 where cs0: "map_of (sm_rooms s) rid = Some cs0"
      using a unfolding rooms by (auto simp: room_without_def split: if_splits option.splits)
    note o = room_okD [OF assms(1) cs0]
    have "cs \<noteq> [] \<and> distinct (map fst cs)
        \<and> map_of cs = (if rid \<in> set rids then (map_of cs0)(i := None) else map_of cs0)"
    proof (cases "rid \<in> set rids")
      case True
      with a [unfolded rooms] cs0 have "room_without i (Some cs0) = Some cs" by simp
      from room_without_Some [OF this] o True show ?thesis by simp
    next
      case False
      with a [unfolded rooms] cs0 o show ?thesis by simp
    qed
    then have cs: "cs \<noteq> []" "distinct (map fst cs)"
      "map_of cs = (if rid \<in> set rids then (map_of cs0)(i := None) else map_of cs0)" by blast+
    show "cs \<noteq> []" "distinct (map fst cs)" using cs by blast+
    fix j x assume j: "map_of cs j = Some x"
    then have j0: "map_of cs0 j = Some x" "rid \<in> set rids \<Longrightarrow> j \<noteq> i"
      unfolding cs(3) by (auto split: if_splits)
    with o have m: "map_of (sm_clients s) j = Some x" "rid \<in> set (cl_Rooms (sm_heap s x))" by blast+
    have "j \<noteq> i \<or> \<not> set (cl_Rooms (sm_heap s r)) \<subseteq> set rids"
      using j0(2) m assms(3) by auto
    with cm [of j] m(1) show "map_of (sm_clients ?s) j = Some x" by auto
    show "rid \<in> set (cl_Rooms (sm_heap ?s x))"
    proof (cases "x = r")
      case True
      with ptr m(1) have "j = i" by blast
      with j0(2) True m(2) assms(5) show ?thesis by auto
    next
      case False
      with assms(4) m(2) show ?thesis by simp
    qed
  }
  fix j x rid assume a: "map_of (sm_clients ?s) j = Some x" "rid \<in> set (cl_Rooms (sm_heap ?s x))"
  with cm [of j] have j: "map_of (sm_clients s) j = Some x" by auto
  have mem: "rid \<in> set (cl_Rooms (sm_heap s x))" "x = r \<Longrightarrow> rid \<notin> set rids"
    using a(2) assms(4,5) by (cases "x = r"; auto)+
  with assms(1) j obtain cs where cs: "map_of (sm_rooms s) rid = Some cs" "map_of cs j = Some x"
    unfolding room_ok_def by blast
  show "\<exists>cs. map_of (sm_rooms ?s) rid = Some cs \<and> map_of cs j = Some x"
  proof (cases "rid \<in> set rids")
    case True
    with mem(2) have "x \<noteq> r" by blast
    with j assms(3) have "j \<noteq> i" by auto
    from room_without_keeps [OF cs(2) this] True cs(1) show ?thesis unfolding rooms by simp
  next
    case False
    with cs show ?thesis unfolding rooms by simp
  qed
qed

lemma leave_inv:
  assumes "socket_inv s" "map_of (sm_clients s) (cl_ID (sm_heap s r)) = Some r"
  shows "socket_inv (clientLeaveRoom r rid s)"
proof (cases "map_of (sm_rooms s) rid")
  case (Some cs)
  let ?i = "cl_ID (sm_heap s r)"
  let ?hp = "(sm_heap s)(r := (sm_heap s r)\<lparr>cl_Rooms := removeAll rid (cl_Rooms (sm_heap s r))\<rparr>)"
  have c: "clients_ok s" and ro: "room_ok s" and re: "registry_ok s"
    using assms(1) by (simp_all add: socket_inv_def)
  have eq: "clientLeaveRoom r rid s = (drop_from_room ?i rid s)\<lparr>sm_rooms := sm_rooms (fold (drop_from_room ?i) [rid] s),
      sm_heap := ?hp, sm_clients := sm_clients s\<rparr>"
    by (simp add: clientLeaveRoom_def Some Let_def)
  have "room_ok (clientLeaveRoom r rid s)"
    unfolding eq by (rule leave_rooms_ok [OF ro c assms(2), where cl = "sm_clients s"]) auto
  moreover have "clients_ok (clientLeaveRoom r rid s)" using c by (simp add: eq clients_ok_def)
  moreover have "registry_ok (clientLeaveRoom r rid s)"
    using re by (subst registry_cong [of _ s]) (simp_all add: eq)
  ultimately show ?thesis by (simp add: socket_inv_def)
qed (simp add: clientLeaveRoom_def assms(1))

section \<open>The user registry\<close>

lemma find_index_Some:
  "find_index P xs = Some i \<Longrightarrow> i < length xs \<and> P (xs ! i) \<and> (\<forall>j < i. \<not> P (xs ! j))"
proof (induction xs arbitrary: i)
  case (Cons x xs)
  show ?case
  proof (cases "P x")
    case False
    with Cons.prems obtain j where j: "find_index P xs = Some j" "i = Suc j" by auto
    with Cons.IH [OF j(1)] False show ?thesis by (auto simp: less_Suc_eq_0_disj)
  qed (use Cons.prems in simp)
qed simp

lemma find_index_None: "find_index P xs = None \<longleftrightarrow> (\<forall>x \<in> set xs. \<not> P x)"
  by (induction xs) auto

lemma take_drop_remove1:
  assumes "distinct xs" "i < length xs"
  shows "take i xs @ drop (Suc i) xs = remove1 (xs ! i) xs"
proof -
  have xs: "xs = take i xs @ xs ! i # drop (Suc i) xs" by (rule id_take_nth_drop [OF assms(2)])
  with assms(1) have "xs ! i \<notin> set (take i xs)"
    by (metis distinct_append disjoint_iff list.set_intros(1))
  then have "remove1 (xs ! i) (take i xs @ xs ! i # drop (Suc i) xs) = take i xs @ drop (Suc i) xs"
    by (simp add: remove1_append)
  with xs show ?thesis by simp
qed

text \<open>What removing a client from a user's slice leaves in the slice.\<close>

lemma remove_slice_elems:
  assumes "snd sl \<le> length (sm_arrays s (fst sl))" "distinct (slice_elems s sl)"
    and "find_index (\<lambda>x. x = cid) (slice_elems s sl) = Some i" "remove_slice sl i s = (sl', s')"
  shows "slice_elems s' sl' = remove1 cid (slice_elems s sl)" "snd sl' = snd sl - 1" "fst sl' = fst sl"
    "length (sm_arrays s' (fst sl)) = length (sm_arrays s (fst sl))"
    "b \<noteq> fst sl \<Longrightarrow> sm_arrays s' b = sm_arrays s b"
    "sm_clients s' = sm_clients s" "sm_heap s' = sm_heap s" "sm_next s' = sm_next s"
    "sm_registry s' = sm_registry s" "sm_rooms s' = sm_rooms s" "sm_handlers s' = sm_handlers s"
proof -
  obtain a n where sl: "sl = (a, n)" by (metis surj_pair)
  let ?arr = "sm_arrays s a" and ?xs = "slice_elems s sl"
  from find_index_Some [OF assms(3)] have i: "i < length ?xs" "?xs ! i = cid" by auto
  have n: "n \<le> length ?arr" "length ?xs = n" using assms(1) by (simp_all add: sl slice_elems_def)
  from assms(4) have e: "sl' = (a, n - 1)" "s' = s\<lparr>sm_arrays := (sm_arrays s)(a := take i ?arr
      @ drop (Suc i) (take n ?arr) @ drop (n - 1) ?arr)\<rparr>" by (auto simp: sl remove_slice_def)
  have "take i ?arr = take i ?xs" using i(1) n by (simp add: sl slice_elems_def min_def)
  then have "slice_elems s' sl' = take (n - 1) ((take i ?xs @ drop (Suc i) ?xs) @ drop (n - 1) ?arr)"
    by (simp add: e slice_elems_def sl)
  also have "take i ?xs @ drop (Suc i) ?xs = remove1 cid ?xs"
    using take_drop_remove1 [OF assms(2) i(1)] i(2) by simp
  also have "take (n - 1) (remove1 cid ?xs @ drop (n - 1) ?arr) = remove1 cid ?xs"
    using i n by (simp add: length_remove1) (metis nth_mem)
  finally show "slice_elems s' sl' = remove1 cid ?xs" .
  show "length (sm_arrays s' (fst sl)) = length (sm_arrays s (fst sl))"
    using i(1) n by (simp add: e sl)
qed (use assms(4) in \<open>auto simp: remove_slice_def split: prod.splits\<close>)

lemma drop_from_registry_ok:
  assumes "registry_ok s" "clients_ok s" "map_of (sm_clients s) i = Some r"
  defines "t \<equiv> drop_from_registry i (cl_UserID (sm_heap s r)) s"
  shows "registry_ok (t\<lparr>sm_clients := AList.delete i (sm_clients t)\<rparr>)"
    and "sm_clients t = sm_clients s" "sm_heap t = sm_heap s" "sm_rooms t = sm_rooms s"
    "sm_handlers t = sm_handlers s"
proof -
  let ?u = "cl_UserID (sm_heap s r)"
  have all: "registry_ok (t\<lparr>sm_clients := AList.delete i (sm_clients t)\<rparr>)
    \<and> sm_clients t = sm_clients s \<and> sm_heap t = sm_heap s \<and> sm_rooms t = sm_rooms s
    \<and> sm_handlers t = sm_handlers s"
  proof (cases "?u = []")
    case True
    have "{j. \<exists>x. map_of (AList.delete i (sm_clients s)) j = Some x \<and> cl_UserID (sm_heap s x) = u}
        = {j. \<exists>x. map_of (sm_clients s) j = Some x \<and> cl_UserID (sm_heap s x) = u}" if "u \<noteq> []" for u
      using that True assms(3) by (auto simp: AList.delete_conv')
    with assms(1) True show ?thesis
      by (auto simp: t_def drop_from_registry_def registry_ok_def slice_ok_def slice_elems_def
          AList.delete_conv')
  next
    case False
    with assms(1,3) obtain sl where sl: "map_of (sm_registry s) ?u = Some sl"
      unfolding registry_ok_def by blast
    with assms(1) have ok: "slice_ok s ?u sl" unfolding registry_ok_def by blast
    then have "i \<in> set (slice_elems s sl)" using assms(3) unfolding slice_ok_def by blast
    then obtain k where k: "find_index (\<lambda>x. x = i) (slice_elems s sl) = Some k"
      using find_index_None [of "\<lambda>x. x = i"] by fastforce
    obtain sl' s1 where rs: "remove_slice sl k s = (sl', s1)" by (metis surj_pair)
    from ok have "snd sl \<le> length (sm_arrays s (fst sl))" "distinct (slice_elems s sl)"
      by (simp_all add: slice_ok_def)
    note rm = remove_slice_elems [OF this k rs]
    have t: "t = s1\<lparr>sm_registry := (if snd sl' = 0 then AList.delete ?u (sm_registry s1)
        else AList.update ?u sl' (sm_registry s1))\<rparr>"
      using False by (simp add: t_def drop_from_registry_def sl k rs)
    have reg: "map_of (sm_registry t) = (map_of (sm_registry s))(?u := (if snd sl' = 0 then None else Some sl'))"
      by (simp add: t rm AList.delete_conv' AList.update_conv')
    have tf: "sm_clients t = sm_clients s" "sm_heap t = sm_heap s" "sm_rooms t = sm_rooms s"
      "sm_handlers t = sm_handlers s" "sm_next t = sm_next s" "sm_arrays t = sm_arrays s1"
      by (simp_all add: t rm)
    let ?t = "t\<lparr>sm_clients := AList.delete i (sm_clients t)\<rparr>" and ?xs = "slice_elems s sl"
    have cl: "map_of (sm_clients ?t) = (map_of (sm_clients s))(i := None)"
      by (simp add: tf AList.delete_conv')
    have elems: "slice_elems ?t sl' = remove1 i ?xs" using rm(1) by (simp add: slice_elems_def tf(6))
    have sets: "{j. \<exists>x. map_of (sm_clients ?t) j = Some x \<and> cl_UserID (sm_heap ?t x) = u}
        = {j. \<exists>x. map_of (sm_clients s) j = Some x \<and> cl_UserID (sm_heap s x) = u} - {i}" for u
      unfolding cl by (auto simp: tf(2))
    have owner: "fst sl2 \<noteq> fst sl" if "map_of (sm_registry s) u = Some sl2" "u \<noteq> ?u" for u sl2
      using assms(1) that sl unfolding registry_ok_def by blast
    have len: "snd sl' = length (remove1 i ?xs)"
    proof -
      have "length ?xs = snd sl" using ok by (simp add: slice_ok_def slice_elems_def)
      with \<open>i \<in> set ?xs\<close> show ?thesis by (simp add: rm(2) length_remove1)
    qed
    have "registry_ok ?t"
      unfolding registry_ok_def
    proof (intro conjI allI impI)
      fix u sl2 assume "map_of (sm_registry ?t) u = Some sl2"
      then have u: "if u = ?u then snd sl' \<noteq> 0 \<and> sl2 = sl' else map_of (sm_registry s) u = Some sl2"
        by (auto simp: reg split: if_splits)
      show "slice_ok ?t u sl2"
      proof (cases "u = ?u")
        case True
        have "snd sl - Suc 0 \<le> length (sm_arrays s (fst sl))" using ok unfolding slice_ok_def by linarith
        with True u ok elems sets [of u] show ?thesis unfolding slice_ok_def
          by (simp add: rm tf(5,6))
      next
        case False
        with u have "slice_ok s u sl2" using registry_okD [OF assms(1)] by auto
        moreover have "slice_elems ?t sl2 = slice_elems s sl2" "sm_arrays ?t (fst sl2) = sm_arrays s (fst sl2)"
          using owner [of u sl2] u False rm(5) by (simp_all add: slice_elems_def tf(6))
        moreover have "i \<notin> {j. \<exists>x. map_of (sm_clients s) j = Some x \<and> cl_UserID (sm_heap s x) = u}"
          using assms(3) False by auto
        ultimately show ?thesis unfolding slice_ok_def sets by (simp add: tf(5))
      qed
    next
      fix j x assume j: "map_of (sm_clients ?t) j = Some x" "cl_UserID (sm_heap ?t x) \<noteq> []"
      then have j': "j \<noteq> i" "map_of (sm_clients s) j = Some x" unfolding cl by (auto split: if_splits)
      show "map_of (sm_registry ?t) (cl_UserID (sm_heap ?t x)) \<noteq> None"
      proof (cases "cl_UserID (sm_heap s x) = ?u")
        case True
        with j' ok have "j \<in> set (remove1 i ?xs)" unfolding slice_ok_def by auto
        then have "remove1 i ?xs \<noteq> []" by auto
        then show ?thesis using True len by (simp add: reg tf(2))
      next
        case False
        with j j' assms(1) show ?thesis unfolding registry_ok_def by (simp add: reg tf(2))
      qed
    next
      fix u u' sl1 sl2
      assume "map_of (sm_registry ?t) u = Some sl1" "map_of (sm_registry ?t) u' = Some sl2"
        and e: "fst sl1 = fst sl2"
      moreover have "\<exists>sl0. map_of (sm_registry s) v = Some sl0 \<and> fst sl0 = fst slv"
        if "map_of (sm_registry ?t) v = Some slv" for v slv
        using that sl rm(3) by (cases "v = ?u") (simp_all add: reg split: if_splits)
      ultimately obtain sl3 sl4 where "map_of (sm_registry s) u = Some sl3" "map_of (sm_registry s) u' = Some sl4"
        "fst sl3 = fst sl1" "fst sl4 = fst sl2" by metis
      with e assms(1) show "u = u'" unfolding registry_ok_def by metis
    qed
    with tf show ?thesis by blast
  qed
  then show "registry_ok (t\<lparr>sm_clients := AList.delete i (sm_clients t)\<rparr>)"
    and "sm_clients t = sm_clients s" "sm_heap t = sm_heap s" "sm_rooms t = sm_rooms s"
    "sm_handlers t = sm_handlers s" by blast+
qed

lemma room_ok_unreferenced:
  assumes "room_ok s" "\<And>j. map_of (sm_clients s) j \<noteq> Some r" "\<And>x. x \<noteq> r \<Longrightarrow> hp x = sm_heap s x"
  shows "room_ok (s\<lparr>sm_heap := hp\<rparr>)"
proof -
  have eq: "hp x = sm_heap s x" if "map_of (sm_clients s) j = Some x" for j x
    using that assms(2,3) by metis
  show ?thesis
    unfolding room_ok_def
  proof (intro conjI allI impI)
    fix rid cs assume "map_of (sm_rooms (s\<lparr>sm_heap := hp\<rparr>)) rid = Some cs"
    then have "map_of (sm_rooms s) rid = Some cs" by simp
    note o = room_okD [OF assms(1) this]
    from o show "cs \<noteq> []" "distinct (map fst cs)" by blast+
    fix i x assume "map_of cs i = Some x"
    with o have "map_of (sm_clients s) i = Some x" "rid \<in> set (cl_Rooms (sm_heap s x))" by blast+
    then show "map_of (sm_clients (s\<lparr>sm_heap := hp\<rparr>)) i = Some x"
      "rid \<in> set (cl_Rooms (sm_heap (s\<lparr>sm_heap := hp\<rparr>) x))" by (simp_all add: eq)
  next
    fix i x rid assume "map_of (sm_clients (s\<lparr>sm_heap := hp\<rparr>)) i = Some x"
      "rid \<in> set (cl_Rooms (sm_heap (s\<lparr>sm_heap := hp\<rparr>) x))"
    then have "map_of (sm_clients s) i = Some x" "rid \<in> set (cl_Rooms (sm_heap s x))"
      by (simp_all add: eq)
    with assms(1) show "\<exists>cs. map_of (sm_rooms (s\<lparr>sm_heap := hp\<rparr>)) rid = Some cs \<and> map_of cs i = Some x"
      unfolding room_ok_def by simp
  qed
qed

lemma Unregister_registered:
  assumes "socket_inv s" "map_of (sm_clients s) (cl_ID (sm_heap s r)) = Some r"
  obtains s' where "Unregister r s = (Ok (), s')" "socket_inv s'"
    "map_of (sm_clients s') = (map_of (sm_clients s))(cl_ID (sm_heap s r) := None)"
    "sm_heap s' = sm_heap s" "sm_handlers s' = sm_handlers s"
proof -
  let ?i = "cl_ID (sm_heap s r)" and ?rs = "cl_Rooms (sm_heap s r)"
  have c: "clients_ok s" and ro: "room_ok s" and re: "registry_ok s"
    using assms(1) by (simp_all add: socket_inv_def)
  let ?s1 = "fold (drop_from_room ?i) ?rs s"
  let ?s2 = "drop_from_registry ?i (cl_UserID (sm_heap ?s1 r)) ?s1"
  let ?t = "?s2\<lparr>sm_clients := AList.delete ?i (sm_clients ?s2)\<rparr>"
  have re1: "registry_ok ?s1" using re by (subst registry_cong [of _ s]) simp_all
  have c1: "clients_ok ?s1" using c by (simp add: clients_ok_def)
  have m1: "map_of (sm_clients ?s1) ?i = Some r" using assms(2) by simp
  note d = drop_from_registry_ok [OF re1 c1 m1]
  have u: "Unregister r s = (Ok (), ?t)" using assms(2) by (simp add: Unregister_def Let_def)
  let ?hp = "(sm_heap s)(r := (sm_heap s r)\<lparr>cl_Rooms := []\<rparr>)"
  let ?D = "AList.delete ?i (sm_clients s)"
  let ?u = "?s2\<lparr>sm_rooms := sm_rooms ?s1, sm_heap := ?hp, sm_clients := ?D\<rparr>"
  have t: "sm_rooms ?t = sm_rooms ?s1" "sm_heap ?t = sm_heap s" "sm_clients ?t = ?D"
    "sm_handlers ?t = sm_handlers s"
    using d(2-5) by simp_all
  have "room_ok ?u"
    by (rule leave_rooms_ok [OF ro c assms(2), where cl = ?D]) (auto simp: AList.delete_conv')
  moreover have "map_of ?D j \<noteq> Some r" for j
  proof
    assume j: "map_of ?D j = Some r"
    then have "j \<noteq> ?i" "map_of (sm_clients s) j = Some r"
      by (simp_all add: AList.delete_conv' split: if_splits)
    with c show False unfolding clients_ok_def by blast
  qed
  ultimately have "room_ok (?u\<lparr>sm_heap := sm_heap s\<rparr>)"
    by (intro room_ok_unreferenced [where r = r]) auto
  then have "room_ok ?t" by (subst room_cong [where s = "?u\<lparr>sm_heap := sm_heap s\<rparr>"])
    (simp_all add: d(2-5) [simplified])
  moreover have "clients_ok ?t" using c
    unfolding clients_ok_def t by (simp add: AList.distinct_delete AList.delete_conv')
  moreover have "registry_ok ?t" using d(1) .
  ultimately have "socket_inv ?t" by (simp add: socket_inv_def)
  with u show ?thesis
    by (intro that [of ?t]) (simp_all only: t AList.delete_conv')
qed

lemma append_slice_ok:
  assumes "append_slice grow sl x s = (sl', s')" "snd sl \<le> length (sm_arrays s (fst sl))" "fst sl < sm_next s"
  shows "slice_elems s' sl' = slice_elems s sl @ [x]" "snd sl' = Suc (snd sl)"
    "snd sl' \<le> length (sm_arrays s' (fst sl'))" "fst sl' < sm_next s'" "sm_next s \<le> sm_next s'"
    "b < sm_next s \<Longrightarrow> b \<noteq> fst sl \<Longrightarrow> sm_arrays s' b = sm_arrays s b"
    "fst sl' = fst sl \<or> fst sl' = sm_next s"
    "sm_clients s' = sm_clients s" "sm_heap s' = sm_heap s" "sm_registry s' = sm_registry s"
    "sm_rooms s' = sm_rooms s" "sm_handlers s' = sm_handlers s"
proof -
  obtain a n where sl: "sl = (a, n)" by (metis surj_pair)
  have e: "n < length (sm_arrays s a) \<Longrightarrow> take (Suc n) ((sm_arrays s a)[n := x]) = take n (sm_arrays s a) @ [x]"
    by (simp add: take_Suc_conv_app_nth)
  show "slice_elems s' sl' = slice_elems s sl @ [x]" "snd sl' = Suc (snd sl)"
    "snd sl' \<le> length (sm_arrays s' (fst sl'))" "fst sl' < sm_next s'" "sm_next s \<le> sm_next s'"
    "b < sm_next s \<Longrightarrow> b \<noteq> fst sl \<Longrightarrow> sm_arrays s' b = sm_arrays s b"
    "fst sl' = fst sl \<or> fst sl' = sm_next s"
    "sm_clients s' = sm_clients s" "sm_heap s' = sm_heap s" "sm_registry s' = sm_registry s"
    "sm_rooms s' = sm_rooms s" "sm_handlers s' = sm_handlers s"
    using assms
    by (auto simp: sl append_slice_def alloc_slice_def slice_elems_def e split: if_splits)
qed

text \<open>A new client: its object and identifier are in use nowhere.\<close>

definition fresh_client :: "string \<Rightarrow> nat \<Rightarrow> 'h socket_manager \<Rightarrow> bool" where
  "fresh_client uuid r s \<longleftrightarrow> map_of (sm_clients s) uuid = None \<and> (\<forall>j. map_of (sm_clients s) j \<noteq> Some r)"

lemma NewClient_sel [simp]:
  "cl_ID (NewClient i u) = i" "cl_UserID (NewClient i u) = u" "cl_Rooms (NewClient i u) = []"
  "cl_Send (NewClient i u) = []" "cl_Closed (NewClient i u) = False"
  by (simp_all add: NewClient_def)

lemma Register_inv:
  fixes u grow
  assumes "socket_inv s" "fresh_client uuid r s"
  defines "t \<equiv> Register grow r (s\<lparr>sm_heap := (sm_heap s)(r := NewClient uuid u)\<rparr>)"
  shows "socket_inv t" "map_of (sm_clients t) = (map_of (sm_clients s))(uuid \<mapsto> r)"
    "sm_heap t = (sm_heap s)(r := NewClient uuid u)"
proof -
  have c: "clients_ok s" and ro: "room_ok s" and re: "registry_ok s"
    using assms(1) by (simp_all add: socket_inv_def)
  have new: "map_of (sm_clients s) uuid = None" "\<And>j. map_of (sm_clients s) j \<noteq> Some r"
    using assms(2) by (simp_all add: fresh_client_def)
  let ?hp = "(sm_heap s)(r := NewClient uuid u)"
  let ?s1 = "s\<lparr>sm_heap := ?hp, sm_clients := AList.update uuid r (sm_clients s)\<rparr>"
  have hp: "?hp x = sm_heap s x" if "map_of (sm_clients s) j = Some x" for j x using new that by auto
  have cl: "map_of (AList.update uuid r (sm_clients s)) = (map_of (sm_clients s))(uuid \<mapsto> r)"
    by (simp add: AList.update_conv')
  \<comment> \<open>the fields other than the registry\<close>
  define sl0 where "sl0 = (case map_of (sm_registry s) u of Some sl \<Rightarrow> (sl, ?s1) | None \<Rightarrow> alloc_slice [] 0 ?s1)"
  obtain sl s2 where sl: "sl0 = (sl, s2)" by (metis surj_pair)
  obtain sl' s3 where ap: "append_slice grow sl uuid s2 = (sl', s3)" by (metis surj_pair)
  have t: "t = (if u = [] then ?s1 else s3\<lparr>sm_registry := AList.update u sl' (sm_registry s3)\<rparr>)"
    using sl ap by (simp add: t_def Register_def sl0_def Let_def cong: option.case_cong)
  have s2: "sm_clients s2 = sm_clients ?s1" "sm_heap s2 = ?hp" "sm_registry s2 = sm_registry s"
    "sm_rooms s2 = sm_rooms s" "sm_handlers s2 = sm_handlers s" "sm_next s \<le> sm_next s2"
    "b < sm_next s \<Longrightarrow> sm_arrays s2 b = sm_arrays s b" for b
    using sl unfolding sl0_def by (auto simp: alloc_slice_def split: option.splits)
  have slok: "snd sl \<le> length (sm_arrays s2 (fst sl))" "fst sl < sm_next s2"
    "map_of (sm_registry s) u = None \<Longrightarrow> slice_elems s2 sl = [] \<and> fst sl = sm_next s"
    "map_of (sm_registry s) u = Some sl1 \<Longrightarrow> sl = sl1 \<and> slice_elems s2 sl = slice_elems s sl1" for sl1
    using sl registry_okD [OF re, of u] unfolding sl0_def
    by (auto simp: alloc_slice_def slice_elems_def slice_ok_def split: option.splits)
  note a = append_slice_ok [OF ap slok(1,2)]
  show heap: "sm_heap t = ?hp" by (simp add: t s2 a)
  have clt: "sm_clients t = AList.update uuid r (sm_clients s)" by (simp add: t s2 a)
  then show tc: "map_of (sm_clients t) = (map_of (sm_clients s))(uuid \<mapsto> r)" by (simp add: cl)
  have rt: "sm_rooms t = sm_rooms s" by (simp add: t s2 a)
  have "clients_ok t" using c hp
    unfolding clients_ok_def clt heap cl by (auto simp: AList.distinct_update NewClient_def)
  moreover have "room_ok t"
    unfolding room_ok_def
  proof (intro conjI allI impI)
    fix rid cs assume "map_of (sm_rooms t) rid = Some cs"
    then have "map_of (sm_rooms s) rid = Some cs" by (simp add: rt)
    note o = room_okD [OF ro this]
    from o show "cs \<noteq> []" "distinct (map fst cs)" by blast+
    fix j x assume "map_of cs j = Some x"
    with o have "map_of (sm_clients s) j = Some x" "rid \<in> set (cl_Rooms (sm_heap s x))" by blast+
    with new hp show "map_of (sm_clients t) j = Some x" "rid \<in> set (cl_Rooms (sm_heap t x))"
      unfolding tc heap by auto
  next
    fix j x rid assume j: "map_of (sm_clients t) j = Some x" "rid \<in> set (cl_Rooms (sm_heap t x))"
    show "\<exists>cs. map_of (sm_rooms t) rid = Some cs \<and> map_of cs j = Some x"
    proof (cases "j = uuid")
      case True
      with j show ?thesis by (simp add: tc heap NewClient_def)
    next
      case False
      with j(1) have m: "map_of (sm_clients s) j = Some x" by (simp add: tc)
      with j(2) hp have "rid \<in> set (cl_Rooms (sm_heap s x))" by (simp add: heap)
      with m ro show ?thesis unfolding room_ok_def rt by blast
    qed
  qed
  moreover have "registry_ok t"
  proof -
    let ?old = "\<lambda>v. {j. \<exists>x. map_of (sm_clients s) j = Some x \<and> cl_UserID (sm_heap s x) = v}"
    have sets: "{j. \<exists>x. map_of (sm_clients t) j = Some x \<and> cl_UserID (sm_heap t x) = v}
        = ?old v \<union> (if v = u then {uuid} else {})" for v
    proof (rule set_eqI)
      fix j
      show "j \<in> {j. \<exists>x. map_of (sm_clients t) j = Some x \<and> cl_UserID (sm_heap t x) = v}
        \<longleftrightarrow> j \<in> ?old v \<union> (if v = u then {uuid} else {})"
      proof (cases "j = uuid")
        case True
        with new(1) show ?thesis by (simp add: tc heap)
      next
        case False
        have "(\<exists>x. map_of (sm_clients s) j = Some x \<and> cl_UserID (?hp x) = v)
          \<longleftrightarrow> (\<exists>x. map_of (sm_clients s) j = Some x \<and> cl_UserID (sm_heap s x) = v)" using hp by metis
        with False show ?thesis unfolding tc heap by simp
      qed
    qed
    have user: "j = uuid \<and> cl_UserID (sm_heap t x) = u \<or> map_of (sm_clients s) j = Some x \<and>
        cl_UserID (sm_heap t x) = cl_UserID (sm_heap s x)" if "map_of (sm_clients t) j = Some x" for j x
      using that hp new unfolding tc heap by (auto simp: NewClient_def split: if_splits)
    have entry: "map_of (sm_registry s) (cl_UserID (sm_heap s x)) \<noteq> None"
      if "map_of (sm_clients s) j = Some x" "cl_UserID (sm_heap s x) \<noteq> []" for j x
      using re that unfolding registry_ok_def by blast
    have owner: "v = v'" if "map_of (sm_registry s) v = Some sl1" "map_of (sm_registry s) v' = Some sl2"
      "fst sl1 = fst sl2" for v v' sl1 sl2 using re that unfolding registry_ok_def by blast
    show ?thesis
    proof (cases "u = []")
      case True
      then have reg: "sm_registry t = sm_registry s" "sm_arrays t = sm_arrays s" "sm_next t = sm_next s"
        by (simp_all add: t)
      show ?thesis
        unfolding registry_ok_def reg
      proof (intro conjI allI impI)
        fix v sl1 assume "map_of (sm_registry s) v = Some sl1"
        from registry_okD [OF re this] True show "slice_ok t v sl1"
          unfolding slice_ok_def sets by (simp add: slice_elems_def reg)
      next
        fix j x assume "map_of (sm_clients t) j = Some x" "cl_UserID (sm_heap t x) \<noteq> []"
        with user True entry show "map_of (sm_registry s) (cl_UserID (sm_heap t x)) \<noteq> None" by metis
      qed (blast intro: owner)
    next
      case False
      then have reg: "map_of (sm_registry t) = (map_of (sm_registry s))(u \<mapsto> sl')"
        "sm_arrays t = sm_arrays s3" "sm_next t = sm_next s3"
        by (simp_all add: t a s2 AList.update_conv')
      have apart: "fst sl2 < sm_next s \<and> fst sl2 \<noteq> fst sl \<and> fst sl2 \<noteq> fst sl'"
        if "map_of (sm_registry s) v = Some sl2" "v \<noteq> u" for v sl2
      proof -
        have lt: "fst sl2 < sm_next s" using registry_okD [OF re that(1)] by (simp add: slice_ok_def)
        have "fst sl2 \<noteq> fst sl"
        proof (cases "map_of (sm_registry s) u")
          case None
          with slok(3) lt show ?thesis by simp
        next
          case (Some sl1)
          with slok(4) owner that show ?thesis by metis
        qed
        with lt a(7) s2(6) show ?thesis by auto
      qed
      have oldu: "set (slice_elems s2 sl) = ?old u" "distinct (slice_elems s2 sl)"
      proof -
        have "set (slice_elems s2 sl) = ?old u \<and> distinct (slice_elems s2 sl)"
        proof (cases "map_of (sm_registry s) u")
          case None
          with entry False have "?old u = {}" by force
          with None slok(3) show ?thesis by simp
        next
          case (Some sl1)
          from slok(4) [OF Some] have "slice_elems s2 sl = slice_elems s sl1" by blast
          with registry_okD [OF re Some] show ?thesis by (simp add: slice_ok_def)
        qed
        then show "set (slice_elems s2 sl) = ?old u" "distinct (slice_elems s2 sl)" by blast+
      qed
      have elt: "slice_elems t sl' = slice_elems s2 sl @ [uuid]"
        using a(1) by (simp add: slice_elems_def reg)
      show ?thesis
        unfolding registry_ok_def
      proof (intro conjI allI impI)
        fix v sl2 assume v: "map_of (sm_registry t) v = Some sl2"
        show "slice_ok t v sl2"
        proof (cases "v = u")
          case True
          with v have "sl2 = sl'" by (simp add: reg)
          moreover have "uuid \<notin> ?old u" using new by auto
          ultimately show ?thesis using False oldu a(2,3,4) True
            unfolding slice_ok_def sets by (simp add: elt reg)
        next
          case ne: False
          with v have m: "map_of (sm_registry s) v = Some sl2" by (simp add: reg)
          from apart [OF this ne] a(6) [of "fst sl2"] s2(6,7) have "sm_arrays t (fst sl2) = sm_arrays s (fst sl2)"
            by (simp add: reg)
          with registry_okD [OF re m] apart [OF m ne] ne a(5) s2(6) show ?thesis
            unfolding slice_ok_def sets by (simp add: slice_elems_def reg)
        qed
      next
        fix j x assume "map_of (sm_clients t) j = Some x" "cl_UserID (sm_heap t x) \<noteq> []"
        with user [of j x] entry [of j x] show "map_of (sm_registry t) (cl_UserID (sm_heap t x)) \<noteq> None"
          by (auto simp: reg)
      next
        fix v v' sl1 sl2 assume "map_of (sm_registry t) v = Some sl1" "map_of (sm_registry t) v' = Some sl2"
          "fst sl1 = fst sl2"
        with apart owner show "v = v'" unfolding reg by (metis fun_upd_apply option.inject)
      qed
    qed
  qed
  ultimately show "socket_inv t" by (simp add: socket_inv_def)
qed

section \<open>Sending\<close>

lemma Unregister_unknown:
  "map_of (sm_clients s) (cl_ID (sm_heap s r)) = None \<Longrightarrow>
     Unregister r s = (Err (EMsg ''client not found''), s)"
  by (simp add: Unregister_def Let_def)

text \<open>A client object is current when no other object is registered under its identifier.\<close>

definition current :: "nat \<Rightarrow> 'h socket_manager \<Rightarrow> bool" where
  "current r s \<longleftrightarrow> (\<forall>r'. map_of (sm_clients s) (cl_ID (sm_heap s r)) = Some r' \<longrightarrow> r' = r)"

lemma registered_ID: "socket_inv s \<Longrightarrow> map_of (sm_clients s) i = Some r \<Longrightarrow> cl_ID (sm_heap s r) = i"
  unfolding socket_inv_def clients_ok_def by blast

lemma registered_current: "socket_inv s \<Longrightarrow> map_of (sm_clients s) i = Some r \<Longrightarrow> current r s"
  using registered_ID [of s i r] by (simp add: current_def)

lemma Unregister_inv:
  assumes "socket_inv s" "current r s"
  shows "socket_inv (snd (Unregister r s))"
proof (cases "map_of (sm_clients s) (cl_ID (sm_heap s r))")
  case (Some r')
  with assms(2) have "r' = r" unfolding current_def by blast
  with Some have "map_of (sm_clients s) (cl_ID (sm_heap s r)) = Some r" by simp
  from Unregister_registered [OF assms(1) this] obtain s' where
    "Unregister r s = (Ok (), s')" "socket_inv s'" by metis
  then show ?thesis by simp
qed (simp add: Unregister_unknown assms(1))

lemma buffer_inv:
  "socket_inv (s\<lparr>sm_heap := (sm_heap s)(r := (sm_heap s r)\<lparr>cl_Send := q\<rparr>)\<rparr>) = socket_inv s"
  "socket_inv (s\<lparr>sm_heap := (sm_heap s)(r := (sm_heap s r)\<lparr>cl_Closed := b\<rparr>)\<rparr>) = socket_inv s"
  by (rule heap_inv, simp add: same_identity_def)+

lemma SendEvent_inv:
  "socket_inv s \<Longrightarrow> current r s \<Longrightarrow> socket_inv (snd (SendEvent r ev d s))"
  by (simp add: SendEvent_def Let_def buffer_inv Unregister_inv split: option.split)

lemma send_to_id_inv:
  assumes "socket_inv (snd rs)"
  shows "socket_inv (snd (flat_sum (send_to_id ev d i rs)))"
proof -
  obtain e s where rs: "rs = (e, s)" by (metis surj_pair)
  show ?thesis
  proof (cases "map_of (sm_clients s) i")
    case (Some r)
    with SendEvent_inv registered_current assms have "socket_inv (snd (SendEvent r ev d s))"
      by (metis rs snd_conv)
    with Some show ?thesis
      by (cases "SendEvent r ev d s") (auto simp: send_to_id_def rs flat_sum_def split: res.split)
  qed (use assms in \<open>simp add: send_to_id_def rs flat_sum_def\<close>)
qed

lemma each_flat_inv:
  assumes "P s" "\<And>x s. x \<in> set xs \<Longrightarrow> P s \<Longrightarrow> P (flat_sum (body x s))"
  shows "P (flat_sum (each body xs s))"
  using assms
proof (induction xs arbitrary: s)
  case (Cons x xs)
  then have "P (flat_sum (body x s))" by simp
  with Cons show ?case by (cases "body x s") (simp_all add: flat_sum_def)
qed (simp add: flat_sum_def)

lemma EmitToUser_inv: "socket_inv s \<Longrightarrow> socket_inv (snd (EmitToUser u ev d s))"
  unfolding EmitToUser_def
  by (auto split: option.split intro!: each_flat_inv [where P = "\<lambda>rs. socket_inv (snd rs)"] send_to_id_inv)

lemma EmitToRoom_inv: "socket_inv s \<Longrightarrow> socket_inv (snd (EmitToRoom rid ev d s))"
  unfolding EmitToRoom_def
  by (auto split: option.split intro!: each_flat_inv [where P = "\<lambda>rs. socket_inv (snd rs)"] send_to_id_inv)

text \<open>\<open>EmitToAll\<close> goes over pointers it has copied, each of which stays current.\<close>

lemma EmitToAll_inv:
  assumes "socket_inv s"
  shows "socket_inv (snd (EmitToAll ev d s))"
proof -
  let ?P = "\<lambda>rs. socket_inv (snd rs) \<and> (\<forall>r \<in> set (map snd (sm_clients s)). current r (snd rs))"
  have step: "current r' (snd (SendEvent r ev d t))" if "socket_inv t" "current r t" "current r' t" for r r' t
  proof (cases "map_of (sm_clients t) (cl_ID (sm_heap t r))")
    case None
    with that(3) show ?thesis
      by (auto simp: SendEvent_def Let_def Unregister_unknown current_def split: option.split)
  next
    case (Some x)
    with that(2) have "x = r" unfolding current_def by blast
    with Some have "map_of (sm_clients t) (cl_ID (sm_heap t r)) = Some r" by simp
    from Unregister_registered [OF that(1) this] obtain t' where "Unregister r t = (Ok (), t')"
      "map_of (sm_clients t') = (map_of (sm_clients t))(cl_ID (sm_heap t r) := None)"
      "sm_heap t' = sm_heap t" by metis
    with that(3) show ?thesis
      by (auto simp: SendEvent_def Let_def current_def split: option.split)
  qed
  have "?P (flat_sum (each (\<lambda>r rs. case SendEvent r ev d (snd rs) of
         (Panic p, s') \<Rightarrow> Inl (Panic p, s') | (_, s') \<Rightarrow> Inr (Ok (), s'))
       (map snd (sm_clients s)) (Ok (), s)))"
  proof (rule each_flat_inv [where P = ?P])
    have "current r s" if rr: "r \<in> snd ` set (sm_clients s)" for r
    proof -
      from rr obtain i where "(i, r) \<in> set (sm_clients s)" by auto
      with assms have "map_of (sm_clients s) i = Some r" by (simp add: socket_inv_def clients_ok_def)
      with assms show ?thesis by (rule registered_current)
    qed
    with assms show "?P (Ok (), s)" by simp
    fix r rs assume r: "r \<in> set (map snd (sm_clients s))" and P: "?P rs"
    then have c: "current r (snd rs)" "socket_inv (snd rs)" by blast+
    with P step [OF c(2,1)] SendEvent_inv [OF c(2,1)]
    have "?P (Ok (), snd (SendEvent r ev d (snd rs)))" unfolding snd_conv by blast
    then show "?P (flat_sum (case SendEvent r ev d (snd rs) of
         (Panic p, s') \<Rightarrow> Inl (Panic p, s') | (_, s') \<Rightarrow> Inr (Ok (), s')))"
      by (cases "SendEvent r ev d (snd rs)") (auto simp: flat_sum_def split: res.split)
  qed
  then show ?thesis unfolding EmitToAll_def by blast
qed

lemma join_if_registered_inv:
  "socket_inv s \<Longrightarrow> socket_inv (join_if_registered rid i s)"
  by (cases "map_of (sm_clients s) i")
    (simp_all add: join_if_registered_def join_inv registered_ID)

lemma fold_join_inv: "socket_inv s \<Longrightarrow> socket_inv (fold (join_if_registered rid) is s)"
  by (induction "is" arbitrary: s) (auto intro: join_if_registered_inv)

lemma CreateUserRoom_inv: "socket_inv s \<Longrightarrow> socket_inv (snd (CreateUserRoom u rid s))"
  by (auto simp: CreateUserRoom_def fold_join_inv split: option.split)

section \<open>Any sequence of operations\<close>

datatype 'h sm_op =
    OConnect "goerr + string" bool string nat
  | ODisconnect nat
  | OJoin nat string
  | OLeave nat string
  | OUserRoom string string
  | OSend nat string gval
  | OEmitUser string string gval
  | OEmitRoom string string gval
  | OEmitAll string gval
  | OAddHandler string 'h
  | ORemoveHandler string 'h
  | OMessage nat blob
  | OFlush nat
  | OShutdown

fun sm_step :: "(nat \<Rightarrow> nat) \<Rightarrow> 'h sm_op \<Rightarrow> 'h socket_manager \<Rightarrow> 'h socket_manager" where
  "sm_step grow (OConnect auth up uuid r) s = snd (HandleWebSocket grow auth up uuid r s)"
| "sm_step grow (ODisconnect r) s = read_pump_exit r s"
| "sm_step grow (OJoin r rid) s = clientJoinRoom r rid s"
| "sm_step grow (OLeave r rid) s = clientLeaveRoom r rid s"
| "sm_step grow (OUserRoom u rid) s = snd (CreateUserRoom u rid s)"
| "sm_step grow (OSend r ev d) s = snd (SendEvent r ev d s)"
| "sm_step grow (OEmitUser u ev d) s = snd (EmitToUser u ev d s)"
| "sm_step grow (OEmitRoom rid ev d) s = snd (EmitToRoom rid ev d s)"
| "sm_step grow (OEmitAll ev d) s = snd (EmitToAll ev d s)"
| "sm_step grow (OAddHandler n h) s = AddEventHandler n h s"
| "sm_step grow (ORemoveHandler n h) s = RemoveEventHandler n h s"
| "sm_step grow (OMessage r b) s = read_message r b s"
| "sm_step grow (OFlush r) s = snd (write_pump_flush r s)"
| "sm_step grow OShutdown s = Shutdown s"

text \<open>
  What the callers guarantee: a connection gets a fresh object and identifier; only a registered
  client joins or leaves a room; a client object that is sent to or that disconnects has not been
  replaced by another under its identifier.
\<close>

fun sm_pre :: "'h sm_op \<Rightarrow> 'h socket_manager \<Rightarrow> bool" where
  "sm_pre (OConnect auth up uuid r) s = fresh_client uuid r s"
| "sm_pre (ODisconnect r) s = current r s"
| "sm_pre (OJoin r rid) s = (map_of (sm_clients s) (cl_ID (sm_heap s r)) = Some r)"
| "sm_pre (OLeave r rid) s = (map_of (sm_clients s) (cl_ID (sm_heap s r)) = Some r)"
| "sm_pre (OSend r ev d) s = current r s"
| "sm_pre _ s = True"

lemma connect_inv:
  assumes "socket_inv s" "fresh_client uuid r s"
  shows "socket_inv (snd (HandleWebSocket grow auth up uuid r s))"
proof (cases auth)
  case (Inr u)
  show ?thesis
  proof (cases up)
    case True
    let ?t = "Register grow r (s\<lparr>sm_heap := (sm_heap s)(r := NewClient uuid u)\<rparr>)"
    note reg = Register_inv [OF assms, of grow u]
    have "current r ?t" by (simp add: current_def reg(2,3))
    from SendEvent_inv [OF reg(1) this] Inr True show ?thesis
      by (simp add: HandleWebSocket_def split_beta)
  qed (simp add: Inr HandleWebSocket_def assms(1))
qed (simp add: HandleWebSocket_def assms(1))

lemma sm_step_inv:
  assumes "socket_inv s" "sm_pre op s"
  shows "socket_inv (sm_step grow op s)"
proof (cases op)
  case (OConnect auth up uuid r)
  with assms connect_inv show ?thesis by simp
next
  case (ODisconnect r)
  with assms Unregister_inv [of s r] show ?thesis
    by (simp add: read_pump_exit_def Let_def buffer_inv)
next
  case (OMessage r b)
  with assms show ?thesis
    by (simp add: read_message_def ProcessMessage_def split: blob.split option.split)
next
  case (ORemoveHandler n h)
  with assms show ?thesis
    by (simp add: RemoveEventHandler_def Let_def split: option.split)
qed (use assms join_inv leave_inv CreateUserRoom_inv SendEvent_inv EmitToUser_inv EmitToRoom_inv
    EmitToAll_inv shutdown_inv in \<open>simp_all add: AddEventHandler_def write_pump_flush_def Let_def buffer_inv\<close>)

interpretation socket: inv_system "sm_step grow" sm_pre socket_inv for grow
  by unfold_locales (rule sm_step_inv)

end
