(* ===== verification/SocketProperties.thy ===== *)
theory SocketProperties
  imports SocketInvariant
begin

text \<open>
  What the socket manager promises its callers: consistent queries, complete removal, joining and
  leaving as inverses, delivery to rooms and users, and where delivery fails.
\<close>

section \<open>Deliveries\<close>

definition push_msg :: "blob \<Rightarrow> nat \<Rightarrow> 'h socket_manager \<Rightarrow> 'h socket_manager" where
  "push_msg msg r s =
     s\<lparr>sm_heap := (sm_heap s)(r := (sm_heap s r)\<lparr>cl_Send := cl_Send (sm_heap s r) @ [msg]\<rparr>)\<rparr>"

lemma push_msg_simps [simp]:
  "sm_clients (push_msg msg r s) = sm_clients s" "sm_rooms (push_msg msg r s) = sm_rooms s"
  "sm_registry (push_msg msg r s) = sm_registry s" "sm_arrays (push_msg msg r s) = sm_arrays s"
  "cl_Closed (sm_heap (push_msg msg r s) x) = cl_Closed (sm_heap s x)"
  "cl_ID (sm_heap (push_msg msg r s) x) = cl_ID (sm_heap s x)"
  "cl_Send (sm_heap (push_msg msg r s) x) = cl_Send (sm_heap s x) @ (if x = r then [msg] else [])"
  by (simp_all add: push_msg_def)

text \<open>The registered client of an identifier has an open channel and room for a message.\<close>

definition sendable :: "'h socket_manager \<Rightarrow> string \<Rightarrow> bool" where
  "sendable s i = (case map_of (sm_clients s) i of None \<Rightarrow> False
     | Some r \<Rightarrow> \<not> cl_Closed (sm_heap s r) \<and> length (cl_Send (sm_heap s r)) < send_capacity)"

definition ptr :: "'h socket_manager \<Rightarrow> string \<Rightarrow> nat" where
  "ptr s i = the (map_of (sm_clients s) i)"

lemma ptr_push [simp]: "ptr (push_msg msg r s) = ptr s"
  by (simp add: ptr_def fun_eq_iff)

lemma send_to_id_sendable:
  "sendable s i \<Longrightarrow> outbound ev d = Some msg \<Longrightarrow>
     send_to_id ev d i (e, s) = Inr (e, push_msg msg (ptr s i) s)"
  by (auto simp: sendable_def send_to_id_def SendEvent_def Let_def push_msg_def ptr_def
      split: option.splits)

lemma sendable_push: "ptr s i \<noteq> ptr s j \<Longrightarrow> sendable s i \<Longrightarrow> sendable (push_msg msg (ptr s j) s) i"
  by (auto simp: sendable_def ptr_def split: option.splits)

lemma ptr_inj:
  assumes "socket_inv s" "sendable s i" "sendable s j" "i \<noteq> j"
  shows "ptr s i \<noteq> ptr s j"
proof
  assume e: "ptr s i = ptr s j"
  obtain r r' where r: "map_of (sm_clients s) i = Some r" "map_of (sm_clients s) j = Some r'"
    using assms(2,3) by (auto simp: sendable_def split: option.splits)
  with registered_ID [OF assms(1)] have "cl_ID (sm_heap s r) = i" "cl_ID (sm_heap s r') = j" by blast+
  with e r assms(4) show False by (simp add: ptr_def)
qed

lemma each_send:
  assumes "outbound ev d = Some msg" "distinct (map (ptr s) ids)" "\<forall>i \<in> set ids. sendable s i"
  shows "each (send_to_id ev d) ids (e, s) = Inr (e, fold (push_msg msg) (map (ptr s) ids) s)"
  using assms(2,3)
proof (induction ids arbitrary: s)
  case (Cons i ids)
  then have "send_to_id ev d i (e, s) = Inr (e, push_msg msg (ptr s i) s)"
    by (intro send_to_id_sendable assms(1)) simp
  moreover have "\<forall>j \<in> set ids. sendable (push_msg msg (ptr s i) s) j"
  proof
    fix j assume j: "j \<in> set ids"
    with Cons.prems have "ptr s j \<noteq> ptr s i" "sendable s j"
      by (auto simp: image_iff)
    then show "sendable (push_msg msg (ptr s i) s) j" by (rule sendable_push)
  qed
  ultimately show ?case using Cons.IH [of "push_msg msg (ptr s i) s"] Cons.prems(1) by simp
qed simp

text \<open>The loop of \<open>EmitToUser\<close>, which reads the array as it goes: sends that succeed do not change it.\<close>

lemma each_send_index:
  assumes "outbound ev d = Some msg" "distinct (map (\<lambda>k. ptr s (sm_arrays s a ! k)) ks)"
    and "\<forall>k \<in> set ks. sendable s (sm_arrays s a ! k)"
  shows "each (\<lambda>k rs. send_to_id ev d (sm_arrays (snd rs) a ! k) rs) ks (e, s)
     = Inr (e, fold (push_msg msg) (map (\<lambda>k. ptr s (sm_arrays s a ! k)) ks) s)"
  using assms(2,3)
proof (induction ks arbitrary: s)
  case (Cons k ks)
  let ?i = "sm_arrays s a ! k"
  have "send_to_id ev d ?i (e, s) = Inr (e, push_msg msg (ptr s ?i) s)"
    using Cons.prems by (intro send_to_id_sendable assms(1)) simp
  moreover have "\<forall>j \<in> set ks. sendable (push_msg msg (ptr s ?i) s) (sm_arrays s a ! j)"
  proof
    fix j assume j: "j \<in> set ks"
    with Cons.prems have "ptr s (sm_arrays s a ! j) \<noteq> ptr s ?i" "sendable s (sm_arrays s a ! j)"
      by (auto simp: image_iff)
    then show "sendable (push_msg msg (ptr s ?i) s) (sm_arrays s a ! j)" by (rule sendable_push)
  qed
  ultimately show ?case using Cons.IH [of "push_msg msg (ptr s ?i) s"] Cons.prems(1) by simp
qed simp

lemma fold_push:
  assumes "distinct rs"
  shows "cl_Send (sm_heap (fold (push_msg msg) rs s) x)
     = cl_Send (sm_heap s x) @ (if x \<in> set rs then [msg] else [])"
  using assms by (induction rs arbitrary: s) auto

lemma fold_push_clients [simp]:
  "sm_clients (fold (push_msg msg) rs s) = sm_clients s" "sm_rooms (fold (push_msg msg) rs s) = sm_rooms s"
  "sm_registry (fold (push_msg msg) rs s) = sm_registry s"
  by (induction rs arbitrary: s) simp_all

lemma distinct_ptrs:
  assumes "socket_inv s" "distinct ids" "\<forall>i \<in> set ids. sendable s i"
  shows "distinct (map (ptr s) ids)"
  using assms(2,3) ptr_inj [OF assms(1)] by (induction ids) auto

lemma ptr_mem:
  assumes "socket_inv s" "\<forall>i \<in> set ids. sendable s i" "map_of (sm_clients s) j = Some r"
  shows "r \<in> set (map (ptr s) ids) \<longleftrightarrow> j \<in> set ids"
proof
  assume "r \<in> set (map (ptr s) ids)"
  then obtain i where i: "i \<in> set ids" "r = ptr s i" by auto
  with assms(2) obtain x where "map_of (sm_clients s) i = Some x"
    by (auto simp: sendable_def split: option.splits)
  with i registered_ID [OF assms(1)] assms(3) have "i = j" by (metis option.sel ptr_def)
  with i show "j \<in> set ids" by simp
next
  assume "j \<in> set ids"
  with assms(3) show "r \<in> set (map (ptr s) ids)" by (force simp: ptr_def)
qed

section \<open>Queries\<close>

lemma user_queries:
  assumes "socket_inv s" "u \<noteq> []"
  shows "set (GetUserClientIDs u s)
      = {i. \<exists>r. map_of (sm_clients s) i = Some r \<and> cl_UserID (sm_heap s r) = u}
    \<and> distinct (GetUserClientIDs u s)
    \<and> IsUserConnected u s = (\<exists>i r. map_of (sm_clients s) i = Some r \<and> cl_UserID (sm_heap s r) = u)"
proof (cases "map_of (sm_registry s) u")
  case None
  from assms(1) have re: "registry_ok s" by (simp add: socket_inv_def)
  have "\<not> (\<exists>i r. map_of (sm_clients s) i = Some r \<and> cl_UserID (sm_heap s r) = u)"
    using re None assms(2) unfolding registry_ok_def by metis
  with None show ?thesis by (simp add: GetUserClientIDs_def IsUserConnected_def)
next
  case (Some sl)
  from assms(1) have re: "registry_ok s" by (simp add: socket_inv_def)
  from registry_okD [OF re Some] have o: "snd sl > 0" "snd sl \<le> length (sm_arrays s (fst sl))"
    "distinct (slice_elems s sl)" "set (slice_elems s sl)
      = {i. \<exists>r. map_of (sm_clients s) i = Some r \<and> cl_UserID (sm_heap s r) = u}"
    by (simp_all add: slice_ok_def)
  have "slice_elems s sl \<noteq> []" using o(1,2) by (auto simp: slice_elems_def)
  then obtain i where "i \<in> set (slice_elems s sl)" using list.set_sel(1) by blast
  with o(4) have "\<exists>i r. map_of (sm_clients s) i = Some r \<and> cl_UserID (sm_heap s r) = u" by blast
  with o Some show ?thesis by (simp add: GetUserClientIDs_def IsUserConnected_def)
qed

lemma room_members:
  assumes "socket_inv s" "map_of (sm_rooms s) rid = Some cs"
  shows "map_of cs i = Some r \<longleftrightarrow> map_of (sm_clients s) i = Some r \<and> rid \<in> set (cl_Rooms (sm_heap s r))"
proof -
  from assms(1) have ro: "room_ok s" by (simp add: socket_inv_def)
  show ?thesis using room_okD [OF ro assms(2)] ro assms(2) unfolding room_ok_def
    by (metis option.inject)
qed

lemma room_in:
  assumes "socket_inv s" "map_of (sm_clients s) j = Some x"
  shows "(\<exists>cs. map_of (sm_rooms s) rid = Some cs \<and> map_of cs j = Some x)
    \<longleftrightarrow> rid \<in> set (cl_Rooms (sm_heap s x))"
proof -
  from assms(1) have ro: "room_ok s" by (simp add: socket_inv_def)
  with assms show ?thesis using room_members [OF assms(1)] unfolding room_ok_def by blast
qed

lemma room_exists:
  assumes "socket_inv s"
  shows "(\<exists>cs. map_of (sm_rooms s) rid = Some cs)
    = (\<exists>i r. map_of (sm_clients s) i = Some r \<and> rid \<in> set (cl_Rooms (sm_heap s r)))"
proof
  from assms have ro: "room_ok s" by (simp add: socket_inv_def)
  assume "\<exists>cs. map_of (sm_rooms s) rid = Some cs"
  then obtain cs where c: "map_of (sm_rooms s) rid = Some cs" by blast
  from room_okD [OF ro c] obtain x xs where "cs = x # xs" by (cases cs) auto
  then have "map_of cs (fst x) = Some (snd x)" by simp
  with room_members [OF assms c]
  show "\<exists>i r. map_of (sm_clients s) i = Some r \<and> rid \<in> set (cl_Rooms (sm_heap s r))" by blast
next
  assume "\<exists>i r. map_of (sm_clients s) i = Some r \<and> rid \<in> set (cl_Rooms (sm_heap s r))"
  then show "\<exists>cs. map_of (sm_rooms s) rid = Some cs" using room_in [OF assms] by blast
qed

section \<open>Properties\<close>


text \<open>Two connections of one user, one of which has joined a room.\<close>

definition demo_socket :: "string socket_manager" where
  "demo_socket = sm_step Suc (OJoin 0 ''room'') (sm_step Suc (OConnect (Inr ''u'') True ''c1'' 1)
     (sm_step Suc (OConnect (Inr ''u'') True ''c0'' 0) new_socket_manager))"

lemmas socket_eval = HandleWebSocket_def Register_def SendEvent_def outbound_def append_slice_def
  alloc_slice_def NewClient_def clientJoinRoom_def new_socket_manager_def send_capacity_def
  GetUserClientIDs_def IsUserConnected_def slice_elems_def List.insert_def empty_client_def
  fresh_client_def current_def Let_def

lemma demo_socket_reach: "reach (sm_step Suc) sm_pre new_socket_manager demo_socket"
  unfolding demo_socket_def
  by (rule reach_step reach_init | simp add: socket_eval)+


text \<open>
  C10: Unregistering a registered client removes it completely: it is out of the client map, of every
  room and of its user's list, and no other client's registration, rooms or user list changes.
\<close>

theorem unregister_removes:
  assumes "socket_inv s" "map_of (sm_clients s) (cl_ID (sm_heap s r)) = Some r"
  shows "\<exists>s'. Unregister r s = (Ok (), s')
    \<and> map_of (sm_clients s') = (map_of (sm_clients s))(cl_ID (sm_heap s r) := None)
    \<and> (\<forall>rid cs. map_of (sm_rooms s') rid = Some cs \<longrightarrow> map_of cs (cl_ID (sm_heap s r)) = None)
    \<and> (\<forall>j x rid. j \<noteq> cl_ID (sm_heap s r) \<longrightarrow> map_of (sm_clients s) j = Some x \<longrightarrow>
          (\<exists>cs. map_of (sm_rooms s') rid = Some cs \<and> map_of cs j = Some x)
          = (\<exists>cs. map_of (sm_rooms s) rid = Some cs \<and> map_of cs j = Some x))
    \<and> (\<forall>u. u \<noteq> [] \<longrightarrow> set (GetUserClientIDs u s') = set (GetUserClientIDs u s) - {cl_ID (sm_heap s r)})"
proof -
  let ?i = "cl_ID (sm_heap s r)"
  from Unregister_registered [OF assms] obtain s' where s': "Unregister r s = (Ok (), s')" "socket_inv s'"
    "map_of (sm_clients s') = (map_of (sm_clients s))(?i := None)" "sm_heap s' = sm_heap s" by metis
  have gone: "map_of cs ?i = None" if "map_of (sm_rooms s') rid = Some cs" for rid cs
    using room_members [OF s'(2) that, of ?i] s'(3) by (cases "map_of cs ?i") auto
  have others: "(\<exists>cs. map_of (sm_rooms s') rid = Some cs \<and> map_of cs j = Some x)
      = (\<exists>cs. map_of (sm_rooms s) rid = Some cs \<and> map_of cs j = Some x)"
    if "j \<noteq> ?i" "map_of (sm_clients s) j = Some x" for j x rid
  proof -
    have "map_of (sm_clients s') j = Some x" using that by (simp add: s'(3))
    from room_in [OF s'(2) this] room_in [OF assms(1) that(2)] show ?thesis by (simp add: s'(4))
  qed
  have users: "set (GetUserClientIDs u s') = set (GetUserClientIDs u s) - {?i}" if "u \<noteq> []" for u
    using user_queries [OF s'(2) that] user_queries [OF assms(1) that] by (auto simp: s'(3,4))
  from s'(1,3) gone others users show ?thesis by (intro exI [of _ s']) blast
qed

lemma demo_socket_inv: "socket_inv demo_socket"
  by (rule socket.reachable_inv [OF demo_socket_reach new_socket_manager_inv])

theorem unregister_removes_witness:
  "\<exists>s'. Unregister 0 demo_socket = (Ok (), s') \<and> map_of (sm_clients s') ''c0'' = None
    \<and> map_of (sm_clients s') ''c1'' = Some 1 \<and> set (GetUserClientIDs ''u'' s') = {''c1''}"
proof -
  have "map_of (sm_clients demo_socket) (cl_ID (sm_heap demo_socket 0)) = Some 0"
    by (simp add: demo_socket_def socket_eval)
  note un = unregister_removes [OF demo_socket_inv this]
  have ev: "cl_ID (sm_heap demo_socket 0) = ''c0''" "map_of (sm_clients demo_socket) ''c1'' = Some 1"
    "GetUserClientIDs ''u'' demo_socket = [''c0'', ''c1'']"
    by (simp_all add: demo_socket_def socket_eval)
  from un show ?thesis
  proof (elim exE conjE)
    fix s' assume "Unregister 0 demo_socket = (Ok (), s')"
      "map_of (sm_clients s') = (map_of (sm_clients demo_socket))(cl_ID (sm_heap demo_socket 0) := None)"
      and u: "\<forall>u. u \<noteq> [] \<longrightarrow> set (GetUserClientIDs u s')
        = set (GetUserClientIDs u demo_socket) - {cl_ID (sm_heap demo_socket 0)}"
    with ev u [rule_format, of "''u''"] show ?thesis by (intro exI [of _ s']) auto
  qed
qed

text \<open>
  Joining a room and leaving it again restores the rooms: every room, the one joined included,
  has the clients it had before, provided the client was not already in it.
\<close>

theorem join_leave_restores:
  assumes "socket_inv s" "map_of (sm_clients s) (cl_ID (sm_heap s r)) = Some r"
    and "rid \<notin> set (cl_Rooms (sm_heap s r))"
  shows "map_option map_of (map_of (sm_rooms (clientLeaveRoom r rid (clientJoinRoom r rid s))) rd)
    = map_option map_of (map_of (sm_rooms s) rd)"
proof -
  let ?j = "clientJoinRoom r rid s" and ?t = "clientLeaveRoom r rid (clientJoinRoom r rid s)"
  have jf: "sm_clients ?j = sm_clients s" "cl_ID (sm_heap ?j x) = cl_ID (sm_heap s x)"
    "set (cl_Rooms (sm_heap ?j x)) = set (cl_Rooms (sm_heap s x)) \<union> (if x = r then {rid} else {})"
    "map_of (sm_rooms ?j) rid \<noteq> None" for x
    by (auto simp: clientJoinRoom_def Let_def AList.update_conv')
  then obtain cs where cs: "map_of (sm_rooms ?j) rid = Some cs" by blast
  have reg: "map_of (sm_clients ?j) (cl_ID (sm_heap ?j r)) = Some r" using assms(2) by (simp add: jf)
  have ti: "socket_inv ?t" by (rule leave_inv [OF join_inv [OF assms(1,2)] reg])
  have tf: "sm_clients ?t = sm_clients s" "set (cl_Rooms (sm_heap ?t x)) = set (cl_Rooms (sm_heap s x))" for x
    using jf assms(3) by (auto simp: clientLeaveRoom_def [of r rid ?j] cs Let_def)
  show ?thesis
  proof (cases "map_of (sm_rooms s) rd")
    case None
    then have "map_of (sm_rooms ?t) rd = None"
      using room_exists [OF ti, of rd] room_exists [OF assms(1), of rd] unfolding tf by auto
    with None show ?thesis by simp
  next
    case (Some c)
    then obtain c' where c': "map_of (sm_rooms ?t) rd = Some c'"
      using room_exists [OF ti, of rd] room_exists [OF assms(1), of rd] unfolding tf by auto
    have "map_of c' i = Some x \<longleftrightarrow> map_of c i = Some x" for i x
      using room_members [OF ti c'] room_members [OF assms(1) Some] unfolding tf by blast
    then have "map_of c' = map_of c" by (metis ext not_None_eq)
    with Some c' show ?thesis by simp
  qed
qed

theorem join_leave_restores_witness:
  "map_option map_of (map_of (sm_rooms (clientLeaveRoom 1 ''lobby'' (clientJoinRoom 1 ''lobby'' demo_socket))) ''lobby'')
    = None"
proof -
  have "map_of (sm_clients demo_socket) (cl_ID (sm_heap demo_socket 1)) = Some 1"
    "''lobby'' \<notin> set (cl_Rooms (sm_heap demo_socket 1))" "map_of (sm_rooms demo_socket) ''lobby'' = None"
    by (simp_all add: demo_socket_def socket_eval)
  with join_leave_restores [OF demo_socket_inv this(1,2), of "''lobby''"] show ?thesis by simp
qed

text \<open>
  An event emitted to a room, when every client in it has an open channel with space, is put
  once into the buffer of each client in the room and into no other buffer, without an error.
\<close>

theorem emit_to_room_delivers:
  assumes "socket_inv s" "map_of (sm_rooms s) rid = Some cs" "outbound ev d = Some msg"
    and "\<forall>i \<in> set (map fst cs). sendable s i"
  shows "\<exists>s'. EmitToRoom rid ev d s = (Ok (), s')
    \<and> (\<forall>i r. map_of (sm_clients s) i = Some r \<longrightarrow> cl_Send (sm_heap s' r)
        = cl_Send (sm_heap s r) @ (if map_of cs i = Some r then [msg] else []))"
proof -
  have ro: "room_ok s" using assms(1) by (simp add: socket_inv_def)
  have d: "distinct (map fst cs)" using room_okD [OF ro assms(2)] by blast
  note dp = distinct_ptrs [OF assms(1) d assms(4)]
  let ?s' = "fold (push_msg msg) (map (ptr s) (map fst cs)) s"
  have "EmitToRoom rid ev d s = (Ok (), ?s')"
    using each_send [OF assms(3) dp assms(4)] assms(2) by (simp add: EmitToRoom_def flat_sum_def)
  moreover have "cl_Send (sm_heap ?s' r) = cl_Send (sm_heap s r) @ (if map_of cs i = Some r then [msg] else [])"
    if "map_of (sm_clients s) i = Some r" for i r
  proof -
    have "r \<in> set (map (ptr s) (map fst cs)) \<longleftrightarrow> i \<in> set (map fst cs)"
      by (rule ptr_mem [OF assms(1,4) that])
    moreover have "i \<in> set (map fst cs) \<longleftrightarrow> map_of cs i = Some r"
      using room_members [OF assms(1,2)] that d by (metis map_of_eq_None_iff not_None_eq set_map option.inject)
    ultimately show ?thesis using fold_push [OF dp, of msg s r] by simp
  qed
  ultimately show ?thesis by blast
qed

theorem emit_to_room_delivers_witness:
  "\<exists>s'. EmitToRoom ''room'' ''tick'' (VBool True) demo_socket = (Ok (), s')
    \<and> cl_Send (sm_heap s' 0) = cl_Send (sm_heap demo_socket 0)
        @ [Enc (JObj [(''event'', JStr ''tick''), (''data'', JBool True)])]
    \<and> cl_Send (sm_heap s' 1) = cl_Send (sm_heap demo_socket 1)"
proof -
  have "map_of (sm_rooms demo_socket) ''room'' = Some [(''c0'', 0)]" "sendable demo_socket ''c0''"
    "map_of (sm_clients demo_socket) ''c0'' = Some 0" "map_of (sm_clients demo_socket) ''c1'' = Some 1"
    "outbound ''tick'' (VBool True) = Some (Enc (JObj [(''event'', JStr ''tick''), (''data'', JBool True)]))"
    by (simp_all add: demo_socket_def socket_eval sendable_def)
  with emit_to_room_delivers [OF demo_socket_inv this(1,5)] show ?thesis by fastforce
qed



text \<open>
  A registered client whose send buffer is full loses the message and is unregistered, and
  \<open>SendEvent\<close> still returns no error: the caller cannot tell the loss from a delivery.
\<close>

theorem send_to_full_client:
  assumes "socket_inv s" "map_of (sm_clients s) (cl_ID (sm_heap s r)) = Some r"
    and "outbound ev d = Some msg" "\<not> cl_Closed (sm_heap s r)" "length (cl_Send (sm_heap s r)) = send_capacity"
  shows "\<exists>s'. SendEvent r ev d s = (Ok (), s') \<and> sm_heap s' = sm_heap s
    \<and> map_of (sm_clients s') (cl_ID (sm_heap s r)) = None"
proof -
  from Unregister_registered [OF assms(1,2)] obtain s' where "Unregister r s = (Ok (), s')"
    "map_of (sm_clients s') = (map_of (sm_clients s))(cl_ID (sm_heap s r) := None)"
    "sm_heap s' = sm_heap s" by metis
  with assms(3-5) show ?thesis by (simp add: SendEvent_def)
qed

text \<open>A user with three connections, the first of which does not drain its buffer.\<close>

definition demo_full :: "string socket_manager" where
  "demo_full = (let s = sm_step Suc (OConnect (Inr ''u'') True ''c2'' 2)
       (sm_step Suc (OConnect (Inr ''u'') True ''c1'' 1)
         (sm_step Suc (OConnect (Inr ''u'') True ''c0'' 0) new_socket_manager))
     in s\<lparr>sm_heap := (sm_heap s)(0 := (sm_heap s 0)\<lparr>cl_Send := replicate 256 (Raw [])\<rparr>)\<rparr>)"

lemma demo_full_inv: "socket_inv demo_full"
proof -
  have "reach (sm_step Suc) sm_pre new_socket_manager (sm_step Suc (OConnect (Inr ''u'') True ''c2'' 2)
       (sm_step Suc (OConnect (Inr ''u'') True ''c1'' 1)
         (sm_step Suc (OConnect (Inr ''u'') True ''c0'' 0) (new_socket_manager :: string socket_manager))))"
    by (rule reach_step reach_init | simp add: socket_eval)+
  from socket.reachable_inv [OF this new_socket_manager_inv] show ?thesis
    by (simp add: demo_full_def Let_def buffer_inv)
qed

theorem send_to_full_client_witness:
  "\<exists>s'. SendEvent 0 ''tick'' VNil demo_full = (Ok (), s') \<and> sm_heap s' = sm_heap demo_full
    \<and> map_of (sm_clients s') ''c0'' = None"
proof -
  have "map_of (sm_clients demo_full) (cl_ID (sm_heap demo_full 0)) = Some 0"
    "\<not> cl_Closed (sm_heap demo_full 0)" "length (cl_Send (sm_heap demo_full 0)) = send_capacity"
    "cl_ID (sm_heap demo_full 0) = ''c0''"
    by (simp_all add: demo_full_def socket_eval)
  with send_to_full_client [OF demo_full_inv this(1), of "''tick''" VNil] show ?thesis
    by (simp add: outbound_def)
qed

text \<open>
  When the first of a user's three clients has a full buffer, the event skips the second client
  and reaches the third one twice: unregistering the first shifts the slice the loop is ranging over.
\<close>

theorem emit_to_user_skips:
  assumes "socket_inv s" "GetUserClientIDs u s = [f, y, z]" "u \<noteq> []" "outbound ev d = Some msg"
    and "map_of (sm_clients s) f = Some rf" "\<not> cl_Closed (sm_heap s rf)"
    and "length (cl_Send (sm_heap s rf)) = send_capacity"
    and "map_of (sm_clients s) y = Some ry" "map_of (sm_clients s) z = Some rz"
    and "\<not> cl_Closed (sm_heap s rz)" "length (cl_Send (sm_heap s rz)) < send_capacity - 1"
  shows "\<exists>s'. EmitToUser u ev d s = (Ok (), s') \<and> cl_Send (sm_heap s' ry) = cl_Send (sm_heap s ry)
    \<and> cl_Send (sm_heap s' rz) = cl_Send (sm_heap s rz) @ [msg, msg]"
proof -
  obtain a n where sl: "map_of (sm_registry s) u = Some (a, n)"
    using assms(2) by (auto simp: GetUserClientIDs_def split: option.splits)
  from assms(1) have re: "registry_ok s" by (simp add: socket_inv_def)
  note ok = registry_okD [OF re sl]
  from ok have n: "n \<le> length (sm_arrays s a)" "take n (sm_arrays s a) = [f, y, z]"
    using assms(2) sl by (simp_all add: slice_ok_def slice_elems_def GetUserClientIDs_def)
  then have n3: "n = 3" by (metis length_Cons length_take list.size(3) min.absorb2 numeral_3_eq_3)
  with n obtain rest where arr: "sm_arrays s a = f # y # z # rest"
    by (metis append_Cons append_Nil append_take_drop_id)
  have "f \<in> {i. \<exists>r. map_of (sm_clients s) i = Some r \<and> cl_UserID (sm_heap s r) = u}"
    using user_queries [OF assms(1,3)] unfolding assms(2) by auto
  with assms(5) have user: "cl_UserID (sm_heap s rf) = u" by simp
  have idf: "cl_ID (sm_heap s rf) = f" by (rule registered_ID [OF assms(1,5)])
  have fyz: "f \<noteq> z" "y \<noteq> z" using ok n by (auto simp: slice_ok_def slice_elems_def)
  have rz: "rz \<noteq> ry" using registered_ID [OF assms(1,8)] registered_ID [OF assms(1,9)] fyz by auto
  have full: "map_of (sm_clients s) (cl_ID (sm_heap s rf)) = Some rf" using assms(5) by (simp add: idf)
  obtain s1 where s1: "Unregister rf s = (Ok (), s1)"
    "map_of (sm_clients s1) = (map_of (sm_clients s))(f := None)" "sm_heap s1 = sm_heap s"
    using Unregister_registered [OF assms(1) full] unfolding idf by metis
  have "sm_arrays (snd (Unregister rf s)) a = y # z # z # rest"
    using assms(3,5) by (simp add: Unregister_def Let_def idf user drop_from_registry_def sl slice_elems_def
        arr n3 remove_slice_def numeral_3_eq_3)
  with s1(1) have arr1: "sm_arrays s1 a = y # z # z # rest" by simp
  have send0: "send_to_id ev d f (Ok (), s) = Inr (Ok (), s1)"
    using assms(4-7) s1(1) by (simp add: send_to_id_def SendEvent_def Let_def)
  have z1: "map_of (sm_clients s1) z = Some rz" using s1(2) assms(9) fyz by simp
  have p1: "ptr s1 z = rz" by (simp add: ptr_def z1)
  have send1: "send_to_id ev d z (Ok (), s1) = Inr (Ok (), push_msg msg rz s1)"
    using send_to_id_sendable [OF _ assms(4), of s1 z "Ok ()"] z1 assms(10,11)
    by (simp add: sendable_def s1(3) p1)
  have "sendable (push_msg msg rz s1) z" using z1 assms(10,11) by (simp add: sendable_def s1(3))
  from send_to_id_sendable [OF this assms(4), of "Ok ()"]
  have send2: "send_to_id ev d z (Ok (), push_msg msg rz s1) = Inr (Ok (), push_msg msg rz (push_msg msg rz s1))"
    by (simp add: p1)
  have "[0..<n] = [0, 1, 2]" by (simp add: n3 upt_rec)
  with send0 send1 send2 arr arr1 have
    "EmitToUser u ev d s = (Ok (), push_msg msg rz (push_msg msg rz s1))"
    by (simp add: EmitToUser_def sl n3 flat_sum_def)
  with s1(3) rz show ?thesis by simp
qed

theorem emit_to_user_skips_witness:
  "\<exists>s'. EmitToUser ''u'' ''tick'' VNil demo_full = (Ok (), s')
    \<and> cl_Send (sm_heap s' 1) = cl_Send (sm_heap demo_full 1)
    \<and> cl_Send (sm_heap s' 2) = cl_Send (sm_heap demo_full 2)
        @ replicate 2 (Enc (JObj [(''event'', JStr ''tick''), (''data'', JNull)]))"
proof -
  have ev: "GetUserClientIDs ''u'' demo_full = [''c0'', ''c1'', ''c2'']"
    "map_of (sm_clients demo_full) ''c0'' = Some 0" "map_of (sm_clients demo_full) ''c1'' = Some 1"
    "map_of (sm_clients demo_full) ''c2'' = Some 2" "\<not> cl_Closed (sm_heap demo_full 0)"
    "length (cl_Send (sm_heap demo_full 0)) = send_capacity" "\<not> cl_Closed (sm_heap demo_full 2)"
    "length (cl_Send (sm_heap demo_full 2)) < send_capacity - 1"
    "outbound ''tick'' VNil = Some (Enc (JObj [(''event'', JStr ''tick''), (''data'', JNull)]))"
    by (simp_all add: demo_full_def socket_eval)
  from emit_to_user_skips [OF demo_full_inv ev(1) _ ev(9,2,5,6,3,4,7,8)] show ?thesis
    by (simp add: numeral_2_eq_2)
qed

text \<open>
  Removing an event handler has no effect: whatever handler is passed, the handlers of every event
  are the same afterwards, because the comparison is between the addresses of two variables.
\<close>

theorem remove_handler_no_effect:
  assumes "\<forall>hs. map_of (sm_handlers s) ev = Some hs \<longrightarrow> hs \<noteq> []"
  shows "map_of (sm_handlers (RemoveEventHandler ev h s)) = map_of (sm_handlers s)"
proof -
  have "find_index (\<lambda>x. same_variable x h) hs = None" for hs
    by (simp add: find_index_None same_variable_def)
  with assms show ?thesis
    by (auto simp: RemoveEventHandler_def AList.update_conv' split: option.split)
qed

theorem remove_handler_no_effect_witness:
  "map_of (sm_handlers (RemoveEventHandler ''e'' ''h'' (AddEventHandler ''e'' ''h'' new_socket_manager)))
     = [''e'' \<mapsto> [''h'']]"
  using remove_handler_no_effect [of "AddEventHandler ''e'' ''h'' new_socket_manager" "''e''" "''h''"]
  by (simp add: AddEventHandler_def new_socket_manager_def)

end
