(* ===== verification/Spec2Isabelle.thy ===== *)
theory Spec2Isabelle
  imports AccountJobs HandlerProperties QueueHandlers ProviderProperties AnkrUrls ChangeNowRates OrderStore EvmChains EvmDeposits Registration SolanaProperties QueueManager SocketProperties
begin

text \<open>
  This development verifies the Go server of the repository: a process that watches blockchains,
  keeps wallets, accounts and orders in MongoDB, coordinates its work through queues in Redis, and
  tells browser clients and a Node.js server what it finds.

  \<^bold>\<open>The program.\<close> Block monitors (\<open>managers/workers\<close>) poll the nodes of EVM chains, Bitcoin, Tron and
  Solana, remember in a Redis cache (\<open>managers/cache\<close>) how far they got, and publish an event per block
  (\<open>managers/events\<close>). Jobs reach them through queues (\<open>managers/queue\<close>, \<open>src/services/queue_service.go\<close>),
  to which \<open>register_workers.go\<close> binds them. Account workers (\<open>internal/worker/btc\<close>, \<open>trx\<close>, \<open>sol\<close>) keep
  balances and histories of accounts; the EVM worker (\<open>internal/worker/evm\<close>) finds the deposits that
  orders wait for, and the ChangeNow worker follows orders that are filled through an exchange. The
  use cases (\<open>src/usecases\<close>) create and change wallets, accounts and orders through repositories and
  adapters (\<open>config/mongodb/repositories.go\<close>, \<open>src/adapters\<close>). The socket manager (\<open>managers/socket\<close>)
  delivers messages to the clients of users and rooms.

  \<^bold>\<open>How it is modelled.\<close> A component is a record of its state or of what it was created with, a Go
  function a HOL function of the same name (with the component's prefix where names clash) from its
  arguments and the state of the world to a result and the new state. \<open>'a res\<close> is a value, an error or
  a panic; an error keeps its texts and what it wraps (\<open>goerr\<close>). Integers of a fixed width are words or
  integers with their range written out, \<open>float64\<close> is a rational with correct rounding (\<open>Floats\<close>),
  strings are lists of bytes, \<open>interface\{\}\<close> is \<open>gval\<close>, JSON texts are trees. Loops are structural
  recursion; loops that may not end are \<open>partial_function (option)\<close> (the counting loop of the monitors, the
  import of accounts) and their theorems prove that they return. Nothing is bounded by fuel.
  Third-party code is a parameter: the Redis client, the MongoDB driver, HTTP transports, the Ethereum
  client, the clock, fresh identifiers, the text of JSON values. What is relied on of them is named:
  \<open>redis_ok\<close>, \<open>mongo_ok\<close>, \<open>db_ok\<close>, \<open>queue_env_ok\<close> (they do what Redis and MongoDB document),
  \<open>http_indep\<close> and \<open>rq_indep\<close> (an HTTP request does not change the database), \<open>http_serves\<close> (a service
  answers by the request); instances that satisfy them are \<open>mem_redis\<close>, \<open>mem_mongo\<close> and the \<open>demo\<close>
  services of the witnesses.

  \<^bold>\<open>The theories.\<close>
  \<^item> Language and services: \<open>Prelude\<close> (errors, outcomes, the counting loop, reachability), \<open>GoStrings\<close>,
    \<open>Floats\<close>, \<open>GoValue\<close>, \<open>Times\<close> (RFC 3339), \<open>HttpClient\<close>, \<open>RequestManager\<close>
    (\<open>managers/http\<close>), \<open>Redis\<close>, \<open>Mongo\<close>, \<open>Documents\<close> and \<open>Models\<close> (\<open>models/models.go\<close>, \<open>src/types\<close>).
  \<^item> \<open>CacheManager\<close>, \<open>EventManager\<close>, \<open>QueueManager\<close>: the managers. The queue is refined to its five lists
    of job identifiers; the cache is the locale \<open>cache_iface\<close>, which its clients rely on.
  \<^item> \<open>BlockMonitors\<close>, \<open>EvmMonitor\<close>, \<open>BtcMonitor\<close>, \<open>TronMonitor\<close>, \<open>SolanaMonitor\<close>, \<open>SolanaProperties\<close>: the
    monitors. A run of jobs publishes every block once and in order; jobs return; what is lost at a
    deadline. \<open>Registration\<close>: registering the monitors in any order, starting them.
  \<^item> \<open>SocketManager\<close>, \<open>SocketInvariant\<close>, \<open>SocketProperties\<close>: clients as objects on a heap, the invariant of
    registry, rooms and users over all sequences of operations, delivery.
  \<^item> \<open>AnkrClient\<close>, \<open>AnkrUrls\<close>, \<open>EvmProcessor\<close>, \<open>EvmWorker\<close>, \<open>EvmPending\<close>, \<open>EvmDeposits\<close>, \<open>EvmChains\<close>: the EVM
    worker. A block is one step of an abstract ledger of orders; the goroutines of the chains follow
    the pending orders (a step relation, by rule induction).
  \<^item> \<open>Repositories\<close>, \<open>WalletUseCase\<close>, \<open>AccountUseCase\<close>, \<open>AccountStore\<close>, \<open>OrderModel\<close>, \<open>OrderUseCase\<close>,
    \<open>OrderStore\<close>: the use cases over repositories and adapters. The locales \<open>account_store\<close> and \<open>order_store\<close> say what
    the use cases rely on of a repository; the adapters over MongoDB interpret them.
  \<^item> \<open>AccountWorkers\<close>, \<open>WorkerStore\<close>, \<open>BtcWorker\<close>, \<open>TrxWorker\<close>, \<open>SolWorker\<close>, \<open>SolAccounts\<close>, \<open>AccountJobs\<close>:
    the account workers and what their jobs may do to the database.
  \<^item> \<open>ChangeNowProvider\<close>, \<open>ChangeNowWorker\<close>, \<open>ChangeNowOrders\<close>, \<open>ChangeNowRates\<close>: the client of the exchange
    (\<open>providers/cex/changenow\<close>) and the worker (\<open>internal/worker/changenow\<close>). The state of an exchange as the
    service reports it decides what becomes of an order; any number of checks has the effect of one.
  \<^item> \<open>Portfolio\<close>, \<open>PortfolioProperties\<close>: what accounts are worth (\<open>src/usecases/portfolio_usecase.go\<close>,
    \<open>src/services/portfolio_service.go\<close>) and how long the cache hides a change.
  \<^item> \<open>HttpServer\<close>, \<open>WalletHandlers\<close>, \<open>HandlerProperties\<close>, \<open>QueueHandlers\<close>: the HTTP handlers and the services
    behind them. A handler maps a request to its reply, the new state and the goroutines it leaves.
  \<^item> \<open>Providers\<close>, \<open>BitcoinProvider\<close>, \<open>ProviderProperties\<close>: the factory of the providers of the chains, the
    blockchain service, and the Bitcoin provider (\<open>providers/blockchain\<close>).

  \<^bold>\<open>Limits.\<close> What the model leaves out: goroutines of a pool and of a scheduled worker run one after
  the other; operations under one mutex are single steps, whose interleavings are all sequences of
  steps. Iteration over a Go map takes the order of the list that models it. Logging, metrics and
  printing are left out, as are notifications sent in goroutines of their own (they read only) and
  pauses. JSON texts are trees, with members matched by their exact name. The sign of zero is not
  represented; hexadecimal float literals are not read. Deadlines are arguments where the code looks
  at them. Indexes (\<open>EnsureOptimalIndexes\<close>) only change speed.

  \<^bold>\<open>Not modelled.\<close> The routes of the HTTP server and the gRPC interface (code generated from protocol files
  that are not in the repository), the providers of the EVM chains, Solana, Tron and ChangeNow under
  \<open>providers/blockchain\<close>, the Node.js socket adapter, which wraps an external library, configuration and
  secrets, database connections, the logger, the programs' main functions, tests. The manifest lists
  them with their reasons.
\<close>

end
